(* ===== verification/Netplan_Prelude.thy ===== *)
theory Netplan_Prelude
  imports "HOL-Library.Word" "HOL-Library.Sublist" "HOL-Library.Char_ord" "HOL-Library.List_Lexorder"
begin

text \<open>
  Shared vocabulary of the development.

  A Rust \<open>String\<close> is the list of its UTF-8 bytes, so \<open>length s\<close> is \<open>s.len()\<close>.  What the
  program does with text is defined here on those bytes: ASCII classes and ASCII case folding,
  the split into Unicode scalar values, \<open>trim\<close>, \<open>split\<close>, decimal and hexadecimal output, and the
  \<open>Debug\<close> rendering of a string (the Unicode tables behind it are the record \<open>ucd\<close>, a parameter).
  A Rust \<open>Result<T, E>\<close> is a sum \<open>'e + 'a\<close>, \<open>Inl\<close> the error; \<open>?\<close> is \<open>bindR\<close>, a block of early
  returns is \<open>checks\<close>, and the \<open>for\<close> loops that stop at the first error are \<open>forR\<close> and \<open>for_pre\<close>.
\<close>

named_theorems ok_simps \<open>when a result-returning combinator succeeds\<close>
named_theorems text_simps \<open>facts about the text functions\<close>

section \<open>Results\<close>

type_synonym ('a, 'e) rresult = "'e + 'a"

fun bindR :: "'e + 'a \<Rightarrow> ('a \<Rightarrow> 'e + 'b) \<Rightarrow> 'e + 'b" where
  "bindR (Inl e) k = Inl e"
| "bindR (Inr a) k = k a"

fun mapR :: "('a \<Rightarrow> 'b) \<Rightarrow> 'e + 'a \<Rightarrow> 'e + 'b" where
  "mapR f (Inl e) = Inl e"
| "mapR f (Inr a) = Inr (f a)"

fun map_errR :: "('e \<Rightarrow> 'f) \<Rightarrow> 'e + 'a \<Rightarrow> 'f + 'a" where
  "map_errR f (Inl e) = Inl (f e)"
| "map_errR f (Inr a) = Inr a"

fun is_ok :: "'e + 'a \<Rightarrow> bool" where
  "is_ok (Inl e) = False"
| "is_ok (Inr a) = True"

fun ok_or :: "'a option \<Rightarrow> 'e \<Rightarrow> 'e + 'a" where
  "ok_or None e = Inl e"
| "ok_or (Some a) e = Inr a"

definition fail_if :: "bool \<Rightarrow> 'e \<Rightarrow> 'e + unit" where
  "fail_if b e = (if b then Inl e else Inr ())"

text \<open>The first error of a sequence of checks, each an early return.\<close>

fun checks :: "('e + unit) list \<Rightarrow> 'e + unit" where
  "checks [] = Inr ()"
| "checks (r # rs) = (case r of Inl e \<Rightarrow> Inl e | Inr _ \<Rightarrow> checks rs)"

definition forR :: "('a \<Rightarrow> 'e + unit) \<Rightarrow> 'a list \<Rightarrow> 'e + unit" where
  "forR f xs = checks (map f xs)"

text \<open>A loop over \<open>xs.iter().enumerate()\<close> whose body looks at \<open>xs[..index]\<close>.\<close>

fun for_pre :: "('a list \<Rightarrow> 'a \<Rightarrow> 'e + unit) \<Rightarrow> 'a list \<Rightarrow> 'a list \<Rightarrow> 'e + unit" where
  "for_pre f pre [] = Inr ()"
| "for_pre f pre (x # xs) = (case f pre x of Inl e \<Rightarrow> Inl e | Inr _ \<Rightarrow> for_pre f (pre @ [x]) xs)"

text \<open>\<open>iter.map(f).collect::<Result<Vec<_>>>()\<close>: stops at the first error.\<close>

fun traverseR :: "('a \<Rightarrow> 'e + 'b) \<Rightarrow> 'a list \<Rightarrow> 'e + 'b list" where
  "traverseR f [] = Inr []"
| "traverseR f (x # xs) = bindR (f x) (\<lambda>y. bindR (traverseR f xs) (\<lambda>ys. Inr (y # ys)))"

definition is_none_or :: "('a \<Rightarrow> bool) \<Rightarrow> 'a option \<Rightarrow> bool" where
  "is_none_or P m \<longleftrightarrow> (case m of None \<Rightarrow> True | Some a \<Rightarrow> P a)"

definition is_some_and :: "('a \<Rightarrow> bool) \<Rightarrow> 'a option \<Rightarrow> bool" where
  "is_some_and P m \<longleftrightarrow> (case m of None \<Rightarrow> False | Some a \<Rightarrow> P a)"

fun if_some :: "'a option \<Rightarrow> ('a \<Rightarrow> 'e + unit) \<Rightarrow> 'e + unit" where
  "if_some None f = Inr ()"
| "if_some (Some a) f = f a"

lemma bindR_ok [ok_simps]: "bindR m k = Inr b \<longleftrightarrow> (\<exists>a. m = Inr a \<and> k a = Inr b)"
  by (cases m) auto

lemma bindR_err: "bindR m k = Inl e \<longleftrightarrow> m = Inl e \<or> (\<exists>a. m = Inr a \<and> k a = Inl e)"
  by (cases m) auto

lemma mapR_ok [ok_simps]: "mapR f m = Inr b \<longleftrightarrow> (\<exists>a. m = Inr a \<and> b = f a)"
  by (cases m) auto

lemma mapR_err [ok_simps]: "mapR f m = Inl e \<longleftrightarrow> m = Inl e"
  by (cases m) auto

lemma map_errR_ok [ok_simps]: "map_errR f m = Inr b \<longleftrightarrow> m = Inr b"
  by (cases m) auto

lemma ok_or_ok [ok_simps]: "ok_or m e = Inr a \<longleftrightarrow> m = Some a"
  by (cases m) auto

lemma is_ok_iff [ok_simps]: "is_ok m \<longleftrightarrow> (\<exists>a. m = Inr a)"
  by (cases m) auto

lemma fail_if_ok [ok_simps]: "fail_if b e = Inr u \<longleftrightarrow> \<not> b"
  by (simp add: fail_if_def)

lemma fail_if_err: "fail_if b e = Inl e' \<longleftrightarrow> b \<and> e' = e"
  by (auto simp: fail_if_def)

lemma checks_ok [ok_simps]: "checks rs = Inr u \<longleftrightarrow> (\<forall>r\<in>set rs. r = Inr ())"
  by (induction rs) (auto split: sum.splits)

lemma checks_err: "checks rs = Inl e \<Longrightarrow> Inl e \<in> set rs"
  by (induction rs) (auto split: sum.splits)

lemma forR_ok [ok_simps]: "forR f xs = Inr u \<longleftrightarrow> (\<forall>x\<in>set xs. f x = Inr ())"
  by (auto simp: forR_def ok_simps)

lemma forR_err: "forR f xs = Inl e \<Longrightarrow> \<exists>x\<in>set xs. f x = Inl e"
  unfolding forR_def by (drule checks_err) (auto simp: image_iff)

lemma forR_simps [simp]:
  "forR f [] = Inr ()"
  "forR f (x # xs) = (case f x of Inl e \<Rightarrow> Inl e | Inr _ \<Rightarrow> forR f xs)"
  by (simp_all add: forR_def split: sum.split)

lemma forR_append: "forR f (xs @ ys) = bindR (forR f xs) (\<lambda>_. forR f ys)"
  by (induction xs) (auto split: sum.splits)

lemma forR_first_err:
  "forR f xs = Inl e \<longleftrightarrow>
    (\<exists>ys x zs. xs = ys @ x # zs \<and> forR f ys = Inr () \<and> f x = Inl e)"
  (is "?l \<longleftrightarrow> ?r")
proof
  show ?l if ?r using that by (auto simp: forR_append)
  show ?r if ?l using that
  proof (induction xs)
    case Nil
    then show ?case by simp
  next
    case (Cons a xs)
    show ?case
    proof (cases "f a")
      case (Inl e')
      then show ?thesis using Cons.prems by (intro exI[of _ "[]"]) auto
    next
      case (Inr u)
      then obtain ys x zs where "xs = ys @ x # zs" "forR f ys = Inr ()" "f x = Inl e"
        using Cons by auto
      then show ?thesis using Inr by (intro exI[of _ "a # ys"]) auto
    qed
  qed
qed

lemma for_pre_ok [ok_simps]:
  "for_pre f pre xs = Inr u \<longleftrightarrow> (\<forall>i<length xs. f (pre @ take i xs) (xs ! i) = Inr ())"
proof (induction xs arbitrary: pre)
  case Nil
  then show ?case by simp
next
  case (Cons x xs)
  have "(\<forall>i<length (x # xs). f (pre @ take i (x # xs)) ((x # xs) ! i) = Inr ()) \<longleftrightarrow>
      f pre x = Inr () \<and> (\<forall>i<length xs. f ((pre @ [x]) @ take i xs) (xs ! i) = Inr ())"
    by (simp only: length_Cons All_less_Suc2) simp
  then show ?case using Cons by (auto split: sum.splits)
qed

lemma for_pre_err:
  "for_pre f pre xs = Inl e \<Longrightarrow> \<exists>i<length xs. f (pre @ take i xs) (xs ! i) = Inl e"
proof (induction xs arbitrary: pre)
  case Nil
  then show ?case by simp
next
  case (Cons x xs)
  show ?case
  proof (cases "f pre x")
    case (Inl e')
    then show ?thesis using Cons.prems by (intro exI[of _ 0]) simp
  next
    case (Inr u)
    then have "for_pre f (pre @ [x]) xs = Inl e" using Cons.prems by simp
    from Cons.IH[OF this] obtain i where "i < length xs" "f ((pre @ [x]) @ take i xs) (xs ! i) = Inl e"
      by auto
    then show ?thesis by (intro exI[of _ "Suc i"]) simp
  qed
qed

lemma traverseR_ok [ok_simps]: "traverseR f xs = Inr ys \<longleftrightarrow> map f xs = map Inr ys"
  by (induction xs arbitrary: ys) (auto simp: bindR_ok Cons_eq_map_conv)

lemma traverseR_length: "traverseR f xs = Inr ys \<Longrightarrow> length ys = length xs"
  by (metis traverseR_ok length_map)

lemma traverseR_roundtrip:
  "(\<And>x. x \<in> set xs \<Longrightarrow> g (f x) = Inr x) \<Longrightarrow> traverseR g (map f xs) = Inr xs"
  by (induction xs) auto

lemma if_some_ok [ok_simps]: "if_some m f = Inr u \<longleftrightarrow> (\<forall>a. m = Some a \<longrightarrow> f a = Inr ())"
  by (cases m) auto

text \<open>The pairwise form of a duplicate check made on each prefix.\<close>

lemma distinct_by_prefix:
  "(\<forall>i<length xs. g (xs ! i) \<notin> g ` set (take i xs)) \<longleftrightarrow> distinct (map g xs)"
proof (induction xs rule: rev_induct)
  case Nil
  then show ?case by simp
next
  case (snoc x xs)
  have "(\<forall>i<length (xs @ [x]). g ((xs @ [x]) ! i) \<notin> g ` set (take i (xs @ [x]))) \<longleftrightarrow>
      (\<forall>i<length xs. g (xs ! i) \<notin> g ` set (take i xs)) \<and> g x \<notin> g ` set xs"
    by (auto simp: less_Suc_eq nth_append)
  then show ?case using snoc by auto
qed

lemmas run_simps = checks.simps forR_simps for_pre.simps

declare checks.simps(2) [simp del] forR_simps(2) [simp del] for_pre.simps(2) [simp del]

section \<open>Bytes and ASCII classes\<close>

definition byte :: "char \<Rightarrow> nat" where
  "byte c = of_char c"

definition between :: "nat \<Rightarrow> nat \<Rightarrow> nat \<Rightarrow> bool" where
  "between lo hi n \<longleftrightarrow> lo \<le> n \<and> n \<le> hi"

definition is_ascii_digit :: "char \<Rightarrow> bool" where
  "is_ascii_digit c \<longleftrightarrow> between 48 57 (byte c)"

definition is_ascii_alphabetic :: "char \<Rightarrow> bool" where
  "is_ascii_alphabetic c \<longleftrightarrow> between 65 90 (byte c) \<or> between 97 122 (byte c)"

definition is_ascii_alphanumeric :: "char \<Rightarrow> bool" where
  "is_ascii_alphanumeric c \<longleftrightarrow> is_ascii_digit c \<or> is_ascii_alphabetic c"

definition is_ascii_hexdigit :: "char \<Rightarrow> bool" where
  "is_ascii_hexdigit c \<longleftrightarrow>
    is_ascii_digit c \<or> between 65 70 (byte c) \<or> between 97 102 (byte c)"

definition to_lower :: "char \<Rightarrow> char" where
  "to_lower c = (if between 65 90 (byte c) then char_of (byte c + 32) else c)"

definition to_upper :: "char \<Rightarrow> char" where
  "to_upper c = (if between 97 122 (byte c) then char_of (byte c - 32) else c)"

definition to_ascii_lowercase :: "string \<Rightarrow> string" where
  "to_ascii_lowercase s = map to_lower s"

definition eq_ignore_ascii_case :: "string \<Rightarrow> string \<Rightarrow> bool" where
  "eq_ignore_ascii_case s t \<longleftrightarrow> to_ascii_lowercase s = to_ascii_lowercase t"

definition contains_char :: "string \<Rightarrow> char \<Rightarrow> bool" where
  "contains_char s c \<longleftrightarrow> c \<in> set s"

definition contains_any :: "string \<Rightarrow> char list \<Rightarrow> bool" where
  "contains_any s cs \<longleftrightarrow> (\<exists>c\<in>set s. c \<in> set cs)"

abbreviation nul :: char where
  "nul \<equiv> CHR 0x00"

abbreviation backslash :: char where
  "backslash \<equiv> CHR 0x5C"

abbreviation dquote :: char where
  "dquote \<equiv> CHR 0x22"

definition starts_with :: "string \<Rightarrow> string \<Rightarrow> bool" where
  "starts_with p s \<longleftrightarrow> take (length p) s = p"

definition ends_with :: "string \<Rightarrow> string \<Rightarrow> bool" where
  "ends_with p s \<longleftrightarrow> starts_with (rev p) (rev s)"

lemma byte_less [simp]: "byte c < 256"
  using of_char_Char by (metis byte_def mod_less_divisor nat_of_char_less_256)

lemma char_of_byte [simp]: "char_of (byte c) = c"
  by (simp add: byte_def)

lemma byte_char_of: "n < 256 \<Longrightarrow> byte (char_of n) = n"
  by (simp add: byte_def of_char_mod_256)

lemma byte_inject [simp]: "byte c = byte d \<longleftrightarrow> c = d"
  by (metis char_of_byte)

lemma starts_with_prefix [text_simps]: "starts_with p s \<longleftrightarrow> prefix p s"
  by (metis append_eq_conv_conj append_take_drop_id prefix_def starts_with_def)

lemma ends_with_suffix [text_simps]: "ends_with p s \<longleftrightarrow> suffix p s"
  by (simp add: ends_with_def starts_with_prefix suffix_to_prefix)

lemma length_to_ascii_lowercase [simp]: "length (to_ascii_lowercase s) = length s"
  by (simp add: to_ascii_lowercase_def)

lemma eq_ignore_ascii_case_refl [simp]: "eq_ignore_ascii_case s s"
  by (simp add: eq_ignore_ascii_case_def)

lemma eq_ignore_ascii_case_sym: "eq_ignore_ascii_case s t \<longleftrightarrow> eq_ignore_ascii_case t s"
  by (auto simp: eq_ignore_ascii_case_def)

end
