(* ===== verification/Netplan_Text.thy ===== *)
theory Netplan_Text
  imports Netplan_Prelude
begin

text \<open>
  The text functions of Rust's standard library the program calls, on UTF-8 bytes: scalar values
  and \<open>trim\<close>, \<open>split\<close>, \<open>join\<close>, decimal and hexadecimal rendering, \<open>Debug\<close> of a string, the
  validity check of \<open>str::from_utf8\<close> and the replacement of \<open>String::from_utf8_lossy\<close>.
\<close>

section \<open>Scalar values\<close>

definition is_cont :: "char \<Rightarrow> bool" where
  "is_cont c \<longleftrightarrow> between 128 191 (byte c)"

text \<open>The scalar values of a UTF-8 string, each as its bytes.\<close>

function scalars :: "string \<Rightarrow> string list" where
  "scalars [] = []"
| "scalars (c # cs) = (c # takeWhile is_cont cs) # scalars (dropWhile is_cont cs)"
  by pat_completeness auto
termination by (relation "measure length") (auto simp: le_imp_less_Suc length_dropWhile_le)

lemma concat_scalars [simp]: "concat (scalars s) = s"
  by (induction s rule: scalars.induct) auto

lemma scalars_nonempty: "x \<in> set (scalars s) \<Longrightarrow> x \<noteq> []"
  by (induction s rule: scalars.induct) auto

text \<open>\<open>char::is_whitespace\<close>: the Unicode White\_Space property.\<close>

fun is_whitespace :: "string \<Rightarrow> bool" where
  "is_whitespace [a] = (between 9 13 (byte a) \<or> byte a = 32)"
| "is_whitespace [a, b] = (byte a = 0xC2 \<and> (byte b = 0x85 \<or> byte b = 0xA0))"
| "is_whitespace [a, b, c] =
    (byte a = 0xE1 \<and> byte b = 0x9A \<and> byte c = 0x80 \<or>
     byte a = 0xE2 \<and> byte b = 0x80 \<and>
       (between 0x80 0x8A (byte c) \<or> byte c = 0xA8 \<or> byte c = 0xA9 \<or> byte c = 0xAF) \<or>
     byte a = 0xE2 \<and> byte b = 0x81 \<and> byte c = 0x9F \<or>
     byte a = 0xE3 \<and> byte b = 0x80 \<and> byte c = 0x80)"
| "is_whitespace _ = False"

definition trim_start :: "string \<Rightarrow> string" where
  "trim_start s = concat (dropWhile is_whitespace (scalars s))"

definition trim :: "string \<Rightarrow> string" where
  "trim s = concat (rev (dropWhile is_whitespace (rev (dropWhile is_whitespace (scalars s)))))"

definition is_blank :: "string \<Rightarrow> bool" where
  "is_blank s \<longleftrightarrow> trim s = []"

definition trim_matches :: "char list \<Rightarrow> string \<Rightarrow> string" where
  "trim_matches cs s =
    rev (dropWhile (\<lambda>c. c \<in> set cs) (rev (dropWhile (\<lambda>c. c \<in> set cs) s)))"

lemma concat_Nil_nonempty: "(\<And>x. x \<in> set xs \<Longrightarrow> x \<noteq> []) \<Longrightarrow> concat xs = [] \<longleftrightarrow> xs = []"
  by (cases xs) auto

lemma dropWhile_all: "(\<forall>x\<in>set (dropWhile P xs). P x) \<longleftrightarrow> (\<forall>x\<in>set xs. P x)"
  by (induction xs) auto

lemma is_blank_iff [text_simps]: "is_blank s \<longleftrightarrow> (\<forall>x\<in>set (scalars s). is_whitespace x)"
proof -
  let ?t = "rev (dropWhile is_whitespace (rev (dropWhile is_whitespace (scalars s))))"
  have "x \<noteq> []" if "x \<in> set ?t" for x
    using that scalars_nonempty by (metis set_dropWhileD set_rev)
  then have "is_blank s \<longleftrightarrow> ?t = []"
    unfolding is_blank_def trim_def by (rule concat_Nil_nonempty)
  then show ?thesis by (simp add: dropWhile_eq_Nil_conv dropWhile_all)
qed

lemma is_blank_Nil [simp]: "is_blank []"
  by (simp add: is_blank_def trim_def)

section \<open>Split and join\<close>

fun split_on :: "char \<Rightarrow> string \<Rightarrow> string list" where
  "split_on c [] = [[]]"
| "split_on c (x # xs) =
    (if x = c then [] # split_on c xs
     else (case split_on c xs of [] \<Rightarrow> [[x]] | y # ys \<Rightarrow> (x # y) # ys))"

fun join_with :: "string \<Rightarrow> string list \<Rightarrow> string" where
  "join_with sep [] = []"
| "join_with sep [x] = x"
| "join_with sep (x # y # ys) = x @ sep @ join_with sep (y # ys)"

lemma split_on_nonempty [simp]: "split_on c s \<noteq> []"
  by (induction s) (auto split: list.splits)

lemma split_on_pieces: "p \<in> set (split_on c s) \<Longrightarrow> c \<notin> set p"
  by (induction s arbitrary: p) (auto split: list.splits if_splits)

lemma join_split_on [simp]: "join_with [c] (split_on c s) = s"
proof (induction s)
  case Nil
  then show ?case by simp
next
  case (Cons x xs)
  obtain y ys where "split_on c xs = y # ys" by (meson neq_Nil_conv split_on_nonempty)
  then show ?case using Cons by (cases ys) auto
qed

section \<open>Numbers\<close>

definition digit_char :: "nat \<Rightarrow> char" where
  "digit_char d = char_of (if d < 10 then 48 + d else 87 + d)"

definition digit_char_upper :: "nat \<Rightarrow> char" where
  "digit_char_upper d = char_of (if d < 10 then 48 + d else 55 + d)"

fun show_nat :: "nat \<Rightarrow> string" where
  "show_nat n = (if n < 10 then [digit_char n] else show_nat (n div 10) @ [digit_char (n mod 10)])"

declare show_nat.simps [simp del]

fun show_hex :: "nat \<Rightarrow> string" where
  "show_hex n = (if n < 16 then [digit_char n] else show_hex (n div 16) @ [digit_char (n mod 16)])"

declare show_hex.simps [simp del]

text \<open>\<open>{:02X}\<close> of a byte.\<close>

definition hex2_upper :: "nat \<Rightarrow> string" where
  "hex2_upper n = [digit_char_upper (n div 16), digit_char_upper (n mod 16)]"

fun hex_value :: "char \<Rightarrow> nat" where
  "hex_value c =
    (if between 48 57 (byte c) then byte c - 48
     else if between 65 70 (byte c) then byte c - 55 else byte c - 87)"

lemma digit_char_byte: "d < 10 \<Longrightarrow> byte (digit_char d) = 48 + d"
  by (simp add: digit_char_def byte_char_of)

lemma digit_char_inject: "d < 10 \<Longrightarrow> e < 10 \<Longrightarrow> digit_char d = digit_char e \<longleftrightarrow> d = e"
  by (metis add_left_cancel digit_char_byte)

lemma show_nat_nonempty [simp]: "show_nat n \<noteq> []"
  by (subst show_nat.simps) simp

lemma show_nat_digits: "c \<in> set (show_nat n) \<Longrightarrow> is_ascii_digit c"
proof (induction n rule: show_nat.induct)
  case (1 n)
  have "is_ascii_digit (digit_char d)" if "d < 10" for d
    using that by (simp add: is_ascii_digit_def between_def digit_char_byte)
  then show ?case using 1 show_nat.simps[of n] by (cases "n < 10") auto
qed

lemma show_nat_inject [simp]: "show_nat m = show_nat n \<longleftrightarrow> m = n"
proof
  show "show_nat m = show_nat n \<Longrightarrow> m = n"
  proof (induction m arbitrary: n rule: show_nat.induct)
    case (1 m)
    show ?case
    proof (cases "m < 10 \<or> n < 10")
      case True
      then show ?thesis
        using 1(2) show_nat.simps[of m] show_nat.simps[of n] show_nat_nonempty[symmetric]
        by (cases "m < 10"; cases "n < 10") (auto simp: digit_char_inject)
    next
      case False
      then have "show_nat (m div 10) = show_nat (n div 10)" "m mod 10 = n mod 10"
        using 1(2) show_nat.simps[of m] show_nat.simps[of n] by (simp_all add: digit_char_inject)
      then have "m div 10 = n div 10" using 1(1) False by simp
      then show ?thesis using \<open>m mod 10 = n mod 10\<close> by (metis div_mult_mod_eq)
    qed
  qed
qed simp

section \<open>Unicode tables, Debug and case\<close>

text \<open>The Unicode tables of the standard library, on one multi-byte scalar value.\<close>

record ucd =
  ucd_debug :: "string \<Rightarrow> string"
  ucd_upper :: "string \<Rightarrow> string"
  ucd_lower :: "string list \<Rightarrow> string \<Rightarrow> string list \<Rightarrow> string"

text \<open>\<open>char::escape_debug\<close> inside a \<open>str\<close>, where the single quote is left as it is.\<close>

definition debug_ascii :: "char \<Rightarrow> string" where
  "debug_ascii c =
    (if byte c = 0 then [backslash, CHR ''0'']
     else if byte c = 9 then [backslash, CHR ''t'']
     else if byte c = 10 then [backslash, CHR ''n'']
     else if byte c = 13 then [backslash, CHR ''r'']
     else if c = dquote \<or> c = backslash then [backslash, c]
     else if between 32 126 (byte c) then [c]
     else backslash # ''u{'' @ show_hex (byte c) @ ''}'')"

fun debug_scalar :: "ucd \<Rightarrow> string \<Rightarrow> string" where
  "debug_scalar U [c] = (if byte c < 128 then debug_ascii c else ucd_debug U [c])"
| "debug_scalar U x = ucd_debug U x"

definition debug_str :: "ucd \<Rightarrow> string \<Rightarrow> string" where
  "debug_str U s = dquote # concat (map (debug_scalar U) (scalars s)) @ [dquote]"

text \<open>The derived \<open>Debug\<close> of an option.\<close>

fun debug_option :: "('a \<Rightarrow> string) \<Rightarrow> 'a option \<Rightarrow> string" where
  "debug_option f None = ''None''"
| "debug_option f (Some a) = ''Some('' @ f a @ '')''"

fun upper_scalar :: "ucd \<Rightarrow> string \<Rightarrow> string" where
  "upper_scalar U [c] = (if byte c < 128 then [to_upper c] else ucd_upper U [c])"
| "upper_scalar U x = ucd_upper U x"

text \<open>
  \<open>str::to_lowercase\<close>: the table of a multi-byte scalar value sees its context (the final sigma).
\<close>

fun lower_from :: "ucd \<Rightarrow> string list \<Rightarrow> string list \<Rightarrow> string" where
  "lower_from U before [] = []"
| "lower_from U before (x # after) =
    (case x of
       [c] \<Rightarrow> if byte c < 128 then [to_lower c] else ucd_lower U before x after
     | _ \<Rightarrow> ucd_lower U before x after) @ lower_from U (before @ [x]) after"

definition str_lower :: "ucd \<Rightarrow> string \<Rightarrow> string" where
  "str_lower U s = lower_from U [] (scalars s)"

text \<open>\<open>str::contains\<close> of another string.\<close>

fun contains_str :: "string \<Rightarrow> string \<Rightarrow> bool" where
  "contains_str p [] = (p = [])"
| "contains_str p (c # cs) = (starts_with p (c # cs) \<or> contains_str p cs)"

lemma contains_str_iff [text_simps]: "contains_str p s \<longleftrightarrow> (\<exists>a b. s = a @ p @ b)"
proof (induction s)
  case Nil
  then show ?case by simp
next
  case (Cons c cs)
  have "(\<exists>a b. c # cs = a @ p @ b) \<longleftrightarrow> (\<exists>b. c # cs = p @ b) \<or> (\<exists>a b. cs = a @ p @ b)"
    by (metis append_Cons append_Nil list.inject neq_Nil_conv)
  then show ?case using Cons by (simp add: starts_with_prefix prefix_def)
qed

section \<open>UTF-8 validity\<close>

text \<open>
  One step of \<open>run_utf8_validation\<close> on a non-empty input: \<open>Inr w\<close> a valid sequence of \<open>w\<close> bytes,
  \<open>Inl error_len\<close> otherwise (\<open>None\<close> when the input ends inside a sequence).
\<close>

fun cont_from :: "nat \<Rightarrow> nat \<Rightarrow> string \<Rightarrow> nat option + nat" where
  "cont_from seen 0 cs = Inr seen"
| "cont_from seen (Suc n) [] = Inl None"
| "cont_from seen (Suc n) (c # cs) =
    (if is_cont c then cont_from (Suc seen) n cs else Inl (Some seen))"

definition second_ok :: "nat \<Rightarrow> nat \<Rightarrow> bool" where
  "second_ok a b =
    (if a = 0xE0 then between 0xA0 0xBF b
     else if a = 0xED then between 0x80 0x9F b
     else if a = 0xF0 then between 0x90 0xBF b
     else if a = 0xF4 then between 0x80 0x8F b
     else between 0x80 0xBF b)"

definition utf8_width :: "nat \<Rightarrow> nat" where
  "utf8_width a =
    (if a < 128 then 1 else if between 0xC2 0xDF a then 2
     else if between 0xE0 0xEF a then 3 else if between 0xF0 0xF4 a then 4 else 0)"

definition utf8_next :: "char \<Rightarrow> string \<Rightarrow> nat option + nat" where
  "utf8_next c cs =
    (let w = utf8_width (byte c) in
     if w = 0 then Inl (Some 1)
     else if w = 1 then Inr 1
     else (case cs of
        [] \<Rightarrow> Inl None
      | d # ds \<Rightarrow> if second_ok (byte c) (byte d) then cont_from 2 (w - 2) ds else Inl (Some 1)))"

function utf8_error :: "nat \<Rightarrow> string \<Rightarrow> (nat \<times> nat option) option" where
  "utf8_error i [] = None"
| "utf8_error i (c # cs) =
    (case utf8_next c cs of
       Inr w \<Rightarrow> utf8_error (i + w) (drop (w - 1) cs)
     | Inl e \<Rightarrow> Some (i, e))"
  by pat_completeness auto
termination by (relation "measure (\<lambda>(i, s). length s)") auto

definition utf8_ok :: "string \<Rightarrow> bool" where
  "utf8_ok s \<longleftrightarrow> utf8_error 0 s = None"

text \<open>The \<open>Display\<close> of \<open>Utf8Error\<close>.\<close>

fun utf8_error_text :: "nat \<times> nat option \<Rightarrow> string" where
  "utf8_error_text (i, Some n) =
    ''invalid utf-8 sequence of '' @ show_nat n @ '' bytes from index '' @ show_nat i"
| "utf8_error_text (i, None) = ''incomplete utf-8 byte sequence from index '' @ show_nat i"

text \<open>\<open>String::from_utf8_lossy\<close>: each invalid sequence becomes U+FFFD.\<close>

definition replacement_char :: string where
  "replacement_char = [CHR 0xEF, CHR 0xBF, CHR 0xBD]"

function utf8_lossy :: "string \<Rightarrow> string" where
  "utf8_lossy [] = []"
| "utf8_lossy (c # cs) =
    (case utf8_next c cs of
       Inr w \<Rightarrow> c # take (w - 1) cs @ utf8_lossy (drop (w - 1) cs)
     | Inl None \<Rightarrow> replacement_char
     | Inl (Some n) \<Rightarrow> replacement_char @ utf8_lossy (drop (n - 1) cs))"
  by pat_completeness auto
termination by (relation "measure length") auto

lemma utf8_error_shift: "utf8_error i s = None \<longleftrightarrow> utf8_error j s = None"
proof (induction i s arbitrary: j rule: utf8_error.induct)
  case (1 i)
  show ?case by simp
next
  case (2 i c cs)
  show ?case
  proof (cases "utf8_next c cs")
    case (Inr w)
    then show ?thesis using 2[OF Inr, of "j + w"] by simp
  qed simp
qed

lemma utf8_ok_Nil [simp]: "utf8_ok []"
  by (simp add: utf8_ok_def)

lemma utf8_ok_Cons:
  "utf8_ok (c # cs) \<longleftrightarrow> (\<exists>w. utf8_next c cs = Inr w \<and> utf8_ok (drop (w - 1) cs))"
proof (cases "utf8_next c cs")
  case (Inr w)
  then show ?thesis
    using utf8_error_shift[of w "drop (w - 1) cs" 0] by (simp add: utf8_ok_def)
qed (simp add: utf8_ok_def)

lemma utf8_ok_ascii: "\<forall>c\<in>set s. byte c < 128 \<Longrightarrow> utf8_ok s"
  by (induction s) (auto simp: utf8_ok_Cons utf8_next_def utf8_width_def Let_def)

lemma utf8_lossy_ok: "utf8_ok s \<Longrightarrow> utf8_lossy s = s"
proof (induction s rule: utf8_lossy.induct)
  case (2 c cs)
  then obtain w where "utf8_next c cs = Inr w" "utf8_ok (drop (w - 1) cs)"
    by (auto simp: utf8_ok_Cons)
  then show ?case using 2 by simp
qed simp

end
