(* ===== verification/Model.thy ===== *)
theory Model
  imports Netplan_Text
begin

text \<open>
  The response models of \<open>crates/netplan/src/model.rs\<close> and the SDK error of
  \<open>crates/netplan/src/error.rs\<close>, with the \<open>Display\<close> text its \<open>thiserror\<close> attributes give.
\<close>

section \<open>model.rs\<close>

datatype capability_state = Unavailable | ReadOnly | DryRun | Available

record capability =
  cap_name :: string
  cap_state :: capability_state
  cap_reason :: "string option"

record ip_address_info =
  ip_address :: string
  ip_prefix_length :: "8 word"

record adapter_info =
  ai_if_index :: "32 word"
  ai_name :: string
  ai_description :: "string option"
  ai_guid :: "string option"
  ai_mac_address :: "string option"
  ai_status :: string
  ai_hardware :: bool
  ai_ipv4 :: "ip_address_info list"
  ai_ipv6 :: "ip_address_info list"

record wifi_interface_status =
  wi_if_index :: "32 word"
  wi_name :: string
  wi_guid :: "string option"
  wi_state :: string
  wi_profile_name :: "string option"
  wi_ssid :: "string option"
  wi_ssid_hex :: "string option"
  wi_signal_quality :: "8 word option"
  wi_security_enabled :: "bool option"
  wi_authentication :: "string option"
  wi_cipher :: "string option"
  wi_rx_rate_kbps :: "32 word option"
  wi_tx_rate_kbps :: "32 word option"

record wifi_network =
  wn_interface_if_index :: "32 word"
  wn_interface_name :: string
  wn_ssid :: string
  wn_ssid_hex :: string
  wn_profile_name :: "string option"
  wn_signal_quality :: "8 word"
  wn_security_enabled :: bool
  wn_authentication :: string
  wn_cipher :: string
  wn_connectable :: bool
  wn_not_connectable_reason :: "32 word option"
  wn_connected :: bool
  wn_bss_count :: "32 word"

section \<open>error.rs\<close>

datatype io_kind = NotFound | ConnectionRefused | ConnectionReset | TimedOut | Interrupted | UnexpectedEof
  | InvalidInputKind | InvalidDataKind | PermissionDeniedKind | UnsupportedKind
  | AlreadyExistsKind | OtherKind

datatype netplan_error =
    Decode string string
  | Validation string
  | Protocol string
  | Io io_kind string
  | Daemon string

text \<open>\<open>Error::to_string\<close>; an I/O error carries its kind and the text of \<open>std::io::Error\<close>.\<close>

fun error_text :: "netplan_error \<Rightarrow> string" where
  "error_text (Decode fmt message) = ''invalid '' @ fmt @ '' configuration: '' @ message"
| "error_text (Validation m) = ''configuration validation failed: '' @ m"
| "error_text (Protocol m) = ''invalid IPC frame: '' @ m"
| "error_text (Io k m) = ''IPC I/O failed: '' @ m"
| "error_text (Daemon m) = ''daemon error: '' @ m"

end
