(* ===== verification/Config.thy ===== *)
theory Config
  imports Model
begin

text \<open>
  The configuration document of \<open>crates/netplan/src/config.rs\<close>: one record or datatype per Rust
  type, with the defaults the \<open>serde\<close> attributes declare, and the redacting \<open>Debug\<close> of
  \<open>SecretRef\<close>.  The IP types of \<open>std::net\<close> are their octets and segments; an \<open>Ipv4Net\<close> of
  the \<open>ipnet\<close> crate is an address and a prefix length.
\<close>

section \<open>IP addresses\<close>

datatype ipv4_addr = Ipv4 "8 word" "8 word" "8 word" "8 word"

datatype ipv6_addr =
  Ipv6 "16 word" "16 word" "16 word" "16 word" "16 word" "16 word" "16 word" "16 word"

datatype ip_addr = V4 ipv4_addr | V6 ipv6_addr

type_synonym ipv4_net = "ipv4_addr \<times> 8 word"

fun ipv4_text :: "ipv4_addr \<Rightarrow> string" where
  "ipv4_text (Ipv4 a b c d) =
    join_with ''.'' [show_nat (unat a), show_nat (unat b), show_nat (unat c), show_nat (unat d)]"

definition ipv4_net_text :: "ipv4_net \<Rightarrow> string" where
  "ipv4_net_text n = ipv4_text (fst n) @ ''/'' @ show_nat (unat (snd n))"

fun ipv4_is_unspecified :: "ipv4_addr \<Rightarrow> bool" where
  "ipv4_is_unspecified (Ipv4 a b c d) = (a = 0 \<and> b = 0 \<and> c = 0 \<and> d = 0)"

fun ipv4_is_multicast :: "ipv4_addr \<Rightarrow> bool" where
  "ipv4_is_multicast (Ipv4 a b c d) = (224 \<le> unat a \<and> unat a \<le> 239)"

fun ipv4_is_broadcast :: "ipv4_addr \<Rightarrow> bool" where
  "ipv4_is_broadcast (Ipv4 a b c d) = (a = 255 \<and> b = 255 \<and> c = 255 \<and> d = 255)"

fun segments :: "ipv6_addr \<Rightarrow> 16 word list" where
  "segments (Ipv6 a b c d e f g h) = [a, b, c, d, e, f, g, h]"

fun ipv6_is_unspecified :: "ipv6_addr \<Rightarrow> bool" where
  "ipv6_is_unspecified s = list_all (\<lambda>w. w = 0) (segments s)"

fun ipv6_is_multicast :: "ipv6_addr \<Rightarrow> bool" where
  "ipv6_is_multicast (Ipv6 a b c d e f g h) = (unat a div 256 = 255)"

fun ip_is_unspecified :: "ip_addr \<Rightarrow> bool" where
  "ip_is_unspecified (V4 a) = ipv4_is_unspecified a"
| "ip_is_unspecified (V6 s) = ipv6_is_unspecified s"

fun ip_is_multicast :: "ip_addr \<Rightarrow> bool" where
  "ip_is_multicast (V4 a) = ipv4_is_multicast a"
| "ip_is_multicast (V6 s) = ipv6_is_multicast s"

text \<open>
  The \<open>Display\<close> of \<open>Ipv6Addr\<close>: an IPv4-mapped address ends in dotted decimal, and the first
  longest run of at least two zero segments is written \<open>::\<close>.  A run is (start, length); the
  scan carries the current and the longest run.
\<close>

fun zero_run :: "nat \<Rightarrow> nat \<times> nat \<Rightarrow> nat \<times> nat \<Rightarrow> 16 word list \<Rightarrow> nat \<times> nat" where
  "zero_run i cur best [] = best"
| "zero_run i cur best (w # ws) =
    (if w = 0 then
       (let cur' = (if snd cur = 0 then i else fst cur, snd cur + 1)
        in zero_run (i + 1) cur' (if snd cur' > snd best then cur' else best) ws)
     else zero_run (i + 1) (0, 0) best ws)"

definition hex_segments :: "16 word list \<Rightarrow> string" where
  "hex_segments ws = join_with '':'' (map (\<lambda>w. show_hex (unat w)) ws)"

fun ipv6_text :: "ipv6_addr \<Rightarrow> string" where
  "ipv6_text (Ipv6 a b c d e f g h) =
    (if a = 0 \<and> b = 0 \<and> c = 0 \<and> d = 0 \<and> e = 0 \<and> f = 0xFFFF then
       ''::ffff:'' @ join_with ''.'' (map show_nat
          [unat g div 256, unat g mod 256, unat h div 256, unat h mod 256])
     else
       (let ws = [a, b, c, d, e, f, g, h]; z = zero_run 0 (0, 0) (0, 0) ws in
        if snd z > 1 then hex_segments (take (fst z) ws) @ ''::'' @ hex_segments (drop (fst z + snd z) ws)
        else hex_segments ws))"

fun ip_text :: "ip_addr \<Rightarrow> string" where
  "ip_text (V4 a) = ipv4_text a"
| "ip_text (V6 s) = ipv6_text s"

section \<open>Document types\<close>

datatype config_format = Auto | Yaml | Json

record interface_selector =
  sel_if_index :: "32 word option"
  sel_name :: "string option"
  sel_guid :: "string option"
  sel_mac_address :: "string option"
  sel_description_contains :: "string option"

record protection_config =
  management_interfaces :: "interface_selector list"

record identity_config =
  computer_name :: "string option"
  workgroup :: "string option"
  dns_suffix :: "string option"

datatype ipv4_config =
    Dhcp bool
  | Static "ipv4_net list" "ipv4_addr list" "ip_addr list" "ipv4_addr list"

record adapter_config =
  ad_selector :: interface_selector
  ad_enabled :: "bool option"
  ad_mac_address :: "string option"
  ad_ipv4 :: "ipv4_config option"

datatype wifi_authentication = Open | Wpa2Personal | Wpa3Personal

datatype secret_ref = Env string | Literal string

record wifi_profile =
  wp_selector :: "interface_selector option"
  wp_name :: "string option"
  wp_ssid :: string
  wp_authentication :: wifi_authentication
  wp_psk :: "secret_ref option"
  wp_auto_connect :: bool
  wp_hidden :: bool

datatype wifi_action =
    Scan "interface_selector option"
  | Connect "interface_selector option" string
  | Disconnect "interface_selector option"

datatype smb_account_kind = Credential | Local

record smb_account =
  acc_id :: string
  acc_kind :: smb_account_kind
  acc_username :: string
  acc_password :: "secret_ref option"

record smb_share =
  sh_name :: string
  sh_path :: string
  sh_description :: "string option"
  sh_read_only :: bool
  sh_accounts :: "string list"

record smb_mapping =
  sm_remote :: string
  sm_local :: "string option"
  sm_account :: "string option"
  sm_username :: "string option"
  sm_password :: "secret_ref option"

record smb_config =
  smb_accounts :: "smb_account list"
  smb_shares :: "smb_share list"
  smb_mappings :: "smb_mapping list"

record firewall_config =
  fw_enabled :: bool

datatype service_state = Running | Stopped

record service_config =
  svc_name :: string
  svc_state :: service_state

datatype restart_policy = Never | IfRequired | Always

datatype driver_operation =
    Install string "string option" bool restart_policy
  | RestartAdapter interface_selector

datatype hook_stage = BeforeApply | AfterApply | AfterRollback

record hook_config =
  hk_stage :: hook_stage
  hk_program :: string
  hk_args :: "string list"
  hk_wait :: bool

record netplan_config =
  version :: "32 word"
  protect :: protection_config
  identity :: "identity_config option"
  adapters :: "adapter_config list"
  wifi :: "wifi_profile list"
  wifi_actions :: "wifi_action list"
  smb :: smb_config
  firewall :: "firewall_config option"
  services :: "service_config list"
  drivers :: "driver_operation list"
  hooks :: "hook_config list"

section \<open>Defaults and Debug\<close>

definition default_true :: bool where
  "default_true = True"

definition default_selector :: interface_selector where
  "default_selector = \<lparr>sel_if_index = None, sel_name = None, sel_guid = None,
     sel_mac_address = None, sel_description_contains = None\<rparr>"

definition default_smb :: smb_config where
  "default_smb = \<lparr>smb_accounts = [], smb_shares = [], smb_mappings = []\<rparr>"

text \<open>A document that declares only its version: every other field takes its \<open>serde\<close> default.\<close>

definition default_config :: netplan_config where
  "default_config = \<lparr>version = 1, protect = \<lparr>management_interfaces = []\<rparr>, identity = None,
     adapters = [], wifi = [], wifi_actions = [], smb = default_smb, firewall = None,
     services = [], drivers = [], hooks = []\<rparr>"

fun secret_debug :: "ucd \<Rightarrow> secret_ref \<Rightarrow> string" where
  "secret_debug U (Env name) = ''Env('' @ debug_str U name @ '')''"
| "secret_debug U (Literal v) = ''Literal([REDACTED])''"

text \<open>The value of a secret read from the document as its reader sees it, literals hidden.\<close>

fun redact :: "secret_ref \<Rightarrow> secret_ref" where
  "redact (Env name) = Env name"
| "redact (Literal v) = Literal []"

lemma secret_debug_redact: "secret_debug U (redact s) = secret_debug U s"
  by (cases s) simp_all

end
