(* ===== verification/Plan.thy ===== *)
theory Plan
  imports Config
begin

text \<open>
  The deterministic planner of \<open>crates/netplan/src/plan.rs\<close>.  \<open>build_plan\<close> pushes onto one vector;
  here each loop is the list it pushes and the plan their concatenation in the code's order.
\<close>

datatype operation_risk = RiskReadOnly | RiskLow | RiskConnectivity | RiskDestructive

record operation =
  op_id :: string
  op_capability :: string
  op_summary :: string
  op_risk :: operation_risk
  op_target :: "string option"

definition show_bool :: "bool \<Rightarrow> string" where
  "show_bool b = (if b then ''true'' else ''false'')"

definition debug_list :: "string list \<Rightarrow> string" where
  "debug_list xs = ''['' @ join_with '', '' xs @ '']''"

fun option_part :: "('a \<Rightarrow> string) \<Rightarrow> 'a option \<Rightarrow> string list" where
  "option_part f None = []"
| "option_part f (Some a) = [f a]"

definition selector_summary :: "ucd \<Rightarrow> interface_selector \<Rightarrow> string" where
  "selector_summary U s =
    join_with '', ''
     (option_part (\<lambda>i. ''if_index='' @ show_nat (unat i)) (sel_if_index s)
      @ option_part (\<lambda>n. ''name='' @ debug_str U n) (sel_name s)
      @ option_part (\<lambda>g. ''guid='' @ g) (sel_guid s)
      @ option_part (\<lambda>m. ''mac='' @ m) (sel_mac_address s)
      @ option_part (\<lambda>d. ''description~='' @ debug_str U d) (sel_description_contains s))"

fun stage_name :: "hook_stage \<Rightarrow> string" where
  "stage_name BeforeApply = ''before_apply''"
| "stage_name AfterApply = ''after_apply''"
| "stage_name AfterRollback = ''after_rollback''"

fun stage_debug :: "hook_stage \<Rightarrow> string" where
  "stage_debug BeforeApply = ''BeforeApply''"
| "stage_debug AfterApply = ''AfterApply''"
| "stage_debug AfterRollback = ''AfterRollback''"

definition hook_operation :: "ucd \<Rightarrow> hook_stage \<Rightarrow> nat \<times> hook_config \<Rightarrow> operation" where
  "hook_operation U stage = (\<lambda>(i, h).
    \<lparr>op_id = ''hook.'' @ show_nat i @ ''.'' @ stage_name stage,
     op_capability = ''hook.execute'',
     op_summary = ''Execute '' @ debug_str U (hk_program h) @ '' at '' @ stage_debug stage,
     op_risk = RiskDestructive, op_target = None\<rparr>)"

definition push_hooks :: "ucd \<Rightarrow> netplan_config \<Rightarrow> hook_stage \<Rightarrow> operation list" where
  "push_hooks U cfg stage =
    map (hook_operation U stage)
      (filter (\<lambda>(i, h). hk_stage h = stage) (List.enumerate 0 (hooks cfg)))"

definition identity_operation :: "string \<Rightarrow> string \<Rightarrow> operation" where
  "identity_operation field v =
    \<lparr>op_id = ''identity.'' @ field, op_capability = ''identity.'' @ field @ ''.apply'',
     op_summary = ''Set '' @ field @ '' to '' @ v, op_risk = RiskConnectivity, op_target = None\<rparr>"

definition identity_operations :: "netplan_config \<Rightarrow> operation list" where
  "identity_operations cfg =
    (case identity cfg of
       None \<Rightarrow> []
     | Some i \<Rightarrow>
         concat (map (\<lambda>(field, v). case v of None \<Rightarrow> [] | Some x \<Rightarrow> [identity_operation field x])
          [(''computer_name'', computer_name i), (''workgroup'', workgroup i),
           (''dns_suffix'', dns_suffix i)]))"

definition push_adapter_state :: "nat \<Rightarrow> bool \<Rightarrow> string \<Rightarrow> operation" where
  "push_adapter_state i enabled target =
    \<lparr>op_id = ''adapter.'' @ show_nat i @ ''.enabled'', op_capability = ''adapter.state.apply'',
     op_summary = (if enabled then ''Enable adapter'' else ''Disable adapter''),
     op_risk = RiskConnectivity, op_target = Some target\<rparr>"

fun ipv4_summary :: "ipv4_config \<Rightarrow> string" where
  "ipv4_summary (Dhcp d) =
    ''Configure IPv4 using DHCP (DNS from DHCP: '' @ show_bool d @ '')''"
| "ipv4_summary (Static addresses gateways dns wins) =
    ''Configure static IPv4 addresses '' @ debug_list (map ipv4_net_text addresses)
    @ '', gateways '' @ debug_list (map ipv4_text gateways)
    @ '', DNS '' @ debug_list (map ip_text dns)
    @ '', WINS '' @ debug_list (map ipv4_text wins)"

definition adapter_operations :: "ucd \<Rightarrow> nat \<times> adapter_config \<Rightarrow> operation list" where
  "adapter_operations U = (\<lambda>(i, a).
    (let target = selector_summary U (ad_selector a) in
     (if ad_enabled a = Some True then [push_adapter_state i True target] else [])
     @ (case ad_mac_address a of None \<Rightarrow> [] | Some mac \<Rightarrow>
          [\<lparr>op_id = ''adapter.'' @ show_nat i @ ''.mac'', op_capability = ''adapter.mac.apply'',
            op_summary = ''Set adapter MAC address to '' @ mac, op_risk = RiskConnectivity,
            op_target = Some target\<rparr>])
     @ (case ad_ipv4 a of None \<Rightarrow> [] | Some c \<Rightarrow>
          [\<lparr>op_id = ''adapter.'' @ show_nat i @ ''.ipv4'', op_capability = ''adapter.ipv4.apply'',
            op_summary = ipv4_summary c, op_risk = RiskConnectivity, op_target = Some target\<rparr>])
     @ (if ad_enabled a = Some False then [push_adapter_state i False target] else [])))"

definition wifi_profile_operation :: "ucd \<Rightarrow> nat \<times> wifi_profile \<Rightarrow> operation" where
  "wifi_profile_operation U = (\<lambda>(i, w).
    \<lparr>op_id = ''wifi.profile.'' @ show_nat i, op_capability = ''wifi.profile.apply'',
     op_summary = ''Install Wi-Fi profile ''
       @ debug_str U (case wp_name w of None \<Rightarrow> wp_ssid w | Some n \<Rightarrow> n)
       @ '' for SSID '' @ debug_str U (wp_ssid w),
     op_risk = RiskConnectivity, op_target = map_option (selector_summary U) (wp_selector w)\<rparr>)"

fun wifi_action_operation :: "ucd \<Rightarrow> nat \<times> wifi_action \<Rightarrow> operation" where
  "wifi_action_operation U (i, Scan s) =
    \<lparr>op_id = ''wifi.action.'' @ show_nat i @ ''.'' @ ''scan'', op_capability = ''wifi.scan'',
     op_summary = ''Scan for available Wi-Fi networks'', op_risk = RiskReadOnly,
     op_target = map_option (selector_summary U) s\<rparr>"
| "wifi_action_operation U (i, Connect s p) =
    \<lparr>op_id = ''wifi.action.'' @ show_nat i @ ''.'' @ ''connect'', op_capability = ''wifi.connect'',
     op_summary = ''Connect using Wi-Fi profile '' @ debug_str U p, op_risk = RiskConnectivity,
     op_target = map_option (selector_summary U) s\<rparr>"
| "wifi_action_operation U (i, Disconnect s) =
    \<lparr>op_id = ''wifi.action.'' @ show_nat i @ ''.'' @ ''disconnect'', op_capability = ''wifi.disconnect'',
     op_summary = ''Disconnect Wi-Fi interface'', op_risk = RiskConnectivity,
     op_target = map_option (selector_summary U) s\<rparr>"

definition service_operation :: "ucd \<Rightarrow> nat \<times> service_config \<Rightarrow> operation" where
  "service_operation U = (\<lambda>(i, s).
    \<lparr>op_id = ''service.'' @ show_nat i @ ''.state'', op_capability = ''service.apply'',
     op_summary = (case svc_state s of Running \<Rightarrow> ''Start'' | Stopped \<Rightarrow> ''Stop'')
       @ '' Windows service '' @ debug_str U (svc_name s),
     op_risk = RiskLow, op_target = Some (svc_name s)\<rparr>)"

definition smb_account_operation :: "ucd \<Rightarrow> nat \<times> smb_account \<Rightarrow> operation" where
  "smb_account_operation U = (\<lambda>(i, a).
    \<lparr>op_id = ''smb.account.'' @ show_nat i, op_capability = ''smb.account.apply'',
     op_summary = ''Ensure SMB account '' @ debug_str U (acc_id a) @ '' for user ''
       @ debug_str U (acc_username a),
     op_risk = RiskLow, op_target = Some (acc_id a)\<rparr>)"

definition smb_share_operation :: "ucd \<Rightarrow> nat \<times> smb_share \<Rightarrow> operation" where
  "smb_share_operation U = (\<lambda>(i, s).
    \<lparr>op_id = ''smb.share.'' @ show_nat i, op_capability = ''smb.share.apply'',
     op_summary = ''Share '' @ debug_str U (sh_path s) @ '' as '' @ debug_str U (sh_name s),
     op_risk = RiskLow, op_target = Some (sh_name s)\<rparr>)"

definition smb_mapping_operation :: "ucd \<Rightarrow> nat \<times> smb_mapping \<Rightarrow> operation" where
  "smb_mapping_operation U = (\<lambda>(i, m).
    \<lparr>op_id = ''smb.mapping.'' @ show_nat i, op_capability = ''smb.mapping.apply'',
     op_summary = ''Map SMB share '' @ debug_str U (sm_remote m),
     op_risk = RiskLow, op_target = sm_local m\<rparr>)"

definition firewall_operations :: "netplan_config \<Rightarrow> operation list" where
  "firewall_operations cfg =
    (case firewall cfg of
       None \<Rightarrow> []
     | Some fw \<Rightarrow>
         [\<lparr>op_id = ''firewall.enabled'', op_capability = ''firewall.apply'',
           op_summary = (if fw_enabled fw then ''Enable Windows firewall'' else ''Disable Windows firewall''),
           op_risk = RiskLow, op_target = None\<rparr>])"

fun restart_debug :: "restart_policy \<Rightarrow> string" where
  "restart_debug Never = ''Never''"
| "restart_debug IfRequired = ''IfRequired''"
| "restart_debug Always = ''Always''"

fun driver_operation_entry :: "ucd \<Rightarrow> nat \<times> driver_operation \<Rightarrow> operation" where
  "driver_operation_entry U (i, Install path hw force restart) =
    \<lparr>op_id = ''driver.'' @ show_nat i @ ''.'' @ ''install'',
     op_capability = (if force then ''driver.force_install'' else ''driver.install''),
     op_summary = ''Install driver INF '' @ debug_str U path @ '' (force: '' @ show_bool force
       @ '', restart: '' @ restart_debug restart @ '')'',
     op_risk = RiskDestructive, op_target = hw\<rparr>"
| "driver_operation_entry U (i, RestartAdapter s) =
    \<lparr>op_id = ''driver.'' @ show_nat i @ ''.'' @ ''restart_adapter'', op_capability = ''adapter.restart'',
     op_summary = ''Restart network adapter'', op_risk = RiskDestructive,
     op_target = Some (selector_summary U s)\<rparr>"

definition local_accounts :: "netplan_config \<Rightarrow> (nat \<times> smb_account) list" where
  "local_accounts cfg =
    filter (\<lambda>(i, a). acc_kind a = Local) (List.enumerate 0 (smb_accounts (smb cfg)))"

definition build_plan :: "ucd \<Rightarrow> netplan_config \<Rightarrow> operation list" where
  "build_plan U cfg =
    push_hooks U cfg BeforeApply
    @ identity_operations cfg
    @ concat (map (adapter_operations U) (List.enumerate 0 (adapters cfg)))
    @ map (wifi_profile_operation U) (List.enumerate 0 (wifi cfg))
    @ map (wifi_action_operation U) (List.enumerate 0 (wifi_actions cfg))
    @ map (service_operation U) (List.enumerate 0 (services cfg))
    @ map (smb_account_operation U) (local_accounts cfg)
    @ map (smb_share_operation U) (List.enumerate 0 (smb_shares (smb cfg)))
    @ map (smb_mapping_operation U) (List.enumerate 0 (smb_mappings (smb cfg)))
    @ firewall_operations cfg
    @ map (driver_operation_entry U) (List.enumerate 0 (drivers cfg))
    @ push_hooks U cfg AfterApply
    @ push_hooks U cfg AfterRollback"

end
