(* ===== verification/Protocol_Types.thy ===== *)
theory Protocol_Types
  imports Plan
begin

text \<open>
  The requests and responses of \<open>crates/netplan/src/protocol/mod.rs\<close>, and the wire structures of
  \<open>ipc_generated.rs\<close> they are carried in.  A generated enumeration is a newtype over one byte, so a
  received value may be none of its names.
\<close>

section \<open>Typed messages\<close>

record 'a frame =
  fr_request_id :: "64 word"
  fr_payload :: 'a

datatype config_action = ActValidate | ActPlan | ActApply

datatype job_state = JobQueued | JobRunning | JobSucceeded | JobFailed | JobRolledBack

datatype request =
    RqPing
  | RqDaemonStatus
  | RqCapabilities
  | RqListAdapters
  | RqConfig config_action config_format string bool
  | RqJobStatus string
  | RqListJobs "job_state option" "32 word"
  | RqNetworkStatus
  | RqWifiStatus "32 word option"
  | RqWifiScan "32 word option" bool "32 word"
  | RqShutdown

record validation_issue =
  vi_path :: "string option"
  vi_message :: string

record job_summary =
  js_job_id :: string
  js_state :: job_state
  js_message :: "string option"
  js_created_at :: "64 word"
  js_updated_at :: "64 word"

datatype error_code =
  CodeInvalidRequest | CodeInvalidConfig | CodeUnsupported | CodePermissionDenied | CodeNotFound
  | CodeInternal

record daemon_status =
  ds_daemon_version :: string
  ds_protocol_version :: "32 word"
  ds_started_at :: "64 word"
  ds_uptime_ms :: "64 word"
  ds_total_jobs :: "32 word"
  ds_queued_jobs :: "32 word"
  ds_running_jobs :: "32 word"
  ds_succeeded_jobs :: "32 word"
  ds_failed_jobs :: "32 word"
  ds_rolled_back_jobs :: "32 word"

datatype response =
    RsPong string "32 word"
  | RsDaemonStatus daemon_status
  | RsCapabilities "capability list"
  | RsAdapters "adapter_info list"
  | RsValidation bool "validation_issue list"
  | RsPlan "operation list"
  | RsApply string job_state "operation list"
  | RsJobStatus string job_state "string option"
  | RsJobs "job_summary list" "32 word"
  | RsNetworkStatus "64 word" "adapter_info list" "wifi_interface_status list" "string option"
  | RsWifiStatus "wifi_interface_status list"
  | RsWifiNetworks bool "wifi_network list"
  | RsShutdownAccepted
  | RsError error_code string

definition PROTOCOL_VERSION :: "32 word" where
  "PROTOCOL_VERSION = 1"

section \<open>Wire structures\<close>

type_synonym wire_enum = "8 word"

datatype capability_t = CapabilityT string wire_enum "string option"

datatype ip_address_t = IpAddressT string "8 word"

datatype adapter_t = AdapterT "32 word" string "string option" "string option" "string option"
  "string option" bool "ip_address_t list option" "ip_address_t list option"

datatype wifi_interface_status_t = WifiInterfaceStatusT "32 word" string "string option" string
  "string option" "string option" "string option" bool "8 word" bool bool "string option"
  "string option" bool "32 word" bool "32 word"

datatype wifi_network_t = WifiNetworkT "32 word" string string string "string option" "8 word" bool
  string string bool bool "32 word" bool "32 word"

datatype operation_t = OperationT string string string wire_enum "string option"

datatype job_summary_t = JobSummaryT string wire_enum "string option" "64 word" "64 word"

datatype validation_issue_t = ValidationIssueT "string option" string

datatype payload_t =
    PayloadNone
  | PingRequest
  | PingResponse string "32 word"
  | CapabilitiesRequest
  | CapabilitiesResponse "capability_t list"
  | ListAdaptersRequest
  | ListAdaptersResponse "adapter_t list"
  | ConfigRequest wire_enum wire_enum string bool
  | ValidateConfigResponse bool "validation_issue_t list"
  | PlanConfigResponse "operation_t list"
  | ApplyConfigResponse string wire_enum "operation_t list"
  | JobStatusRequest string
  | JobStatusResponse string wire_enum "string option"
  | ErrorResponse wire_enum string
  | DaemonStatusRequest
  | DaemonStatusResponse string "32 word" "64 word" "64 word" "32 word" "32 word" "32 word" "32 word"
      "32 word" "32 word"
  | ListJobsRequest bool wire_enum "32 word"
  | ListJobsResponse "job_summary_t list" "32 word"
  | NetworkStatusRequest
  | NetworkStatusResponse "64 word" "adapter_t list" "wifi_interface_status_t list" "string option"
  | WifiStatusRequest bool "32 word"
  | WifiStatusResponse "wifi_interface_status_t list"
  | WifiScanRequest bool "32 word" bool "32 word"
  | WifiScanResponse bool "wifi_network_t list"
  | ShutdownRequest
  | ShutdownResponse

record envelope_t =
  env_protocol_version :: "32 word"
  env_request_id :: "64 word"
  env_payload :: payload_t

end
