(* ===== verification/Effects.thy ===== *)
theory Effects
  imports Netplan_Text "HOL-Library.Multiset"
begin

text \<open>
  Two patterns several components share: computations that may fail and change a state
  (\<open>'w \<Rightarrow> ('e + 'a) \<times> 'w\<close>, the shape of every Rust function that calls the operating system and
  uses \<open>?\<close>), and the stable sort of \<open>slice::sort_by\<close> with a comparison function.
\<close>

section \<open>Stateful fallible computations\<close>

type_synonym ('w, 'e, 'a) eff = "'w \<Rightarrow> ('e + 'a) \<times> 'w"

definition returnE :: "'a \<Rightarrow> ('w, 'e, 'a) eff" where
  "returnE a = (\<lambda>w. (Inr a, w))"

definition failE :: "'e \<Rightarrow> ('w, 'e, 'a) eff" where
  "failE e = (\<lambda>w. (Inl e, w))"

definition bindE :: "('w, 'e, 'a) eff \<Rightarrow> ('a \<Rightarrow> ('w, 'e, 'b) eff) \<Rightarrow> ('w, 'e, 'b) eff" where
  "bindE m k = (\<lambda>w. case m w of (Inl e, w') \<Rightarrow> (Inl e, w') | (Inr a, w') \<Rightarrow> k a w')"

definition thenE :: "('w, 'e, unit) eff \<Rightarrow> ('w, 'e, 'b) eff \<Rightarrow> ('w, 'e, 'b) eff" where
  "thenE m n = bindE m (\<lambda>_. n)"

definition liftE :: "'e + 'a \<Rightarrow> ('w, 'e, 'a) eff" where
  "liftE r = (\<lambda>w. (r, w))"

definition map_errE :: "('e \<Rightarrow> 'f) \<Rightarrow> ('w, 'e, 'a) eff \<Rightarrow> ('w, 'f, 'a) eff" where
  "map_errE f m = (\<lambda>w. case m w of (r, w') \<Rightarrow> (map_errR f r, w'))"

fun forE :: "('a \<Rightarrow> ('w, 'e, unit) eff) \<Rightarrow> 'a list \<Rightarrow> ('w, 'e, unit) eff" where
  "forE f [] = returnE ()"
| "forE f (x # xs) = thenE (f x) (forE f xs)"

fun traverseE :: "('a \<Rightarrow> ('w, 'e, 'b) eff) \<Rightarrow> 'a list \<Rightarrow> ('w, 'e, 'b list) eff" where
  "traverseE f [] = returnE []"
| "traverseE f (x # xs) = bindE (f x) (\<lambda>y. bindE (traverseE f xs) (\<lambda>ys. returnE (y # ys)))"

text \<open>A loop that carries an accumulator.\<close>

fun foldE :: "('s \<Rightarrow> 'a \<Rightarrow> ('w, 'e, 's) eff) \<Rightarrow> 's \<Rightarrow> 'a list \<Rightarrow> ('w, 'e, 's) eff" where
  "foldE f s [] = returnE s"
| "foldE f s (x # xs) = bindE (f s x) (\<lambda>s'. foldE f s' xs)"

text \<open>\<open>if let Some(a) = m { f(a) }\<close>, and \<open>m.map(f)\<close> with an effect.\<close>

definition for_some :: "'a option \<Rightarrow> ('a \<Rightarrow> ('w, 'e, unit) eff) \<Rightarrow> ('w, 'e, unit) eff" where
  "for_some m f = (case m of None \<Rightarrow> returnE () | Some a \<Rightarrow> f a)"

definition map_someE :: "('a \<Rightarrow> ('w, 'e, 'b) eff) \<Rightarrow> 'a option \<Rightarrow> ('w, 'e, 'b option) eff" where
  "map_someE f m = (case m of None \<Rightarrow> returnE None | Some a \<Rightarrow> bindE (f a) (\<lambda>b. returnE (Some b)))"

named_theorems eff_simps \<open>what the effect combinators do to a state\<close>

lemma returnE_apply [eff_simps]: "returnE a w = (Inr a, w)"
  by (simp add: returnE_def)

lemma failE_apply [eff_simps]: "failE e w = (Inl e, w)"
  by (simp add: failE_def)

lemma liftE_apply [eff_simps]: "liftE r w = (r, w)"
  by (simp add: liftE_def)

lemma bindE_ok [eff_simps]: "m w = (Inr a, w') \<Longrightarrow> bindE m k w = k a w'"
  by (simp add: bindE_def)

lemma bindE_err [eff_simps]: "m w = (Inl e, w') \<Longrightarrow> bindE m k w = (Inl e, w')"
  by (simp add: bindE_def)

lemma bindE_ok_iff:
  "bindE m k w = (Inr b, w') \<longleftrightarrow> (\<exists>a v. m w = (Inr a, v) \<and> k a v = (Inr b, w'))"
  by (auto simp: bindE_def split: prod.splits sum.splits)

lemma bindE_err_iff:
  "bindE m k w = (Inl e, w') \<longleftrightarrow>
    m w = (Inl e, w') \<or> (\<exists>a v. m w = (Inr a, v) \<and> k a v = (Inl e, w'))"
  by (auto simp: bindE_def split: prod.splits sum.splits)

lemma bindE_returnE [simp]: "bindE (returnE a) k = k a"
  by (simp add: bindE_def returnE_def fun_eq_iff)

lemma bindE_failE [simp]: "bindE (failE e) k = failE e"
  by (simp add: bindE_def failE_def fun_eq_iff)

lemma bindE_assoc: "bindE (bindE m k) l = bindE m (\<lambda>a. bindE (k a) l)"
  by (auto simp: bindE_def fun_eq_iff split: prod.splits sum.splits)

text \<open>A computation keeps a property of the state, whatever its outcome.\<close>

definition keepsE :: "('w \<Rightarrow> bool) \<Rightarrow> ('w, 'e, 'a) eff \<Rightarrow> bool" where
  "keepsE P m \<longleftrightarrow> (\<forall>w. P w \<longrightarrow> P (snd (m w)))"

named_theorems keeps \<open>computations that keep a property of the state\<close>

lemma keepsE_returnE [keeps]: "keepsE P (returnE a)"
  by (simp add: keepsE_def returnE_def)

lemma keepsE_failE [keeps]: "keepsE P (failE e)"
  by (simp add: keepsE_def failE_def)

lemma keepsE_liftE [keeps]: "keepsE P (liftE r)"
  by (simp add: keepsE_def liftE_def)

lemma keepsE_bindE [keeps]: "keepsE P m \<Longrightarrow> (\<And>a. keepsE P (k a)) \<Longrightarrow> keepsE P (bindE m k)"
  unfolding keepsE_def bindE_def by (auto split: prod.splits sum.splits)

lemma keepsE_thenE [keeps]: "keepsE P m \<Longrightarrow> keepsE P n \<Longrightarrow> keepsE P (thenE m n)"
  unfolding thenE_def by (rule keepsE_bindE)

lemma keepsE_map_errE [keeps]: "keepsE P m \<Longrightarrow> keepsE P (map_errE f m)"
  unfolding keepsE_def map_errE_def by (auto split: prod.splits)

lemma keepsE_forE [keeps]: "(\<And>x. x \<in> set xs \<Longrightarrow> keepsE P (f x)) \<Longrightarrow> keepsE P (forE f xs)"
  by (induction xs) (auto intro!: keeps)

lemma keepsE_traverseE [keeps]: "(\<And>x. x \<in> set xs \<Longrightarrow> keepsE P (f x)) \<Longrightarrow> keepsE P (traverseE f xs)"
  by (induction xs) (auto intro!: keeps)

lemma keepsE_foldE [keeps]: "(\<And>s x. keepsE P (f s x)) \<Longrightarrow> keepsE P (foldE f s xs)"
  by (induction xs arbitrary: s) (auto intro!: keeps)

section \<open>Stable sorting\<close>

datatype ordering = Less | Equal | Greater

fun reverse_ordering :: "ordering \<Rightarrow> ordering" where
  "reverse_ordering Less = Greater"
| "reverse_ordering Equal = Equal"
| "reverse_ordering Greater = Less"

fun then_with :: "ordering \<Rightarrow> ordering \<Rightarrow> ordering" where
  "then_with Equal r = r"
| "then_with l r = l"

definition cmp :: "'a :: linorder \<Rightarrow> 'a \<Rightarrow> ordering" where
  "cmp x y = (if x < y then Less else if x = y then Equal else Greater)"

fun insert_by :: "('a \<Rightarrow> 'a \<Rightarrow> ordering) \<Rightarrow> 'a \<Rightarrow> 'a list \<Rightarrow> 'a list" where
  "insert_by c x [] = [x]"
| "insert_by c x (y # ys) = (if c x y = Greater then y # insert_by c x ys else x # y # ys)"

definition sort_by :: "('a \<Rightarrow> 'a \<Rightarrow> ordering) \<Rightarrow> 'a list \<Rightarrow> 'a list" where
  "sort_by c xs = foldr (insert_by c) xs []"

lemma insert_by_mset [simp]: "mset (insert_by c x ys) = add_mset x (mset ys)"
  by (induction ys) auto

lemma sort_by_mset [simp]: "mset (sort_by c xs) = mset xs"
  by (induction xs) (simp_all add: sort_by_def)

lemma sort_by_set [simp]: "set (sort_by c xs) = set xs"
  using sort_by_mset by (metis set_mset_mset)

lemma sort_by_length [simp]: "length (sort_by c xs) = length xs"
  using sort_by_mset by (metis size_mset)

text \<open>The contract of a comparison function passed to \<open>sort_by\<close>.\<close>

locale comparison =
  fixes c :: "'a \<Rightarrow> 'a \<Rightarrow> ordering"
  assumes antisym: "c y x = reverse_ordering (c x y)"
    and trans: "c x y \<noteq> Greater \<Longrightarrow> c y z \<noteq> Greater \<Longrightarrow> c x z \<noteq> Greater"
begin

lemma not_greater: "c x y = Greater \<Longrightarrow> c y x \<noteq> Greater"
  using antisym[of y x] by simp

lemma insert_sorted:
  "sorted_wrt (\<lambda>a b. c a b \<noteq> Greater) ys \<Longrightarrow> sorted_wrt (\<lambda>a b. c a b \<noteq> Greater) (insert_by c x ys)"
proof (induction ys)
  case Nil
  then show ?case by simp
next
  case (Cons y ys)
  have "set (insert_by c x ys) = insert x (set ys)"
    using insert_by_mset[of c x ys] by (metis set_mset_add_mset_insert set_mset_mset)
  then show ?case
    using Cons not_greater[of x y] trans[of x y] by (cases "c x y = Greater") auto
qed

lemma sorted: "sorted_wrt (\<lambda>a b. c a b \<noteq> Greater) (sort_by c xs)"
  by (induction xs) (simp_all add: sort_by_def insert_sorted)

lemma insert_stable:
  "sorted_wrt (\<lambda>a b. c a b \<noteq> Greater) ys \<Longrightarrow>
    filter (\<lambda>y. c z y = Equal) (insert_by c x ys)
      = (if c z x = Equal then x # filter (\<lambda>y. c z y = Equal) ys else filter (\<lambda>y. c z y = Equal) ys)"
proof (induction ys)
  case Nil
  then show ?case by simp
next
  case (Cons y ys)
  have "c z y \<noteq> Equal" if "c z x = Equal" "c x y = Greater"
  proof
    assume "c z y = Equal"
    then have "c x z \<noteq> Greater" "c z y \<noteq> Greater" using that antisym[of x z] by simp_all
    then show False using trans that(2) by blast
  qed
  then show ?case using Cons by auto
qed

lemma stable: "filter (\<lambda>y. c z y = Equal) (sort_by c xs) = filter (\<lambda>y. c z y = Equal) xs"
proof (induction xs)
  case Nil
  then show ?case by (simp add: sort_by_def)
next
  case (Cons x xs)
  have "sort_by c (x # xs) = insert_by c x (sort_by c xs)" by (simp add: sort_by_def)
  then show ?case using Cons insert_stable[OF sorted, of z x xs] by simp
qed

end

lemma cmp_reverse: "cmp y x = reverse_ordering (cmp x y)"
  by (auto simp: cmp_def)

lemma cmp_not_greater: "cmp x y \<noteq> Greater \<longleftrightarrow> x \<le> y"
  by (auto simp: cmp_def)

lemma cmp_simps: "cmp x y = Less \<longleftrightarrow> x < y" "cmp x y = Equal \<longleftrightarrow> x = y" "cmp x y = Greater \<longleftrightarrow> y < x"
  by (auto simp: cmp_def)

lemma reverse_then_with:
  "reverse_ordering (then_with a b) = then_with (reverse_ordering a) (reverse_ordering b)"
  by (cases a) simp_all

lemma then_with_not_greater:
  "then_with a b \<noteq> Greater \<longleftrightarrow> a = Less \<or> (a = Equal \<and> b \<noteq> Greater)"
  by (cases a) simp_all

end
