(* ===== verification/Job_Store.thy ===== *)
theory Job_Store
  imports Protocol_Types Effects "HOL-Library.AList" "HOL-Library.Product_Lexorder"
begin

text \<open>
  The job table of \<open>crates/netpland/src/main.rs\<close>.  A \<open>HashMap<String, JobRecord>\<close> is an association
  list whose order stands for the unspecified iteration order; its contract is the locale
  \<open>keyed_store\<close>, interpreted on it.
\<close>

record job_record =
  job_state_of :: job_state
  job_message :: "string option"
  job_created_at :: "64 word"
  job_updated_at :: "64 word"

type_synonym jobs = "(string \<times> job_record) list"

definition jobs_get :: "jobs \<Rightarrow> string \<Rightarrow> job_record option" where
  "jobs_get js k = map_of js k"

definition jobs_insert :: "string \<Rightarrow> job_record \<Rightarrow> jobs \<Rightarrow> jobs" where
  "jobs_insert k r js = AList.update k r js"

text \<open>\<open>get_mut\<close>, changing the record found, if any.\<close>

definition jobs_modify :: "string \<Rightarrow> (job_record \<Rightarrow> job_record) \<Rightarrow> jobs \<Rightarrow> jobs" where
  "jobs_modify k f js = AList.map_entry k f js"

locale keyed_store =
  fixes get :: "'s \<Rightarrow> 'k \<Rightarrow> 'v option"
    and put :: "'k \<Rightarrow> 'v \<Rightarrow> 's \<Rightarrow> 's"
    and modify :: "'k \<Rightarrow> ('v \<Rightarrow> 'v) \<Rightarrow> 's \<Rightarrow> 's"
    and keys :: "'s \<Rightarrow> 'k list"
    and wf :: "'s \<Rightarrow> bool"
  assumes get_put: "get (put k v s) k' = (if k' = k then Some v else get s k')"
    and get_modify: "get (modify k f s) k' = (if k' = k then map_option f (get s k) else get s k')"
    and keys_get: "k \<in> set (keys s) \<longleftrightarrow> get s k \<noteq> None"
    and keys_distinct: "wf s \<Longrightarrow> distinct (keys s)"
    and wf_put: "wf s \<Longrightarrow> wf (put k v s)"
    and wf_modify: "wf s \<Longrightarrow> wf (modify k f s)"
begin

lemma put_keeps: "get s k = None \<Longrightarrow> get s k' = Some v' \<Longrightarrow> get (put k v s) k' = Some v'"
  by (auto simp: get_put)

lemma modify_other: "k' \<noteq> k \<Longrightarrow> get (modify k f s) k' = get s k'"
  by (simp add: get_modify)

lemma modify_keys: "set (keys (modify k f s)) = set (keys s)"
proof -
  have "k' \<in> set (keys (modify k f s)) \<longleftrightarrow> k' \<in> set (keys s)" for k'
    by (simp add: keys_get get_modify)
  then show ?thesis by blast
qed

lemma put_keys: "set (keys (put k v s)) = insert k (set (keys s))"
proof -
  have "k' \<in> set (keys (put k v s)) \<longleftrightarrow> k' \<in> insert k (set (keys s))" for k'
    by (simp add: keys_get get_put)
  then show ?thesis by blast
qed

lemma card_keys: "wf s \<Longrightarrow> card (set (keys s)) = length (keys s)"
  using keys_distinct distinct_card by blast

text \<open>How many entries a put and a modification leave.\<close>

lemma length_put_fresh: "wf s \<Longrightarrow> get s k = None \<Longrightarrow> length (keys (put k v s)) = Suc (length (keys s))"
  using card_keys[of s] card_keys[of "put k v s"] wf_put[of s k v] keys_get[of k s]
  by (simp add: put_keys)

lemma length_modify: "wf s \<Longrightarrow> length (keys (modify k f s)) = length (keys s)"
  using card_keys[of s] card_keys[of "modify k f s"] wf_modify[of s k f] by (simp add: modify_keys)

end

definition jobs_ids :: "jobs \<Rightarrow> string list" where
  "jobs_ids js = map fst js"

definition jobs_wf :: "jobs \<Rightarrow> bool" where
  "jobs_wf js \<longleftrightarrow> distinct (map fst js)"

lemma map_entry_keys: "map fst (AList.map_entry k f xs) = map fst xs"
  by (induction xs) auto

lemma map_of_map_entry:
  "map_of (AList.map_entry k f xs) k' = (if k' = k then map_option f (map_of xs k) else map_of xs k')"
  by (induction xs) auto

interpretation js: keyed_store jobs_get jobs_insert jobs_modify jobs_ids jobs_wf
proof
  show "jobs_get (jobs_insert k v s) k' = (if k' = k then Some v else jobs_get s k')" for k v s k'
    by (simp add: jobs_get_def jobs_insert_def update_conv')
  show "jobs_get (jobs_modify k f s) k' = (if k' = k then map_option f (jobs_get s k) else jobs_get s k')"
    for k f s k'
    by (simp add: jobs_get_def jobs_modify_def map_of_map_entry)
  show "k \<in> set (jobs_ids s) \<longleftrightarrow> jobs_get s k \<noteq> None" for k s
    by (force simp: jobs_ids_def jobs_get_def map_of_eq_None_iff)
  show "jobs_wf s \<Longrightarrow> distinct (jobs_ids s)" for s
    by (simp add: jobs_wf_def jobs_ids_def)
  show "jobs_wf s \<Longrightarrow> jobs_wf (jobs_insert k v s)" for s k v
    by (simp add: jobs_wf_def jobs_insert_def distinct_update)
  show "jobs_wf s \<Longrightarrow> jobs_wf (jobs_modify k f s)" for s k f
    by (simp add: jobs_wf_def jobs_modify_def map_entry_keys)
qed

section \<open>Listing and counting\<close>

definition job_summary_of :: "string \<times> job_record \<Rightarrow> job_summary" where
  "job_summary_of = (\<lambda>(k, r). \<lparr>js_job_id = k, js_state = job_state_of r, js_message = job_message r,
     js_created_at = job_created_at r, js_updated_at = job_updated_at r\<rparr>)"

definition job_order :: "job_summary \<Rightarrow> job_summary \<Rightarrow> ordering" where
  "job_order l r =
    then_with (cmp (js_created_at r) (js_created_at l)) (cmp (js_job_id l) (js_job_id r))"

definition effective_limit :: "32 word \<Rightarrow> nat" where
  "effective_limit limit = unat (if limit = 0 then 100 else min limit 1000)"

definition saturating_u32 :: "nat \<Rightarrow> 32 word" where
  "saturating_u32 n = (if n < 2 ^ 32 then word_of_nat n else - 1)"

definition matching_jobs :: "job_state option \<Rightarrow> jobs \<Rightarrow> job_summary list" where
  "matching_jobs state js =
    map job_summary_of (filter (\<lambda>(k, r). case state of None \<Rightarrow> True | Some s \<Rightarrow> job_state_of r = s) js)"

definition list_jobs :: "job_state option \<Rightarrow> 32 word \<Rightarrow> jobs \<Rightarrow> response" where
  "list_jobs state limit js =
    (let summaries = sort_by job_order (matching_jobs state js) in
     RsJobs (take (effective_limit limit) summaries) (saturating_u32 (length summaries)))"

text \<open>\<open>u32::saturating_add(1)\<close>.\<close>

definition saturating_inc :: "32 word \<Rightarrow> 32 word" where
  "saturating_inc n = (if n = - 1 then n else n + 1)"

record counters =
  cn_queued :: "32 word"
  cn_running :: "32 word"
  cn_succeeded :: "32 word"
  cn_failed :: "32 word"
  cn_rolled_back :: "32 word"

fun count_job :: "counters \<Rightarrow> job_state \<Rightarrow> counters" where
  "count_job c JobQueued = c\<lparr>cn_queued := saturating_inc (cn_queued c)\<rparr>"
| "count_job c JobRunning = c\<lparr>cn_running := saturating_inc (cn_running c)\<rparr>"
| "count_job c JobSucceeded = c\<lparr>cn_succeeded := saturating_inc (cn_succeeded c)\<rparr>"
| "count_job c JobFailed = c\<lparr>cn_failed := saturating_inc (cn_failed c)\<rparr>"
| "count_job c JobRolledBack = c\<lparr>cn_rolled_back := saturating_inc (cn_rolled_back c)\<rparr>"

definition count_jobs :: "jobs \<Rightarrow> counters" where
  "count_jobs js = foldl (\<lambda>c (k, r). count_job c (job_state_of r))
     \<lparr>cn_queued = 0, cn_running = 0, cn_succeeded = 0, cn_failed = 0, cn_rolled_back = 0\<rparr> js"

section \<open>Facts\<close>

definition job_key :: "job_summary \<Rightarrow> int \<times> string" where
  "job_key j = (- uint (js_created_at j), js_job_id j)"

lemma job_order_key: "job_order l r \<noteq> Greater \<longleftrightarrow> job_key l \<le> job_key r"
  by (auto simp: job_order_def job_key_def then_with_not_greater cmp_simps cmp_not_greater
      less_eq_prod_simp word_less_def word_uint_eq_iff[symmetric])

interpretation jo: comparison job_order
proof
  show "job_order y x = reverse_ordering (job_order x y)" for x y
    by (simp add: job_order_def reverse_then_with flip: cmp_reverse)
  show "job_order x y \<noteq> Greater \<Longrightarrow> job_order y z \<noteq> Greater \<Longrightarrow> job_order x z \<noteq> Greater" for x y z
    unfolding job_order_key by (rule order_trans)
qed

lemma sort_by_key_unique:
  assumes "mset xs = mset ys" "distinct (map job_key xs)"
  shows "sort_by job_order xs = sort_by job_order ys"
proof -
  let ?sx = "sort_by job_order xs" and ?sy = "sort_by job_order ys"
  have eq: "mset ?sx = mset ?sy" using assms(1) by simp
  have "distinct (map job_key ?sx)"
    using assms(2) by (metis mset_map mset_eq_imp_distinct_iff sort_by_mset)
  then have inj: "inj_on job_key (set ?sx \<union> set ?sy)" and dist: "distinct (map job_key ?sy)"
    using eq mset_eq_imp_distinct_iff[OF eq] by (auto simp: distinct_map dest: mset_eq_setD)
  have sorted: "sorted (map job_key (sort_by job_order zs))" for zs
    using jo.sorted[of zs] by (simp add: job_order_key sorted_wrt_map)
  have "map job_key ?sx = map job_key ?sy"
    using \<open>distinct (map job_key ?sx)\<close> dist sorted eq
    by (intro sorted_distinct_set_unique) (metis mset_eq_setD set_map)+
  then show ?thesis using inj by (simp add: inj_on_map_eq_map)
qed

lemma effective_limit_bounds: "1 \<le> effective_limit limit \<and> effective_limit limit \<le> 1000"
proof -
  have "1 \<le> unat limit" if "limit \<noteq> 0" using that by (simp add: unat_gt_0 Suc_leI)
  then show ?thesis by (auto simp: effective_limit_def word_le_nat_alt min_def)
qed

fun counter_of :: "counters \<Rightarrow> job_state \<Rightarrow> 32 word" where
  "counter_of c JobQueued = cn_queued c"
| "counter_of c JobRunning = cn_running c"
| "counter_of c JobSucceeded = cn_succeeded c"
| "counter_of c JobFailed = cn_failed c"
| "counter_of c JobRolledBack = cn_rolled_back c"

lemma saturating_inc_unat: "Suc (unat n) < 2 ^ 32 \<Longrightarrow> unat (saturating_inc n) = Suc (unat n)"
proof -
  assume n: "Suc (unat n) < 2 ^ 32"
  then have "n \<noteq> - 1" by (auto simp: unsigned_minus_1_eq_mask mask_eq_exp_minus_1)
  then show ?thesis using n by (simp add: saturating_inc_def unat_word_ariths)
qed

lemma count_job_unat:
  "Suc (unat (counter_of c s')) < 2 ^ 32 \<Longrightarrow>
    unat (counter_of (count_job c s) s') = unat (counter_of c s') + (if s = s' then 1 else 0)"
  by (cases s; cases s') (simp_all add: saturating_inc_unat)

lemma count_fold_unat:
  "unat (counter_of c s) + length js < 2 ^ 32 \<Longrightarrow>
    unat (counter_of (foldl (\<lambda>c (k, r). count_job c (job_state_of r)) c js) s)
      = unat (counter_of c s) + length (filter (\<lambda>(k, r). job_state_of r = s) js)"
proof (induction js arbitrary: c)
  case Nil
  then show ?case by simp
next
  case (Cons kr js)
  obtain k r where kr: "kr = (k, r)" by fastforce
  have step: "unat (counter_of (count_job c (job_state_of r)) s)
      = unat (counter_of c s) + (if job_state_of r = s then 1 else 0)"
    using Cons.prems by (intro count_job_unat) simp
  then show ?case using Cons.IH[of "count_job c (job_state_of r)"] Cons.prems by (auto simp: kr)
qed

lemma count_jobs_unat:
  "length js < 2 ^ 32 \<Longrightarrow>
    unat (counter_of (count_jobs js) s) = length (filter (\<lambda>(k, r). job_state_of r = s) js)"
  using count_fold_unat[of "\<lparr>cn_queued = 0, cn_running = 0, cn_succeeded = 0, cn_failed = 0,
    cn_rolled_back = 0\<rparr>" s js]
  by (cases s) (simp_all add: count_jobs_def)

lemma state_partition:
  "length (filter (\<lambda>(k, r). job_state_of r = JobQueued) js)
    + length (filter (\<lambda>(k, r). job_state_of r = JobRunning) js)
    + length (filter (\<lambda>(k, r). job_state_of r = JobSucceeded) js)
    + length (filter (\<lambda>(k, r). job_state_of r = JobFailed) js)
    + length (filter (\<lambda>(k, r). job_state_of r = JobRolledBack) js) = length js"
proof (induction js)
  case (Cons kr js)
  then show ?case by (cases kr; cases "job_state_of (snd kr)") auto
qed simp

lemma matching_jobs_keys: "jobs_wf js \<Longrightarrow> distinct (map job_key (matching_jobs state js))"
proof -
  assume "jobs_wf js"
  then have "distinct (map js_job_id (matching_jobs state js))"
    by (simp add: jobs_wf_def matching_jobs_def job_summary_of_def comp_def case_prod_beta
        distinct_map_filter)
  then show ?thesis by (auto simp: distinct_map inj_on_def job_key_def)
qed

lemma matching_jobs_mset:
  "mset js = mset js' \<Longrightarrow> mset (matching_jobs state js) = mset (matching_jobs state js')"
  by (simp add: matching_jobs_def mset_filter)

section \<open>Properties\<close>

text \<open>C30: listing jobs returns the matching jobs newest first (ties by identifier), at most the requested
  number (100 when none is given, never more than 1000), and as total the number of matching jobs
  before the cut; no matching job newer than a returned one is left out.\<close>

theorem list_jobs_newest_first:
  "\<exists>ss. list_jobs state limit js = RsJobs (take (effective_limit limit) ss)
        (saturating_u32 (length (matching_jobs state js)))
    \<and> mset ss = mset (matching_jobs state js)
    \<and> sorted_wrt (\<lambda>a b. job_key a \<le> job_key b) ss
    \<and> 1 \<le> effective_limit limit \<and> effective_limit limit \<le> 1000"
proof -
  have "sorted_wrt (\<lambda>a b. job_key a \<le> job_key b) (sort_by job_order (matching_jobs state js))"
    using jo.sorted[of "matching_jobs state js"] by (simp add: job_order_key)
  then show ?thesis
    using effective_limit_bounds by (auto simp: list_jobs_def Let_def)
qed

text \<open>The answer to a job listing does not depend on the iteration order of the hash map that holds
  the jobs: two tables with the same entries give the same response.\<close>

theorem list_jobs_order_independent:
  "\<lbrakk>jobs_wf js; mset js = mset js'\<rbrakk> \<Longrightarrow> list_jobs state limit js = list_jobs state limit js'"
proof -
  assume "jobs_wf js" and eq: "mset js = mset js'"
  then have "sort_by job_order (matching_jobs state js) = sort_by job_order (matching_jobs state js')"
    using matching_jobs_mset matching_jobs_keys by (intro sort_by_key_unique)
  then show ?thesis by (simp add: list_jobs_def)
qed

theorem list_jobs_order_witness:
  "list_jobs None 0
      [(''a'', \<lparr>job_state_of = JobFailed, job_message = None, job_created_at = 5, job_updated_at = 6\<rparr>),
       (''b'', \<lparr>job_state_of = JobRunning, job_message = None, job_created_at = 9, job_updated_at = 9\<rparr>)]
    = list_jobs None 0
      [(''b'', \<lparr>job_state_of = JobRunning, job_message = None, job_created_at = 9, job_updated_at = 9\<rparr>),
       (''a'', \<lparr>job_state_of = JobFailed, job_message = None, job_created_at = 5, job_updated_at = 6\<rparr>)]"
  by (rule list_jobs_order_independent) (simp_all add: jobs_wf_def)

end
