(* ===== verification/Protocol.thy ===== *)
theory Protocol
  imports Protocol_Types Effects
begin

text \<open>
  The IPC protocol of \<open>crates/netplan/src/protocol/mod.rs\<close>: the conversions between typed messages and
  wire structures, the envelope, and the bounded size-prefixed frames.  The finished buffers are
  the parameter \<open>flatbuffers\<close> here; the generated pack, verify and unpack code of \<open>ipc_generated.rs\<close> is
  modelled in the theories \<open>Wire_*\<close>, and \<open>generated\<close> of \<open>Wire_Facts\<close> is the instance it gives.
\<close>

section \<open>Codecs\<close>

text \<open>The contract of a conversion pair: what is sent is what is received, and a received value
  determines what was sent.\<close>

locale wire_codec =
  fixes to_wire :: "'a \<Rightarrow> 'w"
    and from_wire :: "'w \<Rightarrow> netplan_error + 'a"
  assumes roundtrip: "from_wire (to_wire a) = Inr a"
begin

lemma injective: "to_wire a = to_wire b \<longleftrightarrow> a = b"
  by (metis roundtrip sum.inject(2))

lemma list_roundtrip: "traverseR from_wire (map to_wire xs) = Inr xs"
  using roundtrip by (induction xs) simp_all

end

locale wire_enumeration = wire_codec +
  assumes only_names: "from_wire v = Inr a \<Longrightarrow> to_wire a = v"
begin

lemma accepts_iff: "(\<exists>a. from_wire v = Inr a) \<longleftrightarrow> v \<in> range to_wire"
  using only_names roundtrip by fastforce

end

section \<open>Enumerations\<close>

fun config_action_to_wire :: "config_action \<Rightarrow> wire_enum" where
  "config_action_to_wire ActValidate = 0"
| "config_action_to_wire ActPlan = 1"
| "config_action_to_wire ActApply = 2"

definition config_action_from_wire :: "wire_enum \<Rightarrow> netplan_error + config_action" where
  "config_action_from_wire v =
    (if v = 0 then Inr ActValidate else if v = 1 then Inr ActPlan else if v = 2 then Inr ActApply
     else Inl (Protocol ''unknown configuration action''))"

fun config_format_to_wire :: "config_format \<Rightarrow> wire_enum" where
  "config_format_to_wire Auto = 0"
| "config_format_to_wire Yaml = 1"
| "config_format_to_wire Json = 2"

definition config_format_from_wire :: "wire_enum \<Rightarrow> netplan_error + config_format" where
  "config_format_from_wire v =
    (if v = 0 then Inr Auto else if v = 1 then Inr Yaml else if v = 2 then Inr Json
     else Inl (Protocol ''unknown configuration format''))"

fun capability_state_to_wire :: "capability_state \<Rightarrow> wire_enum" where
  "capability_state_to_wire Unavailable = 0"
| "capability_state_to_wire ReadOnly = 1"
| "capability_state_to_wire DryRun = 2"
| "capability_state_to_wire Available = 3"

definition capability_state_from_wire :: "wire_enum \<Rightarrow> netplan_error + capability_state" where
  "capability_state_from_wire v =
    (if v = 0 then Inr Unavailable else if v = 1 then Inr ReadOnly else if v = 2 then Inr DryRun else if v = 3 then Inr Available
     else Inl (Protocol ''unknown capability state''))"

fun operation_risk_to_wire :: "operation_risk \<Rightarrow> wire_enum" where
  "operation_risk_to_wire RiskReadOnly = 0"
| "operation_risk_to_wire RiskLow = 1"
| "operation_risk_to_wire RiskConnectivity = 2"
| "operation_risk_to_wire RiskDestructive = 3"

definition operation_risk_from_wire :: "wire_enum \<Rightarrow> netplan_error + operation_risk" where
  "operation_risk_from_wire v =
    (if v = 0 then Inr RiskReadOnly else if v = 1 then Inr RiskLow else if v = 2 then Inr RiskConnectivity else if v = 3 then Inr RiskDestructive
     else Inl (Protocol ''unknown operation risk''))"

fun job_state_to_wire :: "job_state \<Rightarrow> wire_enum" where
  "job_state_to_wire JobQueued = 0"
| "job_state_to_wire JobRunning = 1"
| "job_state_to_wire JobSucceeded = 2"
| "job_state_to_wire JobFailed = 3"
| "job_state_to_wire JobRolledBack = 4"

definition job_state_from_wire :: "wire_enum \<Rightarrow> netplan_error + job_state" where
  "job_state_from_wire v =
    (if v = 0 then Inr JobQueued else if v = 1 then Inr JobRunning else if v = 2 then Inr JobSucceeded else if v = 3 then Inr JobFailed else if v = 4 then Inr JobRolledBack
     else Inl (Protocol ''unknown job state''))"

fun error_code_to_wire :: "error_code \<Rightarrow> wire_enum" where
  "error_code_to_wire CodeInvalidRequest = 1"
| "error_code_to_wire CodeInvalidConfig = 2"
| "error_code_to_wire CodeUnsupported = 3"
| "error_code_to_wire CodePermissionDenied = 4"
| "error_code_to_wire CodeNotFound = 5"
| "error_code_to_wire CodeInternal = 6"

definition error_code_from_wire :: "wire_enum \<Rightarrow> netplan_error + error_code" where
  "error_code_from_wire v =
    (if v = 1 then Inr CodeInvalidRequest else if v = 2 then Inr CodeInvalidConfig else if v = 3 then Inr CodeUnsupported else if v = 4 then Inr CodePermissionDenied else if v = 5 then Inr CodeNotFound else if v = 6 then Inr CodeInternal
     else Inl (Protocol ''unknown daemon error code''))"

interpretation act: wire_enumeration config_action_to_wire config_action_from_wire
proof
  show "config_action_from_wire (config_action_to_wire a) = Inr a" for a
    by (cases a) (simp_all add: config_action_from_wire_def)
  show "config_action_from_wire v = Inr a \<Longrightarrow> config_action_to_wire a = v" for v a
    by (auto simp: config_action_from_wire_def split: if_splits)
qed

interpretation fmt: wire_enumeration config_format_to_wire config_format_from_wire
proof
  show "config_format_from_wire (config_format_to_wire a) = Inr a" for a
    by (cases a) (simp_all add: config_format_from_wire_def)
  show "config_format_from_wire v = Inr a \<Longrightarrow> config_format_to_wire a = v" for v a
    by (auto simp: config_format_from_wire_def split: if_splits)
qed

interpretation cst: wire_enumeration capability_state_to_wire capability_state_from_wire
proof
  show "capability_state_from_wire (capability_state_to_wire a) = Inr a" for a
    by (cases a) (simp_all add: capability_state_from_wire_def)
  show "capability_state_from_wire v = Inr a \<Longrightarrow> capability_state_to_wire a = v" for v a
    by (auto simp: capability_state_from_wire_def split: if_splits)
qed

interpretation rsk: wire_enumeration operation_risk_to_wire operation_risk_from_wire
proof
  show "operation_risk_from_wire (operation_risk_to_wire a) = Inr a" for a
    by (cases a) (simp_all add: operation_risk_from_wire_def)
  show "operation_risk_from_wire v = Inr a \<Longrightarrow> operation_risk_to_wire a = v" for v a
    by (auto simp: operation_risk_from_wire_def split: if_splits)
qed

interpretation jst: wire_enumeration job_state_to_wire job_state_from_wire
proof
  show "job_state_from_wire (job_state_to_wire a) = Inr a" for a
    by (cases a) (simp_all add: job_state_from_wire_def)
  show "job_state_from_wire v = Inr a \<Longrightarrow> job_state_to_wire a = v" for v a
    by (auto simp: job_state_from_wire_def split: if_splits)
qed

interpretation cod: wire_enumeration error_code_to_wire error_code_from_wire
proof
  show "error_code_from_wire (error_code_to_wire a) = Inr a" for a
    by (cases a) (simp_all add: error_code_from_wire_def)
  show "error_code_from_wire v = Inr a \<Longrightarrow> error_code_to_wire a = v" for v a
    by (auto simp: error_code_from_wire_def split: if_splits)
qed

section \<open>Structures\<close>

definition capability_to_wire :: "capability \<Rightarrow> capability_t" where
  "capability_to_wire c = CapabilityT (cap_name c) (capability_state_to_wire (cap_state c)) (cap_reason c)"

fun capability_from_wire :: "capability_t \<Rightarrow> netplan_error + capability" where
  "capability_from_wire (CapabilityT n s r) =
    bindR (capability_state_from_wire s) (\<lambda>st.
      Inr \<lparr>cap_name = n, cap_state = st, cap_reason = r\<rparr>)"

definition ip_address_to_wire :: "ip_address_info \<Rightarrow> ip_address_t" where
  "ip_address_to_wire a = IpAddressT (ip_address a) (ip_prefix_length a)"

fun ip_address_from_wire :: "ip_address_t \<Rightarrow> ip_address_info" where
  "ip_address_from_wire (IpAddressT a p) = \<lparr>ip_address = a, ip_prefix_length = p\<rparr>"

definition adapter_to_wire :: "adapter_info \<Rightarrow> adapter_t" where
  "adapter_to_wire a = AdapterT (ai_if_index a) (ai_name a) (ai_description a) (ai_guid a)
     (ai_mac_address a) (Some (ai_status a)) (ai_hardware a)
     (Some (map ip_address_to_wire (ai_ipv4 a))) (Some (map ip_address_to_wire (ai_ipv6 a)))"

definition unwrap_or :: "'a option \<Rightarrow> 'a \<Rightarrow> 'a" where
  "unwrap_or m d = (case m of None \<Rightarrow> d | Some a \<Rightarrow> a)"

fun adapter_from_wire :: "adapter_t \<Rightarrow> adapter_info" where
  "adapter_from_wire (AdapterT i n d g m s h v4 v6) =
    \<lparr>ai_if_index = i, ai_name = n, ai_description = d, ai_guid = g, ai_mac_address = m,
     ai_status = unwrap_or s ''unknown'', ai_hardware = h,
     ai_ipv4 = map ip_address_from_wire (unwrap_or v4 []),
     ai_ipv6 = map ip_address_from_wire (unwrap_or v6 [])\<rparr>"

definition then_some :: "bool \<Rightarrow> 'a \<Rightarrow> 'a option" where
  "then_some b a = (if b then Some a else None)"

definition wifi_interface_status_to_wire :: "wifi_interface_status \<Rightarrow> wifi_interface_status_t" where
  "wifi_interface_status_to_wire w = WifiInterfaceStatusT (wi_if_index w) (wi_name w) (wi_guid w)
     (wi_state w) (wi_profile_name w) (wi_ssid w) (wi_ssid_hex w)
     (wi_signal_quality w \<noteq> None) (unwrap_or (wi_signal_quality w) 0)
     (wi_security_enabled w \<noteq> None) (unwrap_or (wi_security_enabled w) False)
     (wi_authentication w) (wi_cipher w)
     (wi_rx_rate_kbps w \<noteq> None) (unwrap_or (wi_rx_rate_kbps w) 0)
     (wi_tx_rate_kbps w \<noteq> None) (unwrap_or (wi_tx_rate_kbps w) 0)"

fun wifi_interface_status_from_wire :: "wifi_interface_status_t \<Rightarrow> wifi_interface_status" where
  "wifi_interface_status_from_wire (WifiInterfaceStatusT i n g st p s sh hq q hs sec au ci hr rx ht tx) =
    \<lparr>wi_if_index = i, wi_name = n, wi_guid = g, wi_state = st, wi_profile_name = p, wi_ssid = s,
     wi_ssid_hex = sh, wi_signal_quality = then_some hq q, wi_security_enabled = then_some hs sec,
     wi_authentication = au, wi_cipher = ci, wi_rx_rate_kbps = then_some hr rx,
     wi_tx_rate_kbps = then_some ht tx\<rparr>"

definition wifi_network_to_wire :: "wifi_network \<Rightarrow> wifi_network_t" where
  "wifi_network_to_wire n = WifiNetworkT (wn_interface_if_index n) (wn_interface_name n) (wn_ssid n)
     (wn_ssid_hex n) (wn_profile_name n) (wn_signal_quality n) (wn_security_enabled n)
     (wn_authentication n) (wn_cipher n) (wn_connectable n)
     (wn_not_connectable_reason n \<noteq> None) (unwrap_or (wn_not_connectable_reason n) 0)
     (wn_connected n) (wn_bss_count n)"

fun wifi_network_from_wire :: "wifi_network_t \<Rightarrow> wifi_network" where
  "wifi_network_from_wire (WifiNetworkT i n s sh p q sec au ci cn hr r co b) =
    \<lparr>wn_interface_if_index = i, wn_interface_name = n, wn_ssid = s, wn_ssid_hex = sh,
     wn_profile_name = p, wn_signal_quality = q, wn_security_enabled = sec, wn_authentication = au,
     wn_cipher = ci, wn_connectable = cn, wn_not_connectable_reason = then_some hr r,
     wn_connected = co, wn_bss_count = b\<rparr>"

definition operation_to_wire :: "operation \<Rightarrow> operation_t" where
  "operation_to_wire x = OperationT (op_id x) (op_capability x) (op_summary x)
     (operation_risk_to_wire (op_risk x)) (op_target x)"

fun operation_from_wire :: "operation_t \<Rightarrow> netplan_error + operation" where
  "operation_from_wire (OperationT i c s r t) =
    bindR (operation_risk_from_wire r) (\<lambda>risk.
      Inr \<lparr>op_id = i, op_capability = c, op_summary = s, op_risk = risk, op_target = t\<rparr>)"

definition job_summary_to_wire :: "job_summary \<Rightarrow> job_summary_t" where
  "job_summary_to_wire j = JobSummaryT (js_job_id j) (job_state_to_wire (js_state j)) (js_message j)
     (js_created_at j) (js_updated_at j)"

fun job_summary_from_wire :: "job_summary_t \<Rightarrow> netplan_error + job_summary" where
  "job_summary_from_wire (JobSummaryT i s m c u) =
    bindR (job_state_from_wire s) (\<lambda>st.
      Inr \<lparr>js_job_id = i, js_state = st, js_message = m, js_created_at = c, js_updated_at = u\<rparr>)"

definition issue_to_wire :: "validation_issue \<Rightarrow> validation_issue_t" where
  "issue_to_wire i = ValidationIssueT (vi_path i) (vi_message i)"

fun issue_from_wire :: "validation_issue_t \<Rightarrow> validation_issue" where
  "issue_from_wire (ValidationIssueT p m) = \<lparr>vi_path = p, vi_message = m\<rparr>"

lemma then_some_flag [simp]: "then_some (m \<noteq> None) (unwrap_or m d) = m"
  by (cases m) (simp_all add: then_some_def unwrap_or_def)

lemma then_some_flag' [simp]: "then_some (\<exists>y. m = Some y) (unwrap_or m d) = m"
  by (cases m) (simp_all add: then_some_def unwrap_or_def)

interpretation capc: wire_codec capability_to_wire capability_from_wire
  by unfold_locales (simp add: capability_to_wire_def cst.roundtrip)

interpretation opc: wire_codec operation_to_wire operation_from_wire
  by unfold_locales (simp add: operation_to_wire_def rsk.roundtrip)

interpretation jobc: wire_codec job_summary_to_wire job_summary_from_wire
  by unfold_locales (simp add: job_summary_to_wire_def jst.roundtrip)

lemma ip_address_roundtrip [simp]: "ip_address_from_wire (ip_address_to_wire a) = a"
  by (simp add: ip_address_to_wire_def)

lemma adapter_roundtrip [simp]: "adapter_from_wire (adapter_to_wire a) = a"
  by (simp add: adapter_to_wire_def unwrap_or_def comp_def)

lemma wifi_interface_status_roundtrip [simp]:
  "wifi_interface_status_from_wire (wifi_interface_status_to_wire w) = w"
  by (simp add: wifi_interface_status_to_wire_def del: not_None_eq)

lemma wifi_network_roundtrip [simp]: "wifi_network_from_wire (wifi_network_to_wire n) = n"
  by (simp add: wifi_network_to_wire_def del: not_None_eq)

lemma issue_roundtrip [simp]: "issue_from_wire (issue_to_wire i) = i"
  by (simp add: issue_to_wire_def)

section \<open>Messages\<close>

fun request_to_payload :: "request \<Rightarrow> payload_t" where
  "request_to_payload RqPing = PingRequest"
| "request_to_payload RqDaemonStatus = DaemonStatusRequest"
| "request_to_payload RqCapabilities = CapabilitiesRequest"
| "request_to_payload RqListAdapters = ListAdaptersRequest"
| "request_to_payload (RqConfig action format document dry_run) =
    ConfigRequest (config_action_to_wire action) (config_format_to_wire format) document dry_run"
| "request_to_payload (RqJobStatus job_id) = JobStatusRequest job_id"
| "request_to_payload (RqListJobs state limit) =
    ListJobsRequest (state \<noteq> None)
      (case state of None \<Rightarrow> job_state_to_wire JobQueued | Some s \<Rightarrow> job_state_to_wire s) limit"
| "request_to_payload RqNetworkStatus = NetworkStatusRequest"
| "request_to_payload (RqWifiStatus if_index) = WifiStatusRequest (if_index \<noteq> None) (unwrap_or if_index 0)"
| "request_to_payload (RqWifiScan if_index refresh timeout_ms) =
    WifiScanRequest (if_index \<noteq> None) (unwrap_or if_index 0) refresh timeout_ms"
| "request_to_payload RqShutdown = ShutdownRequest"

fun request_from_payload :: "payload_t \<Rightarrow> netplan_error + request" where
  "request_from_payload PingRequest = Inr RqPing"
| "request_from_payload DaemonStatusRequest = Inr RqDaemonStatus"
| "request_from_payload CapabilitiesRequest = Inr RqCapabilities"
| "request_from_payload ListAdaptersRequest = Inr RqListAdapters"
| "request_from_payload (ConfigRequest a f document dry_run) =
    bindR (config_action_from_wire a) (\<lambda>action.
    bindR (config_format_from_wire f) (\<lambda>format.
      Inr (RqConfig action format document dry_run)))"
| "request_from_payload (JobStatusRequest job_id) = Inr (RqJobStatus job_id)"
| "request_from_payload (ListJobsRequest has_state s limit) =
    (if has_state then bindR (job_state_from_wire s) (\<lambda>st. Inr (RqListJobs (Some st) limit))
     else Inr (RqListJobs None limit))"
| "request_from_payload NetworkStatusRequest = Inr RqNetworkStatus"
| "request_from_payload (WifiStatusRequest has i) = Inr (RqWifiStatus (then_some has i))"
| "request_from_payload (WifiScanRequest has i refresh timeout_ms) =
    Inr (RqWifiScan (then_some has i) refresh timeout_ms)"
| "request_from_payload ShutdownRequest = Inr RqShutdown"
| "request_from_payload _ = Inl (Protocol ''frame does not contain a request'')"

fun response_to_payload :: "response \<Rightarrow> payload_t" where
  "response_to_payload (RsPong v p) = PingResponse v p"
| "response_to_payload (RsDaemonStatus d) =
    DaemonStatusResponse (ds_daemon_version d) (ds_protocol_version d) (ds_started_at d) (ds_uptime_ms d)
      (ds_total_jobs d) (ds_queued_jobs d) (ds_running_jobs d) (ds_succeeded_jobs d) (ds_failed_jobs d)
      (ds_rolled_back_jobs d)"
| "response_to_payload (RsCapabilities cs) = CapabilitiesResponse (map capability_to_wire cs)"
| "response_to_payload (RsAdapters as) = ListAdaptersResponse (map adapter_to_wire as)"
| "response_to_payload (RsValidation valid issues) = ValidateConfigResponse valid (map issue_to_wire issues)"
| "response_to_payload (RsPlan ops) = PlanConfigResponse (map operation_to_wire ops)"
| "response_to_payload (RsApply job_id state ops) =
    ApplyConfigResponse job_id (job_state_to_wire state) (map operation_to_wire ops)"
| "response_to_payload (RsJobStatus job_id state m) = JobStatusResponse job_id (job_state_to_wire state) m"
| "response_to_payload (RsJobs jobs ntotal) = ListJobsResponse (map job_summary_to_wire jobs) ntotal"
| "response_to_payload (RsNetworkStatus t as ws e) =
    NetworkStatusResponse t (map adapter_to_wire as) (map wifi_interface_status_to_wire ws) e"
| "response_to_payload (RsWifiStatus ws) = WifiStatusResponse (map wifi_interface_status_to_wire ws)"
| "response_to_payload (RsWifiNetworks refreshed ns) = WifiScanResponse refreshed (map wifi_network_to_wire ns)"
| "response_to_payload RsShutdownAccepted = ShutdownResponse"
| "response_to_payload (RsError code m) = ErrorResponse (error_code_to_wire code) m"

fun response_from_payload :: "payload_t \<Rightarrow> netplan_error + response" where
  "response_from_payload (PingResponse v p) = Inr (RsPong v p)"
| "response_from_payload (DaemonStatusResponse v p st up t q r s f b) =
    Inr (RsDaemonStatus \<lparr>ds_daemon_version = v, ds_protocol_version = p, ds_started_at = st,
      ds_uptime_ms = up, ds_total_jobs = t, ds_queued_jobs = q, ds_running_jobs = r,
      ds_succeeded_jobs = s, ds_failed_jobs = f, ds_rolled_back_jobs = b\<rparr>)"
| "response_from_payload (CapabilitiesResponse cs) = mapR RsCapabilities (traverseR capability_from_wire cs)"
| "response_from_payload (ListAdaptersResponse as) = Inr (RsAdapters (map adapter_from_wire as))"
| "response_from_payload (ValidateConfigResponse valid issues) =
    Inr (RsValidation valid (map issue_from_wire issues))"
| "response_from_payload (PlanConfigResponse ops) = mapR RsPlan (traverseR operation_from_wire ops)"
| "response_from_payload (ApplyConfigResponse job_id s ops) =
    bindR (job_state_from_wire s) (\<lambda>state.
    bindR (traverseR operation_from_wire ops) (\<lambda>os. Inr (RsApply job_id state os)))"
| "response_from_payload (JobStatusResponse job_id s m) =
    bindR (job_state_from_wire s) (\<lambda>state. Inr (RsJobStatus job_id state m))"
| "response_from_payload (ListJobsResponse jobs ntotal) =
    mapR (\<lambda>js. RsJobs js ntotal) (traverseR job_summary_from_wire jobs)"
| "response_from_payload (NetworkStatusResponse t as ws e) =
    Inr (RsNetworkStatus t (map adapter_from_wire as) (map wifi_interface_status_from_wire ws) e)"
| "response_from_payload (WifiStatusResponse ws) = Inr (RsWifiStatus (map wifi_interface_status_from_wire ws))"
| "response_from_payload (WifiScanResponse refreshed ns) =
    Inr (RsWifiNetworks refreshed (map wifi_network_from_wire ns))"
| "response_from_payload ShutdownResponse = Inr RsShutdownAccepted"
| "response_from_payload (ErrorResponse c m) = bindR (error_code_from_wire c) (\<lambda>code. Inr (RsError code m))"
| "response_from_payload _ = Inl (Protocol ''frame does not contain a response'')"

interpretation reqc: wire_codec request_to_payload request_from_payload
proof
  show "request_from_payload (request_to_payload r) = Inr r" for r
    by (cases r) (auto simp: act.roundtrip fmt.roundtrip jst.roundtrip then_some_def unwrap_or_def
        split: option.splits)
qed

interpretation resc: wire_codec response_to_payload response_from_payload
proof
  show "response_from_payload (response_to_payload r) = Inr r" for r
    by (cases r) (simp_all add: capc.list_roundtrip opc.list_roundtrip jobc.list_roundtrip
        jst.roundtrip cod.roundtrip comp_def)
qed

lemma request_is_no_response: "\<exists>m. response_from_payload (request_to_payload r) = Inl (Protocol m)"
  by (cases r) simp_all

lemma response_is_no_request: "\<exists>m. request_from_payload (response_to_payload r) = Inl (Protocol m)"
  by (cases r) simp_all

section \<open>Frames\<close>

definition MAX_FRAME_SIZE :: nat where
  "MAX_FRAME_SIZE = 16 * 1024 * 1024"

fun from_le_bytes :: "string \<Rightarrow> nat" where
  "from_le_bytes [] = 0"
| "from_le_bytes (c # cs) = byte c + 256 * from_le_bytes cs"

fun to_le_bytes :: "nat \<Rightarrow> nat \<Rightarrow> string" where
  "to_le_bytes 0 n = []"
| "to_le_bytes (Suc k) n = char_of (n mod 256) # to_le_bytes k (n div 256)"

definition validate_frame_length :: "string \<Rightarrow> netplan_error + unit" where
  "validate_frame_length frame =
    (if length frame < 4 then Inl (Protocol ''frame is missing its size prefix'')
     else (let body_len = from_le_bytes (take 4 frame) in
       fail_if (body_len = 0 \<or> body_len > MAX_FRAME_SIZE \<or> body_len + 4 \<noteq> length frame)
         (Protocol (''invalid frame length: declared '' @ show_nat body_len @ '', actual ''
           @ show_nat (length frame - 4)))))"

text \<open>The FlatBuffers code: finish a size-prefixed envelope, test the file
  identifier, verify and unpack.\<close>

record flatbuffers =
  fb_pack :: "envelope_t \<Rightarrow> string"
  fb_has_identifier :: "string \<Rightarrow> bool"
  fb_unpack :: "string \<Rightarrow> string + envelope_t"

definition encode_envelope :: "flatbuffers \<Rightarrow> 64 word \<Rightarrow> payload_t \<Rightarrow> string" where
  "encode_envelope FB request_id payload =
    fb_pack FB \<lparr>env_protocol_version = PROTOCOL_VERSION, env_request_id = request_id, env_payload = payload\<rparr>"

definition decode_envelope :: "flatbuffers \<Rightarrow> string \<Rightarrow> netplan_error + envelope_t" where
  "decode_envelope FB frame =
    bindR (validate_frame_length frame) (\<lambda>_.
    if \<not> fb_has_identifier FB frame then Inl (Protocol ''missing PNET file identifier'')
    else bindR (map_errR Protocol (fb_unpack FB frame)) (\<lambda>envelope.
      if env_protocol_version envelope \<noteq> PROTOCOL_VERSION then
        Inl (Protocol (''unsupported protocol version '' @ show_nat (unat (env_protocol_version envelope))
          @ ''; expected '' @ show_nat (unat PROTOCOL_VERSION)))
      else Inr envelope))"

definition encode_request :: "flatbuffers \<Rightarrow> 64 word \<Rightarrow> request \<Rightarrow> string" where
  "encode_request FB request_id r = encode_envelope FB request_id (request_to_payload r)"

definition decode_request :: "flatbuffers \<Rightarrow> string \<Rightarrow> netplan_error + request frame" where
  "decode_request FB frame =
    bindR (decode_envelope FB frame) (\<lambda>envelope.
    bindR (request_from_payload (env_payload envelope)) (\<lambda>payload.
      Inr \<lparr>fr_request_id = env_request_id envelope, fr_payload = payload\<rparr>))"

definition encode_response :: "flatbuffers \<Rightarrow> 64 word \<Rightarrow> response \<Rightarrow> string" where
  "encode_response FB request_id r = encode_envelope FB request_id (response_to_payload r)"

definition decode_response :: "flatbuffers \<Rightarrow> string \<Rightarrow> netplan_error + response frame" where
  "decode_response FB frame =
    bindR (decode_envelope FB frame) (\<lambda>envelope.
    bindR (response_from_payload (env_payload envelope)) (\<lambda>payload.
      Inr \<lparr>fr_request_id = env_request_id envelope, fr_payload = payload\<rparr>))"

text \<open>
  Asynchronous streams.  A reader is the bytes it will still deliver before the end of the stream;
  \<open>read_exact\<close> fails at the end.  A writer is any state with a \<open>write_all\<close> and a \<open>flush\<close>.
\<close>

definition read_exact :: "nat \<Rightarrow> (string, netplan_error, string) eff" where
  "read_exact n = (\<lambda>r. if length r < n then (Inl (Io UnexpectedEof ''early eof''), [])
     else (Inr (take n r), drop n r))"

definition read_frame_from :: "(nat \<Rightarrow> ('r, netplan_error, string) eff) \<Rightarrow> ('r, netplan_error, string) eff" where
  "read_frame_from exact =
    bindE (exact 4) (\<lambda>prefix.
    let body_len = from_le_bytes prefix in
    if body_len = 0 \<or> body_len > MAX_FRAME_SIZE then
      failE (Protocol (''frame body length '' @ show_nat body_len @ '' exceeds the allowed range''))
    else bindE (exact body_len) (\<lambda>body. returnE (prefix @ body)))"

definition read_frame :: "(string, netplan_error, string) eff" where
  "read_frame = read_frame_from read_exact"

record 'w writer =
  wr_write_all :: "string \<Rightarrow> ('w, netplan_error, unit) eff"
  wr_flush :: "('w, netplan_error, unit) eff"

definition write_frame :: "'w writer \<Rightarrow> string \<Rightarrow> ('w, netplan_error, unit) eff" where
  "write_frame W frame =
    bindE (liftE (validate_frame_length frame)) (\<lambda>_.
    bindE (wr_write_all W frame) (\<lambda>_. wr_flush W))"

section \<open>Facts\<close>

lemma to_le_bytes_length [simp]: "length (to_le_bytes k n) = k"
  by (induction k arbitrary: n) simp_all

lemma byte_char_of_mod: "byte (char_of n) = n mod 256"
  by (simp add: byte_def)

lemma from_to_le_bytes: "n < 256 ^ k \<Longrightarrow> from_le_bytes (to_le_bytes k n) = n"
proof (induction k arbitrary: n)
  case 0
  then show ?case by simp
next
  case (Suc k)
  then have "n div 256 < 256 ^ k" by (simp add: less_mult_imp_div_less mult.commute)
  then show ?case using Suc.IH by (simp add: byte_char_of_mod)
qed

text \<open>A well-formed frame: a four-byte little-endian length and as many bytes, within the bound.\<close>

definition well_framed :: "string \<Rightarrow> bool" where
  "well_framed f \<longleftrightarrow>
    (\<exists>prefix body. f = prefix @ body \<and> length prefix = 4 \<and> from_le_bytes prefix = length body
      \<and> body \<noteq> [] \<and> length body \<le> MAX_FRAME_SIZE)"

lemma validate_frame_length_ok [ok_simps]: "validate_frame_length f = Inr u \<longleftrightarrow> well_framed f"
proof
  assume ok: "validate_frame_length f = Inr u"
  then have len: "4 \<le> length f" "from_le_bytes (take 4 f) + 4 = length f"
    "from_le_bytes (take 4 f) \<noteq> 0" "from_le_bytes (take 4 f) \<le> MAX_FRAME_SIZE"
    by (auto simp: validate_frame_length_def Let_def ok_simps split: if_splits)
  show "well_framed f" unfolding well_framed_def
    by (rule exI[of _ "take 4 f"], rule exI[of _ "drop 4 f"]) (use len in auto)
next
  assume "well_framed f"
  then obtain p b where "f = p @ b" "length p = 4" "from_le_bytes p = length b" "b \<noteq> []"
    "length b \<le> MAX_FRAME_SIZE" by (auto simp: well_framed_def)
  then show "validate_frame_length f = Inr u"
    by (simp add: validate_frame_length_def fail_if_def)
qed

lemma read_exact_ok: "read_exact n r = (Inr x, r') \<longleftrightarrow> length x = n \<and> r = x @ r'"
  by (auto simp: read_exact_def)

lemma read_frame_well_framed:
  "read_frame r = (Inr f, r') \<longleftrightarrow> well_framed f \<and> r = f @ r'"
proof
  assume "read_frame r = (Inr f, r')"
  then obtain p v where p: "read_exact 4 r = (Inr p, v)"
    and rest: "(let body_len = from_le_bytes p in
      if body_len = 0 \<or> body_len > MAX_FRAME_SIZE then
        failE (Protocol (''frame body length '' @ show_nat body_len @ '' exceeds the allowed range''))
      else bindE (read_exact body_len) (\<lambda>body. returnE (p @ body))) v = (Inr f, r')"
    by (auto simp: read_frame_def read_frame_from_def bindE_ok_iff)
  then obtain b where "from_le_bytes p \<noteq> 0" "from_le_bytes p \<le> MAX_FRAME_SIZE"
    "read_exact (from_le_bytes p) v = (Inr b, r')" "f = p @ b"
    by (auto simp: Let_def failE_def returnE_def bindE_ok_iff split: if_splits)
  then show "well_framed f \<and> r = f @ r'"
    using p unfolding read_exact_ok well_framed_def by (intro conjI exI[of _ p] exI[of _ b]) auto
next
  assume "well_framed f \<and> r = f @ r'"
  then obtain p b where f: "f = p @ b" "length p = 4" "from_le_bytes p = length b" "b \<noteq> []"
    "length b \<le> MAX_FRAME_SIZE" "r = p @ b @ r'" by (auto simp: well_framed_def)
  then have "read_exact 4 r = (Inr p, b @ r')" "read_exact (length b) (b @ r') = (Inr b, r')"
    by (simp_all add: read_exact_ok)
  then show "read_frame r = (Inr f, r')"
    using f by (simp add: read_frame_def read_frame_from_def bindE_ok Let_def returnE_def)
qed

text \<open>What a finished, size-prefixed FlatBuffers buffer is documented to be, for one envelope.\<close>

definition packs_faithfully :: "flatbuffers \<Rightarrow> envelope_t \<Rightarrow> bool" where
  "packs_faithfully FB e \<longleftrightarrow>
    (\<exists>body. fb_pack FB e = to_le_bytes 4 (length body) @ body \<and> body \<noteq> [] \<and> length body \<le> MAX_FRAME_SIZE)
    \<and> fb_has_identifier FB (fb_pack FB e)
    \<and> fb_unpack FB (fb_pack FB e) = Inr e"

lemma packed_well_framed: "packs_faithfully FB e \<Longrightarrow> well_framed (fb_pack FB e)"
proof -
  assume "packs_faithfully FB e"
  then obtain body where b: "fb_pack FB e = to_le_bytes 4 (length body) @ body" "body \<noteq> []"
    "length body \<le> MAX_FRAME_SIZE" by (auto simp: packs_faithfully_def)
  then have "from_le_bytes (to_le_bytes 4 (length body)) = length body"
    by (intro from_to_le_bytes) (simp add: MAX_FRAME_SIZE_def)
  then show ?thesis unfolding well_framed_def
    using b by (intro exI[of _ "to_le_bytes 4 (length body)"] exI[of _ body]) simp
qed

lemma decode_packed:
  "packs_faithfully FB e \<Longrightarrow> env_protocol_version e = PROTOCOL_VERSION \<Longrightarrow>
    decode_envelope FB (fb_pack FB e) = Inr e"
  using packed_well_framed[of FB e] validate_frame_length_ok[of "fb_pack FB e" "()"]
  by (simp add: decode_envelope_def packs_faithfully_def)

lemma decode_encoded_request:
  "packs_faithfully FB \<lparr>env_protocol_version = PROTOCOL_VERSION, env_request_id = i,
      env_payload = request_to_payload rq\<rparr> \<Longrightarrow>
    decode_request FB (encode_request FB i rq) = Inr \<lparr>fr_request_id = i, fr_payload = rq\<rparr>"
  by (simp add: encode_request_def decode_request_def encode_envelope_def decode_packed reqc.roundtrip)

lemma decode_encoded_response:
  "packs_faithfully FB \<lparr>env_protocol_version = PROTOCOL_VERSION, env_request_id = i,
      env_payload = response_to_payload rs\<rparr> \<Longrightarrow>
    decode_response FB (encode_response FB i rs) = Inr \<lparr>fr_request_id = i, fr_payload = rs\<rparr>"
  by (simp add: encode_response_def decode_response_def encode_envelope_def decode_packed resc.roundtrip)

lemma read_encoded_request:
  "packs_faithfully FB \<lparr>env_protocol_version = PROTOCOL_VERSION, env_request_id = i,
      env_payload = request_to_payload rq\<rparr> \<Longrightarrow>
    read_frame (encode_request FB i rq @ rest) = (Inr (encode_request FB i rq), rest)"
  by (simp add: encode_request_def encode_envelope_def read_frame_well_framed packed_well_framed)

lemma read_encoded_response:
  "packs_faithfully FB \<lparr>env_protocol_version = PROTOCOL_VERSION, env_request_id = i,
      env_payload = response_to_payload rs\<rparr> \<Longrightarrow>
    read_frame (encode_response FB i rs @ rest) = (Inr (encode_response FB i rs), rest)"
  by (simp add: encode_response_def encode_envelope_def read_frame_well_framed packed_well_framed)

text \<open>A runtime that knows two envelopes, for the instances below.\<close>

definition two_buffers :: "envelope_t \<Rightarrow> envelope_t \<Rightarrow> flatbuffers" where
  "two_buffers e e' = \<lparr>
     fb_pack = \<lambda>x. to_le_bytes 4 (length ''PNET1'') @ (if x = e then ''PNET1'' else ''PNET2''),
     fb_has_identifier = \<lambda>b. take 4 (drop 4 b) = ''PNET'',
     fb_unpack = \<lambda>b. Inr (if drop 4 b = ''PNET1'' then e else e')\<rparr>"

lemma two_buffers_faithful: "x = e \<or> x = e' \<Longrightarrow> packs_faithfully (two_buffers e e') x"
proof -
  assume x: "x = e \<or> x = e'"
  let ?b = "if x = e then ''PNET1'' else ''PNET2''"
  have "fb_pack (two_buffers e e') x = to_le_bytes 4 (length ?b) @ ?b" by (simp add: two_buffers_def)
  moreover have "length ?b \<le> MAX_FRAME_SIZE" by (simp add: MAX_FRAME_SIZE_def)
  ultimately show ?thesis unfolding packs_faithfully_def
    using x by (intro conjI exI[of _ ?b]) (auto simp: two_buffers_def)
qed

section \<open>Properties\<close>

text \<open>C23: requests and responses survive the wire structures: decoding what was encoded gives the same
  typed message, a request is never accepted as a response, and a response never as a request.\<close>

theorem messages_roundtrip:
  "request_from_payload (request_to_payload rq) = Inr rq
    \<and> response_from_payload (response_to_payload rs) = Inr rs
    \<and> (\<exists>m. response_from_payload (request_to_payload rq) = Inl (Protocol m))
    \<and> (\<exists>m. request_from_payload (response_to_payload rs) = Inl (Protocol m))"
  using reqc.roundtrip resc.roundtrip request_is_no_response response_is_no_request by blast

text \<open>The enumerations on the wire are strict: each decoder accepts exactly the byte its encoder
  sends for a name and no other byte.\<close>

theorem wire_enums_strict:
  "(config_action_from_wire v = Inr act \<longleftrightarrow> v = config_action_to_wire act)
    \<and> (config_format_from_wire v = Inr fmt \<longleftrightarrow> v = config_format_to_wire fmt)
    \<and> (capability_state_from_wire v = Inr cs \<longleftrightarrow> v = capability_state_to_wire cs)
    \<and> (operation_risk_from_wire v = Inr rk \<longleftrightarrow> v = operation_risk_to_wire rk)
    \<and> (job_state_from_wire v = Inr js \<longleftrightarrow> v = job_state_to_wire js)
    \<and> (error_code_from_wire v = Inr ec \<longleftrightarrow> v = error_code_to_wire ec)"
  using act.only_names act.roundtrip fmt.only_names fmt.roundtrip cst.only_names cst.roundtrip
    rsk.only_names rsk.roundtrip jst.only_names jst.roundtrip cod.only_names cod.roundtrip
  by metis

text \<open>C24: reading a frame from a stream returns exactly the well-formed frame the stream starts with (a
  length prefix between 1 and 16 MiB and as many bytes) and leaves the rest of the stream
  untouched; on any other stream no frame is returned.\<close>

theorem read_frame_exact:
  "read_frame stream = (Inr f, rest) \<longleftrightarrow> well_framed f \<and> stream = f @ rest"
  by (rule read_frame_well_framed)

text \<open>When the FlatBuffers runtime packs the envelope faithfully, an encoded request decodes to the
  same request under the same correlation identifier, an encoded response likewise, and either
  frame is read back from a stream as it was written.\<close>

theorem encoded_message_decodes:
  "\<lbrakk>packs_faithfully FB \<lparr>env_protocol_version = PROTOCOL_VERSION, env_request_id = i,
        env_payload = request_to_payload rq\<rparr>;
    packs_faithfully FB \<lparr>env_protocol_version = PROTOCOL_VERSION, env_request_id = j,
        env_payload = response_to_payload rs\<rparr>\<rbrakk>
    \<Longrightarrow> decode_request FB (encode_request FB i rq) = Inr \<lparr>fr_request_id = i, fr_payload = rq\<rparr>
      \<and> decode_response FB (encode_response FB j rs) = Inr \<lparr>fr_request_id = j, fr_payload = rs\<rparr>
      \<and> read_frame (encode_request FB i rq @ rest) = (Inr (encode_request FB i rq), rest)
      \<and> read_frame (encode_response FB j rs @ rest) = (Inr (encode_response FB j rs), rest)"
  by (simp add: decode_encoded_request decode_encoded_response read_encoded_request
      read_encoded_response)

theorem encoded_message_witness:
  "decode_request
      (two_buffers \<lparr>env_protocol_version = PROTOCOL_VERSION, env_request_id = 42,
          env_payload = request_to_payload (RqListJobs (Some JobFailed) 5)\<rparr>
        \<lparr>env_protocol_version = PROTOCOL_VERSION, env_request_id = 42,
          env_payload = response_to_payload (RsError CodeNotFound ''gone'')\<rparr>)
      (encode_request
        (two_buffers \<lparr>env_protocol_version = PROTOCOL_VERSION, env_request_id = 42,
            env_payload = request_to_payload (RqListJobs (Some JobFailed) 5)\<rparr>
          \<lparr>env_protocol_version = PROTOCOL_VERSION, env_request_id = 42,
            env_payload = response_to_payload (RsError CodeNotFound ''gone'')\<rparr>)
        42 (RqListJobs (Some JobFailed) 5))
    = Inr \<lparr>fr_request_id = 42, fr_payload = RqListJobs (Some JobFailed) 5\<rparr>"
  by (rule encoded_message_decodes[where rs = "RsError CodeNotFound ''gone''" and j = 42, THEN conjunct1];
      rule two_buffers_faithful; simp)

end
