(* ===== verification/Sample.thy ===== *)
theory Sample
  imports Config
begin

text \<open>
  Concrete documents on which the properties with hypotheses are instantiated: the document of the
  repository's own test \<open>complete_porting_contract_decodes\<close>, and variations of it.
\<close>

definition sample_ucd :: ucd where
  "sample_ucd = \<lparr>ucd_debug = \<lambda>s. s, ucd_upper = \<lambda>s. s, ucd_lower = \<lambda>p s q. s\<rparr>"

definition selector_index :: "32 word \<Rightarrow> interface_selector" where
  "selector_index i = default_selector\<lparr>sel_if_index := Some i\<rparr>"

definition sample_profile :: wifi_profile where
  "sample_profile = \<lparr>wp_selector = None, wp_name = Some ''lab-profile'', wp_ssid = ''Lab'',
     wp_authentication = Wpa2Personal, wp_psk = Some (Literal ''correct-horse''),
     wp_auto_connect = False, wp_hidden = False\<rparr>"

definition sample_adapter :: adapter_config where
  "sample_adapter = \<lparr>ad_selector = selector_index 7, ad_enabled = Some True,
     ad_mac_address = Some ''02-11-22-33-44-55'',
     ad_ipv4 = Some (Static [(Ipv4 192 0 2 10, 24)] [Ipv4 192 0 2 1] [V4 (Ipv4 1 1 1 1)] [])\<rparr>"

definition sample_smb :: smb_config where
  "sample_smb = \<lparr>
     smb_accounts = [\<lparr>acc_id = ''diagnostics'', acc_kind = Local, acc_username = ''pe-diagnostics'',
       acc_password = Some (Env ''NETPLAN_SMB_PASSWORD'')\<rparr>],
     smb_shares = [\<lparr>sh_name = ''diagnostics'', sh_path = ''X:'' @ [CHR 0x5C] @ ''diagnostics'',
       sh_description = None, sh_read_only = False, sh_accounts = [''diagnostics'']\<rparr>],
     smb_mappings = [\<lparr>sm_remote = [CHR 0x5C, CHR 0x5C] @ ''server'' @ [CHR 0x5C] @ ''share'',
       sm_local = Some ''Z:'', sm_account = Some ''diagnostics'', sm_username = None,
       sm_password = None\<rparr>]\<rparr>"

definition sample_config :: netplan_config where
  "sample_config = \<lparr>version = 1, protect = \<lparr>management_interfaces = [selector_index 6]\<rparr>,
     identity = None, adapters = [sample_adapter], wifi = [sample_profile],
     wifi_actions = [Scan None, Connect None ''LAB-profile'', Disconnect None],
     smb = sample_smb, firewall = Some \<lparr>fw_enabled = True\<rparr>,
     services = [\<lparr>svc_name = ''LanmanServer'', svc_state = Running\<rparr>],
     drivers = [Install (''X:'' @ [CHR 0x5C] @ ''net.inf'') (Some ''PCI-1234'') True IfRequired,
       RestartAdapter (selector_index 7)],
     hooks = [\<lparr>hk_stage = BeforeApply, hk_program = ''before.exe'', hk_args = [''/quiet''], hk_wait = True\<rparr>,
       \<lparr>hk_stage = AfterRollback, hk_program = ''undo.exe'', hk_args = [], hk_wait = True\<rparr>]\<rparr>"

text \<open>The same document with another pre-shared key, and one that targets the protected adapter.\<close>

definition sample_other_key :: netplan_config where
  "sample_other_key = sample_config\<lparr>
     wifi := [sample_profile\<lparr>wp_psk := Some (Literal ''another-secret'')\<rparr>]\<rparr>"

definition sample_protected :: netplan_config where
  "sample_protected = sample_config\<lparr>
     adapters := [sample_adapter\<lparr>ad_selector := selector_index 6\<rparr>]\<rparr>"

lemmas sample_defs = sample_ucd_def selector_index_def sample_profile_def sample_adapter_def
  sample_smb_def sample_config_def sample_other_key_def sample_protected_def

end
