(* ===== verification/Plan_Facts.thy ===== *)
theory Plan_Facts
  imports Plan Sample
begin

text \<open>
  What a plan looks like: unique operation identifiers, the order of its phases, the capabilities
  it may name, when it is empty, and that it does not depend on the secrets of the document.
\<close>

section \<open>Identifiers\<close>

lemma show_nat_append_inject:
  assumes "show_nat i @ c # s = show_nat j @ d # t" "\<not> is_ascii_digit c" "\<not> is_ascii_digit d"
  shows "i = j \<and> c = d \<and> s = t"
proof -
  have "takeWhile is_ascii_digit (show_nat n @ e # u) = show_nat n" if "\<not> is_ascii_digit e" for n e u
    using that show_nat_digits by (subst takeWhile_append2) auto
  then have "show_nat i = show_nat j" using assms by metis
  then show ?thesis using assms(1) by simp
qed

lemma dot_not_digit [simp]: "\<not> is_ascii_digit (CHR ''.'')"
  by (simp add: is_ascii_digit_def between_def byte_def)

lemma indexed_id_inject:
  "show_nat i @ CHR ''.'' # s = show_nat j @ CHR ''.'' # t \<longleftrightarrow> i = j \<and> s = t"
  using show_nat_append_inject[of i "CHR ''.''" s j "CHR ''.''" t] by auto

lemma distinct_enumerate_map:
  assumes "\<And>i x j y. key (i, x) = key (j, y) \<Longrightarrow> i = j"
  shows "distinct (map key (List.enumerate n xs))"
proof -
  have "inj_on key (set (List.enumerate n xs))"
  proof (rule inj_onI)
    fix p q
    assume "p \<in> set (List.enumerate n xs)" "q \<in> set (List.enumerate n xs)" "key p = key q"
    moreover obtain i x j y where "p = (i, x)" "q = (j, y)" by fastforce
    ultimately show "p = q" using assms[of i x j y] by (auto simp: in_set_enumerate_eq)
  qed
  then show ?thesis by (simp add: distinct_map)
qed

lemma distinct_enumerate_concat:
  assumes "\<And>i x. distinct (map key (f (i, x)))"
    and "\<And>i x j y a b. a \<in> set (f (i, x)) \<Longrightarrow> b \<in> set (f (j, y)) \<Longrightarrow> key a = key b \<Longrightarrow> i = j"
  shows "distinct (map key (concat (map f (List.enumerate n xs))))"
proof (induction xs arbitrary: n)
  case Nil
  then show ?case by simp
next
  case (Cons x xs)
  have "key a \<noteq> key b" if "a \<in> set (f (n, x))" "(j, y) \<in> set (List.enumerate (Suc n) xs)" "b \<in> set (f (j, y))"
    for a b j y
  proof
    assume "key a = key b"
    then have "n = j" using assms(2) that by blast
    then show False using that(2) by (auto simp: in_set_enumerate_eq)
  qed
  then show ?case using Cons.IH[of "Suc n"] assms(1) by fastforce
qed

lemma filter_distinct_map: "distinct (map key xs) \<Longrightarrow> distinct (map key (filter P xs))"
  by (simp add: distinct_map_filter)

lemmas block_defs = hook_operation_def identity_operation_def push_adapter_state_def
  wifi_profile_operation_def service_operation_def smb_account_operation_def
  smb_share_operation_def smb_mapping_operation_def

lemma hook_ids: "distinct (map op_id (push_hooks U cfg stage))"
proof -
  have "distinct (map (op_id \<circ> hook_operation U stage) (List.enumerate 0 (hooks cfg)))"
    by (rule distinct_enumerate_map) (simp add: hook_operation_def indexed_id_inject)
  then show ?thesis using filter_distinct_map by (auto simp: push_hooks_def)
qed

lemma identity_ids: "distinct (map op_id (identity_operations cfg))"
  by (auto simp: identity_operations_def identity_operation_def split: option.splits)

lemma adapter_ids:
  "distinct (map op_id (concat (map (adapter_operations U) (List.enumerate 0 xs))))"
proof (rule distinct_enumerate_concat)
  show "distinct (map op_id (adapter_operations U (i, x)))" for i x
    by (auto simp: adapter_operations_def push_adapter_state_def Let_def split: option.splits)
  show "i = j" if "a \<in> set (adapter_operations U (i, x))" "b \<in> set (adapter_operations U (j, y))"
    "op_id a = op_id b" for i x j y a b
    using that
    by (auto simp: adapter_operations_def push_adapter_state_def Let_def indexed_id_inject
        split: option.splits if_splits)
qed

lemma wifi_action_id: "op_id (wifi_action_operation U (i, a)) =
    ''wifi.action.'' @ show_nat i @ ''.'' @
      (case a of Scan s \<Rightarrow> ''scan'' | Connect s p \<Rightarrow> ''connect'' | Disconnect s \<Rightarrow> ''disconnect'')"
  by (cases a) simp_all

lemma driver_id: "op_id (driver_operation_entry U (i, d)) =
    ''driver.'' @ show_nat i @ ''.'' @
      (case d of Install p h f r \<Rightarrow> ''install'' | RestartAdapter s \<Rightarrow> ''restart_adapter'')"
  by (cases d) simp_all

lemma enumerate_ids:
  "distinct (map op_id (map (wifi_profile_operation U) (List.enumerate 0 ws)))"
  "distinct (map op_id (map (wifi_action_operation U) (List.enumerate 0 as)))"
  "distinct (map op_id (map (service_operation U) (List.enumerate 0 ss)))"
  "distinct (map op_id (map (smb_share_operation U) (List.enumerate 0 shs)))"
  "distinct (map op_id (map (smb_mapping_operation U) (List.enumerate 0 ms)))"
  "distinct (map op_id (map (driver_operation_entry U) (List.enumerate 0 ds)))"
  unfolding map_map
  by (rule distinct_enumerate_map;
      simp add: block_defs wifi_action_id driver_id indexed_id_inject)+

lemma account_ids: "distinct (map op_id (map (smb_account_operation U) (local_accounts cfg)))"
proof -
  have "distinct (map (op_id \<circ> smb_account_operation U) (List.enumerate 0 (smb_accounts (smb cfg))))"
    by (rule distinct_enumerate_map) (simp add: smb_account_operation_def)
  then show ?thesis using filter_distinct_map by (auto simp: local_accounts_def)
qed

section \<open>Phases\<close>

text \<open>The phase of an operation, read off its identifier.\<close>

definition plan_phase :: "string \<Rightarrow> nat" where
  "plan_phase i =
    (if prefix ''hook.'' i then
       (if suffix ''.before_apply'' i then 0 else if suffix ''.after_apply'' i then 11 else 12)
     else if prefix ''identity.'' i then 1
     else if prefix ''adapter.'' i then 2
     else if prefix ''wifi.profile.'' i then 3
     else if prefix ''wifi.action.'' i then 4
     else if prefix ''service.'' i then 5
     else if prefix ''smb.account.'' i then 6
     else if prefix ''smb.share.'' i then 7
     else if prefix ''smb.mapping.'' i then 8
     else if prefix ''firewall.'' i then 9
     else 10)"

fun stage_phase :: "hook_stage \<Rightarrow> nat" where
  "stage_phase BeforeApply = 0"
| "stage_phase AfterApply = 11"
| "stage_phase AfterRollback = 12"

lemma suffix_by_rev: "suffix x y \<longleftrightarrow> prefix (rev x) (rev y)"
  by (simp add: suffix_to_prefix)

lemma hook_phase: "op \<in> set (push_hooks U cfg stage) \<Longrightarrow> plan_phase (op_id op) = stage_phase stage"
  by (cases stage) (auto simp: push_hooks_def hook_operation_def plan_phase_def suffix_by_rev)

lemma block_phases:
  "op \<in> set (identity_operations cfg) \<Longrightarrow> plan_phase (op_id op) = 1"
  "op \<in> set (adapter_operations U ia) \<Longrightarrow> plan_phase (op_id op) = 2"
  "plan_phase (op_id (wifi_profile_operation U iw)) = 3"
  "plan_phase (op_id (wifi_action_operation U iact)) = 4"
  "plan_phase (op_id (service_operation U isv)) = 5"
  "plan_phase (op_id (smb_account_operation U iacc)) = 6"
  "plan_phase (op_id (smb_share_operation U ish)) = 7"
  "plan_phase (op_id (smb_mapping_operation U im)) = 8"
  "op \<in> set (firewall_operations cfg) \<Longrightarrow> plan_phase (op_id op) = 9"
  "plan_phase (op_id (driver_operation_entry U idr)) = 10"
proof -
  show "op \<in> set (identity_operations cfg) \<Longrightarrow> plan_phase (op_id op) = 1"
    by (auto simp: identity_operations_def identity_operation_def plan_phase_def split: option.splits)
  show "op \<in> set (adapter_operations U ia) \<Longrightarrow> plan_phase (op_id op) = 2"
    by (auto simp: adapter_operations_def push_adapter_state_def Let_def plan_phase_def
        split: option.splits if_splits prod.splits)
  show "op \<in> set (firewall_operations cfg) \<Longrightarrow> plan_phase (op_id op) = 9"
    by (auto simp: firewall_operations_def plan_phase_def split: option.splits)
qed (cases iw; cases iact; cases isv; cases iacc; cases ish; cases im; cases idr;
     simp add: block_defs wifi_action_id driver_id plan_phase_def)+

definition plan_blocks :: "ucd \<Rightarrow> netplan_config \<Rightarrow> operation list list" where
  "plan_blocks U cfg =
    [push_hooks U cfg BeforeApply, identity_operations cfg,
     concat (map (adapter_operations U) (List.enumerate 0 (adapters cfg))),
     map (wifi_profile_operation U) (List.enumerate 0 (wifi cfg)),
     map (wifi_action_operation U) (List.enumerate 0 (wifi_actions cfg)),
     map (service_operation U) (List.enumerate 0 (services cfg)),
     map (smb_account_operation U) (local_accounts cfg),
     map (smb_share_operation U) (List.enumerate 0 (smb_shares (smb cfg))),
     map (smb_mapping_operation U) (List.enumerate 0 (smb_mappings (smb cfg))),
     firewall_operations cfg,
     map (driver_operation_entry U) (List.enumerate 0 (drivers cfg)),
     push_hooks U cfg AfterApply, push_hooks U cfg AfterRollback]"

lemma build_plan_blocks: "build_plan U cfg = concat (plan_blocks U cfg)"
  by (simp add: build_plan_def plan_blocks_def)

text \<open>Consecutive blocks, each of one phase, in ascending phases.\<close>

fun phased :: "nat \<Rightarrow> operation list list \<Rightarrow> bool" where
  "phased k [] \<longleftrightarrow> True"
| "phased k (b # bs) \<longleftrightarrow> (\<forall>op\<in>set b. plan_phase (op_id op) = k) \<and> phased (Suc k) bs"

lemma phased_bound: "phased k bs \<Longrightarrow> op \<in> set (concat bs) \<Longrightarrow> k \<le> plan_phase (op_id op)"
  by (induction bs arbitrary: k) fastforce+

lemma phased_sorted: "phased k bs \<Longrightarrow> sorted (map (\<lambda>op. plan_phase (op_id op)) (concat bs))"
proof (induction bs arbitrary: k)
  case Nil
  then show ?case by simp
next
  case (Cons b bs)
  have "sorted (map (\<lambda>op. plan_phase (op_id op)) b)"
    using Cons.prems by (simp add: sorted_wrt_map sorted_wrt_iff_nth_less)
  moreover have "k \<le> plan_phase (op_id op)" if "op \<in> set (concat bs)" for op
    using phased_bound[of "Suc k" bs op] Cons.prems that by simp
  ultimately show ?case using Cons.IH[of "Suc k"] Cons.prems by (auto simp: sorted_append)
qed

lemma phased_distinct:
  "phased k bs \<Longrightarrow> (\<And>b. b \<in> set bs \<Longrightarrow> distinct (map op_id b)) \<Longrightarrow> distinct (map op_id (concat bs))"
proof (induction bs arbitrary: k)
  case Nil
  then show ?case by simp
next
  case (Cons b bs)
  have "op_id x \<noteq> op_id y" if "x \<in> set b" "y \<in> set (concat bs)" for x y
  proof
    assume "op_id x = op_id y"
    moreover have "plan_phase (op_id x) = k" using Cons.prems(1) that(1) by simp
    moreover have "Suc k \<le> plan_phase (op_id y)"
      using phased_bound[of "Suc k" bs y] Cons.prems(1) that(2) by simp
    ultimately show False by simp
  qed
  then show ?case using Cons.IH[of "Suc k"] Cons.prems by fastforce
qed

lemma plan_phased: "phased 0 (plan_blocks U cfg)"
  by (auto simp: plan_blocks_def hook_phase block_phases)

section \<open>Capabilities and risk\<close>

definition plan_capabilities :: "string list" where
  "plan_capabilities =
    [''hook.execute'', ''identity.computer_name.apply'', ''identity.workgroup.apply'',
     ''identity.dns_suffix.apply'', ''adapter.state.apply'', ''adapter.mac.apply'',
     ''adapter.ipv4.apply'', ''wifi.profile.apply'', ''wifi.scan'', ''wifi.connect'',
     ''wifi.disconnect'', ''service.apply'', ''smb.account.apply'', ''smb.share.apply'',
     ''smb.mapping.apply'', ''firewall.apply'', ''driver.force_install'', ''driver.install'',
     ''adapter.restart'']"

text \<open>An operation names a known capability, and it is read-only exactly when that is a scan.\<close>

definition classified :: "operation \<Rightarrow> bool" where
  "classified op \<longleftrightarrow>
    op_capability op \<in> set plan_capabilities
    \<and> (op_risk op = RiskReadOnly \<longleftrightarrow> op_capability op = ''wifi.scan'')"

lemma wifi_action_classified: "classified (wifi_action_operation U ia)"
  by (cases "(U, ia)" rule: wifi_action_operation.cases)
    (simp_all add: classified_def plan_capabilities_def)

lemma driver_classified: "classified (driver_operation_entry U idr)"
  by (cases "(U, idr)" rule: driver_operation_entry.cases)
    (simp_all add: classified_def plan_capabilities_def)

lemma block_classified:
  "op \<in> set (push_hooks U cfg stage) \<Longrightarrow> classified op"
  "op \<in> set (identity_operations cfg) \<Longrightarrow> classified op"
  "op \<in> set (adapter_operations U ia) \<Longrightarrow> classified op"
  "op \<in> set (firewall_operations cfg) \<Longrightarrow> classified op"
  by (auto simp: push_hooks_def identity_operations_def adapter_operations_def firewall_operations_def
      block_defs Let_def classified_def plan_capabilities_def split: option.splits if_splits prod.splits)

lemma single_classified:
  "classified (wifi_profile_operation U iw)" "classified (service_operation U isv)"
  "classified (smb_account_operation U ia)" "classified (smb_share_operation U ish)"
  "classified (smb_mapping_operation U im)"
  by (simp_all add: block_defs classified_def plan_capabilities_def split: prod.split)

lemma plan_classified: "op \<in> set (build_plan U cfg) \<Longrightarrow> classified op"
  by (auto simp: build_plan_def block_classified single_classified wifi_action_classified
      driver_classified)

section \<open>Secrets\<close>

definition redact_config :: "netplan_config \<Rightarrow> netplan_config" where
  "redact_config cfg = cfg\<lparr>
     wifi := map (\<lambda>w. w\<lparr>wp_psk := map_option redact (wp_psk w)\<rparr>) (wifi cfg),
     smb := (smb cfg)\<lparr>
       smb_accounts := map (\<lambda>a. a\<lparr>acc_password := map_option redact (acc_password a)\<rparr>)
         (smb_accounts (smb cfg)),
       smb_mappings := map (\<lambda>m. m\<lparr>sm_password := map_option redact (sm_password m)\<rparr>)
         (smb_mappings (smb cfg))\<rparr>\<rparr>"

lemma enumerate_map: "List.enumerate n (map f xs) = map (apsnd f) (List.enumerate n xs)"
  by (induction xs arbitrary: n) simp_all

lemma filter_apsnd:
  "(\<And>i x. P (i, f x) = P (i, x)) \<Longrightarrow>
    filter P (map (apsnd f) xs) = map (apsnd f) (filter P xs)"
  by (induction xs) auto

lemma redacted_operations:
  "map (wifi_profile_operation U) (List.enumerate 0 (wifi (redact_config cfg)))
    = map (wifi_profile_operation U) (List.enumerate 0 (wifi cfg))"
  "map (smb_mapping_operation U) (List.enumerate 0 (smb_mappings (smb (redact_config cfg))))
    = map (smb_mapping_operation U) (List.enumerate 0 (smb_mappings (smb cfg)))"
  "map (smb_account_operation U) (local_accounts (redact_config cfg))
    = map (smb_account_operation U) (local_accounts cfg)"
  by (auto simp: redact_config_def enumerate_map local_accounts_def filter_apsnd block_defs
      split: option.split)

lemma redacted_fields:
  "identity (redact_config cfg) = identity cfg" "adapters (redact_config cfg) = adapters cfg"
  "wifi_actions (redact_config cfg) = wifi_actions cfg" "services (redact_config cfg) = services cfg"
  "smb_shares (smb (redact_config cfg)) = smb_shares (smb cfg)"
  "firewall (redact_config cfg) = firewall cfg" "drivers (redact_config cfg) = drivers cfg"
  "hooks (redact_config cfg) = hooks cfg"
  by (simp_all add: redact_config_def)

lemma plan_of_redacted: "build_plan U (redact_config cfg) = build_plan U cfg"
  unfolding build_plan_def redacted_operations
  by (simp add: redacted_fields push_hooks_def identity_operations_def firewall_operations_def)

section \<open>Empty plans\<close>

text \<open>The document asks for nothing that is carried out.\<close>

definition asks_nothing :: "netplan_config \<Rightarrow> bool" where
  "asks_nothing cfg \<longleftrightarrow>
    hooks cfg = []
    \<and> (\<forall>i\<in>set_option (identity cfg). computer_name i = None \<and> workgroup i = None \<and> dns_suffix i = None)
    \<and> (\<forall>a\<in>set (adapters cfg). ad_enabled a = None \<and> ad_mac_address a = None \<and> ad_ipv4 a = None)
    \<and> wifi cfg = [] \<and> wifi_actions cfg = [] \<and> services cfg = []
    \<and> (\<forall>a\<in>set (smb_accounts (smb cfg)). acc_kind a = Credential)
    \<and> smb_shares (smb cfg) = [] \<and> smb_mappings (smb cfg) = []
    \<and> firewall cfg = None \<and> drivers cfg = []"

lemma enumerate_Nil_iff: "List.enumerate n xs = [] \<longleftrightarrow> xs = []"
  by (cases xs) simp_all

lemma filter_enumerate_Nil:
  "filter (\<lambda>(i, x). P x) (List.enumerate n xs) = [] \<longleftrightarrow> (\<forall>x\<in>set xs. \<not> P x)"
  by (induction xs arbitrary: n) simp_all

lemma hooks_empty:
  "push_hooks U cfg BeforeApply = [] \<and> push_hooks U cfg AfterApply = []
    \<and> push_hooks U cfg AfterRollback = [] \<longleftrightarrow> hooks cfg = []"
proof -
  have "hk_stage h = BeforeApply \<or> hk_stage h = AfterApply \<or> hk_stage h = AfterRollback" for h
    by (cases "hk_stage h") simp_all
  then show ?thesis
    by (cases "hooks cfg") (auto simp: push_hooks_def filter_enumerate_Nil)
qed

lemma adapter_operations_empty:
  "adapter_operations U (i, a) = [] \<longleftrightarrow>
    ad_enabled a = None \<and> ad_mac_address a = None \<and> ad_ipv4 a = None"
  by (cases "ad_enabled a") (auto simp: adapter_operations_def Let_def split: option.splits)

lemma adapters_empty:
  "concat (map (adapter_operations U) (List.enumerate n xs)) = [] \<longleftrightarrow>
    (\<forall>a\<in>set xs. ad_enabled a = None \<and> ad_mac_address a = None \<and> ad_ipv4 a = None)"
  by (induction xs arbitrary: n) (simp_all add: adapter_operations_empty)

lemma identity_empty:
  "identity_operations cfg = [] \<longleftrightarrow>
    (\<forall>i\<in>set_option (identity cfg). computer_name i = None \<and> workgroup i = None \<and> dns_suffix i = None)"
  by (auto simp: identity_operations_def split: option.splits)

lemma local_accounts_empty:
  "local_accounts cfg = [] \<longleftrightarrow> (\<forall>a\<in>set (smb_accounts (smb cfg)). acc_kind a = Credential)"
proof -
  have "k \<noteq> Local \<longleftrightarrow> k = Credential" for k by (cases k) simp_all
  then show ?thesis by (simp add: local_accounts_def filter_enumerate_Nil)
qed

lemma firewall_empty: "firewall_operations cfg = [] \<longleftrightarrow> firewall cfg = None"
  by (simp add: firewall_operations_def split: option.split)

lemma plan_empty: "build_plan U cfg = [] \<longleftrightarrow> asks_nothing cfg"
  unfolding build_plan_def asks_nothing_def
  using hooks_empty[of U cfg]
  by (auto simp: identity_empty adapters_empty local_accounts_empty firewall_empty enumerate_Nil_iff
      simp del: concat_eq_Nil_conv)

section \<open>Properties\<close>

text \<open>C17: every plan gives its operations distinct identifiers, whatever the document declares, so a
  job result or an error that quotes an identifier names one operation.\<close>

theorem plan_ids_distinct: "distinct (map op_id (build_plan U cfg))"
  unfolding build_plan_blocks
proof (rule phased_distinct[OF plan_phased])
  show "distinct (map op_id b)" if "b \<in> set (plan_blocks U cfg)" for b
    using that hook_ids identity_ids adapter_ids enumerate_ids account_ids
    by (auto simp: plan_blocks_def firewall_operations_def split: option.splits)
qed

text \<open>The operations of a plan come in the order of the phases: before-apply hooks, identity,
  adapters, Wi-Fi profiles, Wi-Fi actions, services, SMB accounts, shares and mappings, firewall,
  drivers, after-apply hooks and last the after-rollback hooks.\<close>

theorem plan_phase_order: "sorted (map (\<lambda>op. plan_phase (op_id op)) (build_plan U cfg))"
  unfolding build_plan_blocks by (rule phased_sorted[OF plan_phased])

text \<open>Every operation of a plan names one of the nineteen capabilities the planner knows, and the
  only operation classified read-only is the Wi-Fi scan, so no mutation is ever planned under the
  weaker read-only permission.\<close>

theorem plan_risk_classification:
  "op \<in> set (build_plan U cfg) \<Longrightarrow>
    op_capability op \<in> set plan_capabilities
    \<and> (op_risk op = RiskReadOnly \<longleftrightarrow> op_capability op = ''wifi.scan'')"
  using plan_classified unfolding classified_def by blast

theorem plan_risk_witness:
  "op_capability (wifi_action_operation sample_ucd (0, Scan None)) \<in> set plan_capabilities
    \<and> (op_risk (wifi_action_operation sample_ucd (0, Scan None)) = RiskReadOnly
        \<longleftrightarrow> op_capability (wifi_action_operation sample_ucd (0, Scan None)) = ''wifi.scan'')"
  by (rule plan_risk_classification[of _ sample_ucd sample_config]) code_simp

text \<open>C18: plans do not depend on literal secrets: two documents that differ only in literal pre-shared
  keys and passwords give the same plan, so identifiers, summaries and targets disclose none.\<close>

theorem plan_secret_independent:
  "redact_config a = redact_config b \<Longrightarrow> build_plan U a = build_plan U b"
  using plan_of_redacted by metis

theorem plan_secret_witness:
  "build_plan sample_ucd sample_config = build_plan sample_ucd sample_other_key"
  by (rule plan_secret_independent) code_simp

text \<open>The plan is empty exactly when the document asks for nothing: no hook, no identity field, no
  adapter change, no Wi-Fi profile or action, no service, no local account, no share or mapping, no
  firewall state and no driver operation.\<close>

theorem plan_empty_iff: "build_plan U cfg = [] \<longleftrightarrow> asks_nothing cfg"
  by (rule plan_empty)

end
