(* ===== verification/Platform.thy ===== *)
theory Platform
  imports Plan_Facts
begin

text \<open>
  The platform boundary of \<open>crates/netpland/src/platform/mod.rs\<close>: its errors, the capability check
  every preflight starts with, the contract of the \<open>Platform\<close> trait as a locale, and the
  development backend of \<open>platform/portable.rs\<close>.
\<close>

section \<open>Errors and reports\<close>

datatype platform_error_kind =
  InvalidConfig | Unsupported | PermissionDenied | PlatformNotFound | Internal

record platform_error =
  pe_kind :: platform_error_kind
  pe_message :: string
  pe_rolled_back :: bool

record apply_report =
  report_message :: string

definition platform_error_new :: "platform_error_kind \<Rightarrow> string \<Rightarrow> platform_error" where
  "platform_error_new k m = \<lparr>pe_kind = k, pe_message = m, pe_rolled_back = False\<rparr>"

definition pe_unsupported :: "string \<Rightarrow> platform_error" where
  "pe_unsupported m = platform_error_new Unsupported m"

definition pe_invalid_config :: "string \<Rightarrow> platform_error" where
  "pe_invalid_config m = platform_error_new InvalidConfig m"

definition pe_permission_denied :: "string \<Rightarrow> platform_error" where
  "pe_permission_denied m = platform_error_new PermissionDenied m"

definition pe_not_found :: "string \<Rightarrow> platform_error" where
  "pe_not_found m = platform_error_new PlatformNotFound m"

definition pe_internal :: "string \<Rightarrow> platform_error" where
  "pe_internal m = platform_error_new Internal m"

lemmas pe_defs = pe_unsupported_def pe_invalid_config_def pe_permission_denied_def pe_not_found_def
  pe_internal_def platform_error_new_def

section \<open>The capability check\<close>

definition require_capability :: "ucd \<Rightarrow> capability list \<Rightarrow> operation \<Rightarrow> platform_error + unit" where
  "require_capability U caps op =
    (case find (\<lambda>c. cap_name c = op_capability op) caps of
       None \<Rightarrow> Inl (pe_unsupported (''operation '' @ debug_str U (op_id op)
         @ '' requires unreported capability '' @ debug_str U (op_capability op)))
     | Some c \<Rightarrow>
         (let permitted = cap_state c = Available \<or> (op_risk op = RiskReadOnly \<and> cap_state c = ReadOnly) in
          fail_if (\<not> permitted)
            (pe_unsupported (''operation '' @ debug_str U (op_id op) @ '' requires capability ''
              @ debug_str U (op_capability op) @ '': ''
              @ (case cap_reason c of Some r \<Rightarrow> r
                 | None \<Rightarrow> ''capability is not available for live execution'')))))"

definition require_plan_capabilities ::
    "ucd \<Rightarrow> capability list \<Rightarrow> netplan_config \<Rightarrow> platform_error + unit" where
  "require_plan_capabilities U caps cfg = forR (require_capability U caps) (build_plan U cfg)"

text \<open>The state reported first under a name, and what it lets an operation do.\<close>

definition reported_state :: "capability list \<Rightarrow> string \<Rightarrow> capability_state option" where
  "reported_state caps n = map_of (map (\<lambda>c. (cap_name c, cap_state c)) caps) n"

definition operation_permitted :: "capability list \<Rightarrow> operation \<Rightarrow> bool" where
  "operation_permitted caps op \<longleftrightarrow>
    reported_state caps (op_capability op) = Some Available
    \<or> (op_risk op = RiskReadOnly \<and> reported_state caps (op_capability op) = Some ReadOnly)"

lemma find_reported:
  "map_option cap_state (find (\<lambda>c. cap_name c = n) caps) = reported_state caps n"
  by (induction caps) (simp_all add: reported_state_def)

lemma require_capability_ok [ok_simps]:
  "require_capability U caps op = Inr u \<longleftrightarrow> operation_permitted caps op"
  using find_reported[of "op_capability op" caps]
  by (auto simp: require_capability_def operation_permitted_def Let_def ok_simps
      split: option.splits)

lemma require_capability_error:
  "require_capability U caps op = Inl e \<Longrightarrow>
    pe_kind e = Unsupported \<and> \<not> pe_rolled_back e
    \<and> prefix (''operation '' @ debug_str U (op_id op) @ '' requires '') (pe_message e)"
  by (auto simp: require_capability_def Let_def fail_if_err pe_defs prefix_def split: option.splits)

lemma require_plan_ok [ok_simps]:
  "require_plan_capabilities U caps cfg = Inr u \<longleftrightarrow>
    (\<forall>op\<in>set (build_plan U cfg). operation_permitted caps op)"
  by (simp add: require_plan_capabilities_def ok_simps)

section \<open>The Platform trait\<close>

text \<open>
  What the daemon relies on: a backend's preflight refuses every document whose plan needs a
  capability the backend does not report.  The trait's default method is the capability check
  itself; a backend may only add checks.
\<close>

locale platform_backend =
  fixes tables :: ucd
    and capabilities :: "capability list"
    and preflight :: "netplan_config \<Rightarrow> platform_error + unit"
  assumes preflight_requires:
    "preflight cfg = Inr () \<Longrightarrow> require_plan_capabilities tables capabilities cfg = Inr ()"
begin

lemma preflight_permits:
  "preflight cfg = Inr () \<Longrightarrow> op \<in> set (build_plan tables cfg) \<Longrightarrow> operation_permitted capabilities op"
  using preflight_requires by (auto simp: require_plan_ok)

lemma mutation_needs_available:
  assumes "preflight cfg = Inr ()" "op \<in> set (build_plan tables cfg)" "op_capability op \<noteq> ''wifi.scan''"
  shows "reported_state capabilities (op_capability op) = Some Available"
  using preflight_permits[OF assms(1,2)] plan_classified[OF assms(2)] assms(3)
  by (auto simp: operation_permitted_def classified_def)

lemma unavailable_blocks:
  assumes "\<forall>c\<in>set capabilities. cap_state c = Available \<longrightarrow> cap_name c \<notin> set plan_capabilities"
    and "\<forall>c\<in>set capabilities. cap_name c = ''wifi.scan'' \<longrightarrow> cap_state c \<noteq> ReadOnly"
    and "preflight cfg = Inr ()"
  shows "build_plan tables cfg = []"
proof (rule ccontr)
  assume "build_plan tables cfg \<noteq> []"
  then obtain op where op: "op \<in> set (build_plan tables cfg)" by (meson last_in_set)
  have member: "\<exists>c\<in>set capabilities. cap_name c = n \<and> cap_state c = s"
    if "reported_state capabilities n = Some s" for n s
    using that by (auto simp: reported_state_def dest!: map_of_SomeD)
  show False
    using preflight_permits[OF assms(3) op] plan_classified[OF op] assms(1,2) member
    by (fastforce simp: operation_permitted_def classified_def)
qed

end

definition default_preflight ::
    "ucd \<Rightarrow> capability list \<Rightarrow> netplan_config \<Rightarrow> platform_error + unit" where
  "default_preflight U caps cfg = require_plan_capabilities U caps cfg"

definition default_wifi_status :: "32 word option \<Rightarrow> platform_error + wifi_interface_status list" where
  "default_wifi_status i = Inl (pe_unsupported ''native Wi-Fi status is unavailable on this platform'')"

definition default_wifi_scan ::
    "32 word option \<Rightarrow> bool \<Rightarrow> nat \<Rightarrow> platform_error + bool \<times> wifi_network list" where
  "default_wifi_scan i refresh timeout =
    Inl (pe_unsupported ''native Wi-Fi scanning is unavailable on this platform'')"

interpretation dflt: platform_backend U caps "default_preflight U caps" for U caps
  by unfold_locales (simp add: default_preflight_def)

section \<open>portable.rs\<close>

definition mk_capability :: "string \<Rightarrow> capability_state \<Rightarrow> string option \<Rightarrow> capability" where
  "mk_capability n s r = \<lparr>cap_name = n, cap_state = s, cap_reason = r\<rparr>"

definition portable_capabilities :: "capability list" where
  "portable_capabilities =
    [mk_capability ''config.validate'' Available None,
     mk_capability ''config.plan'' Available None,
     mk_capability ''config.apply'' DryRun (Some ''live apply is Windows-only''),
     mk_capability ''adapter.inventory'' Unavailable (Some ''native Windows IP Helper API is unavailable''),
     mk_capability ''adapter.state.apply'' Unavailable (Some ''Windows adapter state APIs are unavailable''),
     mk_capability ''adapter.mac.apply'' Unavailable (Some ''Windows adapter registry APIs are unavailable''),
     mk_capability ''adapter.ipv4.apply'' Unavailable (Some ''Windows IP configuration APIs are unavailable''),
     mk_capability ''firewall.apply'' Unavailable (Some ''Windows firewall APIs are unavailable''),
     mk_capability ''service.apply'' Unavailable (Some ''Windows service control manager is unavailable''),
     mk_capability ''driver.install'' Unavailable (Some ''Windows driver installation APIs are unavailable''),
     mk_capability ''driver.force_install'' Unavailable (Some ''Windows driver installation APIs are unavailable''),
     mk_capability ''adapter.restart'' Unavailable (Some ''Windows device APIs are unavailable''),
     mk_capability ''hook.execute'' Unavailable (Some ''live hooks are disabled outside Windows'')]
    @ map (\<lambda>n. mk_capability n Unavailable (Some ''Windows identity APIs are unavailable''))
        [''identity.computer_name.apply'', ''identity.workgroup.apply'', ''identity.dns_suffix.apply'']
    @ map (\<lambda>n. mk_capability n Unavailable (Some ''Windows WLAN API is unavailable''))
        [''wifi.status'', ''wifi.profile.apply'', ''wifi.scan'', ''wifi.connect'', ''wifi.disconnect'']
    @ map (\<lambda>n. mk_capability n Unavailable (Some ''Windows SMB APIs are unavailable''))
        [''smb.account.apply'', ''smb.share.apply'', ''smb.mapping.apply'']"

definition portable_adapters :: "netplan_error + adapter_info list" where
  "portable_adapters = Inr []"

definition portable_apply :: "netplan_config \<Rightarrow> platform_error + apply_report" where
  "portable_apply cfg = Inl (pe_unsupported ''live apply is available only on Windows'')"

lemma portable_offers_nothing:
  "\<forall>c\<in>set portable_capabilities. cap_state c = Available \<longrightarrow> cap_name c \<notin> set plan_capabilities"
  "\<forall>c\<in>set portable_capabilities. cap_name c = ''wifi.scan'' \<longrightarrow> cap_state c \<noteq> ReadOnly"
  by (simp_all add: portable_capabilities_def mk_capability_def plan_capabilities_def)

section \<open>Properties\<close>

text \<open>C9: the capability check passes exactly when the backend reports, for every operation of the
  plan, the required capability as available, or as read-only where the operation only reads;
  otherwise it fails with an unsupported error that names the first operation not permitted.\<close>

theorem capability_check_decides:
  "(require_plan_capabilities U caps cfg = Inr () \<longleftrightarrow>
      (\<forall>op\<in>set (build_plan U cfg). operation_permitted caps op))
    \<and> (require_plan_capabilities U caps cfg = Inl e \<longrightarrow>
        pe_kind e = Unsupported \<and>
        (\<exists>before op after. build_plan U cfg = before @ op # after
          \<and> (\<forall>b\<in>set before. operation_permitted caps b) \<and> \<not> operation_permitted caps op
          \<and> prefix (''operation '' @ debug_str U (op_id op) @ '' requires '') (pe_message e)))"
proof (intro conjI impI)
  show "require_plan_capabilities U caps cfg = Inr () \<longleftrightarrow>
      (\<forall>op\<in>set (build_plan U cfg). operation_permitted caps op)" by (rule require_plan_ok)
next
  assume "require_plan_capabilities U caps cfg = Inl e"
  then obtain before op after where split: "build_plan U cfg = before @ op # after"
    and before: "forR (require_capability U caps) before = Inr ()"
    and op: "require_capability U caps op = Inl e"
    unfolding require_plan_capabilities_def forR_first_err by blast
  note err = require_capability_error[OF op]
  have "\<not> operation_permitted caps op"
    using op require_capability_ok[of U caps op "()"] by auto
  moreover have "\<forall>b\<in>set before. operation_permitted caps b" using before by (simp add: ok_simps)
  ultimately show "\<exists>before op after. build_plan U cfg = before @ op # after
      \<and> (\<forall>b\<in>set before. operation_permitted caps b) \<and> \<not> operation_permitted caps op
      \<and> prefix (''operation '' @ debug_str U (op_id op) @ '' requires '') (pe_message e)"
    using split err by blast
  show "pe_kind e = Unsupported" using err by blast
qed

theorem capability_check_witness:
  "require_plan_capabilities sample_ucd portable_capabilities sample_config
      = Inl (pe_unsupported (''operation '' @ debug_str sample_ucd ''hook.0.before_apply''
          @ '' requires capability '' @ debug_str sample_ucd ''hook.execute''
          @ '': live hooks are disabled outside Windows''))
    \<and> pe_kind (pe_unsupported (''operation '' @ debug_str sample_ucd ''hook.0.before_apply''
          @ '' requires capability '' @ debug_str sample_ucd ''hook.execute''
          @ '': live hooks are disabled outside Windows'')) = Unsupported"
    (is "?run = Inl ?e \<and> _")
proof -
  have "?run = Inl ?e" by code_simp
  then show ?thesis
    using capability_check_decides[of sample_ucd portable_capabilities sample_config ?e] by blast
qed

text \<open>The development backend outside Windows lets a live configuration pass its preflight only
  when the document asks for nothing at all; every other document is refused before any mutation.\<close>

theorem portable_preflight_empty:
  "default_preflight U portable_capabilities cfg = Inr () \<longleftrightarrow> asks_nothing cfg"
proof
  show "asks_nothing cfg" if "default_preflight U portable_capabilities cfg = Inr ()"
    using dflt.unavailable_blocks[OF portable_offers_nothing that] by (simp add: plan_empty)
  show "default_preflight U portable_capabilities cfg = Inr ()" if "asks_nothing cfg"
    using that plan_empty[of U cfg] by (simp add: default_preflight_def require_plan_ok)
qed

end
