(* ===== verification/Validate.thy ===== *)
theory Validate
  imports Config
begin

unbundle bit_operations_syntax

text \<open>
  Semantic validation and \<open>NetplanConfig::parse\<close> of \<open>crates/netplan/src/config.rs\<close>: one definition
  per helper, one per loop of \<open>validate\<close>, and \<open>validate\<close> itself as their sequence, each with the
  error the code returns.  Theory \<open>Valid_Config\<close> states what a valid document is.
\<close>

section \<open>Matchers\<close>

definition canonical_mac :: "ucd \<Rightarrow> string \<Rightarrow> string" where
  "canonical_mac U v =
    concat (map (upper_scalar U)
      (filter (\<lambda>x. x \<noteq> '':'' \<and> x \<noteq> ''-'') (scalars v)))"

fun equal_optional_text :: "string option \<Rightarrow> string option \<Rightarrow> bool" where
  "equal_optional_text (Some l) (Some r) = eq_ignore_ascii_case l r"
| "equal_optional_text _ _ = False"

fun equal_optional_guid :: "string option \<Rightarrow> string option \<Rightarrow> bool" where
  "equal_optional_guid (Some l) (Some r) =
    eq_ignore_ascii_case (trim_matches ''{}'' l) (trim_matches ''{}'' r)"
| "equal_optional_guid _ _ = False"

fun equal_optional_mac :: "ucd \<Rightarrow> string option \<Rightarrow> string option \<Rightarrow> bool" where
  "equal_optional_mac U (Some l) (Some r) = (canonical_mac U l = canonical_mac U r)"
| "equal_optional_mac U _ _ = False"

fun equal_optional_index :: "32 word option \<Rightarrow> 32 word option \<Rightarrow> bool" where
  "equal_optional_index (Some l) (Some r) = (l = r)"
| "equal_optional_index _ _ = False"

definition selectors_share_stable_matcher ::
    "ucd \<Rightarrow> interface_selector \<Rightarrow> interface_selector \<Rightarrow> bool" where
  "selectors_share_stable_matcher U p t \<longleftrightarrow>
    equal_optional_index (sel_if_index p) (sel_if_index t)
    \<or> equal_optional_text (sel_name p) (sel_name t)
    \<or> equal_optional_guid (sel_guid p) (sel_guid t)
    \<or> equal_optional_mac U (sel_mac_address p) (sel_mac_address t)
    \<or> equal_optional_text (sel_description_contains p) (sel_description_contains t)"

definition selector_label :: "ucd \<Rightarrow> interface_selector \<Rightarrow> string" where
  "selector_label U s =
    (case sel_if_index s of
       Some i \<Rightarrow> ''if_index='' @ show_nat (unat i)
     | None \<Rightarrow> (case sel_name s of None \<Rightarrow> ''stable selector'' | Some n \<Rightarrow> ''name='' @ debug_str U n))"

definition reject_protected_selector ::
    "ucd \<Rightarrow> netplan_config \<Rightarrow> interface_selector \<Rightarrow> netplan_error + unit" where
  "reject_protected_selector U cfg t =
    fail_if (\<exists>p\<in>set (management_interfaces (protect cfg)). selectors_share_stable_matcher U p t)
      (Validation (''configuration targets a protected management interface ('' @ selector_label U t @ '')''))"

section \<open>Leaf checks\<close>

definition first_octet_of :: "string \<Rightarrow> 8 word" where
  "first_octet_of compact = word_of_nat (16 * hex_value (compact ! 0) + hex_value (compact ! 1))"

definition validate_mac :: "ucd \<Rightarrow> string \<Rightarrow> netplan_error + unit" where
  "validate_mac U mac =
    (let compact = filter (\<lambda>c. c \<noteq> CHR '':'' \<and> c \<noteq> CHR ''-'') mac in
     if length compact \<noteq> 12 \<or> \<not> list_all is_ascii_hexdigit compact then
       Inl (Validation (''invalid MAC address '' @ debug_str U mac @ ''; expected 12 hexadecimal digits''))
     else
       (let first_octet = first_octet_of compact in
        fail_if (first_octet AND 0b11 \<noteq> 0b10)
          (Validation (''MAC override '' @ debug_str U mac @
             '' must be a locally administered unicast address''))))"

definition opt_empty :: "string option \<Rightarrow> bool" where
  "opt_empty v \<longleftrightarrow> (case v of None \<Rightarrow> True | Some s \<Rightarrow> s = [])"

definition validate_selector :: "ucd \<Rightarrow> interface_selector \<Rightarrow> netplan_error + unit" where
  "validate_selector U s =
    checks
     [fail_if (sel_if_index s = None \<and> opt_empty (sel_name s) \<and> opt_empty (sel_guid s)
          \<and> opt_empty (sel_mac_address s) \<and> opt_empty (sel_description_contains s))
        (Validation ''each interface selector must contain at least one matcher''),
      if_some (sel_mac_address s) (validate_mac U)]"

definition is_dns_name :: "string \<Rightarrow> bool" where
  "is_dns_name v \<longleftrightarrow>
    v \<noteq> [] \<and> length v \<le> 255 \<and>
    list_all (\<lambda>l. l \<noteq> [] \<and> length l \<le> 63
      \<and> list_all (\<lambda>b. is_ascii_alphanumeric b \<or> b = CHR ''-'') l
      \<and> \<not> starts_with ''-'' l \<and> \<not> ends_with ''-'' l) (split_on (CHR ''.'') v)"

definition valid_computer_name :: "string \<Rightarrow> bool" where
  "valid_computer_name n \<longleftrightarrow>
    n \<noteq> [] \<and> length n \<le> 15
    \<and> list_all (\<lambda>b. is_ascii_alphanumeric b \<or> b = CHR ''-'') n
    \<and> list_ex (\<lambda>b. \<not> is_ascii_digit b) n
    \<and> \<not> starts_with ''-'' n \<and> \<not> ends_with ''-'' n"

definition valid_workgroup :: "string \<Rightarrow> bool" where
  "valid_workgroup w \<longleftrightarrow>
    w \<noteq> [] \<and> length w \<le> 15
    \<and> \<not> contains_any w [backslash, CHR ''/'', CHR '':'', CHR ''*'', CHR ''?'', dquote, CHR ''<'', CHR ''>'', CHR ''|'', nul]"

definition validate_identity :: "ucd \<Rightarrow> identity_config \<Rightarrow> netplan_error + unit" where
  "validate_identity U i =
    checks
     [if_some (computer_name i) (\<lambda>n. fail_if (\<not> valid_computer_name n)
        (Validation (''invalid NetBIOS computer name '' @ debug_str U n))),
      if_some (workgroup i) (\<lambda>w. fail_if (\<not> valid_workgroup w)
        (Validation (''invalid workgroup name '' @ debug_str U w))),
      if_some (dns_suffix i) (\<lambda>d. fail_if (\<not> is_dns_name d)
        (Validation (''invalid primary DNS suffix '' @ debug_str U d)))]"

definition not_a_host :: "ipv4_addr \<Rightarrow> bool" where
  "not_a_host a \<longleftrightarrow> ipv4_is_unspecified a \<or> ipv4_is_multicast a \<or> ipv4_is_broadcast a"

fun validate_ipv4 :: "ipv4_config \<Rightarrow> netplan_error + unit" where
  "validate_ipv4 (Dhcp d) = Inr ()"
| "validate_ipv4 (Static addresses gateways dns wins) =
    checks
     [fail_if (addresses = []) (Validation ''static IPv4 mode requires at least one address''),
      forR (\<lambda>a. fail_if (not_a_host (fst a))
        (Validation (''invalid static IPv4 host address '' @ ipv4_net_text a))) addresses,
      forR (\<lambda>g. fail_if (not_a_host g) (Validation (''invalid IPv4 gateway '' @ ipv4_text g))) gateways,
      forR (\<lambda>s. fail_if (ip_is_unspecified s \<or> ip_is_multicast s)
        (Validation (''invalid DNS server '' @ ip_text s))) dns,
      forR (\<lambda>s. fail_if (not_a_host s) (Validation (''invalid WINS server '' @ ipv4_text s))) wins]"

definition wifi_profile_name :: "wifi_profile \<Rightarrow> string" where
  "wifi_profile_name p = (case wp_name p of None \<Rightarrow> wp_ssid p | Some n \<Rightarrow> n)"

fun validate_optional_secret :: "secret_ref option \<Rightarrow> netplan_error + unit" where
  "validate_optional_secret (Some (Env name)) =
    fail_if (is_blank name \<or> contains_char name nul)
      (Validation ''secret environment variable name must not be empty or contain NUL'')"
| "validate_optional_secret (Some (Literal v)) =
    fail_if (contains_char v nul) (Validation ''literal secret must not contain NUL'')"
| "validate_optional_secret None = Inr ()"

definition find_smb_account :: "netplan_config \<Rightarrow> string \<Rightarrow> smb_account option" where
  "find_smb_account cfg r = find (\<lambda>a. eq_ignore_ascii_case (acc_id a) r) (smb_accounts (smb cfg))"

definition validate_smb_account_reference ::
    "ucd \<Rightarrow> netplan_config \<Rightarrow> string \<Rightarrow> netplan_error + unit" where
  "validate_smb_account_reference U cfg r =
    fail_if (find_smb_account cfg r = None)
      (Validation (''unknown SMB account reference '' @ debug_str U r))"

definition validate_service_name :: "ucd \<Rightarrow> string \<Rightarrow> netplan_error + unit" where
  "validate_service_name U n =
    fail_if (is_blank n \<or> length n > 256 \<or> contains_any n [backslash, CHR ''/'', nul])
      (Validation (''invalid Windows service name '' @ debug_str U n))"

definition service_requested_stopped :: "netplan_config \<Rightarrow> string \<Rightarrow> bool" where
  "service_requested_stopped cfg n \<longleftrightarrow>
    list_ex (\<lambda>s. eq_ignore_ascii_case (svc_name s) n \<and> svc_state s = Stopped) (services cfg)"

definition validate_psk :: "string \<Rightarrow> netplan_error + unit" where
  "validate_psk s =
    (let is_hex_64 = (length s = 64 \<and> list_all is_ascii_hexdigit s) in
     fail_if (\<not> (8 \<le> length s \<and> length s \<le> 63) \<and> \<not> is_hex_64)
       (Validation ''Wi-Fi PSK must be 8 to 63 bytes or 64 hexadecimal digits''))"

definition is_unc_share :: "string \<Rightarrow> bool" where
  "is_unc_share p \<longleftrightarrow>
    (let parts = split_on backslash (dropWhile (\<lambda>c. c = backslash) p) in
     starts_with [backslash, backslash] p
     \<and> (case parts of a # b # _ \<Rightarrow> a \<noteq> [] \<and> b \<noteq> [] | _ \<Rightarrow> False))"

definition is_drive_letter :: "string \<Rightarrow> bool" where
  "is_drive_letter v \<longleftrightarrow> length v = 2 \<and> is_ascii_alphabetic (v ! 0) \<and> v ! 1 = CHR '':''"

definition is_absolute_windows_path :: "string \<Rightarrow> bool" where
  "is_absolute_windows_path v \<longleftrightarrow>
    (length v \<ge> 3 \<and> is_ascii_alphabetic (v ! 0) \<and> v ! 1 = CHR '':''
      \<and> (v ! 2 = backslash \<or> v ! 2 = CHR ''/''))
    \<or> starts_with [backslash, backslash, CHR ''?'', backslash] v
    \<or> starts_with [backslash, backslash, CHR ''.'', backslash] v"

section \<open>The loops of validate\<close>

fun action_selector :: "wifi_action \<Rightarrow> interface_selector option" where
  "action_selector (Scan s) = s"
| "action_selector (Connect s p) = s"
| "action_selector (Disconnect s) = s"

fun driver_selector :: "driver_operation \<Rightarrow> interface_selector option" where
  "driver_selector (RestartAdapter s) = Some s"
| "driver_selector (Install a b c d) = None"

definition all_selectors :: "netplan_config \<Rightarrow> interface_selector list" where
  "all_selectors cfg =
    management_interfaces (protect cfg)
    @ map ad_selector (adapters cfg)
    @ List.map_filter wp_selector (wifi cfg)
    @ List.map_filter action_selector (wifi_actions cfg)
    @ List.map_filter driver_selector (drivers cfg)"

definition validate_adapter :: "ucd \<Rightarrow> netplan_config \<Rightarrow> adapter_config \<Rightarrow> netplan_error + unit" where
  "validate_adapter U cfg a =
    checks
     [reject_protected_selector U cfg (ad_selector a),
      if_some (ad_mac_address a) (validate_mac U),
      if_some (ad_ipv4 a) validate_ipv4]"

fun validate_wifi_secret :: "wifi_authentication \<Rightarrow> secret_ref option \<Rightarrow> netplan_error + unit" where
  "validate_wifi_secret auth psk =
    (case psk of
       None \<Rightarrow> fail_if (auth \<noteq> Open) (Validation ''secured Wi-Fi profiles require a PSK reference'')
     | Some s \<Rightarrow>
         if auth = Open then Inl (Validation ''open Wi-Fi profiles must not contain a PSK'')
         else (case s of
             Literal v \<Rightarrow>
               checks
                [validate_psk v,
                 fail_if (auth = Wpa3Personal \<and> length v = 64)
                  (Validation ''WPA3-Personal requires an 8 to 63 byte passphrase, not a 64-digit raw PSK'')]
           | Env n \<Rightarrow> fail_if (n = [])
                (Validation ''secret environment variable name must not be empty'')))"

definition validate_wifi_profile ::
    "ucd \<Rightarrow> netplan_config \<Rightarrow> wifi_profile \<Rightarrow> netplan_error + unit" where
  "validate_wifi_profile U cfg w =
    checks
     [if_some (wp_selector w) (reject_protected_selector U cfg),
      fail_if (wp_ssid w = [] \<or> length (wp_ssid w) > 32)
        (Validation ''Wi-Fi SSID must contain 1 to 32 bytes''),
      if_some (wp_name w) (\<lambda>n. fail_if (is_blank n \<or> contains_char n nul)
        (Validation ''Wi-Fi profile name must not be empty or contain NUL'')),
      validate_wifi_secret (wp_authentication w) (wp_psk w)]"

definition validate_wifi_name :: "ucd \<Rightarrow> wifi_profile list \<Rightarrow> wifi_profile \<Rightarrow> netplan_error + unit" where
  "validate_wifi_name U earlier w =
    fail_if (\<exists>o'\<in>set earlier. eq_ignore_ascii_case (wifi_profile_name o') (wifi_profile_name w))
      (Validation (''duplicate Wi-Fi profile name '' @ debug_str U (wifi_profile_name w)))"

fun validate_wifi_action :: "ucd \<Rightarrow> netplan_config \<Rightarrow> wifi_action \<Rightarrow> netplan_error + unit" where
  "validate_wifi_action U cfg (Connect s p) =
    fail_if (\<not> (\<exists>c\<in>set (wifi cfg). eq_ignore_ascii_case (wifi_profile_name c) p))
      (Validation (''Wi-Fi connect references unknown Wi-Fi profile '' @ debug_str U p))"
| "validate_wifi_action U cfg (Scan s) = Inr ()"
| "validate_wifi_action U cfg (Disconnect s) = Inr ()"

definition local_user_forbidden :: "char list" where
  "local_user_forbidden =
    [backslash, CHR ''/'', CHR ''@'', CHR ''['', CHR '']'', CHR '':'', CHR '';'', CHR ''|'', CHR ''='',
     CHR ''+'', CHR ''*'', CHR ''?'', CHR ''<'', CHR ''>'', dquote, CHR '','']"

definition validate_smb_account ::
    "ucd \<Rightarrow> smb_account list \<Rightarrow> smb_account \<Rightarrow> netplan_error + unit" where
  "validate_smb_account U earlier a =
    checks
     [fail_if (is_blank (acc_id a) \<or> contains_char (acc_id a) nul)
        (Validation ''SMB account id must not be empty or contain NUL''),
      fail_if (is_blank (acc_username a) \<or> contains_char (acc_username a) nul)
        (Validation (''SMB account '' @ debug_str U (acc_id a) @ '' has an invalid username'')),
      fail_if (acc_kind a = Local
          \<and> (length (acc_username a) > 20 \<or> contains_any (acc_username a) local_user_forbidden))
        (Validation (''SMB local account '' @ debug_str U (acc_id a)
          @ '' has an invalid Windows user name'')),
      fail_if (\<exists>o'\<in>set earlier. eq_ignore_ascii_case (acc_id o') (acc_id a))
        (Validation (''duplicate SMB account id '' @ debug_str U (acc_id a))),
      validate_optional_secret (acc_password a)]"

definition validate_share_account ::
    "ucd \<Rightarrow> netplan_config \<Rightarrow> smb_share \<Rightarrow> string list \<Rightarrow> string \<Rightarrow> netplan_error + unit" where
  "validate_share_account U cfg share earlier r =
    (case find_smb_account cfg r of
       None \<Rightarrow> Inl (Validation (''unknown SMB account reference '' @ debug_str U r))
     | Some declared \<Rightarrow>
         checks
          [fail_if (acc_kind declared \<noteq> Local)
             (Validation (''SMB share '' @ debug_str U (sh_name share) @ '' requires account ''
               @ debug_str U r @ '' to have kind local'')),
           fail_if (\<exists>o'\<in>set earlier. eq_ignore_ascii_case o' r)
             (Validation (''SMB share '' @ debug_str U (sh_name share)
               @ '' contains duplicate account reference '' @ debug_str U r))])"

definition reserved_share_name :: "string \<Rightarrow> bool" where
  "reserved_share_name n \<longleftrightarrow>
    to_ascii_lowercase n = ''pipe'' \<or> to_ascii_lowercase n = ''mailslot''"

definition validate_smb_share ::
    "ucd \<Rightarrow> netplan_config \<Rightarrow> smb_share list \<Rightarrow> smb_share \<Rightarrow> netplan_error + unit" where
  "validate_smb_share U cfg earlier s =
    checks
     [fail_if (is_blank (sh_name s) \<or> length (sh_name s) > 80
          \<or> contains_any (sh_name s) [backslash, CHR ''/'', nul] \<or> reserved_share_name (sh_name s))
        (Validation (''invalid SMB share name '' @ debug_str U (sh_name s))),
      fail_if (\<exists>o'\<in>set earlier. eq_ignore_ascii_case (sh_name o') (sh_name s))
        (Validation (''duplicate SMB share name '' @ debug_str U (sh_name s))),
      fail_if (\<not> is_absolute_windows_path (sh_path s) \<or> contains_char (sh_path s) nul)
        (Validation (''SMB share '' @ debug_str U (sh_name s)
          @ '' requires an absolute local Windows path'')),
      if_some (sh_description s) (\<lambda>d. fail_if (length d > 48 \<or> contains_char d nul)
        (Validation (''SMB share '' @ debug_str U (sh_name s)
          @ '' description exceeds 48 bytes or contains NUL''))),
      for_pre (validate_share_account U cfg s) [] (sh_accounts s)]"

definition validate_smb_mapping ::
    "ucd \<Rightarrow> netplan_config \<Rightarrow> smb_mapping list \<Rightarrow> smb_mapping \<Rightarrow> netplan_error + unit" where
  "validate_smb_mapping U cfg earlier m =
    checks
     [fail_if (\<not> is_unc_share (sm_remote m) \<or> contains_char (sm_remote m) nul)
        (Validation (''SMB mapping '' @ debug_str U (sm_remote m) @ '' must be a UNC share path'')),
      if_some (sm_local m) (\<lambda>l. fail_if (\<not> is_drive_letter l)
        (Validation (''invalid SMB drive letter '' @ debug_str U l))),
      if_some (sm_local m) (\<lambda>l. fail_if
          (\<exists>o'\<in>set (List.map_filter sm_local earlier). eq_ignore_ascii_case o' l)
        (Validation (''duplicate SMB drive mapping for '' @ debug_str U l))),
      if_some (sm_account m) (\<lambda>a. checks
        [validate_smb_account_reference U cfg a,
         fail_if (sm_username m \<noteq> None \<or> sm_password m \<noteq> None)
          (Validation (''SMB mapping '' @ debug_str U (sm_remote m)
            @ '' cannot combine account with inline credentials''))]),
      fail_if (sm_password m \<noteq> None \<and> sm_username m = None)
        (Validation (''SMB mapping '' @ debug_str U (sm_remote m)
          @ '' provides a password without a username'')),
      validate_optional_secret (sm_password m)]"

definition validate_service ::
    "ucd \<Rightarrow> service_config list \<Rightarrow> service_config \<Rightarrow> netplan_error + unit" where
  "validate_service U earlier s =
    checks
     [validate_service_name U (svc_name s),
      fail_if (\<exists>o'\<in>set earlier. eq_ignore_ascii_case (svc_name o') (svc_name s))
        (Validation (''duplicate service operation for '' @ debug_str U (svc_name s)))]"

fun validate_driver :: "ucd \<Rightarrow> netplan_config \<Rightarrow> driver_operation \<Rightarrow> netplan_error + unit" where
  "validate_driver U cfg (Install inf_path hw force restart) =
    checks
     [fail_if (is_blank inf_path \<or> contains_char inf_path nul \<or> \<not> ends_with ''.inf'' (to_ascii_lowercase inf_path))
        (Validation (''driver install path '' @ debug_str U inf_path @ '' must name an .inf file'')),
      if_some hw (\<lambda>v. fail_if (is_blank v \<or> contains_char v nul)
        (Validation ''driver hardware_id must not be empty or contain NUL'')),
      fail_if (restart \<noteq> Never \<and> hw = None)
        (Validation ''driver restart policy requires a hardware_id'')]"
| "validate_driver U cfg (RestartAdapter s) = reject_protected_selector U cfg s"

definition validate_hook :: "hook_config \<Rightarrow> netplan_error + unit" where
  "validate_hook h =
    checks
     [fail_if (is_blank (hk_program h) \<or> contains_char (hk_program h) nul)
        (Validation ''hook executable must not be empty or contain NUL''),
      fail_if (list_ex (\<lambda>a. contains_char a nul) (hk_args h))
        (Validation ''hook arguments must not contain NUL'')]"

definition validate :: "ucd \<Rightarrow> netplan_config \<Rightarrow> netplan_error + unit" where
  "validate U cfg =
    checks
     [fail_if (version cfg \<noteq> 1)
        (Validation (''unsupported schema version '' @ show_nat (unat (version cfg)) @ ''; expected 1'')),
      forR (validate_selector U) (all_selectors cfg),
      if_some (identity cfg) (validate_identity U),
      forR (validate_adapter U cfg) (adapters cfg),
      forR (validate_wifi_profile U cfg) (wifi cfg),
      for_pre (validate_wifi_name U) [] (wifi cfg),
      forR (validate_wifi_action U cfg) (wifi_actions cfg),
      for_pre (validate_smb_account U) [] (smb_accounts (smb cfg)),
      for_pre (validate_smb_share U cfg) [] (smb_shares (smb cfg)),
      for_pre (validate_smb_mapping U cfg) [] (smb_mappings (smb cfg)),
      for_pre (validate_service U) [] (services cfg),
      fail_if (smb_shares (smb cfg) \<noteq> [] \<and> service_requested_stopped cfg ''LanmanServer'')
        (Validation ''SMB shares cannot be combined with stopping LanmanServer''),
      fail_if (smb_mappings (smb cfg) \<noteq> [] \<and> service_requested_stopped cfg ''LanmanWorkstation'')
        (Validation ''SMB mappings cannot be combined with stopping LanmanWorkstation''),
      forR (validate_driver U cfg) (drivers cfg),
      forR validate_hook (hooks cfg)]"

section \<open>parse\<close>

text \<open>
  The two parsers of third-party crates (\<open>serde_json\<close>, \<open>serde_saphyr\<close>) are parameters: text to a
  document, or the parser's message.
\<close>

record parsers =
  json_from_str :: "string \<Rightarrow> string + netplan_config"
  yaml_from_str :: "string \<Rightarrow> string + netplan_config"

definition resolve_format :: "config_format \<Rightarrow> string \<Rightarrow> config_format" where
  "resolve_format f text =
    (case f of
       Auto \<Rightarrow> if starts_with ''{'' (trim_start text) \<or> starts_with ''['' (trim_start text)
               then Json else Yaml
     | explicit \<Rightarrow> explicit)"

definition decode_document :: "parsers \<Rightarrow> config_format \<Rightarrow> string \<Rightarrow> netplan_error + netplan_config" where
  "decode_document P f text =
    (if resolve_format f text = Json then map_errR (Decode ''JSON'') (json_from_str P text)
     else map_errR (Decode ''YAML'') (yaml_from_str P text))"

definition parse :: "ucd \<Rightarrow> parsers \<Rightarrow> string \<Rightarrow> config_format \<Rightarrow> netplan_error + netplan_config" where
  "parse U P document f =
    (case utf8_error 0 document of
       Some e \<Rightarrow> Inl (Decode ''UTF-8'' (utf8_error_text e))
     | None \<Rightarrow>
         bindR (decode_document P f document) (\<lambda>cfg.
         bindR (validate U cfg) (\<lambda>_. Inr cfg)))"

lemma resolve_format_not_auto: "resolve_format f text \<noteq> Auto"
  by (cases f) (simp_all add: resolve_format_def)

end
