(* ===== verification/Valid_Config.thy ===== *)
theory Valid_Config
  imports Validate Sample
begin

text \<open>
  The contract of \<open>validate\<close>: a declarative description \<open>valid_config\<close> of the documents the
  daemon may act on, and the lemmas that every check of \<open>Validate\<close> decides its clause of it.
\<close>

unbundle bit_operations_syntax

section \<open>What a valid document is\<close>

definition case_distinct :: "string list \<Rightarrow> bool" where
  "case_distinct xs \<longleftrightarrow> distinct (map to_ascii_lowercase xs)"

definition targets_protected :: "ucd \<Rightarrow> netplan_config \<Rightarrow> interface_selector \<Rightarrow> bool" where
  "targets_protected U cfg t \<longleftrightarrow>
    (\<exists>p\<in>set (management_interfaces (protect cfg)). selectors_share_stable_matcher U p t)"

text \<open>Twelve hexadecimal digits whose first octet has the local bit set and the group bit clear.\<close>

definition local_unicast_mac :: "string \<Rightarrow> bool" where
  "local_unicast_mac m \<longleftrightarrow>
    (let ds = filter (\<lambda>c. c \<noteq> CHR '':'' \<and> c \<noteq> CHR ''-'') m in
     length ds = 12 \<and> (\<forall>d\<in>set ds. is_ascii_hexdigit d)
     \<and> bit (first_octet_of ds) 1 \<and> \<not> bit (first_octet_of ds) 0)"

definition valid_selector :: "interface_selector \<Rightarrow> bool" where
  "valid_selector s \<longleftrightarrow>
    (sel_if_index s \<noteq> None
      \<or> (\<exists>m\<in>{sel_name s, sel_guid s, sel_mac_address s, sel_description_contains s}. \<not> opt_empty m))
    \<and> (\<forall>m\<in>set_option (sel_mac_address s). local_unicast_mac m)"

definition valid_identity :: "identity_config \<Rightarrow> bool" where
  "valid_identity i \<longleftrightarrow>
    (\<forall>n\<in>set_option (computer_name i). valid_computer_name n)
    \<and> (\<forall>w\<in>set_option (workgroup i). valid_workgroup w)
    \<and> (\<forall>d\<in>set_option (dns_suffix i). is_dns_name d)"

fun valid_ipv4 :: "ipv4_config \<Rightarrow> bool" where
  "valid_ipv4 (Dhcp d) = True"
| "valid_ipv4 (Static addresses gateways dns wins) =
    (addresses \<noteq> []
     \<and> (\<forall>a\<in>set (map fst addresses @ gateways @ wins). \<not> not_a_host a)
     \<and> (\<forall>s\<in>set dns. \<not> ip_is_unspecified s \<and> \<not> ip_is_multicast s))"

definition valid_adapter :: "ucd \<Rightarrow> netplan_config \<Rightarrow> adapter_config \<Rightarrow> bool" where
  "valid_adapter U cfg a \<longleftrightarrow>
    \<not> targets_protected U cfg (ad_selector a)
    \<and> (\<forall>m\<in>set_option (ad_mac_address a). local_unicast_mac m)
    \<and> (\<forall>c\<in>set_option (ad_ipv4 a). valid_ipv4 c)"

text \<open>
  What a profile may carry as its key: nothing on an open network; otherwise a named variable, an
  8 to 63 byte passphrase, or (WPA2 only) the 64 digits of a raw key.
\<close>

definition valid_key :: "wifi_authentication \<Rightarrow> secret_ref option \<Rightarrow> bool" where
  "valid_key auth psk \<longleftrightarrow>
    (auth = Open \<and> psk = None)
    \<or> (auth \<noteq> Open \<and> (\<exists>k\<in>set_option psk. case k of
          Env n \<Rightarrow> n \<noteq> []
        | Literal v \<Rightarrow> (8 \<le> length v \<and> length v \<le> 63)
            \<or> (auth = Wpa2Personal \<and> length v = 64 \<and> (\<forall>c\<in>set v. is_ascii_hexdigit c))))"

definition valid_wifi :: "ucd \<Rightarrow> netplan_config \<Rightarrow> wifi_profile \<Rightarrow> bool" where
  "valid_wifi U cfg w \<longleftrightarrow>
    (\<forall>s\<in>set_option (wp_selector w). \<not> targets_protected U cfg s)
    \<and> 1 \<le> length (wp_ssid w) \<and> length (wp_ssid w) \<le> 32
    \<and> (\<forall>n\<in>set_option (wp_name w). \<not> is_blank n \<and> nul \<notin> set n)
    \<and> valid_key (wp_authentication w) (wp_psk w)"

definition valid_secret :: "secret_ref option \<Rightarrow> bool" where
  "valid_secret s \<longleftrightarrow>
    (\<forall>k\<in>set_option s. case k of
        Env n \<Rightarrow> \<not> is_blank n \<and> nul \<notin> set n
      | Literal v \<Rightarrow> nul \<notin> set v)"

definition valid_account :: "smb_account \<Rightarrow> bool" where
  "valid_account a \<longleftrightarrow>
    \<not> is_blank (acc_id a) \<and> nul \<notin> set (acc_id a)
    \<and> \<not> is_blank (acc_username a) \<and> nul \<notin> set (acc_username a)
    \<and> (acc_kind a = Local \<longrightarrow>
         length (acc_username a) \<le> 20 \<and> set (acc_username a) \<inter> set local_user_forbidden = {})
    \<and> valid_secret (acc_password a)"

definition names_account :: "netplan_config \<Rightarrow> smb_account_kind set \<Rightarrow> string \<Rightarrow> bool" where
  "names_account cfg kinds r \<longleftrightarrow>
    (\<exists>a\<in>set (smb_accounts (smb cfg)). eq_ignore_ascii_case (acc_id a) r \<and> acc_kind a \<in> kinds)"

definition valid_share :: "netplan_config \<Rightarrow> smb_share \<Rightarrow> bool" where
  "valid_share cfg s \<longleftrightarrow>
    \<not> is_blank (sh_name s) \<and> length (sh_name s) \<le> 80
    \<and> set (sh_name s) \<inter> {backslash, CHR ''/'', nul} = {} \<and> \<not> reserved_share_name (sh_name s)
    \<and> is_absolute_windows_path (sh_path s) \<and> nul \<notin> set (sh_path s)
    \<and> (\<forall>d\<in>set_option (sh_description s). length d \<le> 48 \<and> nul \<notin> set d)
    \<and> (\<forall>r\<in>set (sh_accounts s). names_account cfg {Local} r)
    \<and> case_distinct (sh_accounts s)"

definition valid_mapping :: "netplan_config \<Rightarrow> smb_mapping \<Rightarrow> bool" where
  "valid_mapping cfg m \<longleftrightarrow>
    is_unc_share (sm_remote m) \<and> nul \<notin> set (sm_remote m)
    \<and> (\<forall>l\<in>set_option (sm_local m). is_drive_letter l)
    \<and> (\<forall>a\<in>set_option (sm_account m). names_account cfg UNIV a
         \<and> sm_username m = None \<and> sm_password m = None)
    \<and> (sm_username m = None \<longrightarrow> sm_password m = None)
    \<and> valid_secret (sm_password m)"

definition valid_service :: "service_config \<Rightarrow> bool" where
  "valid_service s \<longleftrightarrow>
    \<not> is_blank (svc_name s) \<and> length (svc_name s) \<le> 256
    \<and> set (svc_name s) \<inter> {backslash, CHR ''/'', nul} = {}"

fun valid_driver :: "ucd \<Rightarrow> netplan_config \<Rightarrow> driver_operation \<Rightarrow> bool" where
  "valid_driver U cfg (Install path hw force restart) =
    (\<not> is_blank path \<and> nul \<notin> set path \<and> suffix ''.inf'' (to_ascii_lowercase path)
     \<and> (\<forall>v\<in>set_option hw. \<not> is_blank v \<and> nul \<notin> set v)
     \<and> (hw = None \<longrightarrow> restart = Never))"
| "valid_driver U cfg (RestartAdapter s) = (\<not> targets_protected U cfg s)"

definition valid_hook :: "hook_config \<Rightarrow> bool" where
  "valid_hook h \<longleftrightarrow>
    \<not> is_blank (hk_program h) \<and> nul \<notin> set (hk_program h) \<and> (\<forall>a\<in>set (hk_args h). nul \<notin> set a)"

definition never_stops :: "netplan_config \<Rightarrow> string \<Rightarrow> bool" where
  "never_stops cfg n \<longleftrightarrow>
    (\<forall>s\<in>set (services cfg). eq_ignore_ascii_case (svc_name s) n \<longrightarrow> svc_state s = Running)"

definition declared_profile :: "netplan_config \<Rightarrow> string \<Rightarrow> bool" where
  "declared_profile cfg p \<longleftrightarrow>
    (\<exists>w\<in>set (wifi cfg). eq_ignore_ascii_case (wifi_profile_name w) p)"

definition valid_wifi_action :: "netplan_config \<Rightarrow> wifi_action \<Rightarrow> bool" where
  "valid_wifi_action cfg a \<longleftrightarrow> (case a of Connect s p \<Rightarrow> declared_profile cfg p | _ \<Rightarrow> True)"

definition valid_smb :: "netplan_config \<Rightarrow> bool" where
  "valid_smb cfg \<longleftrightarrow>
    (\<forall>a\<in>set (smb_accounts (smb cfg)). valid_account a)
    \<and> case_distinct (map acc_id (smb_accounts (smb cfg)))
    \<and> (\<forall>s\<in>set (smb_shares (smb cfg)). valid_share cfg s)
    \<and> case_distinct (map sh_name (smb_shares (smb cfg)))
    \<and> (\<forall>m\<in>set (smb_mappings (smb cfg)). valid_mapping cfg m)
    \<and> case_distinct (List.map_filter sm_local (smb_mappings (smb cfg)))"

definition valid_config :: "ucd \<Rightarrow> netplan_config \<Rightarrow> bool" where
  "valid_config U cfg \<longleftrightarrow>
    version cfg = 1
    \<and> (\<forall>s\<in>set (all_selectors cfg). valid_selector s)
    \<and> (\<forall>i\<in>set_option (identity cfg). valid_identity i)
    \<and> (\<forall>a\<in>set (adapters cfg). valid_adapter U cfg a)
    \<and> (\<forall>w\<in>set (wifi cfg). valid_wifi U cfg w)
    \<and> case_distinct (map wifi_profile_name (wifi cfg))
    \<and> (\<forall>a\<in>set (wifi_actions cfg). valid_wifi_action cfg a)
    \<and> valid_smb cfg
    \<and> (\<forall>s\<in>set (services cfg). valid_service s)
    \<and> case_distinct (map svc_name (services cfg))
    \<and> (smb_shares (smb cfg) \<noteq> [] \<longrightarrow> never_stops cfg ''LanmanServer'')
    \<and> (smb_mappings (smb cfg) \<noteq> [] \<longrightarrow> never_stops cfg ''LanmanWorkstation'')
    \<and> (\<forall>d\<in>set (drivers cfg). valid_driver U cfg d)
    \<and> (\<forall>h\<in>set (hooks cfg). valid_hook h)"

section \<open>Each check decides its clause\<close>

lemma prefix_duplicate_free:
  "(\<forall>i<length xs. \<not> (\<exists>y\<in>set (take i xs). eq_ignore_ascii_case (g y) (g (xs ! i))))
    \<longleftrightarrow> case_distinct (map g xs)"
  using distinct_by_prefix[of xs "to_ascii_lowercase \<circ> g"]
  by (simp add: case_distinct_def eq_ignore_ascii_case_def image_iff comp_def eq_commute)

lemma all_nth_conj:
  "(\<forall>i<length xs. P (xs ! i) \<and> Q i) \<longleftrightarrow> (\<forall>x\<in>set xs. P x) \<and> (\<forall>i<length xs. Q i)"
  by (metis in_set_conv_nth)

text \<open>A loop whose body checks its element and looks for an equal name among the earlier ones.\<close>

lemma unique_loop_ok:
  assumes "\<And>pre x u. f pre x = Inr u \<longleftrightarrow>
    P x \<and> \<not> (\<exists>y\<in>set pre. eq_ignore_ascii_case (g y) (g x))"
  shows "for_pre f [] xs = Inr u \<longleftrightarrow> (\<forall>x\<in>set xs. P x) \<and> case_distinct (map g xs)"
  using all_nth_conj[of xs P] prefix_duplicate_free[of xs g] by (simp add: for_pre_ok assms)

lemma two_low_bits: "(w :: 8 word) AND 3 = 2 \<longleftrightarrow> bit w 1 \<and> \<not> bit w 0"
proof -
  have m: "w AND 3 = take_bit 2 w" by (simp add: take_bit_eq_mask mask_eq_exp_minus_1)
  have "take_bit 2 w = 2 \<longleftrightarrow> unat (take_bit 2 w) = 2"
    by (simp add: word_unat_eq_iff)
  also have "unat (take_bit 2 w) = unat w mod 4" by (simp add: unat_mod_distrib take_bit_eq_mod)
  also have "unat w mod 4 = 2 \<longleftrightarrow> odd (unat w div 2) \<and> \<not> odd (unat w)" by presburger
  also have "odd (unat w div 2) \<longleftrightarrow> bit w 1"
    using bit_iff_odd[of "unat w" 1] by (simp add: bit_unsigned_iff)
  also have "odd (unat w) \<longleftrightarrow> bit w 0"
    using bit_iff_odd[of "unat w" 0] by (simp add: bit_unsigned_iff)
  finally show ?thesis using m by simp
qed

lemma validate_mac_ok [ok_simps]: "validate_mac U m = Inr u \<longleftrightarrow> local_unicast_mac m"
  by (auto simp: validate_mac_def local_unicast_mac_def Let_def ok_simps two_low_bits list_all_iff)

lemma validate_selector_ok [ok_simps]: "validate_selector U s = Inr u \<longleftrightarrow> valid_selector s"
  by (auto simp: validate_selector_def valid_selector_def ok_simps)

lemma reject_protected_ok [ok_simps]:
  "reject_protected_selector U cfg t = Inr u \<longleftrightarrow> \<not> targets_protected U cfg t"
  by (simp add: reject_protected_selector_def targets_protected_def ok_simps)

lemma validate_identity_ok [ok_simps]: "validate_identity U i = Inr u \<longleftrightarrow> valid_identity i"
  by (auto simp: validate_identity_def valid_identity_def ok_simps)

lemma validate_ipv4_ok [ok_simps]: "validate_ipv4 c = Inr u \<longleftrightarrow> valid_ipv4 c"
  by (cases c) (auto simp: ok_simps)

lemma validate_adapter_ok [ok_simps]: "validate_adapter U cfg a = Inr u \<longleftrightarrow> valid_adapter U cfg a"
  by (auto simp: validate_adapter_def valid_adapter_def ok_simps)

lemma validate_psk_ok [ok_simps]:
  "validate_psk s = Inr u \<longleftrightarrow>
    (8 \<le> length s \<and> length s \<le> 63) \<or> (length s = 64 \<and> (\<forall>c\<in>set s. is_ascii_hexdigit c))"
  by (auto simp: validate_psk_def Let_def ok_simps list_all_iff)

lemma validate_wifi_secret_ok [ok_simps]:
  "validate_wifi_secret auth psk = Inr u \<longleftrightarrow> valid_key auth psk"
  by (cases auth; cases psk)
    (auto simp: valid_key_def ok_simps split: secret_ref.splits)

lemma validate_wifi_profile_ok [ok_simps]:
  "validate_wifi_profile U cfg w = Inr u \<longleftrightarrow> valid_wifi U cfg w"
  by (auto simp: validate_wifi_profile_def valid_wifi_def ok_simps contains_char_def Suc_le_eq
      simp del: validate_wifi_secret.simps)

lemma validate_wifi_action_ok [ok_simps]:
  "validate_wifi_action U cfg a = Inr u \<longleftrightarrow> valid_wifi_action cfg a"
  by (cases a) (auto simp: valid_wifi_action_def declared_profile_def ok_simps)

lemma validate_optional_secret_ok [ok_simps]:
  "validate_optional_secret s = Inr u \<longleftrightarrow> valid_secret s"
  by (cases s rule: validate_optional_secret.cases)
    (auto simp: valid_secret_def ok_simps contains_char_def)

lemma contains_any_iff: "contains_any s cs \<longleftrightarrow> set s \<inter> set cs \<noteq> {}"
  by (auto simp: contains_any_def)

lemma validate_smb_account_ok [ok_simps]:
  "validate_smb_account U pre a = Inr u \<longleftrightarrow>
    valid_account a \<and> \<not> (\<exists>y\<in>set pre. eq_ignore_ascii_case (acc_id y) (acc_id a))"
  by (auto simp: validate_smb_account_def valid_account_def ok_simps contains_any_iff
      contains_char_def)

lemma find_smb_account_some:
  "find_smb_account cfg r = Some a \<Longrightarrow>
    a \<in> set (smb_accounts (smb cfg)) \<and> eq_ignore_ascii_case (acc_id a) r"
  by (auto simp: find_smb_account_def find_Some_iff)

lemma find_smb_account_none:
  "find_smb_account cfg r = None \<longleftrightarrow> \<not> names_account cfg UNIV r"
  by (auto simp: find_smb_account_def find_None_iff names_account_def)

lemma case_distinct_unique:
  assumes "case_distinct (map g xs)" "x \<in> set xs" "y \<in> set xs"
    and "eq_ignore_ascii_case (g x) r" "eq_ignore_ascii_case (g y) r"
  shows "x = y"
proof -
  have "inj_on (to_ascii_lowercase \<circ> g) (set xs)"
    using assms(1) by (simp add: case_distinct_def distinct_map)
  then show ?thesis using assms(2-5) by (auto simp: eq_ignore_ascii_case_def inj_on_def)
qed

lemma declared_local_account:
  assumes "case_distinct (map acc_id (smb_accounts (smb cfg)))"
  shows "(\<exists>a. find_smb_account cfg r = Some a \<and> acc_kind a = Local) \<longleftrightarrow> names_account cfg {Local} r"
    (is "?l \<longleftrightarrow> ?r")
proof
  show ?r if ?l using that by (auto simp: names_account_def dest!: find_smb_account_some)
  show ?l if ?r
  proof -
    from that obtain a where a: "a \<in> set (smb_accounts (smb cfg))" "eq_ignore_ascii_case (acc_id a) r"
      "acc_kind a = Local" by (auto simp: names_account_def)
    then obtain b where b: "find_smb_account cfg r = Some b"
      using find_smb_account_none[of cfg r] by (auto simp: names_account_def)
    have "b = a" using find_smb_account_some[OF b] a case_distinct_unique[OF assms] by blast
    then show ?thesis using a b by auto
  qed
qed

lemma validate_share_account_ok [ok_simps]:
  "validate_share_account U cfg s pre r = Inr u \<longleftrightarrow>
    (\<exists>a. find_smb_account cfg r = Some a \<and> acc_kind a = Local)
    \<and> \<not> (\<exists>y\<in>set pre. eq_ignore_ascii_case y r)"
  by (auto simp: validate_share_account_def ok_simps split: option.splits)

lemma share_accounts_ok:
  assumes "case_distinct (map acc_id (smb_accounts (smb cfg)))"
  shows "for_pre (validate_share_account U cfg s) [] rs = Inr u \<longleftrightarrow>
    (\<forall>r\<in>set rs. names_account cfg {Local} r) \<and> case_distinct rs"
  using unique_loop_ok[of "validate_share_account U cfg s" "names_account cfg {Local}" id rs u]
  by (simp add: validate_share_account_ok declared_local_account[OF assms])

lemma validate_smb_share_ok:
  assumes "case_distinct (map acc_id (smb_accounts (smb cfg)))"
  shows "validate_smb_share U cfg pre s = Inr u \<longleftrightarrow>
    valid_share cfg s \<and> \<not> (\<exists>y\<in>set pre. eq_ignore_ascii_case (sh_name y) (sh_name s))"
proof -
  note accounts = share_accounts_ok[OF assms, of U s "sh_accounts s" "()"]
  show ?thesis
    unfolding validate_smb_share_def valid_share_def checks_ok
    by (auto simp: accounts fail_if_ok if_some_ok contains_any_iff contains_char_def)
qed

lemma set_map_filter: "set (List.map_filter g xs) = {y. \<exists>x\<in>set xs. g x = Some y}"
  by (induction xs) (auto split: option.splits)

lemma map_filter_append: "List.map_filter g (xs @ ys) = List.map_filter g xs @ List.map_filter g ys"
  by (simp add: List.map_filter_def)

lemma map_filter_duplicate_free:
  "(\<forall>i<length xs. \<forall>l. g (xs ! i) = Some l \<longrightarrow>
      \<not> (\<exists>y\<in>set (List.map_filter g (take i xs)). eq_ignore_ascii_case y l))
    \<longleftrightarrow> case_distinct (List.map_filter g xs)" (is "?l xs \<longleftrightarrow> _")
proof (induction xs rule: rev_induct)
  case Nil
  then show ?case by (simp add: case_distinct_def)
next
  case (snoc x xs)
  have "?l (xs @ [x]) \<longleftrightarrow> ?l xs \<and> (\<forall>l. g x = Some l \<longrightarrow>
      \<not> (\<exists>y\<in>set (List.map_filter g xs). eq_ignore_ascii_case y l))"
    by (auto simp: less_Suc_eq nth_append)
  also have "\<dots> \<longleftrightarrow> case_distinct (List.map_filter g (xs @ [x]))"
    unfolding snoc map_filter_append
    by (cases "g x") (auto simp: case_distinct_def eq_ignore_ascii_case_def image_iff)
  finally show ?case .
qed

lemma validate_smb_mapping_ok [ok_simps]:
  "validate_smb_mapping U cfg pre m = Inr u \<longleftrightarrow>
    valid_mapping cfg m \<and> (\<forall>l. sm_local m = Some l \<longrightarrow>
      \<not> (\<exists>y\<in>set (List.map_filter sm_local pre). eq_ignore_ascii_case y l))"
  unfolding validate_smb_mapping_def valid_mapping_def checks_ok
  by (auto simp: ok_simps validate_smb_account_reference_def find_smb_account_none contains_char_def)

lemma validate_service_ok [ok_simps]:
  "validate_service U pre s = Inr u \<longleftrightarrow>
    valid_service s \<and> \<not> (\<exists>y\<in>set pre. eq_ignore_ascii_case (svc_name y) (svc_name s))"
  unfolding validate_service_def valid_service_def checks_ok validate_service_name_def
  by (auto simp: ok_simps contains_any_iff)

lemma validate_driver_ok [ok_simps]: "validate_driver U cfg d = Inr u \<longleftrightarrow> valid_driver U cfg d"
  by (cases d) (auto simp: ok_simps contains_char_def ends_with_suffix)

lemma validate_hook_ok [ok_simps]: "validate_hook h = Inr u \<longleftrightarrow> valid_hook h"
  by (auto simp: validate_hook_def valid_hook_def ok_simps contains_char_def list_ex_iff)

lemma not_requested_stopped: "\<not> service_requested_stopped cfg n \<longleftrightarrow> never_stops cfg n"
proof -
  have "st \<noteq> Stopped \<longleftrightarrow> st = Running" for st by (cases st) simp_all
  then show ?thesis by (auto simp: service_requested_stopped_def never_stops_def list_ex_iff)
qed

lemma unique_names_ok:
  "for_pre (validate_wifi_name U) [] ws = Inr u \<longleftrightarrow> case_distinct (map wifi_profile_name ws)"
  using unique_loop_ok[of "validate_wifi_name U" "\<lambda>_. True" wifi_profile_name ws u]
  by (simp add: validate_wifi_name_def fail_if_ok)

lemma accounts_ok:
  "for_pre (validate_smb_account U) [] as = Inr u \<longleftrightarrow>
    (\<forall>a\<in>set as. valid_account a) \<and> case_distinct (map acc_id as)"
  by (rule unique_loop_ok) (rule validate_smb_account_ok)

lemma shares_ok:
  assumes "case_distinct (map acc_id (smb_accounts (smb cfg)))"
  shows "for_pre (validate_smb_share U cfg) [] ss = Inr u \<longleftrightarrow>
    (\<forall>s\<in>set ss. valid_share cfg s) \<and> case_distinct (map sh_name ss)"
  by (rule unique_loop_ok) (rule validate_smb_share_ok[OF assms])

lemma mappings_ok:
  "for_pre (validate_smb_mapping U cfg) [] ms = Inr u \<longleftrightarrow>
    (\<forall>m\<in>set ms. valid_mapping cfg m) \<and> case_distinct (List.map_filter sm_local ms)"
  using all_nth_conj[of ms "valid_mapping cfg"] map_filter_duplicate_free[of ms sm_local]
  by (simp add: for_pre_ok validate_smb_mapping_ok)

lemma services_ok:
  "for_pre (validate_service U) [] ss = Inr u \<longleftrightarrow>
    (\<forall>s\<in>set ss. valid_service s) \<and> case_distinct (map svc_name ss)"
  by (rule unique_loop_ok) (rule validate_service_ok)

lemma smb_ok:
  "for_pre (validate_smb_account U) [] (smb_accounts (smb cfg)) = Inr u
    \<and> for_pre (validate_smb_share U cfg) [] (smb_shares (smb cfg)) = Inr u
    \<and> for_pre (validate_smb_mapping U cfg) [] (smb_mappings (smb cfg)) = Inr u
    \<longleftrightarrow> valid_smb cfg"
  using shares_ok[of cfg U "smb_shares (smb cfg)" u] accounts_ok mappings_ok
  unfolding valid_smb_def by metis

lemma validate_clauses:
  "validate U cfg = Inr u \<longleftrightarrow> valid_config U cfg"
proof -
  have smb: "valid_smb cfg \<longleftrightarrow>
    for_pre (validate_smb_account U) [] (smb_accounts (smb cfg)) = Inr ()
    \<and> for_pre (validate_smb_share U cfg) [] (smb_shares (smb cfg)) = Inr ()
    \<and> for_pre (validate_smb_mapping U cfg) [] (smb_mappings (smb cfg)) = Inr ()"
    using smb_ok[of U cfg "()"] by simp
  show ?thesis
    unfolding validate_def valid_config_def checks_ok smb
    by (simp add: fail_if_ok forR_ok validate_selector_ok if_some_ok validate_identity_ok
        validate_adapter_ok validate_wifi_profile_ok unique_names_ok validate_wifi_action_ok
        services_ok not_requested_stopped validate_driver_ok validate_hook_ok)
      (auto simp: Ball_def)
qed

section \<open>Errors\<close>

text \<open>The result can fail only with a validation error.\<close>

definition validation_only :: "netplan_error + 'a \<Rightarrow> bool" where
  "validation_only r \<longleftrightarrow> (\<forall>e. r = Inl e \<longrightarrow> (\<exists>m. e = Validation m))"

named_theorems verr \<open>results that fail only with a validation error\<close>

lemma validation_only_fail_if [verr]: "validation_only (fail_if b (Validation m))"
  by (simp add: validation_only_def fail_if_def)

lemma validation_only_inl [verr]: "validation_only (Inl (Validation m))"
  by (simp add: validation_only_def)

lemma validation_only_inr [verr]: "validation_only (Inr x)"
  by (simp add: validation_only_def)

lemma validation_only_checks [verr]: "(\<And>r. r \<in> set rs \<Longrightarrow> validation_only r) \<Longrightarrow> validation_only (checks rs)"
  unfolding validation_only_def by (metis checks_err)

lemma validation_only_forR [verr]: "(\<And>x. validation_only (f x)) \<Longrightarrow> validation_only (forR f xs)"
  unfolding validation_only_def by (metis forR_err)

lemma validation_only_for_pre [verr]: "(\<And>pre x. validation_only (f pre x)) \<Longrightarrow> validation_only (for_pre f pre xs)"
  unfolding validation_only_def by (metis for_pre_err)

lemma validation_only_if_some [verr]: "(\<And>x. validation_only (f x)) \<Longrightarrow> validation_only (if_some m f)"
  by (cases m) (simp_all add: validation_only_inr)

lemma leaf_verr [verr]:
  "validation_only (validate_mac U m)" "validation_only (reject_protected_selector U cfg s)"
  "validation_only (validate_psk v)" "validation_only (validate_service_name U n)"
  "validation_only (validate_smb_account_reference U cfg r)"
  by (simp_all add: validate_mac_def Let_def reject_protected_selector_def validate_psk_def
      validate_service_name_def validate_smb_account_reference_def verr)

lemma validate_optional_secret_verr [verr]: "validation_only (validate_optional_secret s)"
  by (cases s rule: validate_optional_secret.cases) (simp_all add: verr)

lemma validate_selector_verr [verr]: "validation_only (validate_selector U s)"
  unfolding validate_selector_def by (auto intro!: verr)

lemma validate_identity_verr [verr]: "validation_only (validate_identity U i)"
  unfolding validate_identity_def by (auto intro!: verr)

lemma validate_ipv4_verr [verr]: "validation_only (validate_ipv4 c)"
  by (cases c) (auto intro!: verr)

lemma validate_adapter_verr [verr]: "validation_only (validate_adapter U cfg a)"
  unfolding validate_adapter_def by (auto intro!: verr)

lemma validate_wifi_secret_verr [verr]: "validation_only (validate_wifi_secret auth psk)"
  by (auto intro!: verr split: option.splits secret_ref.splits)

lemma validate_wifi_profile_verr [verr]: "validation_only (validate_wifi_profile U cfg w)"
  unfolding validate_wifi_profile_def
  by (auto intro!: verr simp del: validate_wifi_secret.simps)

lemma validate_wifi_action_verr [verr]: "validation_only (validate_wifi_action U cfg a)"
  by (cases a) (auto intro!: verr)

lemma validate_smb_account_verr [verr]: "validation_only (validate_smb_account U pre a)"
  unfolding validate_smb_account_def by (auto intro!: verr)

lemma validate_share_account_verr [verr]: "validation_only (validate_share_account U cfg sh pre r)"
  unfolding validate_share_account_def by (auto intro!: verr split: option.splits)

lemma validate_smb_mapping_verr [verr]: "validation_only (validate_smb_mapping U cfg pre m)"
  unfolding validate_smb_mapping_def by (auto intro!: verr)

lemma validate_service_verr [verr]:
  "validation_only (validate_service U pres s)" "validation_only (validate_wifi_name U prew w)"
  unfolding validate_service_def validate_wifi_name_def by (auto intro!: verr)

lemma validate_smb_share_verr [verr]: "validation_only (validate_smb_share U cfg pre s)"
  unfolding validate_smb_share_def by (auto intro!: verr)

lemma validate_tail_verr [verr]:
  "validation_only (validate_driver U cfg d)" "validation_only (validate_hook h)"
  unfolding validate_hook_def by (cases d; auto intro!: verr)+

lemma validate_verr: "validation_only (validate U cfg)"
  unfolding validate_def by (auto intro!: verr)

section \<open>Properties\<close>

text \<open>C1: validation decides the declarative notion of a valid document: it succeeds on exactly the
  documents that satisfy every clause of \<open>valid_config\<close> (schema version, selectors, identity, IPv4
  hosts, Wi-Fi keys, unique names, resolved references, no conflict with stopped services, drivers,
  hooks), and on every other document it fails with a validation error and nothing else.\<close>

theorem validate_decides:
  "(validate U cfg = Inr () \<longleftrightarrow> valid_config U cfg)
    \<and> ((\<exists>m. validate U cfg = Inl (Validation m)) \<longleftrightarrow> \<not> valid_config U cfg)"
  using validate_clauses[of U cfg "()"] validate_verr[of U cfg]
  by (cases "validate U cfg") (auto simp: validation_only_def)

text \<open>Function \<open>parse\<close> returns a configuration exactly when the bytes are valid UTF-8, the parser of the
  resolved format decodes them to it, and the document is valid; so no caller of \<open>parse\<close> ever holds
  an invalid configuration.\<close>

theorem parse_returns_valid:
  "parse U P doc f = Inr cfg \<longleftrightarrow>
    utf8_ok doc \<and> decode_document P f doc = Inr cfg \<and> valid_config U cfg"
  by (auto simp: parse_def utf8_ok_def bindR_ok validate_clauses split: option.splits)

text \<open>C5: a parsed configuration never aims an adapter entry, a Wi-Fi profile or an adapter restart at
  a protected management interface: no such selector has a matcher in common with a protected one.\<close>

theorem parsed_spares_protected:
  "\<lbrakk>parse U P doc f = Inr cfg; p \<in> set (management_interfaces (protect cfg));
    t \<in> set (map ad_selector (adapters cfg) @ List.map_filter wp_selector (wifi cfg)
      @ List.map_filter driver_selector (drivers cfg))\<rbrakk>
    \<Longrightarrow> \<not> selectors_share_stable_matcher U p t"
  unfolding parse_def bindR_ok
  by (auto simp: bindR_ok validate_clauses valid_config_def valid_adapter_def valid_wifi_def
      targets_protected_def set_map_filter split: option.splits elim!: driver_selector.elims)

theorem parsed_spares_protected_witness:
  "\<not> selectors_share_stable_matcher sample_ucd (selector_index 6) (selector_index 7)"
  by (rule parsed_spares_protected[of sample_ucd
        "\<lparr>json_from_str = \<lambda>t. Inr sample_config, yaml_from_str = \<lambda>t. Inl ''no''\<rparr>" "''{''" Auto sample_config])
    code_simp+

text \<open>An interface selector that names an adapter by a MAC address whose first octet is not locally
  administered and unicast, which is what the hardware address of an adapter looks like, is
  rejected by validation with the message meant for MAC overrides.\<close>

theorem selector_mac_rejected:
  "\<lbrakk>sel_mac_address s = Some m; length (filter (\<lambda>c. c \<noteq> CHR '':'' \<and> c \<noteq> CHR ''-'') m) = 12;
    \<forall>d\<in>set (filter (\<lambda>c. c \<noteq> CHR '':'' \<and> c \<noteq> CHR ''-'') m). is_ascii_hexdigit d;
    \<not> local_unicast_mac m\<rbrakk>
    \<Longrightarrow> validate_selector U s = Inl (Validation (''MAC override '' @ debug_str U m
          @ '' must be a locally administered unicast address''))"
  by (auto simp: validate_selector_def checks.simps validate_mac_def Let_def fail_if_def opt_empty_def
      list_all_iff local_unicast_mac_def two_low_bits split: option.splits)

theorem selector_mac_rejected_witness:
  "validate_selector sample_ucd (default_selector\<lparr>sel_mac_address := Some ''00-11-22-33-44-55''\<rparr>)
    = Inl (Validation (''MAC override '' @ debug_str sample_ucd ''00-11-22-33-44-55''
        @ '' must be a locally administered unicast address''))"
  by (rule selector_mac_rejected) code_simp+

end
