(* ===== verification/Daemon.thy ===== *)
theory Daemon
  imports Job_Store Protocol Platform Valid_Config
begin

text \<open>
  The daemon of \<open>crates/netpland/src/main.rs\<close>: the dispatcher, the live apply with its background
  task, the connection handler, and the step relation of their interleavings.  The platform is a
  parameter (the \<open>Platform\<close> trait over a world \<open>'w\<close>); the clock, the generated UUID and the failure
  of a blocking task come in from outside with each call.
\<close>

section \<open>Platform and outside inputs\<close>

record 'w platform =
  pf_capabilities :: "'w \<Rightarrow> capability list"
  pf_adapters :: "('w, netplan_error, adapter_info list) eff"
  pf_wifi_status :: "32 word option \<Rightarrow> ('w, platform_error, wifi_interface_status list) eff"
  pf_wifi_scan :: "32 word option \<Rightarrow> bool \<Rightarrow> nat \<Rightarrow> ('w, platform_error, bool \<times> wifi_network list) eff"
  pf_preflight :: "netplan_config \<Rightarrow> ('w, platform_error, unit) eff"
  pf_apply :: "netplan_config \<Rightarrow> ('w, platform_error, apply_report) eff"

text \<open>
  Milliseconds since the Unix epoch (\<open>None\<close> when the clock is before it), elapsed milliseconds, the
  text of a fresh version-4 UUID, and the message of a blocking task that panicked, if it did.
\<close>

record outside =
  out_clock :: "nat option"
  out_elapsed :: nat
  out_uuid :: string
  out_join_error :: "string option"

definition CARGO_PKG_VERSION :: string where
  "CARGO_PKG_VERSION = ''0.2.2''"

definition saturating_u64 :: "nat \<Rightarrow> 64 word" where
  "saturating_u64 n = (if n < 2 ^ 64 then word_of_nat n else - 1)"

definition now_unix_ms :: "outside \<Rightarrow> 64 word" where
  "now_unix_ms x = (case out_clock x of None \<Rightarrow> 0 | Some ms \<Rightarrow> saturating_u64 ms)"

section \<open>State\<close>

text \<open>
  \<open>d_tasks\<close> are the spawned background executions that have not recorded their outcome yet: the job
  they belong to and the configuration they apply.
\<close>

record 'w daemon =
  d_world :: 'w
  d_jobs :: jobs
  d_tasks :: "(string \<times> netplan_config) list"
  d_started_at :: "64 word"
  d_shutdown :: bool

definition daemon_new :: "'w \<Rightarrow> outside \<Rightarrow> 'w daemon" where
  "daemon_new w x = \<lparr>d_world = w, d_jobs = [], d_tasks = [], d_started_at = now_unix_ms x,
     d_shutdown = False\<rparr>"

definition request_shutdown :: "'w daemon \<Rightarrow> 'w daemon" where
  "request_shutdown d = d\<lparr>d_shutdown := True\<rparr>"

fun platform_error_code :: "platform_error_kind \<Rightarrow> error_code" where
  "platform_error_code InvalidConfig = CodeInvalidConfig"
| "platform_error_code Unsupported = CodeUnsupported"
| "platform_error_code PermissionDenied = CodePermissionDenied"
| "platform_error_code PlatformNotFound = CodeNotFound"
| "platform_error_code Internal = CodeInternal"

definition platform_error_response :: "platform_error \<Rightarrow> response" where
  "platform_error_response e = RsError (platform_error_code (pe_kind e)) (pe_message e)"

text \<open>Call a platform operation on the daemon's world.\<close>

definition on_world :: "('w, 'e, 'a) eff \<Rightarrow> 'w daemon \<Rightarrow> ('e + 'a) \<times> 'w daemon" where
  "on_world m d = (case m (d_world d) of (r, w) \<Rightarrow> (r, d\<lparr>d_world := w\<rparr>))"

section \<open>Requests\<close>

definition daemon_status :: "outside \<Rightarrow> 'w daemon \<Rightarrow> response" where
  "daemon_status x d =
    (let c = count_jobs (d_jobs d) in
     RsDaemonStatus \<lparr>ds_daemon_version = CARGO_PKG_VERSION, ds_protocol_version = PROTOCOL_VERSION,
       ds_started_at = d_started_at d, ds_uptime_ms = saturating_u64 (out_elapsed x),
       ds_total_jobs = saturating_u32 (length (d_jobs d)), ds_queued_jobs = cn_queued c,
       ds_running_jobs = cn_running c, ds_succeeded_jobs = cn_succeeded c,
       ds_failed_jobs = cn_failed c, ds_rolled_back_jobs = cn_rolled_back c\<rparr>)"

definition daemon_wifi_scan ::
    "'w platform \<Rightarrow> outside \<Rightarrow> 32 word option \<Rightarrow> bool \<Rightarrow> 32 word \<Rightarrow> 'w daemon \<Rightarrow> response \<times> 'w daemon" where
  "daemon_wifi_scan P x if_index refresh timeout_ms d =
    (case on_world (pf_wifi_scan P if_index refresh (unat timeout_ms)) d of (r, d') \<Rightarrow>
      (case out_join_error x of
         Some e \<Rightarrow> RsError CodeInternal (''Wi-Fi scan task failed: '' @ e)
       | None \<Rightarrow>
           (case r of
              Inr (refreshed, networks) \<Rightarrow> RsWifiNetworks refreshed networks
            | Inl e \<Rightarrow> platform_error_response e), d'))"

definition apply_live ::
    "ucd \<Rightarrow> outside \<Rightarrow> netplan_config \<Rightarrow> 'w daemon \<Rightarrow> response \<times> 'w daemon" where
  "apply_live U x cfg d =
    (let job_id = out_uuid x; now = now_unix_ms x in
     (RsApply job_id JobRunning (build_plan U cfg),
      d\<lparr>d_jobs := jobs_insert job_id \<lparr>job_state_of = JobRunning, job_message = Some ''live apply is running'',
            job_created_at = now, job_updated_at = now\<rparr> (d_jobs d),
        d_tasks := d_tasks d @ [(job_id, cfg)]\<rparr>))"

definition apply_dry_run ::
    "ucd \<Rightarrow> outside \<Rightarrow> netplan_config \<Rightarrow> 'w daemon \<Rightarrow> response \<times> 'w daemon" where
  "apply_dry_run U x cfg d =
    (let job_id = out_uuid x; now = now_unix_ms x in
     (RsApply job_id JobSucceeded (build_plan U cfg),
      d\<lparr>d_jobs := jobs_insert job_id \<lparr>job_state_of = JobSucceeded,
            job_message = Some ''dry-run completed; no system state was changed'',
            job_created_at = now, job_updated_at = now\<rparr> (d_jobs d)\<rparr>))"

definition dispatch_config ::
    "ucd \<Rightarrow> parsers \<Rightarrow> 'w platform \<Rightarrow> outside \<Rightarrow> config_action \<Rightarrow> config_format \<Rightarrow> string \<Rightarrow> bool
      \<Rightarrow> 'w daemon \<Rightarrow> response \<times> 'w daemon" where
  "dispatch_config U Q P x action format document dry_run d =
    (case parse U Q document format of
       Inr cfg \<Rightarrow>
         (case action of
            ActValidate \<Rightarrow> (RsValidation True [], d)
          | ActPlan \<Rightarrow> (RsPlan (build_plan U cfg), d)
          | ActApply \<Rightarrow>
              if dry_run then apply_dry_run U x cfg d
              else (case on_world (pf_preflight P cfg) d of
                  (Inr _, d') \<Rightarrow> apply_live U x cfg d'
                | (Inl e, d') \<Rightarrow> (RsError (platform_error_code (pe_kind e)) (pe_message e), d')))
     | Inl e \<Rightarrow>
         if action = ActValidate then
           (RsValidation False [\<lparr>vi_path = None, vi_message = error_text e\<rparr>], d)
         else (RsError CodeInvalidConfig (error_text e), d))"

definition network_status :: "'w platform \<Rightarrow> outside \<Rightarrow> 'w daemon \<Rightarrow> response \<times> 'w daemon" where
  "network_status P x d =
    (case on_world (pf_adapters P) d of
       (Inl e, d') \<Rightarrow> (RsError CodeInternal (error_text e), d')
     | (Inr adapters', d') \<Rightarrow>
         (case on_world (pf_wifi_status P None) d' of
            (Inr ws, d'') \<Rightarrow> (RsNetworkStatus (now_unix_ms x) adapters' ws None, d'')
          | (Inl e, d'') \<Rightarrow> (RsNetworkStatus (now_unix_ms x) adapters' [] (Some (pe_message e)), d'')))"

fun dispatch ::
    "ucd \<Rightarrow> parsers \<Rightarrow> 'w platform \<Rightarrow> outside \<Rightarrow> request \<Rightarrow> 'w daemon \<Rightarrow> response \<times> 'w daemon" where
  "dispatch U Q P x RqPing d = (RsPong CARGO_PKG_VERSION PROTOCOL_VERSION, d)"
| "dispatch U Q P x RqDaemonStatus d = (daemon_status x d, d)"
| "dispatch U Q P x RqCapabilities d = (RsCapabilities (pf_capabilities P (d_world d)), d)"
| "dispatch U Q P x RqListAdapters d =
    (case on_world (pf_adapters P) d of
       (Inr as, d') \<Rightarrow> (RsAdapters as, d')
     | (Inl e, d') \<Rightarrow> (RsError CodeInternal (error_text e), d'))"
| "dispatch U Q P x (RqConfig action format document dry_run) d =
    dispatch_config U Q P x action format document dry_run d"
| "dispatch U Q P x (RqJobStatus job_id) d =
    (case jobs_get (d_jobs d) job_id of
       Some job \<Rightarrow> (RsJobStatus job_id (job_state_of job) (job_message job), d)
     | None \<Rightarrow> (RsError CodeNotFound (''job '' @ debug_str U job_id @ '' does not exist''), d))"
| "dispatch U Q P x (RqListJobs state limit) d = (list_jobs state limit (d_jobs d), d)"
| "dispatch U Q P x RqNetworkStatus d = network_status P x d"
| "dispatch U Q P x (RqWifiStatus if_index) d =
    (case on_world (pf_wifi_status P if_index) d of
       (Inr ws, d') \<Rightarrow> (RsWifiStatus ws, d')
     | (Inl e, d') \<Rightarrow> (platform_error_response e, d'))"
| "dispatch U Q P x (RqWifiScan if_index refresh timeout_ms) d =
    (if 250 \<le> timeout_ms \<and> timeout_ms \<le> 15000 then daemon_wifi_scan P x if_index refresh timeout_ms d
     else (RsError CodeInvalidRequest ''Wi-Fi scan timeout_ms must be between 250 and 15000'', d))"
| "dispatch U Q P x RqShutdown d = (RsShutdownAccepted, d)"

section \<open>The background task\<close>

text \<open>The outcome a finished execution records.\<close>

fun job_outcome :: "string option \<Rightarrow> platform_error + apply_report \<Rightarrow> job_state \<times> string option" where
  "job_outcome (Some e) r = (JobFailed, Some (''platform execution task failed: '' @ e))"
| "job_outcome None (Inr report) = (JobSucceeded, Some (report_message report))"
| "job_outcome None (Inl e) = (if pe_rolled_back e then JobRolledBack else JobFailed, Some (pe_message e))"

definition complete_job ::
    "'w platform \<Rightarrow> outside \<Rightarrow> string \<Rightarrow> netplan_config \<Rightarrow> 'w daemon \<Rightarrow> 'w daemon" where
  "complete_job P x job_id cfg d =
    (case on_world (pf_apply P cfg) d of (r, d') \<Rightarrow>
      (case job_outcome (out_join_error x) r of (state, message) \<Rightarrow>
        d'\<lparr>d_jobs := jobs_modify job_id (\<lambda>j. j\<lparr>job_state_of := state, job_message := message,
              job_updated_at := now_unix_ms x\<rparr>) (d_jobs d'),
           d_tasks := filter (\<lambda>t. fst t \<noteq> job_id) (d_tasks d')\<rparr>))"

section \<open>Connections\<close>

definition handle_connection ::
    "ucd \<Rightarrow> parsers \<Rightarrow> flatbuffers \<Rightarrow> 'w platform \<Rightarrow> 'v writer \<Rightarrow> outside \<Rightarrow> string \<Rightarrow> 'v \<Rightarrow> 'w daemon
      \<Rightarrow> (netplan_error + unit) \<times> 'v \<times> 'w daemon" where
  "handle_connection U Q FB P W x stream out d =
    (case fst (read_frame stream) of
       Inl e \<Rightarrow> (Inl e, out, d)
     | Inr bytes \<Rightarrow>
         (case decode_request FB bytes of
            Inl e \<Rightarrow> (Inl e, out, d)
          | Inr req \<Rightarrow>
              (let shutdown_requested = (fr_payload req = RqShutdown) in
               case dispatch U Q P x (fr_payload req) d of (response, d') \<Rightarrow>
               (case write_frame W (encode_response FB (fr_request_id req) response) out of
                  (Inl e, out') \<Rightarrow> (Inl e, out', d')
                | (Inr _, out') \<Rightarrow>
                    (Inr (), out', if shutdown_requested then request_shutdown d' else d')))))"

end
