(* ===== verification/Daemon_Facts.thy ===== *)
theory Daemon_Facts
  imports Daemon
begin

text \<open>
  The daemon as a transition system: connections are served and background tasks finish in any
  order.  Its invariant relates the job table to the tasks that are still running, and gives what a
  client may rely on: results never change, and nothing is applied that was not checked.
\<close>

section \<open>Steps\<close>

text \<open>
  A connection is handled with any input stream and outside inputs, provided the generated UUID is
  not the identifier of a retained job; a task finishes with any outcome of the platform.
\<close>

inductive daemon_step ::
    "ucd \<Rightarrow> parsers \<Rightarrow> flatbuffers \<Rightarrow> 'w platform \<Rightarrow> 'v writer \<Rightarrow> 'w daemon \<Rightarrow> 'w daemon \<Rightarrow> bool"
  for U Q FB P W where
  connection: "\<lbrakk>jobs_get (d_jobs d) (out_uuid x) = None;
      handle_connection U Q FB P W x stream out d = (r, out', d')\<rbrakk>
    \<Longrightarrow> daemon_step U Q FB P W d d'"
| finish: "(k, cfg) \<in> set (d_tasks d) \<Longrightarrow> daemon_step U Q FB P W d (complete_job P x k cfg d)"

inductive_cases daemon_stepE: "daemon_step U Q FB P W d d'"

definition reachable ::
    "ucd \<Rightarrow> parsers \<Rightarrow> flatbuffers \<Rightarrow> 'w platform \<Rightarrow> 'v writer \<Rightarrow> 'w daemon \<Rightarrow> bool" where
  "reachable U Q FB P W d \<longleftrightarrow> (\<exists>w x. (daemon_step U Q FB P W)\<^sup>*\<^sup>* (daemon_new w x) d)"

section \<open>What one request changes\<close>

definition same_jobs :: "'w daemon \<Rightarrow> 'w daemon \<Rightarrow> bool" where
  "same_jobs d d' \<longleftrightarrow>
    d_jobs d' = d_jobs d \<and> d_tasks d' = d_tasks d \<and> d_shutdown d' = d_shutdown d
    \<and> d_started_at d' = d_started_at d"

lemma same_jobs_refl [simp]: "same_jobs d d"
  by (simp add: same_jobs_def)

lemma same_jobs_on_world: "on_world m d = (r, d') \<Longrightarrow> same_jobs d d'"
  by (auto simp: on_world_def same_jobs_def split: prod.splits)

lemma same_jobs_trans: "same_jobs a b \<Longrightarrow> same_jobs b c \<Longrightarrow> same_jobs a c"
  by (simp add: same_jobs_def)

text \<open>A request of another kind than an accepted apply only reads, or calls the platform.\<close>

lemma dispatch_reads:
  assumes "dispatch U Q P x r d = (resp, d')" "\<forall>f doc dry. r \<noteq> RqConfig ActApply f doc dry"
  shows "same_jobs d d'"
proof (cases r)
  case (RqConfig action f doc dry)
  then show ?thesis
    using assms by (cases action) (auto simp: dispatch_config_def split: sum.splits if_splits)
next
  case RqNetworkStatus
  then show ?thesis
    using assms(1)
    by (auto simp: network_status_def split: prod.splits sum.splits
        dest!: same_jobs_on_world intro: same_jobs_trans)
next
  case (RqWifiScan i refresh t)
  then show ?thesis
    using assms(1)
    by (auto simp: daemon_wifi_scan_def split: prod.splits if_splits dest!: same_jobs_on_world)
qed (use assms(1) in \<open>auto split: prod.splits sum.splits option.splits dest!: same_jobs_on_world\<close>)

lemma dispatch_apply:
  assumes "dispatch U Q P x (RqConfig ActApply f doc dry) d = (resp, d')"
  obtains "same_jobs d d'"
  | cfg where "dry" "parse U Q doc f = Inr cfg" "(resp, d') = apply_dry_run U x cfg d"
  | cfg w' where "\<not> dry" "parse U Q doc f = Inr cfg" "pf_preflight P cfg (d_world d) = (Inr (), w')"
      "(resp, d') = apply_live U x cfg (d\<lparr>d_world := w'\<rparr>)"
proof (cases "parse U Q doc f")
  case (Inl e)
  then show ?thesis using assms that(1) by (simp add: dispatch_config_def)
next
  case (Inr cfg)
  show ?thesis
  proof (cases dry)
    case True
    then show ?thesis using assms Inr that(2)[of cfg] by (simp add: dispatch_config_def)
  next
    case False
    obtain r w' where pre: "pf_preflight P cfg (d_world d) = (r, w')" by fastforce
    show ?thesis
    proof (cases r)
      case (Inl e)
      then have "same_jobs d d'"
        using assms Inr False pre
        by (auto simp: dispatch_config_def on_world_def same_jobs_def)
      then show ?thesis by (rule that(1))
    next
      case (Inr u)
      then show ?thesis
        using assms \<open>parse U Q doc f = Inr cfg\<close> False pre that(3)[of cfg w']
        by (simp add: dispatch_config_def on_world_def)
    qed
  qed
qed

text \<open>Every request: nothing recorded, a finished dry run recorded, or a live apply started.\<close>

lemma dispatch_effect:
  assumes "dispatch U Q P x r d = (resp, d')"
  obtains "same_jobs d d'"
  | f doc cfg where "r = RqConfig ActApply f doc True" "parse U Q doc f = Inr cfg"
      "(resp, d') = apply_dry_run U x cfg d"
  | f doc cfg w' where "r = RqConfig ActApply f doc False" "parse U Q doc f = Inr cfg"
      "pf_preflight P cfg (d_world d) = (Inr (), w')"
      "(resp, d') = apply_live U x cfg (d\<lparr>d_world := w'\<rparr>)"
proof (cases "\<exists>f doc dry. r = RqConfig ActApply f doc dry")
  case True
  then obtain f doc dry where r: "r = RqConfig ActApply f doc dry" by blast
  from assms[unfolded r] show ?thesis
    by (cases rule: dispatch_apply) (use that r in auto)
next
  case False
  then show ?thesis using dispatch_reads[OF assms] that(1) by blast
qed

lemma handle_connection_cases:
  assumes "handle_connection U Q FB P W x stream out d = (r, out', d')"
  obtains e where "r = Inl e" "out' = out" "d' = d"
  | bytes req resp d1 where "fst (read_frame stream) = Inr bytes"
      "decode_request FB bytes = Inr req" "dispatch U Q P x (fr_payload req) d = (resp, d1)"
      "write_frame W (encode_response FB (fr_request_id req) resp) out = (r, out')"
      "d' = (if is_ok r \<and> fr_payload req = RqShutdown then request_shutdown d1 else d1)"
proof (cases "fst (read_frame stream)")
  case (Inl e)
  then show ?thesis using assms that(1)[of e] by (simp add: handle_connection_def)
next
  case (Inr bytes)
  show ?thesis
  proof (cases "decode_request FB bytes")
    case (Inl e)
    then show ?thesis using assms Inr that(1)[of e] by (simp add: handle_connection_def)
  next
    case (Inr req)
    obtain resp d1 where disp: "dispatch U Q P x (fr_payload req) d = (resp, d1)" by fastforce
    obtain wr wout where wr: "write_frame W (encode_response FB (fr_request_id req) resp) out = (wr, wout)"
      by fastforce
    show ?thesis
      using assms \<open>fst (read_frame stream) = Inr bytes\<close> Inr disp wr that(2)[of bytes req resp d1]
      by (cases wr) (auto simp: handle_connection_def Let_def split: if_splits)
  qed
qed

section \<open>The invariant\<close>

definition job_running :: "'w daemon \<Rightarrow> string \<Rightarrow> bool" where
  "job_running d k \<longleftrightarrow> (\<exists>j. jobs_get (d_jobs d) k = Some j \<and> job_state_of j = JobRunning)"

definition job_queued :: "'w daemon \<Rightarrow> string \<Rightarrow> bool" where
  "job_queued d k \<longleftrightarrow> (\<exists>j. jobs_get (d_jobs d) k = Some j \<and> job_state_of j = JobQueued)"

text \<open>A configuration the daemon may apply: valid, and accepted by the platform's preflight.\<close>

definition checked_config :: "ucd \<Rightarrow> 'w platform \<Rightarrow> netplan_config \<Rightarrow> bool" where
  "checked_config U P cfg \<longleftrightarrow>
    valid_config U cfg \<and> (\<exists>w w'. pf_preflight P cfg w = (Inr (), w'))"

definition daemon_inv :: "ucd \<Rightarrow> 'w platform \<Rightarrow> 'w daemon \<Rightarrow> bool" where
  "daemon_inv U P d \<longleftrightarrow>
    jobs_wf (d_jobs d)
    \<and> distinct (map fst (d_tasks d))
    \<and> (\<forall>k. job_running d k \<longleftrightarrow> k \<in> fst ` set (d_tasks d))
    \<and> (\<forall>k. \<not> job_queued d k)
    \<and> (\<forall>(k, cfg)\<in>set (d_tasks d). checked_config U P cfg)"

lemma daemon_inv_new: "daemon_inv U P (daemon_new w x)"
  by (simp add: daemon_inv_def daemon_new_def jobs_wf_def job_running_def job_queued_def jobs_get_def)

lemma daemon_inv_same: "same_jobs d d' \<Longrightarrow> daemon_inv U P d \<Longrightarrow> daemon_inv U P d'"
  by (simp add: same_jobs_def daemon_inv_def job_running_def job_queued_def)

lemma daemon_inv_shutdown: "daemon_inv U P (request_shutdown d) \<longleftrightarrow> daemon_inv U P d"
  by (simp add: request_shutdown_def daemon_inv_def job_running_def job_queued_def)

lemma unknown_job_no_task:
  "daemon_inv U P d \<Longrightarrow> jobs_get (d_jobs d) k = None \<Longrightarrow> k \<notin> fst ` set (d_tasks d)"
  unfolding daemon_inv_def job_running_def by (metis option.distinct(1))

lemma daemon_inv_dry_run:
  assumes "daemon_inv U P d" "jobs_get (d_jobs d) (out_uuid x) = None"
  shows "daemon_inv U P (snd (apply_dry_run U x cfg d))"
proof -
  let ?d = "snd (apply_dry_run U x cfg d)"
  have "job_running ?d k \<longleftrightarrow> job_running d k" for k
    using assms(2) by (auto simp: apply_dry_run_def Let_def job_running_def js.get_put)
  moreover have "\<not> job_queued ?d k" for k
    using assms(1) by (auto simp: daemon_inv_def apply_dry_run_def Let_def job_queued_def js.get_put)
  moreover have "jobs_wf (d_jobs ?d)" "d_tasks ?d = d_tasks d"
    using assms(1) js.wf_put by (simp_all add: daemon_inv_def apply_dry_run_def Let_def)
  ultimately show ?thesis using assms(1) by (simp add: daemon_inv_def)
qed

lemma daemon_inv_live:
  assumes "daemon_inv U P d" "jobs_get (d_jobs d) (out_uuid x) = None" "checked_config U P cfg"
  shows "daemon_inv U P (snd (apply_live U x cfg d))"
proof -
  let ?d = "snd (apply_live U x cfg d)"
  note fresh = unknown_job_no_task[OF assms(1,2)]
  have tasks: "d_tasks ?d = d_tasks d @ [(out_uuid x, cfg)]"
    by (simp add: apply_live_def Let_def)
  have "job_running ?d k \<longleftrightarrow> job_running d k \<or> k = out_uuid x" for k
    using assms(2) by (auto simp: apply_live_def Let_def job_running_def js.get_put)
  moreover have "\<not> job_queued ?d k" for k
    using assms(1) by (auto simp: daemon_inv_def apply_live_def Let_def job_queued_def js.get_put)
  moreover have "jobs_wf (d_jobs ?d)"
    using assms(1) js.wf_put by (simp add: daemon_inv_def apply_live_def Let_def)
  ultimately show ?thesis
    using assms(1,3) fresh unfolding daemon_inv_def tasks by auto
qed

lemma job_outcome_terminal:
  "fst (job_outcome e r) \<noteq> JobRunning" "fst (job_outcome e r) \<noteq> JobQueued"
  by (cases "(e, r)" rule: job_outcome.cases; simp)+

lemma complete_job_eq:
  obtains w r where "pf_apply P cfg (d_world d) = (r, w)"
    "complete_job P x k cfg d = d\<lparr>d_world := w,
        d_jobs := jobs_modify k (\<lambda>j. j\<lparr>job_state_of := fst (job_outcome (out_join_error x) r),
            job_message := snd (job_outcome (out_join_error x) r),
            job_updated_at := now_unix_ms x\<rparr>) (d_jobs d),
        d_tasks := filter (\<lambda>t. fst t \<noteq> k) (d_tasks d)\<rparr>"
  by (cases "pf_apply P cfg (d_world d)")
    (auto simp: complete_job_def on_world_def split: prod.splits)

lemma daemon_inv_complete:
  assumes inv: "daemon_inv U P d"
  shows "daemon_inv U P (complete_job P x k cfg d)"
proof -
  obtain w r where eq: "complete_job P x k cfg d = d\<lparr>d_world := w,
        d_jobs := jobs_modify k (\<lambda>j. j\<lparr>job_state_of := fst (job_outcome (out_join_error x) r),
            job_message := snd (job_outcome (out_join_error x) r),
            job_updated_at := now_unix_ms x\<rparr>) (d_jobs d),
        d_tasks := filter (\<lambda>t. fst t \<noteq> k) (d_tasks d)\<rparr>" by (rule complete_job_eq)
  have "job_running (complete_job P x k cfg d) k' \<longleftrightarrow> job_running d k' \<and> k' \<noteq> k" for k'
    using job_outcome_terminal[of "out_join_error x" r]
    by (auto simp: eq job_running_def js.get_modify)
  moreover have "\<not> job_queued (complete_job P x k cfg d) k'" for k'
    using job_outcome_terminal[of "out_join_error x" r] inv
    by (auto simp: eq job_queued_def js.get_modify daemon_inv_def)
  moreover have "fst ` set (d_tasks (complete_job P x k cfg d)) = fst ` set (d_tasks d) - {k}"
    by (auto simp: eq)
  ultimately show ?thesis
    using inv js.wf_modify[of "d_jobs d"] unfolding daemon_inv_def
    by (auto simp: eq distinct_map_filter)
qed

lemma daemon_inv_dispatch:
  assumes inv: "daemon_inv U P d" and fresh: "jobs_get (d_jobs d) (out_uuid x) = None"
    and disp: "dispatch U Q P x r d = (resp, d')"
  shows "daemon_inv U P d'"
  using disp
proof (cases rule: dispatch_effect)
  case 1
  then show ?thesis using inv daemon_inv_same by blast
next
  case (2 f doc cfg)
  then show ?thesis using daemon_inv_dry_run[OF inv fresh, of cfg] by (metis snd_conv)
next
  case (3 f doc cfg w')
  have "checked_config U P cfg"
    using 3(2,3) by (auto simp: checked_config_def parse_def bindR_ok validate_clauses split: option.splits)
  moreover have "daemon_inv U P (d\<lparr>d_world := w'\<rparr>)"
    using inv by (simp add: daemon_inv_def job_running_def job_queued_def)
  ultimately have "daemon_inv U P (snd (apply_live U x cfg (d\<lparr>d_world := w'\<rparr>)))"
    using daemon_inv_live[of U P "d\<lparr>d_world := w'\<rparr>" x cfg] fresh by simp
  then show ?thesis using 3(4) by (metis snd_conv)
qed

lemma daemon_inv_step:
  assumes "daemon_step U Q FB P W d d'" "daemon_inv U P d"
  shows "daemon_inv U P d'"
  using assms(1)
proof (cases rule: daemon_step.cases)
  case (connection x stream out r out')
  from connection(2) show ?thesis
  proof (cases rule: handle_connection_cases)
    case (2 bytes req resp d1)
    have "daemon_inv U P d1" using daemon_inv_dispatch[OF assms(2) connection(1) 2(3)] .
    then show ?thesis using 2(5) by (auto simp: daemon_inv_shutdown)
  qed (use assms(2) in simp)
next
  case (finish k cfg x)
  then show ?thesis using daemon_inv_complete[OF assms(2)] by simp
qed

lemma reachable_inv: "reachable U Q FB P W d \<Longrightarrow> daemon_inv U P d"
proof -
  assume "reachable U Q FB P W d"
  then obtain w x where "(daemon_step U Q FB P W)\<^sup>*\<^sup>* (daemon_new w x) d"
    by (auto simp: reachable_def)
  then show ?thesis
    by (induction rule: rtranclp_induct) (auto simp: daemon_inv_new daemon_inv_step)
qed

section \<open>Finished jobs\<close>

lemma finished_dispatch:
  assumes disp: "dispatch U Q P x r d = (resp, d')" and fresh: "jobs_get (d_jobs d) (out_uuid x) = None"
    and job: "jobs_get (d_jobs d) k = Some j"
  shows "jobs_get (d_jobs d') k = Some j"
  using disp
proof (cases rule: dispatch_effect)
  case 1
  then show ?thesis using job by (simp add: same_jobs_def)
next
  case (2 f doc cfg)
  then show ?thesis using job js.put_keeps[OF fresh job] by (simp add: apply_dry_run_def Let_def)
next
  case (3 f doc cfg w')
  then show ?thesis using job js.put_keeps[OF fresh job] by (simp add: apply_live_def Let_def)
qed

lemma finished_step:
  assumes step: "daemon_step U Q FB P W d d'" and inv: "daemon_inv U P d"
    and job: "jobs_get (d_jobs d) k = Some j" "job_state_of j \<noteq> JobRunning"
  shows "jobs_get (d_jobs d') k = Some j"
  using step
proof (cases rule: daemon_step.cases)
  case (connection x stream out r out')
  from connection(2) show ?thesis
  proof (cases rule: handle_connection_cases)
    case (2 bytes req resp d1)
    have "jobs_get (d_jobs d1) k = Some j" using finished_dispatch[OF 2(3) connection(1) job(1)] .
    then show ?thesis using 2(5) by (simp add: request_shutdown_def)
  qed (use job in simp)
next
  case (finish k' cfg x)
  have "job_running d k'" using finish(2) inv by (force simp: daemon_inv_def)
  then have "k \<noteq> k'" using job by (auto simp: job_running_def)
  obtain w r where "complete_job P x k' cfg d = d\<lparr>d_world := w,
        d_jobs := jobs_modify k' (\<lambda>j. j\<lparr>job_state_of := fst (job_outcome (out_join_error x) r),
            job_message := snd (job_outcome (out_join_error x) r),
            job_updated_at := now_unix_ms x\<rparr>) (d_jobs d),
        d_tasks := filter (\<lambda>t. fst t \<noteq> k') (d_tasks d)\<rparr>" by (rule complete_job_eq)
  then show ?thesis using finish(1) job \<open>k \<noteq> k'\<close> by (simp add: js.modify_other)
qed

lemma finished_steps:
  assumes "(daemon_step U Q FB P W)\<^sup>*\<^sup>* d d'" "daemon_inv U P d"
    and "jobs_get (d_jobs d) k = Some j" "job_state_of j \<noteq> JobRunning"
  shows "daemon_inv U P d' \<and> jobs_get (d_jobs d') k = Some j"
  using assms
  by (induction rule: rtranclp_induct) (auto simp: daemon_inv_step intro: finished_step)

section \<open>Counting\<close>

lemma running_count:
  assumes "daemon_inv U P d"
  shows "length (filter (\<lambda>(k, r). job_state_of r = JobRunning) (d_jobs d)) = length (d_tasks d)"
proof -
  let ?run = "filter (\<lambda>(k, r). job_state_of r = JobRunning) (d_jobs d)"
  have wf: "distinct (map fst (d_jobs d))" and tasks: "distinct (map fst (d_tasks d))"
    using assms by (simp_all add: daemon_inv_def jobs_wf_def)
  have "k \<in> fst ` set ?run \<longleftrightarrow> job_running d k" for k
    using wf by (force simp: job_running_def jobs_get_def)
  then have "fst ` set ?run = fst ` set (d_tasks d)"
    using assms by (auto simp: daemon_inv_def)
  then have "card (set (map fst ?run)) = card (set (map fst (d_tasks d)))" by simp
  moreover have "distinct (map fst ?run)" using wf by (simp add: distinct_map_filter)
  ultimately show ?thesis using tasks by (simp only: distinct_card length_map)
qed

lemma queued_count:
  assumes "daemon_inv U P d"
  shows "filter (\<lambda>(k, r). job_state_of r = JobQueued) (d_jobs d) = []"
proof -
  have "distinct (map fst (d_jobs d))" using assms by (simp add: daemon_inv_def jobs_wf_def)
  then have "job_state_of r \<noteq> JobQueued" if "(k, r) \<in> set (d_jobs d)" for k r
    using assms that by (auto simp: daemon_inv_def job_queued_def jobs_get_def)
  then show ?thesis by (auto simp: filter_empty_conv)
qed

section \<open>A concrete run\<close>

definition sample_outside :: outside where
  "sample_outside = \<lparr>out_clock = Some 1000, out_elapsed = 5, out_uuid = ''u-1'', out_join_error = None\<rparr>"

definition sample_parsers :: parsers where
  "sample_parsers = \<lparr>json_from_str = \<lambda>t. Inr sample_config, yaml_from_str = \<lambda>t. Inl ''not YAML''\<rparr>"

text \<open>A platform that accepts every document and applies it.\<close>

definition sample_platform :: "nat platform" where
  "sample_platform = \<lparr>pf_capabilities = \<lambda>w. [], pf_adapters = returnE [], pf_wifi_status = \<lambda>i. returnE [],
     pf_wifi_scan = \<lambda>i r t. returnE (r, []), pf_preflight = \<lambda>c. returnE (),
     pf_apply = \<lambda>c w. (Inr \<lparr>report_message = ''applied''\<rparr>, Suc w)\<rparr>"

definition memory_writer :: "string writer" where
  "memory_writer = \<lparr>wr_write_all = \<lambda>b w. (Inr (), w @ b), wr_flush = returnE ()\<rparr>"

definition apply_request :: request where
  "apply_request = RqConfig ActApply Json ''{}'' False"

definition sample_buffers :: flatbuffers where
  "sample_buffers = two_buffers \<lparr>env_protocol_version = PROTOCOL_VERSION, env_request_id = 7,
     env_payload = request_to_payload apply_request\<rparr> \<lparr>env_protocol_version = PROTOCOL_VERSION,
     env_request_id = 8, env_payload = request_to_payload RqShutdown\<rparr>"

definition sample_daemon :: "nat daemon" where
  "sample_daemon = daemon_new 0 sample_outside"

text \<open>The daemon after a connection that starts a live apply, and after that apply.\<close>

definition applying_daemon :: "nat daemon" where
  "applying_daemon = snd (snd (handle_connection sample_ucd sample_parsers sample_buffers sample_platform
     memory_writer sample_outside (encode_request sample_buffers 7 apply_request) [] sample_daemon))"

definition applied_daemon :: "nat daemon" where
  "applied_daemon = complete_job sample_platform sample_outside ''u-1'' sample_config applying_daemon"

abbreviation sample_step :: "nat daemon \<Rightarrow> nat daemon \<Rightarrow> bool" where
  "sample_step \<equiv> daemon_step sample_ucd sample_parsers sample_buffers sample_platform memory_writer"

lemma applying_step: "sample_step sample_daemon applying_daemon"
proof (rule daemon_step.connection)
  show "jobs_get (d_jobs sample_daemon) (out_uuid sample_outside) = None"
    by (simp add: sample_daemon_def daemon_new_def jobs_get_def)
  show "handle_connection sample_ucd sample_parsers sample_buffers sample_platform memory_writer
      sample_outside (encode_request sample_buffers 7 apply_request) [] sample_daemon
    = (fst (handle_connection sample_ucd sample_parsers sample_buffers sample_platform memory_writer
        sample_outside (encode_request sample_buffers 7 apply_request) [] sample_daemon),
       fst (snd (handle_connection sample_ucd sample_parsers sample_buffers sample_platform memory_writer
        sample_outside (encode_request sample_buffers 7 apply_request) [] sample_daemon)),
       applying_daemon)"
    by (simp add: applying_daemon_def)
qed

lemma sample_parse: "parse sample_ucd sample_parsers ''{}'' Json = Inr sample_config"
  by code_simp

lemma sample_faithful:
  "packs_faithfully sample_buffers \<lparr>env_protocol_version = PROTOCOL_VERSION, env_request_id = 7,
     env_payload = request_to_payload apply_request\<rparr>"
  unfolding sample_buffers_def by (rule two_buffers_faithful) simp

lemma sample_dispatch:
  "dispatch sample_ucd sample_parsers sample_platform sample_outside apply_request sample_daemon
    = apply_live sample_ucd sample_outside sample_config sample_daemon"
  by (simp add: apply_request_def dispatch_config_def sample_parse on_world_def sample_platform_def
      returnE_def)

lemma applying_daemon_eq:
  "applying_daemon = snd (apply_live sample_ucd sample_outside sample_config sample_daemon)"
proof -
  note read = read_encoded_request[OF sample_faithful, of "[]", simplified]
  note decode = decode_encoded_request[OF sample_faithful]
  show ?thesis
    by (simp add: applying_daemon_def handle_connection_def read decode sample_dispatch Let_def
        split: prod.split sum.split)
      (simp add: apply_request_def)
qed

lemma applying_tasks: "d_tasks applying_daemon = [(''u-1'', sample_config)]"
  by (simp add: applying_daemon_eq apply_live_def Let_def sample_outside_def sample_daemon_def daemon_new_def)

lemma applied_job: "jobs_get (d_jobs applied_daemon) ''u-1'' = Some \<lparr>job_state_of = JobSucceeded,
    job_message = Some ''applied'', job_created_at = 1000, job_updated_at = 1000\<rparr>"
  by (simp add: applied_daemon_def complete_job_def applying_daemon_eq apply_live_def Let_def on_world_def
      sample_platform_def sample_outside_def now_unix_ms_def saturating_u64_def js.get_modify js.get_put)

lemma applied_step: "sample_step applying_daemon applied_daemon"
  unfolding applied_daemon_def by (rule daemon_step.finish) (simp add: applying_tasks)

lemma applying_reachable:
  "reachable sample_ucd sample_parsers sample_buffers sample_platform memory_writer applying_daemon"
  using applying_step unfolding reachable_def sample_daemon_def by blast

lemma applied_reachable:
  "reachable sample_ucd sample_parsers sample_buffers sample_platform memory_writer applied_daemon"
  using applying_reachable applied_step unfolding reachable_def
  by (meson rtranclp.rtrancl_into_rtrancl)

section \<open>Properties\<close>

text \<open>C20: in every reachable state of the daemon a job is running exactly when a background task still
  works on it, no job is queued, and no identifier occurs twice among the jobs or the tasks.\<close>

theorem running_iff_task:
  "reachable U Q FB P W d \<Longrightarrow>
    (\<forall>k. job_running d k \<longleftrightarrow> k \<in> fst ` set (d_tasks d)) \<and> (\<forall>k. \<not> job_queued d k)
    \<and> distinct (map fst (d_jobs d)) \<and> distinct (map fst (d_tasks d))"
  using reachable_inv[of U Q FB P W d] by (simp add: daemon_inv_def jobs_wf_def)

theorem running_iff_task_witness: "job_running applying_daemon ''u-1''"
  by (rule running_iff_task[OF applying_reachable, THEN conjunct1, THEN spec, THEN iffD2])
    (simp add: applying_tasks)

text \<open>C21: the result of a finished job never changes: once a job is recorded with another state than
  running, every later state of the daemon holds the same record (state, message and times) for it,
  whatever connections are served and tasks finish in between.\<close>

theorem finished_jobs_immutable:
  "\<lbrakk>reachable U Q FB P W d; (daemon_step U Q FB P W)\<^sup>*\<^sup>* d d';
    jobs_get (d_jobs d) k = Some j; job_state_of j \<noteq> JobRunning\<rbrakk>
    \<Longrightarrow> jobs_get (d_jobs d') k = Some j"
  using finished_steps reachable_inv by blast

theorem finished_jobs_witness:
  "jobs_get (d_jobs applied_daemon) ''u-1'' = Some \<lparr>job_state_of = JobSucceeded,
    job_message = Some ''applied'', job_created_at = 1000, job_updated_at = 1000\<rparr>"
  by (rule finished_jobs_immutable[OF applied_reachable rtranclp.rtrancl_refl applied_job]) simp



text \<open>A request that is not an apply leaves the job table, the tasks and the shutdown flag as they
  were, and a dry-run apply starts no task and does not touch the platform's world: it only records
  a succeeded job.\<close>

theorem only_live_apply_mutates:
  "(dispatch U Q P x r d = (resp, d') \<and> (\<forall>f doc dry. r \<noteq> RqConfig ActApply f doc dry) \<longrightarrow>
      d_jobs d' = d_jobs d \<and> d_tasks d' = d_tasks d \<and> d_shutdown d' = d_shutdown d)
    \<and> (dispatch U Q P x (RqConfig ActApply f doc True) d = (resp, d') \<longrightarrow>
      d_world d' = d_world d \<and> d_tasks d' = d_tasks d
      \<and> (d_jobs d' = d_jobs d \<or> (\<exists>j. d_jobs d' = jobs_insert (out_uuid x) j (d_jobs d)
            \<and> job_state_of j = JobSucceeded)))"
proof (intro conjI impI)
  assume "dispatch U Q P x r d = (resp, d') \<and> (\<forall>f doc dry. r \<noteq> RqConfig ActApply f doc dry)"
  then have "same_jobs d d'" using dispatch_reads by blast
  then show "d_jobs d' = d_jobs d" "d_tasks d' = d_tasks d" "d_shutdown d' = d_shutdown d"
    by (simp_all add: same_jobs_def)
next
  assume "dispatch U Q P x (RqConfig ActApply f doc True) d = (resp, d')"
  then show "d_world d' = d_world d" "d_tasks d' = d_tasks d"
    "d_jobs d' = d_jobs d \<or> (\<exists>j. d_jobs d' = jobs_insert (out_uuid x) j (d_jobs d)
            \<and> job_state_of j = JobSucceeded)"
    by (auto simp: dispatch_config_def apply_dry_run_def Let_def split: sum.splits)
qed

theorem only_live_apply_witness:
  "d_jobs (snd (dispatch sample_ucd sample_parsers sample_platform sample_outside
      (RqWifiScan None True 9000) applying_daemon)) = d_jobs applying_daemon"
  by (rule only_live_apply_mutates[where U = sample_ucd and Q = sample_parsers and P = sample_platform
        and x = sample_outside and r = "RqWifiScan None True 9000", THEN conjunct1, THEN mp, THEN conjunct1])
    (rule conjI, rule prod.collapse[symmetric], simp)

text \<open>The counters of a status report are exact: in a reachable state with fewer than 2^32 jobs the
  total is the number of retained jobs, the running counter is the number of background tasks, no
  job is queued, and the five counters add up to the total.\<close>

theorem status_counters_exact:
  "\<lbrakk>reachable U Q FB P W d; length (d_jobs d) < 2 ^ 32\<rbrakk> \<Longrightarrow>
    \<exists>s. daemon_status x d = RsDaemonStatus s
      \<and> unat (ds_total_jobs s) = length (d_jobs d)
      \<and> unat (ds_running_jobs s) = length (d_tasks d) \<and> ds_queued_jobs s = 0
      \<and> unat (ds_queued_jobs s) + unat (ds_running_jobs s) + unat (ds_succeeded_jobs s)
          + unat (ds_failed_jobs s) + unat (ds_rolled_back_jobs s) = unat (ds_total_jobs s)"
proof -
  assume r: "reachable U Q FB P W d" and bound: "length (d_jobs d) < 2 ^ 32"
  note inv = reachable_inv[OF r]
  note counts = count_jobs_unat[OF bound, of JobQueued] count_jobs_unat[OF bound, of JobRunning]
    count_jobs_unat[OF bound, of JobSucceeded] count_jobs_unat[OF bound, of JobFailed]
    count_jobs_unat[OF bound, of JobRolledBack]
  have "unat (saturating_u32 (length (d_jobs d))) = length (d_jobs d)"
    using bound by (simp add: saturating_u32_def unsigned_of_nat take_bit_nat_eq_self)
  moreover have "cn_queued (count_jobs (d_jobs d)) = 0"
    using counts(1) queued_count[OF inv] by (simp add: unat_eq_zero)
  ultimately show ?thesis
    using counts running_count[OF inv] state_partition[of "d_jobs d"]
    by (simp add: daemon_status_def Let_def)
qed

theorem status_counters_witness:
  "\<exists>s. daemon_status sample_outside applying_daemon = RsDaemonStatus s
      \<and> unat (ds_total_jobs s) = length (d_jobs applying_daemon)
      \<and> unat (ds_running_jobs s) = length (d_tasks applying_daemon) \<and> ds_queued_jobs s = 0
      \<and> unat (ds_queued_jobs s) + unat (ds_running_jobs s) + unat (ds_succeeded_jobs s)
          + unat (ds_failed_jobs s) + unat (ds_rolled_back_jobs s) = unat (ds_total_jobs s)"
  by (rule status_counters_exact[OF applying_reachable])
    (simp add: applying_daemon_eq apply_live_def Let_def sample_daemon_def daemon_new_def jobs_insert_def)

text \<open>The daemon stops only after it has answered: the shutdown flag rises in handling a connection
  only when the request decoded from it is a shutdown and the whole response was written; and a
  connection whose bytes hold no valid request is closed without any answer or change.\<close>

theorem shutdown_after_answer:
  "\<lbrakk>handle_connection U Q FB P W x stream out d = (r, out', d'); \<not> d_shutdown d\<rbrakk> \<Longrightarrow>
    (d_shutdown d' \<longrightarrow> (\<exists>bytes req. fst (read_frame stream) = Inr bytes \<and> decode_request FB bytes = Inr req
        \<and> fr_payload req = RqShutdown
        \<and> write_frame W (encode_response FB (fr_request_id req) RsShutdownAccepted) out = (Inr (), out')))
    \<and> ((\<nexists>bytes req. fst (read_frame stream) = Inr bytes \<and> decode_request FB bytes = Inr req) \<longrightarrow>
        out' = out \<and> d' = d \<and> \<not> is_ok r)"
proof -
  assume handled: "handle_connection U Q FB P W x stream out d = (r, out', d')" and up: "\<not> d_shutdown d"
  from handled show ?thesis
  proof (cases rule: handle_connection_cases)
    case (1 e)
    then show ?thesis using up by simp
  next
    case (2 bytes req resp d1)
    have "d_shutdown d1 = d_shutdown d"
      using 2(3) by (cases rule: dispatch_effect)
        (simp_all add: same_jobs_def apply_dry_run_def apply_live_def Let_def)
    then show ?thesis using 2 up by (auto simp: is_ok_iff split: if_splits)
  qed
qed

theorem shutdown_after_answer_witness:
  "case handle_connection sample_ucd sample_parsers sample_buffers sample_platform memory_writer
      sample_outside [] [] applying_daemon of (r, out', d') \<Rightarrow> out' = [] \<and> d' = applying_daemon \<and> \<not> is_ok r"
proof -
  have handled: "handle_connection sample_ucd sample_parsers sample_buffers sample_platform memory_writer
      sample_outside [] [] applying_daemon = (Inl (Io UnexpectedEof ''early eof''), [], applying_daemon)"
    by (simp add: handle_connection_def read_frame_def read_frame_from_def read_exact_def bindE_def)
  have up: "\<not> d_shutdown applying_daemon"
    by (simp add: applying_daemon_eq apply_live_def Let_def sample_daemon_def daemon_new_def)
  have none: "\<nexists>bytes req. fst (read_frame []) = Inr bytes \<and> decode_request sample_buffers bytes = Inr req"
    by (simp add: read_frame_def read_frame_from_def read_exact_def bindE_def)
  show ?thesis
    using shutdown_after_answer[OF handled up, THEN conjunct2, THEN mp, OF none] handled by simp
qed



text \<open>A Wi-Fi scan reaches the platform only with a timeout between 250 and 15000 milliseconds; any
  other timeout is answered as an invalid request and changes nothing.\<close>

theorem scan_timeout_bounded:
  "timeout_ms < 250 \<or> 15000 < timeout_ms \<Longrightarrow>
    dispatch U Q P x (RqWifiScan i refresh timeout_ms) d
      = (RsError CodeInvalidRequest ''Wi-Fi scan timeout_ms must be between 250 and 15000'', d)"
  by auto

theorem scan_timeout_witness:
  "dispatch sample_ucd sample_parsers sample_platform sample_outside (RqWifiScan None True 249) applying_daemon
      = (RsError CodeInvalidRequest ''Wi-Fi scan timeout_ms must be between 250 and 15000'', applying_daemon)"
  by (rule scan_timeout_bounded) simp

end
