(* ===== verification/Selection.thy ===== *)
theory Selection
  imports Platform Valid_Config Effects "HOL-Library.Product_Lexorder"
begin

text \<open>
  The part of \<open>crates/netpland/src/platform/windows.rs\<close> that decides what a document means on a
  machine: the capability report, the resolution of selectors against the adapter inventory, the
  runtime protection check of a preflight, and the Wi-Fi queries over the native client.
\<close>

section \<open>Capability report\<close>

text \<open>What the probes of the image found; \<open>None\<close> is a successful probe, \<open>Some\<close> its failure text.\<close>

record windows_probes =
  has_netsh :: bool
  has_pnputil :: bool
  has_force_driver :: bool
  wifi_probe :: "string option"
  account_probe :: "string option"
  share_probe :: "string option"
  mapping_probe :: "string option"

definition when_present :: "string \<Rightarrow> bool \<Rightarrow> string \<Rightarrow> capability" where
  "when_present n present reason =
    mk_capability n (if present then Available else Unavailable) (if present then None else Some reason)"

definition when_probed :: "string option \<Rightarrow> string \<Rightarrow> capability" where
  "when_probed probe n = mk_capability n (if probe = None then Available else Unavailable) probe"

definition windows_capabilities :: "windows_probes \<Rightarrow> capability list" where
  "windows_capabilities p =
    [mk_capability ''config.validate'' Available None,
     mk_capability ''config.plan'' Available None,
     mk_capability ''config.apply'' Available None,
     mk_capability ''adapter.inventory'' Available None,
     when_present ''adapter.ipv4.apply'' (has_netsh p) ''netsh.exe is unavailable in this image'',
     when_present ''adapter.state.apply'' (has_netsh p) ''netsh.exe is unavailable in this image'',
     when_present ''adapter.mac.apply'' (has_netsh p) ''netsh.exe is unavailable for adapter restart'',
     when_present ''adapter.restart'' (has_netsh p) ''netsh.exe is unavailable in this image'',
     when_present ''firewall.apply'' (has_netsh p) ''netsh.exe is unavailable in this image'']
    @ map (\<lambda>n. mk_capability n Available None)
        [''identity.computer_name.apply'', ''identity.workgroup.apply'', ''identity.dns_suffix.apply'']
    @ [mk_capability ''service.apply'' Available None,
       mk_capability ''hook.execute'' Available None,
       when_present ''driver.install'' (has_pnputil p) ''pnputil.exe is unavailable in this image'',
       when_present ''driver.force_install'' (has_force_driver p)
         ''newdev.dll force-install backend is unavailable in this image'']
    @ map (when_probed (wifi_probe p))
        [''wifi.status'', ''wifi.profile.apply'', ''wifi.scan'', ''wifi.connect'', ''wifi.disconnect'']
    @ [when_probed (account_probe p) ''smb.account.apply'',
       when_probed (share_probe p) ''smb.share.apply'',
       when_probed (mapping_probe p) ''smb.mapping.apply'']"

section \<open>Inventory and selectors\<close>

record adapter_snapshot =
  as_info :: adapter_info
  as_admin_enabled :: bool
  as_dhcp_enabled :: bool
  as_manual_ipv4 :: "ip_address_info list"
  as_gateways :: "ipv4_addr list"
  as_dns :: "ip_addr list"
  as_wins :: "ipv4_addr list"

type_synonym adapter_inventory = "adapter_snapshot list"

record wifi_interface =
  wif_guid :: "128 word"
  wif_if_index :: "32 word"
  wif_description :: string
  wif_state :: "32 word"

definition windows_canonical_mac :: "ucd \<Rightarrow> string \<Rightarrow> string" where
  "windows_canonical_mac U v =
    concat (map (upper_scalar U) (filter (\<lambda>x. x \<noteq> ''-'' \<and> x \<noteq> '':'') (scalars v)))"

definition selector_matches :: "ucd \<Rightarrow> interface_selector \<Rightarrow> adapter_info \<Rightarrow> bool" where
  "selector_matches U s a \<longleftrightarrow>
    is_none_or (\<lambda>v. v = ai_if_index a) (sel_if_index s)
    \<and> is_none_or (\<lambda>v. eq_ignore_ascii_case v (ai_name a)) (sel_name s)
    \<and> is_none_or (\<lambda>v. is_some_and (\<lambda>c.
         eq_ignore_ascii_case (trim_matches ''{}'' v) (trim_matches ''{}'' c)) (ai_guid a)) (sel_guid s)
    \<and> is_none_or (\<lambda>v. is_some_and (\<lambda>c.
         windows_canonical_mac U v = windows_canonical_mac U c) (ai_mac_address a)) (sel_mac_address s)
    \<and> is_none_or (\<lambda>v. is_some_and (\<lambda>d.
         contains_str (str_lower U v) (str_lower U d)) (ai_description a)) (sel_description_contains s)"

text \<open>The derived \<open>Debug\<close> of a selector.\<close>

definition selector_debug :: "ucd \<Rightarrow> interface_selector \<Rightarrow> string" where
  "selector_debug U s =
    ''InterfaceSelector { if_index: '' @ debug_option (\<lambda>i. show_nat (unat i)) (sel_if_index s)
    @ '', name: '' @ debug_option (debug_str U) (sel_name s)
    @ '', guid: '' @ debug_option (debug_str U) (sel_guid s)
    @ '', mac_address: '' @ debug_option (debug_str U) (sel_mac_address s)
    @ '', description_contains: '' @ debug_option (debug_str U) (sel_description_contains s) @ '' }''"

definition matching_adapters :: "ucd \<Rightarrow> adapter_inventory \<Rightarrow> interface_selector \<Rightarrow> adapter_snapshot list" where
  "matching_adapters U inventory s = filter (\<lambda>a. selector_matches U s (as_info a)) inventory"

definition resolve_adapter ::
    "ucd \<Rightarrow> adapter_inventory \<Rightarrow> interface_selector \<Rightarrow> platform_error + adapter_snapshot" where
  "resolve_adapter U inventory s =
    (case matching_adapters U inventory s of
       [a] \<Rightarrow> Inr a
     | [] \<Rightarrow> Inl (pe_not_found (''interface selector did not match any adapter: '' @ selector_debug U s))
     | ms \<Rightarrow> Inl (pe_invalid_config (''interface selector is ambiguous and matched ''
         @ show_nat (length ms) @ '' adapters: '' @ selector_debug U s)))"

definition snapshot_index :: "adapter_snapshot \<Rightarrow> 32 word" where
  "snapshot_index a = ai_if_index (as_info a)"

definition resolve_wifi_interface ::
    "ucd \<Rightarrow> adapter_inventory \<Rightarrow> wifi_interface list \<Rightarrow> interface_selector option
      \<Rightarrow> platform_error + wifi_interface" where
  "resolve_wifi_interface U inventory interfaces selector =
    (case selector of
       Some s \<Rightarrow>
         bindR (resolve_adapter U inventory s) (\<lambda>a.
           ok_or (find (\<lambda>i. wif_if_index i = snapshot_index a) interfaces)
             (pe_invalid_config (''selector resolves to interface if_index=''
               @ show_nat (unat (snapshot_index a)) @ '', which is not exposed by Native Wi-Fi'')))
     | None \<Rightarrow>
         (case interfaces of
            [] \<Rightarrow> Inl (pe_not_found ''no enabled Native Wi-Fi interface is available'')
          | [i] \<Rightarrow> Inr i
          | _ \<Rightarrow> Inl (pe_invalid_config
              ''multiple Native Wi-Fi interfaces are available; an explicit selector is required'')))"

definition select_wifi_interfaces ::
    "wifi_interface list \<Rightarrow> 32 word option \<Rightarrow> platform_error + wifi_interface list" where
  "select_wifi_interfaces interfaces if_index =
    (case if_index of
       Some n \<Rightarrow>
         mapR (\<lambda>i. [i]) (ok_or (find (\<lambda>i. wif_if_index i = n) interfaces)
           (pe_not_found (''no enabled Native Wi-Fi interface exists with if_index='' @ show_nat (unat n))))
     | None \<Rightarrow>
         if interfaces = [] then Inl (pe_not_found ''no enabled Native Wi-Fi interface is available'')
         else Inr interfaces)"

section \<open>Runtime protection\<close>

text \<open>The loop over the adapter entries: the indexes found so far are the prefix.\<close>

fun adapter_targets ::
    "ucd \<Rightarrow> adapter_inventory \<Rightarrow> 32 word list \<Rightarrow> adapter_config list \<Rightarrow> platform_error + 32 word list" where
  "adapter_targets U inventory targets [] = Inr targets"
| "adapter_targets U inventory targets (a # as) =
    bindR (resolve_adapter U inventory (ad_selector a)) (\<lambda>s.
      if snapshot_index s \<in> set targets then
        Inl (pe_invalid_config (''multiple adapter entries resolve to if_index=''
          @ show_nat (unat (snapshot_index s))))
      else adapter_targets U inventory (targets @ [snapshot_index s]) as)"

definition validate_runtime_protection ::
    "ucd \<Rightarrow> netplan_config \<Rightarrow> adapter_inventory \<Rightarrow> wifi_interface list \<Rightarrow> platform_error + unit" where
  "validate_runtime_protection U cfg inventory interfaces =
    bindR (traverseR (\<lambda>s. mapR snapshot_index (resolve_adapter U inventory s))
      (management_interfaces (protect cfg))) (\<lambda>protected.
    bindR (adapter_targets U inventory [] (adapters cfg)) (\<lambda>adapter_idx.
    bindR (traverseR (\<lambda>w. mapR wif_if_index (resolve_wifi_interface U inventory interfaces (wp_selector w)))
      (wifi cfg)) (\<lambda>profile_idx.
    bindR (traverseR (\<lambda>a. mapR wif_if_index (resolve_wifi_interface U inventory interfaces (action_selector a)))
      (wifi_actions cfg)) (\<lambda>action_idx.
    bindR (traverseR (\<lambda>s. mapR snapshot_index (resolve_adapter U inventory s))
      (List.map_filter driver_selector (drivers cfg))) (\<lambda>driver_idx.
    (case find (\<lambda>t. t \<in> set protected) (adapter_idx @ profile_idx @ action_idx @ driver_idx) of
       Some t \<Rightarrow> Inl (pe_invalid_config
         (''live configuration resolves to protected management interface if_index='' @ show_nat (unat t)))
     | None \<Rightarrow> Inr ()))))))"

section \<open>Platform operations over the native client\<close>

datatype radio_state = RadioOn | RadioOff | RadioUnknown

text \<open>
  The native calls these operations make, over a world \<open>'w\<close>: the IP Helper inventory and the WLAN
  client of \<open>wifi.rs\<close>.
\<close>

record 'w native =
  nat_inventory :: "('w, netplan_error, adapter_inventory) eff"
  nat_open :: "('w, platform_error, unit) eff"
  nat_interfaces :: "('w, platform_error, wifi_interface list) eff"
  nat_radio_state :: "128 word \<Rightarrow> ('w, platform_error, radio_state) eff"
  nat_scan_and_wait :: "128 word \<Rightarrow> nat \<Rightarrow> ('w, platform_error, bool) eff"
  nat_available_networks :: "128 word \<Rightarrow> 32 word \<Rightarrow> string \<Rightarrow> ('w, platform_error, wifi_network list) eff"
  nat_interface_status ::
    "128 word \<Rightarrow> 32 word \<Rightarrow> 32 word \<Rightarrow> string \<Rightarrow> string option \<Rightarrow> ('w, platform_error, wifi_interface_status) eff"

definition inventory_for :: "'w native \<Rightarrow> string \<Rightarrow> ('w, platform_error, adapter_inventory) eff" where
  "inventory_for N what = map_errE (\<lambda>e. pe_internal (what @ error_text e)) (nat_inventory N)"

definition windows_preflight ::
    "ucd \<Rightarrow> windows_probes \<Rightarrow> 'w native \<Rightarrow> netplan_config \<Rightarrow> ('w, platform_error, unit) eff" where
  "windows_preflight U p N cfg =
    bindE (liftE (require_plan_capabilities U (windows_capabilities p) cfg)) (\<lambda>_.
    bindE (inventory_for N ''adapter preflight inventory failed: '') (\<lambda>inventory.
    bindE (if wifi cfg = [] \<and> wifi_actions cfg = [] then returnE []
           else bindE (nat_open N) (\<lambda>_. nat_interfaces N)) (\<lambda>interfaces.
    liftE (validate_runtime_protection U cfg inventory interfaces))))"

definition interface_name :: "adapter_inventory \<Rightarrow> wifi_interface \<Rightarrow> string" where
  "interface_name inventory i =
    (case find (\<lambda>a. snapshot_index a = wif_if_index i) inventory of
       None \<Rightarrow> wif_description i
     | Some a \<Rightarrow> if ai_name (as_info a) = [] then wif_description i else ai_name (as_info a))"

definition windows_wifi_status ::
    "'w native \<Rightarrow> 32 word option \<Rightarrow> ('w, platform_error, wifi_interface_status list) eff" where
  "windows_wifi_status N if_index =
    bindE (inventory_for N ''Wi-Fi status inventory failed: '') (\<lambda>inventory.
    bindE (nat_open N) (\<lambda>_.
    bindE (nat_interfaces N) (\<lambda>interfaces.
    bindE (liftE (select_wifi_interfaces interfaces if_index))
      (traverseE (\<lambda>i. nat_interface_status N (wif_guid i) (wif_state i) (wif_if_index i)
        (interface_name inventory i)
        (case find (\<lambda>a. snapshot_index a = wif_if_index i) inventory of
           None \<Rightarrow> None | Some a \<Rightarrow> ai_guid (as_info a)))))))"

definition scan_order :: "wifi_network \<Rightarrow> wifi_network \<Rightarrow> ordering" where
  "scan_order l r =
    then_with (cmp (wn_connected r) (wn_connected l))
     (then_with (cmp (wn_signal_quality r) (wn_signal_quality l))
      (then_with (cmp (wn_ssid l) (wn_ssid r))
        (cmp (wn_interface_if_index l) (wn_interface_if_index r))))"

text \<open>Split the selected interfaces by their radio: (radio off, scannable), both in order.\<close>

definition split_radio ::
    "'w native \<Rightarrow> wifi_interface list \<Rightarrow> ('w, platform_error, 32 word list \<times> wifi_interface list) eff" where
  "split_radio N selected =
    foldE (\<lambda>(off, scannable) i.
      bindE (nat_radio_state N (wif_guid i)) (\<lambda>r.
        returnE (if r = RadioOff then (off @ [wif_if_index i], scannable)
                 else (off, scannable @ [i])))) ([], []) selected"

definition scan_interface ::
    "'w native \<Rightarrow> adapter_inventory \<Rightarrow> bool \<Rightarrow> nat \<Rightarrow> bool \<times> wifi_network list \<Rightarrow> wifi_interface
      \<Rightarrow> ('w, platform_error, bool \<times> wifi_network list) eff" where
  "scan_interface N inventory refresh timeout = (\<lambda>(refreshed, networks) i.
    bindE (if refresh
           then bindE (nat_scan_and_wait N (wif_guid i) timeout) (\<lambda>r. returnE (refreshed \<and> r))
           else returnE refreshed) (\<lambda>refreshed'.
    bindE (nat_available_networks N (wif_guid i) (wif_if_index i) (interface_name inventory i)) (\<lambda>ns.
    returnE (refreshed', networks @ ns))))"

text \<open>The rest of the scan, once the radios are known.\<close>

definition scan_selected ::
    "'w native \<Rightarrow> adapter_inventory \<Rightarrow> bool \<Rightarrow> nat \<Rightarrow> 32 word list \<times> wifi_interface list
      \<Rightarrow> ('w, platform_error, bool \<times> wifi_network list) eff" where
  "scan_selected N inventory refresh timeout = (\<lambda>(off, scannable).
    if scannable = [] then
      failE (pe_unsupported (''Wi-Fi radio is off for Native Wi-Fi interface if_index=''
        @ join_with '', '' (map (\<lambda>i. show_nat (unat i)) off) @ ''; turn on Wi-Fi and retry''))
    else
      bindE (foldE (scan_interface N inventory refresh timeout) (refresh \<and> off = [], []) scannable)
        (\<lambda>(refreshed, networks). returnE (refreshed, sort_by scan_order networks)))"

definition windows_wifi_scan ::
    "'w native \<Rightarrow> 32 word option \<Rightarrow> bool \<Rightarrow> nat \<Rightarrow> ('w, platform_error, bool \<times> wifi_network list) eff" where
  "windows_wifi_scan N if_index refresh timeout =
    bindE (inventory_for N ''Wi-Fi scan inventory failed: '') (\<lambda>inventory.
    bindE (nat_open N) (\<lambda>_.
    bindE (nat_interfaces N) (\<lambda>interfaces.
    bindE (liftE (select_wifi_interfaces interfaces if_index)) (\<lambda>selected.
    bindE (split_radio N selected) (scan_selected N inventory refresh timeout)))))"

section \<open>Facts\<close>

interpretation win: platform_backend U "windows_capabilities p"
    "\<lambda>cfg. fst (windows_preflight U p N cfg w)" for U p N w
proof
  fix cfg
  assume "fst (windows_preflight U p N cfg w) = Inr ()"
  then show "require_plan_capabilities U (windows_capabilities p) cfg = Inr ()"
    by (cases "require_plan_capabilities U (windows_capabilities p) cfg")
      (simp_all add: windows_preflight_def liftE_def bindE_err)
qed

text \<open>The comparison is the lexicographic order of a key.\<close>

definition scan_key :: "wifi_network \<Rightarrow> bool \<times> int \<times> string \<times> 32 word" where
  "scan_key n = (\<not> wn_connected n, - uint (wn_signal_quality n), wn_ssid n,
     wn_interface_if_index n)"

lemma scan_order_key: "scan_order l r \<noteq> Greater \<longleftrightarrow> scan_key l \<le> scan_key r"
  by (auto simp: scan_order_def scan_key_def then_with_not_greater cmp_simps cmp_not_greater
      less_eq_prod_simp word_less_def word_le_def word_uint_eq_iff[symmetric])

interpretation scan: comparison scan_order
proof
  show "scan_order y x = reverse_ordering (scan_order x y)" for x y
    by (simp add: scan_order_def reverse_then_with flip: cmp_reverse)
  show "scan_order x y \<noteq> Greater \<Longrightarrow> scan_order y z \<noteq> Greater \<Longrightarrow> scan_order x z \<noteq> Greater" for x y z
    unfolding scan_order_key by (rule order_trans)
qed

lemma matching_adapters_single:
  "matching_adapters U inventory s = [a] \<longleftrightarrow>
    (\<exists>xs ys. inventory = xs @ a # ys \<and> selector_matches U s (as_info a)
      \<and> (\<forall>b\<in>set (xs @ ys). \<not> selector_matches U s (as_info b)))"
  unfolding matching_adapters_def filter_eq_Cons_iff
  by (fastforce simp: filter_empty_conv eq_commute[of "[]"])

lemma matching_adapters_none:
  "matching_adapters U inventory s = [] \<longleftrightarrow> (\<forall>a\<in>set inventory. \<not> selector_matches U s (as_info a))"
  by (simp add: matching_adapters_def filter_empty_conv)

lemma resolve_adapter_ok [ok_simps]:
  "resolve_adapter U inventory s = Inr a \<longleftrightarrow> matching_adapters U inventory s = [a]"
  by (auto simp: resolve_adapter_def split: list.splits)

lemma adapter_targets_ok [ok_simps]:
  "adapter_targets U inventory targets as = Inr ts \<longleftrightarrow>
    (\<exists>idx. map (\<lambda>a. mapR snapshot_index (resolve_adapter U inventory (ad_selector a))) as = map Inr idx
      \<and> ts = targets @ idx \<and> distinct idx \<and> set targets \<inter> set idx = {})"
proof (induction as arbitrary: targets)
  case Nil
  then show ?case by auto
next
  case (Cons a as)
  show ?case
  proof (cases "resolve_adapter U inventory (ad_selector a)")
    case (Inl e)
    then show ?thesis by (auto simp: Cons_eq_map_conv)
  next
    case (Inr s)
    then show ?thesis by (auto simp: Cons Cons_eq_map_conv)
  qed
qed

lemma find_none_disjoint: "find (\<lambda>t. t \<in> A) ts = None \<longleftrightarrow> A \<inter> set ts = {}"
  by (auto simp: find_None_iff)

lemma find_none_result:
  "(case find P ts of None \<Rightarrow> Inr () | Some t \<Rightarrow> Inl (f t)) = Inr u \<longleftrightarrow> find P ts = None"
  by (simp split: option.split)

lemma traverseR_mapR: "traverseR (\<lambda>x. mapR g (f x)) xs = mapR (map g) (traverseR f xs)"
proof (induction xs)
  case (Cons x xs)
  then show ?case by (cases "f x"; cases "traverseR f xs") simp_all
qed simp

lemma bindR_mapR: "bindR (mapR g m) k = bindR m (\<lambda>a. k (g a))"
  by (cases m) simp_all

lemma all_adapter_targets:
  "adapter_targets U inventory [] as = Inr ts \<longleftrightarrow>
    (\<exists>ss. map (\<lambda>a. resolve_adapter U inventory (ad_selector a)) as = map Inr ss
      \<and> distinct (map snapshot_index ss) \<and> ts = map snapshot_index ss)"
proof -
  have "map (\<lambda>a. mapR snapshot_index (resolve_adapter U inventory (ad_selector a))) as = map Inr idx
      \<longleftrightarrow> (\<exists>ss. map (\<lambda>a. resolve_adapter U inventory (ad_selector a)) as = map Inr ss
        \<and> idx = map snapshot_index ss)" for idx
    using traverseR_mapR[of snapshot_index "\<lambda>a. resolve_adapter U inventory (ad_selector a)" as]
    by (simp flip: traverseR_ok add: mapR_ok)
  then show ?thesis by (auto simp: adapter_targets_ok)
qed

lemma ex_through_image:
  "(\<exists>t. (\<exists>s. A s \<and> D s \<and> t = m s) \<and> Q t) \<longleftrightarrow> (\<exists>s. A s \<and> D s \<and> Q (m s))"
  by blast

lemma foldE_append: "foldE f s (xs @ ys) = bindE (foldE f s xs) (\<lambda>s'. foldE f s' ys)"
  by (induction xs arbitrary: s) (simp_all add: bindE_assoc)

lemma scan_fold_unrefreshed:
  "foldE (scan_interface N inventory refresh timeout) (False, ns) xs w = (Inr (r, ns'), w') \<Longrightarrow> \<not> r"
proof (induction xs arbitrary: ns w)
  case Nil
  then show ?case by (simp add: returnE_def)
next
  case (Cons x xs)
  then show ?case
    by (auto simp: bindE_ok_iff scan_interface_def returnE_def split: if_splits)
qed

lemma scan_selected_ok:
  assumes "scan_selected N inventory refresh timeout p w = (Inr (refreshed, networks), w')"
  shows "sorted_wrt (\<lambda>a b. scan_key a \<le> scan_key b) networks \<and> (refreshed \<longrightarrow> refresh)"
proof -
  obtain off xs where p: "p = (off, xs)" by fastforce
  with assms obtain ns where
    fold: "foldE (scan_interface N inventory refresh timeout) (refresh \<and> off = [], []) xs w
        = (Inr (refreshed, ns), w')" and ns: "networks = sort_by scan_order ns"
    by (auto simp: scan_selected_def failE_def returnE_def bindE_ok_iff split: if_splits)
  have "sorted_wrt (\<lambda>a b. scan_order a b \<noteq> Greater) networks"
    unfolding ns by (rule scan.sorted)
  moreover have "refresh" if "refreshed"
    using fold scan_fold_unrefreshed[of N inventory refresh timeout "[]" xs w refreshed ns w'] that
    by (cases refresh) simp_all
  ultimately show ?thesis by (simp add: scan_order_key)
qed

lemma windows_all_reported:
  "n \<in> set plan_capabilities \<Longrightarrow> n \<in> cap_name ` set (windows_capabilities p)"
  unfolding plan_capabilities_def windows_capabilities_def when_present_def when_probed_def
    mk_capability_def by auto

lemma reported_known: "n \<in> cap_name ` set caps \<Longrightarrow> reported_state caps n \<noteq> None"
  by (induction caps) (auto simp: reported_state_def)

definition all_probes_pass :: "windows_probes \<Rightarrow> bool" where
  "all_probes_pass p \<longleftrightarrow>
    has_netsh p \<and> has_pnputil p \<and> has_force_driver p \<and> wifi_probe p = None
    \<and> account_probe p = None \<and> share_probe p = None \<and> mapping_probe p = None"

lemma all_probes_available:
  "all_probes_pass p \<Longrightarrow> c \<in> set (windows_capabilities p) \<Longrightarrow> cap_state c = Available"
  by (auto simp: all_probes_pass_def windows_capabilities_def when_present_def when_probed_def
      mk_capability_def)

section \<open>Properties\<close>

text \<open>A selector resolves to an adapter only when it is the single match of the inventory; with no
  match the error is \<open>NotFound\<close>, with several it is \<open>InvalidConfig\<close>, and nothing else can happen.\<close>

theorem resolve_adapter_unique:
  "(resolve_adapter U inventory s = Inr a \<longleftrightarrow>
      (\<exists>xs ys. inventory = xs @ a # ys \<and> selector_matches U s (as_info a)
        \<and> (\<forall>b\<in>set (xs @ ys). \<not> selector_matches U s (as_info b))))
    \<and> ((\<exists>m. resolve_adapter U inventory s = Inl (pe_not_found m)) \<longleftrightarrow>
        (\<forall>b\<in>set inventory. \<not> selector_matches U s (as_info b)))
    \<and> ((\<exists>m. resolve_adapter U inventory s = Inl (pe_invalid_config m)) \<longleftrightarrow>
        2 \<le> length (filter (\<lambda>b. selector_matches U s (as_info b)) inventory))"
proof (intro conjI)
  show "resolve_adapter U inventory s = Inr a \<longleftrightarrow>
      (\<exists>xs ys. inventory = xs @ a # ys \<and> selector_matches U s (as_info a)
        \<and> (\<forall>b\<in>set (xs @ ys). \<not> selector_matches U s (as_info b)))"
    by (simp only: resolve_adapter_ok matching_adapters_single)
  show "(\<exists>m. resolve_adapter U inventory s = Inl (pe_not_found m)) \<longleftrightarrow>
        (\<forall>b\<in>set inventory. \<not> selector_matches U s (as_info b))"
    unfolding matching_adapters_none[symmetric]
    by (auto simp: resolve_adapter_def pe_defs split: list.splits)
  show "(\<exists>m. resolve_adapter U inventory s = Inl (pe_invalid_config m)) \<longleftrightarrow>
        2 \<le> length (filter (\<lambda>b. selector_matches U s (as_info b)) inventory)"
    unfolding matching_adapters_def[symmetric]
    by (cases "matching_adapters U inventory s" rule: remdups_adj.cases)
      (auto simp: resolve_adapter_def pe_defs)
qed

theorem resolve_adapter_witness:
  "resolve_adapter sample_ucd [] default_selector
      = Inl (pe_not_found (''interface selector did not match any adapter: ''
          @ selector_debug sample_ucd default_selector))
    \<and> (\<exists>m. resolve_adapter sample_ucd [] default_selector = Inl (pe_not_found m))"
proof
  show "resolve_adapter sample_ucd [] default_selector
      = Inl (pe_not_found (''interface selector did not match any adapter: ''
          @ selector_debug sample_ucd default_selector))"
    by (simp add: resolve_adapter_def matching_adapters_def)
  show "\<exists>m. resolve_adapter sample_ucd [] default_selector = Inl (pe_not_found m)"
    using resolve_adapter_unique[of sample_ucd "[]" default_selector undefined] by simp
qed

text \<open>C6: the runtime protection check passes exactly when every selector of the document resolves on
  the machine, no two adapter entries resolve to one interface, and no interface that an adapter
  entry, a Wi-Fi profile, a Wi-Fi action or an adapter restart resolves to is one a protected
  selector resolves to, however differently the two selectors are written.\<close>

theorem runtime_protection_decides:
  "validate_runtime_protection U cfg inventory interfaces = Inr () \<longleftrightarrow>
    (\<exists>prot ad wi ac dr.
      map (resolve_adapter U inventory) (management_interfaces (protect cfg)) = map Inr prot
      \<and> map (\<lambda>a. resolve_adapter U inventory (ad_selector a)) (adapters cfg) = map Inr ad
      \<and> distinct (map snapshot_index ad)
      \<and> map (\<lambda>w. resolve_wifi_interface U inventory interfaces (wp_selector w)) (wifi cfg) = map Inr wi
      \<and> map (\<lambda>a. resolve_wifi_interface U inventory interfaces (action_selector a)) (wifi_actions cfg)
          = map Inr ac
      \<and> map (resolve_adapter U inventory) (List.map_filter driver_selector (drivers cfg)) = map Inr dr
      \<and> set (map snapshot_index prot)
          \<inter> set (map snapshot_index ad @ map wif_if_index wi @ map wif_if_index ac @ map snapshot_index dr) = {})"
  unfolding validate_runtime_protection_def traverseR_mapR bindR_mapR bindR_ok
    traverseR_ok all_adapter_targets ex_through_image find_none_result find_none_disjoint
  by (simp only: ex_simps)

text \<open>On Windows every capability a plan can name is reported, so an operation is never refused as
  unreported; and when every probe of the image succeeds the capability check accepts every
  document, so then only the runtime checks decide.\<close>

theorem windows_reports_every_capability:
  "(\<forall>op\<in>set (build_plan U cfg). reported_state (windows_capabilities p) (op_capability op) \<noteq> None)
    \<and> (all_probes_pass p \<longrightarrow> require_plan_capabilities U (windows_capabilities p) cfg = Inr ())"
proof -
  have known: "reported_state (windows_capabilities p) (op_capability op) \<noteq> None"
    if "op \<in> set (build_plan U cfg)" for op
  proof -
    have "op_capability op \<in> cap_name ` set (windows_capabilities p)"
      using plan_classified[OF that] windows_all_reported by (auto simp: classified_def)
    then show ?thesis by (rule reported_known)
  qed
  moreover have "s = Available"
    if "all_probes_pass p" "reported_state (windows_capabilities p) n = Some s" for n s
    using that all_probes_available by (auto simp: reported_state_def dest!: map_of_SomeD)
  ultimately show ?thesis
    by (fastforce simp: require_plan_ok operation_permitted_def)
qed

theorem windows_reports_witness:
  "require_plan_capabilities sample_ucd
      (windows_capabilities \<lparr>has_netsh = True, has_pnputil = True, has_force_driver = True,
        wifi_probe = None, account_probe = None, share_probe = None, mapping_probe = None\<rparr>) sample_config
    = Inr ()"
  by (rule windows_reports_every_capability[THEN conjunct2, rule_format])
    (simp add: all_probes_pass_def)

text \<open>A Wi-Fi scan that returns gives the networks sorted (the current connection first, then by
  falling signal quality, then by SSID bytes and interface index), and reports them as refreshed
  only when a refresh was requested.\<close>

theorem windows_scan_sorted:
  "windows_wifi_scan N if_index refresh timeout w = (Inr (refreshed, networks), w') \<Longrightarrow>
    sorted_wrt (\<lambda>a b. scan_key a \<le> scan_key b) networks \<and> (refreshed \<longrightarrow> refresh)"
  unfolding windows_wifi_scan_def bindE_ok_iff by (blast dest: scan_selected_ok)

definition sample_network :: "string \<Rightarrow> 8 word \<Rightarrow> bool \<Rightarrow> wifi_network" where
  "sample_network s q conn = \<lparr>wn_interface_if_index = 12, wn_interface_name = ''Wi-Fi'', wn_ssid = s,
     wn_ssid_hex = [], wn_profile_name = None, wn_signal_quality = q, wn_security_enabled = True,
     wn_authentication = ''rsna_psk'', wn_cipher = ''ccmp'', wn_connectable = True,
     wn_not_connectable_reason = None, wn_connected = conn, wn_bss_count = 1\<rparr>"

text \<open>A machine with one Wi-Fi interface that observes three networks.\<close>

definition sample_native :: "unit native" where
  "sample_native = \<lparr>nat_inventory = returnE [], nat_open = returnE (),
     nat_interfaces = returnE [\<lparr>wif_guid = 1, wif_if_index = 12, wif_description = ''Wi-Fi 12'', wif_state = 4\<rparr>],
     nat_radio_state = \<lambda>g. returnE RadioOn, nat_scan_and_wait = \<lambda>g t. returnE True,
     nat_available_networks = \<lambda>g i n. returnE
       [sample_network ''b'' 40 False, sample_network ''a'' 90 False, sample_network ''c'' 10 True],
     nat_interface_status = \<lambda>g s i n h. failE (pe_internal ''unused'')\<rparr>"

theorem windows_scan_witness:
  "sorted_wrt (\<lambda>a b. scan_key a \<le> scan_key b)
     [sample_network ''c'' 10 True, sample_network ''a'' 90 False, sample_network ''b'' 40 False]"
  by (rule windows_scan_sorted[of sample_native None True 4 "()" True _ "()", THEN conjunct1]) code_simp

end
