(* ===== verification/Wide.thy ===== *)
theory Wide
  imports Netplan_Text "HOL-Library.Word"
begin

text \<open>
  The UTF-16 strings of the Windows API: \<open>str::encode_utf16\<close> with a final NUL (\<open>wide\<close> of
  \<open>platform/windows/apply.rs\<close>, \<open>wifi.rs\<close> and \<open>smb.rs\<close>), \<open>String::from_utf16\<close>, and the proof that
  text survives the way to the API and back.
\<close>

section \<open>Code points\<close>

fun code_point :: "string \<Rightarrow> nat" where
  "code_point [a] = byte a"
| "code_point [a, b] = (byte a mod 32) * 64 + byte b mod 64"
| "code_point [a, b, c] = (byte a mod 16) * 4096 + (byte b mod 64) * 64 + byte c mod 64"
| "code_point [a, b, c, d] =
    (byte a mod 8) * 262144 + (byte b mod 64) * 4096 + (byte c mod 64) * 64 + byte d mod 64"
| "code_point _ = 0"

definition encode_utf8 :: "nat \<Rightarrow> string" where
  "encode_utf8 n =
    (if n < 128 then [char_of n]
     else if n < 2048 then [char_of (192 + n div 64), char_of (128 + n mod 64)]
     else if n < 65536 then
       [char_of (224 + n div 4096), char_of (128 + n div 64 mod 64), char_of (128 + n mod 64)]
     else [char_of (240 + n div 262144), char_of (128 + n div 4096 mod 64),
       char_of (128 + n div 64 mod 64), char_of (128 + n mod 64)])"

definition valid_point :: "nat \<Rightarrow> bool" where
  "valid_point n \<longleftrightarrow> n < 0x110000 \<and> \<not> between 0xD800 0xDFFF n"

definition text_of :: "nat list \<Rightarrow> string" where
  "text_of ns = concat (map encode_utf8 ns)"

section \<open>UTF-16\<close>

definition utf16_units :: "nat \<Rightarrow> 16 word list" where
  "utf16_units n =
    (if n < 0x10000 then [word_of_nat n]
     else [word_of_nat (0xD800 + (n - 0x10000) div 1024), word_of_nat (0xDC00 + (n - 0x10000) mod 1024)])"

definition encode_utf16 :: "string \<Rightarrow> 16 word list" where
  "encode_utf16 s = concat (map (\<lambda>x. utf16_units (code_point x)) (scalars s))"

definition wide :: "string \<Rightarrow> 16 word list" where
  "wide s = encode_utf16 s @ [0]"

fun decode_utf16 :: "16 word list \<Rightarrow> nat list option" where
  "decode_utf16 [] = Some []"
| "decode_utf16 (u # us) =
    (if \<not> between 0xD800 0xDFFF (unat u) then map_option ((#) (unat u)) (decode_utf16 us)
     else if 0xDC00 \<le> unat u then None
     else (case us of
        [] \<Rightarrow> None
      | v # vs \<Rightarrow>
          if between 0xDC00 0xDFFF (unat v) then
            map_option ((#) (0x10000 + (unat u - 0xD800) * 1024 + (unat v - 0xDC00))) (decode_utf16 vs)
          else None))"

definition from_utf16 :: "16 word list \<Rightarrow> string + string" where
  "from_utf16 us =
    (case decode_utf16 us of
       Some ns \<Rightarrow> Inr (text_of ns)
     | None \<Rightarrow> Inl ''invalid utf-16: lone surrogate found'')"

text \<open>The units of a buffer before its first NUL.\<close>

definition until_nul :: "16 word list \<Rightarrow> 16 word list" where
  "until_nul us = takeWhile (\<lambda>u. u \<noteq> 0) us"

section \<open>Scalar values of encoded text\<close>

lemma encode_utf8_shape:
  assumes "valid_point n"
  obtains h t where "encode_utf8 n = h # t" "\<not> is_cont h" "\<forall>c\<in>set t. is_cont c"
proof -
  have n: "n < 0x110000" using assms by (simp add: valid_point_def)
  have m: "n div 64 mod 64 < 64" "n mod 64 < 64" "n div 4096 mod 64 < 64" by simp_all
  consider "n < 128" | "128 \<le> n" "n < 2048" | "2048 \<le> n" "n < 65536" | "65536 \<le> n" by linarith
  then show ?thesis
  proof cases
    case 1
    then show ?thesis by (intro that) (auto simp: encode_utf8_def is_cont_def between_def byte_char_of)
  next
    case 2
    then have "n div 64 < 32" by (simp add: less_mult_imp_div_less)
    with 2 m show ?thesis
      by (intro that) (auto simp: encode_utf8_def is_cont_def between_def byte_char_of)
  next
    case 3
    then have "n div 4096 < 16" by (simp add: less_mult_imp_div_less)
    with 3 m show ?thesis
      by (intro that) (auto simp: encode_utf8_def is_cont_def between_def byte_char_of)
  next
    case 4
    have "n div 262144 < 5" using n by (simp add: less_mult_imp_div_less)
    with 4 m show ?thesis
      by (intro that) (auto simp: encode_utf8_def is_cont_def between_def byte_char_of)
  qed
qed

lemma scalars_concat:
  "(\<And>x. x \<in> set xs \<Longrightarrow> \<exists>h t. x = h # t \<and> \<not> is_cont h \<and> (\<forall>c\<in>set t. is_cont c)) \<Longrightarrow>
    scalars (concat xs) = xs"
proof (induction xs)
  case (Cons x xs)
  obtain h t where x: "x = h # t" "\<forall>c\<in>set t. is_cont c" using Cons.prems by (meson list.set_intros(1))
  have stop: "concat xs = [] \<or> \<not> is_cont (hd (concat xs))"
  proof (cases xs)
    case (Cons y ys)
    then obtain k u where "y = k # u" "\<not> is_cont k" using Cons.prems by (meson list.set_intros)
    with Cons show ?thesis by simp
  qed simp
  have "takeWhile is_cont (t @ concat xs) = t" "dropWhile is_cont (t @ concat xs) = concat xs"
    using x(2) stop by (auto simp: takeWhile_append dropWhile_append takeWhile_eq_Nil_iff dropWhile_eq_self_iff)
  with x Cons show ?case by simp
qed simp

lemma scalars_text_of: "list_all valid_point ns \<Longrightarrow> scalars (text_of ns) = map encode_utf8 ns"
  unfolding text_of_def
  by (rule scalars_concat) (auto simp: list_all_iff elim!: encode_utf8_shape)

lemma digits64: "n div 4096 * 4096 + n div 64 mod 64 * 64 + n mod 64 = (n :: nat)"
proof -
  have "n div 4096 = n div 64 div 64" by (simp add: div_mult2_eq)
  moreover have "n div 64 div 64 * 64 + n div 64 mod 64 = n div 64" by (rule div_mult_mod_eq)
  moreover have "n div 64 * 64 + n mod 64 = n" by (rule div_mult_mod_eq)
  ultimately show ?thesis by linarith
qed

lemma digits64_long:
  "n div 262144 * 262144 + n div 4096 mod 64 * 4096 + n div 64 mod 64 * 64 + n mod 64 = (n :: nat)"
proof -
  have "n div 262144 = n div 4096 div 64" by (simp add: div_mult2_eq)
  then have "n div 262144 * 262144 + n div 4096 mod 64 * 4096 = n div 4096 * 4096"
    using div_mult_mod_eq[of "n div 4096" 64] by linarith
  then show ?thesis using digits64[of n] by linarith
qed

lemma lead_bits:
  "k < 32 \<Longrightarrow> (192 + k) mod 32 = (k :: nat)"
  "k < 16 \<Longrightarrow> (224 + k) mod 16 = (k :: nat)"
  "k < 5 \<Longrightarrow> (240 + k) mod 8 = (k :: nat)"
  "k < 64 \<Longrightarrow> (128 + k) mod 64 = (k :: nat)"
  using mod_mult_self1[of k 6 32] mod_mult_self1[of k 14 16] mod_mult_self1[of k 30 8]
    mod_mult_self1[of k 2 64]
  by (simp_all add: add.commute)

lemma code_point_encode [simp]: "n < 0x110000 \<Longrightarrow> code_point (encode_utf8 n) = n"
proof -
  assume n: "n < 0x110000"
  have m: "n div 64 mod 64 < 64" "n mod 64 < 64" "n div 4096 mod 64 < 64" by simp_all
  consider "n < 128" | "128 \<le> n" "n < 2048" | "2048 \<le> n" "n < 65536" | "65536 \<le> n" by linarith
  then show ?thesis
  proof cases
    case 1
    then show ?thesis by (simp add: encode_utf8_def byte_char_of)
  next
    case 2
    then have d: "n div 64 < 32" by (simp add: less_mult_imp_div_less)
    then have "(192 + n div 64) mod 32 = n div 64" by (rule lead_bits)
    moreover have "encode_utf8 n = [char_of (192 + n div 64), char_of (128 + n mod 64)]"
      using 2 by (simp add: encode_utf8_def)
    moreover have "192 + n div 64 < 256" "128 + n mod 64 < 256" using d m by linarith+
    ultimately show ?thesis using m d div_mult_mod_eq[of n 64] by (simp add: byte_char_of lead_bits)
  next
    case 3
    then have d: "n div 4096 < 16" by (simp add: less_mult_imp_div_less)
    then have "(224 + n div 4096) mod 16 = n div 4096" by (rule lead_bits)
    with 3 d m show ?thesis by (simp add: encode_utf8_def byte_char_of lead_bits digits64)
  next
    case 4
    have d: "n div 262144 < 5" using n by (simp add: less_mult_imp_div_less)
    then have "(240 + n div 262144) mod 8 = n div 262144" by (rule lead_bits)
    with 4 d m show ?thesis by (simp add: encode_utf8_def byte_char_of lead_bits digits64_long)
  qed
qed

section \<open>The round trip\<close>

lemma unat_unit [simp]: "n < 65536 \<Longrightarrow> unat (word_of_nat n :: 16 word) = n"
  by (simp add: unat_of_nat take_bit_nat_eq_self)

lemma unat_unit_less: "unat (u :: 16 word) < 65536"
  using unsigned_less[of u] by simp

lemma decode_units:
  assumes "valid_point n"
  shows "decode_utf16 (utf16_units n @ us) = map_option ((#) n) (decode_utf16 us)"
proof (cases "n < 0x10000")
  case True
  then show ?thesis using assms by (simp add: utf16_units_def valid_point_def)
next
  case False
  define m where "m = n - 0x10000"
  have m: "n = 0x10000 + m" "m < 0x100000" using False assms by (auto simp: m_def valid_point_def)
  then have d: "m div 1024 < 1024" "m mod 1024 < 1024" by (auto simp: less_mult_imp_div_less)
  obtain h l where h: "h = 0xD800 + m div 1024" and l: "l = 0xDC00 + m mod 1024" by simp
  have "utf16_units n = [word_of_nat h, word_of_nat l]" using m by (simp add: utf16_units_def h l)
  moreover have "unat (word_of_nat h :: 16 word) = h" "unat (word_of_nat l :: 16 word) = l"
    using d by (simp_all only: unat_unit h l)
  moreover have "between 0xD800 0xDFFF h" "\<not> 0xDC00 \<le> h" "between 0xDC00 0xDFFF l"
    using d by (auto simp: between_def h l)
  moreover have "0x10000 + (h - 0xD800) * 1024 + (l - 0xDC00) = n" using m by (simp add: h l)
  ultimately show ?thesis by simp
qed

lemma decode_text: "list_all valid_point ns \<Longrightarrow> decode_utf16 (concat (map utf16_units ns)) = Some ns"
  by (induction ns) (simp_all add: decode_units)

lemma surrogate_pair:
  assumes "between 0xD800 0xDBFF u" "between 0xDC00 0xDFFF v"
  defines "n \<equiv> 0x10000 + (u - 0xD800) * 1024 + (v - 0xDC00)"
  shows "valid_point n" "0x10000 \<le> n" "0xD800 + (n - 0x10000) div 1024 = u" "0xDC00 + (n - 0x10000) mod 1024 = v"
proof -
  obtain a b where ab: "u = 0xD800 + a" "v = 0xDC00 + b" "a < 1024" "b < 1024"
    using assms(1,2) that[of "u - 0xD800" "v - 0xDC00"] by (auto simp: between_def)
  then have n: "n = 0x10000 + (b + a * 1024)" by (simp add: n_def)
  with ab show "valid_point n" "0x10000 \<le> n" by (auto simp: valid_point_def between_def)
  show "0xD800 + (n - 0x10000) div 1024 = u" "0xDC00 + (n - 0x10000) mod 1024 = v"
    unfolding n using ab by simp_all
qed

lemma decode_exact:
  "decode_utf16 us = Some ns \<Longrightarrow> list_all valid_point ns \<and> concat (map utf16_units ns) = us"
proof (induction us arbitrary: ns rule: decode_utf16.induct)
  case 1
  then show ?case by simp
next
  case (2 u us)
  show ?case
  proof (cases "between 0xD800 0xDFFF (unat u)")
    case False
    then obtain ms where "ns = unat u # ms" "decode_utf16 us = Some ms" using 2(3) by auto
    moreover have "valid_point (unat u)" "utf16_units (unat u) = [u]"
      using False unat_unit_less[of u] by (auto simp: valid_point_def utf16_units_def)
    ultimately show ?thesis using 2(1)[OF _ \<open>decode_utf16 us = Some ms\<close>] False by simp
  next
    case True
    then have low: "\<not> 0xDC00 \<le> unat u" and u: "between 0xD800 0xDBFF (unat u)"
      using 2(3) by (auto simp: between_def split: if_splits)
    then obtain v vs ms where vs: "us = v # vs" "between 0xDC00 0xDFFF (unat v)"
      "decode_utf16 vs = Some ms" "ns = (0x10000 + (unat u - 0xD800) * 1024 + (unat v - 0xDC00)) # ms"
      using 2(3) True by (auto split: list.splits if_splits)
    note pair = surrogate_pair[OF u vs(2)]
    have "utf16_units (0x10000 + (unat u - 0xD800) * 1024 + (unat v - 0xDC00)) = [u, v]"
      unfolding utf16_units_def pair(3,4) using pair(2) by simp
    then show ?thesis using pair(1) 2(2)[OF _ low vs(1,2)] vs True by simp
  qed
qed

lemma encode_text: "list_all valid_point ns \<Longrightarrow> encode_utf16 (text_of ns) = concat (map utf16_units ns)"
  unfolding encode_utf16_def by (simp add: scalars_text_of)
    (induction ns, simp_all add: valid_point_def)

lemma encode_from_utf16: "from_utf16 us = Inr s \<Longrightarrow> encode_utf16 s = us"
  unfolding from_utf16_def using decode_exact[of us] encode_text by (auto split: option.splits)

lemma until_nul_wide: "0 \<notin> set (encode_utf16 s) \<Longrightarrow> until_nul (wide s) = encode_utf16 s"
  unfolding until_nul_def wide_def by (auto simp: takeWhile_append takeWhile_eq_all_conv)

lemma until_nul_nonzero: "0 \<notin> set (until_nul us)"
  unfolding until_nul_def using set_takeWhileD by fastforce

lemma wide_from_utf16: "from_utf16 (until_nul us) = Inr s \<Longrightarrow> until_nul (wide s) = until_nul us"
  using encode_from_utf16[of "until_nul us" s] until_nul_nonzero[of us] until_nul_wide[of s] by simp

text \<open>ASCII text encodes to one unit per character.\<close>

definition ascii_text :: "string \<Rightarrow> bool" where
  "ascii_text s \<longleftrightarrow> list_all (\<lambda>c. byte c < 128) s"

lemma ascii_encoded: "ascii_text s \<Longrightarrow> text_of (map byte s) = s \<and> list_all valid_point (map byte s)"
  unfolding ascii_text_def text_of_def
  by (induction s) (auto simp: encode_utf8_def valid_point_def byte_def between_def)

lemma utf16_ascii: "n < 128 \<Longrightarrow> utf16_units n = [word_of_nat n]"
  by (simp add: utf16_units_def)

lemma encode_ascii: "ascii_text s \<Longrightarrow> encode_utf16 s = map (\<lambda>c. word_of_nat (byte c)) s"
proof -
  assume ascii: "ascii_text s"
  then have "encode_utf16 s = concat (map utf16_units (map byte s))" by (metis ascii_encoded encode_text)
  also have "\<dots> = map (\<lambda>c. word_of_nat (byte c)) s"
    using ascii unfolding ascii_text_def by (induction s) (simp_all add: utf16_ascii)
  finally show ?thesis .
qed

lemma decode_ascii:
  assumes "ascii_text s" shows "from_utf16 (encode_utf16 s) = Inr s"
proof -
  note s = ascii_encoded[OF assms]
  have "encode_utf16 s = concat (map utf16_units (map byte s))" using encode_text[of "map byte s"] s by simp
  then show ?thesis using decode_text[of "map byte s"] s by (simp add: from_utf16_def)
qed

lemma wide_ascii_inject: "ascii_text s \<Longrightarrow> ascii_text t \<Longrightarrow> wide s = wide t \<longleftrightarrow> s = t"
  unfolding wide_def by (metis append1_eq_conv decode_ascii sum.inject(2))

lemma decode_wide:
  "ascii_text s \<Longrightarrow> CHR 0x00 \<notin> set s \<Longrightarrow> from_utf16 (until_nul (wide s)) = Inr s"
proof -
  assume s: "ascii_text s" "CHR 0x00 \<notin> set s"
  have "(word_of_nat (byte c) :: 16 word) \<noteq> 0" if "c \<in> set s" for c
  proof
    assume zero: "(word_of_nat (byte c) :: 16 word) = 0"
    have "byte c < 128" using s(1) that by (simp add: ascii_text_def list_all_iff)
    then have "byte c = 0" using zero unat_unit[of "byte c"] by simp
    then have "char_of (of_char c :: nat) = (char_of (0 :: nat) :: char)" by (simp add: byte_def)
    moreover have "(char_of (0 :: nat) :: char) = CHR 0x00" by (simp add: char_of_def)
    ultimately have "c = CHR 0x00" by simp
    with s(2) that show False by simp
  qed
  then have "0 \<notin> set (encode_utf16 s)" using encode_ascii[OF s(1)] by force
  then show ?thesis using decode_ascii[OF s(1)] until_nul_wide by simp
qed

lemma until_nul_twice: "until_nul (until_nul u) = until_nul u"
  by (simp add: until_nul_def takeWhile_eq_all_conv)


end
