(* ===== verification/Windows.thy ===== *)
theory Windows
  imports Selection Wide
begin

text \<open>
  The Windows calls of \<open>crates/netpland/src/platform/windows/apply.rs\<close>: the API functions the source
  calls are the fields of the record \<open>windows\<close> over a world \<open>'w\<close>, and the wrappers with their error
  mapping, UTF-16 handling, external tools, registry access, service control and driver calls are
  modelled over them.
\<close>

section \<open>The API surface\<close>

type_synonym units = "16 word list"

record win_error =
  we_code :: "32 word"
  we_text :: string

datatype os_io_kind = IoNotFound | IoPermissionDenied | IoOther

record io_error =
  ioe_kind :: os_io_kind
  ioe_raw :: "int option"
  ioe_text :: string

record process_output =
  po_status :: "32 word"
  po_stdout :: string
  po_stderr :: string

datatype name_format = PhysicalDnsHostname | PhysicalDnsDomain

datatype reg_type = RegSz | RegMultiSz

record 'w windows =
  os_env :: "string \<Rightarrow> string option"
  os_output :: "string \<Rightarrow> string list \<Rightarrow> ('w, io_error, process_output) eff"
  os_status :: "string \<Rightarrow> string list \<Rightarrow> ('w, io_error, 32 word) eff"
  os_spawn :: "string \<Rightarrow> string list \<Rightarrow> ('w, io_error, unit) eff"
  os_name_size :: "name_format \<Rightarrow> 'w \<Rightarrow> (nat \<times> io_error) \<times> 'w"
  os_name_get :: "name_format \<Rightarrow> nat \<Rightarrow> ('w, win_error, nat \<times> units) eff"
  os_name_set :: "name_format \<Rightarrow> units \<Rightarrow> ('w, win_error, unit) eff"
  os_join_get :: "'w \<Rightarrow> (32 word \<times> units \<times> 32 word) \<times> 'w"
  os_buffer_free :: "'w \<Rightarrow> 32 word \<times> 'w"
  os_join_workgroup :: "units \<Rightarrow> 'w \<Rightarrow> 32 word \<times> 'w"
  os_reg_get :: "units \<Rightarrow> units \<Rightarrow> reg_type \<Rightarrow> nat option \<Rightarrow> 'w \<Rightarrow> (32 word \<times> nat \<times> units) \<times> 'w"
  os_reg_dword :: "units \<Rightarrow> units \<Rightarrow> 'w \<Rightarrow> (32 word \<times> 32 word) \<times> 'w"
  os_reg_set :: "units \<Rightarrow> units \<Rightarrow> units \<Rightarrow> 'w \<Rightarrow> 32 word \<times> 'w"
  os_reg_delete :: "units \<Rightarrow> units \<Rightarrow> 'w \<Rightarrow> 32 word \<times> 'w"
  os_scm_open :: "('w, win_error, unit) eff"
  os_service_open :: "units \<Rightarrow> ('w, win_error, unit) eff"
  os_service_query :: "units \<Rightarrow> ('w, win_error, 32 word) eff"
  os_service_start :: "units \<Rightarrow> ('w, win_error, unit) eff"
  os_service_stop :: "units \<Rightarrow> ('w, win_error, unit) eff"
  os_now :: "'w \<Rightarrow> nat \<times> 'w"
  os_sleep :: "nat \<Rightarrow> 'w \<Rightarrow> 'w"
  os_canonicalize :: "string \<Rightarrow> ('w, io_error, string option) eff"
  os_load_library :: "units \<Rightarrow> ('w, win_error, unit) eff"
  os_has_export :: "string \<Rightarrow> 'w \<Rightarrow> bool \<times> 'w"
  os_update_driver :: "units \<Rightarrow> units \<Rightarrow> 32 word \<Rightarrow> 'w \<Rightarrow> (bool \<times> bool \<times> io_error) \<times> 'w"

text \<open>A call that reports its outcome in its value, as a step that cannot fail.\<close>

definition callE :: "('w \<Rightarrow> 'a \<times> 'w) \<Rightarrow> ('w, 'e, 'a) eff" where
  "callE f = (\<lambda>w. case f w of (a, w') \<Rightarrow> (Inr a, w'))"

lemma callE_apply [eff_simps]: "f w = (a, w') \<Longrightarrow> callE f w = (Inr a, w')"
  by (simp add: callE_def)

lemma callE_ok_iff: "callE f w = (Inr a, w') \<longleftrightarrow> f w = (a, w')"
  by (auto simp: callE_def split: prod.splits)

lemma map_errE_ok_iff: "map_errE f m w = (Inr a, w') \<longleftrightarrow> m w = (Inr a, w')"
  by (auto simp: map_errE_def ok_simps split: prod.splits)

lemma keepsE_callE [keeps]: "(\<And>w. P w \<Longrightarrow> P (snd (f w))) \<Longrightarrow> keepsE P (callE f)"
  unfolding keepsE_def callE_def by (clarsimp split: prod.splits) (metis snd_conv)

section \<open>Errors\<close>

definition process_error :: "string \<Rightarrow> io_error \<Rightarrow> platform_error" where
  "process_error context e =
    (case ioe_kind e of
       IoNotFound \<Rightarrow> pe_not_found (context @ '' executable was not found: '' @ ioe_text e)
     | IoPermissionDenied \<Rightarrow> pe_permission_denied (context @ '' execution was denied: '' @ ioe_text e)
     | IoOther \<Rightarrow> pe_internal (context @ '' execution failed: '' @ ioe_text e))"

definition windows_last_error :: "string \<Rightarrow> io_error \<Rightarrow> platform_error" where
  "windows_last_error context e =
    (let m = context @ '' failed: '' @ ioe_text e in
     if ioe_raw e = Some 2 \<or> ioe_raw e = Some 1060 then pe_not_found m
     else if ioe_raw e = Some 5 then pe_permission_denied m else pe_internal m)"

definition windows_error :: "string \<Rightarrow> win_error \<Rightarrow> platform_error" where
  "windows_error context e =
    (let m = context @ '' failed: '' @ we_text e; win32 = unat (we_code e) mod 0x10000 in
     if win32 = 2 \<or> win32 = 1060 then pe_not_found m
     else if win32 = 5 then pe_permission_denied m else pe_internal m)"

definition net_api_error :: "string \<Rightarrow> 32 word \<Rightarrow> platform_error" where
  "net_api_error context code =
    (let m = context @ '' failed with status '' @ show_nat (unat code) in
     if code = 5 then pe_permission_denied m
     else if code = 2 \<or> code = 2221 then pe_not_found m else pe_internal m)"

definition registry_error :: "string \<Rightarrow> 32 word \<Rightarrow> platform_error" where
  "registry_error context code =
    (let m = context @ '' failed with status '' @ show_nat (unat code) in
     if code = 2 then pe_not_found m else if code = 5 then pe_permission_denied m else pe_internal m)"

text \<open>Decode UTF-16 or fail with a platform error.\<close>

definition decode_or :: "string \<Rightarrow> units \<Rightarrow> platform_error + string" where
  "decode_or what us = map_errR (\<lambda>e. pe_internal (what @ e)) (from_utf16 us)"

section \<open>Machine identity\<close>

definition get_computer_name :: "'w windows \<Rightarrow> name_format \<Rightarrow> ('w, platform_error, string) eff" where
  "get_computer_name A format =
    bindE (callE (os_name_size A format)) (\<lambda>(size, last_error).
    if size = 0 then failE (windows_last_error ''GetComputerNameExW size probe'' last_error)
    else bindE (map_errE (windows_error ''GetComputerNameExW'') (os_name_get A format size)) (\<lambda>(n, buffer).
      liftE (decode_or ''invalid UTF-16 computer name: '' (take n buffer))))"

definition set_computer_name :: "'w windows \<Rightarrow> name_format \<Rightarrow> string \<Rightarrow> ('w, platform_error, unit) eff" where
  "set_computer_name A format v =
    map_errE (windows_error ''SetComputerNameExW'') (os_name_set A format (wide v))"

definition get_workgroup :: "'w windows \<Rightarrow> ('w, platform_error, string) eff" where
  "get_workgroup A =
    bindE (callE (os_join_get A)) (\<lambda>(code, units, status).
    if code \<noteq> 0 then failE (net_api_error ''NetGetJoinInformation'' code)
    else bindE (callE (os_buffer_free A)) (\<lambda>free_code.
      if free_code \<noteq> 0 then failE (net_api_error ''NetApiBufferFree'' free_code)
      else if status \<noteq> 2 then failE (pe_invalid_config
        ''refusing to change a domain-joined machine to a workgroup without rollback credentials'')
      else liftE (decode_or ''NetGetJoinInformation returned invalid UTF-16: '' units)))"

definition set_workgroup :: "'w windows \<Rightarrow> string \<Rightarrow> ('w, platform_error, unit) eff" where
  "set_workgroup A v =
    bindE (callE (os_join_workgroup A (wide v))) (\<lambda>code.
    if code = 0 then returnE () else failE (net_api_error ''NetJoinDomain(workgroup)'' code))"

section \<open>External tools and hooks\<close>

text \<open>The \<open>Display\<close> of an exit status on Windows.\<close>

definition exit_text :: "32 word \<Rightarrow> string" where
  "exit_text s =
    ''exit code: '' @ (if 0x80000000 \<le> unat s then ''0x'' @ show_hex (unat s) else show_nat (unat s))"

text \<open>\<open>Path::join\<close> of a relative component on Windows.\<close>

definition path_join :: "string \<Rightarrow> string \<Rightarrow> string" where
  "path_join root part =
    (if root = [] \<or> last root = backslash \<or> last root = CHR ''/''
        \<or> (length root = 2 \<and> is_ascii_alphabetic (hd root) \<and> last root = CHR '':'')
     then root @ part else root @ [backslash] @ part)"

definition system_tool :: "'w windows \<Rightarrow> string \<Rightarrow> string" where
  "system_tool A n =
    (case os_env A ''SystemRoot'' of
       None \<Rightarrow> n
     | Some root \<Rightarrow> path_join (path_join root ''System32'') n)"

definition tool_diagnostic :: "process_output \<Rightarrow> string" where
  "tool_diagnostic out =
    (let err = trim (utf8_lossy (po_stderr out)); std = trim (utf8_lossy (po_stdout out)) in
     if std = [] \<and> err = [] then [] else if err = [] then std else if std = [] then err
     else err @ ''; '' @ std)"

definition tool_failure :: "string \<Rightarrow> process_output \<Rightarrow> platform_error" where
  "tool_failure tool out =
    (let d = tool_diagnostic out; m = tool @ '' exited with status '' @ exit_text (po_status out) in
     pe_internal (if d = [] then m else m @ '': '' @ d))"

definition run_netsh :: "'w windows \<Rightarrow> string list \<Rightarrow> ('w, platform_error, unit) eff" where
  "run_netsh A args =
    bindE (map_errE (process_error ''netsh'') (os_output A (system_tool A ''netsh.exe'') args)) (\<lambda>out.
    if po_status out = 0 then returnE () else failE (tool_failure ''netsh'' out))"

text \<open>\<open>ToolOutcome\<close>: whether a reboot is required.\<close>

definition run_pnputil :: "'w windows \<Rightarrow> string list \<Rightarrow> ('w, platform_error, bool) eff" where
  "run_pnputil A args =
    bindE (map_errE (process_error ''pnputil'') (os_output A (system_tool A ''pnputil.exe'') args)) (\<lambda>out.
    if po_status out = 0 \<or> po_status out = 3010 then returnE (po_status out = 3010)
    else failE (tool_failure ''pnputil'' out))"

definition run_hook :: "ucd \<Rightarrow> 'w windows \<Rightarrow> hook_config \<Rightarrow> ('w, platform_error, unit) eff" where
  "run_hook U A h =
    (if hk_wait h then
       bindE (map_errE (process_error ''hook'') (os_status A (hk_program h) (hk_args h))) (\<lambda>s.
       if s = 0 then returnE ()
       else failE (pe_internal (''hook '' @ debug_str U (hk_program h) @ '' exited with status '' @ exit_text s)))
     else map_errE (process_error ''hook'') (os_spawn A (hk_program h) (hk_args h)))"

definition run_hooks :: "ucd \<Rightarrow> 'w windows \<Rightarrow> netplan_config \<Rightarrow> hook_stage \<Rightarrow> ('w, platform_error, unit) eff" where
  "run_hooks U A cfg stage = forE (run_hook U A) (filter (\<lambda>h. hk_stage h = stage) (hooks cfg))"

section \<open>Registry\<close>

definition div_ceil2 :: "nat \<Rightarrow> nat" where
  "div_ceil2 n = (n + 1) div 2"

text \<open>The part of a buffer of the probed size that the second call filled.\<close>

definition used_units :: "nat \<Rightarrow> nat \<Rightarrow> units \<Rightarrow> units" where
  "used_units bytes used buffer = take (min (used div 2) (div_ceil2 bytes)) buffer"

definition read_registry_text ::
    "'w windows \<Rightarrow> string \<Rightarrow> string \<Rightarrow> reg_type \<Rightarrow> ('w, platform_error, string option) eff" where
  "read_registry_text A subkey v flags =
    bindE (callE (os_reg_get A (wide subkey) (wide v) flags None)) (\<lambda>(code, bytes, _).
    if code = 2 then returnE None
    else if code \<noteq> 0 then failE (registry_error ''RegGetValueW text size probe'' code)
    else bindE (callE (os_reg_get A (wide subkey) (wide v) flags (Some bytes))) (\<lambda>(code, used, buffer).
      if code \<noteq> 0 then failE (registry_error ''RegGetValueW text'' code)
      else liftE (mapR Some (decode_or ''invalid registry UTF-16: '' (until_nul (used_units bytes used buffer))))))"

definition registry_value_has_text ::
    "'w windows \<Rightarrow> string \<Rightarrow> string \<Rightarrow> reg_type \<Rightarrow> ('w, platform_error, bool) eff" where
  "registry_value_has_text A subkey v flags =
    bindE (callE (os_reg_get A (wide subkey) (wide v) flags None)) (\<lambda>(code, bytes, _).
    if code = 2 then returnE False
    else if code \<noteq> 0 then failE (registry_error ''RegGetValueW size probe'' code)
    else if bytes = 0 then returnE False
    else bindE (callE (os_reg_get A (wide subkey) (wide v) flags (Some bytes))) (\<lambda>(code, used, buffer).
      if code \<noteq> 0 then failE (registry_error ''RegGetValueW'' code)
      else returnE (\<exists>u\<in>set (used_units bytes used buffer). u \<noteq> 0)))"

definition read_registry_dword :: "'w windows \<Rightarrow> string \<Rightarrow> string \<Rightarrow> ('w, platform_error, 32 word) eff" where
  "read_registry_dword A subkey v =
    bindE (callE (os_reg_dword A (wide subkey) (wide v))) (\<lambda>(code, data).
    if code = 0 then returnE data else failE (registry_error ''RegGetValueW(DWORD)'' code))"

definition set_registry_string ::
    "'w windows \<Rightarrow> string \<Rightarrow> string \<Rightarrow> string \<Rightarrow> ('w, platform_error, unit) eff" where
  "set_registry_string A subkey v data =
    (if 2 ^ 32 \<le> length (wide data) * 2 then
       failE (pe_invalid_config ''registry string exceeds the Windows DWORD size limit'')
     else bindE (callE (os_reg_set A (wide subkey) (wide v) (wide data))) (\<lambda>code.
       if code = 0 then returnE () else failE (registry_error ''RegSetKeyValueW'' code)))"

definition delete_registry_value :: "'w windows \<Rightarrow> string \<Rightarrow> string \<Rightarrow> ('w, platform_error, unit) eff" where
  "delete_registry_value A subkey v =
    bindE (callE (os_reg_delete A (wide subkey) (wide v))) (\<lambda>code.
    if code = 0 \<or> code = 2 then returnE () else failE (registry_error ''RegDeleteKeyValueW'' code))"

text \<open>\<open>{index:04}\<close> and the search for the class key of an adapter.\<close>

definition pad4 :: "nat \<Rightarrow> string" where
  "pad4 n = replicate (4 - length (show_nat n)) CHR ''0'' @ show_nat n"

definition registry_path :: "string list \<Rightarrow> string" where
  "registry_path parts = join_with [backslash] parts"

definition class_key :: "nat \<Rightarrow> string" where
  "class_key n = registry_path [''SYSTEM'', ''CurrentControlSet'', ''Control'', ''Class'',
     ''{4D36E972-E325-11CE-BFC1-08002BE10318}'', pad4 n]"

fun find_class_key_in ::
    "ucd \<Rightarrow> 'w windows \<Rightarrow> string \<Rightarrow> nat list \<Rightarrow> ('w, platform_error, string) eff" where
  "find_class_key_in U A guid [] =
    failE (pe_not_found (''adapter registry class key was not found for GUID '' @ debug_str U guid))"
| "find_class_key_in U A guid (n # ns) =
    bindE (read_registry_text A (class_key n) ''NetCfgInstanceId'' RegSz) (\<lambda>v.
    if is_some_and (\<lambda>t. eq_ignore_ascii_case (trim_matches ''{}'' t) (trim_matches ''{}'' guid)) v
    then returnE (class_key n) else find_class_key_in U A guid ns)"

definition find_adapter_class_key :: "ucd \<Rightarrow> 'w windows \<Rightarrow> string \<Rightarrow> ('w, platform_error, string) eff" where
  "find_adapter_class_key U A guid = find_class_key_in U A guid [0..<10000]"

section \<open>Waiting with a deadline\<close>

text \<open>
  The loop of \<open>wait_for_service_state\<close> and \<open>Client::wait_for_profile\<close>: test, give up when the
  deadline has passed, sleep.  It is a partial function, because a clock that stands still keeps it
  running; \<open>poll\<close> is the same loop with a bound on its rounds.
\<close>

partial_function (option) poll_loop ::
    "'w windows \<Rightarrow> ('w, platform_error, bool) eff \<Rightarrow> nat \<Rightarrow> nat \<Rightarrow> platform_error \<Rightarrow> 'w
      \<Rightarrow> ((platform_error + unit) \<times> 'w) option" where
  "poll_loop A reached deadline pause late w =
    (case reached w of
       (Inl e, w1) \<Rightarrow> Some (Inl e, w1)
     | (Inr r, w1) \<Rightarrow>
         if r then Some (Inr (), w1)
         else (case os_now A w1 of (t, w2) \<Rightarrow>
           if deadline \<le> t then Some (Inl late, w2)
           else poll_loop A reached deadline pause late (os_sleep A pause w2)))"

fun poll ::
    "'w windows \<Rightarrow> ('w, platform_error, bool) eff \<Rightarrow> nat \<Rightarrow> nat \<Rightarrow> platform_error \<Rightarrow> nat
      \<Rightarrow> ('w, platform_error, unit) eff" where
  "poll A reached deadline pause late 0 = failE late"
| "poll A reached deadline pause late (Suc n) =
    bindE reached (\<lambda>r.
    if r then returnE ()
    else bindE (callE (os_now A)) (\<lambda>t.
      if deadline \<le> t then failE late
      else bindE (callE (\<lambda>w. ((), os_sleep A pause w))) (\<lambda>_. poll A reached deadline pause late n)))"

section \<open>Services\<close>

definition SERVICE_STOPPED :: "32 word" where
  "SERVICE_STOPPED = 1"

definition SERVICE_RUNNING :: "32 word" where
  "SERVICE_RUNNING = 4"

definition open_manager :: "'w windows \<Rightarrow> ('w, platform_error, unit) eff" where
  "open_manager A = map_errE (windows_error ''OpenSCManagerW'') (os_scm_open A)"

definition open_service :: "'w windows \<Rightarrow> string \<Rightarrow> ('w, platform_error, unit) eff" where
  "open_service A n = map_errE (windows_error ''OpenServiceW'') (os_service_open A (wide n))"

definition query_service :: "'w windows \<Rightarrow> string \<Rightarrow> ('w, platform_error, 32 word) eff" where
  "query_service A n = map_errE (windows_error ''QueryServiceStatus'') (os_service_query A (wide n))"

definition service_is_running :: "'w windows \<Rightarrow> string \<Rightarrow> ('w, platform_error, bool) eff" where
  "service_is_running A n =
    bindE (open_manager A) (\<lambda>_. bindE (open_service A n) (\<lambda>_. bindE (query_service A n) (\<lambda>s.
    returnE (s = SERVICE_RUNNING))))"

definition service_available :: "'w windows \<Rightarrow> string \<Rightarrow> ('w, platform_error, unit) eff" where
  "service_available A n = bindE (open_manager A) (\<lambda>_. open_service A n)"

definition service_reached :: "'w windows \<Rightarrow> string \<Rightarrow> 32 word \<Rightarrow> ('w, platform_error, bool) eff" where
  "service_reached A n desired = bindE (query_service A n) (\<lambda>s. returnE (s = desired))"

definition service_late :: "32 word \<Rightarrow> platform_error" where
  "service_late desired = pe_internal (''service did not reach state '' @ show_nat (unat desired)
     @ '' within 30 seconds'')"

text \<open>
  Each round sleeps 100 ms and the deadline is 30 s away, so 302 rounds never run out on a clock that
  advances while the thread sleeps (lemma \<open>poll_enough\<close>).
\<close>

definition wait_for_service_state :: "'w windows \<Rightarrow> string \<Rightarrow> 32 word \<Rightarrow> ('w, platform_error, unit) eff" where
  "wait_for_service_state A n desired =
    bindE (callE (os_now A)) (\<lambda>start.
      poll A (service_reached A n desired) (start + 30000) 100 (service_late desired) 302)"

definition set_service_running :: "'w windows \<Rightarrow> string \<Rightarrow> bool \<Rightarrow> ('w, platform_error, unit) eff" where
  "set_service_running A n running =
    bindE (open_manager A) (\<lambda>_. bindE (open_service A n) (\<lambda>_. bindE (query_service A n) (\<lambda>current.
    if running \<and> current \<noteq> SERVICE_RUNNING then
      bindE (map_errE (windows_error ''StartServiceW'') (os_service_start A (wide n))) (\<lambda>_.
        wait_for_service_state A n SERVICE_RUNNING)
    else if \<not> running \<and> current \<noteq> SERVICE_STOPPED then
      bindE (map_errE (windows_error ''ControlService(STOP)'') (os_service_stop A (wide n))) (\<lambda>_.
        wait_for_service_state A n SERVICE_STOPPED)
    else returnE ())))"

section \<open>Drivers\<close>

definition force_install_driver :: "'w windows \<Rightarrow> string \<Rightarrow> string \<Rightarrow> ('w, platform_error, bool) eff" where
  "force_install_driver A inf_path hardware_id =
    bindE (map_errE (process_error ''canonicalize driver INF'') (os_canonicalize A inf_path)) (\<lambda>p.
    bindE (liftE (ok_or p (pe_invalid_config ''driver INF path is not representable as Unicode''))) (\<lambda>full_path.
    bindE (map_errE (\<lambda>e. pe_unsupported (''newdev.dll is unavailable: '' @ we_text e))
      (os_load_library A (wide ''newdev.dll''))) (\<lambda>_.
    bindE (callE (os_has_export A ''UpdateDriverForPlugAndPlayDevicesW'')) (\<lambda>found.
    if \<not> found then failE (pe_unsupported ''newdev.dll does not export UpdateDriverForPlugAndPlayDevicesW'')
    else bindE (callE (os_update_driver A (wide hardware_id) (wide full_path) 5)) (\<lambda>(success, reboot, last_error).
      if success then returnE reboot
      else failE (windows_last_error ''UpdateDriverForPlugAndPlayDevicesW'' last_error))))))"

definition restart_required :: "restart_policy \<Rightarrow> bool \<Rightarrow> bool" where
  "restart_required policy reboot \<longleftrightarrow> policy = Always \<or> (policy = IfRequired \<and> reboot)"

definition install_driver ::
    "'w windows \<Rightarrow> string \<Rightarrow> string option \<Rightarrow> bool \<Rightarrow> restart_policy \<Rightarrow> ('w, platform_error, unit) eff" where
  "install_driver A inf_path hardware_id force restart =
    bindE
      (if force then
         bindE (liftE (ok_or hardware_id (pe_invalid_config ''forced driver replacement requires a hardware_id'')))
           (force_install_driver A inf_path)
       else run_pnputil A [''/add-driver'', inf_path, ''/install'']) (\<lambda>reboot.
    if restart_required restart reboot then
      bindE (liftE (ok_or hardware_id (pe_invalid_config ''driver restart requires a hardware_id''))) (\<lambda>hw.
      bindE (run_pnputil A [''/restart-device'', ''/deviceid'', hw]) (\<lambda>_. returnE ()))
    else returnE ())"

section \<open>The waiting loop ends\<close>

text \<open>
  A monotonic clock (\<open>Instant::now\<close>): reading it gives the time of the world and does not turn it
  back, and a sleep lasts at least as long as asked.
\<close>

definition clock_advances :: "'w windows \<Rightarrow> ('w \<Rightarrow> nat) \<Rightarrow> bool" where
  "clock_advances A time \<longleftrightarrow>
    (\<forall>w. fst (os_now A w) = time w \<and> time w \<le> time (snd (os_now A w)))
    \<and> (\<forall>d w. time w + d \<le> time (os_sleep A d w))"

definition keeps_time :: "('w \<Rightarrow> nat) \<Rightarrow> ('w, 'e, 'a) eff \<Rightarrow> bool" where
  "keeps_time time m \<longleftrightarrow> (\<forall>w. time w \<le> time (snd (m w)))"

lemma poll_enough:
  assumes clock: "clock_advances A time" and test: "keeps_time time reached"
  shows "deadline \<le> time w + n * pause \<Longrightarrow>
    poll_loop A reached deadline pause late w = Some (poll A reached deadline pause late (Suc n) w)"
proof (induction n arbitrary: w)
  case 0
  obtain r w1 where r: "reached w = (r, w1)" by fastforce
  obtain t w2 where t: "os_now A w1 = (t, w2)" by fastforce
  have "time w \<le> time w1" using test r unfolding keeps_time_def by (metis snd_conv)
  moreover have "t = time w1" using clock t unfolding clock_advances_def by (metis fst_conv)
  ultimately have "deadline \<le> t" using 0 by simp
  then show ?case using r t by (subst poll_loop.simps) (cases r; simp add: bindE_def callE_def returnE_def failE_def)
next
  case (Suc n)
  obtain r w1 where r: "reached w = (r, w1)" by fastforce
  obtain t w2 where t: "os_now A w1 = (t, w2)" by fastforce
  let ?w3 = "os_sleep A pause w2"
  have "time w \<le> time w1" using test r unfolding keeps_time_def by (metis snd_conv)
  also have "time w1 \<le> time w2" using clock t unfolding clock_advances_def by (metis snd_conv)
  also have "time w2 + pause \<le> time ?w3" using clock unfolding clock_advances_def by blast
  finally have "deadline \<le> time ?w3 + n * pause" using Suc.prems by simp
  then have IH: "poll_loop A reached deadline pause late ?w3
      = Some (poll A reached deadline pause late (Suc n) ?w3)" by (rule Suc.IH)
  show ?case using r t IH
    by (subst poll_loop.simps, subst poll.simps(2))
      (cases r; simp add: bindE_def callE_def returnE_def failE_def del: poll.simps)
qed

lemma poll_ok: "poll A reached deadline pause late n w = (Inr (), w') \<Longrightarrow> \<exists>v. reached v = (Inr True, w')"
proof (induction n arbitrary: w)
  case 0
  then show ?case by (simp add: failE_def)
next
  case (Suc n)
  then show ?case
    by (auto simp: bindE_ok_iff callE_ok_iff returnE_def failE_def split: if_splits)
qed

text \<open>C16: waiting for a service ends: on a clock that advances while the thread sleeps the loop of
  \<open>wait_for_service_state\<close> returns, with the result of its bounded form; it succeeds only when the
  service was seen in the requested state.\<close>

theorem service_wait_ends:
  assumes "clock_advances A time" and "\<forall>n. keeps_time time (os_service_query A n)"
  shows "poll_loop A (service_reached A n desired) (fst (os_now A w) + 30000) 100 (service_late desired)
        (snd (os_now A w)) = Some (wait_for_service_state A n desired w)
    \<and> (fst (wait_for_service_state A n desired w) = Inr () \<longrightarrow>
        (\<exists>v. os_service_query A (wide n) v = (Inr desired, snd (wait_for_service_state A n desired w))))"
proof
  obtain t w1 where t: "os_now A w = (t, w1)" by fastforce
  have wait: "wait_for_service_state A n desired w
      = poll A (service_reached A n desired) (t + 30000) 100 (service_late desired) 302 w1"
    unfolding wait_for_service_state_def bindE_def callE_def using t by simp
  have "keeps_time time (service_reached A n desired)"
    using assms(2) unfolding keeps_time_def service_reached_def query_service_def bindE_def map_errE_def returnE_def
    by (auto split: prod.splits sum.splits) (metis snd_conv)+
  moreover have "t + 30000 \<le> time w1 + 301 * 100"
  proof -
    have "fst (os_now A w) = time w" "time w \<le> time (snd (os_now A w))"
      using assms(1) unfolding clock_advances_def by blast+
    with t show ?thesis by simp
  qed
  ultimately show "poll_loop A (service_reached A n desired) (fst (os_now A w) + 30000) 100
      (service_late desired) (snd (os_now A w)) = Some (wait_for_service_state A n desired w)"
    using poll_enough[OF assms(1), of "service_reached A n desired" "t + 30000" w1 301 100 "service_late desired"] wait t
    by simp
  show "fst (wait_for_service_state A n desired w) = Inr () \<longrightarrow>
        (\<exists>v. os_service_query A (wide n) v = (Inr desired, snd (wait_for_service_state A n desired w)))"
  proof
    assume "fst (wait_for_service_state A n desired w) = Inr ()"
    then obtain w' where w': "wait_for_service_state A n desired w = (Inr (), w')" by (metis prod.collapse)
    with wait obtain v where "service_reached A n desired v = (Inr True, w')" by (metis poll_ok)
    then have "os_service_query A (wide n) v = (Inr desired, w')"
      unfolding service_reached_def query_service_def
      by (auto simp: bindE_ok_iff map_errE_ok_iff returnE_def)
    with w' show "\<exists>v. os_service_query A (wide n) v = (Inr desired, snd (wait_for_service_state A n desired w))"
      by auto
  qed
qed

end
