(* ===== verification/Network.thy ===== *)
theory Network
  imports Windows
begin

text \<open>
  The IPv4, DNS, WINS and firewall changes of \<open>crates/netpland/src/platform/windows/apply.rs\<close>: the
  \<open>netsh\<close> commands, the apply of one adapter's IPv4 document, and the captured state with its
  restore and verification (\<open>NetworkRestore\<close>, \<open>FirewallRestore\<close>).
\<close>

section \<open>The netsh commands\<close>

definition name_arg :: "32 word \<Rightarrow> string" where
  "name_arg if_index = ''name='' @ show_nat (unat if_index)"

definition set_adapter_enabled :: "'w windows \<Rightarrow> string \<Rightarrow> bool \<Rightarrow> ('w, platform_error, unit) eff" where
  "set_adapter_enabled A n enabled =
    run_netsh A [''interface'', ''set'', ''interface'', ''name='' @ n,
      ''admin='' @ (if enabled then ''enabled'' else ''disabled'')]"

definition restart_adapter :: "'w windows \<Rightarrow> string \<Rightarrow> ('w, platform_error, unit) eff" where
  "restart_adapter A n =
    bindE (set_adapter_enabled A n False) (\<lambda>_ w.
      case set_adapter_enabled A n True w of
        (Inr _, w1) \<Rightarrow> (Inr (), w1)
      | (Inl e, w1) \<Rightarrow>
          (case set_adapter_enabled A n True w1 of
             (Inr _, w2) \<Rightarrow> (Inl (pe_internal
               (''adapter restart failed but the adapter was re-enabled: '' @ pe_message e)), w2)
           | (Inl e', w2) \<Rightarrow> (Inl (pe_internal
               (''adapter restart failed and re-enable recovery also failed: '' @ pe_message e
                @ ''; '' @ pe_message e')), w2)))"

definition set_address_dhcp :: "'w windows \<Rightarrow> 32 word \<Rightarrow> ('w, platform_error, unit) eff" where
  "set_address_dhcp A if_index =
    run_netsh A [''interface'', ''ipv4'', ''set'', ''address'', name_arg if_index, ''source=dhcp'']"

definition set_primary_address ::
    "'w windows \<Rightarrow> 32 word \<Rightarrow> string \<Rightarrow> string \<Rightarrow> ('w, platform_error, unit) eff" where
  "set_primary_address A if_index address gateway =
    run_netsh A [''interface'', ''ipv4'', ''set'', ''address'', name_arg if_index, ''source=static'',
      ''address='' @ address, ''gateway='' @ gateway, ''store=active'']"

definition add_address :: "'w windows \<Rightarrow> 32 word \<Rightarrow> string \<Rightarrow> ('w, platform_error, unit) eff" where
  "add_address A if_index address =
    run_netsh A [''interface'', ''ipv4'', ''add'', ''address'', name_arg if_index,
      ''address='' @ address, ''gateway=none'', ''store=active'']"

definition add_gateway :: "'w windows \<Rightarrow> 32 word \<Rightarrow> string \<Rightarrow> ('w, platform_error, unit) eff" where
  "add_gateway A if_index gateway =
    run_netsh A [''interface'', ''ipv4'', ''add'', ''route'', ''prefix=0.0.0.0/0'',
      ''interface='' @ show_nat (unat if_index), ''nexthop='' @ gateway, ''store=active'']"

definition delete_address :: "'w windows \<Rightarrow> 32 word \<Rightarrow> string \<Rightarrow> ('w, platform_error, unit) eff" where
  "delete_address A if_index address =
    run_netsh A [''interface'', ''ipv4'', ''delete'', ''address'', name_arg if_index,
      ''address='' @ address, ''store=active'']"

definition delete_gateway :: "'w windows \<Rightarrow> 32 word \<Rightarrow> ipv4_addr \<Rightarrow> ('w, platform_error, unit) eff" where
  "delete_gateway A if_index gateway =
    run_netsh A [''interface'', ''ipv4'', ''delete'', ''route'', ''prefix=0.0.0.0/0'',
      ''interface='' @ show_nat (unat if_index), ''nexthop='' @ ipv4_text gateway, ''store=active'']"

definition set_dns_from_dhcp :: "'w windows \<Rightarrow> 32 word \<Rightarrow> ('w, platform_error, unit) eff" where
  "set_dns_from_dhcp A if_index =
    run_netsh A [''interface'', ''ipv4'', ''set'', ''dnsservers'', name_arg if_index, ''source=dhcp'']"

definition first_or_none :: "string list \<Rightarrow> string" where
  "first_or_none xs = (case xs of [] \<Rightarrow> ''none'' | x # _ \<Rightarrow> x)"

text \<open>\<open>iter().enumerate().skip(1)\<close>, with the one-based position \<open>netsh\<close> takes.\<close>

definition numbered_rest :: "string list \<Rightarrow> (nat \<times> string) list" where
  "numbered_rest xs = drop 1 (enumerate 1 xs)"

definition set_dns_family ::
    "'w windows \<Rightarrow> string \<Rightarrow> 32 word \<Rightarrow> string list \<Rightarrow> ('w, platform_error, unit) eff" where
  "set_dns_family A family if_index servers =
    thenE (run_netsh A [''interface'', family, ''set'', ''dnsservers'', name_arg if_index,
        ''source=static'', ''address='' @ first_or_none servers, ''validate=no''])
      (forE (\<lambda>(i, server). run_netsh A [''interface'', family, ''add'', ''dnsservers'',
          name_arg if_index, ''address='' @ server, ''index='' @ show_nat i, ''validate=no''])
        (numbered_rest servers))"

fun v4_text :: "ip_addr \<Rightarrow> string option" where
  "v4_text (V4 a) = Some (ipv4_text a)"
| "v4_text (V6 a) = None"

fun v6_text :: "ip_addr \<Rightarrow> string option" where
  "v6_text (V4 a) = None"
| "v6_text (V6 a) = Some (ip_text (V6 a))"

definition set_dns ::
    "'w windows \<Rightarrow> 32 word \<Rightarrow> ip_addr list \<Rightarrow> bool \<Rightarrow> ('w, platform_error, unit) eff" where
  "set_dns A if_index servers from_dhcp =
    (if from_dhcp then set_dns_from_dhcp A if_index
     else thenE (set_dns_family A ''ipv4'' if_index (List.map_filter v4_text servers))
       (set_dns_family A ''ipv6'' if_index (List.map_filter v6_text servers)))"

definition set_wins_from_dhcp :: "'w windows \<Rightarrow> 32 word \<Rightarrow> ('w, platform_error, unit) eff" where
  "set_wins_from_dhcp A if_index =
    run_netsh A [''interface'', ''ipv4'', ''set'', ''winsservers'', name_arg if_index, ''source=dhcp'']"

definition set_wins ::
    "'w windows \<Rightarrow> 32 word \<Rightarrow> ipv4_addr list \<Rightarrow> bool \<Rightarrow> ('w, platform_error, unit) eff" where
  "set_wins A if_index servers from_dhcp =
    (if from_dhcp then set_wins_from_dhcp A if_index
     else thenE (run_netsh A [''interface'', ''ipv4'', ''set'', ''winsservers'', name_arg if_index,
          ''source=static'', ''address='' @ first_or_none (map ipv4_text servers)])
       (forE (\<lambda>(i, server). run_netsh A [''interface'', ''ipv4'', ''add'', ''winsservers'',
          name_arg if_index, ''address='' @ server, ''index='' @ show_nat i])
         (numbered_rest (map ipv4_text servers))))"

section \<open>Captured network state\<close>

record network_restore =
  nr_snapshot :: adapter_snapshot
  nr_dns_from_dhcp :: bool
  nr_wins_from_dhcp :: bool
  nr_applied_addresses :: "ipv4_addr list"
  nr_applied_gateways :: "ipv4_addr list"

definition no_guid :: platform_error where
  "no_guid = pe_invalid_config ''selected adapter has no stable Windows GUID''"

definition tcpip_key :: "string \<Rightarrow> string" where
  "tcpip_key guid = registry_path [''SYSTEM'', ''CurrentControlSet'', ''Services'', ''Tcpip'',
     ''Parameters'', ''Interfaces'', guid]"

definition netbt_key :: "string \<Rightarrow> string" where
  "netbt_key guid = registry_path [''SYSTEM'', ''CurrentControlSet'', ''Services'', ''NetBT'',
     ''Parameters'', ''Interfaces'', ''Tcpip_'' @ guid]"

definition nr_capture :: "'w windows \<Rightarrow> adapter_snapshot \<Rightarrow> ('w, platform_error, network_restore) eff" where
  "nr_capture A s =
    bindE (liftE (ok_or (ai_guid (as_info s)) no_guid)) (\<lambda>guid.
    bindE (registry_value_has_text A (tcpip_key guid) ''NameServer'' RegSz) (\<lambda>dns.
    bindE (registry_value_has_text A (netbt_key guid) ''NameServerList'' RegMultiSz) (\<lambda>wins.
    returnE \<lparr>nr_snapshot = s, nr_dns_from_dhcp = \<not> dns, nr_wins_from_dhcp = \<not> wins,
      nr_applied_addresses = [], nr_applied_gateways = []\<rparr>)))"

fun record_targets :: "ipv4_config \<Rightarrow> network_restore \<Rightarrow> network_restore" where
  "record_targets (Dhcp _) r = r"
| "record_targets (Static addresses gateways _ _) r =
    r\<lparr>nr_applied_addresses := filter (\<lambda>a. \<not> (\<exists>x\<in>set (as_manual_ipv4 (nr_snapshot r)).
          ip_address x = ipv4_text a)) (map fst addresses),
      nr_applied_gateways := filter (\<lambda>g. g \<notin> set (as_gateways (nr_snapshot r))) gateways\<rparr>"

text \<open>The adapter with an interface index in a fresh inventory.\<close>

definition find_current ::
    "'w native \<Rightarrow> string \<Rightarrow> string \<Rightarrow> 32 word \<Rightarrow> ('w, platform_error, adapter_snapshot) eff" where
  "find_current N what moment if_index =
    bindE (inventory_for N what) (\<lambda>inventory.
    liftE (ok_or (find (\<lambda>a. snapshot_index a = if_index) inventory)
      (pe_not_found (''adapter if_index='' @ show_nat (unat if_index) @ '' disappeared '' @ moment))))"

definition has_address :: "adapter_snapshot \<Rightarrow> string \<Rightarrow> bool" where
  "has_address s t \<longleftrightarrow> (\<exists>x\<in>set (ai_ipv4 (as_info s)). ip_address x = t)"

text \<open>Delete the addresses and gateways of a list that the adapter still has.\<close>

definition delete_present ::
    "'w windows \<Rightarrow> 32 word \<Rightarrow> adapter_snapshot \<Rightarrow> string list \<Rightarrow> ipv4_addr list
      \<Rightarrow> ('w, platform_error, unit) eff" where
  "delete_present A if_index current addresses gateways =
    thenE (forE (\<lambda>a. if has_address current a then delete_address A if_index a else returnE ()) addresses)
      (forE (\<lambda>g. if g \<in> set (as_gateways current) then delete_gateway A if_index g else returnE ()) gateways)"

definition remove_captured_network ::
    "'w windows \<Rightarrow> 'w native \<Rightarrow> 32 word \<Rightarrow> ip_address_info list \<Rightarrow> ipv4_addr list
      \<Rightarrow> ('w, platform_error, unit) eff" where
  "remove_captured_network A N if_index addresses gateways =
    bindE (find_current N ''adapter cleanup inventory failed: '' ''during network cleanup'' if_index) (\<lambda>current.
      delete_present A if_index current (map ip_address addresses) gateways)"

section \<open>Applying an IPv4 document\<close>

definition manual_addresses_match :: "adapter_snapshot \<Rightarrow> ipv4_net list \<Rightarrow> bool" where
  "manual_addresses_match s desired \<longleftrightarrow>
    length (as_manual_ipv4 s) = length desired
    \<and> (\<forall>(actual, d) \<in> set (zip (as_manual_ipv4 s) desired).
        ip_address actual = ipv4_text (fst d) \<and> ip_prefix_length actual = snd d)"

definition static_network_matches ::
    "network_restore \<Rightarrow> ipv4_net list \<Rightarrow> ipv4_addr list \<Rightarrow> ip_addr list \<Rightarrow> ipv4_addr list \<Rightarrow> bool" where
  "static_network_matches r addresses gateways dns wins \<longleftrightarrow>
    \<not> nr_dns_from_dhcp r \<and> \<not> nr_wins_from_dhcp r
    \<and> manual_addresses_match (nr_snapshot r) addresses
    \<and> as_gateways (nr_snapshot r) = gateways
    \<and> as_dns (nr_snapshot r) = dns
    \<and> as_wins (nr_snapshot r) = wins"

definition when_ok :: "bool \<Rightarrow> ('w, 'e, unit) eff \<Rightarrow> ('w, 'e, unit) eff" where
  "when_ok b m = (if b then m else returnE ())"

definition set_static_addresses ::
    "'w windows \<Rightarrow> 32 word \<Rightarrow> string list \<Rightarrow> string list \<Rightarrow> platform_error \<Rightarrow> ('w, platform_error, unit) eff" where
  "set_static_addresses A if_index addresses gateways missing =
    (case addresses of
       [] \<Rightarrow> failE missing
     | first # rest \<Rightarrow>
         thenE (set_primary_address A if_index first (first_or_none gateways))
           (thenE (forE (add_address A if_index) rest)
             (forE (add_gateway A if_index) (drop 1 gateways))))"

fun apply_ipv4 ::
    "'w windows \<Rightarrow> 'w native \<Rightarrow> network_restore \<Rightarrow> ipv4_config \<Rightarrow> ('w, platform_error, bool) eff" where
  "apply_ipv4 A N r (Dhcp dns_from_dhcp) =
    (let s = nr_snapshot r; i = snapshot_index s;
         address = \<not> as_dhcp_enabled s; manual = as_manual_ipv4 s \<noteq> [];
         dns = dns_from_dhcp \<and> \<not> nr_dns_from_dhcp r; wins = dns_from_dhcp \<and> \<not> nr_wins_from_dhcp r in
     bindE (thenE (when_ok address (set_address_dhcp A i))
       (thenE (when_ok manual (remove_captured_network A N i (as_manual_ipv4 s) (as_gateways s)))
         (thenE (when_ok dns (set_dns_from_dhcp A i)) (when_ok wins (set_wins_from_dhcp A i)))))
       (\<lambda>_. returnE (address \<or> manual \<or> dns \<or> wins)))"
| "apply_ipv4 A N r (Static addresses gateways dns wins) =
    (if static_network_matches r addresses gateways dns wins then returnE False
     else (let i = snapshot_index (nr_snapshot r) in
       bindE (thenE (set_static_addresses A i (map ipv4_net_text addresses) (map ipv4_text gateways)
             (pe_invalid_config ''static IPv4 plan contains no addresses''))
           (thenE (set_dns A i dns False) (set_wins A i wins False)))
         (\<lambda>_. returnE True)))"

section \<open>Restoring\<close>

definition info_text :: "ip_address_info \<Rightarrow> string" where
  "info_text x = ip_address x @ ''/'' @ show_nat (unat (ip_prefix_length x))"

definition manual_snapshot_matches :: "adapter_snapshot \<Rightarrow> adapter_snapshot \<Rightarrow> bool" where
  "manual_snapshot_matches current desired \<longleftrightarrow> as_manual_ipv4 current = as_manual_ipv4 desired"

definition restore_static_address :: "'w windows \<Rightarrow> network_restore \<Rightarrow> 32 word \<Rightarrow> ('w, platform_error, unit) eff" where
  "restore_static_address A r if_index =
    set_static_addresses A if_index (map info_text (as_manual_ipv4 (nr_snapshot r)))
      (map ipv4_text (as_gateways (nr_snapshot r)))
      (pe_internal ''cannot restore static IPv4 adapter that had no captured address'')"

definition address_restored :: "network_restore \<Rightarrow> adapter_snapshot \<Rightarrow> bool" where
  "address_restored r current \<longleftrightarrow>
    (if as_manual_ipv4 (nr_snapshot r) = [] then
       \<forall>a\<in>set (nr_applied_addresses r). \<not> has_address current (ipv4_text a)
     else manual_snapshot_matches current (nr_snapshot r)
       \<and> as_gateways current = as_gateways (nr_snapshot r))"

definition dns_restored :: "network_restore \<Rightarrow> network_restore \<Rightarrow> bool" where
  "dns_restored r now \<longleftrightarrow>
    nr_dns_from_dhcp now = nr_dns_from_dhcp r
    \<and> (nr_dns_from_dhcp r \<or> as_dns (nr_snapshot now) = as_dns (nr_snapshot r))"

definition wins_restored :: "network_restore \<Rightarrow> network_restore \<Rightarrow> bool" where
  "wins_restored r now \<longleftrightarrow>
    nr_wins_from_dhcp now = nr_wins_from_dhcp r
    \<and> (nr_wins_from_dhcp r \<or> as_wins (nr_snapshot now) = as_wins (nr_snapshot r))"

definition verify_restored :: "'w windows \<Rightarrow> 'w native \<Rightarrow> network_restore \<Rightarrow> 32 word \<Rightarrow> ('w, platform_error, unit) eff" where
  "verify_restored A N r if_index =
    bindE (find_current N ''adapter rollback verification failed: '' ''during rollback verification'' if_index) (\<lambda>current.
    bindE (nr_capture A current) (\<lambda>sources.
    if as_dhcp_enabled current = as_dhcp_enabled (nr_snapshot r) \<and> address_restored r current
       \<and> dns_restored r sources \<and> wins_restored r sources
    then returnE ()
    else failE (pe_internal (''adapter if_index='' @ show_nat (unat if_index)
      @ '' did not match its captured logical network state after rollback''))))"

text \<open>The first part of \<open>restore\<close>: addresses, then name servers, from the differences found.\<close>

definition restore_addresses ::
    "'w windows \<Rightarrow> network_restore \<Rightarrow> 32 word \<Rightarrow> adapter_snapshot \<Rightarrow> ('w, platform_error, unit) eff" where
  "restore_addresses A r if_index current =
    (let s = nr_snapshot r in
     if as_manual_ipv4 s \<noteq> [] \<and> (\<not> manual_snapshot_matches current s \<or> as_gateways current \<noteq> as_gateways s)
     then restore_static_address A r if_index
     else if as_manual_ipv4 s = [] \<and> as_dhcp_enabled s \<noteq> as_dhcp_enabled current \<and> as_dhcp_enabled s
     then set_address_dhcp A if_index
     else returnE ())"

definition restore_servers ::
    "'w windows \<Rightarrow> network_restore \<Rightarrow> 32 word \<Rightarrow> network_restore \<Rightarrow> ('w, platform_error, unit) eff" where
  "restore_servers A r if_index now =
    thenE (when_ok (\<not> dns_restored r now) (set_dns A if_index (as_dns (nr_snapshot r)) (nr_dns_from_dhcp r)))
      (when_ok (\<not> wins_restored r now) (set_wins A if_index (as_wins (nr_snapshot r)) (nr_wins_from_dhcp r)))"

definition nr_restore :: "'w windows \<Rightarrow> 'w native \<Rightarrow> network_restore \<Rightarrow> ('w, platform_error, unit) eff" where
  "nr_restore A N r =
    (let if_index = snapshot_index (nr_snapshot r) in
     bindE (find_current N ''adapter rollback inventory failed: '' ''before rollback'' if_index) (\<lambda>current.
     bindE (nr_capture A current) (\<lambda>sources.
     bindE (restore_addresses A r if_index current) (\<lambda>_.
     bindE (restore_servers A r if_index sources) (\<lambda>_.
     bindE (find_current N ''adapter rollback cleanup inventory failed: '' ''during rollback'' if_index) (\<lambda>cleanup.
     bindE (delete_present A if_index cleanup (map ipv4_text (nr_applied_addresses r)) (nr_applied_gateways r)) (\<lambda>_.
     verify_restored A N r if_index)))))))"

section \<open>Firewall\<close>

record firewall_restore =
  fr_domain :: bool
  fr_private :: bool
  fr_public :: bool

definition firewall_key :: "string \<Rightarrow> string" where
  "firewall_key profile = registry_path [''SYSTEM'', ''CurrentControlSet'', ''Services'', ''SharedAccess'',
     ''Parameters'', ''FirewallPolicy'', profile]"

definition firewall_flag :: "'w windows \<Rightarrow> string \<Rightarrow> ('w, platform_error, bool) eff" where
  "firewall_flag A profile =
    bindE (read_registry_dword A (firewall_key profile) ''EnableFirewall'') (\<lambda>v. returnE (v \<noteq> 0))"

definition fw_capture :: "'w windows \<Rightarrow> ('w, platform_error, firewall_restore) eff" where
  "fw_capture A =
    bindE (firewall_flag A ''DomainProfile'') (\<lambda>domain.
    bindE (firewall_flag A ''StandardProfile'') (\<lambda>private.
    bindE (firewall_flag A ''PublicProfile'') (\<lambda>public.
    returnE \<lparr>fr_domain = domain, fr_private = private, fr_public = public\<rparr>)))"

definition all_equal :: "firewall_restore \<Rightarrow> bool \<Rightarrow> bool" where
  "all_equal r enabled \<longleftrightarrow> fr_domain r = enabled \<and> fr_private r = enabled \<and> fr_public r = enabled"

definition set_firewall_profile :: "'w windows \<Rightarrow> string \<Rightarrow> bool \<Rightarrow> ('w, platform_error, unit) eff" where
  "set_firewall_profile A profile enabled =
    run_netsh A [''advfirewall'', ''set'', profile, ''state'', if enabled then ''on'' else ''off'']"

definition fw_restore :: "'w windows \<Rightarrow> firewall_restore \<Rightarrow> ('w, platform_error, unit) eff" where
  "fw_restore A r =
    thenE (set_firewall_profile A ''domainprofile'' (fr_domain r))
      (thenE (set_firewall_profile A ''privateprofile'' (fr_private r))
        (set_firewall_profile A ''publicprofile'' (fr_public r)))"

end
