(* ===== verification/Wlan.thy ===== *)
theory Wlan
  imports Windows Validate
begin

text \<open>
  Native Wi-Fi, \<open>crates/netpland/src/platform/windows/wifi.rs\<close>: the functions of \<open>wlanapi.dll\<close> are
  the fields of the record \<open>wlan\<close>; the client over them, the decoding of what they return, the profile
  document with its escaping, and the rollback of Wi-Fi changes.
\<close>

section \<open>The API surface\<close>

type_synonym guid = "128 word"

record dot11_ssid =
  ssid_length :: "32 word"
  ssid_bytes :: string

record wlan_interface_info =
  wii_guid :: guid
  wii_description :: units
  wii_state :: "32 word"

record connection_attributes =
  wca_state :: "32 word"
  wca_profile :: units
  wca_ssid :: dot11_ssid
  wca_quality :: "32 word"
  wca_rx_rate :: "32 word"
  wca_tx_rate :: "32 word"
  wca_security_enabled :: bool
  wca_auth :: "32 word"
  wca_cipher :: "32 word"

record available_network =
  wan_profile :: units
  wan_ssid :: dot11_ssid
  wan_bssids :: "32 word"
  wan_connectable :: bool
  wan_reason :: "32 word"
  wan_quality :: "32 word"
  wan_security_enabled :: bool
  wan_auth :: "32 word"
  wan_cipher :: "32 word"
  wan_flags :: "32 word"

text \<open>The software and the hardware state of the radio of one PHY; there is room for 64 of them.\<close>

record radio_record =
  rr_count :: "32 word"
  rr_phys :: "(32 word \<times> 32 word) list"

text \<open>A notification: source, interface, code, and the failure reason if the payload carries one.\<close>

record wlan_notification =
  wno_source :: "32 word"
  wno_guid :: guid
  wno_code :: "32 word"
  wno_reason :: "32 word option"

text \<open>
  A returned list or record is \<open>None\<close> when the pointer is null (or the record shorter than its type).
  \<open>wl_notifications\<close> gives the notifications delivered to a registered callback while it is waited
  for a number of milliseconds.
\<close>

record 'w wlan =
  wl_open_handle :: "'w \<Rightarrow> 32 word \<times> 'w"
  wl_enum_interfaces :: "'w \<Rightarrow> (32 word \<times> wlan_interface_info list option) \<times> 'w"
  wl_guid_to_luid :: "guid \<Rightarrow> 'w \<Rightarrow> (32 word \<times> 64 word) \<times> 'w"
  wl_luid_to_index :: "64 word \<Rightarrow> 'w \<Rightarrow> (32 word \<times> 32 word) \<times> 'w"
  wl_get_profile :: "guid \<Rightarrow> units \<Rightarrow> 'w \<Rightarrow> (32 word \<times> units) \<times> 'w"
  wl_set_profile :: "guid \<Rightarrow> units \<Rightarrow> 'w \<Rightarrow> (32 word \<times> 32 word) \<times> 'w"
  wl_delete_profile :: "guid \<Rightarrow> units \<Rightarrow> 'w \<Rightarrow> 32 word \<times> 'w"
  wl_scan :: "guid \<Rightarrow> 'w \<Rightarrow> 32 word \<times> 'w"
  wl_connect :: "guid \<Rightarrow> units \<Rightarrow> 'w \<Rightarrow> 32 word \<times> 'w"
  wl_disconnect :: "guid \<Rightarrow> 'w \<Rightarrow> 32 word \<times> 'w"
  wl_query_connection :: "guid \<Rightarrow> 'w \<Rightarrow> (32 word \<times> connection_attributes option) \<times> 'w"
  wl_query_radio :: "guid \<Rightarrow> 'w \<Rightarrow> (32 word \<times> radio_record option) \<times> 'w"
  wl_available_networks :: "guid \<Rightarrow> 'w \<Rightarrow> (32 word \<times> available_network list option) \<times> 'w"
  wl_register :: "bool \<Rightarrow> 'w \<Rightarrow> 32 word \<times> 'w"
  wl_notifications :: "nat \<Rightarrow> 'w \<Rightarrow> wlan_notification list \<times> 'w"

section \<open>Results and errors\<close>

definition ERROR_RADIO_OFF :: "32 word" where
  "ERROR_RADIO_OFF = 0x80342002"

definition wlan_result :: "string \<Rightarrow> 32 word \<Rightarrow> platform_error + unit" where
  "wlan_result operation code =
    (if code = 0 then Inr ()
     else if code = ERROR_RADIO_OFF then
       Inl (pe_unsupported (operation
         @ '' is unavailable because the Wi-Fi radio is off; turn on Wi-Fi and retry''))
     else Inl (platform_error_new
       (if code = 5 then PermissionDenied
        else if code = 2 \<or> code = 1168 then PlatformNotFound
        else if code = 87 then InvalidConfig
        else if code = 1062 then Unsupported else Internal)
       (operation @ '' failed with Windows error '' @ show_nat (unat code))))"

definition fixed_wide :: "units \<Rightarrow> platform_error + string" where
  "fixed_wide us = decode_or ''Native Wi-Fi returned invalid UTF-16: '' (until_nul us)"

definition hex_bytes :: "string \<Rightarrow> string" where
  "hex_bytes s = concat (map (\<lambda>c. hex2_upper (byte c)) s)"

definition ssid_parts :: "dot11_ssid \<Rightarrow> platform_error + string \<times> string" where
  "ssid_parts s =
    (let n = unat (ssid_length s) in
     if length (ssid_bytes s) < n then Inl (pe_internal ''Native Wi-Fi returned an invalid SSID length'')
     else (let b = take n (ssid_bytes s) in Inr (utf8_lossy b, hex_bytes b)))"

definition quality :: "32 word \<Rightarrow> 8 word" where
  "quality v = word_of_nat (min (unat v) 100)"

definition interface_state_name :: "32 word \<Rightarrow> string" where
  "interface_state_name s =
    (if s = 0 then ''not_ready'' else if s = 1 then ''connected''
     else if s = 2 then ''ad_hoc_network_formed'' else if s = 3 then ''disconnecting''
     else if s = 4 then ''disconnected'' else if s = 5 then ''associating''
     else if s = 6 then ''discovering'' else if s = 7 then ''authenticating'' else ''unknown'')"

definition effective_interface_state :: "32 word \<Rightarrow> radio_state \<Rightarrow> string" where
  "effective_interface_state s r = (if r = RadioOff then ''radio_off'' else interface_state_name s)"

text \<open>The radio states are 1 for on and 2 for off.\<close>

definition classify_radio_state :: "radio_record \<Rightarrow> radio_state" where
  "classify_radio_state r =
    (let n = unat (rr_count r) in
     if n = 0 \<or> length (rr_phys r) < n then RadioUnknown
     else (let phys = take n (rr_phys r) in
       if \<exists>p\<in>set phys. fst p = 1 \<and> snd p = 1 then RadioOn
       else if \<forall>p\<in>set phys. fst p = 2 \<or> snd p = 2 then RadioOff
       else RadioUnknown))"

definition unknown_name :: "32 word \<Rightarrow> string" where
  "unknown_name v = ''unknown('' @ show_nat (unat v) @ '')''"

definition auth_name :: "32 word \<Rightarrow> string" where
  "auth_name v =
    (if v = 1 then ''open'' else if v = 2 then ''shared_key'' else if v = 3 then ''wpa_enterprise''
     else if v = 4 then ''wpa_personal'' else if v = 5 then ''wpa_none''
     else if v = 6 then ''wpa2_enterprise'' else if v = 7 then ''wpa2_personal''
     else if v = 8 \<or> v = 11 then ''wpa3_enterprise'' else if v = 9 then ''wpa3_personal''
     else if v = 10 then ''owe'' else unknown_name v)"

definition cipher_name :: "32 word \<Rightarrow> string" where
  "cipher_name v =
    (if v = 0 then ''none'' else if v = 1 then ''wep40'' else if v = 2 then ''tkip''
     else if v = 4 then ''ccmp'' else if v = 5 then ''wep104'' else if v = 6 then ''bip''
     else if v = 8 then ''gcmp'' else if v = 9 then ''gcmp_256'' else if v = 10 then ''ccmp_256''
     else if v = 11 then ''bip_gmac_128'' else if v = 12 then ''bip_gmac_256''
     else if v = 13 then ''bip_cmac_256'' else if v = 0x100 then ''use_group''
     else if v = 0x101 then ''wep'' else unknown_name v)"

definition filter_empty :: "string \<Rightarrow> string option" where
  "filter_empty s = (if s = [] then None else Some s)"

definition decode_network :: "available_network \<Rightarrow> 32 word \<Rightarrow> string \<Rightarrow> platform_error + wifi_network" where
  "decode_network n if_index interface_name' =
    bindR (ssid_parts (wan_ssid n)) (\<lambda>(ssid, hex).
    bindR (fixed_wide (wan_profile n)) (\<lambda>profile.
    Inr \<lparr>wn_interface_if_index = if_index, wn_interface_name = interface_name', wn_ssid = ssid,
      wn_ssid_hex = hex, wn_profile_name = filter_empty profile,
      wn_signal_quality = quality (wan_quality n), wn_security_enabled = wan_security_enabled n,
      wn_authentication = auth_name (wan_auth n), wn_cipher = cipher_name (wan_cipher n),
      wn_connectable = wan_connectable n,
      wn_not_connectable_reason = (if wan_connectable n then None else Some (wan_reason n)),
      wn_connected = (wan_flags n AND 1 \<noteq> 0), wn_bss_count = wan_bssids n\<rparr>))"

section \<open>The profile document\<close>

fun xml_escape_char :: "char \<Rightarrow> string" where
  "xml_escape_char c =
    (if c = CHR ''&'' then ''&amp;'' else if c = CHR ''<'' then ''&lt;''
     else if c = CHR ''>'' then ''&gt;'' else if c = dquote then ''&quot;''
     else if c = CHR 0x27 then ''&apos;'' else [c])"

definition xml_escape :: "string \<Rightarrow> string" where
  "xml_escape s = concat (map xml_escape_char s)"

definition wifi_profile_name :: "wifi_profile \<Rightarrow> string" where
  "wifi_profile_name p = (case wp_name p of None \<Rightarrow> wp_ssid p | Some n \<Rightarrow> n)"

definition resolve_secret :: "ucd \<Rightarrow> 'w windows \<Rightarrow> secret_ref \<Rightarrow> platform_error + string" where
  "resolve_secret U A s =
    (case s of
       Literal v \<Rightarrow> Inr v
     | Env n \<Rightarrow> ok_or (os_env A n) (pe_not_found (''required secret environment variable ''
         @ debug_str U n @ '' is not set or is not Unicode'')))"

definition is_hex_key :: "string \<Rightarrow> bool" where
  "is_hex_key s \<longleftrightarrow> length s = 64 \<and> (\<forall>c\<in>set s. is_ascii_hexdigit c)"

definition validate_runtime_psk :: "string \<Rightarrow> wifi_authentication \<Rightarrow> platform_error + unit" where
  "validate_runtime_psk s auth =
    (if (between 8 63 (length s) \<and> (\<forall>c\<in>set s. between 32 126 (byte c)))
        \<or> (auth = Wpa2Personal \<and> is_hex_key s)
     then Inr ()
     else Inl (pe_invalid_config (''resolved Wi-Fi PSK must be an 8 to 63 byte printable ASCII passphrase; ''
       @ ''WPA2 also accepts 64 hexadecimal digits'')))"

definition xml_tag :: "string \<Rightarrow> string \<Rightarrow> string" where
  "xml_tag t body = ''<'' @ t @ ''>'' @ body @ ''</'' @ t @ ''>''"

definition quoted :: "string \<Rightarrow> string" where
  "quoted s = dquote # s @ [dquote]"

definition security_xml :: "ucd \<Rightarrow> 'w windows \<Rightarrow> wifi_profile \<Rightarrow> platform_error + string" where
  "security_xml U A p =
    (if wp_authentication p = Open then
       Inr (xml_tag ''authEncryption'' (xml_tag ''authentication'' ''open''
         @ xml_tag ''encryption'' ''none'' @ xml_tag ''useOneX'' ''false''))
     else
       bindR (ok_or (wp_psk p) (pe_invalid_config ''secured Wi-Fi profile has no PSK reference'')) (\<lambda>r.
       bindR (resolve_secret U A r) (\<lambda>secret.
       bindR (validate_runtime_psk secret (wp_authentication p)) (\<lambda>_.
       (let wpa2 = (wp_authentication p = Wpa2Personal) in
        Inr (xml_tag ''authEncryption'' (xml_tag ''authentication'' (if wpa2 then ''WPA2PSK'' else ''WPA3SAE'')
             @ xml_tag ''encryption'' ''AES'' @ xml_tag ''useOneX'' ''false'')
           @ xml_tag ''sharedKey'' (xml_tag ''keyType''
               (if wpa2 \<and> is_hex_key secret then ''networkKey'' else ''passPhrase'')
             @ xml_tag ''protected'' ''false'' @ xml_tag ''keyMaterial'' (xml_escape secret))))))))"

definition profile_xml :: "ucd \<Rightarrow> 'w windows \<Rightarrow> wifi_profile \<Rightarrow> platform_error + string" where
  "profile_xml U A p =
    bindR (security_xml U A p) (\<lambda>security.
    Inr (''<?xml version='' @ quoted ''1.0'' @ ''?><WLANProfile xmlns=''
      @ quoted ''https://www.microsoft.com/networking/WLAN/profile/v1'' @ ''>''
      @ xml_tag ''name'' (xml_escape (wifi_profile_name p))
      @ xml_tag ''SSIDConfig'' (xml_tag ''SSID'' (xml_tag ''name'' (xml_escape (wp_ssid p)))
          @ (if wp_hidden p then xml_tag ''nonBroadcast'' ''true'' else []))
      @ xml_tag ''connectionType'' ''ESS''
      @ xml_tag ''connectionMode'' (if wp_auto_connect p then ''auto'' else ''manual'')
      @ xml_tag ''autoSwitch'' ''false''
      @ xml_tag ''MSM'' (xml_tag ''security'' security) @ ''</WLANProfile>''))"

section \<open>The client\<close>

definition wlan_call :: "string \<Rightarrow> ('w \<Rightarrow> 32 word \<times> 'w) \<Rightarrow> ('w, platform_error, unit) eff" where
  "wlan_call operation f = bindE (callE f) (\<lambda>code. liftE (wlan_result operation code))"

definition load_symbol :: "'w windows \<Rightarrow> string \<Rightarrow> ('w, platform_error, unit) eff" where
  "load_symbol A n =
    bindE (callE (os_has_export A n)) (\<lambda>found.
    if found then returnE () else failE (pe_unsupported (''wlanapi.dll does not export '' @ n)))"

definition wlan_symbols :: "string list" where
  "wlan_symbols = [''WlanOpenHandle'', ''WlanCloseHandle'', ''WlanFreeMemory'', ''WlanEnumInterfaces'',
     ''WlanGetProfile'', ''WlanSetProfile'', ''WlanDeleteProfile'', ''WlanScan'', ''WlanConnect'',
     ''WlanDisconnect'', ''WlanQueryInterface'', ''WlanGetAvailableNetworkList'',
     ''WlanRegisterNotification'']"

definition wlan_open :: "'w windows \<Rightarrow> 'w wlan \<Rightarrow> ('w, platform_error, unit) eff" where
  "wlan_open A W =
    bindE (map_errE (\<lambda>e. pe_unsupported
        (''Native Wi-Fi is unavailable because wlanapi.dll could not be loaded: '' @ we_text e))
      (os_load_library A (wide ''wlanapi.dll''))) (\<lambda>_.
    thenE (forE (load_symbol A) wlan_symbols) (wlan_call ''WlanOpenHandle'' (wl_open_handle W)))"

definition wlan_interface_index :: "'w wlan \<Rightarrow> guid \<Rightarrow> ('w, platform_error, 32 word) eff" where
  "wlan_interface_index W g =
    bindE (callE (wl_guid_to_luid W g)) (\<lambda>(code, luid).
    bindE (liftE (wlan_result ''ConvertInterfaceGuidToLuid'' code)) (\<lambda>_.
    bindE (callE (wl_luid_to_index W luid)) (\<lambda>(code', if_index).
    bindE (liftE (wlan_result ''ConvertInterfaceLuidToIndex'' code')) (\<lambda>_. returnE if_index))))"

definition decode_interface :: "'w wlan \<Rightarrow> wlan_interface_info \<Rightarrow> ('w, platform_error, wifi_interface) eff" where
  "decode_interface W i =
    bindE (wlan_interface_index W (wii_guid i)) (\<lambda>if_index.
    bindE (liftE (fixed_wide (wii_description i))) (\<lambda>description.
    returnE \<lparr>wif_guid = wii_guid i, wif_if_index = if_index, wif_description = description,
      wif_state = wii_state i\<rparr>))"

definition wlan_interfaces :: "'w wlan \<Rightarrow> ('w, platform_error, wifi_interface list) eff" where
  "wlan_interfaces W =
    bindE (callE (wl_enum_interfaces W)) (\<lambda>(code, items).
    bindE (liftE (wlan_result ''WlanEnumInterfaces'' code)) (\<lambda>_.
    bindE (liftE (ok_or items (pe_internal ''WlanEnumInterfaces returned a null interface list''))) (\<lambda>is.
    if 256 < length is then
      failE (pe_internal ''Native Wi-Fi interface list exceeded the traversal limit'')
    else traverseE (decode_interface W) is)))"

definition wlan_get_profile :: "'w wlan \<Rightarrow> guid \<Rightarrow> string \<Rightarrow> ('w, platform_error, string option) eff" where
  "wlan_get_profile W g n =
    bindE (callE (wl_get_profile W g (wide n))) (\<lambda>(code, xml).
    if code = 1168 then returnE None
    else bindE (liftE (wlan_result ''WlanGetProfile'' code)) (\<lambda>_.
      liftE (mapR Some (decode_or ''WlanGetProfile returned invalid UTF-16: '' (until_nul xml)))))"

definition wlan_set_profile_xml :: "'w wlan \<Rightarrow> guid \<Rightarrow> string \<Rightarrow> ('w, platform_error, unit) eff" where
  "wlan_set_profile_xml W g xml =
    bindE (callE (wl_set_profile W g (wide xml))) (\<lambda>(code, reason).
    if code = 0 \<and> reason = 0 then returnE ()
    else if code \<noteq> 0 then liftE (wlan_result ''WlanSetProfile'' code)
    else failE (pe_invalid_config (''WlanSetProfile rejected the profile with WLAN reason code ''
      @ show_nat (unat reason))))"

definition wlan_set_profile ::
    "ucd \<Rightarrow> 'w windows \<Rightarrow> 'w wlan \<Rightarrow> guid \<Rightarrow> wifi_profile \<Rightarrow> ('w, platform_error, unit) eff" where
  "wlan_set_profile U A W g p = bindE (liftE (profile_xml U A p)) (wlan_set_profile_xml W g)"

definition wlan_delete_profile :: "'w wlan \<Rightarrow> guid \<Rightarrow> string \<Rightarrow> ('w, platform_error, unit) eff" where
  "wlan_delete_profile W g n =
    bindE (callE (wl_delete_profile W g (wide n))) (\<lambda>code.
    if code = 1168 then returnE () else liftE (wlan_result ''WlanDeleteProfile'' code))"

definition wlan_radio_state :: "'w wlan \<Rightarrow> guid \<Rightarrow> ('w, platform_error, radio_state) eff" where
  "wlan_radio_state W g =
    bindE (callE (wl_query_radio W g)) (\<lambda>(code, data).
    bindE (liftE (wlan_result ''WlanQueryInterface(radio_state)'' code)) (\<lambda>_.
    bindE (liftE (ok_or data (pe_internal ''WlanQueryInterface returned a truncated radio state''))) (\<lambda>r.
    if length (rr_phys r) < unat (rr_count r) then
      failE (pe_internal ''Native Wi-Fi returned an invalid radio PHY count'')
    else returnE (classify_radio_state r))))"

definition wlan_scan :: "'w wlan \<Rightarrow> guid \<Rightarrow> ('w, platform_error, unit) eff" where
  "wlan_scan W g =
    bindE (wlan_radio_state W g) (\<lambda>r.
    if r = RadioOff then liftE (wlan_result ''WlanScan'' ERROR_RADIO_OFF)
    else wlan_call ''WlanScan'' (wl_scan W g))"

datatype scan_event = ScanComplete | ScanFailed "32 word"

text \<open>\<open>scan_notification\<close>: the event the callback sends to the waiting scan, if any.\<close>

definition scan_notification :: "guid \<Rightarrow> wlan_notification \<Rightarrow> scan_event option" where
  "scan_notification g n =
    (if wno_source n \<noteq> 8 \<or> wno_guid n \<noteq> g then None
     else if wno_code n = 7 then Some ScanComplete
     else if wno_code n = 8 then
       Some (ScanFailed (case wno_reason n of None \<Rightarrow> 0 | Some r \<Rightarrow> r))
     else None)"

text \<open>
  What the wait makes of the notifications: the first event counts, none is a timeout.  The sender
  lives in the callback context, so the channel is never found disconnected.
\<close>

definition scan_outcome :: "guid \<Rightarrow> wlan_notification list \<Rightarrow> platform_error + bool" where
  "scan_outcome g ns =
    (case List.map_filter (scan_notification g) ns of
       [] \<Rightarrow> Inr False
     | ScanComplete # _ \<Rightarrow> Inr True
     | ScanFailed r # _ \<Rightarrow> Inl (pe_internal (''Native Wi-Fi scan failed with WLAN reason code ''
         @ show_nat (unat r))))"

definition wlan_scan_and_wait :: "'w wlan \<Rightarrow> guid \<Rightarrow> nat \<Rightarrow> ('w, platform_error, bool) eff" where
  "wlan_scan_and_wait W g timeout =
    bindE (wlan_call ''WlanRegisterNotification'' (wl_register W True)) (\<lambda>_ w.
      case bindE (wlan_scan W g) (\<lambda>_.
             bindE (callE (wl_notifications W timeout)) (\<lambda>ns. liftE (scan_outcome g ns))) w of
        (outcome, w1) \<Rightarrow>
          (case wlan_call ''WlanRegisterNotification(unregister)'' (wl_register W False) w1 of
            (unregistered, w2) \<Rightarrow> (bindR outcome (\<lambda>r. bindR unregistered (\<lambda>_. Inr r)), w2)))"

definition wlan_current_connection ::
    "'w wlan \<Rightarrow> guid \<Rightarrow> ('w, platform_error, connection_attributes option) eff" where
  "wlan_current_connection W g =
    bindE (callE (wl_query_connection W g)) (\<lambda>(code, data).
    if code = 1168 \<or> code = 5023 then returnE None
    else bindE (liftE (wlan_result ''WlanQueryInterface(current_connection)'' code)) (\<lambda>_.
      liftE (mapR Some (ok_or data
        (pe_internal ''WlanQueryInterface returned a truncated connection record'')))))"

definition when_connected :: "connection_attributes option \<Rightarrow> connection_attributes option" where
  "when_connected c = (case c of None \<Rightarrow> None | Some a \<Rightarrow> if wca_state a = 1 then Some a else None)"

text \<open>\<open>Option::map(f).transpose()\<close>.\<close>

definition map_transpose :: "('a \<Rightarrow> 'e + 'b) \<Rightarrow> 'a option \<Rightarrow> 'e + 'b option" where
  "map_transpose f m = (case m of None \<Rightarrow> Inr None | Some a \<Rightarrow> mapR Some (f a))"

definition wlan_current_profile :: "'w wlan \<Rightarrow> guid \<Rightarrow> ('w, platform_error, string option) eff" where
  "wlan_current_profile W g =
    bindE (wlan_current_connection W g) (\<lambda>c.
    liftE (map_transpose (\<lambda>a. fixed_wide (wca_profile a)) (when_connected c)))"

definition interface_status ::
    "32 word \<Rightarrow> 32 word \<Rightarrow> string \<Rightarrow> string option \<Rightarrow> radio_state \<Rightarrow> connection_attributes option
      \<Rightarrow> platform_error + wifi_interface_status" where
  "interface_status state if_index n g radio c =
    bindR (map_transpose (\<lambda>a. ssid_parts (wca_ssid a)) c) (\<lambda>ssid.
    bindR (map_transpose (\<lambda>a. fixed_wide (wca_profile a)) c) (\<lambda>profile.
    Inr \<lparr>wi_if_index = if_index, wi_name = n, wi_guid = g,
      wi_state = effective_interface_state state radio,
      wi_profile_name = (case profile of None \<Rightarrow> None | Some p \<Rightarrow> filter_empty p),
      wi_ssid = map_option fst ssid, wi_ssid_hex = map_option snd ssid,
      wi_signal_quality = map_option (\<lambda>a. quality (wca_quality a)) c,
      wi_security_enabled = map_option wca_security_enabled c,
      wi_authentication = map_option (\<lambda>a. auth_name (wca_auth a)) c,
      wi_cipher = map_option (\<lambda>a. cipher_name (wca_cipher a)) c,
      wi_rx_rate_kbps = map_option wca_rx_rate c,
      wi_tx_rate_kbps = map_option wca_tx_rate c\<rparr>))"

definition wlan_interface_status ::
    "'w wlan \<Rightarrow> guid \<Rightarrow> 32 word \<Rightarrow> 32 word \<Rightarrow> string \<Rightarrow> string option
      \<Rightarrow> ('w, platform_error, wifi_interface_status) eff" where
  "wlan_interface_status W g state if_index n guid_text =
    bindE (wlan_radio_state W g) (\<lambda>radio.
    bindE (if radio = RadioOff then returnE None else wlan_current_connection W g) (\<lambda>c.
    liftE (interface_status state if_index n guid_text radio (when_connected c))))"

definition wlan_available_networks ::
    "'w wlan \<Rightarrow> guid \<Rightarrow> 32 word \<Rightarrow> string \<Rightarrow> ('w, platform_error, wifi_network list) eff" where
  "wlan_available_networks W g if_index n =
    bindE (callE (wl_available_networks W g)) (\<lambda>(code, items).
    bindE (liftE (wlan_result ''WlanGetAvailableNetworkList'' code)) (\<lambda>_.
    bindE (liftE (ok_or items (pe_internal ''WlanGetAvailableNetworkList returned a null list''))) (\<lambda>ns.
    if 4096 < length ns then
      failE (pe_internal ''Native Wi-Fi network list exceeded the traversal limit'')
    else liftE (traverseR (\<lambda>x. decode_network x if_index n) ns))))"

section \<open>Changing the connection\<close>

text \<open>
  The wait polls every 200 ms for at most 30 s, so 152 rounds are enough on a clock that advances
  (lemma \<open>poll_enough\<close>).
\<close>

definition profile_reached :: "string option \<Rightarrow> string option \<Rightarrow> bool" where
  "profile_reached current desired =
    (case (current, desired) of
       (None, None) \<Rightarrow> True
     | (Some c, Some d) \<Rightarrow> eq_ignore_ascii_case c d
     | _ \<Rightarrow> False)"

definition connection_late :: platform_error where
  "connection_late =
    pe_internal ''Native Wi-Fi did not reach the requested connection state within 30 seconds''"

definition wait_for_profile ::
    "'w windows \<Rightarrow> 'w wlan \<Rightarrow> guid \<Rightarrow> string option \<Rightarrow> ('w, platform_error, unit) eff" where
  "wait_for_profile A W g desired =
    bindE (callE (os_now A)) (\<lambda>start.
      poll A (bindE (wlan_current_profile W g) (\<lambda>c. returnE (profile_reached c desired)))
        (start + 30000) 200 connection_late 152)"

definition wlan_connect_profile ::
    "'w windows \<Rightarrow> 'w wlan \<Rightarrow> guid \<Rightarrow> string \<Rightarrow> ('w, platform_error, unit) eff" where
  "wlan_connect_profile A W g profile =
    bindE (wlan_call ''WlanConnect'' (wl_connect W g (wide profile))) (\<lambda>_.
      wait_for_profile A W g (Some profile))"

definition wlan_disconnect :: "'w windows \<Rightarrow> 'w wlan \<Rightarrow> guid \<Rightarrow> ('w, platform_error, unit) eff" where
  "wlan_disconnect A W g =
    bindE (callE (wl_disconnect W g)) (\<lambda>code.
    if code = 5023 then returnE ()
    else bindE (liftE (wlan_result ''WlanDisconnect'' code)) (\<lambda>_. wait_for_profile A W g None))"

datatype wifi_rollback =
    RollbackProfile guid string "string option"
  | RollbackConnection guid "string option"

definition wifi_rollback_execute ::
    "'w windows \<Rightarrow> 'w wlan \<Rightarrow> wifi_rollback \<Rightarrow> ('w, platform_error, unit) eff" where
  "wifi_rollback_execute A W r =
    bindE (wlan_open A W) (\<lambda>_.
    (case r of
       RollbackProfile g n (Some xml) \<Rightarrow> wlan_set_profile_xml W g xml
     | RollbackProfile g n None \<Rightarrow> wlan_delete_profile W g n
     | RollbackConnection g (Some profile) \<Rightarrow> wlan_connect_profile A W g profile
     | RollbackConnection g None \<Rightarrow> wlan_disconnect A W g))"

text \<open>The probe, and the native client the queries of \<open>windows.rs\<close> run on.\<close>

definition wlan_probe :: "'w windows \<Rightarrow> 'w wlan \<Rightarrow> ('w, string, unit) eff" where
  "wlan_probe A W = map_errE pe_message
    (bindE (wlan_open A W) (\<lambda>_. bindE (wlan_interfaces W) (\<lambda>is.
      if is = [] then failE (pe_not_found ''no enabled Native Wi-Fi interface was discovered'')
      else returnE ())))"

definition wlan_native ::
    "'w windows \<Rightarrow> 'w wlan \<Rightarrow> ('w, netplan_error, adapter_inventory) eff \<Rightarrow> 'w native" where
  "wlan_native A W inventory =
    \<lparr>nat_inventory = inventory, nat_open = wlan_open A W, nat_interfaces = wlan_interfaces W,
     nat_radio_state = wlan_radio_state W, nat_scan_and_wait = wlan_scan_and_wait W,
     nat_available_networks = wlan_available_networks W,
     nat_interface_status = wlan_interface_status W\<rparr>"

end
