(* ===== verification/Smb.thy ===== *)
theory Smb
  imports Wlan
begin

text \<open>
  SMB accounts, shares and mappings, \<open>crates/netpland/src/platform/windows/smb.rs\<close>: the NetAPI,
  security and WNet functions are the fields of the record \<open>netapi\<close>; the operations of a live apply,
  the captured share, and the rollback of SMB changes.
\<close>

section \<open>The API surface\<close>

record share_info =
  si_netname :: units
  si_type :: "32 word"
  si_remark :: "units option"
  si_permissions :: "32 word"
  si_max_uses :: "32 word"
  si_path :: "units option"
  si_passwd :: "units option"
  si_descriptor :: string

datatype well_known = WinWorldSid | WinBuiltinAdministratorsSid

text \<open>
  A null string pointer is \<open>None\<close>, a null security descriptor the empty list of bytes.  The calls that
  take a parameter-error pointer return the code and the parameter.
\<close>

record 'w netapi =
  na_user_get :: "units \<Rightarrow> 'w \<Rightarrow> 32 word \<times> 'w"
  na_user_add :: "units \<Rightarrow> units \<Rightarrow> 'w \<Rightarrow> (32 word \<times> 32 word) \<times> 'w"
  na_user_del :: "units \<Rightarrow> 'w \<Rightarrow> 32 word \<times> 'w"
  na_share_get :: "units \<Rightarrow> 'w \<Rightarrow> (32 word \<times> share_info) \<times> 'w"
  na_share_add :: "share_info \<Rightarrow> 'w \<Rightarrow> (32 word \<times> 32 word) \<times> 'w"
  na_share_set :: "units \<Rightarrow> share_info \<Rightarrow> 'w \<Rightarrow> (32 word \<times> 32 word) \<times> 'w"
  na_share_set_security :: "units \<Rightarrow> string \<Rightarrow> 'w \<Rightarrow> (32 word \<times> 32 word) \<times> 'w"
  na_share_del :: "units \<Rightarrow> 'w \<Rightarrow> 32 word \<times> 'w"
  na_buffer_free :: "'w \<Rightarrow> 32 word \<times> 'w"
  na_lookup_size :: "units \<Rightarrow> 'w \<Rightarrow> (bool \<times> nat) \<times> 'w"
  na_lookup_sid :: "units \<Rightarrow> ('w, string, string) eff"
  na_well_known_sid :: "well_known \<Rightarrow> ('w, string, string) eff"
  na_set_entries :: "(string \<times> 32 word) list \<Rightarrow> 'w \<Rightarrow> (32 word \<times> string) \<times> 'w"
  na_init_descriptor :: "('w, string, unit) eff"
  na_set_dacl :: "string \<Rightarrow> ('w, string, string) eff"
  na_get_connection :: "units \<Rightarrow> nat \<Rightarrow> 'w \<Rightarrow> (32 word \<times> nat \<times> units) \<times> 'w"
  na_add_connection ::
    "units option \<Rightarrow> units \<Rightarrow> units option \<Rightarrow> units option \<Rightarrow> 'w \<Rightarrow> 32 word \<times> 'w"
  na_cancel_connection :: "units \<Rightarrow> 'w \<Rightarrow> 32 word \<times> 'w"

section \<open>Errors\<close>

definition windows_error_text :: "string \<Rightarrow> 32 word \<Rightarrow> string" where
  "windows_error_text operation code = operation @ '' failed with Windows error '' @ show_nat (unat code)"

definition net_api_result :: "string \<Rightarrow> 32 word \<Rightarrow> 32 word option \<Rightarrow> platform_error + unit" where
  "net_api_result operation code parameter =
    (if code = 0 then Inr ()
     else Inl (platform_error_new
       (if code = 5 then PermissionDenied
        else if code = 2221 \<or> code = 2310 then PlatformNotFound
        else if code = 2118 \<or> code = 87 \<or> code = 2202 then InvalidConfig else Internal)
       (windows_error_text operation code @
         (case parameter of
            None \<Rightarrow> []
          | Some p \<Rightarrow> if p = 0 then [] else '' at parameter '' @ show_nat (unat p)))))"

definition wnet_result :: "string \<Rightarrow> 32 word \<Rightarrow> platform_error + unit" where
  "wnet_result operation code =
    (if code = 0 then Inr ()
     else Inl (platform_error_new
       (if code = 5 \<or> code = 1326 \<or> code = 86 then PermissionDenied
        else if code = 2250 then PlatformNotFound
        else if code = 85 \<or> code = 87 \<or> code = 2202 \<or> code = 1219 then InvalidConfig else Internal)
       (windows_error_text operation code)))"

definition win32_error :: "string \<Rightarrow> 32 word \<Rightarrow> platform_error" where
  "win32_error operation code =
    platform_error_new (if code = 5 then PermissionDenied else Internal) (windows_error_text operation code)"

definition net_call :: "string \<Rightarrow> ('w \<Rightarrow> 32 word \<times> 'w) \<Rightarrow> ('w, platform_error, unit) eff" where
  "net_call operation f = bindE (callE f) (\<lambda>code. liftE (net_api_result operation code None))"

definition net_param_call ::
    "string \<Rightarrow> ('w \<Rightarrow> (32 word \<times> 32 word) \<times> 'w) \<Rightarrow> ('w, platform_error, unit) eff" where
  "net_param_call operation f =
    bindE (callE f) (\<lambda>(code, parameter). liftE (net_api_result operation code (Some parameter)))"

section \<open>Probes\<close>

definition probe_library :: "'w windows \<Rightarrow> string \<Rightarrow> ('w, string, unit) eff" where
  "probe_library A n =
    map_errE (\<lambda>e. n @ '' is unavailable: '' @ we_text e) (os_load_library A (wide n))"

definition probe_service :: "'w windows \<Rightarrow> string \<Rightarrow> ('w, string, unit) eff" where
  "probe_service A n =
    map_errE (\<lambda>e. n @ '' service is unavailable: '' @ pe_message e) (service_available A n)"

definition probe_accounts :: "'w windows \<Rightarrow> ('w, string, unit) eff" where
  "probe_accounts A = probe_library A ''netapi32.dll''"

definition probe_shares :: "'w windows \<Rightarrow> ('w, string, unit) eff" where
  "probe_shares A = thenE (probe_library A ''netapi32.dll'') (probe_service A ''LanmanServer'')"

definition probe_mappings :: "'w windows \<Rightarrow> ('w, string, unit) eff" where
  "probe_mappings A = thenE (probe_library A ''mpr.dll'') (probe_service A ''LanmanWorkstation'')"

section \<open>Accounts\<close>

record share_snapshot =
  ss_type :: "32 word"
  ss_remark :: "string option"
  ss_permissions :: "32 word"
  ss_max_uses :: "32 word"
  ss_path :: string
  ss_password :: "string option"
  ss_descriptor :: string

datatype smb_rollback =
    RollbackAccount string
  | RollbackShare string "share_snapshot option"
  | RollbackMapping string

definition account_exists :: "'w netapi \<Rightarrow> string \<Rightarrow> ('w, platform_error, bool) eff" where
  "account_exists S n =
    bindE (callE (na_user_get S (wide n))) (\<lambda>code.
    if code = 2221 then returnE False
    else bindE (liftE (net_api_result ''NetUserGetInfo'' code None)) (\<lambda>_.
      bindE (net_call ''NetApiBufferFree'' (na_buffer_free S)) (\<lambda>_. returnE True)))"

definition delete_account :: "'w netapi \<Rightarrow> string \<Rightarrow> ('w, platform_error, unit) eff" where
  "delete_account S n =
    bindE (callE (na_user_del S (wide n))) (\<lambda>code.
    if code = 2221 then returnE () else liftE (net_api_result ''NetUserDel'' code None))"

definition resolve_optional :: "ucd \<Rightarrow> 'w windows \<Rightarrow> secret_ref option \<Rightarrow> platform_error + string option" where
  "resolve_optional U A s = map_transpose (resolve_secret U A) s"

definition smb_apply_account ::
    "ucd \<Rightarrow> 'w windows \<Rightarrow> 'w netapi \<Rightarrow> smb_account \<Rightarrow> ('w, platform_error, smb_rollback option) eff" where
  "smb_apply_account U A S a =
    (if acc_kind a \<noteq> Local then returnE None
     else bindE (account_exists S (acc_username a)) (\<lambda>exists.
       if exists then returnE None
       else bindE (liftE (resolve_optional U A (acc_password a))) (\<lambda>password.
         bindE (net_param_call ''NetUserAdd''
           (na_user_add S (wide (acc_username a)) (wide (case password of None \<Rightarrow> [] | Some p \<Rightarrow> p)))) (\<lambda>_.
         returnE (Some (RollbackAccount (acc_username a)))))))"

section \<open>Shares\<close>

definition optional_pwstr :: "units option \<Rightarrow> platform_error + string option" where
  "optional_pwstr v = map_transpose (\<lambda>us. decode_or
     ''NetAPI returned invalid UTF-16 for optional NetAPI string: '' (until_nul us)) v"

definition required_pwstr :: "units option \<Rightarrow> string \<Rightarrow> platform_error + string" where
  "required_pwstr v field =
    bindR (ok_or v (pe_internal (''NetAPI returned a null '' @ field))) (\<lambda>us.
    decode_or (''NetAPI returned invalid UTF-16 for '' @ field @ '': '') (until_nul us))"

definition snapshot_of_share :: "share_info \<Rightarrow> platform_error + share_snapshot" where
  "snapshot_of_share i =
    bindR (optional_pwstr (si_remark i)) (\<lambda>remark.
    bindR (required_pwstr (si_path i) ''share path'') (\<lambda>path.
    bindR (optional_pwstr (si_passwd i)) (\<lambda>password.
    Inr \<lparr>ss_type = si_type i, ss_remark = remark, ss_permissions = si_permissions i,
      ss_max_uses = si_max_uses i, ss_path = path, ss_password = password,
      ss_descriptor = si_descriptor i\<rparr>)))"

definition capture_share :: "'w netapi \<Rightarrow> string \<Rightarrow> ('w, platform_error, share_snapshot option) eff" where
  "capture_share S n =
    bindE (callE (na_share_get S (wide n))) (\<lambda>(code, info).
    if code = 2310 then returnE None
    else bindE (liftE (net_api_result ''NetShareGetInfo'' code None)) (\<lambda>_.
      bindE (net_call ''NetApiBufferFree'' (na_buffer_free S)) (\<lambda>_.
      liftE (mapR Some (snapshot_of_share info)))))"

definition set_share_security :: "'w netapi \<Rightarrow> string \<Rightarrow> string \<Rightarrow> ('w, platform_error, unit) eff" where
  "set_share_security S n descriptor =
    net_param_call ''NetShareSetInfo(security)'' (na_share_set_security S (wide n) descriptor)"

definition info_of_snapshot :: "string \<Rightarrow> share_snapshot \<Rightarrow> share_info" where
  "info_of_snapshot n s = \<lparr>si_netname = wide n, si_type = ss_type s, si_remark = map_option wide (ss_remark s),
     si_permissions = ss_permissions s, si_max_uses = ss_max_uses s, si_path = Some (wide (ss_path s)),
     si_passwd = map_option wide (ss_password s), si_descriptor = ss_descriptor s\<rparr>"

definition set_share_snapshot :: "'w netapi \<Rightarrow> string \<Rightarrow> share_snapshot \<Rightarrow> ('w, platform_error, unit) eff" where
  "set_share_snapshot S n s =
    thenE (net_param_call ''NetShareSetInfo rollback'' (na_share_set S (wide n) (info_of_snapshot n s)))
      (if ss_descriptor s = [] then returnE () else set_share_security S n (ss_descriptor s))"

definition delete_share :: "'w netapi \<Rightarrow> string \<Rightarrow> ('w, platform_error, unit) eff" where
  "delete_share S n =
    bindE (callE (na_share_del S (wide n))) (\<lambda>code.
    if code = 2310 then returnE () else liftE (net_api_result ''NetShareDel'' code None))"

definition lookup_sid :: "'w netapi \<Rightarrow> string \<Rightarrow> ('w, platform_error, string) eff" where
  "lookup_sid S account =
    bindE (callE (na_lookup_size S (wide account))) (\<lambda>(ok, sid_bytes).
    if ok \<or> sid_bytes = 0 then
      failE (pe_not_found ''LookupAccountNameW did not identify the requested SMB account'')
    else map_errE (\<lambda>e. pe_not_found (''LookupAccountNameW failed: '' @ e)) (na_lookup_sid S (wide account)))"

definition well_known_sid :: "'w netapi \<Rightarrow> well_known \<Rightarrow> ('w, platform_error, string) eff" where
  "well_known_sid S k =
    map_errE (\<lambda>e. pe_internal (''CreateWellKnownSid failed: '' @ e)) (na_well_known_sid S k)"

definition GENERIC_READ :: "32 word" where
  "GENERIC_READ = 0x80000000"

definition GENERIC_ALL :: "32 word" where
  "GENERIC_ALL = 0x10000000"

definition unknown_account :: "ucd \<Rightarrow> string \<Rightarrow> platform_error" where
  "unknown_account U reference =
    pe_invalid_config (''unknown SMB account reference '' @ debug_str U reference)"

definition account_sid :: "ucd \<Rightarrow> 'w netapi \<Rightarrow> netplan_config \<Rightarrow> string \<Rightarrow> ('w, platform_error, string) eff" where
  "account_sid U S cfg reference =
    bindE (liftE (ok_or (find_smb_account cfg reference) (unknown_account U reference)))
      (\<lambda>a. lookup_sid S (acc_username a))"

text \<open>The access entries of a share: its accounts (everyone when it names none), then the administrators.\<close>

definition share_entries ::
    "ucd \<Rightarrow> 'w netapi \<Rightarrow> netplan_config \<Rightarrow> smb_share \<Rightarrow> ('w, platform_error, (string \<times> 32 word) list) eff" where
  "share_entries U S cfg s =
    (let access = (if sh_read_only s then GENERIC_READ else GENERIC_ALL) in
     bindE (if sh_accounts s = [] then bindE (well_known_sid S WinWorldSid) (\<lambda>sid. returnE [sid])
            else traverseE (account_sid U S cfg) (sh_accounts s)) (\<lambda>sids.
     bindE (well_known_sid S WinBuiltinAdministratorsSid) (\<lambda>admins.
     returnE (map (\<lambda>sid. (sid, access)) sids @ [(admins, GENERIC_ALL)]))))"

definition share_security ::
    "ucd \<Rightarrow> 'w netapi \<Rightarrow> netplan_config \<Rightarrow> smb_share \<Rightarrow> ('w, platform_error, string) eff" where
  "share_security U S cfg s =
    bindE (share_entries U S cfg s) (\<lambda>entries.
    bindE (callE (na_set_entries S entries)) (\<lambda>(code, acl).
    if code \<noteq> 0 then failE (win32_error ''SetEntriesInAclW'' code)
    else bindE (map_errE (\<lambda>e. pe_internal (''InitializeSecurityDescriptor failed: '' @ e))
        (na_init_descriptor S)) (\<lambda>_.
      map_errE (\<lambda>e. pe_internal (''SetSecurityDescriptorDacl failed: '' @ e)) (na_set_dacl S acl))))"

definition share_declaration :: "smb_share \<Rightarrow> string \<Rightarrow> share_info" where
  "share_declaration s descriptor = \<lparr>si_netname = wide (sh_name s), si_type = 0,
     si_remark = map_option wide (sh_description s), si_permissions = 0, si_max_uses = - 1,
     si_path = Some (wide (sh_path s)), si_passwd = None, si_descriptor = descriptor\<rparr>"

text \<open>
  An existing share whose security could not be set is put back at once; the outcome of that attempt is
  part of the error.
\<close>

definition set_existing_security ::
    "'w netapi \<Rightarrow> string \<Rightarrow> share_snapshot \<Rightarrow> string \<Rightarrow> ('w, platform_error, unit) eff" where
  "set_existing_security S n previous descriptor = (\<lambda>w.
    case set_share_security S n descriptor w of
      (Inr _, w1) \<Rightarrow> (Inr (), w1)
    | (Inl e, w1) \<Rightarrow>
        (case set_share_snapshot S n previous w1 of
           (Inr _, w2) \<Rightarrow> (Inl \<lparr>pe_kind = pe_kind e, pe_message = pe_message e, pe_rolled_back = True\<rparr>, w2)
         | (Inl e', w2) \<Rightarrow> (Inl \<lparr>pe_kind = pe_kind e,
             pe_message = pe_message e @ ''; immediate share rollback failed: '' @ pe_message e',
             pe_rolled_back = False\<rparr>, w2)))"

definition smb_apply_share ::
    "ucd \<Rightarrow> 'w netapi \<Rightarrow> netplan_config \<Rightarrow> smb_share \<Rightarrow> ('w, platform_error, smb_rollback) eff" where
  "smb_apply_share U S cfg s =
    bindE (capture_share S (sh_name s)) (\<lambda>previous.
    bindE (share_security U S cfg s) (\<lambda>descriptor.
    bindE (net_param_call ''NetShareAdd/NetShareSetInfo''
      (case previous of
         Some _ \<Rightarrow> na_share_set S (wide (sh_name s)) (share_declaration s descriptor)
       | None \<Rightarrow> na_share_add S (share_declaration s descriptor))) (\<lambda>_.
    bindE (case previous of
             None \<Rightarrow> returnE ()
           | Some snapshot \<Rightarrow> set_existing_security S (sh_name s) snapshot descriptor) (\<lambda>_.
    returnE (RollbackShare (sh_name s) previous)))))"

section \<open>Mappings\<close>

text \<open>
  The loop grows its buffer while the API asks for more; a buffer of the size it reported is enough, so
  the second round is the last one and \<open>mapping_rounds\<close> is never exhausted (lemma
  \<open>current_mapping_rounds\<close>).
\<close>

definition mapping_rounds :: nat where
  "mapping_rounds = 8"

fun current_mapping_in ::
    "'w netapi \<Rightarrow> nat \<Rightarrow> string \<Rightarrow> nat \<Rightarrow> ('w, platform_error, string option) eff" where
  "current_mapping_in S 0 l capacity = failE (pe_internal ''SMB mapping path keeps growing'')"
| "current_mapping_in S (Suc n) l capacity =
    bindE (callE (na_get_connection S (wide l) capacity)) (\<lambda>(code, chars, buffer).
    if code = 2250 then returnE None
    else if code = 234 then current_mapping_in S n l chars
    else bindE (liftE (wnet_result ''WNetGetConnectionW'' code)) (\<lambda>_.
      liftE (mapR Some (decode_or ''invalid SMB mapping UTF-16: ''
        (if 0 \<in> set buffer then until_nul buffer else take chars buffer)))))"

definition current_mapping :: "'w netapi \<Rightarrow> string \<Rightarrow> ('w, platform_error, string option) eff" where
  "current_mapping S l = current_mapping_in S mapping_rounds l 256"

definition cancel_mapping :: "'w netapi \<Rightarrow> string \<Rightarrow> ('w, platform_error, unit) eff" where
  "cancel_mapping S target =
    bindE (callE (na_cancel_connection S (wide target))) (\<lambda>code.
    if code = 2250 then returnE () else liftE (wnet_result ''WNetCancelConnection2W'' code))"

definition mapping_credentials ::
    "ucd \<Rightarrow> 'w windows \<Rightarrow> netplan_config \<Rightarrow> smb_mapping \<Rightarrow> platform_error + (string option \<times> string option)" where
  "mapping_credentials U A cfg m =
    (case sm_account m of
       Some reference \<Rightarrow>
         bindR (ok_or (find_smb_account cfg reference) (unknown_account U reference)) (\<lambda>a.
         mapR (\<lambda>p. (Some (acc_username a), p)) (resolve_optional U A (acc_password a)))
     | None \<Rightarrow> mapR (\<lambda>p. (sm_username m, p)) (resolve_optional U A (sm_password m)))"

definition smb_add_mapping ::
    "ucd \<Rightarrow> 'w windows \<Rightarrow> 'w netapi \<Rightarrow> netplan_config \<Rightarrow> smb_mapping
      \<Rightarrow> ('w, platform_error, smb_rollback option) eff" where
  "smb_add_mapping U A S cfg m =
    bindE (liftE (mapping_credentials U A cfg m)) (\<lambda>(username, password).
    bindE (callE (na_add_connection S (map_option wide (sm_local m)) (wide (sm_remote m))
      (map_option wide password) (map_option wide username))) (\<lambda>code.
    bindE (liftE (wnet_result ''WNetAddConnection2W'' code)) (\<lambda>_.
    returnE (Some (RollbackMapping (case sm_local m of None \<Rightarrow> sm_remote m | Some l \<Rightarrow> l))))))"

definition smb_apply_mapping ::
    "ucd \<Rightarrow> 'w windows \<Rightarrow> 'w netapi \<Rightarrow> netplan_config \<Rightarrow> smb_mapping
      \<Rightarrow> ('w, platform_error, smb_rollback option) eff" where
  "smb_apply_mapping U A S cfg m =
    (case sm_local m of
       None \<Rightarrow> smb_add_mapping U A S cfg m
     | Some l \<Rightarrow>
         bindE (current_mapping S l) (\<lambda>existing.
         (case existing of
            None \<Rightarrow> smb_add_mapping U A S cfg m
          | Some e \<Rightarrow>
              if eq_ignore_ascii_case e (sm_remote m) then returnE None
              else failE (pe_invalid_config (''SMB local device '' @ debug_str U l
                @ '' is already mapped to '' @ debug_str U e)))))"

section \<open>Rollback\<close>

definition smb_rollback_execute :: "'w netapi \<Rightarrow> smb_rollback \<Rightarrow> ('w, platform_error, unit) eff" where
  "smb_rollback_execute S r =
    (case r of
       RollbackAccount n \<Rightarrow> delete_account S n
     | RollbackShare n (Some s) \<Rightarrow> set_share_snapshot S n s
     | RollbackShare n None \<Rightarrow> delete_share S n
     | RollbackMapping target \<Rightarrow> cancel_mapping S target)"

section \<open>The rounds of the mapping query\<close>

text \<open>A buffer of the size the API asked for is large enough for the next call.\<close>

definition reports_size :: "'w netapi \<Rightarrow> bool" where
  "reports_size S \<longleftrightarrow> (\<forall>l n w chars buffer w'. na_get_connection S l n w = ((234, chars, buffer), w') \<longrightarrow>
    fst (fst (na_get_connection S l chars w')) \<noteq> 234)"

lemma current_mapping_rounds:
  assumes "reports_size S"
  shows "current_mapping_in S (Suc (Suc n)) l capacity w = current_mapping_in S (Suc (Suc m)) l capacity w"
proof -
  obtain code chars buffer w1 where one: "na_get_connection S (wide l) capacity w = ((code, chars, buffer), w1)"
    by (metis prod.exhaust)
  obtain code2 chars2 buffer2 w2 where two: "na_get_connection S (wide l) chars w1 = ((code2, chars2, buffer2), w2)"
    by (metis prod.exhaust)
  have "code = 234 \<Longrightarrow> code2 \<noteq> 234" using assms one two unfolding reports_size_def by (metis fst_conv)
  then show ?thesis using one two by (auto simp: bindE_def callE_def)
qed

end
