(* ===== verification/Transaction.thy ===== *)
theory Transaction
  imports Network Smb
begin

text \<open>
  The live apply of \<open>crates/netpland/src/platform/windows/apply.rs\<close> as a transaction: every change
  records the action that undoes it, a failure executes the recorded actions newest first, and the
  error says whether everything was rolled back.
\<close>

section \<open>Rollback actions\<close>

record 'w system =
  sy_windows :: "'w windows"
  sy_wlan :: "'w wlan"
  sy_netapi :: "'w netapi"
  sy_inventory :: "('w, netplan_error, adapter_inventory) eff"

definition native_of :: "'w system \<Rightarrow> 'w native" where
  "native_of Y = wlan_native (sy_windows Y) (sy_wlan Y) (sy_inventory Y)"

datatype rollback_action =
    RbComputerName string
  | RbWorkgroup string
  | RbDnsSuffix string
  | RbAdapterState string bool
  | RbAdapterIpv4 network_restore
  | RbAdapterMac string "string option" string bool
  | RbFirewall firewall_restore
  | RbService string bool
  | RbWifi wifi_rollback
  | RbSmb smb_rollback

definition restore_mac ::
    "'w windows \<Rightarrow> string \<Rightarrow> string option \<Rightarrow> string \<Rightarrow> bool \<Rightarrow> ('w, platform_error, unit) eff" where
  "restore_mac A key previous n restart =
    thenE (case previous of
        Some v \<Rightarrow> set_registry_string A key ''NetworkAddress'' v
      | None \<Rightarrow> delete_registry_value A key ''NetworkAddress'')
      (if restart then restart_adapter A n else returnE ())"

fun execute :: "'w system \<Rightarrow> rollback_action \<Rightarrow> ('w, platform_error, unit) eff" where
  "execute Y (RbComputerName v) = set_computer_name (sy_windows Y) PhysicalDnsHostname v"
| "execute Y (RbWorkgroup v) = set_workgroup (sy_windows Y) v"
| "execute Y (RbDnsSuffix v) = set_computer_name (sy_windows Y) PhysicalDnsDomain v"
| "execute Y (RbAdapterState n enabled) = set_adapter_enabled (sy_windows Y) n enabled"
| "execute Y (RbAdapterIpv4 r) = nr_restore (sy_windows Y) (native_of Y) r"
| "execute Y (RbAdapterMac key previous n restart) = restore_mac (sy_windows Y) key previous n restart"
| "execute Y (RbFirewall r) = fw_restore (sy_windows Y) r"
| "execute Y (RbService n running) = set_service_running (sy_windows Y) n running"
| "execute Y (RbWifi r) = wifi_rollback_execute (sy_windows Y) (sy_wlan Y) r"
| "execute Y (RbSmb r) = smb_rollback_execute (sy_netapi Y) r"

text \<open>Every action is executed, whatever the others return; the failures are collected.\<close>

fun execute_each :: "'w system \<Rightarrow> rollback_action list \<Rightarrow> 'w \<Rightarrow> string list \<times> 'w" where
  "execute_each Y [] w = ([], w)"
| "execute_each Y (a # as) w =
    (case execute Y a w of (r, w1) \<Rightarrow>
      (case execute_each Y as w1 of (errors, w2) \<Rightarrow>
        ((case r of Inl e \<Rightarrow> [''rollback failed: '' @ pe_message e] | Inr _ \<Rightarrow> []) @ errors, w2)))"

definition rollback_all :: "'w system \<Rightarrow> rollback_action list \<Rightarrow> 'w \<Rightarrow> string list \<times> 'w" where
  "rollback_all Y rollback = execute_each Y (rev rollback)"

section \<open>The forward steps\<close>

record 'w txn =
  tx_rollback :: "rollback_action list"
  tx_world :: 'w

text \<open>A call on the world, and the updates of the recorded list (\<open>push\<close>, \<open>pop\<close>).\<close>

definition on_tx :: "('w, 'e, 'a) eff \<Rightarrow> ('w txn, 'e, 'a) eff" where
  "on_tx m = (\<lambda>t. case m (tx_world t) of (r, w) \<Rightarrow> (r, t\<lparr>tx_world := w\<rparr>))"

definition push_undo :: "rollback_action \<Rightarrow> ('w txn, 'e, unit) eff" where
  "push_undo a = (\<lambda>t. (Inr (), t\<lparr>tx_rollback := tx_rollback t @ [a]\<rparr>))"

definition pop_undo :: "('w txn, 'e, unit) eff" where
  "pop_undo = (\<lambda>t. (Inr (), t\<lparr>tx_rollback := butlast (tx_rollback t)\<rparr>))"

text \<open>Read a name, leave it if it is the wanted one up to case, else set it and record the old one.\<close>

definition change_text ::
    "('w, platform_error, string) eff \<Rightarrow> (string \<Rightarrow> ('w, platform_error, unit) eff)
      \<Rightarrow> (string \<Rightarrow> rollback_action) \<Rightarrow> string \<Rightarrow> ('w txn, platform_error, unit) eff" where
  "change_text get set_to undo wanted =
    bindE (on_tx get) (\<lambda>previous.
    if eq_ignore_ascii_case previous wanted then returnE ()
    else thenE (on_tx (set_to wanted)) (push_undo (undo previous)))"

definition apply_identity :: "'w system \<Rightarrow> identity_config \<Rightarrow> ('w txn, platform_error, unit) eff" where
  "apply_identity Y i =
    (let A = sy_windows Y in
     thenE (for_some (computer_name i) (change_text (get_computer_name A PhysicalDnsHostname)
         (set_computer_name A PhysicalDnsHostname) RbComputerName))
      (thenE (for_some (workgroup i) (change_text (get_workgroup A) (set_workgroup A) RbWorkgroup))
        (for_some (dns_suffix i) (change_text (get_computer_name A PhysicalDnsDomain)
          (set_computer_name A PhysicalDnsDomain) RbDnsSuffix))))"

definition change_state :: "'w system \<Rightarrow> adapter_snapshot \<Rightarrow> bool \<Rightarrow> ('w txn, platform_error, unit) eff" where
  "change_state Y s enabled =
    thenE (on_tx (set_adapter_enabled (sy_windows Y) (ai_name (as_info s)) enabled))
      (push_undo (RbAdapterState (ai_name (as_info s)) (\<not> enabled)))"

definition apply_mac ::
    "ucd \<Rightarrow> 'w system \<Rightarrow> adapter_snapshot \<Rightarrow> bool \<Rightarrow> string \<Rightarrow> ('w txn, platform_error, unit) eff" where
  "apply_mac U Y s enabled mac =
    (let A = sy_windows Y; n = ai_name (as_info s) in
     bindE (liftE (ok_or (ai_guid (as_info s)) no_guid)) (\<lambda>guid.
     bindE (on_tx (find_adapter_class_key U A guid)) (\<lambda>key.
     bindE (on_tx (read_registry_text A key ''NetworkAddress'' RegSz)) (\<lambda>previous.
     thenE (on_tx (set_registry_string A key ''NetworkAddress'' (windows_canonical_mac U mac)))
      (thenE (push_undo (RbAdapterMac key previous n enabled))
        (when_ok enabled (on_tx (restart_adapter A n))))))))"

definition apply_adapter_ipv4 :: "'w system \<Rightarrow> adapter_snapshot \<Rightarrow> ipv4_config \<Rightarrow> ('w txn, platform_error, unit) eff" where
  "apply_adapter_ipv4 Y s ipv4 =
    bindE (on_tx (nr_capture (sy_windows Y) s)) (\<lambda>captured.
    (let restore = record_targets ipv4 captured in
     thenE (push_undo (RbAdapterIpv4 restore))
      (bindE (on_tx (apply_ipv4 (sy_windows Y) (native_of Y) restore ipv4)) (\<lambda>changed.
        when_ok (\<not> changed) pop_undo))))"

definition apply_adapter ::
    "ucd \<Rightarrow> 'w system \<Rightarrow> adapter_inventory \<Rightarrow> adapter_config \<Rightarrow> ('w txn, platform_error, unit) eff" where
  "apply_adapter U Y inventory a =
    bindE (liftE (resolve_adapter U inventory (ad_selector a))) (\<lambda>s.
    thenE (when_ok (ad_enabled a = Some True \<and> \<not> as_admin_enabled s) (change_state Y s True))
     (thenE (for_some (ad_mac_address a)
         (apply_mac U Y s (ad_enabled a = Some True \<or> as_admin_enabled s)))
      (thenE (for_some (ad_ipv4 a) (apply_adapter_ipv4 Y s))
        (when_ok (ad_enabled a = Some False \<and> as_admin_enabled s) (change_state Y s False)))))"

definition apply_adapters :: "ucd \<Rightarrow> 'w system \<Rightarrow> netplan_config \<Rightarrow> ('w txn, platform_error, unit) eff" where
  "apply_adapters U Y cfg =
    (if adapters cfg = [] then returnE ()
     else bindE (on_tx (inventory_for (native_of Y) ''adapter apply inventory failed: '')) (\<lambda>inventory.
       forE (apply_adapter U Y inventory) (adapters cfg)))"

section \<open>Wi-Fi, services, SMB and firewall\<close>

definition apply_wifi_profile ::
    "ucd \<Rightarrow> 'w system \<Rightarrow> adapter_inventory \<Rightarrow> wifi_interface list \<Rightarrow> wifi_profile
      \<Rightarrow> ('w txn, platform_error, unit) eff" where
  "apply_wifi_profile U Y inventory interfaces p =
    bindE (liftE (resolve_wifi_interface U inventory interfaces (wp_selector p))) (\<lambda>i.
    bindE (on_tx (wlan_get_profile (sy_wlan Y) (wif_guid i) (wifi_profile_name p))) (\<lambda>previous.
    thenE (push_undo (RbWifi (RollbackProfile (wif_guid i) (wifi_profile_name p) previous)))
      (on_tx (wlan_set_profile U (sy_windows Y) (sy_wlan Y) (wif_guid i) p))))"

definition apply_connection ::
    "'w system \<Rightarrow> guid \<Rightarrow> ('w, platform_error, unit) eff \<Rightarrow> ('w txn, platform_error, unit) eff" where
  "apply_connection Y g change =
    bindE (on_tx (wlan_current_profile (sy_wlan Y) g)) (\<lambda>previous.
    thenE (push_undo (RbWifi (RollbackConnection g previous))) (on_tx change))"

definition apply_wifi_action ::
    "ucd \<Rightarrow> 'w system \<Rightarrow> adapter_inventory \<Rightarrow> wifi_interface list \<Rightarrow> wifi_action
      \<Rightarrow> ('w txn, platform_error, unit) eff" where
  "apply_wifi_action U Y inventory interfaces action =
    bindE (liftE (resolve_wifi_interface U inventory interfaces (action_selector action))) (\<lambda>i.
    (case action of
       Scan _ \<Rightarrow> on_tx (wlan_scan (sy_wlan Y) (wif_guid i))
     | Connect _ profile \<Rightarrow>
         apply_connection Y (wif_guid i) (wlan_connect_profile (sy_windows Y) (sy_wlan Y) (wif_guid i) profile)
     | Disconnect _ \<Rightarrow>
         apply_connection Y (wif_guid i) (wlan_disconnect (sy_windows Y) (sy_wlan Y) (wif_guid i))))"

definition apply_wifi :: "ucd \<Rightarrow> 'w system \<Rightarrow> netplan_config \<Rightarrow> ('w txn, platform_error, unit) eff" where
  "apply_wifi U Y cfg =
    (if wifi cfg = [] \<and> wifi_actions cfg = [] then returnE ()
     else bindE (on_tx (inventory_for (native_of Y) ''Wi-Fi apply inventory failed: '')) (\<lambda>inventory.
       bindE (on_tx (wlan_open (sy_windows Y) (sy_wlan Y))) (\<lambda>_.
       bindE (on_tx (wlan_interfaces (sy_wlan Y))) (\<lambda>interfaces.
       thenE (forE (apply_wifi_profile U Y inventory interfaces) (wifi cfg))
         (forE (apply_wifi_action U Y inventory interfaces) (wifi_actions cfg))))))"

definition apply_service :: "'w system \<Rightarrow> service_config \<Rightarrow> ('w txn, platform_error, unit) eff" where
  "apply_service Y s =
    bindE (on_tx (service_is_running (sy_windows Y) (svc_name s))) (\<lambda>was_running.
    (let should_run = (svc_state s = Running) in
     when_ok (was_running \<noteq> should_run)
      (thenE (push_undo (RbService (svc_name s) was_running))
        (on_tx (set_service_running (sy_windows Y) (svc_name s) should_run)))))"

definition apply_account :: "ucd \<Rightarrow> 'w system \<Rightarrow> smb_account \<Rightarrow> ('w txn, platform_error, unit) eff" where
  "apply_account U Y a =
    bindE (on_tx (smb_apply_account U (sy_windows Y) (sy_netapi Y) a)) (\<lambda>undo.
      for_some undo (\<lambda>r. push_undo (RbSmb r)))"

definition apply_share :: "ucd \<Rightarrow> 'w system \<Rightarrow> netplan_config \<Rightarrow> smb_share \<Rightarrow> ('w txn, platform_error, unit) eff" where
  "apply_share U Y cfg s =
    bindE (on_tx (smb_apply_share U (sy_netapi Y) cfg s)) (\<lambda>undo. push_undo (RbSmb undo))"

definition apply_mapping :: "ucd \<Rightarrow> 'w system \<Rightarrow> netplan_config \<Rightarrow> smb_mapping \<Rightarrow> ('w txn, platform_error, unit) eff" where
  "apply_mapping U Y cfg m =
    bindE (on_tx (smb_apply_mapping U (sy_windows Y) (sy_netapi Y) cfg m)) (\<lambda>undo.
      for_some undo (\<lambda>r. push_undo (RbSmb r)))"

definition apply_firewall :: "'w system \<Rightarrow> firewall_config \<Rightarrow> ('w txn, platform_error, unit) eff" where
  "apply_firewall Y f =
    bindE (on_tx (fw_capture (sy_windows Y))) (\<lambda>previous.
    when_ok (\<not> all_equal previous (fw_enabled f))
      (thenE (push_undo (RbFirewall previous))
        (on_tx (set_firewall_profile (sy_windows Y) ''allprofiles'' (fw_enabled f)))))"

section \<open>The transaction\<close>

definition apply_reversible :: "ucd \<Rightarrow> 'w system \<Rightarrow> netplan_config \<Rightarrow> ('w txn, platform_error, unit) eff" where
  "apply_reversible U Y cfg =
    thenE (for_some (identity cfg) (apply_identity Y))
    (thenE (apply_adapters U Y cfg)
    (thenE (apply_wifi U Y cfg)
    (thenE (forE (apply_service Y) (services cfg))
    (thenE (forE (apply_account U Y) (smb_accounts (smb cfg)))
    (thenE (forE (apply_share U Y cfg) (smb_shares (smb cfg)))
    (thenE (forE (apply_mapping U Y cfg) (smb_mappings (smb cfg)))
      (for_some (firewall cfg) (apply_firewall Y))))))))"

fun apply_driver :: "ucd \<Rightarrow> 'w system \<Rightarrow> driver_operation \<Rightarrow> ('w, platform_error, unit) eff" where
  "apply_driver U Y (Install inf_path hardware_id force restart) =
    install_driver (sy_windows Y) inf_path hardware_id force restart"
| "apply_driver U Y (RestartAdapter selector) =
    bindE (inventory_for (native_of Y) ''adapter restart inventory failed: '') (\<lambda>inventory.
    bindE (liftE (resolve_adapter U inventory selector)) (\<lambda>s.
    restart_adapter (sy_windows Y) (ai_name (as_info s))))"

definition apply_drivers :: "ucd \<Rightarrow> 'w system \<Rightarrow> netplan_config \<Rightarrow> ('w, platform_error, unit) eff" where
  "apply_drivers U Y cfg = forE (apply_driver U Y) (drivers cfg)"

fun is_install :: "driver_operation \<Rightarrow> bool" where
  "is_install (Install _ _ _ _) = True"
| "is_install (RestartAdapter _) = False"

definition success_report :: "nat \<Rightarrow> apply_report" where
  "success_report n = \<lparr>report_message = ''live apply completed successfully; '' @ show_nat n
     @ '' reversible mutation(s) recorded''\<rparr>"

text \<open>The failure branch: roll back, run the after-rollback hooks, report.\<close>

definition fail_apply ::
    "ucd \<Rightarrow> 'w system \<Rightarrow> netplan_config \<Rightarrow> platform_error \<Rightarrow> rollback_action list \<Rightarrow> bool \<Rightarrow> 'w
      \<Rightarrow> platform_error \<times> 'w" where
  "fail_apply U Y cfg e rollback irreversible w =
    (case rollback_all Y rollback w of (errors, w1) \<Rightarrow>
      (case run_hooks U (sy_windows Y) cfg AfterRollback w1 of (hook, w2) \<Rightarrow>
        (\<lparr>pe_kind = pe_kind e,
          pe_message = join_with ''; '' (pe_message e # errors @
            (case hook of Inl h \<Rightarrow> [''after-rollback hook failed: '' @ pe_message h] | Inr _ \<Rightarrow> [])),
          pe_rolled_back = (rollback \<noteq> [] \<and> \<not> irreversible \<and> errors = [] \<and> is_ok hook)\<rparr>, w2)))"

text \<open>The forward part after the before-apply hooks: its result, the recorded actions and the world.\<close>

definition apply_forward ::
    "ucd \<Rightarrow> 'w system \<Rightarrow> netplan_config \<Rightarrow> 'w \<Rightarrow> (platform_error + unit) \<times> bool \<times> 'w txn" where
  "apply_forward U Y cfg w =
    (case apply_reversible U Y cfg \<lparr>tx_rollback = [], tx_world = w\<rparr> of
       (Inl e, t) \<Rightarrow> (Inl e, False, t)
     | (Inr _, t) \<Rightarrow>
         (case bindE (apply_drivers U Y cfg) (\<lambda>_. run_hooks U (sy_windows Y) cfg AfterApply) (tx_world t) of
            (r, w') \<Rightarrow> (r, list_ex is_install (drivers cfg), t\<lparr>tx_world := w'\<rparr>)))"

definition windows_apply :: "ucd \<Rightarrow> 'w system \<Rightarrow> netplan_config \<Rightarrow> ('w, platform_error, apply_report) eff" where
  "windows_apply U Y cfg =
    bindE (run_hooks U (sy_windows Y) cfg BeforeApply) (\<lambda>_ w.
      case apply_forward U Y cfg w of
        (Inr _, _, t) \<Rightarrow> (Inr (success_report (length (tx_rollback t))), tx_world t)
      | (Inl e, irreversible, t) \<Rightarrow>
          (case fail_apply U Y cfg e (tx_rollback t) irreversible (tx_world t) of (e', w') \<Rightarrow> (Inl e', w')))"

end
