(* ===== verification/Effect_Logic.thy ===== *)
theory Effect_Logic
  imports Transaction
begin

text \<open>
  Reasoning about effectful steps: triples with a postcondition for success and one for failure, and
  calls that leave an observed part of the world as it is (\<open>quietE\<close>), closed under the combinators.
\<close>

section \<open>Triples\<close>

definition tripleE ::
    "('w \<Rightarrow> bool) \<Rightarrow> ('w, 'e, 'a) eff \<Rightarrow> ('a \<Rightarrow> 'w \<Rightarrow> bool) \<Rightarrow> ('w \<Rightarrow> bool) \<Rightarrow> bool" where
  "tripleE P m Q R \<longleftrightarrow> (\<forall>w. P w \<longrightarrow> (case m w of (Inr a, w') \<Rightarrow> Q a w' | (Inl e, w') \<Rightarrow> R w'))"

named_theorems triples \<open>introduction rules for triples\<close>

lemma tripleE_ok: "tripleE P m Q R \<Longrightarrow> P w \<Longrightarrow> m w = (Inr a, w') \<Longrightarrow> Q a w'"
  unfolding tripleE_def by fastforce

lemma tripleE_err: "tripleE P m Q R \<Longrightarrow> P w \<Longrightarrow> m w = (Inl e, w') \<Longrightarrow> R w'"
  unfolding tripleE_def by fastforce

lemma tripleE_both: "tripleE P m (\<lambda>_. R) R \<Longrightarrow> P w \<Longrightarrow> R (snd (m w))"
  unfolding tripleE_def by (auto split: prod.splits sum.splits) (metis prod.collapse)

lemma tripleE_bind [triples]:
  "tripleE P m Q R \<Longrightarrow> (\<And>a. tripleE (Q a) (k a) S R) \<Longrightarrow> tripleE P (bindE m k) S R"
  unfolding tripleE_def bindE_def by (fastforce split: prod.splits sum.splits)

lemma tripleE_then [triples]:
  "tripleE P m (\<lambda>_. Q) R \<Longrightarrow> tripleE Q n S R \<Longrightarrow> tripleE P (thenE m n) S R"
  unfolding thenE_def by (rule tripleE_bind)

lemma tripleE_return: "(\<And>w. P w \<Longrightarrow> Q a w) \<Longrightarrow> tripleE P (returnE a) Q R"
  by (simp add: tripleE_def returnE_def)

lemma tripleE_lift: "(\<And>a w. r = Inr a \<Longrightarrow> P w \<Longrightarrow> Q a w) \<Longrightarrow> (\<And>w. P w \<Longrightarrow> R w) \<Longrightarrow> tripleE P (liftE r) Q R"
  by (auto simp: tripleE_def liftE_def split: sum.splits)

lemma tripleE_when: "(b \<Longrightarrow> tripleE P m (\<lambda>_. Q) R) \<Longrightarrow> (\<And>w. \<not> b \<Longrightarrow> P w \<Longrightarrow> Q w) \<Longrightarrow>
    tripleE P (when_ok b m) (\<lambda>_. Q) R"
  by (auto simp: when_ok_def intro: tripleE_return)

lemma tripleE_for_some:
  "(\<And>a. m = Some a \<Longrightarrow> tripleE P (f a) (\<lambda>_. P) P) \<Longrightarrow> tripleE P (for_some m f) (\<lambda>_. P) P"
  by (cases m) (auto simp: for_some_def intro: tripleE_return)

lemma tripleE_for:
  "(\<And>x. x \<in> set xs \<Longrightarrow> tripleE P (f x) (\<lambda>_. P) P) \<Longrightarrow> tripleE P (forE f xs) (\<lambda>_. P) P"
  by (induction xs) (auto intro!: tripleE_then intro: tripleE_return)

lemma tripleE_weaken:
  "tripleE P m Q R \<Longrightarrow> (\<And>w. P' w \<Longrightarrow> P w) \<Longrightarrow> (\<And>a w. Q a w \<Longrightarrow> Q' a w) \<Longrightarrow> (\<And>w. R w \<Longrightarrow> R' w)
    \<Longrightarrow> tripleE P' m Q' R'"
  unfolding tripleE_def by (fastforce split: prod.splits sum.splits)

section \<open>Quiet calls\<close>

definition quietE :: "('w \<Rightarrow> 'v) \<Rightarrow> ('w, 'e, 'a) eff \<Rightarrow> bool" where
  "quietE view m \<longleftrightarrow> (\<forall>w. view (snd (m w)) = view w)"

definition quiet_call :: "('w \<Rightarrow> 'v) \<Rightarrow> ('w \<Rightarrow> 'a \<times> 'w) \<Rightarrow> bool" where
  "quiet_call view f \<longleftrightarrow> (\<forall>w. view (snd (f w)) = view w)"

named_theorems quiet \<open>computations that leave the observed part of the world as it is\<close>

lemma quiet_return [quiet]: "quietE view (returnE a)"
  by (simp add: quietE_def returnE_def)

lemma quiet_fail [quiet]: "quietE view (failE e)"
  by (simp add: quietE_def failE_def)

lemma quiet_lift [quiet]: "quietE view (liftE r)"
  by (simp add: quietE_def liftE_def)

lemma quiet_callE [quiet]: "quiet_call view f \<Longrightarrow> quietE view (callE f)"
  unfolding quietE_def quiet_call_def callE_def by (auto split: prod.splits) (metis snd_conv)

lemma quiet_bind [quiet]: "quietE view m \<Longrightarrow> (\<And>a. quietE view (k a)) \<Longrightarrow> quietE view (bindE m k)"
  unfolding quietE_def bindE_def by (auto split: prod.splits sum.splits) (metis snd_conv)+

lemma quiet_then [quiet]: "quietE view m \<Longrightarrow> quietE view n \<Longrightarrow> quietE view (thenE m n)"
  unfolding thenE_def by (rule quiet_bind)

lemma quiet_map_err [quiet]: "quietE view m \<Longrightarrow> quietE view (map_errE f m)"
  unfolding quietE_def map_errE_def by (auto split: prod.splits) (metis snd_conv)

lemma quiet_for [quiet]: "(\<And>x. quietE view (f x)) \<Longrightarrow> quietE view (forE f xs)"
  by (induction xs) (auto intro!: quiet)

lemma quiet_traverse [quiet]: "(\<And>x. quietE view (f x)) \<Longrightarrow> quietE view (traverseE f xs)"
  by (induction xs) (auto intro!: quiet)

lemma quiet_when [quiet]: "quietE view m \<Longrightarrow> quietE view (when_ok b m)"
  unfolding when_ok_def by (auto intro: quiet)

lemma quiet_if [quiet]: "quietE view m \<Longrightarrow> quietE view n \<Longrightarrow> quietE view (if b then m else n)"
  by simp

lemma quiet_prod [quiet]: "(\<And>a b. quietE view (k a b)) \<Longrightarrow> quietE view (case p of (a, b) \<Rightarrow> k a b)"
  by (simp add: case_prod_beta)

lemma quiet_option [quiet]:
  "quietE view n \<Longrightarrow> (\<And>a. quietE view (k a)) \<Longrightarrow> quietE view (case m of None \<Rightarrow> n | Some a \<Rightarrow> k a)"
  by (cases m) auto

lemma quietD: "quietE view m \<Longrightarrow> m w = (r, w') \<Longrightarrow> view w' = view w"
  unfolding quietE_def by (metis snd_conv)

lemma quiet_call_split: "quiet_call view f \<Longrightarrow> f w = (a, w') \<Longrightarrow> view w' = view w"
  unfolding quiet_call_def by (metis snd_conv)

lemma quiet_triple:
  assumes "quietE view m" and "\<And>w w'. view w' = view w \<Longrightarrow> P w \<Longrightarrow> P w'"
  shows "tripleE P m (\<lambda>_. P) P"
  unfolding tripleE_def using assms quietD[OF assms(1)] by (fastforce split: prod.splits sum.splits)

end
