(* ===== verification/Machine_View.thy ===== *)
theory Machine_View
  imports Effect_Logic
begin

text \<open>
  What a live apply changes on a machine, as far as the Windows documentation fixes it: names,
  workgroup, the administrative state of adapters, registry strings and firewall profiles.  The laws
  of the API over this view are the hypotheses of the rollback theorem; every call that the laws do not
  mention is assumed to leave the view as it is.
\<close>

section \<open>The view\<close>

record machine_view =
  mv_names :: "name_format \<Rightarrow> units"
  mv_workgroup :: units
  mv_enabled :: "string \<Rightarrow> bool"
  mv_registry :: "units \<Rightarrow> units \<Rightarrow> units option"
  mv_firewall :: firewall_restore

definition set_name :: "name_format \<Rightarrow> units \<Rightarrow> machine_view \<Rightarrow> machine_view" where
  "set_name f u v = v\<lparr>mv_names := (mv_names v)(f := u)\<rparr>"

definition set_enabled :: "string \<Rightarrow> bool \<Rightarrow> machine_view \<Rightarrow> machine_view" where
  "set_enabled n b v = v\<lparr>mv_enabled := (mv_enabled v)(n := b)\<rparr>"

definition set_registry :: "units \<Rightarrow> units \<Rightarrow> units option \<Rightarrow> machine_view \<Rightarrow> machine_view" where
  "set_registry k n u v = v\<lparr>mv_registry := (mv_registry v)(k := (mv_registry v k)(n := u))\<rparr>"

definition set_firewall :: "string \<Rightarrow> bool \<Rightarrow> firewall_restore \<Rightarrow> firewall_restore" where
  "set_firewall profile b r =
    (if profile = ''domainprofile'' then r\<lparr>fr_domain := b\<rparr>
     else if profile = ''privateprofile'' then r\<lparr>fr_private := b\<rparr>
     else if profile = ''publicprofile'' then r\<lparr>fr_public := b\<rparr>
     else if profile = ''allprofiles'' then \<lparr>fr_domain = b, fr_private = b, fr_public = b\<rparr> else r)"

text \<open>What a \<open>netsh\<close> command does to the view: only these two shapes of five words reach it.\<close>

fun netsh_effect :: "string list \<Rightarrow> machine_view \<Rightarrow> machine_view" where
  "netsh_effect [a, b, c, d, e] v =
    (if a = ''interface'' \<and> b = ''set'' \<and> c = ''interface'' \<and> starts_with ''name='' d
     then set_enabled (drop 5 d) (e = ''admin=enabled'') v
     else if a = ''advfirewall'' \<and> b = ''set'' \<and> d = ''state''
     then v\<lparr>mv_firewall := set_firewall c (e = ''on'') (mv_firewall v)\<rparr>
     else v)"
| "netsh_effect args v = v"

section \<open>Laws of the API\<close>

definition name_laws :: "'w windows \<Rightarrow> ('w \<Rightarrow> machine_view) \<Rightarrow> bool" where
  "name_laws A view \<longleftrightarrow>
    (\<forall>f. quiet_call view (os_name_size A f)) \<and> (\<forall>f n. quietE view (os_name_get A f n))
    \<and> (\<forall>f n w k u w'. os_name_get A f n w = (Inr (k, u), w') \<longrightarrow>
        take k u = mv_names (view w) f \<and> 0 \<notin> set (take k u))
    \<and> (\<forall>f u w r w'. os_name_set A f u w = (r, w') \<longrightarrow>
        view w' = (if is_ok r then set_name f (until_nul u) (view w) else view w))"

definition workgroup_laws :: "'w windows \<Rightarrow> ('w \<Rightarrow> machine_view) \<Rightarrow> bool" where
  "workgroup_laws A view \<longleftrightarrow>
    quiet_call view (os_join_get A) \<and> quiet_call view (os_buffer_free A)
    \<and> (\<forall>w u s w'. os_join_get A w = ((0, u, s), w') \<longrightarrow> u = mv_workgroup (view w) \<and> 0 \<notin> set u)
    \<and> (\<forall>u w c w'. os_join_workgroup A u w = (c, w') \<longrightarrow>
        view w' = (if c = 0 then (view w)\<lparr>mv_workgroup := until_nul u\<rparr> else view w))"

definition registry_laws :: "'w windows \<Rightarrow> ('w \<Rightarrow> machine_view) \<Rightarrow> bool" where
  "registry_laws A view \<longleftrightarrow>
    (\<forall>k n f c. quiet_call view (os_reg_get A k n f c)) \<and> (\<forall>k n. quiet_call view (os_reg_dword A k n))
    \<and> (\<forall>k n w b u w'. os_reg_get A k n RegSz None w = ((2, b, u), w') \<longrightarrow> mv_registry (view w) k n = None)
    \<and> (\<forall>k n c w b u w'. os_reg_get A k n RegSz (Some c) w = ((0, b, u), w') \<longrightarrow>
        mv_registry (view w) k n = Some (until_nul (used_units c b u)))
    \<and> (\<forall>k n d w c w'. os_reg_set A k n d w = (c, w') \<longrightarrow>
        view w' = (if c = 0 then set_registry k n (Some (until_nul d)) (view w) else view w))
    \<and> (\<forall>k n w c w'. os_reg_delete A k n w = (c, w') \<longrightarrow>
        view w' = (if c = 0 \<or> c = 2 then set_registry k n None (view w) else view w))
    \<and> (\<forall>p w d w'. os_reg_dword A (wide (firewall_key p)) (wide ''EnableFirewall'') w = ((0, d), w') \<longrightarrow>
        (p = ''DomainProfile'' \<longrightarrow> fr_domain (mv_firewall (view w)) = (d \<noteq> 0))
        \<and> (p = ''StandardProfile'' \<longrightarrow> fr_private (mv_firewall (view w)) = (d \<noteq> 0))
        \<and> (p = ''PublicProfile'' \<longrightarrow> fr_public (mv_firewall (view w)) = (d \<noteq> 0)))"

definition netsh_laws :: "'w windows \<Rightarrow> ('w \<Rightarrow> machine_view) \<Rightarrow> bool" where
  "netsh_laws A view \<longleftrightarrow>
    (\<forall>args w r w'. os_output A (system_tool A ''netsh.exe'') args w = (r, w') \<longrightarrow>
        view w' = (case r of
            Inr out \<Rightarrow> if po_status out = 0 then netsh_effect args (view w) else view w
          | Inl e \<Rightarrow> view w))"

definition quiet_windows :: "'w windows \<Rightarrow> ('w \<Rightarrow> machine_view) \<Rightarrow> bool" where
  "quiet_windows A view \<longleftrightarrow>
    (\<forall>args. quietE view (os_output A (system_tool A ''pnputil.exe'') args))
    \<and> (\<forall>p args. quietE view (os_status A p args)) \<and> (\<forall>p args. quietE view (os_spawn A p args))
    \<and> quietE view (os_scm_open A) \<and> (\<forall>n. quietE view (os_service_open A n))
    \<and> (\<forall>n. quietE view (os_service_query A n)) \<and> (\<forall>n. quietE view (os_service_start A n))
    \<and> (\<forall>n. quietE view (os_service_stop A n)) \<and> quiet_call view (os_now A)
    \<and> (\<forall>d w. view (os_sleep A d w) = view w) \<and> (\<forall>p. quietE view (os_canonicalize A p))
    \<and> (\<forall>n. quietE view (os_load_library A n)) \<and> (\<forall>n. quiet_call view (os_has_export A n))
    \<and> (\<forall>h p f. quiet_call view (os_update_driver A h p f))"

definition quiet_wlan :: "'w wlan \<Rightarrow> ('w \<Rightarrow> machine_view) \<Rightarrow> bool" where
  "quiet_wlan W view \<longleftrightarrow>
    quiet_call view (wl_open_handle W) \<and> quiet_call view (wl_enum_interfaces W)
    \<and> (\<forall>g. quiet_call view (wl_guid_to_luid W g)) \<and> (\<forall>l. quiet_call view (wl_luid_to_index W l))
    \<and> (\<forall>g n. quiet_call view (wl_get_profile W g n)) \<and> (\<forall>g x. quiet_call view (wl_set_profile W g x))
    \<and> (\<forall>g n. quiet_call view (wl_delete_profile W g n)) \<and> (\<forall>g. quiet_call view (wl_scan W g))
    \<and> (\<forall>g n. quiet_call view (wl_connect W g n)) \<and> (\<forall>g. quiet_call view (wl_disconnect W g))
    \<and> (\<forall>g. quiet_call view (wl_query_connection W g)) \<and> (\<forall>g. quiet_call view (wl_query_radio W g))"

definition quiet_netapi :: "'w netapi \<Rightarrow> ('w \<Rightarrow> machine_view) \<Rightarrow> bool" where
  "quiet_netapi S view \<longleftrightarrow>
    (\<forall>n. quiet_call view (na_user_get S n)) \<and> (\<forall>n p. quiet_call view (na_user_add S n p))
    \<and> (\<forall>n. quiet_call view (na_user_del S n)) \<and> (\<forall>n. quiet_call view (na_share_get S n))
    \<and> (\<forall>i. quiet_call view (na_share_add S i)) \<and> (\<forall>n i. quiet_call view (na_share_set S n i))
    \<and> (\<forall>n d. quiet_call view (na_share_set_security S n d)) \<and> (\<forall>n. quiet_call view (na_share_del S n))
    \<and> quiet_call view (na_buffer_free S) \<and> (\<forall>n. quiet_call view (na_lookup_size S n))
    \<and> (\<forall>n. quietE view (na_lookup_sid S n)) \<and> (\<forall>k. quietE view (na_well_known_sid S k))
    \<and> (\<forall>e. quiet_call view (na_set_entries S e)) \<and> quietE view (na_init_descriptor S)
    \<and> (\<forall>a. quietE view (na_set_dacl S a)) \<and> (\<forall>l n. quiet_call view (na_get_connection S l n))
    \<and> (\<forall>l r p u. quiet_call view (na_add_connection S l r p u)) \<and> (\<forall>t. quiet_call view (na_cancel_connection S t))"

definition inventory_laws :: "('w, netplan_error, adapter_inventory) eff \<Rightarrow> ('w \<Rightarrow> machine_view) \<Rightarrow> bool" where
  "inventory_laws inventory view \<longleftrightarrow>
    quietE view inventory
    \<and> (\<forall>w as w'. inventory w = (Inr as, w') \<longrightarrow>
        (\<forall>a\<in>set as. as_admin_enabled a = mv_enabled (view w) (ai_name (as_info a))))"

definition documented_system :: "'w system \<Rightarrow> ('w \<Rightarrow> machine_view) \<Rightarrow> bool" where
  "documented_system Y view \<longleftrightarrow>
    name_laws (sy_windows Y) view \<and> workgroup_laws (sy_windows Y) view
    \<and> registry_laws (sy_windows Y) view \<and> netsh_laws (sy_windows Y) view
    \<and> quiet_windows (sy_windows Y) view \<and> quiet_wlan (sy_wlan Y) view
    \<and> quiet_netapi (sy_netapi Y) view \<and> inventory_laws (sy_inventory Y) view"

section \<open>Quiet operations\<close>

lemma quiet_poll:
  assumes "quiet_windows A view" "quietE view reached"
  shows "quietE view (poll A reached deadline pause late n)"
proof (induction n)
  case (Suc n)
  have "quiet_call view (\<lambda>w. ((), os_sleep A pause w))" "quiet_call view (os_now A)"
    using assms(1) by (simp_all add: quiet_windows_def quiet_call_def)
  with Suc assms(2) show ?case by (auto intro!: quiet)
qed (simp add: quiet)

lemma quiet_hooks [quiet]: "quiet_windows A view \<Longrightarrow> quietE view (run_hooks U A cfg stage)"
  unfolding run_hooks_def run_hook_def by (intro quiet) (simp_all add: quiet_windows_def)

lemma quiet_services:
  assumes "quiet_windows A view"
  shows "quietE view (service_is_running A n)" "quietE view (set_service_running A n b)"
proof -
  have q: "quietE view (open_manager A)" "quietE view (open_service A n)" "quietE view (query_service A n)"
    "quietE view (os_service_start A (wide n))" "quietE view (os_service_stop A (wide n))"
    "quiet_call view (os_now A)"
    using assms unfolding open_manager_def open_service_def query_service_def quiet_windows_def
    by (auto intro!: quiet)
  show "quietE view (service_is_running A n)"
    unfolding service_is_running_def by (intro quiet q)
  show "quietE view (set_service_running A n b)"
    unfolding set_service_running_def wait_for_service_state_def service_reached_def
    by (intro quiet q quiet_poll[OF assms])
qed

lemma quiet_drivers:
  assumes "quiet_windows A view"
  shows "quietE view (install_driver A path hw force restart)"
proof -
  have q: "\<And>args. quietE view (os_output A (system_tool A ''pnputil.exe'') args)"
    "\<And>p. quietE view (os_canonicalize A p)" "\<And>n. quietE view (os_load_library A n)"
    "\<And>n. quiet_call view (os_has_export A n)" "\<And>h p f. quiet_call view (os_update_driver A h p f)"
    using assms unfolding quiet_windows_def by blast+
  show ?thesis
    unfolding install_driver_def run_pnputil_def force_install_driver_def by (intro quiet q)
qed

lemma quiet_wlan_ops:
  assumes "quiet_windows A view" "quiet_wlan W view"
  shows "quietE view (wlan_open A W)" "quietE view (wlan_interfaces W)"
    "quietE view (wlan_get_profile W g n)" "quietE view (wlan_set_profile U A W g p)"
    "quietE view (wlan_scan W g)" "quietE view (wlan_current_profile W g)"
    "quietE view (wlan_connect_profile A W g n)" "quietE view (wlan_disconnect A W g)"
    "quietE view (wifi_rollback_execute A W r)"
proof -
  have a: "\<And>n. quietE view (os_load_library A n)" "\<And>n. quiet_call view (os_has_export A n)"
    "quiet_call view (os_now A)"
    using assms(1) unfolding quiet_windows_def by blast+
  have q: "quiet_call view (wl_open_handle W)" "quiet_call view (wl_enum_interfaces W)"
    "\<And>g. quiet_call view (wl_guid_to_luid W g)" "\<And>l. quiet_call view (wl_luid_to_index W l)"
    "\<And>g n. quiet_call view (wl_get_profile W g n)" "\<And>g x. quiet_call view (wl_set_profile W g x)"
    "\<And>g n. quiet_call view (wl_delete_profile W g n)" "\<And>g. quiet_call view (wl_scan W g)"
    "\<And>g n. quiet_call view (wl_connect W g n)" "\<And>g. quiet_call view (wl_disconnect W g)"
    "\<And>g. quiet_call view (wl_query_connection W g)" "\<And>g. quiet_call view (wl_query_radio W g)"
    using assms(2) by (simp_all add: quiet_wlan_def)
  show opened: "quietE view (wlan_open A W)"
    unfolding wlan_open_def load_symbol_def wlan_call_def by (intro quiet a q)
  show "quietE view (wlan_interfaces W)"
    unfolding wlan_interfaces_def decode_interface_def wlan_interface_index_def by (intro quiet q)
  show "quietE view (wlan_get_profile W g n)" unfolding wlan_get_profile_def by (intro quiet q)
  have set_xml: "quietE view (wlan_set_profile_xml W g x)" for g x
    unfolding wlan_set_profile_xml_def by (intro quiet q)
  then show "quietE view (wlan_set_profile U A W g p)" unfolding wlan_set_profile_def by (intro quiet)
  show "quietE view (wlan_scan W g)"
    unfolding wlan_scan_def wlan_radio_state_def wlan_call_def by (intro quiet q)
  have current: "quietE view (wlan_current_profile W g)" for g
    unfolding wlan_current_profile_def wlan_current_connection_def by (intro quiet q)
  then show "quietE view (wlan_current_profile W g)" .
  have wait: "quietE view (wait_for_profile A W g d)" for g d
    unfolding wait_for_profile_def by (intro quiet quiet_poll[OF assms(1)] a current)
  have connect: "quietE view (wlan_connect_profile A W g n)" for g n
    unfolding wlan_connect_profile_def wlan_call_def by (intro quiet q wait)
  then show "quietE view (wlan_connect_profile A W g n)" .
  have disconnect: "quietE view (wlan_disconnect A W g)" for g
    unfolding wlan_disconnect_def by (intro quiet q wait)
  then show "quietE view (wlan_disconnect A W g)" .
  have delete: "quietE view (wlan_delete_profile W g n)" for g n
    unfolding wlan_delete_profile_def by (intro quiet q)
  show "quietE view (wifi_rollback_execute A W r)"
    unfolding wifi_rollback_execute_def
    by (rule quiet_bind[OF opened], cases r) (auto intro: set_xml connect disconnect delete split: option.split)
qed

lemma quiet_smb_ops:
  assumes "quiet_netapi S view"
  shows "quietE view (smb_apply_account U A S a)" "quietE view (smb_apply_share U S cfg s)"
    "quietE view (smb_apply_mapping U A S cfg m)" "quietE view (smb_rollback_execute S r)"
proof -
  have q: "\<And>n. quiet_call view (na_user_get S n)" "\<And>n p. quiet_call view (na_user_add S n p)"
    "\<And>n. quiet_call view (na_user_del S n)" "\<And>n. quiet_call view (na_share_get S n)"
    "\<And>i. quiet_call view (na_share_add S i)" "\<And>n i. quiet_call view (na_share_set S n i)"
    "\<And>n d. quiet_call view (na_share_set_security S n d)" "\<And>n. quiet_call view (na_share_del S n)"
    "quiet_call view (na_buffer_free S)" "\<And>n. quiet_call view (na_lookup_size S n)"
    "\<And>n. quietE view (na_lookup_sid S n)" "\<And>k. quietE view (na_well_known_sid S k)"
    "\<And>e. quiet_call view (na_set_entries S e)" "quietE view (na_init_descriptor S)"
    "\<And>a. quietE view (na_set_dacl S a)" "\<And>l n. quiet_call view (na_get_connection S l n)"
    "\<And>l r p u. quiet_call view (na_add_connection S l r p u)" "\<And>t. quiet_call view (na_cancel_connection S t)"
    using assms by (simp_all add: quiet_netapi_def)
  show "quietE view (smb_apply_account U A S a)"
    unfolding smb_apply_account_def account_exists_def net_call_def net_param_call_def by (intro quiet q)
  have security: "quietE view (set_share_security S n d)" for n d
    unfolding set_share_security_def net_param_call_def by (intro quiet q)
  have snapshot: "quietE view (set_share_snapshot S n x)" for n x
    unfolding set_share_snapshot_def net_param_call_def by (intro quiet q security)
  have existing: "quietE view (set_existing_security S n x d)" for n x d
    unfolding quietE_def set_existing_security_def
    using quietD[OF security] quietD[OF snapshot] by (fastforce split: prod.splits sum.splits)
  have entries: "quietE view (share_security U S cfg s)"
    unfolding share_security_def share_entries_def account_sid_def lookup_sid_def well_known_sid_def Let_def
    by (intro quiet q)
  have set_or_add: "quiet_call view (case p of
      Some x \<Rightarrow> na_share_set S n (share_declaration s d) | None \<Rightarrow> na_share_add S (share_declaration s d))"
    for p :: "share_snapshot option" and n d
    by (cases p) (simp_all add: q)
  show "quietE view (smb_apply_share U S cfg s)"
    unfolding smb_apply_share_def capture_share_def net_call_def net_param_call_def
    by (intro quiet q existing entries set_or_add)
  have current: "quietE view (current_mapping_in S n l c)" for n l c
    by (induction n arbitrary: c) (auto intro!: quiet q)
  have add: "quietE view (smb_add_mapping U A S cfg m)"
    unfolding smb_add_mapping_def by (intro quiet q)
  show "quietE view (smb_apply_mapping U A S cfg m)"
    unfolding smb_apply_mapping_def current_mapping_def by (intro quiet q current add)
  have "quietE view (delete_account S n)" "quietE view (delete_share S n)" "quietE view (cancel_mapping S n)" for n
    unfolding delete_account_def delete_share_def cancel_mapping_def by (intro quiet q)+
  then show "quietE view (smb_rollback_execute S r)"
    unfolding smb_rollback_execute_def using snapshot by (auto split: smb_rollback.split option.split)
qed

section \<open>Reads and netsh commands\<close>

lemma netsh_view:
  assumes "netsh_laws A view" "run_netsh A args w = (r, w')"
  shows "view w' = (if is_ok r then netsh_effect args (view w) else view w)"
proof -
  obtain o' w1 where out: "os_output A (system_tool A ''netsh.exe'') args w = (o', w1)" by fastforce
  then have v: "view w1 = (case o' of Inr out \<Rightarrow> if po_status out = 0 then netsh_effect args (view w) else view w
      | Inl e \<Rightarrow> view w)"
    using assms(1) unfolding netsh_laws_def by blast
  show ?thesis using assms(2) out v
    by (cases o') (auto simp: run_netsh_def bindE_def map_errE_def returnE_def failE_def split: if_splits)
qed

lemma quiet_netsh:
  assumes "netsh_laws A view" "\<And>v. netsh_effect args v = v"
  shows "quietE view (run_netsh A args)"
  unfolding quietE_def
proof
  fix w
  obtain r w' where run: "run_netsh A args w = (r, w')" by fastforce
  then show "view (snd (run_netsh A args w)) = view w"
    using netsh_view[OF assms(1) run] assms(2) by simp
qed

lemma quiet_reads:
  assumes "registry_laws A view"
  shows "quietE view (read_registry_text A k n f)" "quietE view (registry_value_has_text A k n f)"
    "quietE view (read_registry_dword A k n)" "quietE view (find_adapter_class_key U A g)"
    "quietE view (nr_capture A s)" "quietE view (fw_capture A)"
proof -
  have q: "\<And>k n f c. quiet_call view (os_reg_get A k n f c)" "\<And>k n. quiet_call view (os_reg_dword A k n)"
    using assms by (simp_all add: registry_laws_def)
  have strings: "quietE view (read_registry_text A k n f)" for k n f
    unfolding read_registry_text_def by (intro quiet q)
  then show "quietE view (read_registry_text A k n f)" .
  have has: "quietE view (registry_value_has_text A k n f)" for k n f
    unfolding registry_value_has_text_def by (intro quiet q)
  then show "quietE view (registry_value_has_text A k n f)" .
  have dword: "quietE view (read_registry_dword A k n)" for k n
    unfolding read_registry_dword_def by (intro quiet q)
  then show "quietE view (read_registry_dword A k n)" .
  have "quietE view (find_class_key_in U A g ns)" for ns
    by (induction ns) (auto intro!: quiet strings)
  then show "quietE view (find_adapter_class_key U A g)" unfolding find_adapter_class_key_def .
  show "quietE view (nr_capture A s)" unfolding nr_capture_def by (intro quiet has)
  show "quietE view (fw_capture A)" unfolding fw_capture_def firewall_flag_def by (intro quiet dword)
qed

lemma quiet_network:
  assumes laws: "netsh_laws A view" "registry_laws A view" and inventory: "quietE view (nat_inventory N)"
  shows "quietE view (apply_ipv4 A N r c)" "quietE view (nr_restore A N r)"
    "quietE view (inventory_for N what)"
proof -
  note netsh = quiet_netsh[OF laws(1)]
  have commands: "quietE view (set_address_dhcp A i)" "quietE view (set_primary_address A i a g)"
    "quietE view (add_address A i a)" "quietE view (add_gateway A i g)" "quietE view (delete_address A i a)"
    "quietE view (delete_gateway A i h)" "quietE view (set_dns_from_dhcp A i)" "quietE view (set_wins_from_dhcp A i)"
    for i a g h
    unfolding set_address_dhcp_def set_primary_address_def add_address_def add_gateway_def delete_address_def
      delete_gateway_def set_dns_from_dhcp_def set_wins_from_dhcp_def by (intro netsh; simp)+
  have dns: "quietE view (set_dns A i ss b)" for i ss b
    unfolding set_dns_def set_dns_family_def by (intro quiet netsh commands) simp_all
  have wins: "quietE view (set_wins A i ss' b)" for i ss' b
    unfolding set_wins_def by (intro quiet netsh commands) simp_all
  show inv: "quietE view (inventory_for N what)" for what
    unfolding inventory_for_def by (intro quiet inventory)
  have find: "quietE view (find_current N a b i)" for a b i
    unfolding find_current_def by (intro quiet inv)
  have present: "quietE view (delete_present A i s as gs)" for i s as gs
    unfolding delete_present_def by (intro quiet commands)
  have addresses: "quietE view (set_static_addresses A i as gs e)" for i as gs e
    unfolding set_static_addresses_def by (cases as) (auto intro!: quiet commands)
  show "quietE view (apply_ipv4 A N r c)"
    by (cases c) (auto simp: remove_captured_network_def Let_def
        intro!: quiet commands dns wins find present addresses)
  show "quietE view (nr_restore A N r)"
    unfolding nr_restore_def restore_addresses_def restore_servers_def restore_static_address_def
      verify_restored_def Let_def
    by (intro quiet commands dns wins find present addresses quiet_reads[OF laws(2)])
qed

end
