(* ===== verification/Transaction_Facts.thy ===== *)
theory Transaction_Facts
  imports Machine_View
begin

text \<open>
  The rollback of a live apply restores the view of the machine: every forward step keeps the invariant
  that undoing the recorded actions gives the view the transaction started from, and executing the
  actions without a failure is this undoing.
\<close>

section \<open>What an executed action does to the view\<close>

fun undo_view :: "rollback_action \<Rightarrow> machine_view \<Rightarrow> machine_view" where
  "undo_view (RbComputerName s) v = set_name PhysicalDnsHostname (until_nul (wide s)) v"
| "undo_view (RbDnsSuffix s) v = set_name PhysicalDnsDomain (until_nul (wide s)) v"
| "undo_view (RbWorkgroup s) v = v\<lparr>mv_workgroup := until_nul (wide s)\<rparr>"
| "undo_view (RbAdapterState n b) v = set_enabled n b v"
| "undo_view (RbAdapterMac key previous n restart) v =
    (let u = set_registry (wide key) (wide ''NetworkAddress'')
               (map_option (\<lambda>s. until_nul (wide s)) previous) v in
     if restart then set_enabled n True u else u)"
| "undo_view (RbFirewall r) v = v\<lparr>mv_firewall := r\<rparr>"
| "undo_view (RbAdapterIpv4 _) v = v"
| "undo_view (RbService _ _) v = v"
| "undo_view (RbWifi _) v = v"
| "undo_view (RbSmb _) v = v"

lemma set_enabled_twice [simp]: "set_enabled n b (set_enabled n c v) = set_enabled n b v"
  by (simp add: set_enabled_def)

lemma set_enabled_same [simp]: "mv_enabled v n = b \<Longrightarrow> set_enabled n b v = v"
  by (simp add: set_enabled_def fun_upd_idem)

lemma mv_enabled_set [simp]: "mv_enabled (set_enabled n b v) n = b"
  by (simp add: set_enabled_def)

lemma enabled_effect [simp]:
  "netsh_effect [''interface'', ''set'', ''interface'', ''name='' @ n, ''admin='' @ (if b then ''enabled'' else ''disabled'')]
    = set_enabled n b"
  by (simp add: fun_eq_iff starts_with_def)

lemma enabled_view:
  "netsh_laws A view \<Longrightarrow> set_adapter_enabled A n b w = (r, w') \<Longrightarrow>
    view w' = (if is_ok r then set_enabled n b (view w) else view w)"
  unfolding set_adapter_enabled_def by (drule (1) netsh_view) (simp only: enabled_effect)

lemma restart_view:
  assumes "netsh_laws A view" "restart_adapter A n w = (r, w')"
  shows "\<exists>b. view w' = set_enabled n b (view w)" "r = Inr () \<Longrightarrow> view w' = set_enabled n True (view w)"
proof -
  obtain r1 w1 where one: "set_adapter_enabled A n False w = (r1, w1)" by fastforce
  obtain r2 w2 where two: "set_adapter_enabled A n True w1 = (r2, w2)" by fastforce
  obtain r3 w3 where three: "set_adapter_enabled A n True w2 = (r3, w3)" by fastforce
  note views = enabled_view[OF assms(1) one] enabled_view[OF assms(1) two] enabled_view[OF assms(1) three]
  have same: "set_enabled n (mv_enabled v n) v = v" for v by simp
  show "\<exists>b. view w' = set_enabled n b (view w)"
    using assms(2) one two three views same[of "view w"]
    by (cases r1; cases r2; cases r3) (auto simp: restart_adapter_def bindE_def intro: exI[of _ "mv_enabled (view w) n"])
  show "view w' = set_enabled n True (view w)" if "r = Inr ()"
    using assms(2) one two three views that
    by (cases r1; cases r2; cases r3) (auto simp: restart_adapter_def bindE_def)
qed

lemma set_name_view:
  assumes "name_laws A view" "set_computer_name A f s w = (r, w')"
  shows "view w' = (if is_ok r then set_name f (until_nul (wide s)) (view w) else view w)"
proof -
  obtain r1 w1 where call: "os_name_set A f (wide s) w = (r1, w1)" by fastforce
  then have "view w1 = (if is_ok r1 then set_name f (until_nul (wide s)) (view w) else view w)"
    using assms(1) by (simp add: name_laws_def)
  with assms(2) call show ?thesis
    by (cases r1) (auto simp: set_computer_name_def map_errE_def)
qed

lemma set_workgroup_view:
  assumes "workgroup_laws A view" "set_workgroup A s w = (r, w')"
  shows "view w' = (if is_ok r then (view w)\<lparr>mv_workgroup := until_nul (wide s)\<rparr> else view w)"
proof -
  obtain c w1 where call: "os_join_workgroup A (wide s) w = (c, w1)" by fastforce
  then have "view w1 = (if c = 0 then (view w)\<lparr>mv_workgroup := until_nul (wide s)\<rparr> else view w)"
    using assms(1) by (simp add: workgroup_laws_def)
  with assms(2) call show ?thesis
    by (cases "c = 0") (auto simp: set_workgroup_def bindE_def callE_def returnE_def failE_def)
qed

lemma set_registry_view:
  assumes "registry_laws A view" "set_registry_string A k n d w = (r, w')"
  shows "view w' = (if is_ok r then set_registry (wide k) (wide n) (Some (until_nul (wide d))) (view w) else view w)"
proof -
  obtain c w1 where call: "os_reg_set A (wide k) (wide n) (wide d) w = (c, w1)" by fastforce
  then have "view w1 = (if c = 0 then set_registry (wide k) (wide n) (Some (until_nul (wide d))) (view w) else view w)"
    using assms(1) by (simp add: registry_laws_def)
  with assms(2) call show ?thesis
    by (cases "c = 0") (auto simp: set_registry_string_def bindE_def callE_def returnE_def failE_def split: if_splits)
qed

lemma delete_registry_view:
  assumes "registry_laws A view" "delete_registry_value A k n w = (r, w')"
  shows "view w' = (if is_ok r then set_registry (wide k) (wide n) None (view w) else view w)"
proof -
  obtain c w1 where call: "os_reg_delete A (wide k) (wide n) w = (c, w1)" by fastforce
  then have "view w1 = (if c = 0 \<or> c = 2 then set_registry (wide k) (wide n) None (view w) else view w)"
    using assms(1) by (simp add: registry_laws_def)
  with assms(2) call show ?thesis
    by (auto simp: delete_registry_value_def bindE_def callE_def returnE_def failE_def split: if_splits)
qed

lemma restore_mac_view:
  assumes "registry_laws A view" "netsh_laws A view" "restore_mac A key previous n restart w = (Inr (), w')"
  shows "view w' = undo_view (RbAdapterMac key previous n restart) (view w)"
proof -
  obtain w1 where reg: "(case previous of Some v \<Rightarrow> set_registry_string A key ''NetworkAddress'' v
      | None \<Rightarrow> delete_registry_value A key ''NetworkAddress'') w = (Inr (), w1)"
    and rest: "(if restart then restart_adapter A n else returnE ()) w1 = (Inr (), w')"
    using assms(3) by (auto simp: restore_mac_def thenE_def bindE_ok_iff)
  have "view w1 = set_registry (wide key) (wide ''NetworkAddress'') (map_option (\<lambda>s. until_nul (wide s)) previous) (view w)"
    using reg set_registry_view[OF assms(1)] delete_registry_view[OF assms(1)] by (cases previous) fastforce+
  then show ?thesis using rest restart_view(2)[OF assms(2)] by (auto simp: returnE_def Let_def split: if_splits)
qed

lemma fw_profile_view:
  assumes "netsh_laws A view" "set_firewall_profile A p b w = (r, w')"
  shows "view w' = (if is_ok r then (view w)\<lparr>mv_firewall := set_firewall p b (mv_firewall (view w))\<rparr> else view w)"
  using netsh_view[OF assms(1) assms(2)[unfolded set_firewall_profile_def]] by simp

lemma fw_restore_view:
  assumes "netsh_laws A view" "fw_restore A r w = (Inr (), w')"
  shows "view w' = (view w)\<lparr>mv_firewall := r\<rparr>"
proof -
  obtain w1 w2 where steps: "set_firewall_profile A ''domainprofile'' (fr_domain r) w = (Inr (), w1)"
    "set_firewall_profile A ''privateprofile'' (fr_private r) w1 = (Inr (), w2)"
    "set_firewall_profile A ''publicprofile'' (fr_public r) w2 = (Inr (), w')"
    using assms(2) by (auto simp: fw_restore_def thenE_def bindE_ok_iff)
  show ?thesis using fw_profile_view[OF assms(1) steps(1)] fw_profile_view[OF assms(1) steps(2)]
      fw_profile_view[OF assms(1) steps(3)]
    by (simp add: set_firewall_def)
qed

lemma execute_undo:
  assumes "documented_system Y view" "execute Y a w = (Inr (), w')"
  shows "view w' = undo_view a (view w)"
proof -
  have laws: "name_laws (sy_windows Y) view" "workgroup_laws (sy_windows Y) view"
    "registry_laws (sy_windows Y) view" "netsh_laws (sy_windows Y) view" "quiet_windows (sy_windows Y) view"
    "quiet_wlan (sy_wlan Y) view" "quiet_netapi (sy_netapi Y) view" "quietE view (nat_inventory (native_of Y))"
    using assms(1) by (simp_all add: documented_system_def inventory_laws_def native_of_def wlan_native_def)
  show ?thesis
  proof (cases a)
    case (RbAdapterMac k p n r)
    then show ?thesis using assms(2) restore_mac_view[OF laws(3,4), of k p n r w w'] by simp
  next
    case (RbAdapterIpv4 r)
    then show ?thesis using assms(2) quietD[OF quiet_network(2)[OF laws(4,3,8)]] by simp
  next
    case (RbService n b)
    then show ?thesis using assms(2) quietD[OF quiet_services(2)[OF laws(5)]] by simp
  next
    case (RbWifi r)
    then show ?thesis using assms(2) quietD[OF quiet_wlan_ops(9)[OF laws(5,6)]] by simp
  next
    case (RbSmb r)
    then show ?thesis using assms(2) quietD[OF quiet_smb_ops(4)[OF laws(7)]] by simp
  qed (use assms(2) set_name_view[OF laws(1)] set_workgroup_view[OF laws(2)] enabled_view[OF laws(4)]
      fw_restore_view[OF laws(4)] in fastforce)+
qed

lemma execute_each_undo:
  assumes "documented_system Y view"
  shows "execute_each Y as w = ([], w') \<Longrightarrow> view w' = fold undo_view as (view w)"
proof (induction as arbitrary: w)
  case Nil
  then show ?case by simp
next
  case (Cons a as)
  obtain r w1 where one: "execute Y a w = (r, w1)" by fastforce
  with Cons.prems have r: "r = Inr ()" "execute_each Y as w1 = ([], w')"
    by (cases r; auto split: prod.splits)+
  then have "execute Y a w = (Inr (), w1)" using one by simp
  from execute_undo[OF assms this] Cons.IH[OF r(2)] show ?case by simp
qed

lemma rollback_all_undo:
  "documented_system Y view \<Longrightarrow> rollback_all Y rb w = ([], w') \<Longrightarrow> view w' = foldr undo_view rb (view w)"
  unfolding rollback_all_def by (simp add: execute_each_undo foldr_conv_fold)

section \<open>The invariant of the forward steps\<close>

definition undoes :: "('w \<Rightarrow> machine_view) \<Rightarrow> machine_view \<Rightarrow> 'w txn \<Rightarrow> bool" where
  "undoes view v0 t \<longleftrightarrow> foldr undo_view (tx_rollback t) (view (tx_world t)) = v0"

text \<open>An action determines whether the undone view depends on the present state of an adapter.\<close>

lemma undo_view_enabled:
  "(\<forall>v b. undo_view a (set_enabled n b v) = undo_view a v)
    \<or> (\<forall>v b. undo_view a (set_enabled n b v) = set_enabled n b (undo_view a v))"
proof (cases a)
  case (RbAdapterState m c)
  then show ?thesis
    by (cases "m = n") (auto simp: set_enabled_def fun_upd_twist)
next
  case (RbAdapterMac k p m r)
  then show ?thesis
    by (cases "m = n"; cases r) (auto simp: set_enabled_def set_registry_def fun_upd_twist Let_def)
qed (auto simp: set_name_def set_enabled_def)

lemma undo_all_enabled:
  "(\<forall>v b. foldr undo_view rb (set_enabled n b v) = foldr undo_view rb v)
    \<or> (\<forall>v b. foldr undo_view rb (set_enabled n b v) = set_enabled n b (foldr undo_view rb v))"
proof (induction rb)
  case Nil
  then show ?case by simp
next
  case (Cons a rb)
  from Cons show ?case using undo_view_enabled[of a n] by (elim disjE) (simp_all)
qed

text \<open>Putting an adapter into its original state first makes no difference.\<close>

lemma undo_original_state:
  "foldr undo_view rb v = v0 \<Longrightarrow> foldr undo_view rb (set_enabled n (mv_enabled v0 n) v) = v0"
  using undo_all_enabled[of rb n] by (elim disjE) simp_all

lemma undoes_world: "view w = view (tx_world t) \<Longrightarrow> undoes view v0 t \<Longrightarrow> undoes view v0 (t\<lparr>tx_world := w\<rparr>)"
  by (simp add: undoes_def)

lemma on_tx_quiet:
  assumes "quietE view m" and "\<And>t w. view w = view (tx_world t) \<Longrightarrow> P t \<Longrightarrow> P (t\<lparr>tx_world := w\<rparr>)"
  shows "tripleE P (on_tx m) (\<lambda>_. P) P"
  unfolding tripleE_def on_tx_def using assms(2) quietD[OF assms(1)]
  by (auto split: prod.splits sum.splits)

text \<open>A quiet call whose value says something about the view.\<close>

lemma on_tx_read:
  assumes "quietE view m" and "\<And>w a w'. m w = (Inr a, w') \<Longrightarrow> V a (view w)"
    and "\<And>t w. view w = view (tx_world t) \<Longrightarrow> P t \<Longrightarrow> P (t\<lparr>tx_world := w\<rparr>)"
  shows "tripleE P (on_tx m) (\<lambda>a t. P t \<and> V a (view (tx_world t))) P"
  unfolding tripleE_def on_tx_def using assms(2,3) quietD[OF assms(1)]
  by (auto split: prod.splits sum.splits)

lemma on_tx_quiet_undoes: "quietE view m \<Longrightarrow> tripleE (undoes view v0) (on_tx m) (\<lambda>_. undoes view v0) (undoes view v0)"
  by (erule on_tx_quiet) (rule undoes_world)

lemma push_triple:
  "tripleE (\<lambda>t. Q (t\<lparr>tx_rollback := tx_rollback t @ [a]\<rparr>)) (push_undo a) (\<lambda>_. Q) R"
  by (simp add: tripleE_def push_undo_def)

lemma push_neutral:
  "(\<And>v. undo_view a v = v) \<Longrightarrow> tripleE (undoes view v0) (push_undo a) (\<lambda>_. undoes view v0) (undoes view v0)"
  by (simp add: tripleE_def push_undo_def undoes_def)

lemma from_text: "decode_or what us = Inr s \<Longrightarrow> from_utf16 us = Inr s"
  by (auto simp: decode_or_def ok_simps)

lemma wide_units: "from_utf16 us = Inr s \<Longrightarrow> 0 \<notin> set us \<Longrightarrow> until_nul (wide s) = us"
  using encode_from_utf16[of us s] until_nul_wide[of s] by simp

lemma computer_name_read:
  assumes "name_laws A view" "get_computer_name A f w = (Inr s, w')"
  shows "until_nul (wide s) = mv_names (view w) f"
proof -
  obtain n e w1 k buffer where first_call: "os_name_size A f w = ((n, e), w1)"
    and call: "os_name_get A f n w1 = (Inr (k, buffer), w')" and s: "from_utf16 (take k buffer) = Inr s"
    using assms(2) by (auto simp: get_computer_name_def bindE_ok_iff callE_ok_iff map_errE_ok_iff liftE_def
        failE_def dest!: from_text split: if_splits prod.splits)
  have "take k buffer = mv_names (view w1) f \<and> 0 \<notin> set (take k buffer)"
    using assms(1) call unfolding name_laws_def by blast
  moreover have "view w1 = view w"
    using assms(1) first_call unfolding name_laws_def quiet_call_def by (metis snd_conv)
  ultimately show ?thesis using wide_units[OF s] by metis
qed

lemma workgroup_read:
  assumes "workgroup_laws A view" "get_workgroup A w = (Inr s, w')"
  shows "until_nul (wide s) = mv_workgroup (view w)"
proof -
  obtain us st w1 where call: "os_join_get A w = ((0, us, st), w1)" and s: "from_utf16 us = Inr s"
    using assms(2) by (auto simp: get_workgroup_def bindE_ok_iff callE_ok_iff liftE_def
        failE_def dest!: from_text split: if_splits prod.splits)
  then have "us = mv_workgroup (view w) \<and> 0 \<notin> set us" using assms(1) unfolding workgroup_laws_def by blast
  then show ?thesis using wide_units[OF s] by metis
qed

lemma quiet_names:
  assumes "name_laws A view" shows "quietE view (get_computer_name A f)"
proof -
  have "quiet_call view (os_name_size A f)" "\<And>n. quietE view (os_name_get A f n)"
    using assms by (simp_all add: name_laws_def)
  then show ?thesis unfolding get_computer_name_def by (intro quiet)
qed

lemma quiet_workgroup:
  assumes "workgroup_laws A view" shows "quietE view (get_workgroup A)"
proof -
  have "quiet_call view (os_join_get A)" "quiet_call view (os_buffer_free A)"
    using assms by (simp_all add: workgroup_laws_def)
  then show ?thesis unfolding get_workgroup_def by (intro quiet)
qed

text \<open>While only names were changed the adapters are in their original state.\<close>

definition before_adapters :: "('w \<Rightarrow> machine_view) \<Rightarrow> machine_view \<Rightarrow> 'w txn \<Rightarrow> bool" where
  "before_adapters view v0 t \<longleftrightarrow> undoes view v0 t \<and> mv_enabled (view (tx_world t)) = mv_enabled v0"

lemma change_text_triple:
  assumes get: "quietE view get"
    and set_to: "\<And>x w r w'. set_to x w = (r, w') \<Longrightarrow> view w' = (if is_ok r then upd x (view w) else view w)"
    and undo: "\<And>w s w' x. get w = (Inr s, w') \<Longrightarrow> undo_view (undo s) (upd x (view w)) = view w"
    and upd: "\<And>x v. mv_enabled (upd x v) = mv_enabled v"
  shows "tripleE (before_adapters view v0) (change_text get set_to undo wanted)
    (\<lambda>_. before_adapters view v0) (before_adapters view v0)"
proof -
  let ?P = "before_adapters view v0"
  have read: "tripleE ?P (on_tx get)
      (\<lambda>s t. ?P t \<and> (\<forall>x. undo_view (undo s) (upd x (view (tx_world t))) = view (tx_world t))) ?P"
    by (rule on_tx_read[OF get]) (use undo in \<open>auto simp: before_adapters_def undoes_def\<close>)
  have change: "tripleE (\<lambda>t. ?P t \<and> (\<forall>x. undo_view (undo s) (upd x (view (tx_world t))) = view (tx_world t)))
      (on_tx (set_to wanted)) (\<lambda>_ t. ?P (t\<lparr>tx_rollback := tx_rollback t @ [undo s]\<rparr>)) ?P" for s
    unfolding tripleE_def on_tx_def
    by (auto simp: before_adapters_def undoes_def upd set_to split: prod.splits sum.splits)
  show ?thesis
    unfolding change_text_def
    by (rule tripleE_bind[OF read]) (auto intro: tripleE_then[OF change push_triple] tripleE_return)
qed

lemma identity_triple:
  assumes "documented_system Y view"
  shows "tripleE (before_adapters view v0) (apply_identity Y i) (\<lambda>_. before_adapters view v0) (before_adapters view v0)"
proof -
  have laws: "name_laws (sy_windows Y) view" "workgroup_laws (sy_windows Y) view"
    using assms by (simp_all add: documented_system_def)
  have names: "tripleE (before_adapters view v0) (change_text (get_computer_name (sy_windows Y) f)
      (set_computer_name (sy_windows Y) f) undo x) (\<lambda>_. before_adapters view v0) (before_adapters view v0)"
    if "\<And>s. undo_view (undo s) = set_name f (until_nul (wide s))" for f undo x
    by (rule change_text_triple[OF quiet_names[OF laws(1)] set_name_view[OF laws(1)]])
      (auto simp: that computer_name_read[OF laws(1)] set_name_def)
  have workgroup: "tripleE (before_adapters view v0) (change_text (get_workgroup (sy_windows Y))
      (set_workgroup (sy_windows Y)) RbWorkgroup x) (\<lambda>_. before_adapters view v0) (before_adapters view v0)" for x
    by (rule change_text_triple[OF quiet_workgroup[OF laws(2)] set_workgroup_view[OF laws(2)]])
      (auto simp: workgroup_read[OF laws(2)])
  show ?thesis
    unfolding apply_identity_def Let_def
    by (rule tripleE_then[where Q = "before_adapters view v0"]; (rule tripleE_then[where Q = "before_adapters view v0"])?;
        intro tripleE_for_some names workgroup) (simp_all add: fun_eq_iff)
qed

section \<open>Adapters\<close>

lemma tripleE_seq:
  "tripleE P m (\<lambda>_. P) P \<Longrightarrow> tripleE P n (\<lambda>_. P) P \<Longrightarrow> tripleE P (thenE m n) (\<lambda>_. P) P"
  by (rule tripleE_then)

lemma registry_text_read:
  assumes "registry_laws A view" "read_registry_text A k n RegSz w = (Inr v, w')"
  shows "map_option (\<lambda>s. until_nul (wide s)) v = mv_registry (view w) (wide k) (wide n)"
proof -
  note laws = assms(1)[unfolded registry_laws_def]
  have none: "mv_registry (view w) (wide k) (wide n) = None"
    if "os_reg_get A (wide k) (wide n) RegSz None w = ((2, b, u), w1)" for b u w1
    using laws[THEN conjunct2, THEN conjunct2, THEN conjunct1] that by blast
  have same: "view w1 = view w" if "os_reg_get A (wide k) (wide n) RegSz c w = (x, w1)" for c x w1
    by (rule quiet_call_split[OF laws[THEN conjunct1, rule_format] that])
  have found: "mv_registry (view w1) (wide k) (wide n) = Some (until_nul (used_units c b u))"
    if "os_reg_get A (wide k) (wide n) RegSz (Some c) w1 = ((0, b, u), w2)" for c b u w1 w2
    using laws[THEN conjunct2, THEN conjunct2, THEN conjunct2, THEN conjunct1] that by blast
  have strings: "until_nul (wide s) = until_nul us" if "decode_or what (until_nul us) = Inr s" for what us s
    using wide_from_utf16[OF from_text[OF that]] .
  show ?thesis
    using assms(2) none same found
    by (auto simp: read_registry_text_def bindE_ok_iff callE_ok_iff liftE_def returnE_def failE_def ok_simps
        dest!: strings split: if_splits prod.splits) metis+
qed

lemma set_registry_back [simp]:
  "mv_registry v k n = u \<Longrightarrow> set_registry k n u (set_registry k n x v) = v"
  by (simp add: set_registry_def fun_upd_idem)

lemma change_state_triple:
  assumes "netsh_laws (sy_windows Y) view" "mv_enabled v0 (ai_name (as_info s)) = (\<not> b)"
  shows "tripleE (undoes view v0) (change_state Y s b)
    (\<lambda>_ t. undoes view v0 t \<and> mv_enabled (view (tx_world t)) (ai_name (as_info s)) = b) (undoes view v0)"
  unfolding change_state_def
proof (rule tripleE_then[OF _ push_triple])
  have undone: "foldr undo_view rb (set_enabled n (\<not> b) v) = v0"
    if "foldr undo_view rb v = v0" "n = ai_name (as_info s)" for rb v n
    using undo_original_state[OF that(1), of n] assms(2) that(2) by simp
  show "tripleE (undoes view v0) (on_tx (set_adapter_enabled (sy_windows Y) (ai_name (as_info s)) b))
     (\<lambda>_ t. undoes view v0 (t\<lparr>tx_rollback := tx_rollback t @ [RbAdapterState (ai_name (as_info s)) (\<not> b)]\<rparr>)
        \<and> mv_enabled (view (tx_world (t\<lparr>tx_rollback := tx_rollback t @ [RbAdapterState (ai_name (as_info s)) (\<not> b)]\<rparr>)))
            (ai_name (as_info s)) = b) (undoes view v0)"
    unfolding tripleE_def on_tx_def
    by (auto simp: undoes_def undone enabled_view[OF assms(1)] split: prod.splits sum.splits)
qed

text \<open>Whatever a restart does to the state of the adapter, undoing a MAC change covers it.\<close>

lemma restart_triple:
  assumes "netsh_laws A view"
  shows "tripleE (\<lambda>t. \<exists>rb k p. tx_rollback t = rb @ [RbAdapterMac k p n True] \<and> undoes view v0 t)
    (on_tx (restart_adapter A n)) (\<lambda>_. undoes view v0) (undoes view v0)"
proof -
  have "undoes view v0 (t\<lparr>tx_world := w\<rparr>)"
    if t: "tx_rollback t = rb @ [RbAdapterMac k p n True]" "undoes view v0 t"
      and run: "restart_adapter A n (tx_world t) = (r, w)" for t rb k p r w
  proof -
    obtain b where "view w = set_enabled n b (view (tx_world t))" using restart_view(1)[OF assms run] by blast
    then show ?thesis using t by (simp add: undoes_def Let_def set_registry_def set_enabled_def)
  qed
  then show ?thesis unfolding tripleE_def on_tx_def by (auto split: prod.splits sum.splits)
qed

lemma mac_triple:
  assumes "documented_system Y view"
  shows "tripleE (\<lambda>t. undoes view v0 t \<and> (enabled \<longrightarrow>
      mv_enabled (view (tx_world t)) (ai_name (as_info s)) \<or> mv_enabled v0 (ai_name (as_info s))))
    (apply_mac U Y s enabled mac) (\<lambda>_. undoes view v0) (undoes view v0)"
proof -
  let ?A = "sy_windows Y" and ?n = "ai_name (as_info s)" and ?k = "wide ''NetworkAddress''"
  let ?P = "\<lambda>t. undoes view v0 t \<and> (enabled \<longrightarrow> mv_enabled (view (tx_world t)) ?n \<or> mv_enabled v0 ?n)"
  let ?Q = "\<lambda>key previous t. ?P t
    \<and> map_option (\<lambda>s. until_nul (wide s)) previous = mv_registry (view (tx_world t)) (wide key) ?k"
  let ?S = "\<lambda>t. \<exists>rb k p. tx_rollback t = rb @ [RbAdapterMac k p ?n enabled] \<and> undoes view v0 t"
  have laws: "registry_laws ?A view" "netsh_laws ?A view" using assms by (simp_all add: documented_system_def)
  have P: "?P (t\<lparr>tx_world := w\<rparr>)" if "view w = view (tx_world t)" "?P t" for t w
    using that by (simp add: undoes_def)
  have weak: "tripleE ?P m Q (undoes view v0)" if "tripleE ?P m Q ?P" for m :: "('a txn, platform_error, 'b) eff" and Q
    using that by (rule tripleE_weaken) auto
  have read: "tripleE ?P (on_tx (read_registry_text ?A key ''NetworkAddress'' RegSz)) (?Q key) ?P" for key
    by (rule on_tx_read[where view = view and P = ?P and V = "\<lambda>v u.
          map_option (\<lambda>s. until_nul (wide s)) v = mv_registry u (wide key) ?k"])
      (use quiet_reads(1)[OF laws(1)] registry_text_read[OF laws(1)] P in \<open>auto\<close>)
  have find: "tripleE ?P (on_tx (find_adapter_class_key U ?A g)) (\<lambda>_. ?P) ?P" for g
    by (rule on_tx_quiet[where view = view and P = ?P]) (use quiet_reads(4)[OF laws(1)] P in auto)
  have undo: "foldr undo_view rb (undo_view (RbAdapterMac key previous ?n enabled) (set_registry (wide key) ?k x v)) = v0"
    if "foldr undo_view rb v = v0" "enabled \<longrightarrow> mv_enabled v ?n \<or> mv_enabled v0 ?n"
      "mv_registry v (wide key) ?k = map_option (\<lambda>s. until_nul (wide s)) previous" for rb key previous x v
    using that undo_original_state[OF that(1), of ?n] by (auto simp: Let_def)
  have stored: "tripleE (?Q key previous) (on_tx (set_registry_string ?A key ''NetworkAddress'' x))
      (\<lambda>_ t. ?S (t\<lparr>tx_rollback := tx_rollback t @ [RbAdapterMac key previous ?n enabled]\<rparr>)) (undoes view v0)"
    for key previous x
    unfolding tripleE_def on_tx_def
    using undo by (auto simp: undoes_def set_registry_view[OF laws(1)] simp del: undo_view.simps split: prod.splits sum.splits)
  have restart: "tripleE ?S (when_ok enabled (on_tx (restart_adapter ?A ?n))) (\<lambda>_. undoes view v0) (undoes view v0)"
    using restart_triple[OF laws(2), of ?n v0] by (cases enabled) (auto simp: when_ok_def intro: tripleE_return)
  show ?thesis
    unfolding apply_mac_def Let_def
    by (intro tripleE_bind[where Q = "\<lambda>_. ?P"] tripleE_bind[OF weak[OF read]] tripleE_lift
        weak[OF find] tripleE_then[OF stored]
        tripleE_then[OF push_triple restart]) simp_all
qed

lemma tripleE_pure: "(\<Phi> \<Longrightarrow> tripleE P m Q R) \<Longrightarrow> tripleE (\<lambda>w. P w \<and> \<Phi>) m Q R"
  by (auto simp: tripleE_def)

lemma tripleE_for_some_to:
  "(\<And>a. m = Some a \<Longrightarrow> tripleE P (f a) (\<lambda>_. Q) R) \<Longrightarrow> (\<And>w. P w \<Longrightarrow> Q w) \<Longrightarrow>
    tripleE P (for_some m f) (\<lambda>_. Q) R"
  by (cases m) (auto simp: for_some_def intro: tripleE_return)

lemma quiet_native:
  "documented_system Y view \<Longrightarrow> quietE view (nat_inventory (native_of Y))"
  by (simp add: documented_system_def inventory_laws_def native_of_def wlan_native_def)

lemma ipv4_triple:
  assumes "documented_system Y view"
  shows "tripleE (undoes view v0) (apply_adapter_ipv4 Y s c) (\<lambda>_. undoes view v0) (undoes view v0)"
proof -
  let ?A = "sy_windows Y"
  let ?S = "\<lambda>r t. \<exists>rb. tx_rollback t = rb @ [RbAdapterIpv4 r] \<and> undoes view v0 t"
  have laws: "netsh_laws ?A view" "registry_laws ?A view" using assms by (simp_all add: documented_system_def)
  have capture: "tripleE (undoes view v0) (on_tx (nr_capture ?A s)) (\<lambda>_. undoes view v0) (undoes view v0)"
    by (rule on_tx_quiet_undoes[OF quiet_reads(5)[OF laws(2)]])
  have push: "tripleE (undoes view v0) (push_undo (RbAdapterIpv4 r)) (\<lambda>_. ?S r) (undoes view v0)" for r
    by (simp add: tripleE_def push_undo_def undoes_def)
  have change: "tripleE (?S r) (on_tx (apply_ipv4 ?A (native_of Y) r c)) (\<lambda>_. ?S r) (undoes view v0)" for r
    by (rule tripleE_weaken[OF on_tx_quiet[where P = "?S r" and view = view]])
      (use quiet_network(1)[OF laws quiet_native[OF assms]] in \<open>auto simp: undoes_def\<close>)
  have pop: "tripleE (?S r) (when_ok b pop_undo) (\<lambda>_. undoes view v0) (undoes view v0)" for r b
    by (auto simp: tripleE_def pop_undo_def when_ok_def returnE_def undoes_def)
  show ?thesis
    unfolding apply_adapter_ipv4_def Let_def
    by (intro tripleE_bind[OF capture] tripleE_then[OF push] tripleE_bind[OF change] pop)
qed

lemma adapter_triple:
  assumes doc: "documented_system Y view"
    and inv: "\<forall>a\<in>set inventory. as_admin_enabled a = mv_enabled v0 (ai_name (as_info a))"
  shows "tripleE (undoes view v0) (apply_adapter U Y inventory a) (\<lambda>_. undoes view v0) (undoes view v0)"
proof -
  have netsh: "netsh_laws (sy_windows Y) view" using doc by (simp add: documented_system_def)
  have one: "tripleE (undoes view v0)
      (thenE (when_ok (ad_enabled a = Some True \<and> \<not> as_admin_enabled s) (change_state Y s True))
        (thenE (for_some (ad_mac_address a) (apply_mac U Y s (ad_enabled a = Some True \<or> as_admin_enabled s)))
          (thenE (for_some (ad_ipv4 a) (apply_adapter_ipv4 Y s))
            (when_ok (ad_enabled a = Some False \<and> as_admin_enabled s) (change_state Y s False)))))
      (\<lambda>_. undoes view v0) (undoes view v0)"
    if admin: "as_admin_enabled s = mv_enabled v0 (ai_name (as_info s))" for s
  proof (rule tripleE_then[OF tripleE_when])
    let ?P = "\<lambda>t. undoes view v0 t \<and> (ad_enabled a = Some True \<or> as_admin_enabled s \<longrightarrow>
      mv_enabled (view (tx_world t)) (ai_name (as_info s)) \<or> mv_enabled v0 (ai_name (as_info s)))"
    show "tripleE (undoes view v0) (change_state Y s True) (\<lambda>_. ?P) (undoes view v0)"
      if "ad_enabled a = Some True \<and> \<not> as_admin_enabled s"
      by (rule tripleE_weaken[OF change_state_triple[OF netsh]]) (use that admin in auto)
    show "?P t" if "\<not> (ad_enabled a = Some True \<and> \<not> as_admin_enabled s)" "undoes view v0 t" for t
      using that admin by auto
    have last: "tripleE (undoes view v0) (change_state Y s False) (\<lambda>_. undoes view v0) (undoes view v0)"
      if "as_admin_enabled s"
      by (rule tripleE_weaken[OF change_state_triple[OF netsh]]) (use that admin in auto)
    have mac: "tripleE ?P (apply_mac U Y s (ad_enabled a = Some True \<or> as_admin_enabled s) m)
        (\<lambda>_. undoes view v0) (undoes view v0)" for m
      by (rule tripleE_weaken[OF mac_triple[OF doc]]) auto
    show "tripleE ?P (thenE (for_some (ad_mac_address a)
          (apply_mac U Y s (ad_enabled a = Some True \<or> as_admin_enabled s)))
        (thenE (for_some (ad_ipv4 a) (apply_adapter_ipv4 Y s))
          (when_ok (ad_enabled a = Some False \<and> as_admin_enabled s) (change_state Y s False))))
      (\<lambda>_. undoes view v0) (undoes view v0)"
      by (rule tripleE_then[OF tripleE_for_some_to[OF mac]], blast,
          rule tripleE_seq[OF tripleE_for_some[OF ipv4_triple[OF doc]] tripleE_when[OF last]]) auto
  qed
  have resolved: "s \<in> set inventory" if "resolve_adapter U inventory (ad_selector a) = Inr s" for s
    using that unfolding resolve_adapter_ok matching_adapters_def by (metis filter_is_subset in_mono list.set_intros(1))
  show ?thesis
    unfolding apply_adapter_def
    by (rule tripleE_bind[where Q = "\<lambda>s t. undoes view v0 t \<and> as_admin_enabled s = mv_enabled v0 (ai_name (as_info s))"])
      (use inv resolved in \<open>auto intro!: tripleE_lift tripleE_pure one\<close>)
qed

lemma adapters_triple:
  assumes doc: "documented_system Y view"
  shows "tripleE (before_adapters view v0) (apply_adapters U Y cfg) (\<lambda>_. undoes view v0) (undoes view v0)"
proof -
  let ?P = "before_adapters view v0"
  let ?\<Phi> = "\<lambda>as. \<forall>a\<in>set as. as_admin_enabled a = mv_enabled v0 (ai_name (as_info a))"
  have netsh: "netsh_laws (sy_windows Y) view" and reg: "registry_laws (sy_windows Y) view"
    using doc by (simp_all add: documented_system_def)
  have states: "\<forall>a\<in>set as. as_admin_enabled a = mv_enabled (view w) (ai_name (as_info a))"
    if "inventory_for (native_of Y) what w = (Inr as, w')" for what as w w'
    using doc that unfolding documented_system_def inventory_laws_def
    by (simp add: inventory_for_def native_of_def wlan_native_def map_errE_ok_iff)
  have read: "tripleE ?P (on_tx (inventory_for (native_of Y) what))
      (\<lambda>as t. ?P t \<and> (\<forall>a\<in>set as. as_admin_enabled a = mv_enabled (view (tx_world t)) (ai_name (as_info a)))) ?P" for what
    by (rule on_tx_read[where view = view and V = "\<lambda>as u. \<forall>a\<in>set as. as_admin_enabled a = mv_enabled u (ai_name (as_info a))"])
      (use quiet_network(3)[OF netsh reg quiet_native[OF doc]] states in \<open>auto simp: before_adapters_def undoes_def\<close>)
  have read': "tripleE ?P (on_tx (inventory_for (native_of Y) what)) (\<lambda>as t. undoes view v0 t \<and> ?\<Phi> as) (undoes view v0)" for what
    by (rule tripleE_weaken[OF read]) (auto simp: before_adapters_def)
  show ?thesis
    unfolding apply_adapters_def
    by (auto intro!: tripleE_bind[OF read'] tripleE_pure tripleE_for adapter_triple[OF doc] tripleE_return
        simp: before_adapters_def)
qed

section \<open>The other forward steps\<close>

lemma neutral_change:
  assumes "\<And>v. undo_view a v = v" "quietE view m"
  shows "tripleE (undoes view v0) (thenE (push_undo a) (on_tx m)) (\<lambda>_. undoes view v0) (undoes view v0)"
  by (rule tripleE_seq[OF push_neutral[OF assms(1)] on_tx_quiet_undoes[OF assms(2)]])

lemma undoes_bind:
  assumes "quietE view m" "\<And>a. tripleE (undoes view v0) (k a) (\<lambda>_. undoes view v0) (undoes view v0)"
  shows "tripleE (undoes view v0) (bindE (on_tx m) k) (\<lambda>_. undoes view v0) (undoes view v0)"
  by (rule tripleE_bind[OF on_tx_quiet_undoes[OF assms(1)] assms(2)])

lemma undoes_lift:
  assumes "\<And>a. tripleE (undoes view v0) (k a) (\<lambda>_. undoes view v0) (undoes view v0)"
  shows "tripleE (undoes view v0) (bindE (liftE r) k) (\<lambda>_. undoes view v0) (undoes view v0)"
  by (rule tripleE_bind[where Q = "\<lambda>_. undoes view v0"]) (auto intro: tripleE_lift assms)

lemma wifi_triple:
  assumes doc: "documented_system Y view"
  shows "tripleE (undoes view v0) (apply_wifi U Y cfg) (\<lambda>_. undoes view v0) (undoes view v0)"
proof -
  have laws: "netsh_laws (sy_windows Y) view" "registry_laws (sy_windows Y) view"
    "quiet_windows (sy_windows Y) view" "quiet_wlan (sy_wlan Y) view"
    using doc by (simp_all add: documented_system_def)
  note ops = quiet_wlan_ops[OF laws(3,4)]
  have profile: "tripleE (undoes view v0) (apply_wifi_profile U Y i is p) (\<lambda>_. undoes view v0) (undoes view v0)" for i "is" p
    unfolding apply_wifi_profile_def by (intro undoes_lift undoes_bind ops neutral_change) simp
  have connection: "tripleE (undoes view v0) (apply_connection Y g m) (\<lambda>_. undoes view v0) (undoes view v0)"
    if "quietE view m" for g m
    unfolding apply_connection_def by (intro undoes_bind ops neutral_change that) simp
  have action: "tripleE (undoes view v0) (apply_wifi_action U Y i is a) (\<lambda>_. undoes view v0) (undoes view v0)" for i "is" a
    unfolding apply_wifi_action_def
    by (rule undoes_lift, cases a) (auto intro: connection ops on_tx_quiet_undoes)
  show ?thesis
    unfolding apply_wifi_def
    by (auto intro!: undoes_bind ops tripleE_seq tripleE_for profile action tripleE_return
        quiet_network(3)[OF laws(1,2) quiet_native[OF doc]])
qed

lemma service_triple:
  assumes "quiet_windows (sy_windows Y) view"
  shows "tripleE (undoes view v0) (apply_service Y s) (\<lambda>_. undoes view v0) (undoes view v0)"
  unfolding apply_service_def Let_def
  by (intro undoes_bind quiet_services[OF assms] tripleE_when neutral_change) simp_all

lemma smb_triples:
  assumes "quiet_netapi (sy_netapi Y) view"
  shows "tripleE (undoes view v0) (apply_account U Y a) (\<lambda>_. undoes view v0) (undoes view v0)"
    "tripleE (undoes view v0) (apply_share U Y cfg s) (\<lambda>_. undoes view v0) (undoes view v0)"
    "tripleE (undoes view v0) (apply_mapping U Y cfg m) (\<lambda>_. undoes view v0) (undoes view v0)"
  unfolding apply_account_def apply_share_def apply_mapping_def
  by (intro undoes_bind quiet_smb_ops[OF assms] tripleE_for_some push_neutral; simp)+

lemma firewall_read:
  assumes "registry_laws A view" "fw_capture A w = (Inr r, w')"
  shows "mv_firewall (view w) = r"
proof -
  note laws = assms(1)[unfolded registry_laws_def]
  note dwords = laws[THEN conjunct2, THEN conjunct2, THEN conjunct2, THEN conjunct2, THEN conjunct2, THEN conjunct2]
  have flag: "view v' = view v
      \<and> (p = ''DomainProfile'' \<longrightarrow> fr_domain (mv_firewall (view v)) = b)
      \<and> (p = ''StandardProfile'' \<longrightarrow> fr_private (mv_firewall (view v)) = b)
      \<and> (p = ''PublicProfile'' \<longrightarrow> fr_public (mv_firewall (view v)) = b)"
    if "firewall_flag A p v = (Inr b, v')" for p v b v'
  proof -
    obtain code d v1 where call: "os_reg_dword A (wide (firewall_key p)) (wide ''EnableFirewall'') v = ((code, d), v1)"
      by (metis prod.exhaust)
    then have "code = 0" "v1 = v'" "b = (d \<noteq> 0)"
      using that by (auto simp: firewall_flag_def read_registry_dword_def bindE_def callE_def returnE_def
          failE_def split: if_splits)
    with call have d: "os_reg_dword A (wide (firewall_key p)) (wide ''EnableFirewall'') v = ((0, d), v')"
      "b = (d \<noteq> 0)" by simp_all
    have "view v' = view v"
      by (rule quiet_call_split[OF laws[THEN conjunct2, THEN conjunct1, rule_format] d(1)])
    with dwords[rule_format, OF d(1)] d(2) show ?thesis by blast
  qed
  obtain a b c w1 w2 where steps: "firewall_flag A ''DomainProfile'' w = (Inr a, w1)"
    "firewall_flag A ''StandardProfile'' w1 = (Inr b, w2)" "firewall_flag A ''PublicProfile'' w2 = (Inr c, w')"
    "r = \<lparr>fr_domain = a, fr_private = b, fr_public = c\<rparr>"
    using assms(2) by (auto simp: fw_capture_def bindE_ok_iff returnE_def)
  show ?thesis using flag[OF steps(1)] flag[OF steps(2)] flag[OF steps(3)] steps(4)
    by (cases "mv_firewall (view w)") simp
qed

lemma firewall_triple:
  assumes "netsh_laws (sy_windows Y) view" "registry_laws (sy_windows Y) view"
  shows "tripleE (undoes view v0) (apply_firewall Y f) (\<lambda>_. undoes view v0) (undoes view v0)"
proof -
  let ?A = "sy_windows Y"
  let ?P = "\<lambda>r t. undoes view v0 t \<and> mv_firewall (view (tx_world t)) = r"
  let ?S = "\<lambda>r t. \<exists>rb. tx_rollback t = rb @ [RbFirewall r] \<and> undoes view v0 t"
  have read: "tripleE (undoes view v0) (on_tx (fw_capture ?A)) ?P (undoes view v0)"
    by (rule on_tx_read[where view = view and V = "\<lambda>r v. mv_firewall v = r"])
      (use quiet_reads(6)[OF assms(2)] firewall_read[OF assms(2)] in \<open>auto simp: undoes_def\<close>)
  have push: "tripleE (?P r) (push_undo (RbFirewall r)) (\<lambda>_. ?S r) (undoes view v0)" for r
    by (auto simp: tripleE_def push_undo_def undoes_def)
  have change: "tripleE (?S r) (on_tx (set_firewall_profile ?A p b)) (\<lambda>_. undoes view v0) (undoes view v0)" for r p b
    unfolding tripleE_def on_tx_def
    by (auto simp: undoes_def fw_profile_view[OF assms(1)] split: prod.splits sum.splits)
  show ?thesis
    unfolding apply_firewall_def
    by (rule tripleE_bind[OF read], rule tripleE_when[OF tripleE_then[OF push change]]) simp
qed

lemma reversible_triple:
  assumes doc: "documented_system Y view"
  shows "tripleE (before_adapters view v0) (apply_reversible U Y cfg) (\<lambda>_. undoes view v0) (undoes view v0)"
proof -
  have laws: "netsh_laws (sy_windows Y) view" "registry_laws (sy_windows Y) view"
    "quiet_windows (sy_windows Y) view" "quiet_netapi (sy_netapi Y) view"
    using doc by (simp_all add: documented_system_def)
  have names: "tripleE (before_adapters view v0) (for_some (identity cfg) (apply_identity Y))
      (\<lambda>_. before_adapters view v0) (undoes view v0)"
    by (rule tripleE_weaken[OF tripleE_for_some[OF identity_triple[OF doc]]]) (auto simp: before_adapters_def)
  show ?thesis
    unfolding apply_reversible_def
    by (rule tripleE_then[OF names], rule tripleE_then[OF adapters_triple[OF doc]],
        intro tripleE_seq tripleE_for tripleE_for_some wifi_triple[OF doc] service_triple[OF laws(3)]
          smb_triples[OF laws(4)] firewall_triple[OF laws(1,2)])
qed

section \<open>The transaction\<close>

lemma forE_ok_imp: "forE f xs w = (Inl e, w') \<Longrightarrow> \<exists>x\<in>set xs. \<exists>v v'. f x v = (Inl e, v')"
proof (induction xs arbitrary: w)
  case Nil
  then show ?case by (simp add: returnE_def)
next
  case (Cons x xs)
  then show ?case by (auto simp: thenE_def bindE_err_iff)
qed

lemma process_error_plain [simp]: "\<not> pe_rolled_back (process_error context e)"
  by (simp add: process_error_def pe_not_found_def pe_permission_denied_def pe_internal_def
      platform_error_new_def split: os_io_kind.split)

lemma map_errE_err: "map_errE f m w = (Inl e, w') \<Longrightarrow> \<exists>x. e = f x"
  by (auto simp: map_errE_def split: prod.splits elim!: map_errR.elims)

lemma hook_plain: "run_hook U A h w = (Inl e, w') \<Longrightarrow> \<not> pe_rolled_back e"
  by (auto simp: run_hook_def bindE_err_iff returnE_def failE_def pe_internal_def platform_error_new_def
      dest!: map_errE_err split: if_splits)

lemma hooks_not_rolled_back: "run_hooks U A cfg stage w = (Inl e, w') \<Longrightarrow> \<not> pe_rolled_back e"
  unfolding run_hooks_def by (drule forE_ok_imp) (auto dest: hook_plain)

lemma forward_undoes:
  assumes doc: "documented_system Y view" and drivers: "\<forall>d\<in>set (drivers cfg). is_install d"
    and run: "apply_forward U Y cfg w = (Inl e, irreversible, t)" and rev: "\<not> irreversible"
  shows "undoes view (view w) t"
proof -
  let ?B = "before_adapters view (view w)" and ?I = "undoes view (view w)"
  have "tripleE ?B (apply_reversible U Y cfg) (\<lambda>_. ?I) ?I" by (rule reversible_triple[OF doc])
  then have start: "tripleE ?B (apply_reversible U Y cfg) (\<lambda>_. ?I) ?I \<and> ?B \<lparr>tx_rollback = [], tx_world = w\<rparr>"
    by (simp add: before_adapters_def undoes_def)
  obtain r t1 where one: "apply_reversible U Y cfg \<lparr>tx_rollback = [], tx_world = w\<rparr> = (r, t1)" by fastforce
  then have t1: "undoes view (view w) t1"
    using start unfolding tripleE_def by (cases r) fastforce+
  show ?thesis
  proof (cases r)
    case (Inl e1)
    then show ?thesis using run one t1 by (simp add: apply_forward_def)
  next
    case (Inr u)
    then have none: "drivers cfg = []" and hooks: "run_hooks U (sy_windows Y) cfg AfterApply (tx_world t1) = (Inl e, tx_world t)"
      and t: "tx_rollback t = tx_rollback t1"
      using run one rev drivers
      by (cases "drivers cfg"; auto simp: apply_forward_def apply_drivers_def split: prod.splits)+
    have "quietE view (run_hooks U (sy_windows Y) cfg AfterApply)"
      using doc by (simp add: documented_system_def quiet)
    from quietD[OF this hooks] t t1 show ?thesis by (simp add: undoes_def)
  qed
qed

lemma restored_when_rolled_back:
  assumes "documented_system Y view" "\<forall>d\<in>set (drivers cfg). is_install d"
    "windows_apply U Y cfg w = (Inl e, w')" "pe_rolled_back e"
  shows "view w' = view w"
proof -
  have hooks: "quietE view (run_hooks U (sy_windows Y) cfg stage)" for stage
    using assms(1) by (simp add: documented_system_def quiet)
  obtain w0 where before: "run_hooks U (sy_windows Y) cfg BeforeApply w = (Inr (), w0)"
    using assms(3,4) by (auto simp: windows_apply_def bindE_err_iff dest: hooks_not_rolled_back)
  obtain e1 irreversible t where forward: "apply_forward U Y cfg w0 = (Inl e1, irreversible, t)"
    and failing: "fail_apply U Y cfg e1 (tx_rollback t) irreversible (tx_world t) = (e, w')"
    using assms(3) before by (auto simp: windows_apply_def bindE_def split: prod.splits sum.splits)
  obtain w1 hook where rolled: "rollback_all Y (tx_rollback t) (tx_world t) = ([], w1)"
    and after: "run_hooks U (sy_windows Y) cfg AfterRollback w1 = (hook, w')" and rev: "\<not> irreversible"
    using failing assms(4) by (auto simp: fail_apply_def split: prod.splits)
  have "undoes view (view w0) t" by (rule forward_undoes[OF assms(1,2) forward rev])
  then have "view w1 = view w0" using rollback_all_undo[OF assms(1) rolled] by (simp add: undoes_def)
  then show ?thesis using quietD[OF hooks before] quietD[OF hooks after] by simp
qed


end
