(* ===== verification/Sample_Machine.thy ===== *)
theory Sample_Machine
  imports Transaction_Facts Network_Facts Sample
begin

text \<open>
  A concrete machine the API laws hold of: names, registry strings, adapters and firewall profiles in a
  record, a \<open>netsh\<close> that changes them and logs its commands, hooks that fail when their program is
  called \<open>fail\<close>, and a clock that a sleep advances.  It instantiates the parameters of the model in the
  witnesses.
\<close>

section \<open>The machine\<close>

record sample_world =
  sw_names :: "name_format \<Rightarrow> units"
  sw_workgroup :: units
  sw_enabled :: "string \<Rightarrow> bool"
  sw_registry :: "units \<Rightarrow> units \<Rightarrow> units option"
  sw_firewall :: firewall_restore
  sw_log :: "string list list"
  sw_clock :: nat

definition sample_view :: "sample_world \<Rightarrow> machine_view" where
  "sample_view w = \<lparr>mv_names = \<lambda>f. until_nul (sw_names w f), mv_workgroup = until_nul (sw_workgroup w),
     mv_enabled = sw_enabled w, mv_registry = \<lambda>k n. map_option until_nul (sw_registry w k n),
     mv_firewall = sw_firewall w\<rparr>"

text \<open>What \<open>netsh\<close> does to the machine, read off the effect on the view.\<close>

definition sample_netsh :: "string list \<Rightarrow> sample_world \<Rightarrow> sample_world" where
  "sample_netsh args w =
    (let v = netsh_effect args (sample_view w) in
     w\<lparr>sw_enabled := mv_enabled v, sw_firewall := mv_firewall v, sw_log := sw_log w @ [args]\<rparr>)"

definition sample_reg_get ::
    "units \<Rightarrow> units \<Rightarrow> reg_type \<Rightarrow> nat option \<Rightarrow> sample_world \<Rightarrow> (32 word \<times> nat \<times> units) \<times> sample_world" where
  "sample_reg_get k n f capacity w =
    ((case map_option until_nul (sw_registry w k n) of
        None \<Rightarrow> (2, 0, [])
      | Some u \<Rightarrow>
          (let needed = 2 * (length u + 1) in
           case capacity of
             None \<Rightarrow> (0, needed, [])
           | Some c \<Rightarrow> if needed \<le> c then (0, needed, u @ [0]) else (234, needed, []))), w)"

definition sample_flag :: "sample_world \<Rightarrow> units \<Rightarrow> bool" where
  "sample_flag w k =
    (if k = wide (firewall_key ''DomainProfile'') then fr_domain (sw_firewall w)
     else if k = wide (firewall_key ''StandardProfile'') then fr_private (sw_firewall w)
     else fr_public (sw_firewall w))"

definition sample_io_error :: io_error where
  "sample_io_error = \<lparr>ioe_kind = IoOther, ioe_raw = None, ioe_text = ''unused''\<rparr>"

definition sample_windows :: "sample_world windows" where
  "sample_windows = \<lparr>os_env = \<lambda>n. None,
     os_output = \<lambda>tool args w. (Inr \<lparr>po_status = 0, po_stdout = [], po_stderr = []\<rparr>,
       if tool = ''netsh.exe'' then sample_netsh args w else w),
     os_status = \<lambda>program args. returnE (if program = ''fail'' then 1 else 0),
     os_spawn = \<lambda>program args. returnE (),
     os_name_size = \<lambda>f w. ((length (until_nul (sw_names w f)) + 1, sample_io_error), w),
     os_name_get = \<lambda>f n w. (Inr (length (until_nul (sw_names w f)), until_nul (sw_names w f) @ [0]), w),
     os_name_set = \<lambda>f u w. (Inr (), w\<lparr>sw_names := (sw_names w)(f := u)\<rparr>),
     os_join_get = \<lambda>w. ((0, until_nul (sw_workgroup w), 2), w),
     os_buffer_free = \<lambda>w. (0, w),
     os_join_workgroup = \<lambda>u w. (0, w\<lparr>sw_workgroup := u\<rparr>),
     os_reg_get = sample_reg_get,
     os_reg_dword = \<lambda>k n w. ((0, if sample_flag w k then 1 else 0), w),
     os_reg_set = \<lambda>k n d w. (0, w\<lparr>sw_registry := (sw_registry w)(k := (sw_registry w k)(n := Some d))\<rparr>),
     os_reg_delete = \<lambda>k n w. (0, w\<lparr>sw_registry := (sw_registry w)(k := (sw_registry w k)(n := None))\<rparr>),
     os_scm_open = returnE (), os_service_open = \<lambda>n. returnE (), os_service_query = \<lambda>n. returnE 4,
     os_service_start = \<lambda>n. returnE (), os_service_stop = \<lambda>n. returnE (),
     os_now = \<lambda>w. (sw_clock w, w), os_sleep = \<lambda>d w. w\<lparr>sw_clock := sw_clock w + d\<rparr>,
     os_canonicalize = \<lambda>p. returnE (Some p), os_load_library = \<lambda>n. returnE (),
     os_has_export = \<lambda>n w. (True, w), os_update_driver = \<lambda>h p f w. ((True, False, sample_io_error), w)\<rparr>"

definition sample_wlan :: "sample_world wlan" where
  "sample_wlan = \<lparr>wl_open_handle = Pair 0, wl_enum_interfaces = Pair (0, Some []),
     wl_guid_to_luid = \<lambda>g. Pair (0, 0), wl_luid_to_index = \<lambda>l. Pair (0, 0),
     wl_get_profile = \<lambda>g n. Pair (1168, []), wl_set_profile = \<lambda>g x. Pair (0, 0),
     wl_delete_profile = \<lambda>g n. Pair 0, wl_scan = \<lambda>g. Pair 0, wl_connect = \<lambda>g n. Pair 0,
     wl_disconnect = \<lambda>g. Pair 0, wl_query_connection = \<lambda>g. Pair (1168, None),
     wl_query_radio = \<lambda>g. Pair (0, None), wl_available_networks = \<lambda>g. Pair (0, Some []),
     wl_register = \<lambda>b. Pair 0, wl_notifications = \<lambda>t. Pair []\<rparr>"

definition sample_share :: share_info where
  "sample_share = \<lparr>si_netname = [], si_type = 0, si_remark = None, si_permissions = 0, si_max_uses = 0,
     si_path = None, si_passwd = None, si_descriptor = []\<rparr>"

definition sample_netapi :: "sample_world netapi" where
  "sample_netapi = \<lparr>na_user_get = \<lambda>n. Pair 2221, na_user_add = \<lambda>n p. Pair (0, 0), na_user_del = \<lambda>n. Pair 0,
     na_share_get = \<lambda>n. Pair (2310, sample_share), na_share_add = \<lambda>i. Pair (0, 0),
     na_share_set = \<lambda>n i. Pair (0, 0), na_share_set_security = \<lambda>n d. Pair (0, 0), na_share_del = \<lambda>n. Pair 0,
     na_buffer_free = Pair 0, na_lookup_size = \<lambda>n. Pair (False, 12), na_lookup_sid = \<lambda>n. returnE ''sid'',
     na_well_known_sid = \<lambda>k. returnE ''sid'', na_set_entries = \<lambda>e. Pair (0, []),
     na_init_descriptor = returnE (), na_set_dacl = \<lambda>a. returnE [],
     na_get_connection = \<lambda>l n. Pair (2250, 0, []), na_add_connection = \<lambda>l r p u. Pair 0,
     na_cancel_connection = \<lambda>t. Pair 0\<rparr>"

definition sample_snapshot :: "32 word \<Rightarrow> string \<Rightarrow> bool \<Rightarrow> adapter_snapshot" where
  "sample_snapshot i n b = \<lparr>as_info = \<lparr>ai_if_index = i, ai_name = n, ai_description = None,
       ai_guid = Some ''{0A}'', ai_mac_address = None, ai_status = ''up'', ai_hardware = True,
       ai_ipv4 = [], ai_ipv6 = []\<rparr>,
     as_admin_enabled = b, as_dhcp_enabled = True, as_manual_ipv4 = [], as_gateways = [], as_dns = [],
     as_wins = []\<rparr>"

definition sample_system :: "sample_world system" where
  "sample_system = \<lparr>sy_windows = sample_windows, sy_wlan = sample_wlan, sy_netapi = sample_netapi,
     sy_inventory = \<lambda>w. (Inr [sample_snapshot 7 ''Ethernet'' (sw_enabled w ''Ethernet''),
       sample_snapshot 9 ''Spare'' (sw_enabled w ''Spare'')], w)\<rparr>"

definition sample_start :: sample_world where
  "sample_start = \<lparr>sw_names = \<lambda>f. encode_utf16 ''PE-OLD'', sw_workgroup = encode_utf16 ''WORKGROUP'',
     sw_enabled = (\<lambda>n. n = ''Ethernet''), sw_registry = \<lambda>k n. None,
     sw_firewall = \<lparr>fr_domain = True, fr_private = False, fr_public = True\<rparr>, sw_log = [], sw_clock = 0\<rparr>"

section \<open>The laws hold\<close>

lemma until_nul_idem [simp]: "until_nul (until_nul u) = until_nul u" "until_nul (until_nul u @ [0]) = until_nul u"
  unfolding until_nul_def
  by (simp_all add: takeWhile_append takeWhile_eq_all_conv)

lemma sample_tool [simp]: "system_tool sample_windows n = n"
  by (simp add: system_tool_def sample_windows_def)

lemma sample_netsh_view: "sample_view (sample_netsh args w) = netsh_effect args (sample_view w)"
proof (cases "(args, sample_view w)" rule: netsh_effect.cases)
  case (1 a b c d e v)
  then show ?thesis by (auto simp: sample_netsh_def sample_view_def set_enabled_def Let_def)
qed (simp_all add: sample_netsh_def sample_view_def Let_def)

lemma ascii_simps [simp]: "ascii_text []" "ascii_text (c # s) \<longleftrightarrow> byte c < 128 \<and> ascii_text s"
  by (simp_all add: ascii_text_def)

lemma firewall_keys [simp]:
  "wide (firewall_key ''StandardProfile'') \<noteq> wide (firewall_key ''DomainProfile'')"
  "wide (firewall_key ''PublicProfile'') \<noteq> wide (firewall_key ''DomainProfile'')"
  "wide (firewall_key ''PublicProfile'') \<noteq> wide (firewall_key ''StandardProfile'')"
  by (subst wide_ascii_inject; simp add: firewall_key_def registry_path_def byte_def)+

lemma sample_documented: "documented_system sample_system sample_view"
proof -
  have "name_laws sample_windows sample_view"
    unfolding name_laws_def quiet_call_def quietE_def
    by (auto simp: sample_windows_def sample_view_def set_name_def fun_eq_iff until_nul_nonzero)
  moreover have "workgroup_laws sample_windows sample_view"
    unfolding workgroup_laws_def quiet_call_def
    by (auto simp: sample_windows_def sample_view_def until_nul_nonzero)
  moreover have "registry_laws sample_windows sample_view"
    unfolding registry_laws_def quiet_call_def
    by (auto simp: sample_windows_def sample_reg_get_def sample_view_def set_registry_def fun_eq_iff
        used_units_def div_ceil2_def sample_flag_def Let_def split: option.splits if_splits)
  moreover have "netsh_laws sample_windows sample_view"
    unfolding netsh_laws_def sample_tool
    by (auto simp: sample_netsh_view sample_windows_def)
  moreover have "quiet_windows sample_windows sample_view"
    unfolding quiet_windows_def quiet_call_def quietE_def sample_tool
    by (auto simp: sample_windows_def returnE_def sample_view_def)
  moreover have "quiet_wlan sample_wlan sample_view"
    unfolding quiet_wlan_def quiet_call_def by (simp add: sample_wlan_def)
  moreover have "quiet_netapi sample_netapi sample_view"
    unfolding quiet_netapi_def quiet_call_def by (simp add: sample_netapi_def quiet)
  moreover have "inventory_laws (sy_inventory sample_system) sample_view"
    unfolding inventory_laws_def quietE_def by (auto simp: sample_system_def sample_snapshot_def sample_view_def)
  ultimately show ?thesis by (simp add: documented_system_def sample_system_def)
qed

section \<open>Transactions on the sample machine\<close>

text \<open>A new computer name, a disabled adapter, and a hook that fails after the changes.\<close>

definition sample_failing :: netplan_config where
  "sample_failing = default_config\<lparr>
     identity := Some \<lparr>computer_name = Some ''PE-NEW'', workgroup = None, dns_suffix = None\<rparr>,
     adapters := [\<lparr>ad_selector = selector_index 7, ad_enabled = Some False, ad_mac_address = None, ad_ipv4 = None\<rparr>],
     hooks := [\<lparr>hk_stage = AfterApply, hk_program = ''fail'', hk_args = [], hk_wait = True\<rparr>]\<rparr>"

definition reports_rolled_back :: "(platform_error + 'a) \<times> 'w \<Rightarrow> bool" where
  "reports_rolled_back p = (case fst p of Inl e \<Rightarrow> pe_rolled_back e | Inr _ \<Rightarrow> False)"

lemma sample_fields [simp]:
  "os_status sample_windows p args w = (Inr (if p = ''fail'' then 1 else 0), w)"
  "os_output sample_windows ''netsh.exe'' args w = (Inr \<lparr>po_status = 0, po_stdout = [], po_stderr = []\<rparr>, sample_netsh args w)"
  "os_name_size sample_windows f w = ((length (until_nul (sw_names w f)) + 1, sample_io_error), w)"
  "os_name_get sample_windows f n w = (Inr (length (until_nul (sw_names w f)), until_nul (sw_names w f) @ [0]), w)"
  "os_name_set sample_windows f u w = (Inr (), w\<lparr>sw_names := (sw_names w)(f := u)\<rparr>)"
  by (simp_all add: sample_windows_def returnE_def)

lemma sample_fields_system [simp]:
  "sy_windows sample_system = sample_windows" "sy_wlan sample_system = sample_wlan"
  "sy_netapi sample_system = sample_netapi"
  "sy_inventory sample_system w = (Inr [sample_snapshot 7 ''Ethernet'' (sw_enabled w ''Ethernet''),
       sample_snapshot 9 ''Spare'' (sw_enabled w ''Spare'')], w)"
  by (simp_all add: sample_system_def)

lemma sample_name_read:
  "ascii_text s \<Longrightarrow> until_nul (sw_names w f) = encode_utf16 s \<Longrightarrow>
    get_computer_name sample_windows f w = (Inr s, w)"
  by (simp add: get_computer_name_def bindE_def callE_def map_errE_def liftE_def decode_or_def decode_ascii)

lemma sample_name_start [simp]: "until_nul (encode_utf16 ''PE-OLD'') = encode_utf16 ''PE-OLD''"
  "until_nul (encode_utf16 ''PE-NEW'') = encode_utf16 ''PE-NEW''"
  by (simp_all add: encode_ascii byte_def until_nul_def)

lemma resolve_sample:
  "resolve_adapter sample_ucd [sample_snapshot 7 a b, sample_snapshot 9 c d] (selector_index 7) = Inr (sample_snapshot 7 a b)"
  "resolve_adapter sample_ucd [sample_snapshot 7 a b, sample_snapshot 9 c d] (selector_index 9) = Inr (sample_snapshot 9 c d)"
  by (simp_all add: resolve_adapter_def matching_adapters_def selector_index_def default_selector_def
     selector_matches_def sample_snapshot_def is_none_or_def is_some_and_def)

lemmas sample_steps = bindE_def thenE_def on_tx_def map_errE_def liftE_def returnE_def for_some_def when_ok_def
  push_undo_def

lemma sample_set_enabled [simp]:
  "set_adapter_enabled sample_windows n b w = (Inr (), w\<lparr>sw_enabled := (sw_enabled w)(n := b),
     sw_log := sw_log w @ [[''interface'', ''set'', ''interface'', ''name='' @ n, ''admin='' @ (if b then ''enabled'' else ''disabled'')]]\<rparr>)"
  by (simp add: set_adapter_enabled_def run_netsh_def sample_steps sample_netsh_def enabled_effect[simplified]
      set_enabled_def sample_view_def Let_def starts_with_def)

lemma sample_identity:
  assumes "sw_names (tx_world t) PhysicalDnsHostname = encode_utf16 ''PE-OLD''"
  shows "apply_identity sample_system \<lparr>computer_name = Some ''PE-NEW'', workgroup = None, dns_suffix = None\<rparr> t
    = (Inr (), \<lparr>tx_rollback = tx_rollback t @ [RbComputerName ''PE-OLD''], tx_world = (tx_world t)
        \<lparr>sw_names := (sw_names (tx_world t))(PhysicalDnsHostname := wide ''PE-NEW'')\<rparr>\<rparr>)"
proof -
  have "get_computer_name sample_windows PhysicalDnsHostname (tx_world t) = (Inr ''PE-OLD'', tx_world t)"
    using assms by (intro sample_name_read) (simp_all add: byte_def)
  then show ?thesis
    by (simp add: apply_identity_def change_text_def set_computer_name_def sample_steps
        eq_ignore_ascii_case_def to_ascii_lowercase_def to_lower_def between_def byte_def)
qed

lemma sample_adapters:
  assumes "sw_enabled (tx_world t) ''Ethernet''" "adapters cfg = adapters sample_failing"
  shows "apply_adapters sample_ucd sample_system cfg t =
    (Inr (), \<lparr>tx_rollback = tx_rollback t @ [RbAdapterState ''Ethernet'' True],
       tx_world = snd (set_adapter_enabled sample_windows ''Ethernet'' False (tx_world t))\<rparr>)"
  using assms
  by (simp add: apply_adapters_def sample_failing_def inventory_for_def native_of_def
      wlan_native_def sample_steps apply_adapter_def resolve_sample change_state_def)
    (simp add: sample_snapshot_def)

lemma sample_hooks:
  assumes "hooks cfg = hooks sample_failing"
  shows "run_hooks sample_ucd sample_windows cfg BeforeApply w = (Inr (), w)"
    "run_hooks sample_ucd sample_windows cfg AfterRollback w = (Inr (), w)"
    "\<exists>e. run_hooks sample_ucd sample_windows cfg AfterApply w = (Inl e, w)"
  using assms
  by (simp_all add: run_hooks_def sample_failing_def sample_steps run_hook_def failE_def)

text \<open>The same document with a driver operation that restarts the other adapter.\<close>

definition sample_restarting :: netplan_config where
  "sample_restarting = sample_failing\<lparr>drivers := [RestartAdapter (selector_index 9)]\<rparr>"

lemma sample_drivers:
  "apply_drivers sample_ucd sample_system sample_failing w = (Inr (), w)"
  "\<exists>w'. apply_drivers sample_ucd sample_system sample_restarting w = (Inr (), w')
     \<and> sample_view w' = set_enabled ''Spare'' True (sample_view w)"
proof -
  show "apply_drivers sample_ucd sample_system sample_failing w = (Inr (), w)"
    by (simp add: apply_drivers_def sample_failing_def default_config_def returnE_def)
  show "\<exists>w'. apply_drivers sample_ucd sample_system sample_restarting w = (Inr (), w')
     \<and> sample_view w' = set_enabled ''Spare'' True (sample_view w)"
    by (simp add: apply_drivers_def sample_restarting_def inventory_for_def native_of_def
        wlan_native_def sample_steps resolve_sample restart_adapter_def)
      (simp add: sample_snapshot_def set_enabled_def sample_view_def)
qed

lemma sample_apply:
  assumes "cfg = sample_failing\<lparr>drivers := ds\<rparr>" "\<not> list_ex is_install ds"
    and "\<And>w. \<exists>w'. apply_drivers sample_ucd sample_system cfg w = (Inr (), w') \<and> sample_view w' = f (sample_view w)"
  shows "\<exists>e w'. windows_apply sample_ucd sample_system cfg sample_start = (Inl e, w') \<and> pe_rolled_back e
    \<and> sample_view w' = set_name PhysicalDnsHostname (encode_utf16 ''PE-OLD'') (set_enabled ''Ethernet'' True
         (f (set_enabled ''Ethernet'' False (set_name PhysicalDnsHostname (encode_utf16 ''PE-NEW'') (sample_view sample_start)))))"
proof -
  have cfg: "hooks cfg = hooks sample_failing" "adapters cfg = adapters sample_failing"
    "identity cfg = identity sample_failing" "drivers cfg = ds" using assms(1) by simp_all
  let ?w1 = "sample_start\<lparr>sw_names := (sw_names sample_start)(PhysicalDnsHostname := wide ''PE-NEW'')\<rparr>"
  let ?t1 = "\<lparr>tx_rollback = [RbComputerName ''PE-OLD''], tx_world = ?w1\<rparr>"
  let ?w2 = "snd (set_adapter_enabled sample_windows ''Ethernet'' False ?w1)"
  let ?t2 = "\<lparr>tx_rollback = [RbComputerName ''PE-OLD'', RbAdapterState ''Ethernet'' True], tx_world = ?w2\<rparr>"
  have "apply_identity sample_system \<lparr>computer_name = Some ''PE-NEW'', workgroup = None, dns_suffix = None\<rparr>
      \<lparr>tx_rollback = [], tx_world = sample_start\<rparr> = (Inr (), ?t1)"
    by (subst sample_identity) (simp_all add: sample_start_def)
  moreover have "apply_adapters sample_ucd sample_system cfg ?t1 = (Inr (), ?t2)"
    by (subst sample_adapters) (simp_all add: sample_start_def cfg)
  moreover have "wifi cfg = []" "wifi_actions cfg = []" "services cfg = []" "smb cfg = default_smb" "firewall cfg = None"
    "identity cfg = Some \<lparr>computer_name = Some ''PE-NEW'', workgroup = None, dns_suffix = None\<rparr>"
    using assms(1) by (simp_all add: sample_failing_def default_config_def)
  ultimately have forward: "apply_reversible sample_ucd sample_system cfg \<lparr>tx_rollback = [], tx_world = sample_start\<rparr>
      = (Inr (), ?t2)"
    by (simp add: apply_reversible_def apply_wifi_def sample_steps default_smb_def)
  obtain w3 where w3: "apply_drivers sample_ucd sample_system cfg ?w2 = (Inr (), w3)" "sample_view w3 = f (sample_view ?w2)"
    using assms(3) by blast
  obtain e where e: "run_hooks sample_ucd sample_windows cfg AfterApply w3 = (Inl e, w3)"
    using sample_hooks(3)[OF cfg(1)] by blast
  have "apply_forward sample_ucd sample_system cfg sample_start = (Inl e, False, ?t2\<lparr>tx_world := w3\<rparr>)"
    using w3(1) e forward assms(2) cfg(4) by (simp add: apply_forward_def bindE_def)
  moreover obtain w4 where w4: "rollback_all sample_system [RbComputerName ''PE-OLD'', RbAdapterState ''Ethernet'' True] w3 = ([], w4)"
    by (simp add: rollback_all_def set_computer_name_def map_errE_def)
  ultimately have "\<exists>e'. windows_apply sample_ucd sample_system cfg sample_start = (Inl e', w4) \<and> pe_rolled_back e'"
    by (simp add: windows_apply_def bindE_def sample_hooks[OF cfg(1)] fail_apply_def)
  moreover have "sample_view w4 = set_name PhysicalDnsHostname (encode_utf16 ''PE-OLD'') (set_enabled ''Ethernet'' True (sample_view w3))"
    using rollback_all_undo[OF sample_documented w4] until_nul_wide[of "''PE-OLD''"]
    by (simp add: encode_ascii byte_def)
  moreover have "sample_view ?w2 = set_enabled ''Ethernet'' False (set_name PhysicalDnsHostname (encode_utf16 ''PE-NEW'') (sample_view sample_start))"
    using until_nul_wide[of "''PE-NEW''"]
    by (simp add: sample_view_def set_enabled_def set_name_def fun_eq_iff encode_ascii byte_def)
  ultimately show ?thesis using w3(2) by auto
qed


text \<open>C12: a driver operation that restarts an adapter is outside the rollback: on the sample machine the
  apply of a document that restarts a disabled adapter and then fails reports that everything was rolled
  back, and the adapter is enabled.\<close>

theorem restart_is_not_undone:
  "reports_rolled_back (windows_apply sample_ucd sample_system sample_restarting sample_start)
    \<and> \<not> sw_enabled sample_start ''Spare''
    \<and> sw_enabled (snd (windows_apply sample_ucd sample_system sample_restarting sample_start)) ''Spare''"
proof -
  obtain e w' where run: "windows_apply sample_ucd sample_system sample_restarting sample_start = (Inl e, w')"
      and e: "pe_rolled_back e" and view: "mv_enabled (sample_view w') ''Spare''"
    using sample_apply[of sample_restarting "[RestartAdapter (selector_index 9)]" "set_enabled ''Spare'' True"] sample_drivers(2)
    by (auto simp: sample_restarting_def set_enabled_def set_name_def)
  then show ?thesis by (simp add: reports_rolled_back_def sample_start_def sample_view_def)
qed

lemma service_wait_ends_witness:
  "poll_loop sample_windows (service_reached sample_windows ''Dhcp'' SERVICE_RUNNING) (fst (os_now sample_windows sample_start) + 30000)
     100 (service_late SERVICE_RUNNING) (snd (os_now sample_windows sample_start))
   = Some (wait_for_service_state sample_windows ''Dhcp'' SERVICE_RUNNING sample_start)"
proof -
  have "clock_advances sample_windows sw_clock" by (simp add: clock_advances_def sample_windows_def)
  moreover have "\<forall>n. keeps_time sw_clock (os_service_query sample_windows n)"
    by (simp add: keeps_time_def sample_windows_def returnE_def)
  ultimately show ?thesis by (rule service_wait_ends[THEN conjunct1])
qed

section \<open>Restoring the sample machine\<close>

definition sample_static :: network_restore where
  "sample_static = \<lparr>nr_snapshot = (sample_snapshot 7 ''Ethernet'' True)
       \<lparr>as_dhcp_enabled := False, as_manual_ipv4 := [\<lparr>ip_address = ''192.0.2.10'', ip_prefix_length = 24\<rparr>],
        as_gateways := [Ipv4 192 0 2 1]\<rparr>,
     nr_dns_from_dhcp = False, nr_wins_from_dhcp = False, nr_applied_addresses = [], nr_applied_gateways = []\<rparr>"

definition sample_dhcp :: network_restore where
  "sample_dhcp = \<lparr>nr_snapshot = sample_snapshot 7 ''Ethernet'' True, nr_dns_from_dhcp = True,
     nr_wins_from_dhcp = True, nr_applied_addresses = [], nr_applied_gateways = []\<rparr>"


lemma sample_no_text: "registry_value_has_text sample_windows k n f sample_start = (Inr False, sample_start)"
  by (simp add: registry_value_has_text_def sample_windows_def sample_reg_get_def sample_start_def sample_steps callE_def)


end
