(* ===== verification/Windows_Daemon.thy ===== *)
theory Windows_Daemon
  imports Daemon_Facts Sample_Machine
begin

text \<open>
  The daemon on Windows: the platform operations of \<open>WindowsPlatform\<close> put together, and what a job in
  the state \<open>rolled_back\<close> says about the machine.
\<close>

section \<open>The platform\<close>

text \<open>\<open>probes\<close> are what the probes of the image find in a world.\<close>

definition windows_platform :: "ucd \<Rightarrow> ('w \<Rightarrow> windows_probes) \<Rightarrow> 'w system \<Rightarrow> 'w platform" where
  "windows_platform U probes Y =
    \<lparr>pf_capabilities = \<lambda>w. windows_capabilities (probes w),
     pf_adapters = bindE (sy_inventory Y) (\<lambda>inventory. returnE (map as_info inventory)),
     pf_wifi_status = windows_wifi_status (native_of Y),
     pf_wifi_scan = windows_wifi_scan (native_of Y),
     pf_preflight = \<lambda>cfg w. windows_preflight U (probes w) (native_of Y) cfg w,
     pf_apply = windows_apply U Y\<rparr>"

lemma completed_job:
  assumes "jobs_get (d_jobs d) i = Some j"
    and "jobs_get (d_jobs (complete_job (windows_platform U probes Y) x i cfg d)) i = Some j'"
    and "job_state_of j' = JobRolledBack"
  shows "\<exists>e w'. windows_apply U Y cfg (d_world d) = (Inl e, w') \<and> pe_rolled_back e
    \<and> d_world (complete_job (windows_platform U probes Y) x i cfg d) = w'"
proof -
  obtain r w' where run: "windows_apply U Y cfg (d_world d) = (r, w')" by fastforce
  obtain state message where outcome: "job_outcome (out_join_error x) r = (state, message)" by fastforce
  have complete: "complete_job (windows_platform U probes Y) x i cfg d = d\<lparr>d_world := w',
      d_jobs := jobs_modify i (\<lambda>j. j\<lparr>job_state_of := state, job_message := message,
        job_updated_at := now_unix_ms x\<rparr>) (d_jobs d), d_tasks := filter (\<lambda>t. fst t \<noteq> i) (d_tasks d)\<rparr>"
    using run outcome by (simp add: complete_job_def windows_platform_def on_world_def)
  then have "state = JobRolledBack" using assms by (auto simp: js.get_modify)
  with outcome obtain e where "r = Inl e" "pe_rolled_back e"
    by (cases "(out_join_error x, r)" rule: job_outcome.cases) (auto split: if_splits)
  with run complete show ?thesis by simp
qed


definition windows_sample_daemon :: "sample_world daemon" where
  "windows_sample_daemon = \<lparr>d_world = sample_start,
     d_jobs = [(''job'', \<lparr>job_state_of = JobRunning, job_message = None, job_created_at = 0, job_updated_at = 0\<rparr>)],
     d_tasks = [(''job'', sample_failing)], d_started_at = 0, d_shutdown = False\<rparr>"

definition sample_probes :: "'w \<Rightarrow> windows_probes" where
  "sample_probes w = \<lparr>has_netsh = True, has_pnputil = True, has_force_driver = True, wifi_probe = None,
     account_probe = None, share_probe = None, mapping_probe = None\<rparr>"


end
