(* ===== verification/Client.thy ===== *)
theory Client
  imports Daemon_Facts
begin

text \<open>
  The asynchronous client of \<open>crates/netplan/src/client.rs\<close> and the C interface over it,
  \<open>crates/netplan-ffi/src/lib.rs\<close>; and the composition of the client with the connection handler of
  the daemon, which implements the dispatcher.
\<close>

section \<open>Calls\<close>

text \<open>The local endpoint: a named pipe or a Unix socket over a world \<open>'w\<close>.\<close>

record 'w pipe =
  pi_open :: "string \<Rightarrow> ('w, netplan_error, unit) eff"
  pi_writer :: "'w writer"
  pi_read_exact :: "nat \<Rightarrow> ('w, netplan_error, string) eff"

record client =
  cl_endpoint :: string
  cl_next_request_id :: "64 word"

definition client_new :: "string \<Rightarrow> client" where
  "client_new endpoint = \<lparr>cl_endpoint = endpoint, cl_next_request_id = 1\<rparr>"

definition DEFAULT_WINDOWS_ENDPOINT :: string where
  "DEFAULT_WINDOWS_ENDPOINT =
    [backslash, backslash, CHR ''.'', backslash] @ ''pipe'' @ [backslash] @ ''pe-netplan-netpland-v1''"

definition DEFAULT_UNIX_ENDPOINT :: string where
  "DEFAULT_UNIX_ENDPOINT = ''/tmp/pe-netplan-netpland-v1.sock''"

text \<open>\<open>env\<close> is the value of \<open>NETPLAN_ENDPOINT\<close> when it is set and Unicode.\<close>

definition default_endpoint :: "string option \<Rightarrow> bool \<Rightarrow> string" where
  "default_endpoint env windows =
    (case env of Some v \<Rightarrow> v | None \<Rightarrow> if windows then DEFAULT_WINDOWS_ENDPOINT else DEFAULT_UNIX_ENDPOINT)"

definition call_endpoint :: "'w pipe \<Rightarrow> string \<Rightarrow> string \<Rightarrow> ('w, netplan_error, string) eff" where
  "call_endpoint N endpoint encoded =
    thenE (pi_open N endpoint)
      (thenE (write_frame (pi_writer N) encoded) (read_frame_from (pi_read_exact N)))"

text \<open>The answer must carry the identifier of the request; identifiers wrap around at 64 bits.\<close>

definition correlated :: "flatbuffers \<Rightarrow> 64 word \<Rightarrow> string \<Rightarrow> netplan_error + response" where
  "correlated FB request_id bytes =
    bindR (decode_response FB bytes) (\<lambda>f.
    if fr_request_id f \<noteq> request_id then
      Inl (Protocol (''response id '' @ show_nat (unat (fr_request_id f))
        @ '' does not match request id '' @ show_nat (unat request_id)))
    else Inr (fr_payload f))"

definition client_call :: "flatbuffers \<Rightarrow> 'w pipe \<Rightarrow> request \<Rightarrow> (client \<times> 'w, netplan_error, response) eff" where
  "client_call FB N rq = (\<lambda>(c, w).
    let i = cl_next_request_id c in
    case bindE (call_endpoint N (cl_endpoint c) (encode_request FB i rq)) (\<lambda>bytes. liftE (correlated FB i bytes)) w of
      (r, w') \<Rightarrow> (r, (c\<lparr>cl_next_request_id := i + 1\<rparr>, w')))"

definition client_call_frame :: "flatbuffers \<Rightarrow> 'w pipe \<Rightarrow> client \<Rightarrow> string \<Rightarrow> ('w, netplan_error, string) eff" where
  "client_call_frame FB N c request =
    bindE (liftE (decode_request FB request)) (\<lambda>_.
    bindE (call_endpoint N (cl_endpoint c) request) (\<lambda>response.
    bindE (liftE (decode_response FB response)) (\<lambda>_. returnE response)))"

section \<open>The C interface\<close>

definition NETPLAN_OK :: "32 word" where "NETPLAN_OK = 0"
definition NETPLAN_INVALID_ARGUMENT :: "32 word" where "NETPLAN_INVALID_ARGUMENT = 1"
definition NETPLAN_PROTOCOL_ERROR :: "32 word" where "NETPLAN_PROTOCOL_ERROR = 2"
definition NETPLAN_IO_ERROR :: "32 word" where "NETPLAN_IO_ERROR = 3"
definition NETPLAN_DAEMON_ERROR :: "32 word" where "NETPLAN_DAEMON_ERROR = 4"
definition NETPLAN_INTERNAL_ERROR :: "32 word" where "NETPLAN_INTERNAL_ERROR = 5"

lemmas status_codes = NETPLAN_OK_def NETPLAN_INVALID_ARGUMENT_def NETPLAN_PROTOCOL_ERROR_def
  NETPLAN_IO_ERROR_def NETPLAN_DAEMON_ERROR_def NETPLAN_INTERNAL_ERROR_def

text \<open>
  A handle: its client, whether the runtime and the error lock are poisoned, and the last error without
  its final NUL.  A pointer argument is \<open>None\<close> when it is null; an output slot is \<open>None\<close> as long as
  nothing was written to it.
\<close>

record ffi_client =
  fc_client :: client
  fc_runtime_poisoned :: bool
  fc_error_poisoned :: bool
  fc_last_error :: string

fun status_for_error :: "netplan_error \<Rightarrow> 32 word" where
  "status_for_error (Protocol m) = NETPLAN_PROTOCOL_ERROR"
| "status_for_error (Io k m) = NETPLAN_IO_ERROR"
| "status_for_error (Daemon m) = NETPLAN_DAEMON_ERROR"
| "status_for_error (Decode fmt m) = NETPLAN_INVALID_ARGUMENT"
| "status_for_error (Validation m) = NETPLAN_INVALID_ARGUMENT"

text \<open>\<open>CString::new\<close> refuses a text with a NUL inside.\<close>

definition set_last_error :: "string \<Rightarrow> ffi_client \<Rightarrow> ffi_client" where
  "set_last_error message h =
    (if fc_error_poisoned h then h
     else h\<lparr>fc_last_error := if nul \<in> set message then [] else message\<rparr>)"

text \<open>
  \<open>endpoint\<close>: null, or the bytes before the NUL; \<open>default\<close>: the default endpoint; \<open>runtime\<close>: whether the
  runtime could be built.  The result is the status and what the output slot holds afterwards.
\<close>

definition netplan_client_create ::
    "string \<Rightarrow> bool \<Rightarrow> string option \<Rightarrow> bool \<Rightarrow> 32 word \<times> ffi_client option option" where
  "netplan_client_create default_text runtime endpoint has_slot =
    (if \<not> has_slot then (NETPLAN_INVALID_ARGUMENT, None)
     else (case (case endpoint of None \<Rightarrow> Some default_text
                 | Some e \<Rightarrow> if utf8_ok e \<and> e \<noteq> [] then Some e else None) of
        None \<Rightarrow> (NETPLAN_INVALID_ARGUMENT, Some None)
      | Some e \<Rightarrow>
          if \<not> runtime then (NETPLAN_INTERNAL_ERROR, Some None)
          else (NETPLAN_OK, Some (Some \<lparr>fc_client = client_new e, fc_runtime_poisoned = False,
            fc_error_poisoned = False, fc_last_error = []\<rparr>))))"

text \<open>
  \<open>panics\<close>: the calling thread cannot drive the runtime.  The output slots hold a null pointer (\<open>Some
  None\<close>) or the response.
\<close>

definition netplan_client_call ::
    "flatbuffers \<Rightarrow> 'w pipe \<Rightarrow> bool \<Rightarrow> ffi_client option \<Rightarrow> string option \<Rightarrow> bool \<Rightarrow> 'w
      \<Rightarrow> 32 word \<times> string option option \<times> ffi_client option \<times> 'w" where
  "netplan_client_call FB N panics handle request has_slots w =
    (case (handle, request) of
       (Some h, Some bytes) \<Rightarrow>
         if bytes = [] \<or> \<not> has_slots then (NETPLAN_INVALID_ARGUMENT, None, handle, w)
         else if fc_runtime_poisoned h then
           (NETPLAN_INTERNAL_ERROR, Some None, Some (set_last_error ''runtime lock is poisoned'' h), w)
         else if panics then
           (NETPLAN_INTERNAL_ERROR, Some None,
             Some (set_last_error ''the host thread cannot drive the Netplan runtime'' h), w)
         else (case client_call_frame FB N (fc_client h) bytes w of
            (Inr response, w') \<Rightarrow> (NETPLAN_OK, Some (Some response), Some h, w')
          | (Inl e, w') \<Rightarrow> (status_for_error e, Some None, Some (set_last_error (error_text e) h), w'))
     | _ \<Rightarrow> (NETPLAN_INVALID_ARGUMENT, None, handle, w))"

text \<open>The returned size, and the bytes written to a buffer of the given capacity.\<close>

definition netplan_client_last_error :: "ffi_client option \<Rightarrow> nat option \<Rightarrow> nat \<times> string option" where
  "netplan_client_last_error handle capacity =
    (case handle of
       None \<Rightarrow> (0, None)
     | Some h \<Rightarrow>
         if fc_error_poisoned h then (0, None)
         else (let bytes = fc_last_error h @ [nul] in
           (length bytes,
            case capacity of
              None \<Rightarrow> None
            | Some n \<Rightarrow>
                if n = 0 then None
                else (let copy_len = min (length bytes) n in
                  Some ((take copy_len bytes)[copy_len - 1 := nul])))))"

text \<open>C29: the error text copied to a C caller never overruns its buffer and is always NUL-terminated: it
  is the longest prefix of the message that leaves room for the NUL, and the returned size is exactly
  the capacity that holds the whole message.\<close>

theorem last_error_bounded:
  assumes "\<not> fc_error_poisoned h" "0 < n"
  shows "netplan_client_last_error (Some h) (Some n)
    = (length (fc_last_error h) + 1, Some (take (n - 1) (fc_last_error h) @ [nul]))"
proof (cases "n \<le> length (fc_last_error h)")
  case True
  then have "(take n (fc_last_error h))[n - 1 := nul] = take (n - 1) (fc_last_error h) @ [nul]"
    using assms(2) by (cases n) (simp_all add: take_Suc_conv_app_nth list_update_append)
  with True assms show ?thesis by (simp add: netplan_client_last_error_def)
next
  case False
  then show ?thesis using assms by (simp add: netplan_client_last_error_def min_def list_update_append)
qed

lemma last_error_bounded_witness:
  "netplan_client_last_error (Some \<lparr>fc_client = client_new ''pipe'', fc_runtime_poisoned = False,
      fc_error_poisoned = False, fc_last_error = ''no pipe''\<rparr>) (Some 3) = (8, Some (''no'' @ [nul]))"
  by (subst last_error_bounded) simp_all

section \<open>A client connected to a daemon\<close>

text \<open>
  One connection: what the client wrote, and what the daemon answered once its handler ran.  The handler
  runs when the client starts to read.
\<close>

record 'w link =
  ln_daemon :: "'w daemon"
  ln_sent :: string
  ln_answer :: "string option"

definition serve_link ::
    "ucd \<Rightarrow> parsers \<Rightarrow> flatbuffers \<Rightarrow> 'w platform \<Rightarrow> outside \<Rightarrow> 'w link \<Rightarrow> 'w link" where
  "serve_link U Q FB P x l =
    (case ln_answer l of
       Some _ \<Rightarrow> l
     | None \<Rightarrow>
         (case handle_connection U Q FB P memory_writer x (ln_sent l) [] (ln_daemon l) of
            (_, out, d) \<Rightarrow> l\<lparr>ln_daemon := d, ln_answer := Some out\<rparr>))"

definition daemon_pipe ::
    "ucd \<Rightarrow> parsers \<Rightarrow> flatbuffers \<Rightarrow> 'w platform \<Rightarrow> outside \<Rightarrow> 'w link pipe" where
  "daemon_pipe U Q FB P x =
    \<lparr>pi_open = \<lambda>_ l. (Inr (), l\<lparr>ln_sent := [], ln_answer := None\<rparr>),
     pi_writer = \<lparr>wr_write_all = \<lambda>bytes l. (Inr (), l\<lparr>ln_sent := ln_sent l @ bytes\<rparr>), wr_flush = returnE ()\<rparr>,
     pi_read_exact = \<lambda>n l.
       let l' = serve_link U Q FB P x l in
       case read_exact n (the (ln_answer l')) of (r, rest) \<Rightarrow> (r, l'\<lparr>ln_answer := Some rest\<rparr>)\<rparr>"

text \<open>The daemon after a request was answered.\<close>

definition after_answer :: "request \<Rightarrow> 'w daemon \<Rightarrow> 'w daemon" where
  "after_answer rq d = (if rq = RqShutdown then request_shutdown d else d)"

lemma handler_answers:
  assumes "packs_faithfully FB \<lparr>env_protocol_version = PROTOCOL_VERSION, env_request_id = i,
      env_payload = request_to_payload rq\<rparr>"
    and "packs_faithfully FB \<lparr>env_protocol_version = PROTOCOL_VERSION, env_request_id = i,
      env_payload = response_to_payload rs\<rparr>"
    and "dispatch U Q P x rq d = (rs, d')"
  shows "handle_connection U Q FB P memory_writer x (encode_request FB i rq) [] d
    = (Inr (), encode_response FB i rs, after_answer rq d')"
proof -
  have "read_frame (encode_request FB i rq) = (Inr (encode_request FB i rq), [])"
    using read_encoded_request[OF assms(1), of "[]"] by simp
  moreover have "validate_frame_length (encode_response FB i rs) = Inr ()"
    using packed_well_framed[OF assms(2)] by (simp add: ok_simps encode_response_def encode_envelope_def)
  ultimately show ?thesis
    using decode_encoded_request[OF assms(1)] assms(3)
    by (simp add: handle_connection_def write_frame_def memory_writer_def bindE_def liftE_def returnE_def
        after_answer_def Let_def)
qed

lemma link_reads_frame:
  assumes "well_framed f" "ln_answer l = Some (f @ rest)"
  shows "read_frame_from (pi_read_exact (daemon_pipe U Q FB P x)) l = (Inr f, l\<lparr>ln_answer := Some rest\<rparr>)"
proof -
  obtain p b where f: "f = p @ b" "length p = 4" "from_le_bytes p = length b" "b \<noteq> []" "length b \<le> MAX_FRAME_SIZE"
    using assms(1) by (auto simp: well_framed_def)
  then show ?thesis using assms(2)
    by (simp add: read_frame_from_def daemon_pipe_def serve_link_def read_exact_def bindE_def returnE_def Let_def)
qed

lemma read_runs_handler:
  "pi_read_exact (daemon_pipe U Q FB P x) n l = pi_read_exact (daemon_pipe U Q FB P x) n (serve_link U Q FB P x l)"
  by (simp add: daemon_pipe_def serve_link_def split: option.splits prod.splits)

lemma frame_runs_handler:
  "read_frame_from (pi_read_exact (daemon_pipe U Q FB P x)) l
    = read_frame_from (pi_read_exact (daemon_pipe U Q FB P x)) (serve_link U Q FB P x l)"
  unfolding read_frame_from_def bindE_def by (subst read_runs_handler) (rule refl)

text \<open>C4: a client connected to the daemon implements the dispatcher: when the FlatBuffers runtime packs
  the two messages faithfully, \<open>Client::call\<close> over the pipe returns exactly the response \<open>dispatch\<close> gives
  to the request, and the daemon is in exactly the state \<open>dispatch\<close> leaves, with the shutdown flag
  raised when the request asked for it.\<close>

theorem client_refines_dispatch:
  assumes "dispatch U Q P x rq (ln_daemon l) = (rs, d')"
    and "packs_faithfully FB \<lparr>env_protocol_version = PROTOCOL_VERSION, env_request_id = cl_next_request_id c,
      env_payload = request_to_payload rq\<rparr>"
    and "packs_faithfully FB \<lparr>env_protocol_version = PROTOCOL_VERSION, env_request_id = cl_next_request_id c,
      env_payload = response_to_payload rs\<rparr>"
  shows "client_call FB (daemon_pipe U Q FB P x) rq (c, l)
    = (Inr rs, c\<lparr>cl_next_request_id := cl_next_request_id c + 1\<rparr>,
       \<lparr>ln_daemon = after_answer rq d', ln_sent = encode_request FB (cl_next_request_id c) rq, ln_answer = Some []\<rparr>)"
proof -
  let ?i = "cl_next_request_id c" and ?N = "daemon_pipe U Q FB P x"
  let ?sent = "encode_request FB ?i rq" and ?answer = "encode_response FB ?i rs"
  let ?l1 = "l\<lparr>ln_sent := ?sent, ln_answer := None\<rparr>"
  have served: "serve_link U Q FB P x ?l1 = ?l1\<lparr>ln_daemon := after_answer rq d', ln_answer := Some ?answer\<rparr>"
    using handler_answers[OF assms(2,3,1)] by (simp add: serve_link_def)
  have "validate_frame_length ?sent = Inr ()"
    using packed_well_framed[OF assms(2)] by (simp add: ok_simps encode_request_def encode_envelope_def)
  then have written: "write_frame (pi_writer ?N) ?sent (l\<lparr>ln_sent := [], ln_answer := None\<rparr>) = (Inr (), ?l1)"
    by (simp add: write_frame_def daemon_pipe_def bindE_def liftE_def returnE_def)
  have "well_framed ?answer"
    using packed_well_framed[OF assms(3)] by (simp add: encode_response_def encode_envelope_def)
  from link_reads_frame[OF this, of "serve_link U Q FB P x ?l1" "[]"] served
  have "read_frame_from (pi_read_exact ?N) ?l1
      = (Inr ?answer, ?l1\<lparr>ln_daemon := after_answer rq d', ln_answer := Some []\<rparr>)"
    by (simp add: frame_runs_handler[of U Q FB P x ?l1])
  moreover have "pi_open ?N e l = (Inr (), l\<lparr>ln_sent := [], ln_answer := None\<rparr>)" for e
    by (simp add: daemon_pipe_def)
  ultimately have "call_endpoint ?N (cl_endpoint c) ?sent l
      = (Inr ?answer, ?l1\<lparr>ln_daemon := after_answer rq d', ln_answer := Some []\<rparr>)"
    using written by (simp add: call_endpoint_def thenE_def bindE_def)
  then show ?thesis
    using decode_encoded_response[OF assms(3)]
    by (simp add: client_call_def correlated_def bindE_def liftE_def Let_def)
qed

definition ping_buffers :: flatbuffers where
  "ping_buffers = two_buffers
     \<lparr>env_protocol_version = PROTOCOL_VERSION, env_request_id = 1, env_payload = request_to_payload RqPing\<rparr>
     \<lparr>env_protocol_version = PROTOCOL_VERSION, env_request_id = 1,
       env_payload = response_to_payload (RsPong CARGO_PKG_VERSION PROTOCOL_VERSION)\<rparr>"

lemma client_refines_dispatch_witness:
  "fst (client_call ping_buffers (daemon_pipe sample_ucd sample_parsers ping_buffers sample_platform sample_outside)
      RqPing (client_new ''pipe'', \<lparr>ln_daemon = sample_daemon, ln_sent = [], ln_answer = None\<rparr>))
    = Inr (RsPong CARGO_PKG_VERSION PROTOCOL_VERSION)"
  by (subst client_refines_dispatch[where rs = "RsPong CARGO_PKG_VERSION PROTOCOL_VERSION" and d' = sample_daemon])
    (simp_all add: client_new_def ping_buffers_def two_buffers_faithful)

end
