(* ===== verification/Json.thy ===== *)
theory Json
  imports Protocol_Types
begin

text \<open>
  JSON values of \<open>serde_json\<close> as the gateway uses them: objects in key order, what the derived
  \<open>Deserialize\<close> of a parameter structure accepts, the derived \<open>Serialize\<close> of the response models, and
  the derived \<open>Debug\<close> of a response.
\<close>

section \<open>Values\<close>

text \<open>A number is an integer of 64 bits, or a fraction that no parameter accepts.\<close>

datatype json =
    JNull
  | JBool bool
  | JInt int
  | JFloat string
  | JStr string
  | JArr "json list"
  | JObj "(string \<times> json) list"

text \<open>\<open>serde_json::Map\<close> is ordered by key; an insertion replaces the value of a key.\<close>

fun object_insert :: "string \<Rightarrow> json \<Rightarrow> (string \<times> json) list \<Rightarrow> (string \<times> json) list" where
  "object_insert k v [] = [(k, v)]"
| "object_insert k v ((k', v') # m) =
    (if k = k' then (k, v) # m
     else if k < k' then (k, v) # (k', v') # m
     else (k', v') # object_insert k v m)"

definition json_object :: "(string \<times> json) list \<Rightarrow> json" where
  "json_object kvs = JObj (fold (\<lambda>(k, v). object_insert k v) kvs [])"

fun member :: "string \<Rightarrow> json \<Rightarrow> json option" where
  "member k (JObj m) = map_of m k"
| "member k _ = None"

lemma map_of_object_insert: "map_of (object_insert k v m) = (map_of m)(k \<mapsto> v)"
  by (induction k v m rule: object_insert.induct) (auto simp: fun_eq_iff)

lemma map_of_fold_insert:
  "map_of (fold (\<lambda>(k, v). object_insert k v) kvs m) = map_of m ++ map_of (rev kvs)"
  by (induction kvs arbitrary: m) (auto simp: map_of_object_insert map_add_def fun_eq_iff split: option.splits)

lemma member_object [simp]: "member k (json_object kvs) = map_of (rev kvs) k"
  by (simp add: json_object_def map_of_fold_insert)

section \<open>Parameter structures\<close>

text \<open>
  A derived structure with \<open>deny_unknown_fields\<close> is read from an object, by name, or from an array, by
  position; the result has the value of each field that is present.
\<close>

definition struct_fields :: "string list \<Rightarrow> json \<Rightarrow> json option list option" where
  "struct_fields names v =
    (case v of
       JObj m \<Rightarrow> if set (map fst m) \<subseteq> set names then Some (map (map_of m) names) else None
     | JArr xs \<Rightarrow>
         if length xs \<le> length names
         then Some (map Some xs @ replicate (length names - length xs) None) else None
     | _ \<Rightarrow> None)"

fun decode_str :: "json \<Rightarrow> string option" where
  "decode_str (JStr s) = Some s"
| "decode_str _ = None"

fun decode_bool :: "json \<Rightarrow> bool option" where
  "decode_bool (JBool b) = Some b"
| "decode_bool _ = None"

fun decode_u32 :: "json \<Rightarrow> 32 word option" where
  "decode_u32 (JInt i) = (if 0 \<le> i \<and> i < 2 ^ 32 then Some (word_of_int i) else None)"
| "decode_u32 _ = None"

fun decode_u64 :: "json \<Rightarrow> 64 word option" where
  "decode_u64 (JInt i) = (if 0 \<le> i \<and> i < 2 ^ 64 then Some (word_of_int i) else None)"
| "decode_u64 _ = None"

text \<open>The names of \<open>rename_all = "snake_case"\<close>.\<close>

fun job_state_name :: "job_state \<Rightarrow> string" where
  "job_state_name JobQueued = ''queued''"
| "job_state_name JobRunning = ''running''"
| "job_state_name JobSucceeded = ''succeeded''"
| "job_state_name JobFailed = ''failed''"
| "job_state_name JobRolledBack = ''rolled_back''"

definition job_states :: "job_state list" where
  "job_states = [JobQueued, JobRunning, JobSucceeded, JobFailed, JobRolledBack]"

text \<open>A unit variant is its name, or an object from its name to null.\<close>

fun decode_job_state :: "json \<Rightarrow> job_state option" where
  "decode_job_state (JStr n) = find (\<lambda>s. job_state_name s = n) job_states"
| "decode_job_state (JObj [(n, JNull)]) = find (\<lambda>s. job_state_name s = n) job_states"
| "decode_job_state _ = None"

text \<open>A required field, and an optional one (\<open>#[serde(default)] Option<T>\<close>).\<close>

definition required :: "(json \<Rightarrow> 'a option) \<Rightarrow> json option \<Rightarrow> 'a option" where
  "required f v = (case v of None \<Rightarrow> None | Some j \<Rightarrow> f j)"

definition optional :: "(json \<Rightarrow> 'a option) \<Rightarrow> json option \<Rightarrow> 'a option option" where
  "optional f v = (case v of None \<Rightarrow> Some None | Some j \<Rightarrow>
     if j = JNull then Some None else map_option Some (f j))"

section \<open>Serialisation of the models\<close>

definition enc_option :: "('a \<Rightarrow> json) \<Rightarrow> 'a option \<Rightarrow> json" where
  "enc_option f v = (case v of None \<Rightarrow> JNull | Some a \<Rightarrow> f a)"

definition enc_list :: "('a \<Rightarrow> json) \<Rightarrow> 'a list \<Rightarrow> json" where
  "enc_list f xs = JArr (map f xs)"

definition enc_word :: "'a :: len word \<Rightarrow> json" where
  "enc_word w = JInt (uint w)"

fun capability_state_name :: "capability_state \<Rightarrow> string" where
  "capability_state_name Unavailable = ''unavailable''"
| "capability_state_name ReadOnly = ''read_only''"
| "capability_state_name DryRun = ''dry_run''"
| "capability_state_name Available = ''available''"

fun risk_name :: "operation_risk \<Rightarrow> string" where
  "risk_name RiskReadOnly = ''read_only''"
| "risk_name RiskLow = ''low''"
| "risk_name RiskConnectivity = ''connectivity''"
| "risk_name RiskDestructive = ''destructive''"

definition enc_capability :: "capability \<Rightarrow> json" where
  "enc_capability c = json_object [(''name'', JStr (cap_name c)),
     (''state'', JStr (capability_state_name (cap_state c))), (''reason'', enc_option JStr (cap_reason c))]"

definition enc_address :: "ip_address_info \<Rightarrow> json" where
  "enc_address a = json_object [(''address'', JStr (ip_address a)), (''prefix_length'', enc_word (ip_prefix_length a))]"

definition enc_adapter :: "adapter_info \<Rightarrow> json" where
  "enc_adapter a = json_object [(''if_index'', enc_word (ai_if_index a)), (''name'', JStr (ai_name a)),
     (''description'', enc_option JStr (ai_description a)), (''guid'', enc_option JStr (ai_guid a)),
     (''mac_address'', enc_option JStr (ai_mac_address a)), (''status'', JStr (ai_status a)),
     (''hardware'', JBool (ai_hardware a)), (''ipv4'', enc_list enc_address (ai_ipv4 a)),
     (''ipv6'', enc_list enc_address (ai_ipv6 a))]"

definition enc_wifi_status :: "wifi_interface_status \<Rightarrow> json" where
  "enc_wifi_status s = json_object [(''if_index'', enc_word (wi_if_index s)), (''name'', JStr (wi_name s)),
     (''guid'', enc_option JStr (wi_guid s)), (''state'', JStr (wi_state s)),
     (''profile_name'', enc_option JStr (wi_profile_name s)), (''ssid'', enc_option JStr (wi_ssid s)),
     (''ssid_hex'', enc_option JStr (wi_ssid_hex s)), (''signal_quality'', enc_option enc_word (wi_signal_quality s)),
     (''security_enabled'', enc_option JBool (wi_security_enabled s)),
     (''authentication'', enc_option JStr (wi_authentication s)), (''cipher'', enc_option JStr (wi_cipher s)),
     (''rx_rate_kbps'', enc_option enc_word (wi_rx_rate_kbps s)),
     (''tx_rate_kbps'', enc_option enc_word (wi_tx_rate_kbps s))]"

definition enc_wifi_network :: "wifi_network \<Rightarrow> json" where
  "enc_wifi_network n = json_object [(''interface_if_index'', enc_word (wn_interface_if_index n)),
     (''interface_name'', JStr (wn_interface_name n)), (''ssid'', JStr (wn_ssid n)), (''ssid_hex'', JStr (wn_ssid_hex n)),
     (''profile_name'', enc_option JStr (wn_profile_name n)), (''signal_quality'', enc_word (wn_signal_quality n)),
     (''security_enabled'', JBool (wn_security_enabled n)), (''authentication'', JStr (wn_authentication n)),
     (''cipher'', JStr (wn_cipher n)), (''connectable'', JBool (wn_connectable n)),
     (''not_connectable_reason'', enc_option enc_word (wn_not_connectable_reason n)),
     (''connected'', JBool (wn_connected n)), (''bss_count'', enc_word (wn_bss_count n))]"

definition enc_issue :: "validation_issue \<Rightarrow> json" where
  "enc_issue i = json_object [(''path'', enc_option JStr (vi_path i)), (''message'', JStr (vi_message i))]"

definition enc_operation :: "operation \<Rightarrow> json" where
  "enc_operation o' = json_object [(''id'', JStr (op_id o')), (''capability'', JStr (op_capability o')),
     (''summary'', JStr (op_summary o')), (''risk'', JStr (risk_name (op_risk o'))),
     (''target'', enc_option JStr (op_target o'))]"

definition enc_job :: "job_summary \<Rightarrow> json" where
  "enc_job j = json_object [(''job_id'', JStr (js_job_id j)), (''state'', JStr (job_state_name (js_state j))),
     (''message'', enc_option JStr (js_message j)), (''created_at_unix_ms'', enc_word (js_created_at j)),
     (''updated_at_unix_ms'', enc_word (js_updated_at j))]"

section \<open>Debug of a response\<close>

definition debug_struct :: "string \<Rightarrow> (string \<times> string) list \<Rightarrow> string" where
  "debug_struct n fs = n @ '' { '' @ join_with '', '' (map (\<lambda>(f, t). f @ '': '' @ t) fs) @ '' }''"

definition debug_list :: "('a \<Rightarrow> string) \<Rightarrow> 'a list \<Rightarrow> string" where
  "debug_list f xs = ''['' @ join_with '', '' (map f xs) @ '']''"

definition debug_word :: "'a :: len word \<Rightarrow> string" where
  "debug_word w = show_nat (unat w)"

fun debug_job_state :: "job_state \<Rightarrow> string" where
  "debug_job_state JobQueued = ''Queued''"
| "debug_job_state JobRunning = ''Running''"
| "debug_job_state JobSucceeded = ''Succeeded''"
| "debug_job_state JobFailed = ''Failed''"
| "debug_job_state JobRolledBack = ''RolledBack''"

fun debug_capability_state :: "capability_state \<Rightarrow> string" where
  "debug_capability_state Unavailable = ''Unavailable''"
| "debug_capability_state ReadOnly = ''ReadOnly''"
| "debug_capability_state DryRun = ''DryRun''"
| "debug_capability_state Available = ''Available''"

fun debug_risk :: "operation_risk \<Rightarrow> string" where
  "debug_risk RiskReadOnly = ''ReadOnly''"
| "debug_risk RiskLow = ''Low''"
| "debug_risk RiskConnectivity = ''Connectivity''"
| "debug_risk RiskDestructive = ''Destructive''"

fun debug_error_code :: "error_code \<Rightarrow> string" where
  "debug_error_code CodeInvalidRequest = ''InvalidRequest''"
| "debug_error_code CodeInvalidConfig = ''InvalidConfig''"
| "debug_error_code CodeUnsupported = ''Unsupported''"
| "debug_error_code CodePermissionDenied = ''PermissionDenied''"
| "debug_error_code CodeNotFound = ''NotFound''"
| "debug_error_code CodeInternal = ''Internal''"

definition debug_capability :: "ucd \<Rightarrow> capability \<Rightarrow> string" where
  "debug_capability U c = debug_struct ''Capability'' [(''name'', debug_str U (cap_name c)),
     (''state'', debug_capability_state (cap_state c)), (''reason'', debug_option (debug_str U) (cap_reason c))]"

definition debug_address :: "ucd \<Rightarrow> ip_address_info \<Rightarrow> string" where
  "debug_address U a = debug_struct ''IpAddressInfo'' [(''address'', debug_str U (ip_address a)),
     (''prefix_length'', debug_word (ip_prefix_length a))]"

definition debug_adapter :: "ucd \<Rightarrow> adapter_info \<Rightarrow> string" where
  "debug_adapter U a = debug_struct ''AdapterInfo'' [(''if_index'', debug_word (ai_if_index a)),
     (''name'', debug_str U (ai_name a)), (''description'', debug_option (debug_str U) (ai_description a)),
     (''guid'', debug_option (debug_str U) (ai_guid a)),
     (''mac_address'', debug_option (debug_str U) (ai_mac_address a)), (''status'', debug_str U (ai_status a)),
     (''hardware'', show_bool (ai_hardware a)), (''ipv4'', debug_list (debug_address U) (ai_ipv4 a)),
     (''ipv6'', debug_list (debug_address U) (ai_ipv6 a))]"

definition debug_wifi_status :: "ucd \<Rightarrow> wifi_interface_status \<Rightarrow> string" where
  "debug_wifi_status U s = debug_struct ''WifiInterfaceStatus'' [(''if_index'', debug_word (wi_if_index s)),
     (''name'', debug_str U (wi_name s)), (''guid'', debug_option (debug_str U) (wi_guid s)),
     (''state'', debug_str U (wi_state s)), (''profile_name'', debug_option (debug_str U) (wi_profile_name s)),
     (''ssid'', debug_option (debug_str U) (wi_ssid s)), (''ssid_hex'', debug_option (debug_str U) (wi_ssid_hex s)),
     (''signal_quality'', debug_option debug_word (wi_signal_quality s)),
     (''security_enabled'', debug_option show_bool (wi_security_enabled s)),
     (''authentication'', debug_option (debug_str U) (wi_authentication s)),
     (''cipher'', debug_option (debug_str U) (wi_cipher s)),
     (''rx_rate_kbps'', debug_option debug_word (wi_rx_rate_kbps s)),
     (''tx_rate_kbps'', debug_option debug_word (wi_tx_rate_kbps s))]"

definition debug_wifi_network :: "ucd \<Rightarrow> wifi_network \<Rightarrow> string" where
  "debug_wifi_network U n = debug_struct ''WifiNetwork'' [
     (''interface_if_index'', debug_word (wn_interface_if_index n)),
     (''interface_name'', debug_str U (wn_interface_name n)), (''ssid'', debug_str U (wn_ssid n)),
     (''ssid_hex'', debug_str U (wn_ssid_hex n)), (''profile_name'', debug_option (debug_str U) (wn_profile_name n)),
     (''signal_quality'', debug_word (wn_signal_quality n)), (''security_enabled'', show_bool (wn_security_enabled n)),
     (''authentication'', debug_str U (wn_authentication n)), (''cipher'', debug_str U (wn_cipher n)),
     (''connectable'', show_bool (wn_connectable n)),
     (''not_connectable_reason'', debug_option debug_word (wn_not_connectable_reason n)),
     (''connected'', show_bool (wn_connected n)), (''bss_count'', debug_word (wn_bss_count n))]"

definition debug_issue :: "ucd \<Rightarrow> validation_issue \<Rightarrow> string" where
  "debug_issue U i = debug_struct ''ValidationIssue'' [(''path'', debug_option (debug_str U) (vi_path i)),
     (''message'', debug_str U (vi_message i))]"

definition debug_operation :: "ucd \<Rightarrow> operation \<Rightarrow> string" where
  "debug_operation U o' = debug_struct ''Operation'' [(''id'', debug_str U (op_id o')),
     (''capability'', debug_str U (op_capability o')), (''summary'', debug_str U (op_summary o')),
     (''risk'', debug_risk (op_risk o')), (''target'', debug_option (debug_str U) (op_target o'))]"

definition debug_job :: "ucd \<Rightarrow> job_summary \<Rightarrow> string" where
  "debug_job U j = debug_struct ''JobSummary'' [(''job_id'', debug_str U (js_job_id j)),
     (''state'', debug_job_state (js_state j)), (''message'', debug_option (debug_str U) (js_message j)),
     (''created_at_unix_ms'', debug_word (js_created_at j)), (''updated_at_unix_ms'', debug_word (js_updated_at j))]"

fun debug_response :: "ucd \<Rightarrow> response \<Rightarrow> string" where
  "debug_response U (RsPong v p) =
    debug_struct ''Pong'' [(''daemon_version'', debug_str U v), (''protocol_version'', debug_word p)]"
| "debug_response U (RsDaemonStatus s) =
    debug_struct ''DaemonStatus'' [(''daemon_version'', debug_str U (ds_daemon_version s)),
      (''protocol_version'', debug_word (ds_protocol_version s)),
      (''started_at_unix_ms'', debug_word (ds_started_at s)), (''uptime_ms'', debug_word (ds_uptime_ms s)),
      (''total_jobs'', debug_word (ds_total_jobs s)), (''queued_jobs'', debug_word (ds_queued_jobs s)),
      (''running_jobs'', debug_word (ds_running_jobs s)), (''succeeded_jobs'', debug_word (ds_succeeded_jobs s)),
      (''failed_jobs'', debug_word (ds_failed_jobs s)), (''rolled_back_jobs'', debug_word (ds_rolled_back_jobs s))]"
| "debug_response U (RsCapabilities cs) = ''Capabilities('' @ debug_list (debug_capability U) cs @ '')''"
| "debug_response U (RsAdapters as) = ''Adapters('' @ debug_list (debug_adapter U) as @ '')''"
| "debug_response U (RsValidation valid issues) =
    debug_struct ''Validation'' [(''valid'', show_bool valid), (''issues'', debug_list (debug_issue U) issues)]"
| "debug_response U (RsPlan ops) = ''Plan('' @ debug_list (debug_operation U) ops @ '')''"
| "debug_response U (RsApply job state ops) =
    debug_struct ''Apply'' [(''job_id'', debug_str U job), (''state'', debug_job_state state),
      (''operations'', debug_list (debug_operation U) ops)]"
| "debug_response U (RsJobStatus job state message) =
    debug_struct ''JobStatus'' [(''job_id'', debug_str U job), (''state'', debug_job_state state),
      (''message'', debug_option (debug_str U) message)]"
| "debug_response U (RsJobs jobs count_all) =
    debug_struct ''Jobs'' [(''jobs'', debug_list (debug_job U) jobs), (''total'', debug_word count_all)]"
| "debug_response U (RsNetworkStatus at as ws e) =
    debug_struct ''NetworkStatus'' [(''captured_at_unix_ms'', debug_word at),
      (''adapters'', debug_list (debug_adapter U) as), (''wifi_interfaces'', debug_list (debug_wifi_status U) ws),
      (''wifi_error'', debug_option (debug_str U) e)]"
| "debug_response U (RsWifiStatus ws) = ''WifiStatus('' @ debug_list (debug_wifi_status U) ws @ '')''"
| "debug_response U (RsWifiNetworks refreshed ns) =
    debug_struct ''WifiNetworks'' [(''refreshed'', show_bool refreshed),
      (''networks'', debug_list (debug_wifi_network U) ns)]"
| "debug_response U RsShutdownAccepted = ''ShutdownAccepted''"
| "debug_response U (RsError code message) =
    debug_struct ''Error'' [(''code'', debug_error_code code), (''message'', debug_str U message)]"

end
