(* ===== verification/Loops.thy ===== *)
theory Loops
  imports Effects
begin

text \<open>
  Loops that repeat a round until it has a result, as the waits of the command line tool and of its
  JSON-RPC server do, and the bound on their rounds when a clock advances towards a deadline.
\<close>

text \<open>
  A round ends the loop (\<open>Inl\<close>) or asks for another one.  The loop is partial; \<open>repeat_bounded\<close> is the
  same loop with a bound on its rounds.
\<close>

partial_function (option) repeat_until :: "('w \<Rightarrow> ('r + unit) \<times> 'w) \<Rightarrow> 'w \<Rightarrow> ('r \<times> 'w) option" where
  "repeat_until round w =
    (case round w of
       (Inl r, w') \<Rightarrow> Some (r, w')
     | (Inr _, w') \<Rightarrow> repeat_until round w')"

fun repeat_bounded :: "('w \<Rightarrow> ('r + unit) \<times> 'w) \<Rightarrow> 'r \<Rightarrow> nat \<Rightarrow> 'w \<Rightarrow> 'r \<times> 'w" where
  "repeat_bounded round late 0 w = (late, w)"
| "repeat_bounded round late (Suc n) w =
    (case round w of
       (Inl r, w') \<Rightarrow> (r, w')
     | (Inr _, w') \<Rightarrow> repeat_bounded round late n w')"

lemma repeat_bounded_numeral:
  "repeat_bounded round late (numeral k) w =
    (case round w of
       (Inl r, w') \<Rightarrow> (r, w')
     | (Inr _, w') \<Rightarrow> repeat_bounded round late (pred_numeral k) w')"
  by (simp add: numeral_eq_Suc)

text \<open>
  A round that does not end the loop starts before the deadline and takes at least \<open>pause\<close>, or the time
  that is left.
\<close>

definition advances :: "('w \<Rightarrow> nat) \<Rightarrow> nat \<Rightarrow> nat \<Rightarrow> ('w \<Rightarrow> ('r + unit) \<times> 'w) \<Rightarrow> bool" where
  "advances time deadline pause round \<longleftrightarrow>
    (\<forall>w w'. round w = (Inr (), w') \<longrightarrow> time w < deadline \<and> min (time w + pause) deadline \<le> time w')"

lemma rounds_enough:
  assumes "advances time deadline pause round"
  shows "deadline \<le> time w + n * pause \<Longrightarrow>
    repeat_until round w = Some (repeat_bounded round late (Suc n) w)"
proof (induction n arbitrary: w)
  case 0
  obtain r w' where round: "round w = (r, w')" by fastforce
  have "r \<noteq> Inr ()" using assms round 0 unfolding advances_def by (metis add.right_neutral leD mult_zero_left)
  with round show ?case by (subst repeat_until.simps) (auto split: sum.splits)
next
  case (Suc n)
  obtain r w' where round: "round w = (r, w')" by fastforce
  show ?case
  proof (cases r)
    case (Inl a)
    with round show ?thesis by (subst repeat_until.simps) simp
  next
    case (Inr u)
    then have "time w < deadline" "min (time w + pause) deadline \<le> time w'"
      using assms round by (simp_all add: advances_def)
    then have "deadline \<le> time w' + n * pause" using Suc.prems by (simp add: min_def split: if_splits)
    from Suc.IH[OF this] round Inr show ?thesis by (subst repeat_until.simps) simp
  qed
qed

text \<open>The result of a bounded loop is that of one of its rounds, or the one for running late.\<close>

lemma bounded_result:
  "repeat_bounded round late n w = (r, w') \<Longrightarrow> r = late \<or> (\<exists>v. round v = (Inl r, w'))"
  by (induction n arbitrary: w) (auto split: prod.splits sum.splits)

lemma bounded_ok: "repeat_bounded round (Inl e) n w = (Inr v, w') \<Longrightarrow> \<exists>w0. round w0 = (Inl (Inr v), w')"
  using bounded_result by fastforce

end
