(* ===== verification/Json_Rpc.thy ===== *)
theory Json_Rpc
  imports Json Loops Daemon "HOL-Library.Monad_Syntax"
begin

text \<open>
  The JSON-RPC gateway, \<open>crates/netplan-cli/src/jsonrpc.rs\<close>, with the call that starts a missing daemon
  (\<open>call_with_autostart\<close> of \<open>crates/netplan-cli/src/main.rs\<close>).  Reading a line of JSON, the text of a
  decoding error and the bundled contract are parameters; methods, parameter structures, range checks,
  answers and the waiting loop are modelled.
\<close>

section \<open>The host of the gateway\<close>

text \<open>
  \<open>Client::call\<close>, starting the daemon, and the clock of the runtime, in nanoseconds.  \<open>ho_timeout\<close> runs a
  call with a limit: \<open>None\<close> when the time is over first.
\<close>

record 'w host =
  ho_call :: "request \<Rightarrow> ('w, netplan_error, response) eff"
  ho_spawn :: "('w, string, unit) eff"
  ho_now :: "'w \<Rightarrow> nat \<times> 'w"
  ho_sleep :: "nat \<Rightarrow> 'w \<Rightarrow> 'w"
  ho_timeout :: "nat \<Rightarrow> ('w, string, response) eff \<Rightarrow> 'w \<Rightarrow> (string + response) option \<times> 'w"

definition millis :: "nat \<Rightarrow> nat" where
  "millis n = n * 1000000"

fun is_endpoint_absent :: "netplan_error \<Rightarrow> bool" where
  "is_endpoint_absent (Io k m) \<longleftrightarrow> k \<in> {NotFound, ConnectionRefused, ConnectionReset}"
| "is_endpoint_absent _ \<longleftrightarrow> False"

fun retry_call :: "'w host \<Rightarrow> request \<Rightarrow> nat \<Rightarrow> netplan_error option \<Rightarrow> ('w, string, response) eff" where
  "retry_call H rq 0 last_error =
    failE (case last_error of
        None \<Rightarrow> ''daemon did not create its endpoint''
      | Some e \<Rightarrow> ''daemon did not become ready: '' @ error_text e)"
| "retry_call H rq (Suc n) last_error = (\<lambda>w.
    case ho_call H rq (ho_sleep H (millis 50) w) of
      (Inr response, w1) \<Rightarrow> (Inr response, w1)
    | (Inl e, w1) \<Rightarrow> retry_call H rq n (Some e) w1)"

definition call_with_autostart :: "'w host \<Rightarrow> request \<Rightarrow> bool \<Rightarrow> ('w, string, response) eff" where
  "call_with_autostart H rq no_autostart = (\<lambda>w.
    case ho_call H rq w of
      (Inr response, w1) \<Rightarrow> (Inr response, w1)
    | (Inl e, w1) \<Rightarrow>
        if no_autostart \<or> \<not> is_endpoint_absent e then (Inl (error_text e), w1)
        else bindE (ho_spawn H) (\<lambda>_. retry_call H rq 40 None) w1)"

section \<open>Requests and parameters\<close>

type_synonym rpc_error = "int \<times> string \<times> json option"

record rpc_id =
  id_present :: bool
  id_value :: json

record rpc_request =
  rq_jsonrpc :: string
  rq_id :: rpc_id
  rq_method :: string
  rq_params :: json

record config_params =
  cp_document :: string
  cp_format :: "string option"
  cp_dry_run :: "bool option"

record job_list_params =
  jl_state :: "job_state option"
  jl_limit :: "32 word option"

record job_wait_params =
  jw_job_id :: string
  jw_timeout_ms :: "64 word option"
  jw_interval_ms :: "64 word option"

record adapter_selector_params =
  as_if_index :: "32 word option"
  as_name :: "string option"
  as_guid :: "string option"
  as_mac_address :: "string option"
  as_description :: "string option"

record wifi_scan_params =
  ws_if_index :: "32 word option"
  ws_refresh :: "bool option"
  ws_timeout_ms :: "32 word option"

definition decode_config_params :: "json \<Rightarrow> config_params option" where
  "decode_config_params v = do {
    fs \<leftarrow> struct_fields [''document'', ''format'', ''dry_run''] v;
    document \<leftarrow> required decode_str (fs ! 0);
    fmt \<leftarrow> optional decode_str (fs ! 1);
    dry_run \<leftarrow> optional decode_bool (fs ! 2);
    Some \<lparr>cp_document = document, cp_format = fmt, cp_dry_run = dry_run\<rparr> }"

text \<open>\<open>JobParams\<close> and \<open>NameParams\<close> have one required text; \<open>ExampleParams\<close> and \<open>WifiStatusParams\<close> one option.\<close>

definition decode_text_param :: "string \<Rightarrow> json \<Rightarrow> string option" where
  "decode_text_param field v = do { fs \<leftarrow> struct_fields [field] v; required decode_str (fs ! 0) }"

definition decode_option_param :: "(json \<Rightarrow> 'a option) \<Rightarrow> string \<Rightarrow> json \<Rightarrow> 'a option option" where
  "decode_option_param f field v = do { fs \<leftarrow> struct_fields [field] v; optional f (fs ! 0) }"

definition decode_job_list_params :: "json \<Rightarrow> job_list_params option" where
  "decode_job_list_params v = do {
    fs \<leftarrow> struct_fields [''state'', ''limit''] v;
    state \<leftarrow> optional decode_job_state (fs ! 0);
    limit \<leftarrow> optional decode_u32 (fs ! 1);
    Some \<lparr>jl_state = state, jl_limit = limit\<rparr> }"

definition decode_job_wait_params :: "json \<Rightarrow> job_wait_params option" where
  "decode_job_wait_params v = do {
    fs \<leftarrow> struct_fields [''job_id'', ''timeout_ms'', ''interval_ms''] v;
    job \<leftarrow> required decode_str (fs ! 0);
    timeout \<leftarrow> optional decode_u64 (fs ! 1);
    interval \<leftarrow> optional decode_u64 (fs ! 2);
    Some \<lparr>jw_job_id = job, jw_timeout_ms = timeout, jw_interval_ms = interval\<rparr> }"

definition selector_fields :: "string list" where
  "selector_fields = [''if_index'', ''name'', ''guid'', ''mac_address'', ''description_contains'']"

definition decode_selector_params :: "json \<Rightarrow> adapter_selector_params option" where
  "decode_selector_params v = do {
    fs \<leftarrow> struct_fields selector_fields v;
    if_index \<leftarrow> optional decode_u32 (fs ! 0);
    n \<leftarrow> optional decode_str (fs ! 1);
    guid \<leftarrow> optional decode_str (fs ! 2);
    mac \<leftarrow> optional decode_str (fs ! 3);
    description \<leftarrow> optional decode_str (fs ! 4);
    Some \<lparr>as_if_index = if_index, as_name = n, as_guid = guid, as_mac_address = mac, as_description = description\<rparr> }"

definition decode_wifi_scan_params :: "json \<Rightarrow> wifi_scan_params option" where
  "decode_wifi_scan_params v = do {
    fs \<leftarrow> struct_fields [''if_index'', ''refresh'', ''timeout_ms''] v;
    if_index \<leftarrow> optional decode_u32 (fs ! 0);
    refresh \<leftarrow> optional decode_bool (fs ! 1);
    timeout \<leftarrow> optional decode_u32 (fs ! 2);
    Some \<lparr>ws_if_index = if_index, ws_refresh = refresh, ws_timeout_ms = timeout\<rparr> }"

definition invalid_params :: "string \<Rightarrow> rpc_error" where
  "invalid_params message = (- 32602, ''Invalid params'', Some (JStr message))"

text \<open>\<open>text\<close> is the message of \<open>serde_json\<close> for a value that is not of the expected structure.\<close>

definition parse_params :: "(json \<Rightarrow> string) \<Rightarrow> (json \<Rightarrow> 'a option) \<Rightarrow> json \<Rightarrow> rpc_error + 'a" where
  "parse_params message f params = ok_or (f params) (invalid_params (message params))"

definition parse_optional_params :: "(json \<Rightarrow> string) \<Rightarrow> (json \<Rightarrow> 'a option) \<Rightarrow> json \<Rightarrow> rpc_error + 'a" where
  "parse_optional_params message f params =
    parse_params message f (if params = JNull \<or> params = JArr [] then JObj [] else params)"

definition no_params :: "json \<Rightarrow> rpc_error + unit" where
  "no_params params =
    (if params = JNull \<or> params = JObj [] \<or> params = JArr [] then Inr ()
     else Inl (invalid_params ''method accepts no parameters''))"

definition require_non_empty :: "string \<Rightarrow> string \<Rightarrow> rpc_error + unit" where
  "require_non_empty field v = fail_if (trim v = []) (invalid_params (field @ '' must not be empty''))"

definition validate_range :: "string \<Rightarrow> nat \<Rightarrow> nat \<Rightarrow> nat \<Rightarrow> rpc_error + unit" where
  "validate_range field v minimum maximum =
    fail_if (\<not> (minimum \<le> v \<and> v \<le> maximum))
      (invalid_params (field @ '' must be between '' @ show_nat minimum @ '' and '' @ show_nat maximum))"

definition or_else :: "'a option \<Rightarrow> 'a \<Rightarrow> 'a" where
  "or_else m d = (case m of None \<Rightarrow> d | Some a \<Rightarrow> a)"

definition parse_config_format :: "ucd \<Rightarrow> string \<Rightarrow> rpc_error + config_format" where
  "parse_config_format U v =
    (if v = ''auto'' then Inr Auto
     else if v = ''yaml'' \<or> v = ''yml'' then Inr Yaml
     else if v = ''json'' then Inr Json
     else Inl (invalid_params (''unknown configuration format '' @ debug_str U v)))"

text \<open>\<open>char::is_ascii_hexdigit\<close> on the scalar values of the text; a multi-byte one is refused.\<close>

definition normalize_mac :: "string \<Rightarrow> string option" where
  "normalize_mac v =
    (if list_all (\<lambda>c. is_ascii_hexdigit c \<or> c = CHR '':'' \<or> c = CHR ''-'') v
        \<and> length (filter is_ascii_hexdigit v) = 12
     then Some (map to_lower (filter is_ascii_hexdigit v)) else None)"

definition validate_adapter_selector :: "adapter_selector_params \<Rightarrow> rpc_error + unit" where
  "validate_adapter_selector p =
    checks [
      fail_if (as_if_index p = None \<and> as_name p = None \<and> as_guid p = None \<and> as_mac_address p = None
        \<and> as_description p = None) (invalid_params ''at least one adapter selector is required''),
      if_some (as_name p) (require_non_empty ''name''),
      if_some (as_guid p) (require_non_empty ''guid''),
      if_some (as_mac_address p) (require_non_empty ''mac_address''),
      if_some (as_description p) (require_non_empty ''description_contains''),
      fail_if (is_some_and (\<lambda>v. normalize_mac v = None) (as_mac_address p))
        (invalid_params ''mac_address must contain exactly 12 hexadecimal digits'')]"

section \<open>Methods\<close>

datatype example_format = ExampleYaml | ExampleJson

datatype rpc_command =
    Call request
  | CapabilityGet string
  | AdapterGet adapter_selector_params
  | ConfigInspect string config_format
  | ConfigDescribe
  | ConfigExample example_format
  | JobWait job_wait_params
  | Discover

definition config_rpc_request ::
    "ucd \<Rightarrow> (json \<Rightarrow> string) \<Rightarrow> config_action \<Rightarrow> json \<Rightarrow> bool \<Rightarrow> rpc_error + request" where
  "config_rpc_request U message action params default_dry_run =
    bindR (parse_params message decode_config_params params) (\<lambda>p.
    bindR (parse_config_format U (or_else (cp_format p) ''auto'')) (\<lambda>fmt.
    Inr (RqConfig action fmt (cp_document p) (or_else (cp_dry_run p) default_dry_run))))"

definition map_request :: "ucd \<Rightarrow> (json \<Rightarrow> string) \<Rightarrow> string \<Rightarrow> json \<Rightarrow> rpc_error + request" where
  "map_request U message m params =
    (if m = ''netplan.ping'' then bindR (no_params params) (\<lambda>_. Inr RqPing)
     else if m = ''netplan.daemon.status'' then bindR (no_params params) (\<lambda>_. Inr RqDaemonStatus)
     else if m = ''netplan.capabilities'' then bindR (no_params params) (\<lambda>_. Inr RqCapabilities)
     else if m = ''netplan.adapters.list'' then bindR (no_params params) (\<lambda>_. Inr RqListAdapters)
     else if m = ''netplan.status'' then bindR (no_params params) (\<lambda>_. Inr RqNetworkStatus)
     else if m = ''netplan.wifi.status'' then
       bindR (parse_optional_params message (decode_option_param decode_u32 ''if_index'') params)
         (\<lambda>i. Inr (RqWifiStatus i))
     else if m = ''netplan.wifi.scan'' then
       bindR (parse_optional_params message decode_wifi_scan_params params) (\<lambda>p.
       (let timeout_ms = or_else (ws_timeout_ms p) 4000 in
        bindR (validate_range ''timeout_ms'' (unat timeout_ms) 250 15000) (\<lambda>_.
        Inr (RqWifiScan (ws_if_index p) (or_else (ws_refresh p) True) timeout_ms))))
     else if m = ''netplan.config.validate'' then config_rpc_request U message ActValidate params True
     else if m = ''netplan.config.plan'' then config_rpc_request U message ActPlan params True
     else if m = ''netplan.config.apply'' then config_rpc_request U message ActApply params True
     else if m = ''netplan.job.get'' then
       bindR (parse_params message (decode_text_param ''job_id'') params) (\<lambda>job.
       bindR (require_non_empty ''job_id'' job) (\<lambda>_. Inr (RqJobStatus job)))
     else if m = ''netplan.job.list'' then
       bindR (parse_optional_params message decode_job_list_params params) (\<lambda>p.
       (let limit = or_else (jl_limit p) 100 in
        bindR (validate_range ''limit'' (unat limit) 1 1000) (\<lambda>_. Inr (RqListJobs (jl_state p) limit))))
     else Inl (- 32601, ''Method not found'', None))"

definition parse_example_format :: "ucd \<Rightarrow> string \<Rightarrow> rpc_error + example_format" where
  "parse_example_format U v =
    (if v = ''yaml'' \<or> v = ''yml'' then Inr ExampleYaml
     else if v = ''json'' then Inr ExampleJson
     else Inl (invalid_params (''example format must be yaml or json, not '' @ debug_str U v)))"

definition map_command :: "ucd \<Rightarrow> (json \<Rightarrow> string) \<Rightarrow> string \<Rightarrow> json \<Rightarrow> rpc_error + rpc_command" where
  "map_command U message m params =
    (if m = ''netplan.capability.get'' then
       bindR (parse_params message (decode_text_param ''name'') params) (\<lambda>n.
       bindR (require_non_empty ''name'' n) (\<lambda>_. Inr (CapabilityGet n)))
     else if m = ''netplan.adapter.get'' then
       bindR (parse_params message decode_selector_params params) (\<lambda>p.
       bindR (validate_adapter_selector p) (\<lambda>_. Inr (AdapterGet p)))
     else if m = ''netplan.config.inspect'' then
       bindR (parse_params message decode_config_params params) (\<lambda>p.
       bindR (parse_config_format U (or_else (cp_format p) ''auto'')) (\<lambda>fmt.
       Inr (ConfigInspect (cp_document p) fmt)))
     else if m = ''netplan.config.describe'' then bindR (no_params params) (\<lambda>_. Inr ConfigDescribe)
     else if m = ''netplan.config.example'' then
       bindR (parse_optional_params message (decode_option_param decode_str ''format'') params) (\<lambda>f.
       bindR (parse_example_format U (or_else f ''yaml'')) (\<lambda>fmt. Inr (ConfigExample fmt)))
     else if m = ''netplan.job.wait'' then
       bindR (parse_params message decode_job_wait_params params) (\<lambda>p.
       bindR (require_non_empty ''job_id'' (jw_job_id p)) (\<lambda>_.
       bindR (validate_range ''timeout_ms'' (unat (or_else (jw_timeout_ms p) 30000)) 1 300000) (\<lambda>_.
       bindR (validate_range ''interval_ms'' (unat (or_else (jw_interval_ms p) 100)) 25 5000) (\<lambda>_.
       Inr (JobWait p)))))
     else if m = ''netplan.rpc.discover'' then bindR (no_params params) (\<lambda>_. Inr Discover)
     else mapR Call (map_request U message m params))"

section \<open>Answers\<close>

fun error_code_name :: "error_code \<Rightarrow> string" where
  "error_code_name CodeInvalidRequest = ''invalid_request''"
| "error_code_name CodeInvalidConfig = ''invalid_config''"
| "error_code_name CodeUnsupported = ''unsupported''"
| "error_code_name CodePermissionDenied = ''permission_denied''"
| "error_code_name CodeNotFound = ''not_found''"
| "error_code_name CodeInternal = ''internal''"

definition daemon_error :: "error_code \<Rightarrow> string \<Rightarrow> rpc_error" where
  "daemon_error code message =
    (if code = CodeNotFound then - 32004 else - 32010, message,
     Some (json_object [(''daemon_code'', JStr (error_code_name code))]))"

fun response_value :: "response \<Rightarrow> string + json" where
  "response_value (RsPong v p) =
    Inr (json_object [(''daemon_version'', JStr v), (''protocol_version'', enc_word p)])"
| "response_value (RsDaemonStatus s) =
    Inr (json_object [(''daemon_version'', JStr (ds_daemon_version s)),
      (''protocol_version'', enc_word (ds_protocol_version s)),
      (''started_at_unix_ms'', enc_word (ds_started_at s)), (''uptime_ms'', enc_word (ds_uptime_ms s)),
      (''total_jobs'', enc_word (ds_total_jobs s)), (''queued_jobs'', enc_word (ds_queued_jobs s)),
      (''running_jobs'', enc_word (ds_running_jobs s)), (''succeeded_jobs'', enc_word (ds_succeeded_jobs s)),
      (''failed_jobs'', enc_word (ds_failed_jobs s)), (''rolled_back_jobs'', enc_word (ds_rolled_back_jobs s))])"
| "response_value (RsCapabilities cs) = Inr (enc_list enc_capability cs)"
| "response_value (RsAdapters as) = Inr (enc_list enc_adapter as)"
| "response_value (RsNetworkStatus at as ws e) =
    Inr (json_object [(''captured_at_unix_ms'', enc_word at), (''adapters'', enc_list enc_adapter as),
      (''wifi_interfaces'', enc_list enc_wifi_status ws), (''wifi_error'', enc_option JStr e)])"
| "response_value (RsWifiStatus ws) = Inr (json_object [(''interfaces'', enc_list enc_wifi_status ws)])"
| "response_value (RsWifiNetworks refreshed ns) =
    Inr (json_object [(''refreshed'', JBool refreshed), (''networks'', enc_list enc_wifi_network ns)])"
| "response_value (RsValidation valid issues) =
    Inr (json_object [(''valid'', JBool valid), (''issues'', enc_list enc_issue issues)])"
| "response_value (RsPlan ops) = Inr (json_object [(''operations'', enc_list enc_operation ops)])"
| "response_value (RsApply job state ops) =
    Inr (json_object [(''job_id'', JStr job), (''state'', JStr (job_state_name state)),
      (''operations'', enc_list enc_operation ops)])"
| "response_value (RsJobStatus job state message) =
    Inr (json_object [(''job_id'', JStr job), (''state'', JStr (job_state_name state)),
      (''message'', enc_option JStr message)])"
| "response_value (RsJobs jobs count_all) =
    Inr (json_object [(''jobs'', enc_list enc_job jobs), (''total'', enc_word count_all)])"
| "response_value RsShutdownAccepted = Inr (json_object [(''stopping'', JBool True)])"
| "response_value (RsError code message) = Inl (error_code_name code @ '': '' @ message)"

fun response_rpc_value :: "response \<Rightarrow> rpc_error + json" where
  "response_rpc_value (RsError code message) = Inl (daemon_error code message)"
| "response_rpc_value response = map_errR (\<lambda>m. (- 32010, m, None)) (response_value response)"

fun unexpected_daemon_response :: "ucd \<Rightarrow> response \<Rightarrow> string \<Rightarrow> rpc_error" where
  "unexpected_daemon_response U (RsError code message) expected = daemon_error code message"
| "unexpected_daemon_response U response expected =
    (- 32010, ''Unexpected daemon response'',
     Some (json_object [(''expected'', JStr expected), (''received'', JStr (debug_response U response))]))"

definition error_response :: "json \<Rightarrow> rpc_error \<Rightarrow> json" where
  "error_response i e =
    (case e of (code, message, data) \<Rightarrow>
      json_object [(''jsonrpc'', JStr ''2.0''), (''id'', i),
        (''error'', json_object ([(''code'', JInt code), (''message'', JStr message)]
          @ (case data of None \<Rightarrow> [] | Some d \<Rightarrow> [(''data'', d)])))])"

definition result_response :: "json \<Rightarrow> json \<Rightarrow> json" where
  "result_response i v = json_object [(''jsonrpc'', JStr ''2.0''), (''id'', i), (''result'', v)]"

section \<open>Commands\<close>

definition call_daemon :: "'w host \<Rightarrow> request \<Rightarrow> bool \<Rightarrow> ('w, rpc_error, response) eff" where
  "call_daemon H rq no_autostart = map_errE (\<lambda>m. (- 32000, m, None)) (call_with_autostart H rq no_autostart)"

fun find_capability :: "ucd \<Rightarrow> string \<Rightarrow> response \<Rightarrow> rpc_error + json" where
  "find_capability U n (RsCapabilities cs) =
    (case find (\<lambda>c. eq_ignore_ascii_case (cap_name c) n) cs of
       Some c \<Rightarrow> Inr (enc_capability c)
     | None \<Rightarrow> Inl (- 32004, ''Capability not found'', Some (json_object [(''name'', JStr n)])))"
| "find_capability U n response = Inl (unexpected_daemon_response U response ''capabilities'')"

definition adapter_matches :: "ucd \<Rightarrow> adapter_info \<Rightarrow> adapter_selector_params \<Rightarrow> bool" where
  "adapter_matches U a p \<longleftrightarrow>
    is_none_or (\<lambda>i. ai_if_index a = i) (as_if_index p)
    \<and> is_none_or (\<lambda>n. eq_ignore_ascii_case (ai_name a) n) (as_name p)
    \<and> is_none_or (\<lambda>g. is_some_and (\<lambda>c. eq_ignore_ascii_case c g) (ai_guid a)) (as_guid p)
    \<and> is_none_or (\<lambda>m.
         (case (Option.bind (ai_mac_address a) normalize_mac, normalize_mac m) of
            (Some candidate, Some expected) \<Rightarrow> candidate = expected
          | _ \<Rightarrow> False)) (as_mac_address p)
    \<and> is_none_or (\<lambda>needle. is_some_and (\<lambda>d. contains_str (str_lower U needle) (str_lower U d))
         (ai_description a)) (as_description p)"

definition selector_value :: "adapter_selector_params \<Rightarrow> json" where
  "selector_value p = json_object [(''if_index'', enc_option enc_word (as_if_index p)),
     (''name'', enc_option JStr (as_name p)), (''guid'', enc_option JStr (as_guid p)),
     (''mac_address'', enc_option JStr (as_mac_address p)),
     (''description_contains'', enc_option JStr (as_description p))]"

definition adapter_brief :: "adapter_info \<Rightarrow> json" where
  "adapter_brief a = json_object [(''if_index'', enc_word (ai_if_index a)), (''name'', JStr (ai_name a)),
     (''guid'', enc_option JStr (ai_guid a))]"

fun find_adapter :: "ucd \<Rightarrow> adapter_selector_params \<Rightarrow> response \<Rightarrow> rpc_error + json" where
  "find_adapter U p (RsAdapters as) =
    (case filter (\<lambda>a. adapter_matches U a p) as of
       [] \<Rightarrow> Inl (- 32004, ''Adapter not found'', Some (json_object [(''selector'', selector_value p)]))
     | [a] \<Rightarrow> Inr (enc_adapter a)
     | matches \<Rightarrow> Inl (- 32009, ''Adapter selector is ambiguous'',
         Some (json_object [(''selector'', selector_value p), (''matches'', enc_list adapter_brief matches)])))"
| "find_adapter U p response = Inl (unexpected_daemon_response U response ''adapter inventory'')"

definition required_capabilities :: "operation list \<Rightarrow> string list" where
  "required_capabilities ops =
    fold (\<lambda>o' cs. if op_capability o' \<in> set cs then cs else cs @ [op_capability o']) ops []"

definition inspection :: "bool \<Rightarrow> validation_issue list \<Rightarrow> operation list \<Rightarrow> json" where
  "inspection valid issues ops = json_object [(''valid'', JBool valid), (''issues'', enc_list enc_issue issues),
     (''operations'', enc_list enc_operation ops),
     (''required_capabilities'', enc_list JStr (required_capabilities ops))]"

fun inspected_plan :: "ucd \<Rightarrow> validation_issue list \<Rightarrow> response \<Rightarrow> rpc_error + json" where
  "inspected_plan U issues (RsPlan ops) = Inr (inspection True issues ops)"
| "inspected_plan U issues response = Inl (unexpected_daemon_response U response ''configuration plan'')"

definition inspect_config ::
    "ucd \<Rightarrow> 'w host \<Rightarrow> string \<Rightarrow> config_format \<Rightarrow> bool \<Rightarrow> ('w, rpc_error, json) eff" where
  "inspect_config U H document fmt no_autostart =
    bindE (call_daemon H (RqConfig ActValidate fmt document True) no_autostart) (\<lambda>validation.
    (case validation of
       RsValidation valid issues \<Rightarrow>
         if \<not> valid then returnE (inspection False issues [])
         else bindE (call_daemon H (RqConfig ActPlan fmt document True) no_autostart) (\<lambda>plan.
           liftE (inspected_plan U issues plan))
     | response \<Rightarrow> failE (unexpected_daemon_response U response ''validation result'')))"

definition config_description :: json where
  "config_description = json_object [(''schema_version'', JInt 1),
     (''formats'', enc_list JStr [''auto'', ''yaml'', ''json'']), (''apply_dry_run_default'', JBool True),
     (''selector_fields'', enc_list JStr selector_fields), (''secret_sources'', enc_list JStr [''env'', ''literal'']),
     (''terminal_job_states'', enc_list JStr [''succeeded'', ''failed'', ''rolled_back'']),
     (''top_level_sections'', enc_list JStr [''protect'', ''identity'', ''adapters'', ''wifi'', ''wifi_actions'',
        ''smb'', ''firewall'', ''services'', ''drivers'', ''hooks''])]"

definition RPC_METHODS :: "string list" where
  "RPC_METHODS = [''netplan.ping'', ''netplan.daemon.status'', ''netplan.capabilities'',
     ''netplan.capability.get'', ''netplan.adapters.list'', ''netplan.adapter.get'', ''netplan.status'',
     ''netplan.wifi.status'', ''netplan.wifi.scan'', ''netplan.config.validate'', ''netplan.config.plan'',
     ''netplan.config.inspect'', ''netplan.config.apply'', ''netplan.config.describe'', ''netplan.config.example'',
     ''netplan.job.get'', ''netplan.job.list'', ''netplan.job.wait'', ''netplan.rpc.discover'']"

text \<open>The bundled contract, read from its text, and the members added to it.\<close>

definition rpc_contract :: "string + json \<Rightarrow> rpc_error + json" where
  "rpc_contract bundled =
    bindR (map_errR (\<lambda>e. (- 32010, ''Bundled JSON-RPC contract is invalid'', Some (JStr e))) bundled) (\<lambda>c.
    (case c of
       JObj m \<Rightarrow> Inr (JObj (fold (\<lambda>(k, v). object_insert k v)
         [(''gateway_version'', JStr CARGO_PKG_VERSION), (''daemon_protocol_version'', enc_word PROTOCOL_VERSION),
          (''config_schema_version'', JInt 1), (''method_names'', enc_list JStr RPC_METHODS)] m))
     | _ \<Rightarrow> Inl (- 32010, ''Bundled JSON-RPC contract is not an object'', None)))"

definition lines_text :: "string list \<Rightarrow> string" where
  "lines_text ls = concat (map (\<lambda>l. l @ [CHR 0x0A]) ls)"

definition quoted_name :: "string \<Rightarrow> string" where
  "quoted_name s = dquote # s @ [dquote]"

fun example_document :: "example_format \<Rightarrow> string \<times> string" where
  "example_document ExampleYaml = (''yaml'', lines_text [''version: 1'', ''protect:'',
     ''  management_interfaces:'', ''    - name: REPLACE_WITH_MANAGEMENT_ADAPTER'', ''adapters:'',
     ''  - selector:'', ''      name: REPLACE_WITH_TARGET_ADAPTER'', ''    ipv4:'', ''      mode: dhcp'',
     ''      dns_from_dhcp: true''])"
| "example_document ExampleJson = (''json'', lines_text [''{'', ''  '' @ quoted_name ''version'' @ '': 1,'',
     ''  '' @ quoted_name ''protect'' @ '': {'', ''    '' @ quoted_name ''management_interfaces'' @ '': ['',
     ''      { '' @ quoted_name ''name'' @ '': '' @ quoted_name ''REPLACE_WITH_MANAGEMENT_ADAPTER'' @ '' }'',
     ''    ]'', ''  },'', ''  '' @ quoted_name ''adapters'' @ '': ['', ''    {'',
     ''      '' @ quoted_name ''selector'' @ '': { '' @ quoted_name ''name'' @ '': ''
       @ quoted_name ''REPLACE_WITH_TARGET_ADAPTER'' @ '' },'',
     ''      '' @ quoted_name ''ipv4'' @ '': { '' @ quoted_name ''mode'' @ '': '' @ quoted_name ''dhcp'' @ '', ''
       @ quoted_name ''dns_from_dhcp'' @ '': true }'', ''    }'', ''  ]'', ''}''])"

definition config_example :: "example_format \<Rightarrow> json" where
  "config_example f =
    (case example_document f of (format_name, document) \<Rightarrow>
      json_object [(''format'', JStr format_name), (''document'', JStr document),
        (''dry_run_recommended'', JBool True),
        (''note'', JStr ''Replace both adapter placeholders after inspecting netplan.adapters.list.'')])"

section \<open>Waiting for a job\<close>

fun is_terminal_job_state :: "job_state \<Rightarrow> bool" where
  "is_terminal_job_state JobQueued = False"
| "is_terminal_job_state JobRunning = False"
| "is_terminal_job_state _ = True"

definition job_wait_timeout :: "string \<Rightarrow> 64 word \<Rightarrow> rpc_error" where
  "job_wait_timeout job timeout_ms = (- 32002, ''Job wait timed out'',
     Some (json_object [(''job_id'', JStr job), (''timeout_ms'', enc_word timeout_ms)]))"

definition wait_timeout_ms :: "job_wait_params \<Rightarrow> 64 word" where
  "wait_timeout_ms p = or_else (jw_timeout_ms p) 30000"

definition wait_interval_ms :: "job_wait_params \<Rightarrow> 64 word" where
  "wait_interval_ms p = or_else (jw_interval_ms p) 100"

text \<open>What a response means for the wait: \<open>Inl\<close> ends it, \<open>Inr ()\<close> goes on.\<close>

fun job_answer :: "ucd \<Rightarrow> response \<Rightarrow> (rpc_error + json) + unit" where
  "job_answer U (RsJobStatus job state message) =
    (if is_terminal_job_state state then
       Inl (Inr (json_object [(''job_id'', JStr job), (''state'', JStr (job_state_name state)),
         (''message'', enc_option JStr message)]))
     else Inr ())"
| "job_answer U response = Inl (Inl (unexpected_daemon_response U response ''job status''))"

text \<open>One round of the loop, from its head to the sleep.\<close>

definition job_wait_round ::
    "ucd \<Rightarrow> 'w host \<Rightarrow> job_wait_params \<Rightarrow> bool \<Rightarrow> nat \<Rightarrow> 'w \<Rightarrow> ((rpc_error + json) + unit) \<times> 'w" where
  "job_wait_round U H p no_autostart deadline w =
    (let late = job_wait_timeout (jw_job_id p) (wait_timeout_ms p) in
     case ho_now H w of (t1, w1) \<Rightarrow>
     if deadline \<le> t1 then (Inl (Inl late), w1)
     else (case ho_timeout H (deadline - t1)
         (call_with_autostart H (RqJobStatus (jw_job_id p)) no_autostart) w1 of
       (None, w2) \<Rightarrow> (Inl (Inl late), w2)
     | (Some (Inl m), w2) \<Rightarrow> (Inl (Inl (- 32000, m, None)), w2)
     | (Some (Inr response), w2) \<Rightarrow>
         (case job_answer U response of
            Inl r \<Rightarrow> (Inl r, w2)
          | Inr _ \<Rightarrow>
              (case ho_now H w2 of (t2, w3) \<Rightarrow>
               if deadline \<le> t2 then (Inl (Inl late), w3)
               else (Inr (), ho_sleep H (min (millis (unat (wait_interval_ms p))) (deadline - t2)) w3)))))"

text \<open>
  Every round but the last sleeps for the interval or until the deadline, so two rounds more than
  intervals fit into the timeout are enough on a clock that advances (\<open>job_wait_ends\<close>).
\<close>

definition wait_rounds :: "job_wait_params \<Rightarrow> nat" where
  "wait_rounds p = unat (wait_timeout_ms p) div unat (wait_interval_ms p) + 2"

definition wait_for_job :: "ucd \<Rightarrow> 'w host \<Rightarrow> job_wait_params \<Rightarrow> bool \<Rightarrow> ('w, rpc_error, json) eff" where
  "wait_for_job U H p no_autostart = (\<lambda>w.
    case ho_now H w of (start, w1) \<Rightarrow>
      repeat_bounded (job_wait_round U H p no_autostart (start + millis (unat (wait_timeout_ms p))))
        (Inl (job_wait_timeout (jw_job_id p) (wait_timeout_ms p))) (wait_rounds p) w1)"

section \<open>Serving\<close>

text \<open>
  \<open>serde_json\<close> on the line of a request, the text of its error for a value of the wrong structure, the
  bundled contract, and the text of a value.
\<close>

record gateway =
  gw_parse :: "string \<Rightarrow> string + rpc_request"
  gw_message :: "json \<Rightarrow> string"
  gw_contract :: "string + json"
  gw_to_vec :: "json \<Rightarrow> string + string"

fun execute_command ::
    "ucd \<Rightarrow> gateway \<Rightarrow> 'w host \<Rightarrow> rpc_command \<Rightarrow> bool \<Rightarrow> ('w, rpc_error, json) eff" where
  "execute_command U G H (Call rq) no_autostart =
    bindE (call_daemon H rq no_autostart) (\<lambda>response. liftE (response_rpc_value response))"
| "execute_command U G H (CapabilityGet n) no_autostart =
    bindE (call_daemon H RqCapabilities no_autostart) (\<lambda>response. liftE (find_capability U n response))"
| "execute_command U G H (AdapterGet p) no_autostart =
    bindE (call_daemon H RqListAdapters no_autostart) (\<lambda>response. liftE (find_adapter U p response))"
| "execute_command U G H (ConfigInspect document fmt) no_autostart = inspect_config U H document fmt no_autostart"
| "execute_command U G H ConfigDescribe no_autostart = returnE config_description"
| "execute_command U G H (ConfigExample fmt) no_autostart = returnE (config_example fmt)"
| "execute_command U G H (JobWait p) no_autostart = wait_for_job U H p no_autostart"
| "execute_command U G H Discover no_autostart = liftE (rpc_contract (gw_contract G))"

fun valid_id :: "json \<Rightarrow> bool" where
  "valid_id JNull = True"
| "valid_id (JStr s) = True"
| "valid_id (JInt i) = True"
| "valid_id (JFloat f) = True"
| "valid_id _ = False"

text \<open>A notification has no \<open>id\<close> and is answered only when its \<open>id\<close> is of a wrong type.\<close>

definition handle :: "ucd \<Rightarrow> gateway \<Rightarrow> 'w host \<Rightarrow> rpc_request \<Rightarrow> bool \<Rightarrow> 'w \<Rightarrow> json option \<times> 'w" where
  "handle U G H rpc no_autostart w =
    (let notification = \<not> id_present (rq_id rpc); i = id_value (rq_id rpc);
         answer = (\<lambda>v. if notification then None else Some v) in
     if \<not> valid_id i then
       (Some (error_response JNull (- 32600, ''Invalid Request'',
          Some (JStr ''id must be a string, number, or null''))), w)
     else if rq_jsonrpc rpc \<noteq> ''2.0'' then
       (answer (error_response i (- 32600, ''Invalid Request'', None)), w)
     else (case map_command U (gw_message G) (rq_method rpc) (rq_params rpc) of
        Inl e \<Rightarrow> (answer (error_response i e), w)
      | Inr command \<Rightarrow>
          (case execute_command U G H command no_autostart w of
             (Inr v, w') \<Rightarrow> (answer (result_response i v), w')
           | (Inl e, w') \<Rightarrow> (answer (error_response i e), w'))))"

definition strip_bom :: "string \<Rightarrow> string" where
  "strip_bom line =
    (let bom = [CHR 0xEF, CHR 0xBB, CHR 0xBF] in if starts_with bom line then drop 3 line else line)"

definition serve_line :: "ucd \<Rightarrow> gateway \<Rightarrow> 'w host \<Rightarrow> bool \<Rightarrow> string \<Rightarrow> 'w \<Rightarrow> json option \<times> 'w" where
  "serve_line U G H no_autostart line w =
    (let l = strip_bom line in
     if trim l = [] then (None, w)
     else (case gw_parse G l of
        Inr rq \<Rightarrow> handle U G H rq no_autostart w
      | Inl e \<Rightarrow> (Some (error_response JNull (- 32700, ''Parse error'', Some (JStr e))), w)))"

text \<open>\<open>std::io::Error::to_string\<close>.\<close>

fun io_error_text :: "netplan_error \<Rightarrow> string" where
  "io_error_text (Io k m) = m"
| "io_error_text e = error_text e"

text \<open>The lines of the input, each a line or the error of reading it; \<open>W\<close> is the standard output.\<close>

fun serve ::
    "ucd \<Rightarrow> gateway \<Rightarrow> 'w host \<Rightarrow> bool \<Rightarrow> 'o writer \<Rightarrow> (string + string) list \<Rightarrow> 'w \<Rightarrow> 'o
      \<Rightarrow> (string + unit) \<times> 'w \<times> 'o" where
  "serve U G H no_autostart W [] w out = (Inr (), w, out)"
| "serve U G H no_autostart W (Inl e # ls) w out = (Inl e, w, out)"
| "serve U G H no_autostart W (Inr line # ls) w out =
    (case serve_line U G H no_autostart line w of
       (None, w') \<Rightarrow> serve U G H no_autostart W ls w' out
     | (Some v, w') \<Rightarrow>
         (case gw_to_vec G v of
            Inl e \<Rightarrow> (Inl e, w', out)
          | Inr bytes \<Rightarrow>
              (case bindE (wr_write_all W (bytes @ [CHR 0x0A])) (\<lambda>_. wr_flush W) out of
                 (Inl e, out') \<Rightarrow> (Inl (io_error_text e), w', out')
               | (Inr _, out') \<Rightarrow> serve U G H no_autostart W ls w' out')))"

end
