(* ===== verification/Rpc_Facts.thy ===== *)
theory Rpc_Facts
  imports Json_Rpc Sample
begin

text \<open>
  Correctness of the gateway: the shape of its answers, what a client has to say before the machine is
  changed, agreement of its range checks with the daemon's, and the end of the wait for a job.
\<close>

section \<open>Answers\<close>

text \<open>A JSON-RPC answer to an identifier: the version, the identifier, and either a result or an error.\<close>

definition answers :: "json \<Rightarrow> json \<Rightarrow> bool" where
  "answers i v \<longleftrightarrow> member ''jsonrpc'' v = Some (JStr ''2.0'') \<and> member ''id'' v = Some i
    \<and> (member ''result'' v = None) \<noteq> (member ''error'' v = None)"

lemma answers_error [simp]: "answers i (error_response j e) \<longleftrightarrow> i = j"
  by (cases e) (auto simp: answers_def error_response_def)

lemma answers_result [simp]: "answers i (result_response j v) \<longleftrightarrow> i = j"
  by (auto simp: answers_def result_response_def)

text \<open>C27: the gateway answers every request exactly once and in the form JSON-RPC asks for: a request with
  an identifier gets one answer that repeats the identifier and holds either a result or an error, a
  notification gets none, and a request whose identifier is of a wrong type gets an error for null.\<close>

theorem rpc_answers:
  "case fst (handle U G H rpc no_autostart w) of
     None \<Rightarrow> \<not> id_present (rq_id rpc) \<and> valid_id (id_value (rq_id rpc))
   | Some v \<Rightarrow> (if valid_id (id_value (rq_id rpc))
       then id_present (rq_id rpc) \<and> answers (id_value (rq_id rpc)) v
       else answers JNull v)"
  by (auto simp: handle_def Let_def split: sum.splits prod.splits)

section \<open>Consent to a live apply\<close>

text \<open>The parameters say in so many words that the apply is not a dry run.\<close>

definition says_live :: "json \<Rightarrow> bool" where
  "says_live params \<longleftrightarrow>
    member ''dry_run'' params = Some (JBool False) \<or> (\<exists>d f. params = JArr [d, f, JBool False])"

lemma optional_false:
  "optional decode_bool v = Some m \<Longrightarrow> or_else m True = False \<Longrightarrow> v = Some (JBool False)"
  by (auto simp: optional_def or_else_def split: option.splits if_splits elim: decode_bool.elims)

lemma struct_third:
  "struct_fields [a, b, c] v = Some fs \<Longrightarrow> fs ! 2 = Some x \<Longrightarrow>
    member c v = Some x \<or> (\<exists>d e. v = JArr [d, e, x])"
  by (cases v) (auto simp: struct_fields_def split: if_splits,
     (rename_tac xs, case_tac xs rule: list.exhaust; auto simp: nth_append split: if_splits)+)

lemma config_request_live:
  assumes "config_rpc_request U message action params True = Inr rq"
  shows "\<exists>fmt doc b. rq = RqConfig action fmt doc b \<and> (b \<or> says_live params)"
proof -
  obtain p fmt where p: "decode_config_params params = Some p"
    and rq: "rq = RqConfig action fmt (cp_document p) (or_else (cp_dry_run p) True)"
    using assms by (auto simp: config_rpc_request_def parse_params_def ok_simps)
  obtain fs where fs: "struct_fields [''document'', ''format'', ''dry_run''] params = Some fs"
    "optional decode_bool (fs ! 2) = Some (cp_dry_run p)"
    using p by (auto simp: decode_config_params_def bind_eq_Some_conv)
  have "says_live params" if "\<not> or_else (cp_dry_run p) True"
    using struct_third[OF fs(1)] optional_false[OF fs(2)] that by (auto simp: says_live_def)
  with rq show ?thesis by blast
qed

lemma map_request_cases:
  assumes "map_request U message m params = Inr rq"
  obtains "rq \<in> {RqPing, RqDaemonStatus, RqCapabilities, RqListAdapters, RqNetworkStatus}"
    | i where "rq = RqWifiStatus i"
    | i refresh t where "rq = RqWifiScan i refresh t" "250 \<le> unat t" "unat t \<le> 15000"
    | action where "config_rpc_request U message action params True = Inr rq"
        "action = ActApply \<Longrightarrow> m = ''netplan.config.apply''"
    | job where "rq = RqJobStatus job"
    | s l where "rq = RqListJobs s l" "1 \<le> unat l" "unat l \<le> 1000"
proof -
  note cases = that
  show ?thesis
  proof (cases "m \<in> {''netplan.config.validate'', ''netplan.config.plan'', ''netplan.config.apply''}")
    case True
    with assms show ?thesis by (auto simp: map_request_def intro: cases(4))
  next
    case False
    with assms show ?thesis
      by (auto simp: map_request_def ok_simps Let_def validate_range_def split: if_splits intro: cases)
  qed
qed

lemma call_command: "map_command U message m params = Inr (Call rq) \<Longrightarrow> map_request U message m params = Inr rq"
  unfolding map_command_def by (auto simp: ok_simps split: if_splits)



section \<open>Agreement with the daemon\<close>

lemma platform_code [simp]: "platform_error_code k \<noteq> CodeInvalidRequest"
  by (cases k) simp_all

lemma config_code: "fst (dispatch_config U Q P x action fmt doc b d) \<noteq> RsError CodeInvalidRequest t"
  unfolding dispatch_config_def apply_dry_run_def apply_live_def Let_def
  by (auto split: sum.splits prod.splits config_action.splits if_splits)

text \<open>C28: the range checks of the gateway are at least as strict as the daemon's: no request it forwards
  is answered with \<open>invalid_request\<close>, and the limit of a job listing it forwards is the limit the
  daemon uses.\<close>

theorem rpc_within_daemon_bounds:
  assumes "map_command U message m params = Inr (Call rq)"
  shows "fst (dispatch U Q P x rq d) \<noteq> RsError CodeInvalidRequest text_of_error
    \<and> (rq = RqListJobs s l \<longrightarrow> effective_limit l = unat l)"
  using call_command[OF assms]
proof (cases rule: map_request_cases)
  case (3 i refresh t)
  then show ?thesis
    by (auto simp: word_le_nat_alt daemon_wifi_scan_def platform_error_response_def
        split: prod.splits option.splits sum.splits)
next
  case (4 action)
  then show ?thesis using config_request_live[OF 4(1)]
    by (auto simp: config_code)
next
  case (6 s' l')
  have "min l' 1000 = l'" "l' \<noteq> 0" using 6 by (auto simp: word_le_nat_alt min_def unat_eq_zero)
  with 6 show ?thesis by (auto simp: effective_limit_def list_jobs_def Let_def)
qed (auto simp: daemon_status_def network_status_def platform_error_response_def Let_def
    split: prod.splits sum.splits option.splits)

lemma rpc_within_daemon_bounds_witness: "effective_limit 25 = 25"
proof -
  have "map_command sample_ucd (\<lambda>v. []) ''netplan.job.list'' (JObj [(''limit'', JInt 25)])
      = Inr (Call (RqListJobs None 25))"
    by (simp add: map_command_def map_request_def parse_optional_params_def parse_params_def decode_job_list_params_def
        struct_fields_def optional_def or_else_def validate_range_def fail_if_def)
  from rpc_within_daemon_bounds[OF this, THEN conjunct2] show ?thesis by simp
qed

section \<open>The wait for a job ends\<close>

text \<open>
  The clock of the runtime: reading it gives the time of the world, a sleep lasts at least as long as
  asked, and a call with a limit does not turn the clock back.
\<close>

definition runtime_clock :: "'w host \<Rightarrow> ('w \<Rightarrow> nat) \<Rightarrow> bool" where
  "runtime_clock H time \<longleftrightarrow>
    (\<forall>w. fst (ho_now H w) = time w \<and> time w \<le> time (snd (ho_now H w)))
    \<and> (\<forall>d w. time w + d \<le> time (ho_sleep H d w))
    \<and> (\<forall>d m w. time w \<le> time (snd (ho_timeout H d m w)))"

lemma round_advances:
  assumes "runtime_clock H time"
  shows "advances time deadline (millis (unat (wait_interval_ms p))) (job_wait_round U H p b deadline)"
  unfolding advances_def
proof (intro allI impI)
  fix w w'
  assume round: "job_wait_round U H p b deadline w = (Inr (), w')"
  obtain t1 w1 where now: "ho_now H w = (t1, w1)" by fastforce
  obtain r w2 where call: "ho_timeout H (deadline - t1)
      (call_with_autostart H (RqJobStatus (jw_job_id p)) b) w1 = (r, w2)" by fastforce
  obtain t2 w3 where now2: "ho_now H w2 = (t2, w3)" by fastforce
  have w': "w' = ho_sleep H (min (millis (unat (wait_interval_ms p))) (deadline - t2)) w3"
    and before: "t1 < deadline" "t2 < deadline"
    using round now call now2
    by (auto simp: job_wait_round_def Let_def split: if_splits option.splits sum.splits)
  have time: "t1 = time w" "time w \<le> time w1" "t2 = time w2" "time w2 \<le> time w3" "time w1 \<le> time w2"
    using assms now now2 call unfolding runtime_clock_def by (metis fst_conv snd_conv)+
  have "time w3 + min (millis (unat (wait_interval_ms p))) (deadline - t2) \<le> time w'"
    using assms w' unfolding runtime_clock_def by blast
  with time before
  show "time w < deadline \<and> min (time w + millis (unat (wait_interval_ms p))) deadline \<le> time w'"
    by linarith
qed

lemma round_ok:
  "job_wait_round U H p b deadline w = (Inl (Inr v), w') \<Longrightarrow>
    \<exists>s. is_terminal_job_state s \<and> member ''state'' v = Some (JStr (job_state_name s))"
  by (auto simp: job_wait_round_def Let_def split: prod.splits option.splits sum.splits if_splits
      elim!: job_answer.elims)

text \<open>C15: the wait for a job ends: on a clock that advances, the loop of \<open>wait_for_job\<close> returns with the
  result of its bounded form whatever the daemon answers, and it reports a job only in a terminal state.\<close>

theorem job_wait_ends:
  assumes "runtime_clock H time" "wait_interval_ms p \<noteq> 0"
  shows "repeat_until (job_wait_round U H p b (fst (ho_now H w) + millis (unat (wait_timeout_ms p)))) (snd (ho_now H w))
      = Some (wait_for_job U H p b w)
    \<and> (fst (wait_for_job U H p b w) = Inr v \<longrightarrow>
        (\<exists>s. is_terminal_job_state s \<and> member ''state'' v = Some (JStr (job_state_name s))))"
proof
  let ?T = "unat (wait_timeout_ms p)" and ?I = "unat (wait_interval_ms p)"
  obtain t w1 where now: "ho_now H w = (t, w1)" by fastforce
  have "t = time w" "time w \<le> time w1"
    using assms(1) now unfolding runtime_clock_def by (metis fst_conv snd_conv)+
  moreover have "?T \<le> (?T div ?I + 1) * ?I"
    using assms(2) dividend_less_div_times[of ?I ?T] by (simp add: unat_gt_0)
  ultimately have "t + millis ?T \<le> time w1 + (?T div ?I + 1) * millis ?I"
    unfolding millis_def by (metis add_mono mult.assoc mult_le_mono1)
  from rounds_enough[OF round_advances[OF assms(1)] this, of U b "Inl (job_wait_timeout (jw_job_id p) (wait_timeout_ms p))"]
  show "repeat_until (job_wait_round U H p b (fst (ho_now H w) + millis ?T)) (snd (ho_now H w))
      = Some (wait_for_job U H p b w)"
    using now by (simp add: wait_for_job_def wait_rounds_def)
  show "fst (wait_for_job U H p b w) = Inr v \<longrightarrow>
        (\<exists>s. is_terminal_job_state s \<and> member ''state'' v = Some (JStr (job_state_name s)))"
  proof
    assume "fst (wait_for_job U H p b w) = Inr v"
    then obtain w' where "wait_for_job U H p b w = (Inr v, w')" by (metis prod.collapse)
    with now obtain w0 w1 where "job_wait_round U H p b (t + millis ?T) w0 = (Inl (Inr v), w1)"
      by (auto simp: wait_for_job_def dest!: bounded_ok)
    then show "\<exists>s. is_terminal_job_state s \<and> member ''state'' v = Some (JStr (job_state_name s))"
      by (rule round_ok)
  qed
qed

text \<open>A host whose daemon answers nothing in time.\<close>

definition silent_host :: "nat host" where
  "silent_host = \<lparr>ho_call = \<lambda>rq. failE (Io TimedOut ''no answer''), ho_spawn = returnE (),
     ho_now = \<lambda>w. (w, w), ho_sleep = \<lambda>d w. w + d, ho_timeout = \<lambda>d m w. (None, w + d)\<rparr>"

lemma job_wait_ends_witness:
  "repeat_until (job_wait_round sample_ucd silent_host \<lparr>jw_job_id = ''j'', jw_timeout_ms = None, jw_interval_ms = None\<rparr>
      True (fst (ho_now silent_host 0) + millis (unat (wait_timeout_ms \<lparr>jw_job_id = ''j'', jw_timeout_ms = None,
        jw_interval_ms = None\<rparr>)))) (snd (ho_now silent_host 0))
    = Some (wait_for_job sample_ucd silent_host \<lparr>jw_job_id = ''j'', jw_timeout_ms = None, jw_interval_ms = None\<rparr> True 0)"
proof -
  have "runtime_clock silent_host id" by (simp add: runtime_clock_def silent_host_def)
  moreover have "wait_interval_ms \<lparr>jw_job_id = ''j'', jw_timeout_ms = None, jw_interval_ms = None\<rparr> \<noteq> 0"
    by (simp add: wait_interval_ms_def or_else_def)
  ultimately show ?thesis by (rule job_wait_ends[THEN conjunct1])
qed

end
