(* ===== verification/Text_Layout.thy ===== *)
theory Text_Layout
  imports Netplan_Text
begin

text \<open>
  The text layout of the command line tool, the second half of \<open>crates/netplan-cli/src/output.rs\<close>:
  wrapping, key-value blocks and record lists, and the columns their lines take.
\<close>

section \<open>Characters and lines\<close>

abbreviation newline :: char where
  "newline \<equiv> CHR 0x0A"

abbreviation return_char :: char where
  "return_char \<equiv> CHR 0x0D"

abbreviation space :: char where
  "space \<equiv> CHR '' ''"

text \<open>\<open>str.chars().count()\<close>\<close>

definition char_count :: "string \<Rightarrow> nat" where
  "char_count s = length (scalars s)"

definition HUMAN_OUTPUT_WIDTH :: nat where
  "HUMAN_OUTPUT_WIDTH = 88"

text \<open>\<open>{s:<width$}\<close>\<close>

definition pad_right :: "nat \<Rightarrow> string \<Rightarrow> string" where
  "pad_right width s = s @ replicate (width - char_count s) space"

text \<open>\<open>str::lines\<close>: the last line need not end with a newline, and a carriage return before one is dropped.\<close>

definition strip_return :: "string \<Rightarrow> string" where
  "strip_return l = (if l \<noteq> [] \<and> last l = return_char then butlast l else l)"

definition str_lines :: "string \<Rightarrow> string list" where
  "str_lines s =
    (let ps = split_on newline s in
     map strip_return (butlast ps) @ (if last ps = [] then [] else [last ps]))"

text \<open>\<open>str::split_whitespace\<close> on the characters.\<close>

function words_of :: "string list \<Rightarrow> string list" where
  "words_of [] = []"
| "words_of (x # xs) =
    (if is_whitespace x then words_of xs
     else concat (x # takeWhile (\<lambda>y. \<not> is_whitespace y) xs) # words_of (dropWhile (\<lambda>y. \<not> is_whitespace y) xs))"
  by pat_completeness auto
termination by (relation "measure length") (auto simp: le_imp_less_Suc length_dropWhile_le)

definition split_whitespace :: "string \<Rightarrow> string list" where
  "split_whitespace s = words_of (scalars s)"

section \<open>Wrapping\<close>

text \<open>The loop that cuts a long word: the lines so far and the chunk begun.\<close>

fun chunk_loop :: "nat \<Rightarrow> string list \<Rightarrow> string \<Rightarrow> string list \<Rightarrow> string list \<times> string" where
  "chunk_loop width out chunk [] = (out, chunk)"
| "chunk_loop width out chunk (c # cs) =
    (if char_count chunk = width then chunk_loop width (out @ [chunk]) c cs
     else chunk_loop width out (chunk @ c) cs)"

text \<open>The loop over the words of a source line: the lines so far and the line begun.\<close>

definition wrap_word :: "nat \<Rightarrow> string list \<times> string \<Rightarrow> string \<Rightarrow> string list \<times> string" where
  "wrap_word width acc word =
    (case acc of (out, line) \<Rightarrow>
      let separator = (if line \<noteq> [] then 1 else 0) in
      if char_count line + separator + char_count word \<le> width then
        (out, line @ (if separator = 1 then [space] else []) @ word)
      else chunk_loop width (if line \<noteq> [] then out @ [line] else out) [] (scalars word))"

definition wrap_line :: "nat \<Rightarrow> string list \<Rightarrow> string \<Rightarrow> string list" where
  "wrap_line width out source =
    (case foldl (wrap_word width) (out, []) (split_whitespace source) of (out', line) \<Rightarrow>
      if line \<noteq> [] then out' @ [line] else if source = [] then out' @ [[]] else out')"

definition wrap_text :: "string \<Rightarrow> nat \<Rightarrow> string list" where
  "wrap_text v width =
    (let out = foldl (wrap_line width) [] (split_on newline (filter (\<lambda>c. c \<noteq> return_char) v)) in
     if out = [] then [''-''] else out)"

section \<open>Blocks\<close>

definition clean_cell :: "string \<Rightarrow> string" where
  "clean_cell v = map (\<lambda>c. if c = return_char \<or> c = newline then space else c) v"

definition push_wrapped_lines :: "string \<Rightarrow> string \<Rightarrow> string \<Rightarrow> string \<Rightarrow> nat \<Rightarrow> string" where
  "push_wrapped_lines out v first_prefix continuation_prefix prefix_width =
    out @ (case wrap_text v (max (HUMAN_OUTPUT_WIDTH - prefix_width) 20) of
        [] \<Rightarrow> []
      | l # ls \<Rightarrow> first_prefix @ l @ concat (map (\<lambda>l. continuation_prefix @ l) ls))"

definition key_width :: "(string \<times> string) list \<Rightarrow> nat" where
  "key_width vs = fold max (map (\<lambda>(k, v). char_count k) vs) 0"

definition push_value :: "nat \<Rightarrow> string \<Rightarrow> string \<times> string \<Rightarrow> string" where
  "push_value width out kv =
    (case kv of (k, v) \<Rightarrow>
      let first_prefix = newline # ''  '' @ pad_right width k @ ''  '';
          continuation = newline # ''  '' @ pad_right width [] @ ''  '' in
      push_wrapped_lines out v first_prefix continuation (char_count first_prefix - 1))"

definition key_values :: "string \<Rightarrow> (string \<times> string) list \<Rightarrow> string" where
  "key_values title vs = foldl (push_value (key_width vs)) title vs"

definition render_record :: "string \<Rightarrow> (string \<times> string) list \<Rightarrow> string" where
  "render_record title vs =
    key_values (join_with [newline] (wrap_text (clean_cell title) (HUMAN_OUTPUT_WIDTH - 2))) vs"

definition push_record :: "string \<Rightarrow> string" where
  "push_record r = [newline, newline] @ join_with [newline] (map (\<lambda>l. ''  '' @ l) (str_lines r))"

definition record_list :: "string \<Rightarrow> string list \<Rightarrow> string \<Rightarrow> string" where
  "record_list title records none =
    (if records = [] then title @ [newline] @ ''  '' @ none
     else title @ concat (map push_record records))"

section \<open>Counting characters\<close>

lemma scalars_count:
  "char_count s = length (filter (\<lambda>c. \<not> is_cont c) s) + (if s \<noteq> [] \<and> is_cont (hd s) then 1 else 0)"
proof (induction s rule: scalars.induct)
  case (2 c cs)
  have "filter (\<lambda>c. \<not> is_cont c) (takeWhile is_cont cs) = []"
    by (auto simp: filter_empty_conv dest: set_takeWhileD)
  then have "length (filter (\<lambda>c. \<not> is_cont c) cs) = length (filter (\<lambda>c. \<not> is_cont c) (dropWhile is_cont cs))"
    by (metis append_Nil filter_append takeWhile_dropWhile_id)
  moreover have "\<not> (dropWhile is_cont cs \<noteq> [] \<and> is_cont (hd (dropWhile is_cont cs)))"
    using hd_dropWhile by blast
  ultimately show ?case using 2 by (auto simp: char_count_def)
qed (simp add: char_count_def)

lemma char_count_append: "char_count (a @ b) \<le> char_count a + char_count b"
  by (cases a) (auto simp: scalars_count)

lemma char_count_mono: "char_count a \<le> char_count (a @ b)"
  by (cases a) (auto simp: scalars_count)

lemma char_count_Nil [simp]: "char_count [] = 0"
  by (simp add: char_count_def)

lemma char_count_ascii: "list_all (\<lambda>c. \<not> is_cont c) s \<Longrightarrow> char_count s = length s"
  by (cases s) (simp_all add: scalars_count list_all_iff)

lemma char_count_le: "char_count s \<le> length s"
  by (cases s) (auto simp: scalars_count intro: le_SucI length_filter_le)

lemma char_count_scalar: "x \<in> set (scalars s) \<Longrightarrow> char_count x \<le> 1"
proof (induction s rule: scalars.induct)
  case (2 c cs)
  have "dropWhile is_cont (takeWhile is_cont cs) = []"
    by (auto simp: dropWhile_eq_Nil_conv dest: set_takeWhileD)
  then have "char_count (c # takeWhile is_cont cs) \<le> 1" unfolding char_count_def by (metis eq_refl length_0_conv length_Cons One_nat_def scalars.simps)
  with 2 show ?case by auto
qed simp

section \<open>Wrapped lines fit\<close>

text \<open>A piece of text that is one line of at most \<open>n\<close> columns.\<close>

definition fits :: "nat \<Rightarrow> string \<Rightarrow> bool" where
  "fits n l \<longleftrightarrow> char_count l \<le> n \<and> newline \<notin> set l"

lemma fits_append: "fits m a \<Longrightarrow> fits n b \<Longrightarrow> fits (m + n) (a @ b)"
  using char_count_append[of a b] by (simp add: fits_def)

lemma fits_mono: "fits m a \<Longrightarrow> m \<le> n \<Longrightarrow> fits n a"
  by (simp add: fits_def)

lemma fits_Nil [simp]: "fits n []"
  by (simp add: fits_def)

lemma chunk_loop_fits:
  "0 < width \<Longrightarrow> \<forall>c\<in>set cs. fits 1 c \<Longrightarrow> list_all (fits width) out \<Longrightarrow> fits width chunk \<Longrightarrow>
    chunk_loop width out chunk cs = (out', chunk') \<Longrightarrow> list_all (fits width) out' \<and> fits width chunk'"
proof (induction cs arbitrary: out chunk)
  case (Cons c cs)
  show ?case
  proof (cases "char_count chunk = width")
    case True
    moreover have "fits width c" using Cons.prems fits_mono[of 1 c width] by (simp add: Suc_le_eq)
    ultimately show ?thesis using Cons.prems Cons.IH[of "out @ [chunk]" c] by simp
  next
    case False
    then have "fits width (chunk @ c)"
      using Cons.prems char_count_append[of chunk c] by (auto simp: fits_def)
    with False show ?thesis using Cons.prems Cons.IH[of out "chunk @ c"] by simp
  qed
qed simp

lemma words_of_set: "w \<in> set (words_of xs) \<Longrightarrow> set w \<subseteq> set (concat xs)"
proof (induction xs rule: words_of.induct)
  case (2 x xs)
  then show ?case
    by (auto split: if_splits dest!: set_takeWhileD set_dropWhileD)
qed simp

lemma split_whitespace_set: "w \<in> set (split_whitespace s) \<Longrightarrow> set w \<subseteq> set s"
  unfolding split_whitespace_def using words_of_set[of w "scalars s"] by simp

lemma scalars_fit: "newline \<notin> set s \<Longrightarrow> c \<in> set (scalars s) \<Longrightarrow> fits 1 c"
  using char_count_scalar[of c s] concat_scalars[of s] by (metis UN_I fits_def set_concat)

definition wrapped :: "nat \<Rightarrow> string list \<times> string \<Rightarrow> bool" where
  "wrapped width acc \<longleftrightarrow> list_all (fits width) (fst acc) \<and> fits width (snd acc)"

lemma wrap_word_fits:
  assumes "0 < width" "wrapped width acc" "newline \<notin> set word"
  shows "wrapped width (wrap_word width acc word)"
proof -
  obtain out line where acc: "acc = (out, line)" by fastforce
  let ?sep = "if line \<noteq> [] then [space] else []"
  have sep: "char_count ?sep = (if line \<noteq> [] then 1 else 0)"
    by (simp add: char_count_def)
  show ?thesis
  proof (cases "char_count line + char_count ?sep + char_count word \<le> width")
    case True
    moreover have "char_count (line @ ?sep @ word) \<le> char_count line + char_count ?sep + char_count word"
      using char_count_append[of line "?sep @ word"] char_count_append[of ?sep word] by linarith
    ultimately show ?thesis
      using assms(2,3) acc sep by (auto simp: wrap_word_def wrapped_def fits_def Let_def split: if_splits)
  next
    case False
    let ?out = "if line \<noteq> [] then out @ [line] else out"
    obtain out' chunk where r: "chunk_loop width ?out [] (scalars word) = (out', chunk)" by fastforce
    have "list_all (fits width) ?out" using assms(2) acc by (auto simp: wrapped_def)
    then have "list_all (fits width) out' \<and> fits width chunk"
      using chunk_loop_fits[OF assms(1) _ _ _ r] scalars_fit[OF assms(3)] by simp
    moreover have "wrap_word width acc word = (out', chunk)"
      using False acc sep r by (simp add: wrap_word_def)
    ultimately show ?thesis by (simp add: wrapped_def)
  qed
qed

lemma wrap_words_fit:
  assumes "0 < width"
  shows "wrapped width acc \<Longrightarrow> \<forall>w\<in>set ws. newline \<notin> set w \<Longrightarrow> wrapped width (foldl (wrap_word width) acc ws)"
  by (induction ws arbitrary: acc) (auto simp: wrap_word_fits[OF assms])

lemma wrap_line_fits:
  assumes "0 < width" "list_all (fits width) out" "newline \<notin> set source"
  shows "list_all (fits width) (wrap_line width out source)"
proof -
  have "wrapped width (foldl (wrap_word width) (out, []) (split_whitespace source))"
    using assms split_whitespace_set by (intro wrap_words_fit) (auto simp: wrapped_def)
  then show ?thesis by (auto simp: wrap_line_def wrapped_def split: prod.splits)
qed

lemma wrap_lines_fit:
  assumes "0 < width"
  shows "list_all (fits width) out \<Longrightarrow> \<forall>l\<in>set ls. newline \<notin> set l \<Longrightarrow>
    list_all (fits width) (foldl (wrap_line width) out ls)"
  by (induction ls arbitrary: out) (auto simp: wrap_line_fits[OF assms])

lemma dash_fits: "0 < width \<Longrightarrow> fits width ''-''"
  by (simp add: fits_def char_count_def)

text \<open>No line that \<open>wrap_text\<close> returns is longer than the width or contains a line break, and it
  returns at least one.\<close>

lemma wrap_text_fits:
  assumes "0 < width"
  shows "list_all (fits width) (wrap_text v width) \<and> wrap_text v width \<noteq> []"
proof -
  have "list_all (fits width) (foldl (wrap_line width) []
      (split_on newline (filter (\<lambda>c. c \<noteq> return_char) v)))"
    by (intro wrap_lines_fit assms) (auto dest: split_on_pieces)
  then show ?thesis using assms by (simp add: wrap_text_def Let_def dash_fits)
qed

section \<open>Blocks fit\<close>

definition text_fits :: "nat \<Rightarrow> string \<Rightarrow> bool" where
  "text_fits n s \<longleftrightarrow> list_all (\<lambda>l. char_count l \<le> n) (split_on newline s)"

lemma split_on_append: "split_on c (a @ c # b) = split_on c a @ split_on c b"
  by (induction a) (auto split: list.splits simp: Cons_eq_append_conv)

lemma split_on_none: "c \<notin> set s \<Longrightarrow> split_on c s = [s]"
  by (induction s) auto

lemma text_fits_line: "fits n l \<Longrightarrow> text_fits n l"
  by (simp add: fits_def text_fits_def split_on_none)

lemma text_fits_append: "text_fits n (a @ newline # b) \<longleftrightarrow> text_fits n a \<and> text_fits n b"
  by (simp add: text_fits_def split_on_append)

lemma text_fits_mono: "text_fits m s \<Longrightarrow> m \<le> n \<Longrightarrow> text_fits n s"
  by (auto simp: text_fits_def list_all_iff)

lemma text_fits_pushes:
  "text_fits n out \<Longrightarrow> list_all (text_fits n) ls \<Longrightarrow> text_fits n (out @ concat (map ((#) newline) ls))"
proof (induction ls arbitrary: out)
  case (Cons l ls)
  then have "text_fits n (out @ newline # l)" by (simp add: text_fits_append)
  from Cons.IH[OF this] Cons.prems show ?case by simp
qed simp

lemma text_fits_join:
  "ls \<noteq> [] \<Longrightarrow> list_all (text_fits n) ls \<Longrightarrow> text_fits n (join_with [newline] ls)"
  by (induction "[newline]" ls rule: join_with.induct) (simp_all add: text_fits_append)

text \<open>The labels of a block: short text without line breaks.\<close>

definition label :: "string \<Rightarrow> bool" where
  "label k \<longleftrightarrow> list_all (\<lambda>c. \<not> is_cont c \<and> c \<noteq> newline) k \<and> length k \<le> 60"

lemma label_count: "label k \<Longrightarrow> char_count k = length k"
  by (rule char_count_ascii) (auto simp: label_def list_all_iff)

lemma label_short: "label k \<Longrightarrow> char_count k \<le> 60"
  using label_count by (simp add: label_def)

lemma fold_max: "fold max xs (a :: nat) \<le> n \<longleftrightarrow> a \<le> n \<and> (\<forall>x\<in>set xs. x \<le> n)"
  by (induction xs arbitrary: a) auto

lemma key_width_bounds:
  assumes "list_all (\<lambda>(k, v). label k) vs"
  shows "key_width vs \<le> 60" "(k, v) \<in> set vs \<Longrightarrow> length k \<le> key_width vs"
proof -
  have "\<forall>x\<in>set (map (\<lambda>(k, v). char_count k) vs). x \<le> 60"
    using assms label_short by (fastforce simp: list_all_iff)
  then show "key_width vs \<le> 60" by (simp add: key_width_def fold_max)
  assume kv: "(k, v) \<in> set vs"
  have "\<forall>x\<in>set (map (\<lambda>(k, v). char_count k) vs). x \<le> key_width vs"
    using fold_max[of "map (\<lambda>(k, v). char_count k) vs" 0 "key_width vs"] by (simp add: key_width_def)
  with kv assms show "length k \<le> key_width vs" by (fastforce simp: list_all_iff label_count)
qed

lemma prefix_fits:
  assumes "label k" "length k \<le> w"
  shows "fits (w + 4) (''  '' @ pad_right w k @ ''  '')" "char_count (newline # ''  '' @ pad_right w k @ ''  '') = w + 5"
proof -
  have s: "\<not> is_cont space" "\<not> is_cont newline" by (simp_all add: is_cont_def between_def byte_def)
  have k: "list_all (\<lambda>c. \<not> is_cont c) k" "newline \<notin> set k" using assms(1) by (auto simp: label_def list_all_iff)
  have "list_all (\<lambda>c. \<not> is_cont c) (''  '' @ pad_right w k @ ''  '')"
    using s k by (auto simp: pad_right_def list_all_iff)
  then show "fits (w + 4) (''  '' @ pad_right w k @ ''  '')" "char_count (newline # ''  '' @ pad_right w k @ ''  '') = w + 5"
    using s k assms by (auto simp: fits_def char_count_ascii pad_right_def label_count)
qed

lemma concat_lines: "concat (map (\<lambda>l. (c # q) @ l) ls) = concat (map ((#) c) (map ((@) q) ls))"
  by (simp add: comp_def)

lemma push_value_fits:
  assumes "text_fits 88 out" "label k" "length k \<le> w" "w \<le> 60"
  shows "text_fits 88 (push_value w out (k, v))"
proof -
  let ?P = "''  '' @ pad_right w k @ ''  ''" and ?Q = "''  '' @ pad_right w [] @ ''  ''"
  obtain l ls where ls: "wrap_text v (84 - w) = l # ls" "list_all (fits (84 - w)) (l # ls)"
    using wrap_text_fits[of "84 - w" v] assms(4) by (cases "wrap_text v (84 - w)") auto
  have "fits (w + 4) ?Q" using prefix_fits(1)[of "[]" w] by (simp add: label_def)
  then have q: "text_fits 88 (?Q @ x)" if "x \<in> set ls" for x
    using fits_append[of "w + 4" ?Q "84 - w" x] ls(2) that assms(4)
    by (intro text_fits_line) (auto simp: list_all_iff)
  have p: "text_fits 88 (?P @ l)"
    using fits_append[OF prefix_fits(1)[OF assms(2,3)], of "84 - w" l] ls(2) assms(4) by (intro text_fits_line) simp
  have width: "max (HUMAN_OUTPUT_WIDTH - (char_count (newline # ?P) - 1)) 20 = 84 - w"
    using prefix_fits(2)[OF assms(2,3)] assms(4) by (simp add: HUMAN_OUTPUT_WIDTH_def)
  have "text_fits 88 (out @ concat (map ((#) newline) ((?P @ l) # map ((@) ?Q) ls)))"
    using assms(1) p q by (intro text_fits_pushes) (auto simp: list_all_iff)
  moreover have "push_value w out (k, v) = out @ concat (map ((#) newline) ((?P @ l) # map ((@) ?Q) ls))"
    unfolding push_value_def push_wrapped_lines_def Let_def prod.case width ls(1) list.case concat_lines by simp
  ultimately show ?thesis by simp
qed

lemma key_values_fit:
  assumes "text_fits 88 title" "list_all (\<lambda>(k, v). label k) vs"
  shows "text_fits 88 (key_values title vs)"
proof -
  note w = key_width_bounds[OF assms(2)]
  have "text_fits 88 (foldl (push_value (key_width vs)) out xs)" if "text_fits 88 out" "set xs \<subseteq> set vs" for out xs
    using that
  proof (induction xs arbitrary: out)
    case (Cons x xs)
    obtain k v where x: "x = (k, v)" by fastforce
    then have "text_fits 88 (push_value (key_width vs) out x)"
      using Cons.prems w assms(2) by (auto intro!: push_value_fits simp: list_all_iff)
    with Cons show ?case by simp
  qed simp
  from this[OF assms(1)] show ?thesis by (simp add: key_values_def)
qed

lemma render_record_fits:
  assumes "list_all (\<lambda>(k, v). label k) vs"
  shows "text_fits 88 (render_record title vs)"
proof -
  have "list_all (text_fits 88) (wrap_text (clean_cell title) 86)"
    using wrap_text_fits[of 86 "clean_cell title"]
    by (auto simp: list_all_iff intro!: text_fits_line intro: fits_mono[of 86])
  then show ?thesis
    using wrap_text_fits[of 86 "clean_cell title"] assms
    by (auto simp: render_record_def HUMAN_OUTPUT_WIDTH_def intro!: key_values_fit text_fits_join)
qed

lemma str_lines_fit:
  assumes "text_fits n r" "l \<in> set (str_lines r)"
  shows "fits n l"
proof -
  let ?ps = "split_on newline r"
  have p: "fits n q" if "q \<in> set ?ps" for q
    using that assms(1) split_on_pieces[OF that] by (auto simp: text_fits_def fits_def list_all_iff)
  have s: "fits n (strip_return q)" if "fits n q" for q
    using that by (auto simp: strip_return_def fits_def dest: in_set_butlastD)
      (metis append_butlast_last_id char_count_mono le_trans)
  from assms(2) show ?thesis
    using p s last_in_set[of ?ps] by (auto simp: str_lines_def Let_def split: if_splits dest!: in_set_butlastD)
qed

lemma spaces_fit: "fits 2 ''  ''"
  by (simp add: fits_def char_count_def is_cont_def between_def byte_def)

lemma push_record_fits:
  assumes "text_fits 88 r" "text_fits 90 out"
  shows "text_fits 90 (out @ push_record r)"
proof -
  have "text_fits 90 (''  '' @ l)" if "l \<in> set (str_lines r)" for l
    using fits_append[OF spaces_fit, of 88 l] str_lines_fit[OF assms(1) that] by (intro text_fits_line) simp
  then have "text_fits 90 (join_with [newline] (map (\<lambda>l. ''  '' @ l) (str_lines r)))"
    by (cases "str_lines r = []") (auto intro!: text_fits_join simp: list_all_iff text_fits_line)
  moreover have "text_fits 90 []" by (simp add: text_fits_line)
  ultimately show ?thesis
    using assms(2) text_fits_append[of 90 out] text_fits_append[of 90 "[]"]
    by (simp add: push_record_def)
qed

lemma record_list_fits:
  assumes "text_fits 90 title" "fits 88 none" "list_all (text_fits 88) records"
  shows "text_fits 90 (record_list title records none)"
proof -
  have "text_fits 90 (out @ concat (map push_record rs))"
    if "text_fits 90 out" "list_all (text_fits 88) rs" for out rs
    using that
  proof (induction rs arbitrary: out)
    case (Cons r rs)
    from Cons.IH[OF push_record_fits] Cons.prems show ?case by simp
  qed simp
  moreover have "text_fits 90 (title @ [newline] @ ''  '' @ none)"
    using assms(1) fits_append[OF spaces_fit assms(2)] by (simp add: text_fits_append text_fits_line)
  ultimately show ?thesis using assms by (simp add: record_list_def)
qed

end
