(* ===== verification/Elevation.thy ===== *)
theory Elevation
  imports Effects Wide Model
begin

text \<open>
  \<open>crates/netplan/src/windows_elevation.rs\<close>: the elevation state of the process token, the start of an
  executable through the UAC \<open>runas\<close> verb, and the quoting of its arguments into one command line,
  with the proof that the documented parsing rules of Windows give the arguments back.
\<close>

section \<open>Arguments and errors\<close>

text \<open>An \<open>OsStr\<close> on Windows is the list of its \<open>encode_wide\<close> units, which need not be valid UTF-16.\<close>

type_synonym os_str = "16 word list"

text \<open>\<open>std::io::Error\<close>: its kind and its text.\<close>

type_synonym io_failure = "io_kind \<times> string"

definition nul_failure :: io_failure where
  "nul_failure = (InvalidInputKind, ''Windows paths and arguments cannot contain NUL characters'')"

definition wide_null :: "os_str \<Rightarrow> io_failure + os_str" where
  "wide_null v = (if 0 \<in> set v then Inl nul_failure else Inr (v @ [0]))"

section \<open>Quoting\<close>

definition QUOTE :: "16 word" where
  "QUOTE = 0x22"

definition SLASH :: "16 word" where
  "SLASH = 0x5C"

definition SPACE :: "16 word" where
  "SPACE = 0x20"

definition TAB :: "16 word" where
  "TAB = 9"

text \<open>The loop over the units of a quoted argument; \<open>n\<close> counts the backslashes not yet written.\<close>

fun quoted_units :: "nat \<Rightarrow> os_str \<Rightarrow> os_str" where
  "quoted_units n [] = replicate (n * 2) SLASH @ [QUOTE]"
| "quoted_units n (u # us) =
    (if u = SLASH then quoted_units (n + 1) us
     else if u = QUOTE then replicate (n * 2 + 1) SLASH @ QUOTE # quoted_units 0 us
     else replicate n SLASH @ u # quoted_units 0 us)"

definition is_plain :: "os_str \<Rightarrow> bool" where
  "is_plain v \<longleftrightarrow> v \<noteq> [] \<and> \<not> list_ex (\<lambda>u. u = TAB \<or> u = SPACE \<or> u = QUOTE) v"

definition append_quoted_argument :: "os_str \<Rightarrow> os_str \<Rightarrow> io_failure + os_str" where
  "append_quoted_argument out argument =
    (if 0 \<in> set argument then Inl nul_failure
     else if is_plain argument then Inr (out @ argument)
     else Inr (out @ QUOTE # quoted_units 0 argument))"

fun append_arguments :: "nat \<Rightarrow> os_str \<Rightarrow> os_str list \<Rightarrow> io_failure + os_str" where
  "append_arguments i out [] = Inr out"
| "append_arguments i out (a # as) =
    bindR (append_quoted_argument (out @ (if i \<noteq> 0 then [SPACE] else [])) a)
      (\<lambda>out'. append_arguments (i + 1) out' as)"

definition command_line :: "os_str list \<Rightarrow> io_failure + os_str" where
  "command_line as = bindR (append_arguments 0 [] as) (\<lambda>out. Inr (out @ [0]))"

section \<open>Parsing\<close>

text \<open>
  The specification the quoting is written for: the rules Microsoft documents for
  \<open>CommandLineToArgvW\<close> and the C runtime, on the part of the command line after the program name.
  Spaces and tabs outside quotes separate arguments; \<open>2n\<close> backslashes before a quote stand for \<open>n\<close>
  backslashes and the quote opens or closes a quoted part; \<open>2n + 1\<close> backslashes before a quote stand
  for \<open>n\<close> backslashes and a literal quote; other backslashes stand for themselves.  \<open>q\<close> says whether a
  quoted part is open, \<open>n\<close> counts pending backslashes, \<open>cur\<close> is the argument begun so far.
\<close>

fun parse_argv :: "bool \<Rightarrow> nat \<Rightarrow> os_str option \<Rightarrow> os_str \<Rightarrow> os_str list" where
  "parse_argv q n cur [] =
    (case cur of
       None \<Rightarrow> if n = 0 then [] else [replicate n SLASH]
     | Some a \<Rightarrow> [a @ replicate n SLASH])"
| "parse_argv q n cur (u # us) =
    (let a = (case cur of None \<Rightarrow> [] | Some a \<Rightarrow> a) in
     if u = SLASH then parse_argv q (n + 1) (Some a) us
     else if u = QUOTE then
       (if even n then parse_argv (\<not> q) 0 (Some (a @ replicate (n div 2) SLASH)) us
        else parse_argv q 0 (Some (a @ replicate (n div 2) SLASH @ [QUOTE])) us)
     else if \<not> q \<and> (u = SPACE \<or> u = TAB) then
       (if cur = None then parse_argv q 0 None us else (a @ replicate n SLASH) # parse_argv q 0 None us)
     else parse_argv q 0 (Some (a @ replicate n SLASH @ [u])) us)"

definition arguments_of :: "os_str \<Rightarrow> os_str list" where
  "arguments_of line = parse_argv False 0 None line"

lemma unit_simps [simp]:
  "QUOTE \<noteq> SLASH" "SLASH \<noteq> QUOTE" "SPACE \<noteq> SLASH" "SPACE \<noteq> QUOTE" "QUOTE \<noteq> SPACE" "SLASH \<noteq> SPACE"
  "QUOTE \<noteq> 0" "SLASH \<noteq> 0" "SPACE \<noteq> 0" "QUOTE \<noteq> TAB" "SLASH \<noteq> TAB"
  by (simp_all add: QUOTE_def SLASH_def SPACE_def TAB_def)

text \<open>What follows an argument: the end of the line, or a space and further arguments.\<close>

fun rest_argv :: "os_str \<Rightarrow> os_str list" where
  "rest_argv [] = []"
| "rest_argv (u # us) = parse_argv False 0 None us"

lemma argv_slashes: "parse_argv q n (Some a) (replicate k SLASH @ us) = parse_argv q (n + k) (Some a) us"
  by (induction k arbitrary: n) (simp_all add: add.commute add.left_commute)

lemma argv_ends:
  "us = [] \<or> (\<exists>vs. us = SPACE # vs) \<Longrightarrow> parse_argv False n (Some a) us = (a @ replicate n SLASH) # rest_argv us"
  by auto

lemma argv_quoted:
  assumes "us = [] \<or> (\<exists>vs. us = SPACE # vs)"
  shows "parse_argv True 0 (Some a) (quoted_units n v @ us) = (a @ replicate n SLASH @ v) # rest_argv us"
proof (induction v arbitrary: n a)
  case Nil
  have "parse_argv True 0 (Some a) (quoted_units n [] @ us)
      = parse_argv False 0 (Some (a @ replicate n SLASH)) us"
    by (simp add: argv_slashes)
  with argv_ends[OF assms, of 0 "a @ replicate n SLASH"] show ?case by simp
next
  case (Cons u v)
  consider "u = SLASH" | "u = QUOTE" | "u \<noteq> SLASH" "u \<noteq> QUOTE" by blast
  then show ?case
  proof cases
    case 1
    then show ?thesis using Cons[of a "n + 1"] by (simp add: replicate_append_same)
  next
    case 2
    have "parse_argv True 0 (Some a) (quoted_units n (u # v) @ us)
        = parse_argv True 0 (Some (a @ replicate n SLASH @ [QUOTE])) (quoted_units 0 v @ us)"
      using 2 argv_slashes[of True 0 a "n * 2 + 1" "QUOTE # quoted_units 0 v @ us"]
      by simp
    then show ?thesis using Cons[of "a @ replicate n SLASH @ [QUOTE]" 0] 2 by simp
  next
    case 3
    have "parse_argv True 0 (Some a) (quoted_units n (u # v) @ us)
        = parse_argv True 0 (Some (a @ replicate n SLASH @ [u])) (quoted_units 0 v @ us)"
      using 3 argv_slashes[of True 0 a n "u # quoted_units 0 v @ us"] by simp
    then show ?thesis using Cons[of "a @ replicate n SLASH @ [u]" 0] by simp
  qed
qed

lemma argv_plain:
  assumes us: "us = [] \<or> (\<exists>vs. us = SPACE # vs)"
  shows "\<not> list_ex (\<lambda>u. u = TAB \<or> u = SPACE \<or> u = QUOTE) v \<Longrightarrow>
    parse_argv False n (Some a) (v @ us) = (a @ replicate n SLASH @ v) # rest_argv us"
proof (induction v arbitrary: n a)
  case Nil
  then show ?case using argv_ends[OF us, of n a] by simp
next
  case (Cons u v)
  then have u: "u \<noteq> TAB" "u \<noteq> SPACE" "u \<noteq> QUOTE" by simp_all
  show ?case
  proof (cases "u = SLASH")
    case True
    then show ?thesis using Cons.IH[of "n + 1" a] Cons.prems by (simp add: replicate_append_same)
  next
    case False
    then show ?thesis using Cons.IH[of 0 "a @ replicate n SLASH @ [u]"] Cons.prems u by simp
  qed
qed

definition quoted :: "os_str \<Rightarrow> os_str" where
  "quoted v = (if is_plain v then v else QUOTE # quoted_units 0 v)"

lemma argv_one:
  assumes "us = [] \<or> (\<exists>vs. us = SPACE # vs)"
  shows "parse_argv False 0 None (quoted v @ us) = v # rest_argv us"
proof (cases "is_plain v")
  case True
  then obtain u w where v: "v = u # w" by (auto simp: is_plain_def neq_Nil_conv)
  have "parse_argv False 0 None (v @ us) = parse_argv False 0 (Some []) (v @ us)"
    using True v by (auto simp: is_plain_def)
  then show ?thesis using True argv_plain[OF assms, of v 0 "[]"]
    by (simp add: quoted_def is_plain_def)
next
  case False
  then show ?thesis using argv_quoted[OF assms, of "[]" 0 v] by (simp add: quoted_def)
qed

fun line_of :: "nat \<Rightarrow> os_str list \<Rightarrow> os_str" where
  "line_of i [] = []"
| "line_of i (a # as) = (if i \<noteq> 0 then [SPACE] else []) @ quoted a @ line_of (i + 1) as"

lemma append_arguments_eq:
  "append_arguments i out as =
    (if list_ex (\<lambda>a. 0 \<in> set a) as then Inl nul_failure else Inr (out @ line_of i as))"
  by (induction as arbitrary: i out) (auto simp: append_quoted_argument_def quoted_def)

lemma line_of_next: "line_of (Suc i) as = [] \<and> as = [] \<or> (\<exists>vs. line_of (Suc i) as = SPACE # vs)"
  by (cases as) auto

lemma argv_line: "rest_argv (line_of (Suc i) as) = as \<and> parse_argv False 0 None (line_of 0 as) = as"
proof (induction as arbitrary: i)
  case (Cons a as)
  have s: "line_of (Suc j) as = [] \<or> (\<exists>vs. line_of (Suc j) as = SPACE # vs)" for j
    using line_of_next by blast
  show ?case using argv_one[OF s, of a] Cons by simp
qed simp

lemma quoted_units_no_nul: "0 \<notin> set v \<Longrightarrow> 0 \<notin> set (quoted_units n v)"
  by (induction n v rule: quoted_units.induct) (auto simp: set_replicate_conv_if)

lemma line_of_no_nul: "\<not> list_ex (\<lambda>a. 0 \<in> set a) as \<Longrightarrow> 0 \<notin> set (line_of i as)"
  by (induction as arbitrary: i) (auto simp: quoted_def quoted_units_no_nul)

text \<open>C31: the command line \<open>command_line\<close> builds is NUL-terminated, has no other NUL, and the
  documented parsing rules split it into exactly the arguments it was built from; it fails exactly for
  an argument that contains a NUL.\<close>

theorem command_line_roundtrip:
  "case command_line as of
     Inr line \<Rightarrow> last line = 0 \<and> 0 \<notin> set (butlast line) \<and> arguments_of (butlast line) = as
   | Inl e \<Rightarrow> e = nul_failure \<and> list_ex (\<lambda>a. 0 \<in> set a) as"
  using argv_line[of 0 as] line_of_no_nul[of as 0]
  by (simp add: command_line_def append_arguments_eq arguments_of_def)

section \<open>Elevation\<close>

text \<open>
  The Windows calls: the process token (the elevation flag and the bytes returned), the shell, waiting,
  and the environment of the process; handles are numbers.  The error of a call of the \<open>windows\<close> crate
  is its code and its text.
\<close>

record 'w shell =
  sh_open_token :: "('w, 32 word \<times> string, nat) eff"
  sh_token_elevation :: "nat \<Rightarrow> ('w, 32 word \<times> string, 32 word \<times> 32 word) eff"
  sh_close :: "nat \<Rightarrow> 'w \<Rightarrow> 'w"
  sh_current_dir :: "('w, io_failure, os_str) eff"
  sh_current_exe :: "('w, io_failure, os_str) eff"
  sh_execute :: "os_str \<Rightarrow> os_str \<Rightarrow> os_str \<Rightarrow> os_str \<Rightarrow> ('w, 32 word \<times> string, nat option) eff"
  sh_wait :: "nat \<Rightarrow> 'w \<Rightarrow> 32 word \<times> 'w"
  sh_last_error :: "'w \<Rightarrow> io_failure"
  sh_exit_code :: "nat \<Rightarrow> ('w, 32 word \<times> string, 32 word) eff"

definition WAIT_OBJECT_0 :: "32 word" where
  "WAIT_OBJECT_0 = 0"

definition WAIT_FAILED :: "32 word" where
  "WAIT_FAILED = 0xFFFFFFFF"

text \<open>\<open>HRESULT::from_win32(ERROR_CANCELLED)\<close>\<close>

definition HRESULT_CANCELLED :: "32 word" where
  "HRESULT_CANCELLED = 0x800704C7"

definition shell_error :: "32 word \<times> string \<Rightarrow> io_failure" where
  "shell_error e = (OtherKind, snd e)"

text \<open>A handle is closed when its owner goes out of scope, whatever the outcome.\<close>

definition owning :: "(nat \<Rightarrow> 'w \<Rightarrow> 'w) \<Rightarrow> nat \<Rightarrow> ('w, 'e, 'a) eff \<Rightarrow> ('w, 'e, 'a) eff" where
  "owning close handle m = (\<lambda>w. case m w of (r, w') \<Rightarrow> (r, close handle w'))"

text \<open>\<open>TOKEN_ELEVATION\<close> has four bytes.\<close>

definition is_elevated :: "'w shell \<Rightarrow> ('w, io_failure, bool) eff" where
  "is_elevated S =
    bindE (map_errE shell_error (sh_open_token S)) (\<lambda>token. owning (sh_close S) token
    (bindE (map_errE shell_error (sh_token_elevation S token)) (\<lambda>(elevated, returned).
      if returned < 4 then
        failE (InvalidDataKind, ''Windows returned an incomplete token elevation record'')
      else returnE (elevated \<noteq> 0))))"

definition execute_error :: "32 word \<times> string \<Rightarrow> io_failure" where
  "execute_error e =
    (if fst e = HRESULT_CANCELLED then
       (PermissionDeniedKind, ''administrator permission was not granted; UAC elevation was cancelled'')
     else shell_error e)"

definition await_exit :: "'w shell \<Rightarrow> nat \<Rightarrow> ('w, io_failure, 32 word option) eff" where
  "await_exit S process = (\<lambda>w.
    case sh_wait S process w of (result, w') \<Rightarrow>
      if result = WAIT_FAILED then (Inl (sh_last_error S w'), w')
      else if result \<noteq> WAIT_OBJECT_0 then
        (Inl (OtherKind, ''unexpected Windows wait result: '' @ show_nat (unat result)), w')
      else bindE (map_errE shell_error (sh_exit_code S process)) (\<lambda>code. returnE (Some code)) w')"

definition run_as_administrator ::
    "'w shell \<Rightarrow> os_str \<Rightarrow> os_str list \<Rightarrow> bool \<Rightarrow> ('w, io_failure, 32 word option) eff" where
  "run_as_administrator S executable arguments wait =
    bindE (liftE (wide_null (encode_utf16 ''runas''))) (\<lambda>verb.
    bindE (liftE (wide_null executable)) (\<lambda>file.
    bindE (liftE (command_line arguments)) (\<lambda>parameters.
    bindE (bindE (sh_current_dir S) (\<lambda>dir. liftE (wide_null dir))) (\<lambda>directory.
    bindE (map_errE execute_error (sh_execute S verb file parameters directory)) (\<lambda>handle.
    case handle of
      None \<Rightarrow> failE (OtherKind, ''Windows accepted the elevation request but returned no process handle'')
    | Some process \<Rightarrow> owning (sh_close S) process (if wait then await_exit S process else returnE None))))))"

end
