(* ===== verification/Service_Manager.thy ===== *)
theory Service_Manager
  imports Elevation Loops
begin

text \<open>
  The Windows service of the daemon, as the command line tool manages it: module \<open>windows\<close> of
  \<open>crates/netplan-cli/src/service.rs\<close> over the functions of the Service Control Manager it calls.
\<close>

section \<open>The Service Control Manager\<close>

text \<open>An error of a call: its Win32 code, when it has one, and its text.\<close>

type_synonym scm_failure = "32 word option \<times> string"

record 'w scm =
  sm_open_manager :: "32 word \<Rightarrow> ('w, scm_failure, nat) eff"
  sm_open_service :: "nat \<Rightarrow> os_str \<Rightarrow> 32 word \<Rightarrow> ('w, scm_failure, nat) eff"
  sm_change_config :: "nat \<Rightarrow> os_str \<Rightarrow> os_str \<Rightarrow> ('w, scm_failure, unit) eff"
  sm_create :: "nat \<Rightarrow> os_str \<Rightarrow> os_str \<Rightarrow> os_str \<Rightarrow> ('w, scm_failure, nat) eff"
  sm_start :: "nat \<Rightarrow> ('w, scm_failure, unit) eff"
  sm_control_stop :: "nat \<Rightarrow> ('w, scm_failure, unit) eff"
  sm_query :: "nat \<Rightarrow> ('w, scm_failure, 32 word) eff"
  sm_delete :: "nat \<Rightarrow> ('w, scm_failure, unit) eff"
  sm_close :: "nat \<Rightarrow> 'w \<Rightarrow> 'w"
  sm_now :: "'w \<Rightarrow> nat \<times> 'w"
  sm_sleep :: "nat \<Rightarrow> 'w \<Rightarrow> 'w"

definition ERROR_ACCESS_DENIED :: "32 word" where "ERROR_ACCESS_DENIED = 5"
definition ERROR_SERVICE_ALREADY_RUNNING :: "32 word" where "ERROR_SERVICE_ALREADY_RUNNING = 1056"
definition ERROR_SERVICE_DOES_NOT_EXIST :: "32 word" where "ERROR_SERVICE_DOES_NOT_EXIST = 1060"
definition ERROR_SERVICE_NOT_ACTIVE :: "32 word" where "ERROR_SERVICE_NOT_ACTIVE = 1062"

definition STATE_STOPPED :: "32 word" where "STATE_STOPPED = 1"
definition STATE_START_PENDING :: "32 word" where "STATE_START_PENDING = 2"
definition STATE_STOP_PENDING :: "32 word" where "STATE_STOP_PENDING = 3"
definition STATE_RUNNING :: "32 word" where "STATE_RUNNING = 4"

definition SC_MANAGER_CONNECT :: "32 word" where "SC_MANAGER_CONNECT = 1"
definition SC_MANAGER_CREATE_SERVICE :: "32 word" where "SC_MANAGER_CREATE_SERVICE = 2"
definition SERVICE_QUERY_STATUS :: "32 word" where "SERVICE_QUERY_STATUS = 4"
definition SERVICE_START :: "32 word" where "SERVICE_START = 0x10"
definition SERVICE_STOP :: "32 word" where "SERVICE_STOP = 0x20"
definition SERVICE_ALL_ACCESS :: "32 word" where "SERVICE_ALL_ACCESS = 0xF01FF"
definition DELETE_ACCESS :: "32 word" where "DELETE_ACCESS = 0x10000"

unbundle bit_operations_syntax

definition DAEMON_SERVICE_NAME :: string where
  "DAEMON_SERVICE_NAME = ''PENetpland''"

definition DAEMON_SERVICE_DISPLAY_NAME :: string where
  "DAEMON_SERVICE_DISPLAY_NAME = ''PE Netplan Daemon''"

definition service_binary_path :: "os_str \<Rightarrow> os_str" where
  "service_binary_path program = [QUOTE] @ program @ [QUOTE] @ encode_utf16 '' --service'' @ [0]"

definition service_error :: "string \<Rightarrow> scm_failure \<Rightarrow> string" where
  "service_error operation e =
    (if fst e = Some ERROR_ACCESS_DENIED then
       operation @ '' failed: access denied after UAC elevation; verify the account'' @ [CHR 0x27]
         @ ''s Administrator rights and local policy''
     else operation @ '' failed: '' @ snd e)"

section \<open>Handles\<close>

datatype service_open_error = Missing | Other string

definition scm_open_manager :: "'w scm \<Rightarrow> 32 word \<Rightarrow> ('w, string, nat) eff" where
  "scm_open_manager S access =
    map_errE (service_error ''open Windows Service Control Manager'') (sm_open_manager S access)"

definition service_open_failure :: "scm_failure \<Rightarrow> service_open_error" where
  "service_open_failure e =
    (if fst e = Some ERROR_SERVICE_DOES_NOT_EXIST then Missing
     else Other (service_error ''open PE Netplan service'' e))"

definition scm_open_service :: "'w scm \<Rightarrow> nat \<Rightarrow> 32 word \<Rightarrow> ('w, service_open_error, nat) eff" where
  "scm_open_service S manager access =
    map_errE service_open_failure (sm_open_service S manager (wide DAEMON_SERVICE_NAME) access)"

fun required_service :: "service_open_error \<Rightarrow> string" where
  "required_service Missing = ''PE Netplan service is not installed; run `netplan enable` first''"
| "required_service (Other e) = e"

definition open_required_service :: "'w scm \<Rightarrow> nat \<Rightarrow> 32 word \<Rightarrow> ('w, string, nat) eff" where
  "open_required_service S manager access = map_errE required_service (scm_open_service S manager access)"

definition query_state :: "'w scm \<Rightarrow> nat \<Rightarrow> ('w, string, 32 word) eff" where
  "query_state S service = map_errE (service_error ''query PE Netplan service'') (sm_query S service)"

section \<open>Waiting for a state\<close>

text \<open>Times are in milliseconds.\<close>

definition SERVICE_WAIT_TIMEOUT :: nat where
  "SERVICE_WAIT_TIMEOUT = 30000"

definition state_late :: "32 word \<Rightarrow> string" where
  "state_late desired = ''PE Netplan service did not reach state '' @ show_nat (unat desired)
     @ '' within '' @ show_nat (SERVICE_WAIT_TIMEOUT div 1000) @ '' seconds''"

definition state_round :: "'w scm \<Rightarrow> nat \<Rightarrow> 32 word \<Rightarrow> nat \<Rightarrow> 'w \<Rightarrow> ((string + unit) + unit) \<times> 'w" where
  "state_round S service desired deadline w =
    (case query_state S service w of
       (Inl e, w1) \<Rightarrow> (Inl (Inl e), w1)
     | (Inr current, w1) \<Rightarrow>
         if current = desired then (Inl (Inr ()), w1)
         else (case sm_now S w1 of (t, w2) \<Rightarrow>
           if deadline \<le> t then (Inl (Inl (state_late desired)), w2)
           else (Inr (), sm_sleep S 100 w2)))"

text \<open>301 pauses of 100 ms reach past the timeout, so 302 rounds are enough (\<open>state_wait_enough\<close>).\<close>

definition wait_for_state :: "'w scm \<Rightarrow> nat \<Rightarrow> 32 word \<Rightarrow> ('w, string, unit) eff" where
  "wait_for_state S service desired = (\<lambda>w.
    case sm_now S w of (start, w1) \<Rightarrow>
      repeat_bounded (state_round S service desired (start + SERVICE_WAIT_TIMEOUT))
        (Inl (state_late desired)) 302 w1)"

section \<open>Starting and stopping\<close>

definition tolerating :: "32 word \<Rightarrow> string \<Rightarrow> ('w, scm_failure, unit) eff \<Rightarrow> ('w, string, unit) eff" where
  "tolerating code operation m = (\<lambda>w.
    case m w of
      (Inr _, w') \<Rightarrow> (Inr (), w')
    | (Inl e, w') \<Rightarrow> (if fst e = Some code then Inr () else Inl (service_error operation e), w'))"

definition start_handle :: "'w scm \<Rightarrow> nat \<Rightarrow> ('w, string, unit) eff" where
  "start_handle S service =
    bindE (query_state S service) (\<lambda>state.
    if state = STATE_RUNNING then returnE ()
    else bindE
      (if state = STATE_STOP_PENDING then
         thenE (wait_for_state S service STATE_STOPPED) (returnE STATE_STOPPED)
       else returnE state) (\<lambda>state.
      if state = STATE_START_PENDING then wait_for_state S service STATE_RUNNING
      else thenE (tolerating ERROR_SERVICE_ALREADY_RUNNING ''start PE Netplan service'' (sm_start S service))
        (wait_for_state S service STATE_RUNNING)))"

definition stop_handle :: "'w scm \<Rightarrow> nat \<Rightarrow> ('w, string, unit) eff" where
  "stop_handle S service =
    bindE (query_state S service) (\<lambda>state.
    if state = STATE_STOPPED then returnE ()
    else if state = STATE_STOP_PENDING then wait_for_state S service STATE_STOPPED
    else thenE (tolerating ERROR_SERVICE_NOT_ACTIVE ''stop PE Netplan service'' (sm_control_stop S service))
      (wait_for_state S service STATE_STOPPED))"

section \<open>The operations\<close>

abbreviation scoped :: "'w scm \<Rightarrow> nat \<Rightarrow> ('w, 'e, 'a) eff \<Rightarrow> ('w, 'e, 'a) eff" where
  "scoped S \<equiv> owning (sm_close S)"

text \<open>The three outcomes of opening the service: open, missing (\<open>None\<close>), failed.\<close>

definition open_result :: "('w, service_open_error, nat) eff \<Rightarrow> ('w, string, nat option) eff" where
  "open_result m = (\<lambda>w.
    case m w of
      (Inr service, w') \<Rightarrow> (Inr (Some service), w')
    | (Inl Missing, w') \<Rightarrow> (Inr None, w')
    | (Inl (Other e), w') \<Rightarrow> (Inl e, w'))"

definition scm_is_installed :: "'w scm \<Rightarrow> ('w, string, bool) eff" where
  "scm_is_installed S =
    bindE (scm_open_manager S SC_MANAGER_CONNECT) (\<lambda>manager. scoped S manager
    (bindE (open_result (scm_open_service S manager SERVICE_QUERY_STATUS)) (\<lambda>service.
      case service of None \<Rightarrow> returnE False | Some s \<Rightarrow> scoped S s (returnE True))))"

definition scm_enable :: "'w scm \<Rightarrow> os_str \<Rightarrow> ('w, string, unit) eff" where
  "scm_enable S program =
    bindE (scm_open_manager S (SC_MANAGER_CONNECT OR SC_MANAGER_CREATE_SERVICE)) (\<lambda>manager. scoped S manager
    (bindE (open_result (scm_open_service S manager SERVICE_ALL_ACCESS)) (\<lambda>service.
      case service of
        Some s \<Rightarrow> scoped S s
          (thenE (map_errE (service_error ''update PE Netplan service'')
              (sm_change_config S s (service_binary_path program) (wide DAEMON_SERVICE_DISPLAY_NAME)))
            (start_handle S s))
      | None \<Rightarrow>
          bindE (map_errE (service_error ''install PE Netplan service'')
              (sm_create S manager (wide DAEMON_SERVICE_NAME) (wide DAEMON_SERVICE_DISPLAY_NAME)
                (service_binary_path program)))
            (\<lambda>s. scoped S s (start_handle S s)))))"

definition scm_disable :: "'w scm \<Rightarrow> ('w, string, unit) eff" where
  "scm_disable S =
    bindE (scm_open_manager S SC_MANAGER_CONNECT) (\<lambda>manager. scoped S manager
    (bindE (open_result (scm_open_service S manager (SERVICE_QUERY_STATUS OR SERVICE_STOP OR DELETE_ACCESS)))
      (\<lambda>service.
        case service of
          None \<Rightarrow> returnE ()
        | Some s \<Rightarrow> scoped S s
            (thenE (stop_handle S s) (map_errE (service_error ''remove PE Netplan service'') (sm_delete S s))))))"

definition scm_start :: "'w scm \<Rightarrow> ('w, string, unit) eff" where
  "scm_start S =
    bindE (scm_open_manager S SC_MANAGER_CONNECT) (\<lambda>manager. scoped S manager
    (bindE (open_required_service S manager (SERVICE_QUERY_STATUS OR SERVICE_START)) (\<lambda>s.
      scoped S s (start_handle S s))))"

definition scm_stop :: "'w scm \<Rightarrow> ('w, string, unit) eff" where
  "scm_stop S =
    bindE (scm_open_manager S SC_MANAGER_CONNECT) (\<lambda>manager. scoped S manager
    (bindE (open_required_service S manager (SERVICE_QUERY_STATUS OR SERVICE_STOP)) (\<lambda>s.
      scoped S s (stop_handle S s))))"

end
