(* ===== verification/Lifecycle.thy ===== *)
theory Lifecycle
  imports Service_Manager Json_Rpc Client
begin

text \<open>
  Starting and stopping the daemon from the command line: the lifecycle commands of
  \<open>crates/netplan-cli/src/service.rs\<close> and \<open>spawn_daemon\<close> of \<open>crates/netplan-cli/src/main.rs\<close>, over the
  client, the Service Control Manager, the shell and the process of the tool.
\<close>

section \<open>Paths\<close>

text \<open>
  The program path of a process is absolute and names a file; its separators are the slash and, on
  Windows, the backslash.  On other systems a unit stands for a byte.
\<close>

definition is_separator :: "bool \<Rightarrow> 16 word \<Rightarrow> bool" where
  "is_separator windows u \<longleftrightarrow> u = 0x2F \<or> (windows \<and> u = SLASH)"

text \<open>\<open>Path::with_file_name\<close>\<close>

definition with_file_name :: "bool \<Rightarrow> os_str \<Rightarrow> string \<Rightarrow> os_str" where
  "with_file_name windows path n =
    rev (dropWhile (\<lambda>u. \<not> is_separator windows u) (rev path)) @ encode_utf16 n"

text \<open>\<open>Path::display\<close> on Windows: an unpaired surrogate becomes U+FFFD.\<close>

fun decode_lossy :: "os_str \<Rightarrow> nat list" where
  "decode_lossy [] = []"
| "decode_lossy (u # us) =
    (if \<not> between 0xD800 0xDFFF (unat u) then unat u # decode_lossy us
     else if 0xDC00 \<le> unat u then 0xFFFD # decode_lossy us
     else (case us of
        [] \<Rightarrow> [0xFFFD]
      | v # vs \<Rightarrow>
          if between 0xDC00 0xDFFF (unat v) then
            (0x10000 + (unat u - 0xD800) * 1024 + (unat v - 0xDC00)) # decode_lossy vs
          else 0xFFFD # decode_lossy us))"

definition display_path :: "os_str \<Rightarrow> string" where
  "display_path path = text_of (decode_lossy path)"

section \<open>The environment of the tool\<close>

text \<open>
  The client and its endpoint, the clock, the shell, the service manager, and the file system and
  process calls; \<open>te_windows\<close> says which platform the tool was built for, and \<open>te_unix_default\<close> is the
  default endpoint of other platforms.
\<close>

record 'w tool =
  te_windows :: bool
  te_call :: "request \<Rightarrow> ('w, netplan_error, response) eff"
  te_endpoint :: string
  te_unix_default :: string
  te_sleep :: "nat \<Rightarrow> 'w \<Rightarrow> 'w"
  te_shell :: "'w shell"
  te_scm :: "'w scm"
  te_is_file :: "os_str \<Rightarrow> 'w \<Rightarrow> bool \<times> 'w"
  te_canonicalize :: "os_str \<Rightarrow> ('w, io_failure, os_str) eff"
  te_spawn :: "os_str \<Rightarrow> string list \<Rightarrow> ('w, io_failure, unit) eff"

definition DAEMON_WAIT_ATTEMPTS :: nat where
  "DAEMON_WAIT_ATTEMPTS = 100"

definition DAEMON_WAIT_INTERVAL :: nat where
  "DAEMON_WAIT_INTERVAL = millis 50"

section \<open>Starting the daemon\<close>

definition is_default_endpoint :: "'w tool \<Rightarrow> bool" where
  "is_default_endpoint E \<longleftrightarrow> te_endpoint E = DEFAULT_WINDOWS_ENDPOINT"

definition start_installed_service :: "'w tool \<Rightarrow> ('w, string, bool) eff" where
  "start_installed_service E =
    (if te_windows E \<and> is_default_endpoint E then
       bindE (scm_is_installed (te_scm E)) (\<lambda>installed.
       if installed then thenE (scm_start (te_scm E)) (returnE True) else returnE False)
     else returnE False)"

definition current_exe :: "'w tool \<Rightarrow> ('w, string, os_str) eff" where
  "current_exe E = map_errE snd (sh_current_exe (te_shell E))"

definition spawn_daemon_elevated :: "'w tool \<Rightarrow> ('w, string, unit) eff" where
  "spawn_daemon_elevated E =
    bindE (start_installed_service E) (\<lambda>started.
    if started then returnE ()
    else bindE (current_exe E) (\<lambda>current.
      let n = (if te_windows E then ''netpland.exe'' else ''netpland'');
          sibling = with_file_name (te_windows E) current n in
      (\<lambda>w. case te_is_file E sibling w of (found, w') \<Rightarrow>
        map_errE (\<lambda>e. ''failed to start netpland: '' @ snd e)
          (te_spawn E (if found then sibling else encode_utf16 n) [''--endpoint'', te_endpoint E]) w')))"

definition inspect_elevation :: "'w tool \<Rightarrow> ('w, string, bool) eff" where
  "inspect_elevation E =
    map_errE (\<lambda>e. ''failed to inspect Windows elevation state: '' @ snd e) (is_elevated (te_shell E))"

definition spawn_arguments :: "'w tool \<Rightarrow> os_str list" where
  "spawn_arguments E =
    map encode_utf16 [''--netplan-elevated-child'', ''--endpoint'', te_endpoint E, ''__autostart'']"

definition spawn_daemon :: "'w tool \<Rightarrow> ('w, string, unit) eff" where
  "spawn_daemon E =
    bindE (if te_windows E then inspect_elevation E else returnE True) (\<lambda>elevated.
    if elevated then spawn_daemon_elevated E
    else bindE (current_exe E) (\<lambda>current.
      bindE (map_errE (\<lambda>e. ''failed to elevate daemon startup: '' @ snd e)
          (run_as_administrator (te_shell E) current (spawn_arguments E) True)) (\<lambda>exit_code.
      case exit_code of
        Some code \<Rightarrow>
          if code = 0 then returnE ()
          else failE (''elevated daemon startup failed with exit code '' @ show_nat (unat code))
      | None \<Rightarrow> failE ''elevated daemon startup returned no exit code'')))"

section \<open>Probes\<close>

definition daemon_is_ready :: "ucd \<Rightarrow> 'w tool \<Rightarrow> ('w, string, bool) eff" where
  "daemon_is_ready U E = (\<lambda>w.
    case te_call E RqPing w of
      (Inr (RsPong v p), w') \<Rightarrow> (Inr True, w')
    | (Inr (RsError code message), w') \<Rightarrow>
        (Inl (''daemon rejected readiness probe ('' @ debug_error_code code @ ''): '' @ message), w')
    | (Inr response, w') \<Rightarrow>
        (Inl (''daemon returned an unexpected readiness response: '' @ debug_response U response), w')
    | (Inl e, w') \<Rightarrow> (if is_endpoint_absent e then Inr False else Inl (error_text e), w'))"

fun ready_loop :: "ucd \<Rightarrow> 'w tool \<Rightarrow> nat \<Rightarrow> string option \<Rightarrow> ('w, string, unit) eff" where
  "ready_loop U E 0 last_error =
    failE (case last_error of
        None \<Rightarrow> ''daemon did not become ready''
      | Some e \<Rightarrow> ''daemon did not become ready: '' @ e)"
| "ready_loop U E (Suc n) last_error = (\<lambda>w.
    case te_call E RqPing w of
      (Inr (RsPong v p), w') \<Rightarrow> (Inr (), w')
    | (Inr response, w') \<Rightarrow>
        ready_loop U E n (Some (''unexpected response: '' @ debug_response U response))
          (te_sleep E DAEMON_WAIT_INTERVAL w')
    | (Inl e, w') \<Rightarrow> ready_loop U E n (Some (error_text e)) (te_sleep E DAEMON_WAIT_INTERVAL w'))"

definition wait_until_ready :: "ucd \<Rightarrow> 'w tool \<Rightarrow> ('w, string, unit) eff" where
  "wait_until_ready U E = ready_loop U E DAEMON_WAIT_ATTEMPTS None"

fun stopped_loop :: "'w tool \<Rightarrow> nat \<Rightarrow> ('w, string, unit) eff" where
  "stopped_loop E 0 = failE ''daemon did not stop within 5 seconds''"
| "stopped_loop E (Suc n) = (\<lambda>w.
    case te_call E RqPing w of
      (Inr response, w') \<Rightarrow> stopped_loop E n (te_sleep E DAEMON_WAIT_INTERVAL w')
    | (Inl e, w') \<Rightarrow>
        if is_endpoint_absent e then (Inr (), w')
        else stopped_loop E n (te_sleep E DAEMON_WAIT_INTERVAL w'))"

definition wait_until_stopped :: "'w tool \<Rightarrow> ('w, string, unit) eff" where
  "wait_until_stopped E = stopped_loop E DAEMON_WAIT_ATTEMPTS"

definition shutdown_if_running :: "ucd \<Rightarrow> 'w tool \<Rightarrow> ('w, string, bool) eff" where
  "shutdown_if_running U E = (\<lambda>w.
    case te_call E RqShutdown w of
      (Inr RsShutdownAccepted, w') \<Rightarrow> thenE (wait_until_stopped E) (returnE True) w'
    | (Inr (RsError code message), w') \<Rightarrow>
        (Inl (''daemon rejected shutdown ('' @ debug_error_code code @ ''): '' @ message), w')
    | (Inr response, w') \<Rightarrow>
        (Inl (''daemon returned an unexpected shutdown response: '' @ debug_response U response), w')
    | (Inl e, w') \<Rightarrow>
        (if is_endpoint_absent e then Inr False
         else Inl (''daemon shutdown failed: '' @ error_text e
           @ ''; if this daemon predates lifecycle support, end the existing netpland process once and retry''), w'))"

section \<open>The lifecycle commands\<close>

datatype lifecycle_action = Enable | Disable | Start | Stop

record lifecycle_result =
  lr_action :: string
  lr_mode :: string
  lr_installed :: bool
  lr_state :: string
  lr_message :: string

definition require_default_service_endpoint :: "ucd \<Rightarrow> 'w tool \<Rightarrow> string + unit" where
  "require_default_service_endpoint U E =
    (let service_endpoint = (if te_windows E then DEFAULT_WINDOWS_ENDPOINT else te_unix_default E) in
     if te_endpoint E = service_endpoint then Inr ()
     else Inl (''Windows service installation uses the default endpoint '' @ debug_str U service_endpoint
       @ ''; remove --endpoint for enable/disable''))"

definition daemon_program :: "'w tool \<Rightarrow> ('w, string, os_str) eff" where
  "daemon_program E =
    bindE (current_exe E) (\<lambda>current.
    let sibling = with_file_name True current ''netpland.exe'' in
    (\<lambda>w. case te_is_file E sibling w of (found, w') \<Rightarrow>
      (if \<not> found then
         failE (''cannot install the service because sibling daemon '' @ display_path sibling @ '' does not exist'')
       else map_errE (\<lambda>e. ''failed to resolve '' @ display_path sibling @ '': '' @ snd e)
         (te_canonicalize E sibling)) w'))"

definition enable :: "ucd \<Rightarrow> 'w tool \<Rightarrow> ('w, string, lifecycle_result) eff" where
  "enable U E =
    thenE (liftE (require_default_service_endpoint U E))
    (if \<not> te_windows E then failE ''enable is only available on Windows''
     else
       bindE (scm_is_installed (te_scm E)) (\<lambda>installed.
       thenE (if installed then scm_stop (te_scm E) else returnE ())
       (bindE (shutdown_if_running U E) (\<lambda>_.
       bindE (daemon_program E) (\<lambda>program.
       thenE (scm_enable (te_scm E) program)
       (thenE (wait_until_ready U E)
         (returnE \<lparr>lr_action = ''enable'', lr_mode = ''windows-service'', lr_installed = True,
           lr_state = ''running'', lr_message = ''installed for automatic startup and started''\<rparr>)))))))"

definition disable :: "ucd \<Rightarrow> 'w tool \<Rightarrow> ('w, string, lifecycle_result) eff" where
  "disable U E =
    thenE (liftE (require_default_service_endpoint U E))
    (if \<not> te_windows E then failE ''disable is only available on Windows''
     else
       bindE (scm_is_installed (te_scm E)) (\<lambda>installed.
       thenE (if installed then scm_disable (te_scm E) else returnE ())
       (bindE (shutdown_if_running U E) (\<lambda>_.
         returnE \<lparr>lr_action = ''disable'', lr_mode = ''windows-service'', lr_installed = False,
           lr_state = ''stopped'', lr_message = ''stopped and removed from automatic startup''\<rparr>))))"

definition service_selected :: "'w tool \<Rightarrow> ('w, string, bool) eff" where
  "service_selected E =
    (if te_windows E \<and> is_default_endpoint E then scm_is_installed (te_scm E) else returnE False)"

definition background_running :: "string \<Rightarrow> lifecycle_result" where
  "background_running message = \<lparr>lr_action = ''start'', lr_mode = ''background-process'', lr_installed = False,
     lr_state = ''running'', lr_message = message\<rparr>"

definition start_daemon :: "ucd \<Rightarrow> 'w tool \<Rightarrow> ('w, string, lifecycle_result) eff" where
  "start_daemon U E =
    bindE (service_selected E) (\<lambda>installed.
    if installed then
      thenE (scm_start (te_scm E)) (thenE (wait_until_ready U E)
        (returnE \<lparr>lr_action = ''start'', lr_mode = ''windows-service'', lr_installed = True,
          lr_state = ''running'', lr_message = ''Windows service is running''\<rparr>))
    else bindE (daemon_is_ready U E) (\<lambda>ready.
      if ready then returnE (background_running ''daemon was already running'')
      else thenE (spawn_daemon E) (thenE (wait_until_ready U E)
        (returnE (background_running ''started sibling netpland in the background'')))))"

definition stop_daemon :: "ucd \<Rightarrow> 'w tool \<Rightarrow> ('w, string, lifecycle_result) eff" where
  "stop_daemon U E =
    bindE (service_selected E) (\<lambda>installed.
    thenE (if installed then scm_stop (te_scm E) else returnE ())
    (bindE (shutdown_if_running U E) (\<lambda>_.
      returnE \<lparr>lr_action = ''stop'',
        lr_mode = (if installed then ''windows-service'' else ''background-process''),
        lr_installed = installed, lr_state = ''stopped'',
        lr_message = (if installed then ''Windows service is stopped; automatic startup remains enabled''
          else ''background daemon is stopped'')\<rparr>)))"

fun lifecycle_execute :: "ucd \<Rightarrow> 'w tool \<Rightarrow> lifecycle_action \<Rightarrow> ('w, string, lifecycle_result) eff" where
  "lifecycle_execute U E Enable = enable U E"
| "lifecycle_execute U E Disable = disable U E"
| "lifecycle_execute U E Start = start_daemon U E"
| "lifecycle_execute U E Stop = stop_daemon U E"

text \<open>The host of the JSON-RPC gateway starts a missing daemon the same way.\<close>

definition tool_host :: "'w tool \<Rightarrow> ('w \<Rightarrow> nat \<times> 'w)
    \<Rightarrow> (nat \<Rightarrow> ('w, string, response) eff \<Rightarrow> 'w \<Rightarrow> (string + response) option \<times> 'w) \<Rightarrow> 'w host" where
  "tool_host E now timeout = \<lparr>ho_call = te_call E, ho_spawn = spawn_daemon E, ho_now = now,
     ho_sleep = te_sleep E, ho_timeout = timeout\<rparr>"

end
