(* ===== verification/Render.thy ===== *)
theory Render
  imports Text_Layout Lifecycle
begin

text \<open>
  The output of the command line tool, \<open>crates/netplan-cli/src/output.rs\<close>: errors, the two formats, and
  the text shown for every response of the daemon.
\<close>

section \<open>Errors and formats\<close>

datatype output_format = HumanOutput | JsonOutput

definition output_from_json :: "bool \<Rightarrow> output_format" where
  "output_from_json json = (if json then JsonOutput else HumanOutput)"

record cli_error =
  ce_code :: string
  ce_message :: string

definition cli_daemon_error :: "error_code \<Rightarrow> string \<Rightarrow> cli_error" where
  "cli_daemon_error code message = \<lparr>ce_code = error_code_name code, ce_message = message\<rparr>"

definition cli_error_from :: "string \<Rightarrow> cli_error" where
  "cli_error_from message = \<lparr>ce_code = ''cli_error'', ce_message = message\<rparr>"

definition cli_error_text :: "cli_error \<Rightarrow> string" where
  "cli_error_text e =
    (if ce_code e = ''cli_error'' then ce_message e else ce_code e @ '': '' @ ce_message e)"

text \<open>\<open>serde_json::to_string\<close> and \<open>to_string_pretty\<close>.\<close>

record serializer =
  sz_compact :: "json \<Rightarrow> string + string"
  sz_pretty :: "json \<Rightarrow> string + string"

definition render_error :: "serializer \<Rightarrow> cli_error \<Rightarrow> output_format \<Rightarrow> string" where
  "render_error Z e format =
    (case format of
       HumanOutput \<Rightarrow> ''netplan: '' @ cli_error_text e
     | JsonOutput \<Rightarrow>
         (case sz_compact Z (json_object [(''error'', json_object
             [(''code'', JStr (ce_code e)), (''message'', JStr (ce_message e))])]) of
            Inr rendered \<Rightarrow> rendered
          | Inl _ \<Rightarrow> ''{'' @ [dquote] @ ''error'' @ [dquote] @ '':{'' @ [dquote] @ ''message'' @ [dquote] @ '':''
              @ [dquote] @ ''output serialization failed'' @ [dquote] @ ''}}''))"

section \<open>Cells\<close>

definition option_text :: "string option \<Rightarrow> string" where
  "option_text v = (case v of Some t \<Rightarrow> if t = [] then ''-'' else t | None \<Rightarrow> ''-'')"

definition show_word :: "'a :: len word \<Rightarrow> string" where
  "show_word w = show_nat (unat w)"

definition format_addresses :: "ip_address_info list \<Rightarrow> string" where
  "format_addresses as =
    (let ts = map (\<lambda>a. ip_address a @ ''/'' @ show_word (ip_prefix_length a)) as in
     if ts = [] then ''-'' else join_with [newline] ts)"

definition wifi_security :: "bool option \<Rightarrow> string option \<Rightarrow> string option \<Rightarrow> string" where
  "wifi_security enabled authentication cipher =
    (case enabled of
       Some False \<Rightarrow> ''open''
     | Some True \<Rightarrow> or_else authentication ''secured'' @ ''/'' @ or_else cipher ''unknown''
     | None \<Rightarrow> ''-'')"

definition rate_text :: "32 word option \<Rightarrow> string" where
  "rate_text r = (case r of None \<Rightarrow> ''-'' | Some v \<Rightarrow> show_word v)"

definition wifi_rates :: "32 word option \<Rightarrow> 32 word option \<Rightarrow> string" where
  "wifi_rates rx tx =
    (if rx = None \<and> tx = None then ''-'' else rate_text rx @ ''/'' @ rate_text tx @ '' kbps'')"

definition format_duration :: "64 word \<Rightarrow> string" where
  "format_duration milliseconds =
    (if unat milliseconds < 1000 then show_word milliseconds @ '' ms''
     else
       let total = unat milliseconds div 1000; days = total div 86400; hours = total mod 86400 div 3600;
         minutes = total mod 3600 div 60; seconds = total mod 60;
         parts = (if 0 < days then [show_nat days @ ''d''] else [])
           @ (if 0 < hours then [show_nat hours @ ''h''] else [])
           @ (if 0 < minutes then [show_nat minutes @ ''m''] else []) in
       join_with '' '' (parts @ (if 0 < seconds \<or> parts = [] then [show_nat seconds @ ''s''] else [])))"

definition yes_no :: "bool \<Rightarrow> string" where
  "yes_no v = (if v then ''yes'' else ''no'')"

definition lifecycle_mode_name :: "string \<Rightarrow> string" where
  "lifecycle_mode_name mode =
    (if mode = ''windows-service'' then ''Windows service''
     else if mode = ''background-process'' then ''Background process'' else mode)"

fun human_capability_state :: "capability_state \<Rightarrow> string" where
  "human_capability_state Unavailable = ''unavailable''"
| "human_capability_state ReadOnly = ''read-only''"
| "human_capability_state DryRun = ''dry-run''"
| "human_capability_state Available = ''available''"

fun human_job_state :: "job_state \<Rightarrow> string" where
  "human_job_state JobQueued = ''queued''"
| "human_job_state JobRunning = ''running''"
| "human_job_state JobSucceeded = ''succeeded''"
| "human_job_state JobFailed = ''failed''"
| "human_job_state JobRolledBack = ''rolled-back''"

fun human_risk :: "operation_risk \<Rightarrow> string" where
  "human_risk RiskReadOnly = ''read-only''"
| "human_risk RiskLow = ''low''"
| "human_risk RiskConnectivity = ''connectivity''"
| "human_risk RiskDestructive = ''destructive''"

section \<open>Responses\<close>

definition counted :: "string \<Rightarrow> 'a list \<Rightarrow> string" where
  "counted title xs = title @ '' ('' @ show_nat (length xs) @ '')''"

definition push_capability :: "nat \<Rightarrow> string \<Rightarrow> capability \<Rightarrow> string" where
  "push_capability name_width out c =
    (let out' = out @ newline # ''  '' @ pad_right name_width (clean_cell (cap_name c)) @ ''  ''
       @ human_capability_state (cap_state c) in
     case cap_reason c of
       Some reason \<Rightarrow>
         if reason = [] then out'
         else push_wrapped_lines out' reason (newline # ''    '') (newline # ''    '') 4
     | None \<Rightarrow> out')"

definition render_capabilities :: "capability list \<Rightarrow> string" where
  "render_capabilities cs =
    (if cs = [] then ''Capabilities (0)'' @ newline # ''  No capabilities reported.''
     else foldl (push_capability (min (fold max (map (\<lambda>c. char_count (cap_name c)) cs) 0) 36))
       (counted ''Capabilities'' cs) cs)"

definition titled :: "32 word \<Rightarrow> string \<Rightarrow> string" where
  "titled i n = ''['' @ show_word i @ ''] '' @ n"

definition adapter_record :: "adapter_info \<Rightarrow> string" where
  "adapter_record a = render_record (titled (ai_if_index a) (ai_name a))
     [(''Status'', ai_status a), (''Kind'', if ai_hardware a then ''physical'' else ''virtual''),
      (''MAC'', option_text (ai_mac_address a)), (''IPv4'', format_addresses (ai_ipv4 a)),
      (''IPv6'', format_addresses (ai_ipv6 a)), (''Description'', option_text (ai_description a))]"

definition render_adapters :: "adapter_info list \<Rightarrow> string" where
  "render_adapters as = record_list (counted ''Adapters'' as) (map adapter_record as) ''No adapters reported.''"

definition wifi_interface_record :: "wifi_interface_status \<Rightarrow> string" where
  "wifi_interface_record i = render_record (titled (wi_if_index i) (wi_name i))
     [(''State'', wi_state i), (''SSID'', option_text (wi_ssid i)),
      (''Signal'', case wi_signal_quality i of None \<Rightarrow> ''-'' | Some s \<Rightarrow> show_word s @ ''%''),
      (''Security'', wifi_security (wi_security_enabled i) (wi_authentication i) (wi_cipher i)),
      (''Profile'', option_text (wi_profile_name i)),
      (''RX/TX'', wifi_rates (wi_rx_rate_kbps i) (wi_tx_rate_kbps i))]"

definition render_wifi_interfaces :: "wifi_interface_status list \<Rightarrow> string" where
  "render_wifi_interfaces is =
    record_list (counted ''Wi-Fi interfaces'' is) (map wifi_interface_record is) ''No Wi-Fi interfaces reported.''"

definition network_flags :: "wifi_network \<Rightarrow> string list" where
  "network_flags n = (if wn_connected n then [''connected''] else [])
     @ (if wn_profile_name n \<noteq> None then [''saved''] else [])
     @ (if \<not> wn_connectable n then [''blocked''] else [])"

definition wifi_network_record :: "wifi_network \<Rightarrow> string" where
  "wifi_network_record n = render_record (if wn_ssid n = [] then ''<hidden network>'' else wn_ssid n)
     [(''Signal'', show_word (wn_signal_quality n) @ ''%''),
      (''Security'', if wn_security_enabled n then wn_authentication n @ ''/'' @ wn_cipher n else ''open''),
      (''Interface'', wn_interface_name n @ '' ['' @ show_word (wn_interface_if_index n) @ '']''),
      (''Flags'', if network_flags n = [] then ''-'' else join_with '', '' (network_flags n))]"

definition blank_line :: string where
  "blank_line = [newline, newline]"

definition render_wifi_networks :: "bool \<Rightarrow> wifi_network list \<Rightarrow> string" where
  "render_wifi_networks refreshed ns =
    key_values ''Wi-Fi networks''
        [(''Scan refreshed'', yes_no refreshed), (''Networks'', show_nat (length ns))]
      @ blank_line
      @ record_list ''Network details'' (map wifi_network_record ns) ''No Wi-Fi networks reported.''"

definition render_validation :: "bool \<Rightarrow> validation_issue list \<Rightarrow> string" where
  "render_validation valid issues =
    (if valid then key_values ''Configuration validation'' [(''Status'', ''valid''), (''Issues'', ''0'')]
     else key_values ''Configuration validation''
         [(''Status'', ''invalid''), (''Issues'', show_nat (length issues))]
       @ blank_line
       @ record_list ''Diagnostics''
         (map (\<lambda>i. render_record (or_else (vi_path i) ''<document>'') [(''Message'', vi_message i)]) issues)
         ''No diagnostics reported.'')"

definition operation_record :: "nat \<Rightarrow> operation \<Rightarrow> string" where
  "operation_record i p = render_record (show_nat (i + 1) @ ''. '' @ op_summary p)
     [(''Risk'', human_risk (op_risk p)), (''Capability'', op_capability p), (''Target'', option_text (op_target p))]"

definition render_operations :: "string \<Rightarrow> operation list \<Rightarrow> string" where
  "render_operations title ps =
    record_list (counted title ps) (map (\<lambda>(i, p). operation_record i p) (enumerate 0 ps)) ''No operations required.''"

definition job_card :: "job_summary \<Rightarrow> string" where
  "job_card j = render_record (js_job_id j)
     [(''State'', human_job_state (js_state j)), (''Created (ms)'', show_word (js_created_at j)),
      (''Updated (ms)'', show_word (js_updated_at j)), (''Message'', option_text (js_message j))]"

fun render_human :: "response \<Rightarrow> cli_error + string" where
  "render_human (RsPong v p) = Inr (key_values ''PE Netplan daemon is ready''
     [(''Daemon version'', v), (''Protocol version'', show_word p)])"
| "render_human (RsDaemonStatus s) = Inr (key_values ''Daemon''
       [(''Version'', ds_daemon_version s), (''Protocol'', show_word (ds_protocol_version s)),
        (''Started (Unix ms)'', show_word (ds_started_at s)), (''Uptime'', format_duration (ds_uptime_ms s))]
     @ blank_line
     @ key_values ''Jobs''
       [(''Total'', show_word (ds_total_jobs s)), (''Queued'', show_word (ds_queued_jobs s)),
        (''Running'', show_word (ds_running_jobs s)), (''Succeeded'', show_word (ds_succeeded_jobs s)),
        (''Failed'', show_word (ds_failed_jobs s)), (''Rolled back'', show_word (ds_rolled_back_jobs s))])"
| "render_human (RsCapabilities cs) = Inr (render_capabilities cs)"
| "render_human (RsAdapters as) = Inr (render_adapters as)"
| "render_human (RsNetworkStatus at as ws e) = Inr (join_with blank_line
     ([key_values ''Network status'' [(''Captured (Unix ms)'', show_word at)], render_adapters as,
       render_wifi_interfaces ws]
      @ (case e of Some m \<Rightarrow> [key_values ''Wi-Fi warning'' [(''Details'', m)]] | None \<Rightarrow> [])))"
| "render_human (RsWifiStatus ws) = Inr (render_wifi_interfaces ws)"
| "render_human (RsWifiNetworks refreshed ns) = Inr (render_wifi_networks refreshed ns)"
| "render_human RsShutdownAccepted = Inr ''PE Netplan daemon is stopping''"
| "render_human (RsValidation valid issues) = Inr (render_validation valid issues)"
| "render_human (RsPlan ps) = Inr (render_operations ''Plan'' ps)"
| "render_human (RsApply job state ps) = Inr (key_values ''Apply job accepted''
       [(''Job ID'', job), (''State'', human_job_state state)]
     @ blank_line @ render_operations ''Planned operations'' ps)"
| "render_human (RsJobStatus job state message) = Inr (key_values ''Job status''
     [(''Job ID'', job), (''State'', human_job_state state), (''Message'', option_text message)])"
| "render_human (RsJobs jobs count_all) = Inr (key_values ''Jobs''
       [(''Matching'', show_word count_all), (''Displayed'', show_nat (length jobs))]
     @ blank_line @ record_list ''Job details'' (map job_card jobs) ''No jobs matched the query.'')"
| "render_human (RsError code message) = Inl (cli_daemon_error code message)"

definition render_response :: "serializer \<Rightarrow> response \<Rightarrow> output_format \<Rightarrow> cli_error + string" where
  "render_response Z response format =
    (case format of
       HumanOutput \<Rightarrow> render_human response
     | JsonOutput \<Rightarrow>
         (case response of
            RsError code message \<Rightarrow> Inl (cli_daemon_error code message)
          | _ \<Rightarrow> bindR (map_errR cli_error_from (response_value response))
              (\<lambda>v. map_errR cli_error_from (sz_pretty Z v))))"

definition render_lifecycle :: "serializer \<Rightarrow> lifecycle_result \<Rightarrow> output_format \<Rightarrow> cli_error + string" where
  "render_lifecycle Z r format =
    (case format of
       HumanOutput \<Rightarrow> Inr (key_values ''PE Netplan daemon''
         [(''Action'', lr_action r), (''Mode'', lifecycle_mode_name (lr_mode r)),
          (''Installed'', yes_no (lr_installed r)), (''State'', lr_state r), (''Details'', lr_message r)])
     | JsonOutput \<Rightarrow> map_errR cli_error_from (sz_pretty Z (json_object
         [(''action'', JStr (lr_action r)), (''mode'', JStr (lr_mode r)), (''installed'', JBool (lr_installed r)),
          (''state'', JStr (lr_state r)), (''message'', JStr (lr_message r))])))"

section \<open>Width\<close>

lemma labels:
  "list_all label [''Status'', ''Kind'', ''MAC'', ''IPv4'', ''IPv6'', ''Description'', ''State'', ''SSID'', ''Signal'',
     ''Security'', ''Profile'', ''RX/TX'', ''Interface'', ''Flags'']"
  by (simp add: label_def is_cont_def between_def byte_def)

lemma adapter_record_fits: "text_fits 88 (adapter_record a)"
  unfolding adapter_record_def using labels by (intro render_record_fits) simp

lemma show_nat_length: "n < 10 ^ Suc k \<Longrightarrow> length (show_nat n) \<le> Suc k"
proof (induction k arbitrary: n)
  case 0
  then show ?case by (simp add: show_nat.simps)
next
  case (Suc k)
  then have "n div 10 < 10 ^ Suc k" by (simp add: less_mult_imp_div_less)
  then show ?case using Suc.IH[of "n div 10"] show_nat.simps[of n] by (cases "n < 10") simp_all
qed

lemma show_nat_no_newline: "newline \<notin> set (show_nat n)"
  using show_nat_digits[of newline n] by (auto simp: is_ascii_digit_def between_def byte_def)

lemma counted_fits:
  assumes "length xs < 10 ^ 20" "newline \<notin> set title" "length title \<le> 60"
  shows "fits 83 (counted title xs)"
proof -
  have "length (show_nat (length xs)) \<le> 20" using show_nat_length[of "length xs" 19] assms(1) by simp
  then have "char_count (counted title xs) \<le> 83"
    using char_count_le[of "counted title xs"] assms(3) by (simp add: counted_def)
  then show ?thesis using assms(2) show_nat_no_newline by (simp add: fits_def counted_def)
qed

text \<open>Adapter cards stay inside 90 columns, whatever names, descriptions and addresses they hold.\<close>

theorem adapter_cards_fit:
  assumes "length as < 2 ^ 64"
  shows "text_fits 90 (render_adapters as)"
proof -
  have "length as < 10 ^ 20" using assms by (rule less_trans) simp
  then have "fits 83 (counted ''Adapters'' as)" by (intro counted_fits) simp_all
  then have "fits 90 (counted ''Adapters'' as)" by (rule fits_mono) simp
  then have "text_fits 90 (counted ''Adapters'' as)" by (rule text_fits_line)
  moreover have "fits 88 ''No adapters reported.''"
    using char_count_le[of "''No adapters reported.''"] by (simp add: fits_def)
  ultimately show ?thesis
    unfolding render_adapters_def by (intro record_list_fits) (simp_all add: adapter_record_fits list_all_iff)
qed

text \<open>An adapter with a description of 73 characters without a break.\<close>

definition wide_adapter :: adapter_info where
  "wide_adapter = \<lparr>ai_if_index = 7, ai_name = ''Ethernet'', ai_description = Some (replicate 73 CHR ''x''),
     ai_guid = None, ai_mac_address = None, ai_status = ''up'', ai_hardware = True, ai_ipv4 = [], ai_ipv6 = []\<rparr>"

theorem adapter_cards_fit_witness: "text_fits 90 (render_adapters [wide_adapter])"
  by (rule adapter_cards_fit) simp

text \<open>The width of 88 columns is not kept: a record is laid out for 88 columns and then indented by
  two.\<close>

theorem adapter_cards_overflow: "\<not> text_fits HUMAN_OUTPUT_WIDTH (render_adapters [wide_adapter])"
  by code_simp

end
