(* ===== verification/Shell_Words.thy ===== *)
theory Shell_Words
  imports Json_Rpc
begin

text \<open>
  The words of a line of the interactive prompt: \<open>split_command_line\<close> of
  \<open>crates/netplan-cli/src/interactive.rs\<close>, what quoting keeps, and what it loses.
\<close>

section \<open>The tokenizer\<close>

datatype quote = Unquoted | Single | Double

abbreviation single_quote :: string where
  "single_quote \<equiv> [CHR 0x27]"

abbreviation double_quote :: string where
  "double_quote \<equiv> [dquote]"

abbreviation slash :: string where
  "slash \<equiv> [backslash]"

text \<open>Whether a backslash escapes the next character.\<close>

definition escapes :: "quote \<Rightarrow> string \<Rightarrow> bool" where
  "escapes q next_char \<longleftrightarrow>
    next_char = slash \<or> (q = Double \<and> next_char = double_quote)
    \<or> (q = Unquoted \<and> (next_char = single_quote \<or> next_char = double_quote \<or> is_whitespace next_char))"

text \<open>
  One round of the loop on the next character \<open>c\<close> and the characters after it: the words so far, the
  word begun, the open quote, and the characters that are left (an escape takes two).
\<close>

definition split_step ::
    "string list \<Rightarrow> string \<Rightarrow> quote \<Rightarrow> string \<Rightarrow> string list \<Rightarrow> string list \<times> string \<times> quote \<times> string list" where
  "split_step words word q c cs =
    (if q = Unquoted \<and> c = single_quote then (words, word, Single, cs)
     else if q = Unquoted \<and> c = double_quote then (words, word, Double, cs)
     else if (q = Single \<and> c = single_quote) \<or> (q = Double \<and> c = double_quote) then (words, word, Unquoted, cs)
     else if q = Unquoted \<and> is_whitespace c then
       (if word \<noteq> [] then (words @ [word], [], q, cs) else (words, word, q, cs))
     else if q = Single then (words, word @ c, q, cs)
     else if c = slash then
       (case cs of
          [] \<Rightarrow> (words, word @ slash, q, cs)
        | next_char # rest \<Rightarrow>
            if escapes q next_char then (words, word @ next_char, q, rest)
            else (words, word @ slash, q, cs))
     else (words, word @ c, q, cs))"

lemma split_step_shorter: "split_step words word q c cs = (words', word', q', cs') \<Longrightarrow> length cs' \<le> length cs"
  by (auto simp: split_step_def split: if_splits list.splits)

function split_loop :: "string list \<Rightarrow> string \<Rightarrow> quote \<Rightarrow> string list \<Rightarrow> string list \<times> string \<times> quote" where
  "split_loop words word q [] = (words, word, q)"
| "split_loop words word q (c # cs) =
    (case split_step words word q c cs of (words', word', q', cs') \<Rightarrow> split_loop words' word' q' cs')"
  by pat_completeness auto
termination
  by (relation "measure (\<lambda>(words, word, q, cs). length cs)") (auto simp: less_Suc_eq_le split_step_shorter split: prod.splits)

definition split_command_line :: "string \<Rightarrow> string + string list" where
  "split_command_line line =
    (case split_loop [] [] Unquoted (scalars (strip_bom line)) of
       (words, word, q) \<Rightarrow>
         if q \<noteq> Unquoted then Inl ''unterminated quoted argument''
         else Inr (if word \<noteq> [] then words @ [word] else words))"

section \<open>Characters of joined text\<close>

lemma takeWhile_dropWhile_cont:
  "b = [] \<or> \<not> is_cont (hd b) \<Longrightarrow>
    takeWhile is_cont (cs @ b) = takeWhile is_cont cs \<and> dropWhile is_cont (cs @ b) = dropWhile is_cont cs @ b"
  by (cases b) (auto simp: takeWhile_append dropWhile_append takeWhile_eq_all_conv intro: takeWhile_eq_all_conv[THEN iffD2, symmetric])

lemma scalars_append: "b = [] \<or> \<not> is_cont (hd b) \<Longrightarrow> scalars (a @ b) = scalars a @ scalars b"
  by (induction a rule: scalars.induct) (simp_all add: takeWhile_dropWhile_cont)

lemma utf8_ok_starts: "utf8_ok s \<Longrightarrow> s = [] \<or> \<not> is_cont (hd s)"
  by (cases s) (auto simp: utf8_ok_Cons utf8_next_def utf8_width_def is_cont_def between_def Let_def split: if_splits)

lemma quote_no_cont [simp]: "\<not> is_cont CHR 0x27" "\<not> is_cont CHR '' ''"
  by (simp_all add: is_cont_def between_def byte_def)

lemma space_whitespace [simp]: "is_whitespace '' ''"
  by (simp add: byte_def)

section \<open>Words\<close>

text \<open>No word is empty, so an empty quoted argument disappears.\<close>

lemma split_step_nonempty:
  "split_step words word q c cs = (words', word', q', cs') \<Longrightarrow> [] \<notin> set words \<Longrightarrow> [] \<notin> set words'"
  by (auto simp: split_step_def split: if_splits list.splits)

lemma split_loop_nonempty:
  "split_loop words word q cs = (words', word', q') \<Longrightarrow> [] \<notin> set words \<Longrightarrow> [] \<notin> set words'"
proof (induction words word q cs rule: split_loop.induct)
  case (2 words word q c cs)
  obtain a b r d where "split_step words word q c cs = (a, b, r, d)" by (metis prod_cases4)
  with 2 split_step_nonempty show ?case by auto
qed simp

text \<open>A single-quoted text is taken as it is.\<close>

lemma split_loop_single:
  "single_quote \<notin> set xs \<Longrightarrow>
    split_loop words word Single (xs @ cs) = split_loop words (word @ concat xs) Single cs"
  by (induction xs arbitrary: word) (auto simp: split_step_def)

definition quoted_word :: "string \<Rightarrow> string" where
  "quoted_word w = single_quote @ w @ single_quote"

lemma scalars_quoted_word:
  assumes "utf8_ok w" "b = [] \<or> \<not> is_cont (hd b)"
  shows "scalars (quoted_word w @ b) = single_quote # scalars w @ single_quote # scalars b"
proof -
  have "scalars (single_quote @ w @ single_quote @ b) = scalars single_quote @ scalars (w @ single_quote @ b)"
    using utf8_ok_starts[OF assms(1)] by (intro scalars_append) (cases w; simp)
  moreover have "scalars (w @ single_quote @ b) = scalars w @ scalars (single_quote @ b)"
    by (intro scalars_append) simp
  moreover have "scalars (single_quote @ b) = scalars single_quote @ scalars b"
    using assms(2) by (intro scalars_append)
  ultimately show ?thesis by (simp add: quoted_word_def)
qed

lemma split_quoted_word:
  assumes "CHR 0x27 \<notin> set w" "utf8_ok w" "b = [] \<or> \<not> is_cont (hd b)"
  shows "split_loop words word Unquoted (scalars (quoted_word w @ b))
    = split_loop words (word @ w) Unquoted (scalars b)"
proof -
  have "single_quote \<notin> set (scalars w)"
  proof
    assume "single_quote \<in> set (scalars w)"
    then have "CHR 0x27 \<in> set (concat (scalars w))" unfolding set_concat by force
    with assms(1) show False by simp
  qed
  then show ?thesis
    using assms(2,3) by (simp add: scalars_quoted_word split_loop_single split_step_def del: append_assoc)
qed

lemma split_quoted_words:
  assumes "list_all (\<lambda>w. w \<noteq> [] \<and> utf8_ok w \<and> CHR 0x27 \<notin> set w) (w # ws)"
  shows "split_loop words [] Unquoted (scalars (join_with '' '' (map quoted_word (w # ws))))
    = (words @ butlast (w # ws), last (w # ws), Unquoted)"
  using assms
proof (induction ws arbitrary: words w)
  case Nil
  then show ?case using split_quoted_word[of w "[]" words "[]"] by simp
next
  case (Cons v vs)
  let ?r = "join_with '' '' (map quoted_word (v # vs))"
  have r: "?r = [] \<or> \<not> is_cont (hd ?r)"
    by (cases vs) (simp_all add: quoted_word_def)
  have "split_loop words [] Unquoted (scalars (quoted_word w @ '' '' @ ?r))
      = split_loop words w Unquoted (scalars ('' '' @ ?r))"
    using Cons.prems split_quoted_word[of w "'' '' @ ?r" words "[]"] by simp
  also have "scalars ('' '' @ ?r) = '' '' # scalars ?r"
    using scalars_append[OF r, of "'' ''"] by simp
  also have "split_loop words w Unquoted ('' '' # scalars ?r) = split_loop (words @ [w]) [] Unquoted (scalars ?r)"
    using Cons.prems by (simp add: split_step_def del: is_whitespace.simps)
  finally show ?case using Cons.IH[of v "words @ [w]"] Cons.prems by simp
qed

text \<open>Words in single quotes survive the prompt: a line made of non-empty UTF-8 words without
  single quotes, each in single quotes, is split into exactly these words; no line ever yields an empty
  word.\<close>

theorem quoted_words_roundtrip:
  "(list_all (\<lambda>w. w \<noteq> [] \<and> utf8_ok w \<and> CHR 0x27 \<notin> set w) ws \<longrightarrow>
      split_command_line (join_with '' '' (map quoted_word ws)) = Inr ws)
    \<and> (case split_command_line line of Inr words \<Rightarrow> [] \<notin> set words | Inl e \<Rightarrow> e = ''unterminated quoted argument'')"
proof
  show "list_all (\<lambda>w. w \<noteq> [] \<and> utf8_ok w \<and> CHR 0x27 \<notin> set w) ws \<longrightarrow>
      split_command_line (join_with '' '' (map quoted_word ws)) = Inr ws"
  proof
    assume ws: "list_all (\<lambda>w. w \<noteq> [] \<and> utf8_ok w \<and> CHR 0x27 \<notin> set w) ws"
    show "split_command_line (join_with '' '' (map quoted_word ws)) = Inr ws"
    proof (cases ws)
      case Nil
      then show ?thesis by (simp add: split_command_line_def strip_bom_def Let_def starts_with_prefix)
    next
      case (Cons v vs)
      have "strip_bom (join_with '' '' (map quoted_word ws)) = join_with '' '' (map quoted_word ws)"
        unfolding Cons by (cases vs) (simp_all add: strip_bom_def Let_def quoted_word_def starts_with_prefix)
      then show ?thesis
        using split_quoted_words[of v vs "[]"] ws Cons append_butlast_last_id[of "v # vs"]
          last_in_set[of "v # vs"]
        by (auto simp: split_command_line_def list_all_iff simp del: butlast.simps last.simps list.map)
    qed
  qed
  show "case split_command_line line of Inr words \<Rightarrow> [] \<notin> set words | Inl e \<Rightarrow> e = ''unterminated quoted argument''"
    using split_loop_nonempty[of "[]" "[]" Unquoted "scalars (strip_bom line)"]
    by (auto simp: split_command_line_def split: prod.splits)
qed

theorem quoted_words_roundtrip_witness:
  "split_command_line (join_with '' '' (map quoted_word [''validate'', ''a b'']))
    = Inr [''validate'', ''a b'']"
proof -
  have "list_all (\<lambda>w. w \<noteq> [] \<and> utf8_ok w \<and> CHR 0x27 \<notin> set w) [''validate'', ''a b'']"
    by (simp add: utf8_ok_ascii byte_def)
  then show ?thesis using quoted_words_roundtrip[of "[''validate'', ''a b'']" "[]"] by blast
qed

text \<open>Unquoted or in double quotes, the two backslashes that open a UNC path become one.\<close>

theorem unc_path_collapses:
  "split_command_line (''validate '' @ [backslash, backslash] @ ''server'' @ [backslash] @ ''lab.yaml'')
    = Inr [''validate'', [backslash] @ ''server'' @ [backslash] @ ''lab.yaml'']"
  by code_simp

end
