(* ===== verification/Cli.thy ===== *)
theory Cli
  imports Render Shell_Words
begin

text \<open>
  The command line tool: the commands and \<open>main\<close> of \<open>crates/netplan-cli/src/main.rs\<close>, and the
  interactive prompt of \<open>crates/netplan-cli/src/interactive.rs\<close>.  The parser \<open>clap\<close> derives from the
  types is a parameter; standard output and error are values.
\<close>

section \<open>Commands\<close>

datatype wifi_command =
    WifiStatusCommand "32 word option"
  | WifiScanCommand "32 word option" bool "32 word"

datatype command =
    CmdEnable
  | CmdDisable
  | CmdStart
  | CmdStop
  | CmdPing
  | CmdCapabilities
  | CmdAdapters
  | CmdStatus
  | CmdWifi wifi_command
  | CmdValidate string config_format
  | CmdPlan string config_format
  | CmdApply string config_format bool
  | CmdJob string
  | CmdRpc
  | CmdInteractive
  | CmdInternalAutostart

record arguments =
  ar_endpoint :: string
  ar_no_autostart :: bool
  ar_json :: bool
  ar_elevated_child :: bool
  ar_command :: command

text \<open>\<open>std::fs::read\<close>\<close>

type_synonym 'w reader = "string \<Rightarrow> ('w, io_failure, string) eff"

definition config_request ::
    "'w reader \<Rightarrow> string \<Rightarrow> config_action \<Rightarrow> config_format \<Rightarrow> bool \<Rightarrow> ('w, string, request) eff" where
  "config_request R path action format dry_run =
    bindE (map_errE (\<lambda>e. ''failed to read configuration '' @ path @ '': '' @ snd e) (R path))
      (\<lambda>document. returnE (RqConfig action format document dry_run))"

text \<open>What a command does: manage the daemon, start it, or send a request.\<close>

datatype command_step = Lifecycle lifecycle_action | Autostart | Send request | Unavailable_Here

fun step_of :: "'w reader \<Rightarrow> command \<Rightarrow> ('w, string, command_step) eff" where
  "step_of R CmdEnable = returnE (Lifecycle Enable)"
| "step_of R CmdDisable = returnE (Lifecycle Disable)"
| "step_of R CmdStart = returnE (Lifecycle Start)"
| "step_of R CmdStop = returnE (Lifecycle Stop)"
| "step_of R CmdInternalAutostart = returnE Autostart"
| "step_of R CmdPing = returnE (Send RqPing)"
| "step_of R CmdCapabilities = returnE (Send RqCapabilities)"
| "step_of R CmdAdapters = returnE (Send RqListAdapters)"
| "step_of R CmdStatus = returnE (Send RqNetworkStatus)"
| "step_of R (CmdWifi (WifiStatusCommand i)) = returnE (Send (RqWifiStatus i))"
| "step_of R (CmdWifi (WifiScanCommand i cached timeout)) = returnE (Send (RqWifiScan i (\<not> cached) timeout))"
| "step_of R (CmdValidate path format) =
    bindE (config_request R path ActValidate format True) (\<lambda>rq. returnE (Send rq))"
| "step_of R (CmdPlan path format) =
    bindE (config_request R path ActPlan format True) (\<lambda>rq. returnE (Send rq))"
| "step_of R (CmdApply path format live) =
    bindE (config_request R path ActApply format (\<not> live)) (\<lambda>rq. returnE (Send rq))"
| "step_of R (CmdJob job) = returnE (Send (RqJobStatus job))"
| "step_of R CmdRpc = returnE Unavailable_Here"
| "step_of R CmdInteractive = returnE Unavailable_Here"

text \<open>The call starts a missing daemon with \<open>spawn_daemon\<close>; its clock and time limit are not used.\<close>

definition call_starting :: "'w tool \<Rightarrow> request \<Rightarrow> bool \<Rightarrow> ('w, string, response) eff" where
  "call_starting E rq no_autostart =
    call_with_autostart (tool_host E (\<lambda>w. (0, w)) (\<lambda>d m w. (None, w))) rq no_autostart"

text \<open>The result is the text to print, when there is one.\<close>

fun perform ::
    "ucd \<Rightarrow> serializer \<Rightarrow> 'w tool \<Rightarrow> bool \<Rightarrow> output_format \<Rightarrow> command_step \<Rightarrow> ('w, cli_error, string option) eff" where
  "perform U Z E no_autostart format (Lifecycle action) =
    bindE (map_errE cli_error_from (lifecycle_execute U E action)) (\<lambda>r.
      liftE (mapR Some (render_lifecycle Z r format)))"
| "perform U Z E no_autostart format Autostart =
    thenE (map_errE cli_error_from (spawn_daemon_elevated E)) (returnE None)"
| "perform U Z E no_autostart format (Send rq) =
    bindE (map_errE cli_error_from (call_starting E rq no_autostart)) (\<lambda>response.
      liftE (mapR Some (render_response Z response format)))"
| "perform U Z E no_autostart format Unavailable_Here =
    failE (cli_error_from ''command is unavailable inside interactive dispatch'')"

definition run_command ::
    "ucd \<Rightarrow> serializer \<Rightarrow> 'w reader \<Rightarrow> 'w tool \<Rightarrow> command \<Rightarrow> bool \<Rightarrow> output_format
      \<Rightarrow> ('w, cli_error, string option) eff" where
  "run_command U Z R E command no_autostart format =
    bindE (map_errE cli_error_from (step_of R command)) (perform U Z E no_autostart format)"

section \<open>Interactive mode\<close>

text \<open>\<open>pr_parse\<close> parses the words of a line after the program name: the \<open>--json\<close> flag and the command.\<close>

record prompt =
  pr_parse :: "string list \<Rightarrow> string + (bool \<times> command)"
  pr_help :: string

text \<open>What a line leads to: the end, nothing, the help, or a command with its format.\<close>

datatype line_action = Quit | Ignore | Help | Complain string | Execute command output_format

definition is_nested :: "command \<Rightarrow> bool" where
  "is_nested c \<longleftrightarrow> c = CmdInteractive \<or> c = CmdRpc"

definition read_line_action :: "prompt \<Rightarrow> output_format \<Rightarrow> string \<Rightarrow> line_action" where
  "read_line_action P default_output line =
    (let l = trim line in
     if l = [] then Ignore
     else if to_ascii_lowercase l \<in> {''exit'', ''quit''} then Quit
     else if eq_ignore_ascii_case l ''help'' then Help
     else (case split_command_line l of
        Inl e \<Rightarrow> Complain (''netplan: '' @ e @ [newline])
      | Inr words \<Rightarrow>
          (case pr_parse P words of
             Inl e \<Rightarrow> Complain e
           | Inr (json, c) \<Rightarrow>
               if is_nested c then
                 Complain (''netplan: nested interactive and rpc modes are not supported'' @ [newline])
               else Execute c (if json then JsonOutput else default_output))))"

text \<open>A line written by the tool, to standard output or standard error.\<close>

datatype printed = Out string | Err string

definition printed_result :: "serializer \<Rightarrow> output_format \<Rightarrow> cli_error + string option \<Rightarrow> printed list" where
  "printed_result Z format r =
    (case r of
       Inl e \<Rightarrow> [Err (render_error Z e format @ [newline])]
     | Inr None \<Rightarrow> []
     | Inr (Some text') \<Rightarrow> [Out (text' @ [newline])])"

definition banner :: string where
  "banner = ''PE Netplan interactive mode. Type '' @ [CHR 0x27] @ ''help'' @ [CHR 0x27] @ '' or '' @ [CHR 0x27]
     @ ''exit'' @ [CHR 0x27] @ ''.'' @ [newline]"

text \<open>
  The loop over the lines of the input, each a line or the error of reading it; the end of the list is
  the end of the input.  The result is the outcome, the state and what was printed.
\<close>

fun prompt_loop ::
    "ucd \<Rightarrow> serializer \<Rightarrow> 'w reader \<Rightarrow> prompt \<Rightarrow> 'w tool \<Rightarrow> bool \<Rightarrow> output_format \<Rightarrow> (string + string) list
      \<Rightarrow> printed list \<Rightarrow> 'w \<Rightarrow> (string + unit) \<times> printed list \<times> 'w" where
  "prompt_loop U Z R P E no_autostart format [] out w = (Inr (), out @ [Out ''netplan> ''], w)"
| "prompt_loop U Z R P E no_autostart format (Inl e # ls) out w = (Inl e, out @ [Out ''netplan> ''], w)"
| "prompt_loop U Z R P E no_autostart format (Inr line # ls) out w =
    (let out' = out @ [Out ''netplan> ''] in
     case read_line_action P format line of
       Quit \<Rightarrow> (Inr (), out', w)
     | Ignore \<Rightarrow> prompt_loop U Z R P E no_autostart format ls out' w
     | Help \<Rightarrow> prompt_loop U Z R P E no_autostart format ls (out' @ [Out (pr_help P), Out [newline]]) w
     | Complain m \<Rightarrow> prompt_loop U Z R P E no_autostart format ls (out' @ [Err m]) w
     | Execute c f \<Rightarrow>
         (case run_command U Z R E c no_autostart f w of
            (r, w') \<Rightarrow> prompt_loop U Z R P E no_autostart format ls (out' @ printed_result Z f r) w'))"

definition serve_prompt ::
    "ucd \<Rightarrow> serializer \<Rightarrow> 'w reader \<Rightarrow> prompt \<Rightarrow> 'w tool \<Rightarrow> bool \<Rightarrow> output_format \<Rightarrow> (string + string) list
      \<Rightarrow> 'w \<Rightarrow> (string + unit) \<times> printed list \<times> 'w" where
  "serve_prompt U Z R P E no_autostart format ls w =
    prompt_loop U Z R P E no_autostart format ls [Out banner] w"

section \<open>The process\<close>

text \<open>\<open>argv\<close> are the arguments of the process after its name.\<close>

definition elevate_cli_if_needed ::
    "'w tool \<Rightarrow> arguments \<Rightarrow> os_str list \<Rightarrow> ('w, string, bool option) eff" where
  "elevate_cli_if_needed E a argv =
    (if ar_elevated_child a \<or> ar_command a = CmdRpc \<or> ar_command a = CmdInternalAutostart then returnE None
     else bindE (inspect_elevation E) (\<lambda>elevated.
       if elevated then returnE None
       else bindE (current_exe E) (\<lambda>current.
         bindE (map_errE (\<lambda>e. ''failed to elevate netplan: '' @ snd e)
           (run_as_administrator (te_shell E) current (encode_utf16 ''--netplan-elevated-child'' # argv) True))
         (\<lambda>exit_code. returnE (Some (exit_code = Some 0))))))"

text \<open>
  \<open>run\<close>; \<open>serve_rpc\<close> stands for the loop over standard input of \<open>jsonrpc::serve\<close> (function \<open>serve\<close> of
  theory \<open>Json_Rpc\<close> over the host \<open>tool_host\<close>).
\<close>

definition run_cli ::
    "ucd \<Rightarrow> serializer \<Rightarrow> 'w reader \<Rightarrow> prompt \<Rightarrow> 'w tool \<Rightarrow> ('w \<Rightarrow> (string + unit) \<times> 'w) \<Rightarrow> (string + string) list
      \<Rightarrow> arguments \<Rightarrow> output_format \<Rightarrow> 'w \<Rightarrow> (cli_error + unit) \<times> printed list \<times> 'w" where
  "run_cli U Z R P E serve_rpc ls a format w =
    (if ar_command a = CmdRpc then
       (case (if te_windows E then inspect_elevation E else returnE True) w of
          (Inl e, w') \<Rightarrow> (Inl (cli_error_from e), [], w')
        | (Inr elevated, w') \<Rightarrow>
            if \<not> elevated then
              (Inl (cli_error_from (''netplan rpc must be launched by an elevated host; ''
                 @ ''UAC relaunch cannot preserve redirected JSON-RPC stdin/stdout'')), [], w')
            else (case serve_rpc w' of (r, w'') \<Rightarrow> (map_errR cli_error_from r, [], w'')))
     else if ar_command a = CmdInteractive then
       (case serve_prompt U Z R P E (ar_no_autostart a) format ls w of
          (r, out, w') \<Rightarrow> (map_errR cli_error_from r, out, w'))
     else (case run_command U Z R E (ar_command a) (ar_no_autostart a) format w of
        (Inl e, w') \<Rightarrow> (Inl e, [], w')
      | (Inr t, w') \<Rightarrow> (Inr (), printed_result Z format (Inr t), w')))"

text \<open>\<open>main\<close>: whether the process succeeds, what it prints, and the state.\<close>

definition main_cli ::
    "ucd \<Rightarrow> serializer \<Rightarrow> 'w reader \<Rightarrow> prompt \<Rightarrow> 'w tool \<Rightarrow> ('w \<Rightarrow> (string + unit) \<times> 'w) \<Rightarrow> (string + string) list
      \<Rightarrow> arguments \<Rightarrow> os_str list \<Rightarrow> 'w \<Rightarrow> bool \<times> printed list \<times> 'w" where
  "main_cli U Z R P E serve_rpc ls a argv w =
    (let format = output_from_json (ar_json a) in
     case (if te_windows E then elevate_cli_if_needed E a argv else returnE None) w of
       (Inl e, w') \<Rightarrow> (False, printed_result Z format (Inl (cli_error_from e)), w')
     | (Inr (Some success), w') \<Rightarrow> (success, [], w')
     | (Inr None, w') \<Rightarrow>
         (case run_cli U Z R P E serve_rpc ls a format w' of
            (Inr _, out, w'') \<Rightarrow> (True, out, w'')
          | (Inl e, out, w'') \<Rightarrow> (False, out @ printed_result Z format (Inl e), w'')))"

end
