(* ===== verification/Service_Facts.thy ===== *)
theory Service_Facts
  imports Service_Manager
begin

text \<open>
  Correctness of the service management: no handle stays open, a service reported as started or stopped
  was seen in that state, and the waiting loop ends.
\<close>

section \<open>Handles\<close>

text \<open>\<open>hs w\<close> are the handles open in \<open>w\<close>.\<close>

definition balanced :: "('w \<Rightarrow> nat multiset) \<Rightarrow> ('w, 'e, 'a) eff \<Rightarrow> bool" where
  "balanced hs m \<longleftrightarrow> (\<forall>w. hs (snd (m w)) = hs w)"

definition acquires :: "('w \<Rightarrow> nat multiset) \<Rightarrow> ('w, 'e, nat) eff \<Rightarrow> bool" where
  "acquires hs m \<longleftrightarrow>
    (\<forall>w. hs (snd (m w)) = (case fst (m w) of Inr h \<Rightarrow> add_mset h (hs w) | Inl e \<Rightarrow> hs w))"

text \<open>What Windows documents of the calls: opening adds a handle, closing removes it.\<close>

definition documented_scm :: "'w scm \<Rightarrow> ('w \<Rightarrow> nat multiset) \<Rightarrow> bool" where
  "documented_scm S hs \<longleftrightarrow>
    (\<forall>a. acquires hs (sm_open_manager S a))
    \<and> (\<forall>m n a. acquires hs (sm_open_service S m n a))
    \<and> (\<forall>m n d b. acquires hs (sm_create S m n d b))
    \<and> (\<forall>s b d. balanced hs (sm_change_config S s b d))
    \<and> (\<forall>s. balanced hs (sm_start S s) \<and> balanced hs (sm_control_stop S s))
    \<and> (\<forall>s. balanced hs (sm_query S s) \<and> balanced hs (sm_delete S s))
    \<and> (\<forall>h w. hs (sm_close S h w) = hs w - {#h#})
    \<and> (\<forall>w. hs (snd (sm_now S w)) = hs w) \<and> (\<forall>d w. hs (sm_sleep S d w) = hs w)"

named_theorems balance \<open>computations that leave no handle open\<close>

lemma balanced_return [balance]: "balanced hs (returnE a)"
  by (simp add: balanced_def returnE_def)

lemma balanced_bind [balance]: "balanced hs m \<Longrightarrow> (\<And>a. balanced hs (k a)) \<Longrightarrow> balanced hs (bindE m k)"
  by (simp add: balanced_def bindE_def split: prod.splits sum.splits) (metis snd_conv)

lemma balanced_then [balance]: "balanced hs m \<Longrightarrow> balanced hs n \<Longrightarrow> balanced hs (thenE m n)"
  unfolding thenE_def by (intro balance)

lemma balanced_map_err [balance]: "balanced hs m \<Longrightarrow> balanced hs (map_errE f m)"
  by (simp add: balanced_def map_errE_def split: prod.splits) (metis snd_conv)

lemma balanced_if [balance]: "balanced hs m \<Longrightarrow> balanced hs n \<Longrightarrow> balanced hs (if b then m else n)"
  by simp

lemma balanced_tolerating [balance]: "balanced hs m \<Longrightarrow> balanced hs (tolerating code operation m)"
  by (simp add: balanced_def tolerating_def split: prod.splits sum.splits) (metis snd_conv)

lemma acquires_map_err [balance]: "acquires hs m \<Longrightarrow> acquires hs (map_errE f m)"
  unfolding acquires_def map_errE_def
proof
  fix w
  assume acq: "\<forall>w. hs (snd (m w)) = (case fst (m w) of Inl e \<Rightarrow> hs w | Inr h \<Rightarrow> add_mset h (hs w))"
  obtain r w' where m: "m w = (r, w')" by fastforce
  with acq have "hs w' = (case r of Inl e \<Rightarrow> hs w | Inr h \<Rightarrow> add_mset h (hs w))" by (metis fst_conv snd_conv)
  with m show "hs (snd (case m w of (r, w') \<Rightarrow> (map_errR f r, w')))
      = (case fst (case m w of (r, w') \<Rightarrow> (map_errR f r, w')) of Inl e \<Rightarrow> hs w | Inr h \<Rightarrow> add_mset h (hs w))"
    by (cases r) simp_all
qed

lemma balanced_scope:
  assumes "\<And>h w. hs (close h w) = hs w - {#h#}" "acquires hs m" "\<And>h. balanced hs (k h)"
  shows "balanced hs (bindE m (\<lambda>h. owning close h (k h)))"
  unfolding balanced_def
proof
  fix w
  obtain r w1 where m: "m w = (r, w1)" by fastforce
  show "hs (snd (bindE m (\<lambda>h. owning close h (k h)) w)) = hs w"
  proof (cases r)
    case (Inl e)
    then show ?thesis using assms(2) m by (simp add: bindE_def acquires_def) (metis fst_conv snd_conv sum.case(1))
  next
    case (Inr h)
    have "hs w1 = add_mset h (hs w)"
      using assms(2) m Inr unfolding acquires_def by (metis fst_conv snd_conv sum.case(2))
    moreover have "hs (snd (k h w1)) = hs w1" using assms(3) by (simp add: balanced_def)
    ultimately show ?thesis using m Inr assms(1) by (cases "k h w1") (simp add: bindE_def owning_def)
  qed
qed

lemma balanced_open_result:
  assumes "\<And>h w. hs (close h w) = hs w - {#h#}" "acquires hs m" "balanced hs n" "\<And>h. balanced hs (k h)"
  shows "balanced hs (bindE (open_result m) (\<lambda>s. case s of None \<Rightarrow> n | Some h \<Rightarrow> owning close h (k h)))"
  unfolding balanced_def
proof
  fix w
  obtain r w1 where m: "m w = (r, w1)" by fastforce
  have close: "hs w1 = add_mset h (hs w) \<Longrightarrow> hs (snd (owning close h (k h) w1)) = hs w" for h
    using assms(1,4) by (simp add: balanced_def owning_def split: prod.splits) (metis add_mset_remove_trivial snd_conv)
  show "hs (snd (bindE (open_result m) (\<lambda>s. case s of None \<Rightarrow> n | Some h \<Rightarrow> owning close h (k h)) w)) = hs w"
  proof (cases r)
    case (Inl e)
    then have "hs w1 = hs w" using assms(2) m unfolding acquires_def by (metis fst_conv snd_conv sum.case(1))
    then show ?thesis using m Inl assms(3) by (cases e) (simp_all add: bindE_def open_result_def balanced_def)
  next
    case (Inr h)
    have "hs w1 = add_mset h (hs w)"
      using assms(2) m Inr unfolding acquires_def by (metis fst_conv snd_conv sum.case(2))
    then show ?thesis using m Inr close by (simp add: bindE_def open_result_def)
  qed
qed

lemma documented_close: "documented_scm S hs \<Longrightarrow> hs (sm_close S h w) = hs w - {#h#}"
  by (simp add: documented_scm_def)

lemma documented_calls:
  assumes "documented_scm S hs"
  shows "balanced hs (sm_query S s)" "balanced hs (sm_start S s)" "balanced hs (sm_control_stop S s)"
    "balanced hs (sm_delete S s)" "balanced hs (sm_change_config S s b d)"
    "acquires hs (sm_open_manager S a)" "acquires hs (sm_open_service S m n a)" "acquires hs (sm_create S m n d b)"
  using assms by (simp_all add: documented_scm_def)

lemma state_round_handles:
  assumes "documented_scm S hs"
  shows "hs (snd (state_round S service desired deadline w)) = hs w"
proof -
  have q: "hs (snd (query_state S service w)) = hs w"
    using balanced_map_err[OF documented_calls(1)[OF assms]] unfolding query_state_def balanced_def by blast
  have t: "hs (snd (sm_now S v)) = hs v" "hs (sm_sleep S d v) = hs v" for v d
    using assms by (simp_all add: documented_scm_def)
  show ?thesis
    using q t by (auto simp: state_round_def split: prod.splits sum.splits) (metis snd_conv)+
qed

lemma bounded_keeps:
  "(\<And>w. hs (snd (round w)) = hs w) \<Longrightarrow> hs (snd (repeat_bounded round late n w)) = hs w"
  by (induction n arbitrary: w) (auto split: prod.splits sum.splits, (metis snd_conv)+)

lemma balanced_wait:
  assumes "documented_scm S hs"
  shows "balanced hs (wait_for_state S service desired)"
  using bounded_keeps[of hs, OF state_round_handles[OF assms]] assms
  by (auto simp: balanced_def wait_for_state_def documented_scm_def split: prod.splits) (metis snd_conv)

lemma balanced_handles:
  assumes "documented_scm S hs"
  shows "balanced hs (start_handle S s)" "balanced hs (stop_handle S s)"
  unfolding start_handle_def stop_handle_def query_state_def
  by (intro balance balanced_wait documented_calls assms)+

text \<open>C34: managing the service leaves no handle of the Service Control Manager open: whatever fails on
  the way, each operation closes exactly the handles it opened.\<close>

theorem service_handles_balanced:
  assumes "documented_scm S hs"
  shows "hs (snd (scm_is_installed S w)) = hs w \<and> hs (snd (scm_enable S p w)) = hs w
    \<and> hs (snd (scm_disable S w)) = hs w \<and> hs (snd (scm_start S w)) = hs w \<and> hs (snd (scm_stop S w)) = hs w"
proof -
  note close = documented_close[OF assms] and calls = documented_calls[OF assms]
  note handles = balanced_handles[OF assms]
  have m: "acquires hs (scm_open_manager S a)" for a
    unfolding scm_open_manager_def by (intro balance calls)
  have s: "acquires hs (scm_open_service S h a)" for h a
    unfolding scm_open_service_def by (intro balance calls)
  have r: "acquires hs (open_required_service S h a)" for h a
    unfolding open_required_service_def by (intro balance s)
  have "balanced hs (scm_is_installed S)"
    unfolding scm_is_installed_def
    by (intro balanced_scope[OF close] balanced_open_result[OF close] balance m s)
  moreover have "balanced hs (scm_enable S p)"
  proof -
    have "balanced hs (bindE (map_errE f (sm_create S h n d b)) (\<lambda>s. scoped S s (start_handle S s)))" for f h n d b
      by (intro balanced_scope[OF close] balance handles calls)
    then show ?thesis
      unfolding scm_enable_def
      by (intro balanced_scope[OF close] m balanced_open_result[OF close] s balance handles calls)
  qed
  moreover have "balanced hs (scm_disable S)"
    unfolding scm_disable_def
    by (intro balanced_scope[OF close] balanced_open_result[OF close] balance m s handles calls)
  moreover have "balanced hs (scm_start S)" "balanced hs (scm_stop S)"
    unfolding scm_start_def scm_stop_def by (intro balanced_scope[OF close] m r handles)+
  ultimately show ?thesis by (simp add: balanced_def)
qed

section \<open>Waiting\<close>

text \<open>A clock of the service manager's caller: reading gives the time, sleeping takes it.\<close>

definition scm_clock :: "'w scm \<Rightarrow> ('w \<Rightarrow> nat) \<Rightarrow> bool" where
  "scm_clock S time \<longleftrightarrow>
    (\<forall>w. fst (sm_now S w) = time w \<and> time w \<le> time (snd (sm_now S w)))
    \<and> (\<forall>d w. time w + d \<le> time (sm_sleep S d w))
    \<and> (\<forall>s w. time w \<le> time (snd (sm_query S s w)))"

lemma state_round_advances:
  assumes "scm_clock S time"
  shows "advances time deadline 100 (state_round S service desired deadline)"
  unfolding advances_def
proof (intro allI impI)
  fix w w'
  assume round: "state_round S service desired deadline w = (Inr (), w')"
  obtain r w1 where q: "sm_query S service w = (r, w1)" by fastforce
  obtain t w2 where now: "sm_now S w1 = (t, w2)" by fastforce
  have "w' = sm_sleep S 100 w2" "t < deadline"
    using round q now
    by (auto simp: state_round_def query_state_def map_errE_def split: sum.splits if_splits)
  moreover have "time w \<le> time w1" "t = time w1" "time w1 \<le> time w2" "time w2 + 100 \<le> time (sm_sleep S 100 w2)"
    using assms q now unfolding scm_clock_def by (metis fst_conv snd_conv)+
  ultimately show "time w < deadline \<and> min (time w + 100) deadline \<le> time w'" unfolding min_def by (auto split: if_splits)
qed

lemma state_round_ok:
  "state_round S service desired deadline w = (Inl (Inr ()), w') \<Longrightarrow> \<exists>v. sm_query S service v = (Inr desired, w')"
  by (auto simp: state_round_def query_state_def map_errE_def ok_simps split: prod.splits sum.splits if_splits)

lemma wait_for_state_ok:
  "wait_for_state S service desired w = (Inr (), w') \<Longrightarrow> \<exists>v. sm_query S service v = (Inr desired, w')"
  by (auto simp: wait_for_state_def dest!: bounded_ok state_round_ok split: prod.splits)

text \<open>The wait for a service state ends: on a clock that advances the loop of \<open>wait_for_state\<close>
  returns with the result of its bounded form.\<close>

theorem state_wait_enough:
  assumes "scm_clock S time"
  shows "repeat_until (state_round S service desired (fst (sm_now S w) + SERVICE_WAIT_TIMEOUT)) (snd (sm_now S w))
    = Some (wait_for_state S service desired w)"
proof -
  obtain t w1 where now: "sm_now S w = (t, w1)" by fastforce
  have "t = time w" "time w \<le> time w1" using assms now unfolding scm_clock_def by (metis fst_conv snd_conv)+
  then have "t + SERVICE_WAIT_TIMEOUT \<le> time w1 + 301 * 100" by (simp add: SERVICE_WAIT_TIMEOUT_def)
  from rounds_enough[OF state_round_advances[OF assms] this] show ?thesis
    using now by (simp add: wait_for_state_def)
qed

text \<open>A service is reported as started only when its last query said running, and as stopped only
  when its last query said stopped.\<close>

theorem service_state_observed:
  "(start_handle S s w = (Inr (), w') \<longrightarrow> (\<exists>v. sm_query S s v = (Inr STATE_RUNNING, w')))
    \<and> (stop_handle S s w = (Inr (), w') \<longrightarrow> (\<exists>v. sm_query S s v = (Inr STATE_STOPPED, w')))"
  unfolding start_handle_def stop_handle_def thenE_def
  by (auto simp: bindE_ok_iff query_state_def map_errE_def returnE_def ok_simps
      dest!: wait_for_state_ok split: if_splits prod.splits sum.splits)

section \<open>A service manager\<close>

record scm_world =
  sw_state :: "32 word"
  sw_open :: "nat multiset"
  sw_time :: nat

definition opened :: "nat \<Rightarrow> scm_world \<Rightarrow> scm_world" where
  "opened h w = w\<lparr>sw_open := add_mset h (sw_open w)\<rparr>"

definition sample_scm :: "scm_world scm" where
  "sample_scm = \<lparr>sm_open_manager = \<lambda>a w. (Inr 1, opened 1 w),
     sm_open_service = \<lambda>m n a w. (Inr 2, opened 2 w),
     sm_change_config = \<lambda>s b d. returnE (),
     sm_create = \<lambda>m n d b w. (Inr 3, opened 3 w),
     sm_start = \<lambda>s w. (Inr (), w\<lparr>sw_state := STATE_RUNNING\<rparr>),
     sm_control_stop = \<lambda>s w. (Inr (), w\<lparr>sw_state := STATE_STOPPED\<rparr>),
     sm_query = \<lambda>s w. (Inr (sw_state w), w),
     sm_delete = \<lambda>s. failE (Some 5, ''denied''),
     sm_close = \<lambda>h w. w\<lparr>sw_open := sw_open w - {#h#}\<rparr>,
     sm_now = \<lambda>w. (sw_time w, w), sm_sleep = \<lambda>d w. w\<lparr>sw_time := sw_time w + d\<rparr>\<rparr>"

definition running_service :: scm_world where
  "running_service = \<lparr>sw_state = STATE_RUNNING, sw_open = {#}, sw_time = 7\<rparr>"

lemma sample_documented_scm: "documented_scm sample_scm sw_open"
  by (simp add: documented_scm_def sample_scm_def acquires_def balanced_def returnE_def failE_def opened_def)

theorem service_handles_balanced_witness: "sw_open (snd (scm_disable sample_scm running_service)) = {#}"
  using service_handles_balanced[OF sample_documented_scm, of running_service "[]"]
  by (simp add: running_service_def)

theorem state_wait_enough_witness:
  "repeat_until (state_round sample_scm 2 STATE_STOPPED (fst (sm_now sample_scm running_service) + SERVICE_WAIT_TIMEOUT))
      (snd (sm_now sample_scm running_service))
    = Some (wait_for_state sample_scm 2 STATE_STOPPED running_service)"
  by (rule state_wait_enough[where time = sw_time]) (simp add: scm_clock_def sample_scm_def)

lemma state_simps:
  "STATE_STOPPED = 1" "STATE_START_PENDING = 2" "STATE_STOP_PENDING = 3" "STATE_RUNNING = 4"
  by (simp_all add: STATE_STOPPED_def STATE_START_PENDING_def STATE_STOP_PENDING_def STATE_RUNNING_def)

lemma sample_stop:
  "stop_handle sample_scm 2 running_service = (Inr (), running_service\<lparr>sw_state := STATE_STOPPED\<rparr>)"
  by (simp add: stop_handle_def bindE_def thenE_def query_state_def map_errE_def sample_scm_def
      running_service_def state_simps tolerating_def wait_for_state_def repeat_bounded_numeral state_round_def)

theorem service_state_observed_witness:
  "\<exists>v. sm_query sample_scm 2 v = (Inr STATE_STOPPED, running_service\<lparr>sw_state := STATE_STOPPED\<rparr>)"
  using service_state_observed[of sample_scm 2 running_service "running_service\<lparr>sw_state := STATE_STOPPED\<rparr>"]
    sample_stop
  by simp

end
