(* ===== verification/Lifecycle_Facts.thy ===== *)
theory Lifecycle_Facts
  imports Lifecycle Service_Facts Sample
begin

text \<open>
  Correctness of the lifecycle commands: what they report was observed on the endpoint, and a readiness
  wait succeeds when the daemon answers in time.
\<close>

section \<open>Observations\<close>

definition answers_ping :: "'w tool \<Rightarrow> 'w \<Rightarrow> bool" where
  "answers_ping E w \<longleftrightarrow> (\<exists>v p w0. te_call E RqPing w0 = (Inr (RsPong v p), w))"

definition refuses :: "'w tool \<Rightarrow> 'w \<Rightarrow> bool" where
  "refuses E w \<longleftrightarrow> (\<exists>rq e w0. te_call E rq w0 = (Inl e, w) \<and> is_endpoint_absent e)"

lemma ready_loop_ok: "ready_loop U E n e w = (Inr (), w') \<Longrightarrow> answers_ping E w'"
proof (induction n arbitrary: e w)
  case (Suc n)
  then show ?case
    by (auto simp: answers_ping_def split: prod.splits sum.splits response.splits)
qed (simp add: failE_def)

lemma stopped_loop_ok: "stopped_loop E n w = (Inr (), w') \<Longrightarrow> refuses E w'"
proof (induction n arbitrary: w)
  case (Suc n)
  then show ?case
    by (auto simp: refuses_def split: prod.splits sum.splits if_splits)
qed (simp add: failE_def)

lemma shutdown_ok: "shutdown_if_running U E w = (Inr b, w') \<Longrightarrow> refuses E w'"
  unfolding shutdown_if_running_def wait_until_stopped_def thenE_def
  by (auto simp: bindE_ok_iff returnE_def dest: stopped_loop_ok
      split: prod.splits sum.splits response.splits if_splits)
    (auto simp: refuses_def)

lemma ready_ok: "daemon_is_ready U E w = (Inr True, w') \<Longrightarrow> answers_ping E w'"
  unfolding daemon_is_ready_def answers_ping_def
  by (auto split: prod.splits sum.splits response.splits if_splits)

lemma wait_ready_ok: "wait_until_ready U E w = (Inr (), w') \<Longrightarrow> answers_ping E w'"
  unfolding wait_until_ready_def by (rule ready_loop_ok)

text \<open>C35: a lifecycle command reports what it saw: \<open>enable\<close> and \<open>start\<close> end with the daemon answering a
  ping, \<open>disable\<close> and \<open>stop\<close> with a call that found the endpoint absent.\<close>

theorem lifecycle_observed:
  assumes "lifecycle_execute U E a w = (Inr r, w')"
  shows "(a \<in> {Enable, Start} \<and> lr_state r = ''running'' \<and> answers_ping E w')
    \<or> (a \<in> {Disable, Stop} \<and> lr_state r = ''stopped'' \<and> refuses E w')"
  using assms
  by (cases a)
    (auto simp: enable_def disable_def start_daemon_def stop_daemon_def background_running_def thenE_def
      bindE_ok_iff returnE_def failE_def dest: wait_ready_ok shutdown_ok ready_ok split: if_splits)

section \<open>Waiting for the daemon\<close>

text \<open>The states a probe loop goes through when its calls do not answer: one call and one pause each.\<close>

fun after_probes :: "'w tool \<Rightarrow> nat \<Rightarrow> 'w \<Rightarrow> 'w" where
  "after_probes E 0 w = w"
| "after_probes E (Suc n) w = after_probes E n (te_sleep E DAEMON_WAIT_INTERVAL (snd (te_call E RqPing w)))"

lemma ready_loop_live:
  "k < n \<Longrightarrow> te_call E RqPing (after_probes E k w) = (Inr (RsPong v p), w') \<Longrightarrow>
    \<exists>w''. ready_loop U E n e w = (Inr (), w'')"
proof (induction k arbitrary: n e w)
  case 0
  then show ?case by (cases n) simp_all
next
  case (Suc k)
  then obtain m where n: "n = Suc m" "k < m" by (cases n) auto
  obtain r w1 where c: "te_call E RqPing w = (r, w1)" by fastforce
  have "\<exists>w''. ready_loop U E m e' (te_sleep E DAEMON_WAIT_INTERVAL w1) = (Inr (), w'')" for e'
    using Suc.IH[OF n(2)] Suc.prems(2) c by simp
  then show ?case using n c by (auto split: sum.splits response.splits)
qed

text \<open>A daemon that answers one of the first 100 pings is found ready.\<close>

theorem ready_daemon_is_found:
  assumes "k < 100" "te_call E RqPing (after_probes E k w) = (Inr (RsPong v p), w')"
  shows "\<exists>w''. wait_until_ready U E w = (Inr (), w'') \<and> answers_ping E w''"
proof -
  obtain w'' where "ready_loop U E DAEMON_WAIT_ATTEMPTS None w = (Inr (), w'')"
    using ready_loop_live[of k 100 E w v p w' U None] assms unfolding DAEMON_WAIT_ATTEMPTS_def by blast
  then show ?thesis using ready_loop_ok[of U E DAEMON_WAIT_ATTEMPTS None w w''] by (auto simp: wait_until_ready_def)
qed

section \<open>A tool\<close>

text \<open>The daemon answers exactly while its service is running.\<close>

definition sample_shell :: "scm_world shell" where
  "sample_shell = \<lparr>sh_open_token = returnE 9, sh_token_elevation = \<lambda>h. returnE (1, 4), sh_close = \<lambda>h w. w,
     sh_current_dir = returnE [], sh_current_exe = returnE [], sh_execute = \<lambda>v f p d. returnE None,
     sh_wait = \<lambda>h w. (0, w), sh_last_error = \<lambda>w. nul_failure, sh_exit_code = \<lambda>h. returnE 0\<rparr>"

definition service_tool :: "scm_world tool" where
  "service_tool = \<lparr>te_windows = True,
     te_call = \<lambda>rq w. (if sw_state w = STATE_RUNNING then Inr (RsPong [] 1) else Inl (Io NotFound []), w),
     te_endpoint = DEFAULT_WINDOWS_ENDPOINT, te_unix_default = [],
     te_sleep = \<lambda>d w. w\<lparr>sw_time := sw_time w + d\<rparr>, te_shell = sample_shell, te_scm = sample_scm,
     te_is_file = \<lambda>p w. (False, w), te_canonicalize = \<lambda>p. failE nul_failure,
     te_spawn = \<lambda>p as. failE nul_failure\<rparr>"

definition stopped_service :: scm_world where
  "stopped_service = \<lparr>sw_state = STATE_STOPPED, sw_open = {#}, sw_time = 7\<rparr>"

lemma service_tool_fields:
  "te_windows service_tool = True" "te_scm service_tool = sample_scm"
  "te_endpoint service_tool = DEFAULT_WINDOWS_ENDPOINT"
  by (simp_all add: service_tool_def)

lemma sample_start:
  "lifecycle_execute sample_ucd service_tool Start stopped_service
    = (Inr \<lparr>lr_action = ''start'', lr_mode = ''windows-service'', lr_installed = True,
         lr_state = ''running'', lr_message = ''Windows service is running''\<rparr>, running_service)"
proof -
  have installed: "scm_is_installed sample_scm stopped_service = (Inr True, stopped_service)"
    by (simp add: scm_is_installed_def scm_open_manager_def scm_open_service_def open_result_def bindE_def map_errE_def
        owning_def returnE_def sample_scm_def opened_def stopped_service_def)
  have start: "start_handle sample_scm 2 (opened 2 (opened 1 stopped_service))
      = (Inr (), opened 2 (opened 1 running_service))"
    by (simp add: start_handle_def bindE_def thenE_def query_state_def map_errE_def sample_scm_def returnE_def
        opened_def stopped_service_def running_service_def state_simps tolerating_def wait_for_state_def
        repeat_bounded_numeral state_round_def)
  have "scm_start sample_scm stopped_service = (Inr (), running_service)"
  proof -
    have "sm_open_manager sample_scm a stopped_service = (Inr 1, opened 1 stopped_service)"
      "sm_open_service sample_scm h n a w = (Inr 2, opened 2 w)"
      "sm_close sample_scm h w = w\<lparr>sw_open := sw_open w - {#h#}\<rparr>" for a h n w
      by (simp_all add: sample_scm_def)
    then show ?thesis
      using start
      by (simp add: scm_start_def scm_open_manager_def open_required_service_def scm_open_service_def bindE_def
          map_errE_def owning_def) (simp add: opened_def running_service_def)
  qed
  moreover have "wait_until_ready sample_ucd service_tool running_service = (Inr (), running_service)"
    by (simp add: wait_until_ready_def DAEMON_WAIT_ATTEMPTS_def numeral_eq_Suc service_tool_def running_service_def)
  ultimately show ?thesis
    using installed
    by (simp add: start_daemon_def service_selected_def is_default_endpoint_def bindE_def thenE_def returnE_def
        service_tool_fields)
qed

theorem lifecycle_observed_witness: "answers_ping service_tool running_service"
  using lifecycle_observed[OF sample_start] by simp

theorem ready_daemon_is_found_witness:
  "\<exists>w''. wait_until_ready sample_ucd service_tool running_service = (Inr (), w'') \<and> answers_ping service_tool w''"
  by (rule ready_daemon_is_found[of 0]) (simp_all add: service_tool_def running_service_def)

end
