(* ===== verification/Cli_Facts.thy ===== *)
theory Cli_Facts
  imports Cli Lifecycle_Facts
begin

text \<open>
  Correctness of the command line tool: what it asks of the daemon, how it restarts itself with
  administrator rights, and how it reports failure.
\<close>

section \<open>Requests\<close>

lemma step_sends:
  assumes "step_of R c w = (Inr (Send rq), w')"
  shows "rq \<noteq> RqShutdown \<and>
    (\<exists>f d. rq = RqConfig ActApply f d False) = (\<exists>path f. c = CmdApply path f True)"
  using assms
  by (cases "(R, c)" rule: step_of.cases)
    (auto simp: returnE_def config_request_def bindE_ok_iff map_errE_def ok_simps split: prod.splits)

text \<open>A tool whose client gives up instead of sending some requests.\<close>

definition refusing :: "(request \<Rightarrow> bool) \<Rightarrow> 'w tool \<Rightarrow> 'w tool" where
  "refusing bad E = E\<lparr>te_call := \<lambda>rq w. if bad rq then (Inl (Daemon ''refused''), w) else te_call E rq w\<rparr>"

definition live_apply :: "request \<Rightarrow> bool" where
  "live_apply rq \<longleftrightarrow> (case rq of RqConfig ActApply f d dry_run \<Rightarrow> \<not> dry_run | _ \<Rightarrow> False)"

lemma refusing_fields [simp]:
  "te_windows (refusing bad E) = te_windows E" "te_endpoint (refusing bad E) = te_endpoint E"
  "te_sleep (refusing bad E) = te_sleep E" "te_shell (refusing bad E) = te_shell E"
  "te_scm (refusing bad E) = te_scm E" "te_is_file (refusing bad E) = te_is_file E"
  "te_spawn (refusing bad E) = te_spawn E"
  by (simp_all add: refusing_def)

lemma spawn_elevated_refusing [simp]: "spawn_daemon_elevated (refusing bad E) = spawn_daemon_elevated E"
  unfolding spawn_daemon_elevated_def start_installed_service_def current_exe_def is_default_endpoint_def
    refusing_fields ..

lemma spawn_refusing [simp]: "spawn_daemon (refusing bad E) = spawn_daemon E"
  unfolding spawn_daemon_def current_exe_def inspect_elevation_def spawn_arguments_def
    refusing_fields spawn_elevated_refusing ..

lemma host_fields [simp]:
  "ho_call (tool_host E n t) = te_call E" "ho_spawn (tool_host E n t) = spawn_daemon E"
  "ho_sleep (tool_host E n t) = te_sleep E"
  by (simp_all add: tool_host_def)

lemma call_not_refused [simp]: "\<not> bad rq \<Longrightarrow> te_call (refusing bad E) rq = te_call E rq"
  by (simp add: refusing_def)

lemma retry_refusing:
  "\<not> bad rq \<Longrightarrow> retry_call (tool_host (refusing bad E) n t) rq k e = retry_call (tool_host E n t) rq k e"
  by (induction k arbitrary: e) (auto simp: fun_eq_iff split: prod.splits sum.splits)

lemma call_refusing: "\<not> bad rq \<Longrightarrow> call_starting (refusing bad E) rq b = call_starting E rq b"
  unfolding call_starting_def call_with_autostart_def
  by (simp only: host_fields spawn_refusing call_not_refused retry_refusing not_False_eq_True)


section \<open>Elevation\<close>

text \<open>A shell that runs only a given executable with given arguments, and otherwise does \<open>X\<close>.\<close>

definition only_running ::
    "os_str \<Rightarrow> os_str list \<Rightarrow> ('w, 32 word \<times> string, nat option) eff \<Rightarrow> 'w shell \<Rightarrow> 'w shell" where
  "only_running executable arguments X S = S\<lparr>sh_execute := \<lambda>verb file parameters directory.
     if verb = wide ''runas'' \<and> file = executable @ [0] \<and> last parameters = 0
        \<and> arguments_of (butlast parameters) = arguments
     then sh_execute S verb file parameters directory else X\<rparr>"

lemma runas_units: "0 \<notin> set (encode_utf16 ''runas'')"
  by (subst encode_ascii) (simp_all add: ascii_text_def byte_def)

lemma command_line_faithful:
  "command_line as = Inr line \<Longrightarrow> last line = 0 \<and> arguments_of (butlast line) = as"
  using argv_line[of 0 as] by (auto simp: command_line_def append_arguments_eq arguments_of_def split: if_splits)

lemma runs_only: "run_as_administrator (only_running executable as X S) executable as wait
    = run_as_administrator S executable as wait"
proof -
  have exec: "sh_execute (only_running executable as X S) v f p d = sh_execute S v f p d"
    if "wide_null (encode_utf16 ''runas'') = Inr v" "wide_null executable = Inr f" "command_line as = Inr p" for v f p d
    using that command_line_faithful[OF that(3)]
    by (auto simp: only_running_def wide_null_def wide_def split: if_splits)
  have f: "sh_current_dir (only_running executable as X S) = sh_current_dir S"
    "sh_close (only_running executable as X S) = sh_close S"
    "sh_wait (only_running executable as X S) = sh_wait S"
    "sh_last_error (only_running executable as X S) = sh_last_error S"
    "sh_exit_code (only_running executable as X S) = sh_exit_code S"
    by (simp_all add: only_running_def)
  have other: "await_exit (only_running executable as X S) h = await_exit S h" for h
    unfolding await_exit_def f ..
  show ?thesis
    unfolding run_as_administrator_def other f
    by (cases "wide_null (encode_utf16 ''runas'')"; cases "wide_null executable"; cases "command_line as")
      (auto simp: liftE_def bindE_def exec fun_eq_iff split: prod.splits sum.splits)
qed

text \<open>The elevated copy is given the arguments of this process after the flag.\<close>

definition relaunch_arguments :: "os_str list \<Rightarrow> os_str list" where
  "relaunch_arguments process_arguments = encode_utf16 ''--netplan-elevated-child'' # process_arguments"

text \<open>C33: when the tool restarts itself with administrator rights, it runs its own executable, and the
  documented parsing rules give the copy the marker flag followed by exactly the arguments of this
  process; a process that carries the flag never restarts itself.\<close>

theorem relaunch_keeps_arguments:
  assumes "sh_current_exe (te_shell E) = returnE executable"
  shows "elevate_cli_if_needed (E\<lparr>te_shell := only_running executable (relaunch_arguments args) X (te_shell E)\<rparr>) a args
      = elevate_cli_if_needed E a args
    \<and> elevate_cli_if_needed E (a\<lparr>ar_elevated_child := True\<rparr>) args w = (Inr None, w)"
proof -
  let ?S = "only_running executable (relaunch_arguments args) X (te_shell E)"
  have exe: "current_exe E = returnE executable" "current_exe (E\<lparr>te_shell := ?S\<rparr>) = returnE executable"
    using assms by (simp_all add: current_exe_def only_running_def map_errE_def returnE_def)
  have elevated: "inspect_elevation (E\<lparr>te_shell := ?S\<rparr>) = inspect_elevation E"
    unfolding inspect_elevation_def is_elevated_def by (simp add: only_running_def)
  have shell: "te_shell (E\<lparr>te_shell := ?S\<rparr>) = ?S" by simp
  have "elevate_cli_if_needed (E\<lparr>te_shell := ?S\<rparr>) a args = elevate_cli_if_needed E a args"
    unfolding elevate_cli_if_needed_def relaunch_arguments_def[symmetric] exe elevated bindE_returnE shell runs_only ..
  then show ?thesis by (simp add: elevate_cli_if_needed_def returnE_def)
qed

section \<open>Failure\<close>

text \<open>The exit code tells the truth: outside interactive mode the process succeeds without an error
  line, or fails with exactly one line, the error in the format asked for; an elevated copy that ran
  instead decides the exit code and prints for itself.\<close>

theorem exit_code_reports_failure:
  assumes "main_cli U Z R P E serve_rpc ls a args w = (success, out, w')" "ar_command a \<noteq> CmdInteractive"
  shows "(success \<and> list_all (\<lambda>p. \<exists>t. p = Out t) out)
    \<or> (\<not> success \<and> (\<exists>e. out = [Err (render_error Z e (output_from_json (ar_json a)) @ [newline])]))
    \<or> (te_windows E \<and> out = [] \<and> elevate_cli_if_needed E a args w = (Inr (Some success), w'))"
  using assms
  by (auto simp: main_cli_def run_cli_def printed_result_def returnE_def Let_def
      split: prod.splits sum.splits option.splits if_splits)

section \<open>Examples\<close>

definition plain_serializer :: serializer where
  "plain_serializer = \<lparr>sz_compact = \<lambda>v. Inr [], sz_pretty = \<lambda>v. Inr []\<rparr>"

definition no_files :: "scm_world reader" where
  "no_files path = failE (NotFound, ''no such file'')"

definition user_tool :: "scm_world tool" where
  "user_tool = service_tool\<lparr>te_shell := sample_shell\<lparr>sh_token_elevation := \<lambda>h. returnE (0, 4)\<rparr>\<rparr>"

definition validate_arguments :: arguments where
  "validate_arguments = \<lparr>ar_endpoint = [], ar_no_autostart = True, ar_json = False, ar_elevated_child = True,
     ar_command = CmdValidate ''lab.yaml'' Auto\<rparr>"


theorem relaunch_keeps_arguments_witness:
  "elevate_cli_if_needed (user_tool\<lparr>te_shell := only_running [] (relaunch_arguments [encode_utf16 ''status'']) (returnE None)
      (te_shell user_tool)\<rparr>) validate_arguments [encode_utf16 ''status'']
    = elevate_cli_if_needed user_tool validate_arguments [encode_utf16 ''status'']"
  by (rule relaunch_keeps_arguments[THEN conjunct1])
    (simp add: user_tool_def service_tool_def sample_shell_def)

lemma validate_fails:
  "main_cli sample_ucd plain_serializer no_files \<lparr>pr_parse = \<lambda>ws. Inl [], pr_help = []\<rparr> user_tool
      (\<lambda>w. (Inr (), w)) [] validate_arguments [] running_service
    = (False, [Err (''netplan: failed to read configuration lab.yaml: no such file'' @ [newline])], running_service)"
  by (simp add: main_cli_def elevate_cli_if_needed_def validate_arguments_def returnE_def run_cli_def run_command_def
      bindE_def map_errE_def config_request_def no_files_def failE_def printed_result_def output_from_json_def
      render_error_def cli_error_from_def cli_error_text_def)

theorem exit_code_reports_failure_witness:
  "\<exists>e. [Err (''netplan: failed to read configuration lab.yaml: no such file'' @ [newline])]
    = [Err (render_error plain_serializer e HumanOutput @ [newline])]"
  using exit_code_reports_failure[OF validate_fails]
  by (simp add: validate_arguments_def output_from_json_def)

end
