(* ===== verification/Inventory.thy ===== *)
theory Inventory
  imports Selection Wide
begin

text \<open>
  The adapter inventory of Windows: \<open>enumerate_inventory\<close> and the traversals of
  \<open>crates/netpland/src/platform/windows.rs\<close> over the buffer that \<open>GetAdaptersAddresses\<close> fills with linked
  structures.
\<close>

section \<open>Memory\<close>

text \<open>A pointer is a number of 64 bits, 0 is null.  The structures the traversals read:\<close>

record raw_adapter =
  ra_next :: nat
  ra_if_index :: "32 word"
  ra_if_type :: "32 word"
  ra_oper_status :: nat
  ra_friendly_name :: nat
  ra_description :: nat
  ra_adapter_name :: nat
  ra_physical_address :: "8 word list"
  ra_physical_length :: "32 word"
  ra_first_unicast :: nat
  ra_first_gateway :: nat
  ra_first_dns :: nat
  ra_first_wins :: nat
  ra_flags :: "32 word"

record raw_unicast =
  ru_socket :: nat
  ru_prefix_length :: "8 word"
  ru_prefix_origin :: nat
  ru_next :: nat

record raw_node =
  rn_socket :: nat
  rn_next :: nat

text \<open>What a structure of each type, the address family of a socket address, or a text holds at an address.\<close>

record memory =
  me_adapter :: "nat \<Rightarrow> raw_adapter"
  me_unicast :: "nat \<Rightarrow> raw_unicast"
  me_gateway :: "nat \<Rightarrow> raw_node"
  me_dns :: "nat \<Rightarrow> raw_node"
  me_wins :: "nat \<Rightarrow> raw_node"
  me_family :: "nat \<Rightarrow> 16 word"
  me_inet :: "nat \<Rightarrow> ipv4_addr"
  me_inet6 :: "nat \<Rightarrow> ipv6_addr"
  me_wide :: "nat \<Rightarrow> 16 word list"
  me_ansi :: "nat \<Rightarrow> string"

text \<open>The sizes of the structures are those of the Windows headers for the target.\<close>

record layout =
  sz_adapter :: nat
  sz_unicast :: nat
  sz_gateway :: nat
  sz_dns :: nat
  sz_wins :: nat
  sz_sockaddr :: nat
  sz_inet :: nat
  sz_inet6 :: nat

record scope =
  sc_memory :: memory
  sc_layout :: layout
  sc_base :: nat
  sc_end :: nat

definition in_buffer :: "scope \<Rightarrow> nat \<Rightarrow> nat \<Rightarrow> bool" where
  "in_buffer S sz p \<longleftrightarrow> sc_base S \<le> p \<and> p + sz < 2 ^ 64 \<and> p + sz \<le> sc_end S"

definition ensure_in_buffer :: "scope \<Rightarrow> nat \<Rightarrow> nat \<Rightarrow> netplan_error + unit" where
  "ensure_in_buffer S sz p =
    (if in_buffer S sz p then Inr ()
     else Inl (Protocol ''Windows IP Helper returned an out-of-bounds pointer''))"

definition AF_INET :: "16 word" where "AF_INET = 2"
definition AF_INET6 :: "16 word" where "AF_INET6 = 23"

definition TRAVERSAL_LIMIT :: nat where
  "TRAVERSAL_LIMIT = 4096"

section \<open>Socket addresses\<close>

definition socket_address :: "scope \<Rightarrow> nat \<Rightarrow> netplan_error + ip_addr option" where
  "socket_address S p =
    (let M = sc_memory S; L = sc_layout S in
     if p = 0 then Inr None
     else bindR (ensure_in_buffer S (sz_sockaddr L) p) (\<lambda>_.
       if me_family M p = AF_INET then
         bindR (ensure_in_buffer S (sz_inet L) p) (\<lambda>_. Inr (Some (V4 (me_inet M p))))
       else if me_family M p = AF_INET6 then
         bindR (ensure_in_buffer S (sz_inet6 L) p) (\<lambda>_. Inr (Some (V6 (me_inet6 M p))))
       else Inr None))"

text \<open>
  The traversal \<open>collect_gateways\<close>, \<open>collect_dns\<close> and \<open>collect_wins\<close> share: \<open>n\<close> rounds are left, \<open>keep\<close> says
  which addresses are collected.
\<close>

fun collect_nodes ::
    "scope \<Rightarrow> (nat \<Rightarrow> raw_node) \<Rightarrow> nat \<Rightarrow> (ip_addr \<Rightarrow> 'a option) \<Rightarrow> string \<Rightarrow> nat \<Rightarrow> 'a list \<Rightarrow> nat
      \<Rightarrow> netplan_error + 'a list" where
  "collect_nodes S node sz keep what 0 vs p =
    Inl (Protocol (what @ '' list exceeded the traversal limit''))"
| "collect_nodes S node sz keep what (Suc n) vs p =
    (if p = 0 then Inr vs
     else bindR (ensure_in_buffer S sz p) (\<lambda>_.
       bindR (socket_address S (rn_socket (node p))) (\<lambda>a.
         collect_nodes S node sz keep what n
           (case Option.bind a keep of None \<Rightarrow> vs | Some v \<Rightarrow> vs @ [v]) (rn_next (node p)))))"

fun keep_v4 :: "ip_addr \<Rightarrow> ipv4_addr option" where
  "keep_v4 (V4 a) = Some a"
| "keep_v4 (V6 a) = None"

definition collect_gateways :: "scope \<Rightarrow> nat \<Rightarrow> netplan_error + ipv4_addr list" where
  "collect_gateways S p = collect_nodes S (me_gateway (sc_memory S)) (sz_gateway (sc_layout S)) keep_v4
     ''gateway address'' TRAVERSAL_LIMIT [] p"

definition collect_dns :: "scope \<Rightarrow> nat \<Rightarrow> netplan_error + ip_addr list" where
  "collect_dns S p = collect_nodes S (me_dns (sc_memory S)) (sz_dns (sc_layout S)) Some
     ''DNS server'' TRAVERSAL_LIMIT [] p"

definition collect_wins :: "scope \<Rightarrow> nat \<Rightarrow> netplan_error + ipv4_addr list" where
  "collect_wins S p = collect_nodes S (me_wins (sc_memory S)) (sz_wins (sc_layout S)) keep_v4
     ''WINS server'' TRAVERSAL_LIMIT [] p"

section \<open>Unicast addresses\<close>

type_synonym unicast = "ip_address_info list \<times> ip_address_info list \<times> ip_address_info list"

text \<open>The family of a socket address is read before any check of its pointer.\<close>

definition add_unicast :: "scope \<Rightarrow> raw_unicast \<Rightarrow> unicast \<Rightarrow> netplan_error + unicast" where
  "add_unicast S u acc =
    (let M = sc_memory S; L = sc_layout S; p = ru_socket u in
     case acc of (ipv4, ipv6, manual) \<Rightarrow>
     if p = 0 then Inr acc
     else if me_family M p = AF_INET then
       bindR (ensure_in_buffer S (sz_inet L) p) (\<lambda>_.
         let info = \<lparr>ip_address = ipv4_text (me_inet M p), ip_prefix_length = ru_prefix_length u\<rparr> in
         Inr (ipv4 @ [info], ipv6, if ru_prefix_origin u = 1 then manual @ [info] else manual))
     else if me_family M p = AF_INET6 then
       bindR (ensure_in_buffer S (sz_inet6 L) p) (\<lambda>_.
         Inr (ipv4, ipv6 @ [\<lparr>ip_address = ip_text (V6 (me_inet6 M p)), ip_prefix_length = ru_prefix_length u\<rparr>], manual))
     else Inr acc)"

fun collect_unicast_from :: "scope \<Rightarrow> nat \<Rightarrow> unicast \<Rightarrow> nat \<Rightarrow> netplan_error + unicast" where
  "collect_unicast_from S 0 acc p = Inl (Protocol ''unicast address list exceeded the traversal limit'')"
| "collect_unicast_from S (Suc n) acc p =
    (if p = 0 then Inr acc
     else bindR (ensure_in_buffer S (sz_unicast (sc_layout S)) p) (\<lambda>_.
       let u = me_unicast (sc_memory S) p in
       bindR (add_unicast S u acc) (\<lambda>acc'. collect_unicast_from S n acc' (ru_next u))))"

definition collect_unicast :: "scope \<Rightarrow> nat \<Rightarrow> netplan_error + unicast" where
  "collect_unicast S p = collect_unicast_from S TRAVERSAL_LIMIT ([], [], []) p"

section \<open>Adapters\<close>

definition wide_string :: "memory \<Rightarrow> nat \<Rightarrow> string option" where
  "wide_string M p = (if p = 0 then None else (case from_utf16 (me_wide M p) of Inr s \<Rightarrow> Some s | Inl _ \<Rightarrow> None))"

definition ansi_string :: "memory \<Rightarrow> nat \<Rightarrow> string option" where
  "ansi_string M p = (if p = 0 then None else if utf8_ok (me_ansi M p) then Some (me_ansi M p) else None)"

definition format_mac :: "8 word list \<Rightarrow> 32 word \<Rightarrow> string option" where
  "format_mac bytes n =
    (let k = min (unat n) (length bytes) in
     if k = 0 then None else Some (join_with ''-'' (map (\<lambda>b. hex2_upper (unat b)) (take k bytes))))"

definition oper_status :: "nat \<Rightarrow> string" where
  "oper_status s =
    (if s = 1 then ''up'' else if s = 2 then ''down'' else if s = 3 then ''testing'' else if s = 5 then ''dormant''
     else if s = 6 then ''not_present'' else if s = 7 then ''lower_layer_down'' else ''unknown'')"

record interface_info =
  id_hardware :: bool
  id_filter :: bool
  id_admin_enabled :: bool

text \<open>\<open>GetIfEntry2\<close>: the flags and the administrative status of an interface, when the call succeeds.\<close>

type_synonym if_table = "32 word \<Rightarrow> (8 word \<times> nat) option"

unbundle bit_operations_syntax

definition interface_details :: "if_table \<Rightarrow> 32 word \<Rightarrow> interface_info option" where
  "interface_details T i =
    map_option (\<lambda>(flags, admin). \<lparr>id_hardware = flags AND 1 \<noteq> 0, id_filter = flags AND 2 \<noteq> 0,
      id_admin_enabled = admin = 1\<rparr>) (T i)"

definition details_of :: "if_table \<Rightarrow> raw_adapter \<Rightarrow> interface_info" where
  "details_of T r =
    (case interface_details T (ra_if_index r) of
       Some d \<Rightarrow> d
     | None \<Rightarrow> \<lparr>id_hardware = ra_if_type r = 6 \<or> ra_if_type r = 71, id_filter = False,
         id_admin_enabled = ra_oper_status r \<noteq> 6\<rparr>)"

definition is_skipped :: "if_table \<Rightarrow> raw_adapter \<Rightarrow> bool" where
  "is_skipped T r \<longleftrightarrow> id_filter (details_of T r) \<or> ra_if_type r = 24 \<or> ra_oper_status r = 6"

definition non_empty :: "string option \<Rightarrow> string option" where
  "non_empty s = (case s of Some [] \<Rightarrow> None | _ \<Rightarrow> s)"

definition read_adapter :: "scope \<Rightarrow> if_table \<Rightarrow> raw_adapter \<Rightarrow> netplan_error + adapter_snapshot" where
  "read_adapter S T r =
    (let M = sc_memory S in
     bindR (collect_unicast S (ra_first_unicast r)) (\<lambda>(ipv4, ipv6, manual).
     bindR (collect_gateways S (ra_first_gateway r)) (\<lambda>gs.
     bindR (collect_dns S (ra_first_dns r)) (\<lambda>ds.
     bindR (collect_wins S (ra_first_wins r)) (\<lambda>ws.
     Inr \<lparr>as_info = \<lparr>ai_if_index = ra_if_index r,
            ai_name = (case wide_string M (ra_friendly_name r) of
              Some n \<Rightarrow> n | None \<Rightarrow> ''ifIndex '' @ show_nat (unat (ra_if_index r))),
            ai_description = non_empty (wide_string M (ra_description r)),
            ai_guid = non_empty (ansi_string M (ra_adapter_name r)),
            ai_mac_address = format_mac (ra_physical_address r) (ra_physical_length r),
            ai_status = oper_status (ra_oper_status r), ai_hardware = id_hardware (details_of T r),
            ai_ipv4 = ipv4, ai_ipv6 = ipv6\<rparr>,
          as_admin_enabled = id_admin_enabled (details_of T r), as_dhcp_enabled = ra_flags r AND 4 \<noteq> 0,
          as_manual_ipv4 = manual, as_gateways = gs, as_dns = ds, as_wins = ws\<rparr>)))))"

fun collect_adapters_from ::
    "scope \<Rightarrow> if_table \<Rightarrow> nat \<Rightarrow> adapter_inventory \<Rightarrow> nat \<Rightarrow> netplan_error + adapter_inventory" where
  "collect_adapters_from S T 0 as p = Inl (Protocol ''adapter list exceeded the traversal limit'')"
| "collect_adapters_from S T (Suc n) as p =
    (if p = 0 then Inr as
     else bindR (ensure_in_buffer S (sz_adapter (sc_layout S)) p) (\<lambda>_.
       let r = me_adapter (sc_memory S) p in
       if is_skipped T r then collect_adapters_from S T n as (ra_next r)
       else bindR (read_adapter S T r) (\<lambda>a. collect_adapters_from S T n (as @ [a]) (ra_next r))))"

definition collect_adapters :: "scope \<Rightarrow> if_table \<Rightarrow> nat \<Rightarrow> netplan_error + adapter_inventory" where
  "collect_adapters S T p = collect_adapters_from S T TRAVERSAL_LIMIT [] p"

section \<open>Enumeration\<close>

text \<open>
  \<open>GetAdaptersAddresses\<close>: the probe returns a code and the length it needs; a call with a buffer of a
  length returns a code, a length, the address of the buffer and the memory.
\<close>

record 'w ip_helper =
  ih_layout :: layout
  ih_probe :: "'w \<Rightarrow> (32 word \<times> 32 word) \<times> 'w"
  ih_fill :: "32 word \<Rightarrow> 'w \<Rightarrow> (32 word \<times> 32 word \<times> nat \<times> memory) \<times> 'w"
  ih_interfaces :: "'w \<Rightarrow> if_table"
  ih_os_error :: "int \<Rightarrow> io_kind \<times> string"

definition ERROR_BUFFER_OVERFLOW :: "32 word" where
  "ERROR_BUFFER_OVERFLOW = 111"

definition os_error :: "'w ip_helper \<Rightarrow> 32 word \<Rightarrow> netplan_error" where
  "os_error H code =
    (let raw = (if unat code < 2 ^ 31 then int (unat code) else 2 ^ 31 - 1) in
     case ih_os_error H raw of (k, m) \<Rightarrow> Io k m)"

definition filled_scope :: "'w ip_helper \<Rightarrow> 32 word \<Rightarrow> nat \<Rightarrow> memory \<Rightarrow> scope" where
  "filled_scope H byte_len base M =
    (let sz = sz_adapter (ih_layout H); count = (unat byte_len + sz - 1) div sz in
     \<lparr>sc_memory = M, sc_layout = ih_layout H, sc_base = base, sc_end = min (base + count * sz) (2 ^ 64 - 1)\<rparr>)"

fun fill_loop :: "'w ip_helper \<Rightarrow> nat \<Rightarrow> 32 word \<Rightarrow> ('w, netplan_error, adapter_inventory) eff" where
  "fill_loop H 0 byte_len =
    failE (Io OtherKind ''adapter inventory changed repeatedly while sizing the IP Helper buffer'')"
| "fill_loop H (Suc n) byte_len = (\<lambda>w.
    case ih_fill H byte_len w of ((code, actual_len, base, M), w') \<Rightarrow>
      if code = ERROR_BUFFER_OVERFLOW then fill_loop H n actual_len w'
      else if code \<noteq> 0 then (Inl (os_error H code), w')
      else (collect_adapters (filled_scope H byte_len base M) (ih_interfaces H w') base, w'))"

definition enumerate_inventory :: "'w ip_helper \<Rightarrow> ('w, netplan_error, adapter_inventory) eff" where
  "enumerate_inventory H = (\<lambda>w.
    case ih_probe H w of ((code, byte_len), w') \<Rightarrow>
      if code \<noteq> ERROR_BUFFER_OVERFLOW then (Inl (os_error H code), w')
      else if byte_len = 0 then (Inr [], w')
      else fill_loop H 3 byte_len w')"

end
