(* ===== verification/Inventory_Facts.thy ===== *)
theory Inventory_Facts
  imports Inventory
begin

text \<open>
  Correctness of the inventory traversals: which memory they depend on, what they collect from a linked
  list, and that a list that is too long or runs in a circle ends in an error.
\<close>

section \<open>Memory inside the buffer\<close>

text \<open>Two memories agree on every structure that lies in the buffer.\<close>

definition agree :: "scope \<Rightarrow> memory \<Rightarrow> memory \<Rightarrow> bool" where
  "agree S M N \<longleftrightarrow>
    (let L = sc_layout S in
     (\<forall>p. in_buffer S (sz_adapter L) p \<longrightarrow> me_adapter M p = me_adapter N p)
     \<and> (\<forall>p. in_buffer S (sz_unicast L) p \<longrightarrow> me_unicast M p = me_unicast N p)
     \<and> (\<forall>p. in_buffer S (sz_gateway L) p \<longrightarrow> me_gateway M p = me_gateway N p)
     \<and> (\<forall>p. in_buffer S (sz_dns L) p \<longrightarrow> me_dns M p = me_dns N p)
     \<and> (\<forall>p. in_buffer S (sz_wins L) p \<longrightarrow> me_wins M p = me_wins N p)
     \<and> (\<forall>p. in_buffer S (sz_sockaddr L) p \<longrightarrow> me_family M p = me_family N p)
     \<and> (\<forall>p. in_buffer S (sz_inet L) p \<longrightarrow> me_inet M p = me_inet N p)
     \<and> (\<forall>p. in_buffer S (sz_inet6 L) p \<longrightarrow> me_inet6 M p = me_inet6 N p))"

abbreviation with_memory :: "scope \<Rightarrow> memory \<Rightarrow> scope" where
  "with_memory S M \<equiv> S\<lparr>sc_memory := M\<rparr>"

lemma in_buffer_memory [simp]: "in_buffer (with_memory S M) sz p = in_buffer S sz p"
  by (simp add: in_buffer_def)

lemma ensure_memory [simp]: "ensure_in_buffer (with_memory S M) sz p = ensure_in_buffer S sz p"
  by (simp add: ensure_in_buffer_def)

lemma bind_ensure_cong:
  "(in_buffer S sz p \<Longrightarrow> f () = g ()) \<Longrightarrow> bindR (ensure_in_buffer S sz p) f = bindR (ensure_in_buffer S sz p) g"
  by (simp add: ensure_in_buffer_def)

lemma socket_address_agree:
  assumes "agree S M N"
  shows "socket_address (with_memory S M) p = socket_address (with_memory S N) p"
proof -
  let ?L = "sc_layout S"
  have f: "in_buffer S (sz_sockaddr ?L) p \<Longrightarrow> me_family M p = me_family N p"
    and i: "in_buffer S (sz_inet ?L) p \<Longrightarrow> me_inet M p = me_inet N p"
    and j: "in_buffer S (sz_inet6 ?L) p \<Longrightarrow> me_inet6 M p = me_inet6 N p"
    using assms by (simp_all add: agree_def Let_def)
  show ?thesis
    unfolding socket_address_def Let_def
    using f i j by (auto simp: ensure_in_buffer_def)
qed

lemma collect_nodes_agree:
  assumes "agree S M N" "\<And>p. in_buffer S sz p \<Longrightarrow> node p = node' p"
  shows "collect_nodes (with_memory S M) node sz keep what n vs p
    = collect_nodes (with_memory S N) node' sz keep what n vs p"
proof (induction n arbitrary: vs p)
  case (Suc n)
  show ?case
  proof (cases "p = 0 \<or> \<not> in_buffer S sz p")
    case True
    then show ?thesis by (auto simp: ensure_in_buffer_def)
  next
    case False
    then have "node p = node' p" using assms(2) by simp
    with False show ?thesis
      using Suc socket_address_agree[OF assms(1)] by (simp add: ensure_in_buffer_def)
  qed
qed simp

text \<open>C37: the traversals of gateways, DNS and WINS servers stay inside the buffer: their results depend
  only on structures that lie in it.\<close>

theorem traversals_stay_in_buffer:
  assumes "agree S M N"
  shows "collect_gateways (with_memory S M) p = collect_gateways (with_memory S N) p
    \<and> collect_dns (with_memory S M) p = collect_dns (with_memory S N) p
    \<and> collect_wins (with_memory S M) p = collect_wins (with_memory S N) p"
proof -
  have "in_buffer S (sz_gateway (sc_layout S)) p \<Longrightarrow> me_gateway M p = me_gateway N p"
    "in_buffer S (sz_dns (sc_layout S)) p \<Longrightarrow> me_dns M p = me_dns N p"
    "in_buffer S (sz_wins (sc_layout S)) p \<Longrightarrow> me_wins M p = me_wins N p" for p
    using assms by (simp_all add: agree_def Let_def)
  then show ?thesis
    by (simp add: collect_gateways_def collect_dns_def collect_wins_def collect_nodes_agree[OF assms])
qed

text \<open>
  For unicast addresses this needs the socket addresses to lie in the buffer as well, because the family
  is read before the check.
\<close>

definition sockets_inside :: "scope \<Rightarrow> bool" where
  "sockets_inside S \<longleftrightarrow>
    (\<forall>p. in_buffer S (sz_unicast (sc_layout S)) p \<longrightarrow>
      ru_socket (me_unicast (sc_memory S) p) = 0
      \<or> in_buffer S (sz_sockaddr (sc_layout S)) (ru_socket (me_unicast (sc_memory S) p)))"

lemma add_unicast_agree:
  assumes "agree S M N" "ru_socket u = 0 \<or> in_buffer S (sz_sockaddr (sc_layout S)) (ru_socket u)"
  shows "add_unicast (with_memory S M) u acc = add_unicast (with_memory S N) u acc"
proof -
  let ?L = "sc_layout S" and ?p = "ru_socket u"
  have f: "?p \<noteq> 0 \<Longrightarrow> me_family M ?p = me_family N ?p"
    and i: "in_buffer S (sz_inet ?L) ?p \<Longrightarrow> me_inet M ?p = me_inet N ?p"
    and j: "in_buffer S (sz_inet6 ?L) ?p \<Longrightarrow> me_inet6 M ?p = me_inet6 N ?p"
    using assms by (auto simp: agree_def Let_def)
  show ?thesis
    unfolding add_unicast_def Let_def
    using f i j by (cases acc) (auto simp: ensure_in_buffer_def)
qed

lemma collect_unicast_agree:
  assumes "agree S M N" "sockets_inside (with_memory S M)"
  shows "collect_unicast (with_memory S M) p = collect_unicast (with_memory S N) p"
proof -
  have "collect_unicast_from (with_memory S M) n acc p = collect_unicast_from (with_memory S N) n acc p" for n acc
  proof (induction n arbitrary: acc p)
    case (Suc n)
    show ?case
    proof (cases "p = 0 \<or> \<not> in_buffer S (sz_unicast (sc_layout S)) p")
      case True
      then show ?thesis by (auto simp: ensure_in_buffer_def)
    next
      case False
      then have "me_unicast M p = me_unicast N p" using assms(1) by (simp add: agree_def Let_def)
      moreover have "add_unicast (with_memory S M) (me_unicast M p) acc = add_unicast (with_memory S N) (me_unicast M p) acc"
        using assms False by (intro add_unicast_agree) (auto simp: sockets_inside_def)
      ultimately show ?thesis using False Suc by (simp add: ensure_in_buffer_def Let_def)
    qed
  qed simp
  then show ?thesis by (simp add: collect_unicast_def)
qed

section \<open>What a list yields\<close>

text \<open>\<open>nodes node p qs\<close>: from \<open>p\<close> the list runs through the nodes \<open>qs\<close> and ends.\<close>

fun nodes :: "(nat \<Rightarrow> raw_node) \<Rightarrow> nat \<Rightarrow> nat list \<Rightarrow> bool" where
  "nodes node p [] \<longleftrightarrow> p = 0"
| "nodes node p (q # qs) \<longleftrightarrow> p = q \<and> q \<noteq> 0 \<and> nodes node (rn_next (node q)) qs"

definition node_address :: "scope \<Rightarrow> (nat \<Rightarrow> raw_node) \<Rightarrow> nat \<Rightarrow> nat \<Rightarrow> netplan_error + ip_addr option" where
  "node_address S node sz q = bindR (ensure_in_buffer S sz q) (\<lambda>_. socket_address S (rn_socket (node q)))"

definition kept :: "(ip_addr \<Rightarrow> 'a option) \<Rightarrow> ip_addr option list \<Rightarrow> 'a list" where
  "kept keep as = concat (map (\<lambda>a. case Option.bind a keep of None \<Rightarrow> [] | Some v \<Rightarrow> [v]) as)"

lemma collect_nodes_list:
  "nodes node p qs \<Longrightarrow> collect_nodes S node sz keep what n vs p =
    bindR (traverseR (node_address S node sz) (take n qs)) (\<lambda>as.
      if length qs < n then Inr (vs @ kept keep as)
      else Inl (Protocol (what @ '' list exceeded the traversal limit'')))"
proof (induction qs arbitrary: n vs p)
  case Nil
  then show ?case by (cases n) (simp_all add: kept_def)
next
  case (Cons q qs)
  show ?case
  proof (cases n)
    case 0
    then show ?thesis by simp
  next
    case (Suc m)
    have p: "p = q" "q \<noteq> 0" and IH: "collect_nodes S node sz keep what m ws (rn_next (node q)) =
      bindR (traverseR (node_address S node sz) (take m qs)) (\<lambda>as.
        if length qs < m then Inr (ws @ kept keep as)
        else Inl (Protocol (what @ '' list exceeded the traversal limit'')))" for ws
      using Cons by simp_all
    show ?thesis
    proof (cases "node_address S node sz q")
      case (Inl e)
      with p Suc show ?thesis
        by (auto simp: node_address_def ensure_in_buffer_def split: if_splits)
    next
      case (Inr a)
      then have "in_buffer S sz q" "socket_address S (rn_socket (node q)) = Inr a"
        by (auto simp: node_address_def ensure_in_buffer_def split: if_splits)
      with p Suc Inr IH show ?thesis
        by (cases "traverseR (node_address S node sz) (take m qs)")
          (auto simp: ensure_in_buffer_def kept_def split: option.splits)
    qed
  qed
qed

text \<open>From a linked list of at most 4095 nodes the gateways are the IPv4 addresses of the nodes in
  order, or the error of the first node that is out of bounds; a longer list is an error.\<close>

theorem gateways_of_list:
  assumes "nodes (me_gateway (sc_memory S)) p qs"
  shows "collect_gateways S p =
    bindR (traverseR (node_address S (me_gateway (sc_memory S)) (sz_gateway (sc_layout S))) (take 4096 qs)) (\<lambda>as.
      if length qs < 4096 then Inr (kept keep_v4 as)
      else Inl (Protocol ''gateway address list exceeded the traversal limit''))"
  using collect_nodes_list[OF assms, of S "sz_gateway (sc_layout S)" keep_v4 "''gateway address''" 4096 "[]"]
  unfolding collect_gateways_def TRAVERSAL_LIMIT_def append.simps .

section \<open>A buffer\<close>

text \<open>
  A buffer of 256 bytes at 4096 with one structure of each kind at its start; the socket address of the
  unicast structure lies outside, where \<open>family\<close> is found, that of the others at 4160.
\<close>

definition sample_layout :: layout where
  "sample_layout = \<lparr>sz_adapter = 448, sz_unicast = 64, sz_gateway = 32, sz_dns = 32, sz_wins = 32,
     sz_sockaddr = 16, sz_inet = 16, sz_inet6 = 28\<rparr>"

definition sample_memory :: "16 word \<Rightarrow> memory" where
  "sample_memory family = \<lparr>me_adapter = \<lambda>p. \<lparr>ra_next = 0, ra_if_index = 1, ra_if_type = 6, ra_oper_status = 1,
       ra_friendly_name = 0, ra_description = 0, ra_adapter_name = 0, ra_physical_address = [],
       ra_physical_length = 0, ra_first_unicast = 0, ra_first_gateway = 0, ra_first_dns = 0, ra_first_wins = 0,
       ra_flags = 0\<rparr>,
     me_unicast = \<lambda>p. \<lparr>ru_socket = 20480, ru_prefix_length = 24, ru_prefix_origin = 1, ru_next = 0\<rparr>,
     me_gateway = \<lambda>p. \<lparr>rn_socket = 4160, rn_next = 0\<rparr>, me_dns = \<lambda>p. \<lparr>rn_socket = 4160, rn_next = 0\<rparr>,
     me_wins = \<lambda>p. \<lparr>rn_socket = 4160, rn_next = 0\<rparr>, me_family = \<lambda>p. if p = 4160 then AF_INET else family,
     me_inet = \<lambda>p. Ipv4 192 0 2 1, me_inet6 = \<lambda>p. Ipv6 0 0 0 0 0 0 0 1, me_wide = \<lambda>p. [], me_ansi = \<lambda>p. []\<rparr>"

definition sample_scope :: "16 word \<Rightarrow> scope" where
  "sample_scope family = \<lparr>sc_memory = sample_memory family, sc_layout = sample_layout, sc_base = 4096, sc_end = 4352\<rparr>"

lemma sample_scope_memory: "with_memory (sample_scope f) (sample_memory g) = sample_scope g"
  by (simp add: sample_scope_def)

lemma sample_in_buffer: "in_buffer (sample_scope f) sz p \<longleftrightarrow> 4096 \<le> p \<and> p + sz \<le> 4352"
  by (auto simp: in_buffer_def sample_scope_def)

definition same_family :: "16 word \<Rightarrow> 16 word \<Rightarrow> memory" where
  "same_family f g = (sample_memory g)\<lparr>me_family := \<lambda>p. if 4096 \<le> p \<and> p + 16 \<le> 4352
     then me_family (sample_memory f) p else g\<rparr>"

lemma sample_agree: "agree (sample_scope f) (sample_memory f) (same_family f g)"
  by (simp add: agree_def Let_def sample_in_buffer same_family_def)
    (simp add: sample_scope_def sample_layout_def sample_memory_def)

theorem traversals_stay_in_buffer_witness:
  "collect_dns (with_memory (sample_scope 2) (sample_memory 2)) 4096
    = collect_dns (with_memory (sample_scope 2) (same_family 2 23)) 4096"
  using traversals_stay_in_buffer[OF sample_agree] by blast

text \<open>The traversal of unicast addresses does not stay inside the buffer: two memories that agree on
  every structure in the buffer make it succeed or fail, because it reads the family of a socket address
  before it checks the pointer.\<close>

theorem unicast_reads_outside:
  "agree (sample_scope 2) (sample_memory 2) (same_family 2 0)
    \<and> collect_unicast (with_memory (sample_scope 2) (sample_memory 2)) 4096
      = Inl (Protocol ''Windows IP Helper returned an out-of-bounds pointer'')
    \<and> collect_unicast (with_memory (sample_scope 2) (same_family 2 0)) 4096 = Inr ([], [], [])"
proof (intro conjI)
  have step: "collect_unicast_from S (numeral k) acc p =
    (if p = 0 then Inr acc
     else bindR (ensure_in_buffer S (sz_unicast (sc_layout S)) p) (\<lambda>_.
       let u = me_unicast (sc_memory S) p in
       bindR (add_unicast S u acc) (\<lambda>acc'. collect_unicast_from S (pred_numeral k) acc' (ru_next u))))" for S k acc p
    by (simp add: numeral_eq_Suc)
  note defs = collect_unicast_def TRAVERSAL_LIMIT_def step add_unicast_def ensure_in_buffer_def
    sample_in_buffer Let_def AF_INET_def AF_INET6_def
  have fields: "sc_memory (sample_scope 2) = sample_memory 2" "sc_layout (sample_scope 2) = sample_layout"
    by (simp_all add: sample_scope_def)
  have mem: "me_unicast (sample_memory f) 4096 = \<lparr>ru_socket = 20480, ru_prefix_length = 24, ru_prefix_origin = 1, ru_next = 0\<rparr>"
    "me_family (sample_memory 2) 20480 = 2" "me_unicast (same_family 2 0) = me_unicast (sample_memory 0)"
    "me_family (same_family 2 0) 20480 = 0" "sz_unicast sample_layout = 64" "sz_inet sample_layout = 16" for f
    by (simp_all add: sample_memory_def same_family_def sample_layout_def)
  show "agree (sample_scope 2) (sample_memory 2) (same_family 2 0)" by (rule sample_agree)
  show "collect_unicast (with_memory (sample_scope 2) (sample_memory 2)) 4096
      = Inl (Protocol ''Windows IP Helper returned an out-of-bounds pointer'')"
    by (simp add: defs fields mem)
  show "collect_unicast (with_memory (sample_scope 2) (same_family 2 0)) 4096 = Inr ([], [], [])"
    by (simp add: defs fields mem)
qed

theorem gateways_of_list_witness:
  "collect_gateways (sample_scope 2) 4096 = Inr [Ipv4 192 0 2 1]"
proof -
  have "nodes (me_gateway (sc_memory (sample_scope 2))) 4096 [4096]"
    by (simp add: sample_scope_def sample_memory_def)
  from gateways_of_list[OF this] show ?thesis
    by (simp add: node_address_def ensure_in_buffer_def sample_in_buffer socket_address_def Let_def kept_def)
      (simp add: sample_scope_def sample_memory_def sample_layout_def AF_INET_def)
qed

end
