(* ===== verification/Daemon_Host.thy ===== *)
theory Daemon_Host
  imports Daemon_Facts Service_Manager
begin

text \<open>
  The processes that run the daemon: \<open>main\<close>, its restart with administrator rights and the pipe and socket servers of
  \<open>crates/netpland/src/main.rs\<close>, and the Windows service of \<open>crates/netpland/src/windows_service.rs\<close>.
\<close>

section \<open>Start-up\<close>

record daemon_arguments =
  da_endpoint :: string
  da_service :: bool
  da_elevated_child :: bool

definition relaunch_elevated :: "'w shell \<Rightarrow> string \<Rightarrow> ('w, io_failure, unit) eff" where
  "relaunch_elevated S endpoint =
    bindE (sh_current_exe S) (\<lambda>current.
    bindE (map_errE (\<lambda>e. (fst e, ''netpland needs administrator permission to start: '' @ snd e))
      (run_as_administrator S current
        (map encode_utf16 [''--netpland-elevated-child'', ''--endpoint'', endpoint]) False)) (\<lambda>_.
    returnE ()))"

text \<open>\<open>StartServiceCtrlDispatcherW\<close> takes the name of the service and returns when it has stopped.\<close>

definition run_dispatcher :: "(os_str \<Rightarrow> ('w, string, unit) eff) \<Rightarrow> ('w, io_failure, unit) eff" where
  "run_dispatcher start_dispatcher =
    map_errE (\<lambda>m. (OtherKind, m)) (start_dispatcher (wide DAEMON_SERVICE_NAME))"

text \<open>\<open>main\<close>: \<open>dispatcher\<close> is \<open>run_dispatcher\<close>, \<open>run\<close> is \<open>run_daemon\<close>.\<close>

definition main_daemon ::
    "bool \<Rightarrow> 'w shell \<Rightarrow> ('w, io_failure, unit) eff \<Rightarrow> (string \<Rightarrow> ('w, io_failure, unit) eff)
      \<Rightarrow> daemon_arguments \<Rightarrow> ('w, io_failure, unit) eff" where
  "main_daemon windows S dispatcher run a =
    (if da_service a then
       (if windows then dispatcher
        else failE (UnsupportedKind, ''Windows service mode is unavailable on this platform''))
     else
       bindE
         (if windows \<and> \<not> da_elevated_child a then
            bindE (map_errE (\<lambda>e. (OtherKind, ''failed to inspect Windows elevation state: '' @ snd e)) (is_elevated S))
              (\<lambda>elevated. returnE (\<not> elevated))
          else returnE False) (\<lambda>relaunch.
       if relaunch then relaunch_elevated S (da_endpoint a) else run (da_endpoint a)))"

section \<open>The pipe server\<close>

text \<open>The access control list of the pipe: full access for the system and for administrators, inherited from nobody.\<close>

definition PIPE_SDDL :: string where
  "PIPE_SDDL = ''D:P(A;;GA;;;SY)(A;;GA;;;BA)''"

definition pipe_security :: "(os_str \<Rightarrow> ('w, string, nat) eff) \<Rightarrow> ('w, io_failure, nat) eff" where
  "pipe_security convert =
    map_errE (\<lambda>e. (OtherKind, ''named-pipe ACL failed: '' @ e)) (convert (wide PIPE_SDDL))"

text \<open>
  The loop of \<open>serve\<close>: it creates a pipe instance, then waits for a client or for the shutdown flag.
  \<open>sv_created\<close> are the \<open>first_pipe_instance\<close> flags of the instances created so far, \<open>sv_connections\<close> the
  connections whose task is still running.
\<close>

datatype phase = Creating | Waiting | Returned "io_failure + unit"

record 'w server =
  sv_phase :: phase
  sv_first :: bool
  sv_created :: "bool list"
  sv_connections :: nat
  sv_daemon :: "'w daemon"

definition server_new :: "'w daemon \<Rightarrow> 'w server" where
  "server_new d = \<lparr>sv_phase = Creating, sv_first = True, sv_created = [], sv_connections = 0, sv_daemon = d\<rparr>"

text \<open>
  What goes on in every phase, as the runtime runs the tasks: a connection is handled, a background task
  records its outcome, and \<open>stop_control\<close> is the control handler of the service.
\<close>

inductive background_step ::
    "ucd \<Rightarrow> parsers \<Rightarrow> flatbuffers \<Rightarrow> 'w platform \<Rightarrow> 'v writer \<Rightarrow> 'w server \<Rightarrow> 'w server \<Rightarrow> bool"
  for U Q FB P W where
  handled: "\<lbrakk>0 < sv_connections s; jobs_get (d_jobs (sv_daemon s)) (out_uuid x) = None;
      handle_connection U Q FB P W x stream out (sv_daemon s) = (r, out', d')\<rbrakk> \<Longrightarrow>
    background_step U Q FB P W s (s\<lparr>sv_connections := sv_connections s - 1, sv_daemon := d'\<rparr>)"
| finish: "(k, cfg) \<in> set (d_tasks (sv_daemon s)) \<Longrightarrow>
    background_step U Q FB P W s (s\<lparr>sv_daemon := complete_job P x k cfg (sv_daemon s)\<rparr>)"
| stop_control: "background_step U Q FB P W s (s\<lparr>sv_daemon := request_shutdown (sv_daemon s)\<rparr>)"

inductive serve_step ::
    "ucd \<Rightarrow> parsers \<Rightarrow> flatbuffers \<Rightarrow> 'w platform \<Rightarrow> 'v writer \<Rightarrow> 'w server \<Rightarrow> 'w server \<Rightarrow> bool"
  for U Q FB P W where
  create: "sv_phase s = Creating \<Longrightarrow> serve_step U Q FB P W s
    (s\<lparr>sv_phase := Waiting, sv_created := sv_created s @ [sv_first s], sv_first := False\<rparr>)"
| create_fails: "sv_phase s = Creating \<Longrightarrow> serve_step U Q FB P W s (s\<lparr>sv_phase := Returned (Inl e)\<rparr>)"
| connect: "sv_phase s = Waiting \<Longrightarrow> serve_step U Q FB P W s
    (s\<lparr>sv_phase := Creating, sv_connections := sv_connections s + 1\<rparr>)"
| connect_fails: "sv_phase s = Waiting \<Longrightarrow> serve_step U Q FB P W s (s\<lparr>sv_phase := Returned (Inl e)\<rparr>)"
| shutdown: "\<lbrakk>sv_phase s = Waiting; d_shutdown (sv_daemon s)\<rbrakk> \<Longrightarrow>
    serve_step U Q FB P W s (s\<lparr>sv_phase := Returned (Inr ())\<rparr>)"
| background: "background_step U Q FB P W s s' \<Longrightarrow> serve_step U Q FB P W s s'"

inductive_cases serve_stepE: "serve_step U Q FB P W s s'"

section \<open>The socket server\<close>

text \<open>
  \<open>serve\<close> on Unix: the endpoint must be free or a socket, which is removed.  \<open>un_is_socket\<close> is the answer
  of \<open>symlink_metadata\<close>, when it succeeds.
\<close>

record 'w unix =
  un_is_socket :: "string \<Rightarrow> 'w \<Rightarrow> bool option \<times> 'w"
  un_remove :: "string \<Rightarrow> ('w, io_failure, unit) eff"
  un_bind :: "string \<Rightarrow> ('w, io_failure, nat) eff"

definition unix_listener :: "ucd \<Rightarrow> 'w unix \<Rightarrow> string \<Rightarrow> ('w, io_failure, nat) eff" where
  "unix_listener U N endpoint =
    thenE (\<lambda>w. case un_is_socket N endpoint w of
        (None, w') \<Rightarrow> (Inr (), w')
      | (Some False, w') \<Rightarrow>
          (Inl (AlreadyExistsKind, ''refusing to replace non-socket endpoint '' @ debug_str U endpoint), w')
      | (Some True, w') \<Rightarrow> un_remove N endpoint w')
    (un_bind N endpoint)"

text \<open>The loop over a bound listener: it is always waiting for a client.\<close>

definition server_listening :: "'w daemon \<Rightarrow> 'w server" where
  "server_listening d = (server_new d)\<lparr>sv_phase := Waiting\<rparr>"

inductive accept_step ::
    "ucd \<Rightarrow> parsers \<Rightarrow> flatbuffers \<Rightarrow> 'w platform \<Rightarrow> 'v writer \<Rightarrow> 'w server \<Rightarrow> 'w server \<Rightarrow> bool"
  for U Q FB P W where
  accepted: "sv_phase s = Waiting \<Longrightarrow> accept_step U Q FB P W s (s\<lparr>sv_connections := sv_connections s + 1\<rparr>)"
| accept_fails: "sv_phase s = Waiting \<Longrightarrow> accept_step U Q FB P W s (s\<lparr>sv_phase := Returned (Inl e)\<rparr>)"
| shut_down: "\<lbrakk>sv_phase s = Waiting; d_shutdown (sv_daemon s)\<rbrakk> \<Longrightarrow>
    accept_step U Q FB P W s (s\<lparr>sv_phase := Returned (Inr ())\<rparr>)"
| in_background: "background_step U Q FB P W s s' \<Longrightarrow> accept_step U Q FB P W s s'"

definition serving ::
    "ucd \<Rightarrow> parsers \<Rightarrow> flatbuffers \<Rightarrow> 'w platform \<Rightarrow> 'v writer \<Rightarrow> 'w server \<Rightarrow> bool" where
  "serving U Q FB P W s \<longleftrightarrow>
    (\<exists>w x. (serve_step U Q FB P W)\<^sup>*\<^sup>* (server_new (daemon_new w x)) s
      \<or> (accept_step U Q FB P W)\<^sup>*\<^sup>* (server_listening (daemon_new w x)) s)"

section \<open>The Windows service\<close>

record service_status =
  st_state :: "32 word"
  st_accepted :: "32 word"
  st_exit_code :: "32 word"
  st_specific_code :: "32 word"
  st_checkpoint :: "32 word"
  st_wait_hint :: "32 word"

definition SERVICE_ACCEPT_STOP :: "32 word" where "SERVICE_ACCEPT_STOP = 1"
definition SERVICE_CONTROL_STOP :: "32 word" where "SERVICE_CONTROL_STOP = 1"
definition ERROR_SERVICE_SPECIFIC_ERROR :: "32 word" where "ERROR_SERVICE_SPECIFIC_ERROR = 1066"

definition status_of :: "32 word \<Rightarrow> 32 word \<Rightarrow> 32 word \<Rightarrow> 32 word \<Rightarrow> 32 word \<Rightarrow> service_status" where
  "status_of state accepted exit_code checkpoint wait_hint =
    \<lparr>st_state = state, st_accepted = accepted, st_exit_code = exit_code,
     st_specific_code = (if exit_code \<noteq> 0 then 1 else 0), st_checkpoint = checkpoint, st_wait_hint = wait_hint\<rparr>"

text \<open>
  What the host calls: the registration of the control handler, the report of a status, the runtime, and
  \<open>run_daemon\<close> with the endpoint.
\<close>

record 'w service_host =
  sh_register :: "os_str \<Rightarrow> ('w, string, nat) eff"
  sh_report :: "nat \<Rightarrow> service_status \<Rightarrow> ('w, string, unit) eff"
  sh_runtime :: "('w, io_failure, unit) eff"
  sh_run :: "('w, io_failure, unit) eff"

definition set_status :: "'w service_host \<Rightarrow> nat \<Rightarrow> service_status \<Rightarrow> ('w, io_failure, unit) eff" where
  "set_status V handle status = map_errE (\<lambda>m. (OtherKind, m)) (sh_report V handle status)"

definition service_main :: "'w service_host \<Rightarrow> ('w, io_failure, unit) eff" where
  "service_main V =
    bindE (map_errE (\<lambda>m. (OtherKind, m)) (sh_register V (wide DAEMON_SERVICE_NAME))) (\<lambda>handle.
    thenE (set_status V handle (status_of STATE_START_PENDING 0 0 1 5000))
    (thenE (sh_runtime V)
    (thenE (set_status V handle (status_of STATE_RUNNING SERVICE_ACCEPT_STOP 0 0 0))
    (\<lambda>w. case sh_run V w of (result, w') \<Rightarrow>
      thenE (set_status V handle
          (status_of STATE_STOPPED 0 (if is_ok result then 0 else ERROR_SERVICE_SPECIFIC_ERROR) 0 0))
        (liftE result) w'))))"

text \<open>
  The control handler: \<open>handle\<close> is 0 until the handle was stored.  The result is the daemon's shutdown
  flag and the state after the report, whose failure is ignored.
\<close>

definition control_handler :: "'w service_host \<Rightarrow> 32 word \<Rightarrow> nat \<Rightarrow> bool \<Rightarrow> 'w \<Rightarrow> bool \<times> 'w" where
  "control_handler V control handle stopping w =
    (if control = SERVICE_CONTROL_STOP then
       (True, if handle \<noteq> 0 then snd (set_status V handle (status_of STATE_STOP_PENDING 0 0 1 5000) w) else w)
     else (stopping, w))"

section \<open>Invariants of the server\<close>

lemma dispatch_keeps_shutdown: "dispatch U Q P x rq d = (resp, d1) \<Longrightarrow> d_shutdown d1 = d_shutdown d"
proof (erule dispatch_effect)
  assume "same_jobs d d1"
  then show ?thesis by (simp add: same_jobs_def)
next
  fix f doc cfg
  assume "(resp, d1) = apply_dry_run U x cfg d"
  then show ?thesis by (simp add: apply_dry_run_def Let_def)
next
  fix f doc cfg w'
  assume "(resp, d1) = apply_live U x cfg (d\<lparr>d_world := w'\<rparr>)"
  then show ?thesis by (simp add: apply_live_def Let_def)
qed

lemma shutdown_kept:
  assumes "handle_connection U Q FB P W x stream out d = (r, out', d')" "d_shutdown d"
  shows "d_shutdown d'"
  using assms(1)
proof (cases rule: handle_connection_cases)
  case (2 bytes req resp d1)
  with dispatch_keeps_shutdown[OF 2(3)] assms(2) show ?thesis by (simp add: request_shutdown_def)
qed (use assms in simp)

lemma complete_keeps_shutdown: "d_shutdown (complete_job P x k cfg d) = d_shutdown d"
proof -
  obtain w r where "complete_job P x k cfg d = d\<lparr>d_world := w,
        d_jobs := jobs_modify k (\<lambda>j. j\<lparr>job_state_of := fst (job_outcome (out_join_error x) r),
            job_message := snd (job_outcome (out_join_error x) r),
            job_updated_at := now_unix_ms x\<rparr>) (d_jobs d),
        d_tasks := filter (\<lambda>t. fst t \<noteq> k) (d_tasks d)\<rparr>" by (rule complete_job_eq)
  then show ?thesis by simp
qed

text \<open>The flags of the instances created so far.\<close>

definition first_flags :: "'w server \<Rightarrow> bool" where
  "first_flags s \<longleftrightarrow>
    (if sv_first s then sv_created s = []
     else \<exists>n. sv_created s = True # replicate n False)"

definition server_inv :: "ucd \<Rightarrow> 'w platform \<Rightarrow> 'w server \<Rightarrow> bool" where
  "server_inv U P s \<longleftrightarrow>
    daemon_inv U P (sv_daemon s) \<and> first_flags s
    \<and> (sv_phase s = Returned (Inr ()) \<longrightarrow> d_shutdown (sv_daemon s))"

lemma first_flags_create:
  assumes "first_flags s"
  shows "first_flags (s\<lparr>sv_phase := p, sv_created := sv_created s @ [sv_first s], sv_first := False\<rparr>)"
proof (cases "sv_first s")
  case True
  with assms show ?thesis by (auto simp: first_flags_def intro: exI[of _ 0])
next
  case False
  with assms obtain n where "sv_created s = True # replicate n False" by (auto simp: first_flags_def)
  then have "sv_created s @ [sv_first s] = True # replicate (Suc n) False"
    using False by (simp add: replicate_append_same)
  then show ?thesis unfolding first_flags_def by (auto intro!: exI[of _ "Suc n"])
qed

lemma server_inv_background:
  assumes "background_step U Q FB P W s s'" "server_inv U P s"
  shows "server_inv U P s'"
  using assms(1)
proof (cases rule: background_step.cases)
  case (handled x stream out r out' d')
  have "daemon_inv U P d'"
    using daemon_inv_step[OF daemon_step.connection[OF handled(3,4)]] assms(2) by (simp add: server_inv_def)
  with handled assms(2) shutdown_kept[OF handled(4)] show ?thesis
    by (auto simp: server_inv_def first_flags_def)
next
  case (finish k cfg x)
  have "daemon_inv U P (complete_job P x k cfg (sv_daemon s))"
    using daemon_inv_complete[of U P "sv_daemon s" x k cfg] assms(2) by (simp add: server_inv_def)
  with finish assms(2) show ?thesis
    by (auto simp: server_inv_def first_flags_def complete_keeps_shutdown)
next
  case stop_control
  then show ?thesis using assms(2)
    by (simp add: server_inv_def first_flags_def daemon_inv_shutdown) (simp add: request_shutdown_def)
qed

lemma server_inv_step:
  assumes "serve_step U Q FB P W s s'" "server_inv U P s"
  shows "server_inv U P s'"
  using assms(1)
proof (cases rule: serve_step.cases)
  case create
  then show ?thesis using assms(2) first_flags_create[of s Waiting] by (simp add: server_inv_def)
qed (use assms(2) in \<open>auto simp: server_inv_def first_flags_def dest: server_inv_background\<close>)

lemma server_inv_accept:
  assumes "accept_step U Q FB P W s s'" "server_inv U P s"
  shows "server_inv U P s'"
  using assms(1)
  by (cases rule: accept_step.cases)
    (use assms(2) in \<open>auto simp: server_inv_def first_flags_def dest: server_inv_background\<close>)

lemma serving_inv: "serving U Q FB P W s \<Longrightarrow> server_inv U P s"
proof -
  assume "serving U Q FB P W s"
  then obtain w x where
    "(serve_step U Q FB P W)\<^sup>*\<^sup>* (server_new (daemon_new w x)) s
      \<or> (accept_step U Q FB P W)\<^sup>*\<^sup>* (server_listening (daemon_new w x)) s"
    by (auto simp: serving_def)
  then show ?thesis
  proof
    have "server_inv U P (server_new (daemon_new w x))"
      by (simp add: server_inv_def server_new_def daemon_inv_new first_flags_def)
    moreover assume "(serve_step U Q FB P W)\<^sup>*\<^sup>* (server_new (daemon_new w x)) s"
    ultimately show ?thesis by (rotate_tac) (induction rule: rtranclp_induct, auto intro: server_inv_step)
  next
    have "server_inv U P (server_listening (daemon_new w x))"
      by (simp add: server_inv_def server_listening_def server_new_def daemon_inv_new first_flags_def)
    moreover assume "(accept_step U Q FB P W)\<^sup>*\<^sup>* (server_listening (daemon_new w x)) s"
    ultimately show ?thesis by (rotate_tac) (induction rule: rtranclp_induct, auto intro: server_inv_accept)
  qed
qed

text \<open>C36: the server around the daemon: at every moment, whatever clients connect, tasks finish and the
  service manager asks, a job is running exactly when a background task works on it, only the first pipe
  instance is created as the first, and the server returns without an error only after a shutdown was
  requested.\<close>

theorem server_invariant:
  assumes "serving U Q FB P W s"
  shows "(job_running (sv_daemon s) k \<longleftrightarrow> k \<in> fst ` set (d_tasks (sv_daemon s)))
    \<and> (sv_created s = [] \<or> hd (sv_created s) \<and> True \<notin> set (tl (sv_created s)))
    \<and> (sv_phase s = Returned (Inr ()) \<longrightarrow> d_shutdown (sv_daemon s))"
proof -
  have inv: "server_inv U P s" using assms by (rule serving_inv)
  have "sv_created s = [] \<or> hd (sv_created s) \<and> True \<notin> set (tl (sv_created s))"
    using inv by (auto simp: server_inv_def first_flags_def split: if_splits)
  then show ?thesis using inv unfolding server_inv_def daemon_inv_def by blast
qed

lemma stopped_server:
  "serving sample_ucd sample_parsers sample_buffers sample_platform memory_writer
    (server_new (daemon_new 0 sample_outside)\<lparr>sv_phase := Returned (Inr ()), sv_created := [True], sv_first := False,
      sv_daemon := request_shutdown (daemon_new 0 sample_outside)\<rparr>)"
proof -
  let ?d = "daemon_new 0 sample_outside" and ?step = "serve_step sample_ucd sample_parsers sample_buffers sample_platform memory_writer"
  let ?s1 = "server_new ?d\<lparr>sv_phase := Waiting, sv_created := [True], sv_first := False\<rparr>"
  let ?s2 = "?s1\<lparr>sv_daemon := request_shutdown ?d\<rparr>"
  have "?step (server_new ?d) ?s1" using serve_step.create[of "server_new ?d"] by (simp add: server_new_def)
  moreover have "?step ?s1 ?s2" using serve_step.background[OF background_step.stop_control[of _ _ _ _ _ ?s1]] by (simp add: server_new_def)
  moreover have "?step ?s2 (?s2\<lparr>sv_phase := Returned (Inr ())\<rparr>)"
    by (rule serve_step.shutdown) (simp_all add: server_new_def request_shutdown_def)
  ultimately have "?step\<^sup>*\<^sup>* (server_new ?d) (?s2\<lparr>sv_phase := Returned (Inr ())\<rparr>)" by (meson converse_rtranclp_into_rtranclp rtranclp.rtrancl_refl)
  then show ?thesis unfolding serving_def by (intro exI disjI1) (simp add: server_new_def)
qed

theorem server_invariant_witness: "\<not> job_running (request_shutdown (daemon_new (0 :: nat) sample_outside)) ''u-1''"
  using server_invariant[OF stopped_server, of "''u-1''"]
  by (simp add: server_new_def request_shutdown_def daemon_new_def)

section \<open>The statuses of the service\<close>

definition start_pending :: service_status where
  "start_pending = status_of STATE_START_PENDING 0 0 1 5000"

definition running_status :: service_status where
  "running_status = status_of STATE_RUNNING SERVICE_ACCEPT_STOP 0 0 0"

definition stopped_status :: "bool \<Rightarrow> service_status" where
  "stopped_status ok = status_of STATE_STOPPED 0 (if ok then 0 else ERROR_SERVICE_SPECIFIC_ERROR) 0 0"

text \<open>The service reports start pending, running, and at the end stopped, with a service-specific
  error code exactly when the daemon failed; but when the runtime cannot be built it ends after the
  start-pending report and never reports stopped.\<close>

theorem service_status_sequence:
  assumes "\<forall>h s v l. sh_report V h s (v, l) = (Inr (), (v, l @ [s]))"
    "\<forall>n w. sh_register V n w = (Inr handle, w)" "\<forall>w. sh_runtime V w = (built, w)"
    "\<forall>l. sh_run V (v, l) = (result, (v', l @ reports))"
  shows "service_main V (v, l) =
    (case built of
       Inl e \<Rightarrow> (Inl e, (v, l @ [start_pending]))
     | Inr _ \<Rightarrow> (result, (v', l @ [start_pending, running_status] @ reports @ [stopped_status (is_ok result)])))"
proof (cases built)
  case (Inl e)
  then show ?thesis
    using assms by (simp add: service_main_def set_status_def thenE_def bindE_def map_errE_def start_pending_def)
next
  case (Inr u)
  then show ?thesis
    using assms
    by (simp add: service_main_def set_status_def thenE_def bindE_def map_errE_def start_pending_def
        running_status_def stopped_status_def liftE_def)
qed

definition sample_host :: "io_failure + unit \<Rightarrow> (nat \<times> service_status list) service_host" where
  "sample_host built = \<lparr>sh_register = \<lambda>n w. (Inr 5, w), sh_report = \<lambda>h s (v, l). (Inr (), (v, l @ [s])),
     sh_runtime = \<lambda>w. (built, w), sh_run = \<lambda>(v, l). (Inr (), (v + 1, l @ []))\<rparr>"

theorem service_status_sequence_witness:
  "service_main (sample_host (Inr ())) (0, []) = (Inr (), (1, [start_pending, running_status, stopped_status True]))
    \<and> service_main (sample_host (Inl nul_failure)) (0, []) = (Inl nul_failure, (0, [start_pending]))"
  using service_status_sequence[of "sample_host (Inr ())" 5 "Inr ()" 0 "Inr ()" 1 "[]" "[]"]
    service_status_sequence[of "sample_host (Inl nul_failure)" 5 "Inl nul_failure" 0 "Inr ()" 1 "[]" "[]"]
  by (simp add: sample_host_def)

end
