(* ===== verification/Wlan_Document.thy ===== *)
theory Wlan_Document
  imports Wlan
begin

text \<open>
  The Wi-Fi profile document: a reader of its tokens, and the tokens \<open>profile_xml\<close> writes, so that no name,
  network or key can change its structure.
\<close>

section \<open>A reader of the profile document\<close>

text \<open>
  The tokens of an XML document without comments and character data sections: a start tag with its
  attributes as they stand, an end tag, and text with its five named entities replaced.
\<close>

datatype xml_token = Begin_Tag string | End_Tag string | Chars string

definition entity :: "string \<Rightarrow> (char \<times> nat) option" where
  "entity cs =
    (if take 4 cs = ''amp;'' then Some (CHR ''&'', 4)
     else if take 3 cs = ''lt;'' then Some (CHR ''<'', 3)
     else if take 3 cs = ''gt;'' then Some (CHR ''>'', 3)
     else if take 5 cs = ''quot;'' then Some (dquote, 5)
     else if take 5 cs = ''apos;'' then Some (CHR 0x27, 5) else None)"

function xml_unescape :: "string \<Rightarrow> string" where
  "xml_unescape [] = []"
| "xml_unescape (c # cs) =
    (case (if c = CHR ''&'' then entity cs else None) of
       Some (d, n) \<Rightarrow> d # xml_unescape (drop n cs)
     | None \<Rightarrow> c # xml_unescape cs)"
  by pat_completeness auto
termination by (relation "measure length") auto

function xml_tokens :: "string \<Rightarrow> xml_token list" where
  "xml_tokens [] = []"
| "xml_tokens (c # cs) =
    (if c = CHR ''<'' then
       (let t = takeWhile (\<lambda>d. d \<noteq> CHR ''>'') cs in
        (if t \<noteq> [] \<and> hd t = CHR ''/'' then End_Tag (tl t) else Begin_Tag t)
          # xml_tokens (drop (Suc (length t)) cs))
     else
       (let t = takeWhile (\<lambda>d. d \<noteq> CHR ''<'') cs in
        Chars (xml_unescape (c # t)) # xml_tokens (drop (length t) cs)))"
  by pat_completeness auto
termination by (relation "measure length") auto

lemma xml_unescape_escape: "xml_unescape (xml_escape s) = s"
proof (induction s)
  case (Cons c s)
  have "xml_unescape (xml_escape_char c @ t) = c # xml_unescape t" for t
    by (auto simp: entity_def)
  with Cons show ?case by (simp add: xml_escape_def del: xml_escape_char.simps)
qed (simp add: xml_escape_def)

lemma xml_escape_no_tag: "CHR ''<'' \<notin> set (xml_escape s)"
  by (induction s) (auto simp: xml_escape_def)

lemma xml_escape_empty: "xml_escape s = [] \<longleftrightarrow> s = []"
  by (cases s) (auto simp: xml_escape_def)

text \<open>A piece of markup: it starts a tag, and reads to the same tokens before every tag that follows.\<close>

definition at_tag :: "string \<Rightarrow> bool" where
  "at_tag s \<longleftrightarrow> s = [] \<or> hd s = CHR ''<''"

definition markup :: "string \<Rightarrow> xml_token list \<Rightarrow> bool" where
  "markup x ts \<longleftrightarrow> at_tag x \<and> (\<forall>rest. at_tag rest \<longrightarrow> xml_tokens (x @ rest) = ts @ xml_tokens rest)"

definition tag_name :: "string \<Rightarrow> bool" where
  "tag_name t \<longleftrightarrow> t \<noteq> [] \<and> hd t \<noteq> CHR ''/'' \<and> CHR ''>'' \<notin> set t"

definition chars :: "string \<Rightarrow> xml_token list" where
  "chars s = (if s = [] then [] else [Chars s])"

definition element :: "string \<Rightarrow> xml_token list \<Rightarrow> xml_token list" where
  "element t ts = Begin_Tag t # ts @ [End_Tag t]"

definition leaf :: "string \<Rightarrow> string \<Rightarrow> xml_token list" where
  "leaf t s = element t (chars s)"

lemma read_tag:
  "CHR ''>'' \<notin> set t \<Longrightarrow> xml_tokens (CHR ''<'' # t @ CHR ''>'' # rest)
    = (if t \<noteq> [] \<and> hd t = CHR ''/'' then End_Tag (tl t) else Begin_Tag t) # xml_tokens rest"
proof -
  assume "CHR ''>'' \<notin> set t"
  then have "takeWhile (\<lambda>d. d \<noteq> CHR ''>'') (t @ CHR ''>'' # rest) = t"
    by (auto simp: takeWhile_append)
  then show ?thesis by simp
qed

lemma read_begin: "tag_name t \<Longrightarrow> xml_tokens (''<'' @ t @ ''>'' @ rest) = Begin_Tag t # xml_tokens rest"
  using read_tag[of t rest] by (simp add: tag_name_def)

lemma read_end: "tag_name t \<Longrightarrow> xml_tokens (''</'' @ t @ ''>'' @ rest) = End_Tag t # xml_tokens rest"
  using read_tag[of "CHR ''/'' # t" rest] by (simp add: tag_name_def)

lemma read_chars:
  assumes "at_tag rest"
  shows "xml_tokens (xml_escape s @ rest) = chars s @ xml_tokens rest"
proof (cases "xml_escape s")
  case Nil
  then show ?thesis using xml_escape_empty[of s] by (simp add: chars_def xml_escape_def)
next
  case (Cons c cs)
  have no: "CHR ''<'' \<notin> set (c # cs)" using xml_escape_no_tag[of s] Cons by simp
  have "takeWhile (\<lambda>d. d \<noteq> CHR ''<'') (cs @ rest) = cs"
    using no assms by (cases rest) (auto simp: at_tag_def takeWhile_append takeWhile_eq_all_conv)
  moreover have "xml_unescape (c # cs) = s" using xml_unescape_escape[of s] Cons by simp
  moreover have "s \<noteq> []" using Cons xml_escape_empty[of s] by auto
  moreover have "c \<noteq> CHR ''<''" using no by auto
  ultimately show ?thesis using Cons by (simp add: chars_def del: xml_unescape.simps)
qed

lemma markup_nil: "markup [] []"
  by (simp add: markup_def at_tag_def)

lemma at_tag_append: "at_tag x \<Longrightarrow> at_tag y \<Longrightarrow> at_tag (x @ y)"
  by (cases x) (auto simp: at_tag_def)

lemma markup_append: "markup x ts \<Longrightarrow> markup y us \<Longrightarrow> markup (x @ y) (ts @ us)"
  by (auto simp: markup_def at_tag_append)

lemma markup_element: "tag_name t \<Longrightarrow> markup x ts \<Longrightarrow> markup (xml_tag t x) (element t ts)"
  unfolding markup_def xml_tag_def element_def
  using read_begin[of t "x @ ''</'' @ t @ ''>'' @ rest" for rest] read_end[of t]
  by (auto simp: at_tag_def)

lemma markup_leaf: "tag_name t \<Longrightarrow> markup (xml_tag t (xml_escape s)) (leaf t s)"
  unfolding markup_def xml_tag_def leaf_def element_def
  using read_begin[of t "xml_escape s @ ''</'' @ t @ ''>'' @ rest" for rest]
    read_chars[of "''</'' @ t @ ''>'' @ rest" s for rest] read_end[of t]
  by (auto simp: at_tag_def)

lemma markup_plain: "tag_name t \<Longrightarrow> xml_escape s = s \<Longrightarrow> markup (xml_tag t s) (leaf t s)"
  using markup_leaf[of t s] by simp

text \<open>The tokens a profile is meant to have, with names and key as they are.\<close>

definition security_tokens :: "wifi_profile \<Rightarrow> string \<Rightarrow> xml_token list" where
  "security_tokens p key =
    (let wpa2 = (wp_authentication p = Wpa2Personal) in
     if wp_authentication p = Open then
       element ''authEncryption'' (leaf ''authentication'' ''open'' @ leaf ''encryption'' ''none''
         @ leaf ''useOneX'' ''false'')
     else
       element ''authEncryption'' (leaf ''authentication'' (if wpa2 then ''WPA2PSK'' else ''WPA3SAE'')
         @ leaf ''encryption'' ''AES'' @ leaf ''useOneX'' ''false'')
       @ element ''sharedKey'' (leaf ''keyType'' (if wpa2 \<and> is_hex_key key then ''networkKey'' else ''passPhrase'')
         @ leaf ''protected'' ''false'' @ leaf ''keyMaterial'' key))"

definition profile_tokens :: "wifi_profile \<Rightarrow> string \<Rightarrow> xml_token list" where
  "profile_tokens p key =
    [Begin_Tag (''?xml version='' @ quoted ''1.0'' @ ''?''),
     Begin_Tag (''WLANProfile xmlns='' @ quoted ''https://www.microsoft.com/networking/WLAN/profile/v1'')]
    @ leaf ''name'' (wifi_profile_name p)
    @ element ''SSIDConfig'' (element ''SSID'' (leaf ''name'' (wp_ssid p))
        @ (if wp_hidden p then leaf ''nonBroadcast'' ''true'' else []))
    @ leaf ''connectionType'' ''ESS''
    @ leaf ''connectionMode'' (if wp_auto_connect p then ''auto'' else ''manual'')
    @ leaf ''autoSwitch'' ''false''
    @ element ''MSM'' (element ''security'' (security_tokens p key))
    @ [End_Tag ''WLANProfile'']"

text \<open>The key of a secured profile, when it can be resolved.\<close>

definition profile_key :: "ucd \<Rightarrow> 'w windows \<Rightarrow> wifi_profile \<Rightarrow> string" where
  "profile_key U A p =
    (case wp_psk p of
       None \<Rightarrow> []
     | Some r \<Rightarrow> (case resolve_secret U A r of Inr key \<Rightarrow> key | Inl e \<Rightarrow> []))"

lemma tag_names:
  "list_all tag_name [''name'', ''SSIDConfig'', ''SSID'', ''nonBroadcast'', ''connectionType'', ''connectionMode'',
     ''autoSwitch'', ''MSM'', ''security'', ''authEncryption'', ''authentication'', ''encryption'', ''useOneX'',
     ''sharedKey'', ''keyType'', ''protected'', ''keyMaterial'']"
  by (simp add: tag_name_def)

lemma plain_texts:
  "list_all (\<lambda>s. xml_escape s = s) [''open'', ''none'', ''false'', ''true'', ''WPA2PSK'', ''WPA3SAE'', ''AES'', ''networkKey'',
     ''passPhrase'', ''ESS'', ''auto'', ''manual'']"
  by (simp add: xml_escape_def)

lemmas markup_rules = markup_append markup_element markup_leaf markup_plain

lemma markup_security:
  assumes "security_xml U A p = Inr x"
  shows "markup x (security_tokens p (profile_key U A p))"
proof (cases "wp_authentication p = Open")
  case True
  then show ?thesis
    using assms tag_names plain_texts unfolding security_tokens_def security_xml_def
    by (auto intro!: markup_rules)
next
  case False
  then obtain r key where key: "wp_psk p = Some r" "resolve_secret U A r = Inr key"
    using assms by (auto simp: security_xml_def bindR_ok elim!: ok_or.elims)
  then show ?thesis
    using assms False tag_names plain_texts
    unfolding security_tokens_def security_xml_def profile_key_def Let_def
    by (auto simp: bindR_ok intro!: markup_rules)
qed

lemma markup_profile_body:
  assumes "security_xml U A p = Inr x"
  shows "markup (xml_tag ''name'' (xml_escape (wifi_profile_name p))
      @ xml_tag ''SSIDConfig'' (xml_tag ''SSID'' (xml_tag ''name'' (xml_escape (wp_ssid p)))
          @ (if wp_hidden p then xml_tag ''nonBroadcast'' ''true'' else []))
      @ xml_tag ''connectionType'' ''ESS''
      @ xml_tag ''connectionMode'' (if wp_auto_connect p then ''auto'' else ''manual'')
      @ xml_tag ''autoSwitch'' ''false'' @ xml_tag ''MSM'' (xml_tag ''security'' x))
    (leaf ''name'' (wifi_profile_name p)
      @ element ''SSIDConfig'' (element ''SSID'' (leaf ''name'' (wp_ssid p))
          @ (if wp_hidden p then leaf ''nonBroadcast'' ''true'' else []))
      @ leaf ''connectionType'' ''ESS''
      @ leaf ''connectionMode'' (if wp_auto_connect p then ''auto'' else ''manual'')
      @ leaf ''autoSwitch'' ''false''
      @ element ''MSM'' (element ''security'' (security_tokens p (profile_key U A p))))"
  using tag_names plain_texts
  by (intro markup_rules markup_security[OF assms])
    (auto simp: markup_nil intro: markup_plain)

lemma profile_document_of:
  assumes "security_xml U A p = Inr x"
  shows "\<exists>xml. profile_xml U A p = Inr xml \<and> xml_tokens xml = profile_tokens p (profile_key U A p)"
proof -
  let ?closing = "''</WLANProfile>''"
  have last_tag: "xml_tokens ?closing = [End_Tag ''WLANProfile'']" by simp
  have "at_tag ?closing" by (simp add: at_tag_def)
  note body = markup_profile_body[OF assms, unfolded markup_def, THEN conjunct2, rule_format, OF this,
      unfolded last_tag append_assoc]
  have heads: "CHR ''>'' \<notin> set (''?xml version='' @ quoted ''1.0'' @ ''?'')"
    "CHR ''>'' \<notin> set (''WLANProfile xmlns='' @ quoted ''https://www.microsoft.com/networking/WLAN/profile/v1'')"
    by (simp_all add: quoted_def)
  show ?thesis
    using assms body read_tag[OF heads(1)] read_tag[OF heads(2)]
    by (simp add: profile_xml_def profile_tokens_def)
qed

lemma profile_document:
  assumes "profile_xml U A p = Inr xml"
  shows "xml_tokens xml = profile_tokens p (profile_key U A p)"
proof -
  obtain x where "security_xml U A p = Inr x" using assms by (auto simp: profile_xml_def bindR_ok)
  from profile_document_of[OF this] assms show ?thesis by auto
qed


end
