(* ===== verification/Undo_Facts.thy ===== *)
theory Undo_Facts
  imports Effect_Logic
begin

text \<open>
  Steps of a transaction whose recorded actions undo them, for one observed part of the world at a time:
  executing what a step recorded, without a failure, gives back what was observed before it.  The steps
  compose because the actions are executed newest first.
\<close>

lemma execute_each_two:
  "execute_each Y (as @ bs) w =
    (case execute_each Y as w of (e, w1) \<Rightarrow> case execute_each Y bs w1 of (f, w2) \<Rightarrow> (e @ f, w2))"
  by (induction as arbitrary: w) (auto split: prod.splits)

lemma execute_each_append:
  "execute_each Y (as @ bs) w = ([], w') \<longleftrightarrow>
    (\<exists>w1. execute_each Y as w = ([], w1) \<and> execute_each Y bs w1 = ([], w'))"
  unfolding execute_each_two by (auto split: prod.splits)

lemma rollback_all_append:
  "rollback_all Y (as @ bs) w = ([], w') \<longleftrightarrow>
    (\<exists>w1. rollback_all Y bs w = ([], w1) \<and> rollback_all Y as w1 = ([], w'))"
  by (simp add: rollback_all_def execute_each_append)

lemma rollback_all_simps [simp]:
  "rollback_all Y [] w = ([], w)"
  "rollback_all Y [a] w = ([], w') \<longleftrightarrow> execute Y a w = (Inr (), w')"
  by (auto simp: rollback_all_def split: prod.splits sum.splits)

text \<open>\<open>st\<close> is the observed part, \<open>t\<close> and \<open>t1\<close> the transaction before and after.\<close>

definition undoes :: "'w system \<Rightarrow> ('w \<Rightarrow> 'v) \<Rightarrow> 'w txn \<Rightarrow> 'w txn \<Rightarrow> bool" where
  "undoes Y st t t1 \<longleftrightarrow>
    (\<exists>undo. tx_rollback t1 = tx_rollback t @ undo
      \<and> (\<forall>w w'. st w = st (tx_world t1) \<longrightarrow> rollback_all Y undo w = ([], w') \<longrightarrow> st w' = st (tx_world t)))"

lemma undoes_same: "tx_rollback t1 = tx_rollback t \<Longrightarrow> st (tx_world t1) = st (tx_world t) \<Longrightarrow> undoes Y st t t1"
  unfolding undoes_def by (intro exI[of _ "[]"]) simp

lemma undoes_action:
  assumes "tx_rollback t1 = tx_rollback t @ [a]"
    "\<And>w w'. st w = st (tx_world t1) \<Longrightarrow> execute Y a w = (Inr (), w') \<Longrightarrow> st w' = st (tx_world t)"
  shows "undoes Y st t t1"
proof -
  have "st w' = st (tx_world t)" if "st w = st (tx_world t1)" "rollback_all Y [a] w = ([], w')" for w w'
    using that(2) assms(2)[OF that(1)] by simp
  with assms(1) show ?thesis unfolding undoes_def by blast
qed

lemma undoes_trans:
  assumes "undoes Y st t t1" "undoes Y st t1 t2"
  shows "undoes Y st t t2"
proof -
  obtain as bs where a: "tx_rollback t1 = tx_rollback t @ as" "tx_rollback t2 = tx_rollback t1 @ bs"
    and u: "\<And>w w'. st w = st (tx_world t1) \<Longrightarrow> rollback_all Y as w = ([], w') \<Longrightarrow> st w' = st (tx_world t)"
      "\<And>w w'. st w = st (tx_world t2) \<Longrightarrow> rollback_all Y bs w = ([], w') \<Longrightarrow> st w' = st (tx_world t1)"
    using assms unfolding undoes_def by blast
  have "st w' = st (tx_world t)" if "st w = st (tx_world t2)" "rollback_all Y (as @ bs) w = ([], w')" for w w'
    using that u unfolding rollback_all_append by blast
  moreover have "tx_rollback t2 = tx_rollback t @ (as @ bs)" using a by simp
  ultimately show ?thesis unfolding undoes_def by blast
qed

definition undoable :: "'w system \<Rightarrow> ('w \<Rightarrow> 'v) \<Rightarrow> ('w \<Rightarrow> bool) \<Rightarrow> ('w txn, 'e, 'a) eff \<Rightarrow> bool" where
  "undoable Y st I m \<longleftrightarrow>
    (\<forall>t. I (tx_world t) \<longrightarrow> undoes Y st t (snd (m t)) \<and> I (tx_world (snd (m t))))"

named_theorems undoable_rules \<open>steps that record how to undo them\<close>

lemma undoable_return [undoable_rules]: "undoable Y st I (returnE a)"
  by (simp add: undoable_def returnE_def undoes_same)

lemma undoable_lift [undoable_rules]: "undoable Y st I (liftE r)"
  by (simp add: undoable_def liftE_def undoes_same)

lemma undoable_bind [undoable_rules]:
  assumes "undoable Y st I m" "\<And>a. undoable Y st I (k a)"
  shows "undoable Y st I (bindE m k)"
  unfolding undoable_def
proof (intro allI impI)
  fix t :: "'a txn" assume I: "I (tx_world t)"
  obtain r t1 where m: "m t = (r, t1)" by fastforce
  with assms(1) I have one: "undoes Y st t t1" "I (tx_world t1)" unfolding undoable_def by force+
  show "undoes Y st t (snd (bindE m k t)) \<and> I (tx_world (snd (bindE m k t)))"
  proof (cases r)
    case (Inl e)
    with m one show ?thesis by (simp add: bindE_def)
  next
    case (Inr a)
    with m one assms(2)[of a] undoes_trans[OF one(1)] show ?thesis by (simp add: bindE_def undoable_def)
  qed
qed

lemma undoable_then [undoable_rules]: "undoable Y st I m \<Longrightarrow> undoable Y st I n \<Longrightarrow> undoable Y st I (thenE m n)"
  unfolding thenE_def by (rule undoable_bind)

lemma undoable_for [undoable_rules]:
  "(\<And>x. x \<in> set xs \<Longrightarrow> undoable Y st I (f x)) \<Longrightarrow> undoable Y st I (forE f xs)"
  by (induction xs) (auto intro: undoable_rules)

lemma undoable_quiet [undoable_rules]:
  assumes "quietE st m" "\<And>w w'. st w = st w' \<Longrightarrow> I w \<Longrightarrow> I w'"
  shows "undoable Y st I (on_tx m)"
  unfolding undoable_def on_tx_def
  using assms by (auto intro!: undoes_same simp: quietE_def split: prod.splits) (metis snd_conv)+

section \<open>An idle system\<close>

text \<open>Windows calls that answer and change nothing, over any world.\<close>

definition idle_error :: io_error where
  "idle_error = \<lparr>ioe_kind = IoOther, ioe_raw = None, ioe_text = ''unused''\<rparr>"

definition idle_windows :: "'w windows" where
  "idle_windows = \<lparr>os_env = \<lambda>n. None,
     os_output = \<lambda>tool args. Pair (Inr \<lparr>po_status = 0, po_stdout = [], po_stderr = []\<rparr>),
     os_status = \<lambda>program args. returnE 0, os_spawn = \<lambda>program args. returnE (),
     os_name_size = \<lambda>f. Pair (1, idle_error), os_name_get = \<lambda>f n. Pair (Inr (0, [0])),
     os_name_set = \<lambda>f u. returnE (), os_join_get = Pair (0, [], 2), os_buffer_free = Pair 0,
     os_join_workgroup = \<lambda>u. Pair 0, os_reg_get = \<lambda>k n f c. Pair (2, 0, []), os_reg_dword = \<lambda>k n. Pair (0, 0),
     os_reg_set = \<lambda>k n d. Pair 0, os_reg_delete = \<lambda>k n. Pair 0, os_scm_open = returnE (),
     os_service_open = \<lambda>n. returnE (), os_service_query = \<lambda>n. returnE 4, os_service_start = \<lambda>n. returnE (),
     os_service_stop = \<lambda>n. returnE (), os_now = Pair 0, os_sleep = \<lambda>d w. w,
     os_canonicalize = \<lambda>p. returnE None, os_load_library = \<lambda>n. returnE (), os_has_export = \<lambda>n. Pair True,
     os_update_driver = \<lambda>h p f. Pair (True, False, idle_error)\<rparr>"

definition idle_wlan :: "'w wlan" where
  "idle_wlan = \<lparr>wl_open_handle = Pair 0, wl_enum_interfaces = Pair (0, Some []),
     wl_guid_to_luid = \<lambda>g. Pair (0, 0), wl_luid_to_index = \<lambda>l. Pair (0, 0),
     wl_get_profile = \<lambda>g n. Pair (1168, []), wl_set_profile = \<lambda>g x. Pair (0, 0),
     wl_delete_profile = \<lambda>g n. Pair 0, wl_scan = \<lambda>g. Pair 0, wl_connect = \<lambda>g n. Pair 0,
     wl_disconnect = \<lambda>g. Pair 0, wl_query_connection = \<lambda>g. Pair (1168, None),
     wl_query_radio = \<lambda>g. Pair (0, None), wl_available_networks = \<lambda>g. Pair (0, Some []),
     wl_register = \<lambda>b. Pair 0, wl_notifications = \<lambda>t. Pair []\<rparr>"

definition no_share :: share_info where
  "no_share = \<lparr>si_netname = [], si_type = 0, si_remark = None, si_permissions = 0, si_max_uses = 0,
     si_path = None, si_passwd = None, si_descriptor = []\<rparr>"

definition idle_netapi :: "'w netapi" where
  "idle_netapi = \<lparr>na_user_get = \<lambda>n. Pair 2221, na_user_add = \<lambda>n p. Pair (0, 0), na_user_del = \<lambda>n. Pair 0,
     na_share_get = \<lambda>n. Pair (2310, no_share), na_share_add = \<lambda>i. Pair (0, 0), na_share_set = \<lambda>n i. Pair (0, 0),
     na_share_set_security = \<lambda>n d. Pair (0, 0), na_share_del = \<lambda>n. Pair 0, na_buffer_free = Pair 0,
     na_lookup_size = \<lambda>n. Pair (False, 12), na_lookup_sid = \<lambda>n. returnE ''sid'',
     na_well_known_sid = \<lambda>k. returnE ''sid'', na_set_entries = \<lambda>e. Pair (0, []),
     na_init_descriptor = returnE (), na_set_dacl = \<lambda>a. returnE ''acl'',
     na_get_connection = \<lambda>l n. Pair (2250, 0, []), na_add_connection = \<lambda>l r p u. Pair 0,
     na_cancel_connection = \<lambda>t. Pair 0\<rparr>"

lemma idle_fields [simp]:
  "os_load_library idle_windows n = returnE ()" "os_has_export idle_windows symbol w = (True, w)"
  by (simp_all add: idle_windows_def)

end
