(* ===== verification/Wlan_Facts.thy ===== *)
theory Wlan_Facts
  imports Wlan_Document Undo_Facts Sample
begin

text \<open>
  Correctness of the Wi-Fi operations on the system: a scan removes its callback, and the recorded actions
  bring back the stored profiles.
\<close>

section \<open>The scan callback\<close>

text \<open>\<open>callbacks w\<close> are the callbacks registered in \<open>w\<close>; a registration that fails changes nothing.\<close>

definition callback_laws :: "'w wlan \<Rightarrow> ('w \<Rightarrow> nat) \<Rightarrow> bool" where
  "callback_laws W callbacks \<longleftrightarrow>
    (\<forall>b w code w'. wl_register W b w = (code, w') \<longrightarrow>
      callbacks w' = (if code \<noteq> 0 then callbacks w else if b then callbacks w + 1 else callbacks w - 1))
    \<and> (\<forall>g. quiet_call callbacks (wl_query_radio W g)) \<and> (\<forall>g. quiet_call callbacks (wl_scan W g))
    \<and> (\<forall>t. quiet_call callbacks (wl_notifications W t))"

lemma wlan_result_ok: "wlan_result operation code = Inr u \<longleftrightarrow> code = 0"
  by (simp add: wlan_result_def)

lemma register_call:
  assumes "callback_laws W callbacks" "wlan_call operation (wl_register W b) w = (r, w')"
  shows "callbacks w' = (if r \<noteq> Inr () then callbacks w else if b then callbacks w + 1 else callbacks w - 1)"
proof -
  obtain code w1 where c: "wl_register W b w = (code, w1)" by fastforce
  then have "w' = w1" "r = wlan_result operation code"
    using assms(2) by (auto simp: wlan_call_def bindE_def callE_def liftE_def)
  moreover have "callbacks w1 = (if code \<noteq> 0 then callbacks w else if b then callbacks w + 1 else callbacks w - 1)"
    using assms(1) c unfolding callback_laws_def by blast
  ultimately show ?thesis by (simp add: wlan_result_ok)
qed

text \<open>
  A scan removes the callback it registered whatever happens in between; it reports a result only when
  the callback is gone.  When the removal fails, its callback stays registered and the scan reports an error.
\<close>

theorem scan_callback_released:
  assumes "callback_laws W callbacks" "wlan_scan_and_wait W g timeout w = (r, w')"
  shows "callbacks w' = callbacks w \<or> callbacks w' = callbacks w + 1 \<and> (\<exists>e. r = Inl e)"
proof -
  obtain r1 w1 where one: "wlan_call ''WlanRegisterNotification'' (wl_register W True) w = (r1, w1)" by fastforce
  note registered = register_call[OF assms(1) one]
  show ?thesis
  proof (cases r1)
    case (Inl e)
    then show ?thesis using assms(2) one registered by (simp add: wlan_scan_and_wait_def bindE_def)
  next
    case (Inr u)
    let ?scan = "bindE (wlan_scan W g) (\<lambda>_. bindE (callE (wl_notifications W timeout)) (\<lambda>ns. liftE (scan_outcome g ns)))"
    obtain r2 w2 where two: "?scan w1 = (r2, w2)" by fastforce
    have "quietE callbacks ?scan"
      using assms(1) unfolding callback_laws_def wlan_scan_def wlan_radio_state_def wlan_call_def
      by (intro quiet) auto
    from quietD[OF this two] registered Inr have w2: "callbacks w2 = callbacks w + 1" by simp
    obtain r3 w3 where three: "wlan_call ''WlanRegisterNotification(unregister)'' (wl_register W False) w2 = (r3, w3)"
      by fastforce
    have "w' = w3" "r = bindR r2 (\<lambda>x. bindR r3 (\<lambda>_. Inr x))"
      using assms(2) one two three Inr by (simp_all add: wlan_scan_and_wait_def bindE_def)
    then show ?thesis using register_call[OF assms(1) three] w2 by (cases r2; cases r3) auto
  qed
qed

section \<open>The rollback of profiles\<close>

text \<open>
  The documented profile store: \<open>st w g n\<close> is the document kept for interface \<open>g\<close> under the name \<open>n\<close>, and
  \<open>name_in\<close> the name a document gives.  A failed change leaves the store as it is.
\<close>

definition profile_laws :: "'w wlan \<Rightarrow> (units \<Rightarrow> units) \<Rightarrow> ('w \<Rightarrow> guid \<Rightarrow> units \<Rightarrow> units option) \<Rightarrow> bool" where
  "profile_laws W name_in st \<longleftrightarrow>
    (\<forall>g n w code xml w'. wl_get_profile W g n w = ((code, xml), w') \<longrightarrow> st w' = st w
      \<and> (code = 1168 \<longrightarrow> st w g (until_nul n) = None)
      \<and> (code = 0 \<longrightarrow> st w g (until_nul n) = Some (until_nul xml)))
    \<and> (\<forall>g xml w code reason w'. wl_set_profile W g xml w = ((code, reason), w') \<longrightarrow>
      st w' = (if code = 0 \<and> reason = 0
        then (st w)(g := (st w g)(name_in (until_nul xml) \<mapsto> until_nul xml)) else st w))
    \<and> (\<forall>g n w code w'. wl_delete_profile W g n w = (code, w') \<longrightarrow>
      st w' = (if code = 0 \<or> code = 1168 then (st w)(g := (st w g)(until_nul n := None)) else st w))"

definition named_profiles :: "(units \<Rightarrow> units) \<Rightarrow> (guid \<Rightarrow> units \<Rightarrow> units option) \<Rightarrow> bool" where
  "named_profiles name_in s \<longleftrightarrow> (\<forall>g n xml. s g n = Some xml \<longrightarrow> name_in xml = n)"

lemma get_profile_law:
  assumes "profile_laws W name_in st" "wlan_get_profile W g n w = (r, w')"
  shows "st w' = st w" "r = Inr None \<Longrightarrow> st w g (until_nul (wide n)) = None"
    "r = Inr (Some xml) \<Longrightarrow> st w g (until_nul (wide n)) = Some (until_nul (wide xml))"
proof -
  obtain code u w1 where c: "wl_get_profile W g (wide n) w = ((code, u), w1)" by (metis prod.exhaust)
  then have l: "st w1 = st w" "code = 1168 \<Longrightarrow> st w g (until_nul (wide n)) = None"
    "code = 0 \<Longrightarrow> st w g (until_nul (wide n)) = Some (until_nul u)"
    using assms(1) unfolding profile_laws_def by blast+
  have ok: "wlan_result x code = Inr a \<Longrightarrow> code = 0" for x a
    by (auto simp: wlan_result_def split: if_splits)
  show "st w' = st w" "r = Inr None \<Longrightarrow> st w g (until_nul (wide n)) = None"
    using assms(2) c l(1,2) by (auto simp: wlan_get_profile_def bindE_def callE_def returnE_def liftE_def mapR_ok
        split: if_splits prod.splits sum.splits)
  show "st w g (until_nul (wide n)) = Some (until_nul (wide xml))" if "r = Inr (Some xml)"
    using assms(2) c l(3) ok that
    by (auto simp: wlan_get_profile_def bindE_def callE_def returnE_def liftE_def mapR_ok decode_or_def
        map_errR_ok wide_from_utf16 split: if_splits prod.splits sum.splits)
qed

lemma set_profile_law:
  assumes "profile_laws W name_in st" "wlan_set_profile_xml W g xml w = (r, w')"
  shows "st w' = (if r = Inr () then (st w)(g := (st w g)(name_in (until_nul (wide xml)) \<mapsto> until_nul (wide xml)))
    else st w)"
proof -
  obtain code reason w1 where c: "wl_set_profile W g (wide xml) w = ((code, reason), w1)" by (metis prod.exhaust)
  have "st w1 = (if code = 0 \<and> reason = 0
      then (st w)(g := (st w g)(name_in (until_nul (wide xml)) \<mapsto> until_nul (wide xml))) else st w)"
    using assms(1) c unfolding profile_laws_def by blast
  then show ?thesis
    using assms(2) c by (auto simp: wlan_set_profile_xml_def bindE_def callE_def returnE_def failE_def liftE_def
        wlan_result_def split: if_splits)
qed

lemma delete_profile_law:
  assumes "profile_laws W name_in st" "wlan_delete_profile W g n w = (Inr u, w')"
  shows "st w' = (st w)(g := (st w g)(until_nul (wide n) := None))"
proof -
  obtain code w1 where c: "wl_delete_profile W g (wide n) w = (code, w1)" by (metis prod.exhaust)
  have "st w1 = (if code = 0 \<or> code = 1168 then (st w)(g := (st w g)(until_nul (wide n) := None)) else st w)"
    using assms(1) c unfolding profile_laws_def by blast
  then show ?thesis
    using assms(2) c by (auto simp: wlan_delete_profile_def bindE_def callE_def returnE_def liftE_def
        wlan_result_def split: if_splits)
qed

lemma store_restored:
  "s2 = s \<or> (\<exists>x. s2 = s(g := (s g)(n \<mapsto> x))) \<Longrightarrow> s g n = v \<Longrightarrow> s2(g := (s2 g)(n := v)) = s"
  by auto

lemma undo_profile_law:
  assumes "profile_laws W name_in st" "quietE st (wlan_open A W)"
    "wifi_rollback_execute A W (RollbackProfile g n previous) w = (Inr u, w')"
  shows "st w' = (case previous of
      Some xml \<Rightarrow> (st w)(g := (st w g)(name_in (until_nul (wide xml)) \<mapsto> until_nul (wide xml)))
    | None \<Rightarrow> (st w)(g := (st w g)(until_nul (wide n) := None)))"
proof -
  obtain v w1 where "wlan_open A W w = (Inr v, w1)"
      and undo: "(case previous of Some xml \<Rightarrow> wlan_set_profile_xml W g xml | None \<Rightarrow> wlan_delete_profile W g n) w1 = (Inr u, w')"
    using assms(3) unfolding wifi_rollback_execute_def bindE_ok_iff by (auto split: option.splits)
  then have "st w1 = st w" using quietD[OF assms(2)] by blast
  then show ?thesis
    using undo set_profile_law[OF assms(1), of g _ w1 "Inr u" w'] delete_profile_law[OF assms(1), of g n w1 u w']
    by (cases previous) auto
qed

lemma undoable_profile:
  assumes laws: "profile_laws (sy_wlan Y) name_in st" "quietE st (wlan_open (sy_windows Y) (sy_wlan Y))"
    and name: "\<And>xml. profile_xml U (sy_windows Y) p = Inr xml \<Longrightarrow>
      name_in (until_nul (wide xml)) = until_nul (wide (wifi_profile_name p))"
  shows "undoable Y st (\<lambda>w. named_profiles name_in (st w)) (apply_wifi_profile U Y inventory interfaces p)"
  unfolding undoable_def
proof (intro allI impI)
  fix t :: "'a txn"
  let ?n = "until_nul (wide (wifi_profile_name p))"
  assume named: "named_profiles name_in (st (tx_world t))"
  obtain r t1 where step: "apply_wifi_profile U Y inventory interfaces p t = (r, t1)" by fastforce
  show "undoes Y st t (snd (apply_wifi_profile U Y inventory interfaces p t))
    \<and> named_profiles name_in (st (tx_world (snd (apply_wifi_profile U Y inventory interfaces p t))))"
  proof (cases "resolve_wifi_interface U inventory interfaces (wp_selector p)")
    case (Inl e)
    then show ?thesis using named by (simp add: apply_wifi_profile_def liftE_def bindE_def undoes_same)
  next
    case (Inr i)
    let ?g = "wif_guid i"
    obtain previous w1 where get: "wlan_get_profile (sy_wlan Y) ?g (wifi_profile_name p) (tx_world t) = (previous, w1)"
      by fastforce
    note old = get_profile_law[OF laws(1) get]
    show ?thesis
    proof (cases previous)
      case (Inl e)
      then show ?thesis using \<open>resolve_wifi_interface U inventory interfaces (wp_selector p) = Inr i\<close> get old(1) named
        by (simp add: apply_wifi_profile_def liftE_def bindE_def on_tx_def undoes_same)
    next
      case prev: (Inr p0)
      obtain r2 w2 where set: "wlan_set_profile U (sy_windows Y) (sy_wlan Y) ?g p w1 = (r2, w2)" by fastforce
      let ?a = "RbWifi (RollbackProfile ?g (wifi_profile_name p) p0)"
      have t1: "snd (apply_wifi_profile U Y inventory interfaces p t) = t\<lparr>tx_rollback := tx_rollback t @ [?a], tx_world := w2\<rparr>"
        using Inr get prev set
        by (simp add: apply_wifi_profile_def liftE_def bindE_def thenE_def on_tx_def push_undo_def)
      have "st w2 = st w1 \<or> (\<exists>x. st w2 = (st w1)(?g := (st w1 ?g)(?n \<mapsto> x)) \<and> name_in x = ?n)"
      proof (cases "profile_xml U (sy_windows Y) p")
        case (Inl e)
        then show ?thesis using set by (simp add: wlan_set_profile_def bindE_def liftE_def)
      next
        case (Inr xml)
        then have "wlan_set_profile_xml (sy_wlan Y) ?g xml w1 = (r2, w2)"
          using set by (simp add: wlan_set_profile_def bindE_def liftE_def)
        from set_profile_law[OF laws(1) this] name[OF Inr] show ?thesis by auto
      qed
      then have new: "st w2 = st (tx_world t)
          \<or> (\<exists>x. st w2 = (st (tx_world t))(?g := (st (tx_world t) ?g)(?n \<mapsto> x)) \<and> name_in x = ?n)"
        unfolding old(1) .
      then have changed: "st w2 = st (tx_world t) \<or> (\<exists>x. st w2 = (st (tx_world t))(?g := (st (tx_world t) ?g)(?n \<mapsto> x)))"
        by blast
      have restores: "st w' = st (tx_world t)"
        if "st w = st w2" "execute Y ?a w = (Inr (), w')" for w w'
      proof -
        have undone: "st w' = (case p0 of
            Some xml \<Rightarrow> (st w)(?g := (st w ?g)(name_in (until_nul (wide xml)) \<mapsto> until_nul (wide xml)))
          | None \<Rightarrow> (st w)(?g := (st w ?g)(?n := None)))"
          using that(2) undo_profile_law[OF laws] by simp
        show ?thesis
        proof (cases p0)
          case None
          then have "st (tx_world t) ?g ?n = None" using old(2) prev by simp
          from store_restored[OF changed this] show ?thesis using undone that(1) None by simp
        next
          case (Some xml)
          then have "st (tx_world t) ?g ?n = Some (until_nul (wide xml))" using old(3) prev by simp
          moreover from this have "name_in (until_nul (wide xml)) = ?n"
            using named unfolding named_profiles_def by blast
          ultimately show ?thesis using store_restored[OF changed] undone that(1) Some by simp
        qed
      qed
      have "undoes Y st t (t\<lparr>tx_rollback := tx_rollback t @ [?a], tx_world := w2\<rparr>)"
      proof (rule undoes_action)
        show "st w' = st (tx_world t)"
          if "st w = st (tx_world (t\<lparr>tx_rollback := tx_rollback t @ [?a], tx_world := w2\<rparr>))"
            "execute Y ?a w = (Inr (), w')" for w w'
          by (rule restores[OF _ that(2)]) (use that(1) in simp)
      qed simp
      moreover have "named_profiles name_in (st w2)"
        using new named by (auto simp: named_profiles_def split: if_splits)
      ultimately show ?thesis unfolding t1 by simp
    qed
  qed
qed


section \<open>A profile store\<close>

text \<open>A client whose world is the profile store.\<close>

type_synonym profile_world = "guid \<Rightarrow> units \<Rightarrow> units option"

definition document_name :: "units \<Rightarrow> units" where
  "document_name u =
    (case from_utf16 u of
       Inr s \<Rightarrow> (case xml_tokens s of _ # _ # _ # Chars n # _ \<Rightarrow> until_nul (wide n) | _ \<Rightarrow> [])
     | Inl e \<Rightarrow> [])"

definition store_wlan :: "profile_world wlan" where
  "store_wlan = idle_wlan\<lparr>
     wl_get_profile := \<lambda>g n s. (case s g (until_nul n) of None \<Rightarrow> (1168, []) | Some xml \<Rightarrow> (0, xml), s),
     wl_set_profile := \<lambda>g xml s. ((0, 0), s(g := (s g)(document_name (until_nul xml) \<mapsto> until_nul xml))),
     wl_delete_profile := \<lambda>g n s. (0, s(g := (s g)(until_nul n := None)))\<rparr>"

lemma store_fields [simp]:
  "wl_open_handle store_wlan w = (0, w)"
  "wl_get_profile store_wlan g n s = (case s g (until_nul n) of None \<Rightarrow> (1168, []) | Some xml \<Rightarrow> (0, xml), s)"
  "wl_set_profile store_wlan g xml s =
    ((0, 0), s(g := (s g)(document_name (until_nul xml) \<mapsto> until_nul xml)))"
  "wl_delete_profile store_wlan g n s = (0, s(g := (s g)(until_nul n := None)))"
  by (simp_all add: store_wlan_def idle_wlan_def)

definition stored :: "profile_world \<Rightarrow> guid \<Rightarrow> units \<Rightarrow> units option" where
  "stored s g n = map_option until_nul (s g n)"

lemma store_documented: "profile_laws store_wlan document_name stored"
  unfolding profile_laws_def
  by (intro conjI allI impI) (auto simp: stored_def until_nul_twice intro!: ext split: option.splits)

lemma idle_symbols: "forE (load_symbol idle_windows) ns w = (Inr (), w)"
  by (induction ns) (simp_all add: load_symbol_def bindE_def callE_def returnE_def thenE_def)

lemma store_open: "wlan_open idle_windows store_wlan w = (Inr (), w)"
  by (simp add: wlan_open_def wlan_call_def map_errE_def bindE_def callE_def returnE_def thenE_def liftE_def
      wlan_result_def idle_symbols)

definition lab_profile :: wifi_profile where
  "lab_profile = \<lparr>wp_selector = None, wp_name = Some ''lab'', wp_ssid = ''Lab'', wp_authentication = Open,
     wp_psk = None, wp_auto_connect = False, wp_hidden = False\<rparr>"

lemma lab_document:
  assumes "profile_xml U A lab_profile = Inr xml"
  shows "document_name (until_nul (wide xml)) = until_nul (wide (wifi_profile_name lab_profile))"
proof -
  have "ascii_text xml \<and> CHR 0x00 \<notin> set xml"
    using assms by (auto simp: profile_xml_def security_xml_def lab_profile_def wifi_profile_name_def xml_tag_def
        xml_escape_def quoted_def ascii_text_def byte_def)
  then have "from_utf16 (until_nul (wide xml)) = Inr xml" by (intro decode_wide) auto
  then show ?thesis using profile_document[OF assms]
    by (simp add: document_name_def profile_tokens_def leaf_def element_def chars_def lab_profile_def
        wifi_profile_name_def)
qed

definition store_system :: "profile_world system" where
  "store_system = \<lparr>sy_windows = idle_windows, sy_wlan = store_wlan, sy_netapi = idle_netapi,
     sy_inventory = returnE []\<rparr>"

definition lab_interface :: wifi_interface where
  "lab_interface = \<lparr>wif_guid = 1, wif_if_index = 7, wif_description = ''Wi-Fi'', wif_state = 4\<rparr>"

definition empty_txn :: "profile_world txn" where
  "empty_txn = \<lparr>tx_rollback = [], tx_world = \<lambda>g n. None\<rparr>"

text \<open>The profile is written, and the recorded action removes it again.\<close>

lemma lab_written:
  assumes "profile_xml U (idle_windows :: profile_world windows) lab_profile = Inr xml"
  shows "forE (apply_wifi_profile U store_system [] [lab_interface]) [lab_profile] empty_txn
    = (Inr (), \<lparr>tx_rollback = [RbWifi (RollbackProfile 1 ''lab'' None)],
        tx_world = (\<lambda>g n. None)(1 := [until_nul (wide ''lab'') \<mapsto> until_nul (wide xml)])\<rparr>)"
proof -
  have name: "wifi_profile_name lab_profile = ''lab''" "wp_selector lab_profile = None"
    by (simp_all add: wifi_profile_name_def lab_profile_def)
  have get: "wlan_get_profile store_wlan 1 ''lab'' (\<lambda>g n. None) = (Inr None, \<lambda>g n. None)"
    by (simp add: wlan_get_profile_def bindE_def callE_def returnE_def)
  have set: "wlan_set_profile U idle_windows store_wlan 1 lab_profile (\<lambda>g n. None)
      = (Inr (), (\<lambda>g n. None)(1 := [until_nul (wide ''lab'') \<mapsto> until_nul (wide xml)]))"
    using lab_document[OF assms] assms
    by (simp add: wlan_set_profile_def wlan_set_profile_xml_def bindE_def callE_def returnE_def liftE_def name)
  show ?thesis
    by (simp add: apply_wifi_profile_def resolve_wifi_interface_def name liftE_def bindE_def thenE_def returnE_def
        on_tx_def push_undo_def store_system_def lab_interface_def empty_txn_def get set)
qed


end
