(* ===== verification/Smb_Facts.thy ===== *)
theory Smb_Facts
  imports Undo_Facts Sample
begin

text \<open>
  Correctness of the SMB operations: a captured share is put back as it was, whatever is recorded undoes a
  change of the shares, and the one failure after which a share keeps its new definition.
\<close>

section \<open>The share table\<close>

text \<open>
  The documented share table: \<open>st w n\<close> is the definition of share \<open>n\<close>, its texts without their NULs.  A
  call that fails leaves the table as it is.
\<close>

definition canonical :: "share_info \<Rightarrow> share_info" where
  "canonical i = i\<lparr>si_netname := until_nul (si_netname i), si_remark := map_option until_nul (si_remark i),
     si_path := map_option until_nul (si_path i), si_passwd := map_option until_nul (si_passwd i)\<rparr>"

definition share_laws :: "'w netapi \<Rightarrow> ('w \<Rightarrow> units \<Rightarrow> share_info option) \<Rightarrow> bool" where
  "share_laws S st \<longleftrightarrow>
    (\<forall>n w code i w'. na_share_get S n w = ((code, i), w') \<longrightarrow> st w' = st w
      \<and> (code = 2310 \<longrightarrow> st w (until_nul n) = None)
      \<and> (code = 0 \<longrightarrow> st w (until_nul n) = Some (canonical i)))
    \<and> (\<forall>i w code p w'. na_share_add S i w = ((code, p), w') \<longrightarrow>
      st w' = (if code = 0 then (st w)(until_nul (si_netname i) \<mapsto> canonical i) else st w))
    \<and> (\<forall>n i w code p w'. na_share_set S n i w = ((code, p), w') \<longrightarrow>
      st w' = (if code = 0 then (st w)(until_nul n \<mapsto> canonical (i\<lparr>si_netname := n\<rparr>)) else st w))
    \<and> (\<forall>n d w code p w'. na_share_set_security S n d w = ((code, p), w') \<longrightarrow>
      st w' = (if code = 0
        then (st w)(until_nul n := map_option (si_descriptor_update (\<lambda>_. d)) (st w (until_nul n))) else st w))
    \<and> (\<forall>n w code w'. na_share_del S n w = (code, w') \<longrightarrow>
      st w' = (if code = 0 \<or> code = 2310 then (st w)(until_nul n := None) else st w))"

lemma share_law:
  assumes "share_laws S st"
  shows "na_share_get S n w = ((code, i), w') \<Longrightarrow> st w' = st w"
    "na_share_get S n w = ((2310, i), w') \<Longrightarrow> st w (until_nul n) = None"
    "na_share_get S n w = ((0, i), w') \<Longrightarrow> st w (until_nul n) = Some (canonical i)"
    "na_share_add S i w = ((code, p), w') \<Longrightarrow>
      st w' = (if code = 0 then (st w)(until_nul (si_netname i) \<mapsto> canonical i) else st w)"
    "na_share_set S n i w = ((code, p), w') \<Longrightarrow>
      st w' = (if code = 0 then (st w)(until_nul n \<mapsto> canonical (i\<lparr>si_netname := n\<rparr>)) else st w)"
    "na_share_set_security S n d w = ((code, p), w') \<Longrightarrow>
      st w' = (if code = 0
        then (st w)(until_nul n := map_option (si_descriptor_update (\<lambda>_. d)) (st w (until_nul n))) else st w)"
    "na_share_del S n w = (code, w') \<Longrightarrow>
      st w' = (if code = 0 \<or> code = 2310 then (st w)(until_nul n := None) else st w)"
proof -
  note laws = assms[unfolded share_laws_def]
  show "na_share_get S n w = ((code, i), w') \<Longrightarrow> st w' = st w"
    "na_share_get S n w = ((2310, i), w') \<Longrightarrow> st w (until_nul n) = None"
    "na_share_get S n w = ((0, i), w') \<Longrightarrow> st w (until_nul n) = Some (canonical i)"
    using laws[THEN conjunct1, rule_format] by blast+
  note rest = laws[THEN conjunct2]
  show "na_share_add S i w = ((code, p), w') \<Longrightarrow>
      st w' = (if code = 0 then (st w)(until_nul (si_netname i) \<mapsto> canonical i) else st w)"
    by (rule rest[THEN conjunct1, rule_format])
  note rest = rest[THEN conjunct2]
  show "na_share_set S n i w = ((code, p), w') \<Longrightarrow>
      st w' = (if code = 0 then (st w)(until_nul n \<mapsto> canonical (i\<lparr>si_netname := n\<rparr>)) else st w)"
    by (rule rest[THEN conjunct1, rule_format])
  note rest = rest[THEN conjunct2]
  show "na_share_set_security S n d w = ((code, p), w') \<Longrightarrow>
      st w' = (if code = 0
        then (st w)(until_nul n := map_option (si_descriptor_update (\<lambda>_. d)) (st w (until_nul n))) else st w)"
    by (rule rest[THEN conjunct1, rule_format])
  show "na_share_del S n w = (code, w') \<Longrightarrow>
      st w' = (if code = 0 \<or> code = 2310 then (st w)(until_nul n := None) else st w)"
    by (rule rest[THEN conjunct2, rule_format])
qed

definition named_shares :: "(units \<Rightarrow> share_info option) \<Rightarrow> bool" where
  "named_shares s \<longleftrightarrow> (\<forall>n i. s n = Some i \<longrightarrow> si_netname i = n)"

text \<open>The calls that build a descriptor do not touch the table.\<close>

definition quiet_security :: "'w netapi \<Rightarrow> ('w \<Rightarrow> 'v) \<Rightarrow> bool" where
  "quiet_security S st \<longleftrightarrow>
    quiet_call st (na_buffer_free S) \<and> (\<forall>n. quiet_call st (na_lookup_size S n)) \<and> (\<forall>n. quietE st (na_lookup_sid S n))
    \<and> (\<forall>k. quietE st (na_well_known_sid S k)) \<and> (\<forall>e. quiet_call st (na_set_entries S e))
    \<and> quietE st (na_init_descriptor S) \<and> (\<forall>a. quietE st (na_set_dacl S a))"

lemma net_api_ok [simp]: "net_api_result operation code p = Inr u \<longleftrightarrow> code = 0"
  by (simp add: net_api_result_def)

lemma net_api_zero [simp]: "net_api_result operation 0 p = Inr ()"
  by simp

lemma param_call:
  assumes "net_param_call operation f w = (r, w')"
  obtains code p where "f w = ((code, p), w')" "net_api_result operation code (Some p) = r"
proof -
  obtain code p w1 where "f w = ((code, p), w1)" by (metis prod.exhaust)
  with assms that show thesis by (auto simp: net_param_call_def bindE_def callE_def liftE_def)
qed

lemma quiet_share_security:
  assumes "quiet_security S st"
  shows "quietE st (share_security U S cfg s)"
  unfolding share_security_def share_entries_def account_sid_def lookup_sid_def well_known_sid_def Let_def
  using assms by (intro quiet) (auto simp: quiet_security_def intro: quiet)

section \<open>Capture and restore\<close>

lemma canonical_snapshot:
  assumes "snapshot_of_share i = Inr s" "until_nul (si_netname i) = until_nul (wide n)"
  shows "canonical (info_of_snapshot n s) = canonical i"
  using assms
  by (auto simp: snapshot_of_share_def info_of_snapshot_def canonical_def bindR_ok optional_pwstr_def
      required_pwstr_def map_transpose_def ok_or_ok decode_or_def map_errR_ok mapR_ok wide_from_utf16
      split: option.splits)

lemma capture_law:
  assumes "share_laws S st" "quiet_security S st" "capture_share S n w = (r, w')"
  shows "st w' = st w" "r = Inr None \<Longrightarrow> st w (until_nul (wide n)) = None"
    "r = Inr (Some s) \<Longrightarrow> named_shares (st w) \<Longrightarrow> st w (until_nul (wide n)) = Some (canonical (info_of_snapshot n s))"
proof -
  obtain code i w1 where get: "na_share_get S (wide n) w = ((code, i), w1)" by (metis prod.exhaust)
  then have l: "st w1 = st w" "code = 2310 \<Longrightarrow> st w (until_nul (wide n)) = None"
    "code = 0 \<Longrightarrow> st w (until_nul (wide n)) = Some (canonical i)"
    using share_law(1-3)[OF assms(1)] by blast+
  have free: "na_buffer_free S w1 = (c, w2) \<Longrightarrow> st w2 = st w1" for c w2
    using assms(2) quiet_call_split[of st "na_buffer_free S" w1] by (auto simp: quiet_security_def)
  show "st w' = st w" "r = Inr None \<Longrightarrow> st w (until_nul (wide n)) = None"
    using assms(3) get l(1,2) free
    by (auto simp: capture_share_def net_call_def bindE_def callE_def returnE_def liftE_def mapR_ok
        split: if_splits prod.splits sum.splits)
  show "st w (until_nul (wide n)) = Some (canonical (info_of_snapshot n s))"
    if "r = Inr (Some s)" "named_shares (st w)"
  proof -
    have "code = 0" "snapshot_of_share i = Inr s"
      using assms(3) get that(1)
      by (auto simp: capture_share_def net_call_def bindE_def callE_def returnE_def liftE_def mapR_ok
          split: if_splits prod.splits sum.splits)
    moreover from this l(3) that(2) have "until_nul (si_netname i) = until_nul (wide n)"
      by (fastforce simp: named_shares_def canonical_def)
    ultimately show ?thesis using l(3) canonical_snapshot by simp
  qed
qed

lemma put_back_law:
  assumes "share_laws S st" "set_share_snapshot S n s w = (Inr u, w')"
  shows "st w' = (st w)(until_nul (wide n) \<mapsto> canonical (info_of_snapshot n s))"
proof -
  let ?i = "info_of_snapshot n s"
  obtain w1 where one: "net_param_call ''NetShareSetInfo rollback'' (na_share_set S (wide n) ?i) w = (Inr (), w1)"
      and two: "(if ss_descriptor s = [] then returnE () else set_share_security S n (ss_descriptor s)) w1 = (Inr u, w')"
    using assms(2) by (auto simp: set_share_snapshot_def thenE_def bindE_ok_iff)
  from one obtain p where "na_share_set S (wide n) ?i w = ((0, p), w1)" by (rule param_call) auto
  from share_law(5)[OF assms(1) this]
  have w1: "st w1 = (st w)(until_nul (wide n) \<mapsto> canonical ?i)" by (simp add: info_of_snapshot_def)
  show ?thesis
  proof (cases "ss_descriptor s = []")
    case True
    with two w1 show ?thesis by (simp add: returnE_def)
  next
    case False
    with two obtain q where "na_share_set_security S (wide n) (ss_descriptor s) w1 = ((0, q), w')"
      unfolding set_share_security_def by (auto elim!: param_call)
    from share_law(6)[OF assms(1) this] w1 show ?thesis
      by (simp add: canonical_def info_of_snapshot_def)
  qed
qed

lemma undo_share_law:
  assumes "share_laws S st" "smb_rollback_execute S (RollbackShare n previous) w = (Inr u, w')"
  shows "st w' = (st w)(until_nul (wide n) := map_option (\<lambda>s. canonical (info_of_snapshot n s)) previous)"
proof (cases previous)
  case None
  obtain code w1 where c: "na_share_del S (wide n) w = (code, w1)" by fastforce
  with assms(2) None have "code = 0 \<or> code = 2310" "w1 = w'"
    by (auto simp: smb_rollback_execute_def delete_share_def bindE_def callE_def returnE_def liftE_def split: if_splits)
  with share_law(7)[OF assms(1) c] None show ?thesis by simp
next
  case (Some s)
  with assms(2) put_back_law[OF assms(1)] show ?thesis by (simp add: smb_rollback_execute_def)
qed

section \<open>Changing a share\<close>

text \<open>The error that says an existing share could not be put back.\<close>

definition put_back_failed :: "platform_error \<Rightarrow> bool" where
  "put_back_failed e \<longleftrightarrow> (\<exists>m m'. pe_message e = m @ ''; immediate share rollback failed: '' @ m')"

lemma existing_security_law:
  assumes "share_laws S st" "set_existing_security S n previous d w = (r, w')"
  shows "case r of
      Inr _ \<Rightarrow> st w' = (st w)(until_nul (wide n) := map_option (si_descriptor_update (\<lambda>_. d)) (st w (until_nul (wide n))))
    | Inl e \<Rightarrow> st w' = (st w)(until_nul (wide n) \<mapsto> canonical (info_of_snapshot n previous)) \<or> put_back_failed e"
proof -
  obtain r1 w1 where one: "set_share_security S n d w = (r1, w1)" by fastforce
  then obtain code p where c: "na_share_set_security S (wide n) d w = ((code, p), w1)"
      and r1: "net_api_result ''NetShareSetInfo(security)'' code (Some p) = r1"
    unfolding set_share_security_def by (rule param_call)
  note law = share_law(6)[OF assms(1) c]
  show ?thesis
  proof (cases r1)
    case (Inr u)
    then have "r = Inr ()" "w' = w1" using assms(2) one by (simp_all add: set_existing_security_def)
    moreover have "code = 0" using r1 Inr by simp
    ultimately show ?thesis using law by simp
  next
    case (Inl e)
    then have "code \<noteq> 0" using r1 by (auto simp: net_api_result_def)
    then have w1: "st w1 = st w" using law by simp
    obtain r2 w2 where two: "set_share_snapshot S n previous w1 = (r2, w2)" by fastforce
    show ?thesis
    proof (cases r2)
      case (Inr u)
      with two put_back_law[OF assms(1)] w1
      have "st w2 = (st w)(until_nul (wide n) \<mapsto> canonical (info_of_snapshot n previous))" by simp
      then show ?thesis using assms(2) one two Inl Inr by (auto simp: set_existing_security_def)
    next
      case (Inl e')
      then have "r = Inl \<lparr>pe_kind = pe_kind e,
          pe_message = pe_message e @ ''; immediate share rollback failed: '' @ pe_message e', pe_rolled_back = False\<rparr>"
        using assms(2) one two \<open>r1 = Inl e\<close> by (simp add: set_existing_security_def)
      moreover have "put_back_failed \<lparr>pe_kind = pe_kind e,
          pe_message = pe_message e @ ''; immediate share rollback failed: '' @ pe_message e', pe_rolled_back = False\<rparr>"
        unfolding put_back_failed_def platform_error.select_convs by blast
      ultimately show ?thesis by simp
    qed
  qed
qed

lemma apply_share_law:
  assumes "share_laws S st" "quiet_security S st" "named_shares (st w)" "smb_apply_share U S cfg s w = (r, w')"
  defines "key \<equiv> until_nul (wide (sh_name s))"
  shows "case r of
      Inr undo \<Rightarrow> \<exists>previous x. undo = RollbackShare (sh_name s) previous \<and> si_netname x = key
        \<and> st w key = map_option (\<lambda>p. canonical (info_of_snapshot (sh_name s) p)) previous \<and> st w' = (st w)(key \<mapsto> x)
    | Inl e \<Rightarrow> st w' = st w \<or> put_back_failed e"
proof -
  let ?n = "sh_name s"
  obtain r1 w1 where capture: "capture_share S ?n w = (r1, w1)" by fastforce
  note captured = capture_law[OF assms(1,2) capture]
  show ?thesis
  proof (cases r1)
    case (Inl e)
    with capture captured(1) assms(4) show ?thesis by (auto simp: smb_apply_share_def bindE_def)
  next
    case prev: (Inr previous)
    have before: "st w key = map_option (\<lambda>p. canonical (info_of_snapshot ?n p)) previous"
      using captured(2) captured(3)[OF _ assms(3)] prev unfolding key_def by (cases previous) auto
    obtain r2 w2 where security: "share_security U S cfg s w1 = (r2, w2)" by fastforce
    then have w2: "st w2 = st w" using quietD[OF quiet_share_security[OF assms(2)]] captured(1) by simp
    show ?thesis
    proof (cases r2)
      case (Inl e)
      with capture prev security w2 assms(4) show ?thesis by (auto simp: smb_apply_share_def bindE_def)
    next
      case d: (Inr d)
      let ?call = "case previous of
         Some _ \<Rightarrow> na_share_set S (wide ?n) (share_declaration s d)
       | None \<Rightarrow> na_share_add S (share_declaration s d)"
      obtain r3 w3 where set: "net_param_call ''NetShareAdd/NetShareSetInfo'' ?call w2 = (r3, w3)" by fastforce
      then obtain code p where c: "?call w2 = ((code, p), w3)"
          and r3: "net_api_result ''NetShareAdd/NetShareSetInfo'' code (Some p) = r3" by (rule param_call)
      let ?x = "canonical (share_declaration s d)"
      have w3: "st w3 = (if code = 0 then (st w)(key \<mapsto> ?x) else st w)"
        using c share_law(4,5)[OF assms(1)] w2 unfolding key_def
        by (cases previous) (fastforce simp: share_declaration_def)+
      have x: "si_netname ?x = key" by (simp add: canonical_def share_declaration_def key_def)
      show ?thesis
      proof (cases r3)
        case (Inl e)
        then have "code \<noteq> 0" using r3 by auto
        with Inl capture prev security d set w3 assms(4) show ?thesis by (auto simp: smb_apply_share_def bindE_def)
      next
        case (Inr u)
        then have "code = 0" using r3 by simp
        then have w3: "st w3 = (st w)(key \<mapsto> ?x)" using w3 by simp
        show ?thesis
        proof (cases previous)
          case None
          with Inr capture prev security d set w3 x before assms(4) show ?thesis
            by (auto simp: smb_apply_share_def bindE_def returnE_def)
        next
          case (Some snapshot)
          obtain r4 w4 where four: "set_existing_security S ?n snapshot d w3 = (r4, w4)" by fastforce
          have r: "r = (case r4 of Inl e \<Rightarrow> Inl e | Inr _ \<Rightarrow> Inr (RollbackShare ?n previous))" "w' = w4"
            using Inr capture prev security d set Some four assms(4)
            by (auto simp: smb_apply_share_def bindE_def returnE_def split: sum.splits)
          note law = existing_security_law[OF assms(1) four, folded key_def]
          show ?thesis
          proof (cases r4)
            case (Inl e)
            then show ?thesis using law r w3 before Some by (auto simp: fun_upd_idem)
          next
            case (Inr v)
            then have "st w' = (st w)(key \<mapsto> ?x\<lparr>si_descriptor := d\<rparr>)" using law r(2) w3 by simp
            moreover have "si_netname (?x\<lparr>si_descriptor := d\<rparr>) = key" using x by simp
            ultimately have "\<exists>x. si_netname x = key \<and> st w' = (st w)(key \<mapsto> x)" by blast
            with Inr r(1) before show ?thesis by simp
          qed
        qed
      qed
    qed
  qed
qed

lemma shares_undo_list:
  assumes "share_laws (sy_netapi Y) st" "quiet_security (sy_netapi Y) st"
  shows "named_shares (st (tx_world t)) \<Longrightarrow> forE (apply_share U Y cfg) ss t = (r, t1) \<Longrightarrow>
    undoes Y st t t1 \<or> (\<exists>e. r = Inl e \<and> put_back_failed e)"
proof (induction ss arbitrary: t)
  case Nil
  then show ?case by (simp add: returnE_def undoes_same)
next
  case (Cons s ss)
  obtain r1 w1 where share: "smb_apply_share U (sy_netapi Y) cfg s (tx_world t) = (r1, w1)" by fastforce
  note law = apply_share_law[OF assms Cons.prems(1) share]
  show ?case
  proof (cases r1)
    case (Inl e)
    then have "r = Inl e" "t1 = t\<lparr>tx_world := w1\<rparr>"
      using Cons.prems(2) share by (simp_all add: thenE_def bindE_def apply_share_def on_tx_def)
    then show ?thesis using law Inl undoes_same[of t1 t st Y] by auto
  next
    case (Inr undo)
    let ?key = "until_nul (wide (sh_name s))" and ?t = "t\<lparr>tx_world := w1, tx_rollback := tx_rollback t @ [RbSmb undo]\<rparr>"
    obtain previous x where law: "undo = RollbackShare (sh_name s) previous" "si_netname x = ?key"
      "st (tx_world t) ?key = map_option (\<lambda>p. canonical (info_of_snapshot (sh_name s) p)) previous"
      "st w1 = (st (tx_world t))(?key \<mapsto> x)" using law Inr by auto
    have "undoes Y st t ?t"
    proof (rule undoes_action)
      show "st w' = st (tx_world t)" if "st w = st (tx_world ?t)" "execute Y (RbSmb undo) w = (Inr (), w')" for w w'
        using that law undo_share_law[OF assms(1), of "sh_name s" previous w "()" w'] by (auto simp: fun_eq_iff)
    qed simp
    moreover have "named_shares (st (tx_world ?t))"
      using Cons.prems(1) law(2,4) by (auto simp: named_shares_def split: if_splits)
    moreover have "forE (apply_share U Y cfg) ss ?t = (r, t1)"
    proof -
      have "apply_share U Y cfg s t = (Inr (), ?t)"
        using share Inr by (simp add: bindE_def apply_share_def on_tx_def push_undo_def)
      then show ?thesis using Cons.prems(2) by (simp add: thenE_def bindE_def)
    qed
    ultimately show ?thesis using Cons.IH[of ?t] undoes_trans[of Y st t ?t t1] by blast
  qed
qed


section \<open>A share table\<close>

type_synonym share_world = "units \<Rightarrow> share_info option"

definition table_netapi :: "share_world netapi" where
  "table_netapi = idle_netapi\<lparr>
     na_share_get := \<lambda>n s. (case s (until_nul n) of None \<Rightarrow> (2310, no_share) | Some i \<Rightarrow> (0, i), s),
     na_share_add := \<lambda>i s. ((0, 0), s(until_nul (si_netname i) \<mapsto> canonical i)),
     na_share_set := \<lambda>n i s. ((0, 0), s(until_nul n \<mapsto> canonical (i\<lparr>si_netname := n\<rparr>))),
     na_share_set_security := \<lambda>n d s. ((0, 0), s(until_nul n := map_option (si_descriptor_update (\<lambda>_. d)) (s (until_nul n)))),
     na_share_del := \<lambda>n s. (0, s(until_nul n := None))\<rparr>"

lemma table_fields [simp]:
  "na_share_get table_netapi n s = (case s (until_nul n) of None \<Rightarrow> (2310, no_share) | Some i \<Rightarrow> (0, i), s)"
  "na_share_add table_netapi i s = ((0, 0), s(until_nul (si_netname i) \<mapsto> canonical i))"
  "na_share_set table_netapi n i s = ((0, 0), s(until_nul n \<mapsto> canonical (i\<lparr>si_netname := n\<rparr>)))"
  "na_share_set_security table_netapi n d s =
    ((0, 0), s(until_nul n := map_option (si_descriptor_update (\<lambda>_. d)) (s (until_nul n))))"
  "na_share_del table_netapi n s = (0, s(until_nul n := None))"
  "na_buffer_free table_netapi s = (0, s)" "na_lookup_size table_netapi n s = ((False, 12), s)"
  "na_lookup_sid table_netapi n = returnE ''sid''" "na_well_known_sid table_netapi k = returnE ''sid''"
  "na_set_entries table_netapi e s = ((0, []), s)" "na_init_descriptor table_netapi = returnE ()"
  "na_set_dacl table_netapi a = returnE ''acl''"
  by (simp_all add: table_netapi_def idle_netapi_def)

text \<open>Kept definitions have no NULs.\<close>

definition table_view :: "share_world \<Rightarrow> share_world" where
  "table_view s n = map_option canonical (s n)"

lemma canonical_twice [simp]: "canonical (canonical i) = canonical i"
  by (simp add: canonical_def until_nul_twice option.map_comp comp_def)

lemma table_documented: "share_laws table_netapi table_view" "quiet_security table_netapi table_view"
proof -
  have "canonical (si_descriptor_update f (canonical i)) = si_descriptor_update f (canonical i)"
    "canonical (si_descriptor_update f i) = si_descriptor_update f (canonical i)" for f i
    by (simp_all add: canonical_def until_nul_twice option.map_comp comp_def)
  then show "share_laws table_netapi table_view"
    unfolding share_laws_def
    by (intro conjI allI impI)
      (auto simp: table_view_def option.map_comp comp_def intro!: ext split: option.splits)
  show "quiet_security table_netapi table_view"
    by (simp add: quiet_security_def quiet_call_def quiet)
qed

definition table_system :: "share_world system" where
  "table_system = \<lparr>sy_windows = idle_windows, sy_wlan = idle_wlan, sy_netapi = table_netapi, sy_inventory = returnE []\<rparr>"

definition data_share :: smb_share where
  "data_share = \<lparr>sh_name = ''data'', sh_path = ''X:new'', sh_description = None, sh_read_only = True, sh_accounts = []\<rparr>"

definition old_share :: share_info where
  "old_share = canonical \<lparr>si_netname = wide ''data'', si_type = 0, si_remark = None, si_permissions = 0, si_max_uses = 5,
     si_path = Some (wide ''X:old''), si_passwd = None, si_descriptor = ''old''\<rparr>"

definition share_txn :: "share_world txn" where
  "share_txn = \<lparr>tx_rollback = [], tx_world = [until_nul (wide ''data'') \<mapsto> old_share]\<rparr>"

lemma decode_name: "from_utf16 (until_nul (until_nul (wide ''X:old''))) = Inr ''X:old''"
  unfolding until_nul_twice by (rule decode_wide) (simp_all add: ascii_text_def byte_def)

definition old_snapshot :: share_snapshot where
  "old_snapshot = \<lparr>ss_type = 0, ss_remark = None, ss_permissions = 0, ss_max_uses = 5, ss_path = ''X:old'',
     ss_password = None, ss_descriptor = ''old''\<rparr>"

definition changed_share :: share_info where
  "changed_share = (canonical (share_declaration data_share ''acl''))\<lparr>si_netname := until_nul (wide ''data''),
     si_descriptor := ''acl''\<rparr>"

abbreviation data_key :: units where
  "data_key \<equiv> until_nul (wide ''data'')"

lemma data_fields [simp]:
  "sh_name data_share = ''data''" "sh_path data_share = ''X:new''" "sh_description data_share = None"
  by (simp_all add: data_share_def)

lemma data_security: "share_security U table_netapi cfg data_share s = (Inr ''acl'', s)"
  by (simp add: share_security_def share_entries_def data_share_def well_known_sid_def bindE_def callE_def
      map_errE_def returnE_def)

lemma data_captured: "capture_share table_netapi ''data'' [data_key \<mapsto> old_share] = (Inr (Some old_snapshot), [data_key \<mapsto> old_share])"
proof -
  have "snapshot_of_share old_share = Inr old_snapshot"
    by (simp add: snapshot_of_share_def old_share_def old_snapshot_def canonical_def optional_pwstr_def
        required_pwstr_def map_transpose_def decode_or_def decode_name)
  then show ?thesis by (simp add: capture_share_def net_call_def bindE_def callE_def liftE_def)
qed

lemma data_changed:
  "forE (apply_share U table_system cfg) [data_share] share_txn
    = (Inr (), \<lparr>tx_rollback = [RbSmb (RollbackShare ''data'' (Some old_snapshot))], tx_world = [data_key \<mapsto> changed_share]\<rparr>)"
proof -
  have "smb_apply_share U table_netapi cfg data_share [data_key \<mapsto> old_share]
      = (Inr (RollbackShare ''data'' (Some old_snapshot)), [data_key \<mapsto> changed_share])"
    unfolding smb_apply_share_def
    by (simp add: bindE_def data_captured data_security net_param_call_def callE_def liftE_def returnE_def
        set_existing_security_def set_share_security_def changed_share_def
        share_declaration_def canonical_def)
  then show ?thesis
    by (simp add: apply_share_def thenE_def bindE_def on_tx_def push_undo_def returnE_def table_system_def share_txn_def)
qed


end
