(* ===== verification/Flat_Runtime.thy ===== *)
theory Flat_Runtime
  imports Protocol
begin

text \<open>
  The FlatBuffers runtime that the generated code of \<open>protocol/ipc_generated.rs\<close> calls: a builder that
  writes strings, vectors and tables into a buffer, \<open>Table::get\<close> that reads a slot of a table, and the
  verifier that checks a buffer before it is read.  The runtime is a third-party crate, so it is the
  parameter \<open>fb_runtime\<close>, one member for each of its functions at each type the generated code uses it.
  \<open>checks_soundly\<close> states what a passed verification guarantees, \<open>builds_faithfully\<close> what the builder
  writes, both as documented; the rest of the theory is the reasoning about tables that all of the
  generated code shares.
\<close>

section \<open>The runtime\<close>

text \<open>A panic: of the builder (a buffer beyond its limit), of \<open>required\<close>, of an \<open>unwrap\<close> of \<open>None\<close>, or of
  an \<open>expect\<close>.\<close>

datatype panic =
    Builder_Panic string
  | Required_Missing string
  | Unwrap_None
  | Expect_Failed string

datatype scalar = S8 "8 word" | S32 "32 word" | S64 "64 word" | SBool bool

text \<open>The type argument of \<open>visit_field\<close>; for a vector of tables, the verifier of its elements.\<close>

datatype 'v field_type =
    U8 | U32 | U64 | Boolean | Text_Field | Bytes_Field
  | Tables "nat \<Rightarrow> 'v \<Rightarrow> (string + unit) \<times> 'v"

text \<open>\<open>'s\<close> is the state of a builder, \<open>'v\<close> of a verifier.  An offset returned by the builder, the
  location of a table in a buffer and the number of a slot are natural numbers; a buffer is its bytes.\<close>

record ('s, 'v) fb_runtime =
  rt_new :: 's
  rt_create_string :: "string \<Rightarrow> ('s, panic, nat) eff"
  rt_create_bytes :: "string \<Rightarrow> ('s, panic, nat) eff"
  rt_create_vector :: "nat list \<Rightarrow> ('s, panic, nat) eff"
  rt_start_table :: "('s, panic, nat) eff"
  rt_push_slot :: "nat \<Rightarrow> scalar \<Rightarrow> scalar \<Rightarrow> ('s, panic, unit) eff"
  rt_push_offset :: "nat \<Rightarrow> nat \<Rightarrow> ('s, panic, unit) eff"
  rt_end_table :: "nat \<Rightarrow> ('s, panic, nat) eff"
  rt_required :: "nat \<Rightarrow> nat \<Rightarrow> string \<Rightarrow> ('s, panic, unit) eff"
  rt_finish_size_prefixed :: "nat \<Rightarrow> string \<Rightarrow> ('s, panic, unit) eff"
  rt_finished_data :: "'s \<Rightarrow> string"
  rt_get_u8 :: "string \<Rightarrow> nat \<Rightarrow> nat \<Rightarrow> 8 word option \<Rightarrow> 8 word option"
  rt_get_u32 :: "string \<Rightarrow> nat \<Rightarrow> nat \<Rightarrow> 32 word option \<Rightarrow> 32 word option"
  rt_get_u64 :: "string \<Rightarrow> nat \<Rightarrow> nat \<Rightarrow> 64 word option \<Rightarrow> 64 word option"
  rt_get_bool :: "string \<Rightarrow> nat \<Rightarrow> nat \<Rightarrow> bool option \<Rightarrow> bool option"
  rt_get_string :: "string \<Rightarrow> nat \<Rightarrow> nat \<Rightarrow> string option"
  rt_get_bytes :: "string \<Rightarrow> nat \<Rightarrow> nat \<Rightarrow> string option"
  rt_get_tables :: "string \<Rightarrow> nat \<Rightarrow> nat \<Rightarrow> nat list option"
  rt_get_table :: "string \<Rightarrow> nat \<Rightarrow> nat \<Rightarrow> nat option"
  rt_visit_table :: "string \<Rightarrow> nat \<Rightarrow> ('v, string, nat) eff"
  rt_visit_field :: "string \<Rightarrow> nat \<Rightarrow> 'v field_type \<Rightarrow> string \<Rightarrow> nat \<Rightarrow> bool \<Rightarrow> ('v, string, unit) eff"
  rt_visit_union :: "string \<Rightarrow> nat \<Rightarrow> string \<Rightarrow> nat \<Rightarrow> string \<Rightarrow> nat \<Rightarrow> bool
    \<Rightarrow> (8 word \<Rightarrow> nat \<Rightarrow> ('v, string, unit) eff) \<Rightarrow> ('v, string, unit) eff"
  rt_union_variant :: "string \<Rightarrow> (nat \<Rightarrow> ('v, string, unit) eff) \<Rightarrow> string \<Rightarrow> nat \<Rightarrow> ('v, string, unit) eff"
  rt_finish_visit :: "nat \<Rightarrow> ('v, string, unit) eff"
  rt_size_prefixed_root :: "(nat \<Rightarrow> ('v, string, unit) eff) \<Rightarrow> string \<Rightarrow> string + nat"
  rt_has_identifier :: "string \<Rightarrow> string \<Rightarrow> bool \<Rightarrow> bool"

section \<open>What a passed verification guarantees\<close>

definition verified :: "('v, 'e, 'a) eff \<Rightarrow> bool" where
  "verified m \<longleftrightarrow> (\<exists>v a v'. m v = (Inr a, v'))"

fun field_checked :: "('s, 'v) fb_runtime \<Rightarrow> string \<Rightarrow> nat \<Rightarrow> 'v field_type \<Rightarrow> nat \<Rightarrow> bool \<Rightarrow> bool" where
  "field_checked R buf t Text_Field slot req = (req \<longrightarrow> rt_get_string R buf t slot \<noteq> None)"
| "field_checked R buf t Bytes_Field slot req = (req \<longrightarrow> rt_get_bytes R buf t slot \<noteq> None)"
| "field_checked R buf t (Tables check) slot req =
    (case rt_get_tables R buf t slot of None \<Rightarrow> \<not> req | Some ps \<Rightarrow> \<forall>p\<in>set ps. verified (check p))"
| "field_checked R buf t _ slot req = True"

definition union_checked :: "('s, 'v) fb_runtime \<Rightarrow> string \<Rightarrow> nat \<Rightarrow> nat \<Rightarrow> nat \<Rightarrow> bool
    \<Rightarrow> (8 word \<Rightarrow> nat \<Rightarrow> ('v, string, unit) eff) \<Rightarrow> bool" where
  "union_checked R buf t key slot req check \<longleftrightarrow>
    (rt_get_u8 R buf t key None = None \<and> rt_get_table R buf t slot = None \<and> \<not> req)
    \<or> (\<exists>tag p pos. rt_get_u8 R buf t key None = Some tag \<and> rt_get_table R buf t slot = Some p
        \<and> verified (check tag pos)
        \<and> (\<forall>variant name. verified (rt_union_variant R buf variant name pos) \<longrightarrow> verified (variant p)))"

definition checks_soundly :: "('s, 'v) fb_runtime \<Rightarrow> bool" where
  "checks_soundly R \<longleftrightarrow>
    (\<forall>buf p v t v'. rt_visit_table R buf p v = (Inr t, v') \<longrightarrow> t = p)
    \<and> (\<forall>buf t ft name slot req. verified (rt_visit_field R buf t ft name slot req) \<longrightarrow>
        field_checked R buf t ft slot req)
    \<and> (\<forall>buf t kname key name slot req check.
        verified (rt_visit_union R buf t kname key name slot req check) \<longrightarrow>
        union_checked R buf t key slot req check)
    \<and> (\<forall>check buf p. rt_size_prefixed_root R check buf = Inr p \<longrightarrow> verified (check p))
    \<and> (\<forall>buf t slot d. rt_get_u8 R buf t slot (Some d) = Some (unwrap_or (rt_get_u8 R buf t slot None) d))
    \<and> (\<forall>buf t slot d. rt_get_u32 R buf t slot (Some d) = Some (unwrap_or (rt_get_u32 R buf t slot None) d))
    \<and> (\<forall>buf t slot d. rt_get_u64 R buf t slot (Some d) = Some (unwrap_or (rt_get_u64 R buf t slot None) d))
    \<and> (\<forall>buf t slot d. rt_get_bool R buf t slot (Some d) = Some (unwrap_or (rt_get_bool R buf t slot None) d))"

section \<open>What the builder writes\<close>

text \<open>The objects of a builder under their offsets; a table maps its slots to values.\<close>

datatype fb_value = Scalar scalar | Offset nat

datatype fb_object =
    Obj_String string
  | Obj_Bytes string
  | Obj_Vector "nat list"
  | Obj_Table "nat \<Rightarrow> fb_value option"

type_synonym fb_store = "nat \<Rightarrow> fb_object option"

text \<open>A slot that holds its default value is not written; an offset always is.\<close>

definition held :: "scalar \<Rightarrow> scalar \<Rightarrow> fb_value option \<Rightarrow> fb_value option" where
  "held v d x = (if v = d then x else Some (Scalar v))"

definition put_scalar :: "nat \<Rightarrow> scalar \<Rightarrow> scalar \<Rightarrow> (nat \<Rightarrow> fb_value option) \<Rightarrow> nat \<Rightarrow> fb_value option" where
  "put_scalar slot v d f = (\<lambda>t. if t = slot then held v d (f t) else f t)"

definition held_offset :: "nat option \<Rightarrow> fb_value option \<Rightarrow> fb_value option" where
  "held_offset m x = (case m of None \<Rightarrow> x | Some r \<Rightarrow> Some (Offset r))"

definition put_offset :: "nat \<Rightarrow> nat option \<Rightarrow> (nat \<Rightarrow> fb_value option) \<Rightarrow> nat \<Rightarrow> fb_value option" where
  "put_offset slot m f = (\<lambda>t. if t = slot then held_offset m (f t) else f t)"

text \<open>What a slot reads as at a type, for a default; \<open>None\<close> when it holds a value of another type.\<close>

fun u8_in :: "8 word option \<Rightarrow> fb_value option \<Rightarrow> 8 word option option" where
  "u8_in d None = Some d"
| "u8_in d (Some (Scalar (S8 w))) = Some (Some w)"
| "u8_in d _ = None"

fun u32_in :: "32 word option \<Rightarrow> fb_value option \<Rightarrow> 32 word option option" where
  "u32_in d None = Some d"
| "u32_in d (Some (Scalar (S32 w))) = Some (Some w)"
| "u32_in d _ = None"

fun u64_in :: "64 word option \<Rightarrow> fb_value option \<Rightarrow> 64 word option option" where
  "u64_in d None = Some d"
| "u64_in d (Some (Scalar (S64 w))) = Some (Some w)"
| "u64_in d _ = None"

fun bool_in :: "bool option \<Rightarrow> fb_value option \<Rightarrow> bool option option" where
  "bool_in d None = Some d"
| "bool_in d (Some (Scalar (SBool b))) = Some (Some b)"
| "bool_in d _ = None"

fun string_in :: "fb_store \<Rightarrow> fb_value option \<Rightarrow> string option option" where
  "string_in S None = Some None"
| "string_in S (Some (Offset r)) =
    (case S r of Some (Obj_String x) \<Rightarrow> if utf8_ok x then Some (Some x) else None | _ \<Rightarrow> None)"
| "string_in S _ = None"

fun bytes_in :: "fb_store \<Rightarrow> fb_value option \<Rightarrow> string option option" where
  "bytes_in S None = Some None"
| "bytes_in S (Some (Offset r)) = (case S r of Some (Obj_Bytes x) \<Rightarrow> Some (Some x) | _ \<Rightarrow> None)"
| "bytes_in S _ = None"

fun tables_in :: "(nat \<Rightarrow> nat) \<Rightarrow> fb_store \<Rightarrow> fb_value option \<Rightarrow> nat list option option" where
  "tables_in loc S None = Some None"
| "tables_in loc S (Some (Offset r)) =
    (case S r of Some (Obj_Vector rs) \<Rightarrow> Some (Some (map loc rs)) | _ \<Rightarrow> None)"
| "tables_in loc S _ = None"

fun table_in :: "(nat \<Rightarrow> nat) \<Rightarrow> fb_store \<Rightarrow> fb_value option \<Rightarrow> nat option option" where
  "table_in loc S None = Some None"
| "table_in loc S (Some (Offset r)) =
    (case S r of Some (Obj_Table f) \<Rightarrow> Some (Some (loc r)) | _ \<Rightarrow> None)"
| "table_in loc S _ = None"

text \<open>The verifier has limits of its own (depth, number of tables, apparent size): an error of the
  class \<open>limit\<close> says nothing about the contents of a buffer.\<close>

definition only_limits :: "(string \<Rightarrow> bool) \<Rightarrow> ('v, string, 'a) eff \<Rightarrow> bool" where
  "only_limits limit m \<longleftrightarrow> (\<forall>v e v'. m v = (Inl e, v') \<longrightarrow> limit e)"

fun field_fits :: "(string \<Rightarrow> bool) \<Rightarrow> (nat \<Rightarrow> nat) \<Rightarrow> fb_store \<Rightarrow> 'v field_type \<Rightarrow> fb_value option \<Rightarrow> bool" where
  "field_fits limit loc S U8 x = (u8_in None x \<noteq> None)"
| "field_fits limit loc S U32 x = (u32_in None x \<noteq> None)"
| "field_fits limit loc S U64 x = (u64_in None x \<noteq> None)"
| "field_fits limit loc S Boolean x = (bool_in None x \<noteq> None)"
| "field_fits limit loc S Text_Field x = (string_in S x \<noteq> None)"
| "field_fits limit loc S Bytes_Field x = (bytes_in S x \<noteq> None)"
| "field_fits limit loc S (Tables check) x =
    (case tables_in loc S x of None \<Rightarrow> False | Some None \<Rightarrow> True
     | Some (Some ps) \<Rightarrow> \<forall>p\<in>set ps. only_limits limit (check p))"

definition union_fits :: "('s, 'v) fb_runtime \<Rightarrow> (string \<Rightarrow> bool) \<Rightarrow> string \<Rightarrow> (nat \<Rightarrow> nat) \<Rightarrow> fb_store
    \<Rightarrow> (8 word \<Rightarrow> nat \<Rightarrow> ('v, string, unit) eff) \<Rightarrow> fb_value option \<Rightarrow> fb_value option \<Rightarrow> bool" where
  "union_fits R limit buf loc S check x y \<longleftrightarrow>
    (x = None \<and> y = None)
    \<or> (\<exists>tag p. u8_in None x = Some (Some tag) \<and> table_in loc S y = Some (Some p)
        \<and> (\<forall>pos. (\<forall>variant name. only_limits limit (variant p) \<longrightarrow>
                    only_limits limit (rt_union_variant R buf variant name pos))
              \<longrightarrow> only_limits limit (check tag pos)))"

text \<open>A table of the buffer, at \<open>p\<close>, holds the slots \<open>f\<close>: every slot reads as its value, and verifying
  it finds nothing wrong.\<close>

definition table_reads :: "('s, 'v) fb_runtime \<Rightarrow> string \<Rightarrow> (nat \<Rightarrow> nat) \<Rightarrow> fb_store \<Rightarrow> nat
    \<Rightarrow> (nat \<Rightarrow> fb_value option) \<Rightarrow> bool" where
  "table_reads R buf loc S p f \<longleftrightarrow> (\<forall>slot.
      (\<forall>d. u8_in d (f slot) \<noteq> None \<longrightarrow> rt_get_u8 R buf p slot d = the (u8_in d (f slot)))
    \<and> (\<forall>d. u32_in d (f slot) \<noteq> None \<longrightarrow> rt_get_u32 R buf p slot d = the (u32_in d (f slot)))
    \<and> (\<forall>d. u64_in d (f slot) \<noteq> None \<longrightarrow> rt_get_u64 R buf p slot d = the (u64_in d (f slot)))
    \<and> (\<forall>d. bool_in d (f slot) \<noteq> None \<longrightarrow> rt_get_bool R buf p slot d = the (bool_in d (f slot)))
    \<and> (string_in S (f slot) \<noteq> None \<longrightarrow> rt_get_string R buf p slot = the (string_in S (f slot)))
    \<and> (bytes_in S (f slot) \<noteq> None \<longrightarrow> rt_get_bytes R buf p slot = the (bytes_in S (f slot)))
    \<and> (tables_in loc S (f slot) \<noteq> None \<longrightarrow> rt_get_tables R buf p slot = the (tables_in loc S (f slot)))
    \<and> (table_in loc S (f slot) \<noteq> None \<longrightarrow> rt_get_table R buf p slot = the (table_in loc S (f slot))))"

definition table_verifies :: "('s, 'v) fb_runtime \<Rightarrow> (string \<Rightarrow> bool) \<Rightarrow> string \<Rightarrow> (nat \<Rightarrow> nat) \<Rightarrow> fb_store
    \<Rightarrow> nat \<Rightarrow> (nat \<Rightarrow> fb_value option) \<Rightarrow> bool" where
  "table_verifies R limit buf loc S p f \<longleftrightarrow>
      (\<forall>v. case rt_visit_table R buf p v of (Inr t, _) \<Rightarrow> t = p | (Inl e, _) \<Rightarrow> limit e)
    \<and> (\<forall>ft name slot req. field_fits limit loc S ft (f slot) \<longrightarrow> (req \<longrightarrow> f slot \<noteq> None) \<longrightarrow>
        only_limits limit (rt_visit_field R buf p ft name slot req))
    \<and> (\<forall>kname key name slot check. union_fits R limit buf loc S check (f key) (f slot) \<longrightarrow>
        only_limits limit (rt_visit_union R buf p kname key name slot False check))
    \<and> only_limits limit (rt_finish_visit R p)"

definition represents :: "('s, 'v) fb_runtime \<Rightarrow> (string \<Rightarrow> bool) \<Rightarrow> fb_store \<Rightarrow> string \<Rightarrow> (nat \<Rightarrow> nat) \<Rightarrow> bool" where
  "represents R limit S buf loc \<longleftrightarrow> (\<forall>r f. S r = Some (Obj_Table f) \<longrightarrow>
     table_reads R buf loc S (loc r) f \<and> table_verifies R limit buf loc S (loc r) f)"

text \<open>A view of a builder: the objects written, the table being written with the handle of its start,
  and the class of the verifier's limits.\<close>

record 's fb_view =
  vw_store :: "'s \<Rightarrow> fb_store"
  vw_pending :: "'s \<Rightarrow> (nat \<times> (nat \<Rightarrow> fb_value option)) option"
  vw_limit :: "string \<Rightarrow> bool"

text \<open>The outcomes of a builder's function: it returns with \<open>Q\<close>, or the builder itself panics.\<close>

definition outcome :: "('a \<Rightarrow> 's \<Rightarrow> bool) \<Rightarrow> (panic + 'a) \<times> 's \<Rightarrow> bool" where
  "outcome Q o' = (case o' of (Inr a, s') \<Rightarrow> Q a s' | (Inl e, _) \<Rightarrow> \<exists>m. e = Builder_Panic m)"

definition allocates :: "'s fb_view \<Rightarrow> ('s, panic, nat) eff \<Rightarrow> fb_object \<Rightarrow> bool" where
  "allocates V m obj \<longleftrightarrow> (\<forall>s. vw_pending V s = None \<longrightarrow>
    outcome (\<lambda>r s'. vw_pending V s' = None \<and> vw_store V s r = None \<and> vw_store V s' = (vw_store V s)(r \<mapsto> obj))
      (m s))"

definition fills :: "'s fb_view \<Rightarrow> ('s, panic, unit) eff
    \<Rightarrow> ((nat \<Rightarrow> fb_value option) \<Rightarrow> nat \<Rightarrow> fb_value option) \<Rightarrow> bool" where
  "fills V m g \<longleftrightarrow> (\<forall>s h f. vw_pending V s = Some (h, f) \<longrightarrow>
    outcome (\<lambda>_ s'. vw_pending V s' = Some (h, g f) \<and> vw_store V s' = vw_store V s) (m s))"

definition builds_faithfully :: "('s, 'v) fb_runtime \<Rightarrow> 's fb_view \<Rightarrow> bool" where
  "builds_faithfully R V \<longleftrightarrow>
    (vw_pending V (rt_new R) = None \<and> vw_store V (rt_new R) = Map.empty)
    \<and> (\<forall>x. allocates V (rt_create_string R x) (Obj_String x))
    \<and> (\<forall>x s r s'. rt_create_string R x s = (Inr r, s') \<longrightarrow> utf8_ok x)
    \<and> (\<forall>x. allocates V (rt_create_bytes R x) (Obj_Bytes x))
    \<and> (\<forall>rs. allocates V (rt_create_vector R rs) (Obj_Vector rs))
    \<and> (\<forall>s. vw_pending V s = None \<longrightarrow>
        outcome (\<lambda>h s'. vw_pending V s' = Some (h, Map.empty) \<and> vw_store V s' = vw_store V s) (rt_start_table R s))
    \<and> (\<forall>slot v d. fills V (rt_push_slot R slot v d) (put_scalar slot v d))
    \<and> (\<forall>slot r. fills V (rt_push_offset R slot r) (put_offset slot (Some r)))
    \<and> (\<forall>s h f. vw_pending V s = Some (h, f) \<longrightarrow>
        outcome (\<lambda>r s'. vw_pending V s' = None \<and> vw_store V s r = None
          \<and> vw_store V s' = (vw_store V s)(r \<mapsto> Obj_Table f)) (rt_end_table R h s))
    \<and> (\<forall>s r f slot name. vw_store V s r = Some (Obj_Table f) \<longrightarrow> f slot \<noteq> None \<longrightarrow>
        rt_required R r slot name s = (Inr (), s))
    \<and> (\<forall>s r f ident. vw_pending V s = None \<longrightarrow> vw_store V s r = Some (Obj_Table f) \<longrightarrow> length ident = 4 \<longrightarrow>
        outcome (\<lambda>_ s'.
            (\<exists>body. rt_finished_data R s' = to_le_bytes 4 (length body) @ body \<and> body \<noteq> [])
          \<and> rt_has_identifier R (rt_finished_data R s') ident True
          \<and> (\<exists>loc. represents R (vw_limit V) (vw_store V s) (rt_finished_data R s') loc
              \<and> (\<forall>check. only_limits (vw_limit V) (check (loc r)) \<longrightarrow>
                  (case rt_size_prefixed_root R check (rt_finished_data R s') of
                     Inr p \<Rightarrow> p = loc r | Inl e \<Rightarrow> vw_limit V e))))
          (rt_finish_size_prefixed R r ident s))"

section \<open>Tables that pass verification\<close>

lemma verifiedI: "m v = (Inr a, v') \<Longrightarrow> verified m"
  by (auto simp: verified_def)

lemma verified_then: "verified (thenE m n) \<Longrightarrow> verified m \<and> verified n"
  unfolding verified_def thenE_def bindE_ok_iff by blast

lemma verified_table:
  "checks_soundly R \<Longrightarrow> verified (bindE (rt_visit_table R buf p) k) \<Longrightarrow> verified (k p)"
  unfolding verified_def bindE_ok_iff checks_soundly_def by metis

lemma verified_field:
  "checks_soundly R \<Longrightarrow> verified (rt_visit_field R buf t ft name slot req) \<Longrightarrow> field_checked R buf t ft slot req"
  by (simp add: checks_soundly_def)

lemma verified_union:
  "checks_soundly R \<Longrightarrow> verified (rt_visit_union R buf t kname key name slot req check) \<Longrightarrow>
    union_checked R buf t key slot req check"
  by (simp add: checks_soundly_def)

lemma verified_root:
  "checks_soundly R \<Longrightarrow> rt_size_prefixed_root R check buf = Inr p \<Longrightarrow> verified (check p)"
  by (simp add: checks_soundly_def)

lemma get_default:
  assumes "checks_soundly R"
  shows "rt_get_u8 R buf t slot (Some d) = Some (unwrap_or (rt_get_u8 R buf t slot None) d)"
    "rt_get_u32 R buf t slot (Some e) = Some (unwrap_or (rt_get_u32 R buf t slot None) e)"
    "rt_get_u64 R buf t slot (Some g) = Some (unwrap_or (rt_get_u64 R buf t slot None) g)"
    "rt_get_bool R buf t slot (Some b) = Some (unwrap_or (rt_get_bool R buf t slot None) b)"
  using assms by (simp_all add: checks_soundly_def)

lemma traverse_total: "\<forall>p\<in>set ps. \<exists>x. f p = Inr x \<Longrightarrow> \<exists>xs. traverseR f ps = Inr xs"
  by (induction ps) auto

definition optional_tables :: "(nat \<Rightarrow> panic + 'a) \<Rightarrow> nat list option \<Rightarrow> panic + 'a list option" where
  "optional_tables unpack m = (case m of None \<Rightarrow> Inr None | Some ps \<Rightarrow> mapR Some (traverseR unpack ps))"

lemma verified_tables:
  assumes "checks_soundly R" "verified (rt_visit_field R buf t (Tables check) name slot req)"
    and "\<And>p. verified (check p) \<Longrightarrow> \<exists>x. unpack p = Inr x"
  shows "(\<exists>m. optional_tables unpack (rt_get_tables R buf t slot) = Inr m)
    \<and> (req \<longrightarrow> (\<exists>ps xs. rt_get_tables R buf t slot = Some ps \<and> traverseR unpack ps = Inr xs))"
proof -
  have "case rt_get_tables R buf t slot of None \<Rightarrow> \<not> req | Some ps \<Rightarrow> \<forall>p\<in>set ps. \<exists>x. unpack p = Inr x"
    using verified_field[OF assms(1,2)] assms(3) by (auto split: option.splits)
  then show ?thesis
    using traverse_total[of _ unpack] by (cases "rt_get_tables R buf t slot") (fastforce simp: optional_tables_def)+
qed

lemma verified_required:
  assumes "checks_soundly R"
  shows "verified (rt_visit_field R buf t Text_Field name slot True) \<Longrightarrow> \<exists>x. rt_get_string R buf t slot = Some x"
    "verified (rt_visit_field R buf t Bytes_Field name slot True) \<Longrightarrow> \<exists>x. rt_get_bytes R buf t slot = Some x"
  using verified_field[OF assms, of buf t _ name slot True] by fastforce+

section \<open>Writing tables\<close>

text \<open>\<open>packs V m Q\<close>: outside of a table, \<open>m\<close> keeps what was written, and its result satisfies \<open>Q\<close> in
  every store that extends the one it leaves.\<close>

definition packs :: "'s fb_view \<Rightarrow> ('s, panic, 'a) eff \<Rightarrow> (fb_store \<Rightarrow> 'a \<Rightarrow> bool) \<Rightarrow> bool" where
  "packs V m Q \<longleftrightarrow> (\<forall>s. vw_pending V s = None \<longrightarrow>
    outcome (\<lambda>a s'. vw_pending V s' = None \<and> vw_store V s \<subseteq>\<^sub>m vw_store V s'
      \<and> (\<forall>S. vw_store V s' \<subseteq>\<^sub>m S \<longrightarrow> Q S a)) (m s))"

text \<open>\<open>writes V h f m Q\<close>: the same from within a table that holds the slots \<open>f\<close>.\<close>

definition writes :: "'s fb_view \<Rightarrow> nat \<Rightarrow> (nat \<Rightarrow> fb_value option) \<Rightarrow> ('s, panic, 'a) eff
    \<Rightarrow> (fb_store \<Rightarrow> 'a \<Rightarrow> bool) \<Rightarrow> bool" where
  "writes V h f m Q \<longleftrightarrow> (\<forall>s. vw_pending V s = Some (h, f) \<longrightarrow>
    outcome (\<lambda>a s'. vw_pending V s' = None \<and> vw_store V s \<subseteq>\<^sub>m vw_store V s'
      \<and> (\<forall>S. vw_store V s' \<subseteq>\<^sub>m S \<longrightarrow> Q S a)) (m s))"

named_theorems generated \<open>the definitions of the generated slots, accessors and builders\<close>
named_theorems message_defs \<open>the definitions that pack, unpack and verify the tables of messages\<close>

lemma outcome_mono: "outcome Q x \<Longrightarrow> (\<And>a s. Q a s \<Longrightarrow> Q' a s) \<Longrightarrow> outcome Q' x"
  by (auto simp: outcome_def split: prod.splits sum.splits)

lemma outcome_bind:
  "outcome Q (m s) \<Longrightarrow> (\<And>a s'. Q a s' \<Longrightarrow> outcome T (k a s')) \<Longrightarrow> outcome T (bindE m k s)"
  by (cases "m s"; cases "fst (m s)") (auto simp: outcome_def bindE_def)

lemma outcome_return: "Q a s \<Longrightarrow> outcome Q (returnE a s)"
  by (simp add: outcome_def returnE_def)

lemma packs_mono: "packs V m Q \<Longrightarrow> (\<And>S a. Q S a \<Longrightarrow> Q' S a) \<Longrightarrow> packs V m Q'"
  unfolding packs_def by (intro allI impI) (drule spec, drule mp, assumption, erule outcome_mono, blast)

lemma packs_return: "(\<And>S. Q S a) \<Longrightarrow> packs V (returnE a) Q"
  by (simp add: packs_def outcome_def returnE_def)

lemma packs_bind:
  assumes m: "packs V m Q" and k: "\<And>a. packs V (k a) (\<lambda>S b. Q S a \<longrightarrow> T S b)"
  shows "packs V (bindE m k) T"
  unfolding packs_def
proof (intro allI impI)
  fix s assume s: "vw_pending V s = None"
  let ?step = "\<lambda>Q s a s'. vw_pending V s' = None \<and> vw_store V s \<subseteq>\<^sub>m vw_store V s'
    \<and> (\<forall>S. vw_store V s' \<subseteq>\<^sub>m S \<longrightarrow> Q S a)"
  show "outcome (?step T s) (bindE m k s)"
  proof (rule outcome_bind)
    show "outcome (?step Q s) (m s)" using m s by (simp add: packs_def)
    fix a s' assume a: "?step Q s a s'"
    then have "outcome (?step (\<lambda>S b. Q S a \<longrightarrow> T S b) s') (k a s')" using k by (simp add: packs_def)
    then show "outcome (?step T s) (k a s')"
      using a by (elim outcome_mono) (auto intro: map_le_trans)
  qed
qed

lemma packs_traverse:
  assumes "\<And>x. x \<in> set xs \<Longrightarrow> packs V (f x) (\<lambda>S. P S x)"
  shows "packs V (traverseE f xs) (\<lambda>S. list_all2 (P S) xs)"
  using assms
proof (induction xs)
  case Nil
  then show ?case by (auto intro: packs_return)
next
  case (Cons x xs)
  then show ?case
    by (auto intro!: packs_bind packs_return)
qed

lemma packs_map_some:
  assumes "\<And>x. m = Some x \<Longrightarrow> packs V (f x) (\<lambda>S. P S x)"
  shows "packs V (map_someE f m) (\<lambda>S. rel_option (P S) m)"
  using assms by (cases m) (auto simp: map_someE_def intro!: packs_bind packs_return)

lemma allocates_packs:
  "allocates V m obj \<Longrightarrow> packs V m (\<lambda>S r. S r = Some obj)"
  unfolding allocates_def packs_def
  by (intro allI impI) (drule spec, drule mp, assumption, erule outcome_mono, auto simp: map_le_def dom_def)

lemma writes_then:
  assumes m: "fills V m g" and n: "writes V h (g f) n Q"
  shows "writes V h f (thenE m n) Q"
  unfolding writes_def thenE_def
proof (intro allI impI)
  fix s assume "vw_pending V s = Some (h, f)"
  then have "outcome (\<lambda>_ s'. vw_pending V s' = Some (h, g f) \<and> vw_store V s' = vw_store V s) (m s)"
    using m by (simp add: fills_def)
  then show "outcome (\<lambda>a s'. vw_pending V s' = None \<and> vw_store V s \<subseteq>\<^sub>m vw_store V s'
      \<and> (\<forall>S. vw_store V s' \<subseteq>\<^sub>m S \<longrightarrow> Q S a)) (bindE m (\<lambda>_. n) s)"
    using n by (elim outcome_bind) (auto simp: writes_def)
qed

lemma fills_for_some:
  "(\<And>r. fills V (add r) (put_offset slot (Some r))) \<Longrightarrow> fills V (for_some m add) (put_offset slot m)"
  by (cases m) (simp_all add: for_some_def fills_def put_offset_def held_offset_def outcome_return fun_eq_iff)

text \<open>The rules for a builder that is faithful.\<close>

lemma faithful_parts:
  assumes "builds_faithfully R V"
  shows "allocates V (rt_create_string R x) (Obj_String x)"
    "allocates V (rt_create_bytes R x) (Obj_Bytes x)"
    "allocates V (rt_create_vector R rs) (Obj_Vector rs)"
    "fills V (rt_push_slot R slot v d) (put_scalar slot v d)"
    "fills V (rt_push_offset R slot q) (put_offset slot (Some q))"
    "vw_pending V s = None \<Longrightarrow>
      outcome (\<lambda>h s'. vw_pending V s' = Some (h, Map.empty) \<and> vw_store V s' = vw_store V s) (rt_start_table R s)"
    "vw_pending V s = Some (h, f) \<Longrightarrow>
      outcome (\<lambda>r s'. vw_pending V s' = None \<and> vw_store V s r = None
        \<and> vw_store V s' = (vw_store V s)(r \<mapsto> Obj_Table f)) (rt_end_table R h s)"
    "vw_store V s r = Some (Obj_Table f) \<Longrightarrow> f slot \<noteq> None \<Longrightarrow> rt_required R r slot name s = (Inr (), s)"
  using assms by (simp_all add: builds_faithfully_def)

lemma faithful_text:
  "builds_faithfully R V \<Longrightarrow> rt_create_string R x s = (Inr r, s') \<Longrightarrow> utf8_ok x"
  unfolding builds_faithfully_def by (elim conjE) blast

lemma packs_string:
  assumes "builds_faithfully R V"
  shows "packs V (rt_create_string R x) (\<lambda>S r. string_in S (Some (Offset r)) = Some (Some x))"
proof -
  have utf8: "outcome (\<lambda>r s'. utf8_ok x \<and> Q r s') (rt_create_string R x s)"
    if "outcome Q (rt_create_string R x s)" for Q s
    using that faithful_text[OF assms, of x s] by (auto simp: outcome_def split: prod.splits sum.splits)
  have "packs V (rt_create_string R x) (\<lambda>S r. S r = Some (Obj_String x))"
    by (rule allocates_packs) (rule faithful_parts[OF assms])
  then have "packs V (rt_create_string R x) (\<lambda>S r. utf8_ok x \<and> S r = Some (Obj_String x))"
    unfolding packs_def
    by (intro allI impI) (drule spec, drule mp, assumption, drule utf8, erule outcome_mono, blast)
  then show ?thesis by (rule packs_mono) simp
qed

lemma packs_optional_string:
  assumes "builds_faithfully R V"
  shows "packs V (map_someE (rt_create_string R) m) (\<lambda>S o'. string_in S (map_option Offset o') = Some m)"
  by (rule packs_mono, rule packs_map_some, rule packs_string[OF assms]) (auto simp: option_rel_Some1 rel_option_iff split: option.splits)

lemma packs_bytes:
  assumes "builds_faithfully R V"
  shows "packs V (rt_create_bytes R x) (\<lambda>S r. bytes_in S (Some (Offset r)) = Some (Some x))"
  by (rule packs_mono, rule allocates_packs, rule faithful_parts[OF assms]) simp

lemma packs_vector:
  assumes "builds_faithfully R V" and "\<And>x. packs V (f x) (\<lambda>S. P S x)"
  shows "packs V (bindE (traverseE f xs) (rt_create_vector R))
    (\<lambda>S r. \<exists>rs. S r = Some (Obj_Vector rs) \<and> list_all2 (P S) xs rs)"
proof (rule packs_bind)
  show "packs V (traverseE f xs) (\<lambda>S. list_all2 (P S) xs)" by (rule packs_traverse) (rule assms(2))
  show "packs V (rt_create_vector R rs)
      (\<lambda>S r. list_all2 (P S) xs rs \<longrightarrow> (\<exists>rs. S r = Some (Obj_Vector rs) \<and> list_all2 (P S) xs rs))" for rs
    by (rule packs_mono, rule allocates_packs, rule faithful_parts[OF assms(1)]) auto
qed

lemma packs_table:
  assumes "builds_faithfully R V" and "\<And>h. writes V h Map.empty (k h) Q"
  shows "packs V (bindE (rt_start_table R) k) Q"
  unfolding packs_def
proof (intro allI impI)
  fix s assume "vw_pending V s = None"
  from faithful_parts(6)[OF assms(1) this]
  show "outcome (\<lambda>a s'. vw_pending V s' = None \<and> vw_store V s \<subseteq>\<^sub>m vw_store V s'
      \<and> (\<forall>S. vw_store V s' \<subseteq>\<^sub>m S \<longrightarrow> Q S a)) (bindE (rt_start_table R) k s)"
  proof (rule outcome_bind)
    fix h s' assume h: "vw_pending V s' = Some (h, Map.empty) \<and> vw_store V s' = vw_store V s"
    then show "outcome (\<lambda>a s'. vw_pending V s' = None \<and> vw_store V s \<subseteq>\<^sub>m vw_store V s'
        \<and> (\<forall>S. vw_store V s' \<subseteq>\<^sub>m S \<longrightarrow> Q S a)) (k h s')"
      using assms(2)[of h, unfolded writes_def, rule_format, of s'] by simp
  qed
qed

text \<open>A vector of tables: \<open>let w: Vec<_> = x.iter().map(|t| t.pack(_fbb)).collect(); _fbb.create_vector(&w)\<close>.\<close>

definition create_tables :: "('s, 'v) fb_runtime \<Rightarrow> ('a \<Rightarrow> ('s, panic, nat) eff) \<Rightarrow> 'a list \<Rightarrow> ('s, panic, nat) eff" where
  "create_tables R pack xs = bindE (traverseE pack xs) (rt_create_vector R)"

text \<open>The end of a table: the generated \<open>finish\<close> checks the slots of the required fields.\<close>

definition finish_table :: "('s, 'v) fb_runtime \<Rightarrow> (nat \<times> string) list \<Rightarrow> nat \<Rightarrow> ('s, panic, nat) eff" where
  "finish_table R req h =
    bindE (rt_end_table R h) (\<lambda>r.
    thenE (forE (\<lambda>(slot, name). rt_required R r slot name) req) (returnE r))"

lemma required_hold:
  assumes "builds_faithfully R V" "vw_store V s r = Some (Obj_Table f)" "\<forall>(slot, name)\<in>set req. f slot \<noteq> None"
  shows "forE (\<lambda>(slot, name). rt_required R r slot name) req s = (Inr (), s)"
  using assms(3)
proof (induction req)
  case Nil
  then show ?case by (simp add: returnE_def)
next
  case (Cons q req)
  then show ?case
    using faithful_parts(8)[OF assms(1,2), of "fst q" "snd q"]
    by (auto simp: thenE_def bindE_ok split: prod.splits)
qed

lemma writes_finish:
  assumes "builds_faithfully R V" and "\<forall>(slot, name)\<in>set req. f slot \<noteq> None"
    and "\<And>S r. S r = Some (Obj_Table f) \<Longrightarrow> Q S r"
  shows "writes V h f (finish_table R req h) Q"
  unfolding writes_def
proof (intro allI impI)
  fix s assume "vw_pending V s = Some (h, f)"
  from faithful_parts(7)[OF assms(1) this]
  show "outcome (\<lambda>a s'. vw_pending V s' = None \<and> vw_store V s \<subseteq>\<^sub>m vw_store V s'
      \<and> (\<forall>S. vw_store V s' \<subseteq>\<^sub>m S \<longrightarrow> Q S a)) (finish_table R req h s)"
    unfolding finish_table_def
  proof (rule outcome_bind)
    fix r s'
    assume "vw_pending V s' = None \<and> vw_store V s r = None \<and> vw_store V s' = (vw_store V s)(r \<mapsto> Obj_Table f)"
    then show "outcome (\<lambda>a s'. vw_pending V s' = None \<and> vw_store V s \<subseteq>\<^sub>m vw_store V s'
        \<and> (\<forall>S. vw_store V s' \<subseteq>\<^sub>m S \<longrightarrow> Q S a))
        (thenE (forE (\<lambda>(slot, name). rt_required R r slot name) req) (returnE r) s')"
      using required_hold[OF assms(1), of s' r f req] assms(2,3)
      by (auto simp: thenE_def bindE_ok outcome_return map_le_def dom_def)
  qed
qed

section \<open>Reading what was written\<close>

lemma put_scalar_at [simp]:
  "put_scalar slot v d f t = (if t = slot then held v d (f t) else f t)"
  by (simp add: put_scalar_def)

lemma put_offset_at [simp]:
  "put_offset slot m f t = (if t = slot then held_offset m (f t) else f t)"
  by (simp add: put_offset_def)

lemma held_offset_simps [simp]:
  "held_offset m None = map_option Offset m" "held_offset (Some r) x = Some (Offset r)"
  by (cases m) (simp_all add: held_offset_def)

lemma held_reads [simp]:
  "u8_in (Some d) (held (S8 v) (S8 d) None) = Some (Some v)"
  "u32_in (Some e) (held (S32 w) (S32 e) None) = Some (Some w)"
  "u64_in (Some g) (held (S64 x) (S64 g) None) = Some (Some x)"
  "bool_in (Some b) (held (SBool c) (SBool b) None) = Some (Some c)"
  by (simp_all add: held_def)

lemma held_fits [simp]:
  "\<exists>y. u8_in d' (held (S8 v) d None) = Some y"
  "\<exists>y. u32_in e' (held (S32 w) d None) = Some y"
  "\<exists>y. u64_in g' (held (S64 x) d None) = Some y"
  "\<exists>y. bool_in b' (held (SBool c) d None) = Some y"
  by (simp_all add: held_def)

declare string_in.simps(2) [simp del] bytes_in.simps(2) [simp del] tables_in.simps(2) [simp del]

text \<open>A table written at \<open>r\<close> encodes \<open>x\<close>: in every buffer that represents the store it is unpacked to
  \<open>x\<close>, and verifying it runs into nothing but the limits.\<close>

definition encodes :: "('s, 'v) fb_runtime \<Rightarrow> (string \<Rightarrow> bool) \<Rightarrow> (string \<Rightarrow> nat \<Rightarrow> panic + 'a)
    \<Rightarrow> (string \<Rightarrow> nat \<Rightarrow> ('v, string, unit) eff) \<Rightarrow> 'a \<Rightarrow> fb_store \<Rightarrow> nat \<Rightarrow> bool" where
  "encodes R limit unpack verify x S r \<longleftrightarrow> (\<exists>f. S r = Some (Obj_Table f)) \<and> (\<forall>buf loc. represents R limit S buf loc \<longrightarrow>
    unpack buf (loc r) = Inr x \<and> only_limits limit (verify buf (loc r)))"

definition encodes_vector :: "('s, 'v) fb_runtime \<Rightarrow> (string \<Rightarrow> bool) \<Rightarrow> (string \<Rightarrow> nat \<Rightarrow> panic + 'a)
    \<Rightarrow> (string \<Rightarrow> nat \<Rightarrow> ('v, string, unit) eff) \<Rightarrow> 'a list \<Rightarrow> fb_store \<Rightarrow> nat \<Rightarrow> bool" where
  "encodes_vector R limit unpack verify xs S r \<longleftrightarrow> (\<forall>buf loc. represents R limit S buf loc \<longrightarrow>
    (\<exists>ps. tables_in loc S (Some (Offset r)) = Some (Some ps) \<and> traverseR (unpack buf) ps = Inr xs
      \<and> (\<forall>p\<in>set ps. only_limits limit (verify buf p))))"

definition encodes_optional :: "('s, 'v) fb_runtime \<Rightarrow> (string \<Rightarrow> bool) \<Rightarrow> (string \<Rightarrow> nat \<Rightarrow> panic + 'a)
    \<Rightarrow> (string \<Rightarrow> nat \<Rightarrow> ('v, string, unit) eff) \<Rightarrow> 'a list option \<Rightarrow> fb_store \<Rightarrow> nat option \<Rightarrow> bool" where
  "encodes_optional R limit unpack verify m S o' \<longleftrightarrow> (\<forall>buf loc. represents R limit S buf loc \<longrightarrow>
    (\<exists>mps. tables_in loc S (map_option Offset o') = Some mps \<and> optional_tables (unpack buf) mps = Inr m
      \<and> (\<forall>ps. mps = Some ps \<longrightarrow> (\<forall>p\<in>set ps. only_limits limit (verify buf p)))))"

lemma encodes_vectorI:
  assumes "S r = Some (Obj_Vector rs)" "list_all2 (\<lambda>x. encodes R limit unpack verify x S) xs rs"
  shows "encodes_vector R limit unpack verify xs S r"
  unfolding encodes_vector_def
proof (intro allI impI)
  fix buf loc assume rep: "represents R limit S buf loc"
  from assms(2) have "traverseR (unpack buf) (map loc rs) = Inr xs
      \<and> (\<forall>p\<in>set (map loc rs). only_limits limit (verify buf p))"
    by (induction rule: list_all2_induct) (use rep in \<open>auto simp: encodes_def\<close>)
  then show "\<exists>ps. tables_in loc S (Some (Offset r)) = Some (Some ps) \<and> traverseR (unpack buf) ps = Inr xs
      \<and> (\<forall>p\<in>set ps. only_limits limit (verify buf p))"
    using assms(1) by (auto simp: tables_in.simps(2))
qed

lemma encodes_optionalI:
  "rel_option (\<lambda>xs. encodes_vector R limit unpack verify xs S) m o' \<Longrightarrow>
    encodes_optional R limit unpack verify m S o'"
  by (cases m; cases o') (fastforce simp: encodes_optional_def encodes_vector_def optional_tables_def)+

lemma encodes_vectorD:
  "encodes_vector R limit unpack verify xs S r \<Longrightarrow> represents R limit S buf loc \<Longrightarrow>
    \<exists>ps. tables_in loc S (Some (Offset r)) = Some (Some ps) \<and> traverseR (unpack buf) ps = Inr xs
      \<and> (\<forall>p\<in>set ps. only_limits limit (verify buf p))"
  by (simp add: encodes_vector_def)

lemma encodes_optionalD:
  "encodes_optional R limit unpack verify m S o' \<Longrightarrow> represents R limit S buf loc \<Longrightarrow>
    \<exists>mps. tables_in loc S (map_option Offset o') = Some mps \<and> optional_tables (unpack buf) mps = Inr m
      \<and> (\<forall>ps. mps = Some ps \<longrightarrow> (\<forall>p\<in>set ps. only_limits limit (verify buf p)))"
  by (simp add: encodes_optional_def)

lemmas encodesD = encodes_vectorD encodes_optionalD

lemma packs_tables:
  assumes "builds_faithfully R V"
    and "\<And>x. packs V (f x) (encodes R (vw_limit V) unpack verify x)"
  shows "packs V (create_tables R f xs) (encodes_vector R (vw_limit V) unpack verify xs)"
  unfolding create_tables_def by (rule packs_mono, rule packs_vector[OF assms(1)], rule assms(2)) (auto intro: encodes_vectorI)

lemma packs_optional_tables:
  assumes "builds_faithfully R V"
    and "\<And>x. packs V (f x) (encodes R (vw_limit V) unpack verify x)"
  shows "packs V (map_someE (create_tables R f) m)
    (encodes_optional R (vw_limit V) unpack verify m)"
  by (rule packs_mono, rule packs_map_some, rule packs_tables[OF assms]) (auto intro: encodes_optionalI)

lemma reads_slot:
  assumes "table_reads R buf loc S p f"
  shows "u8_in d (f slot) \<noteq> None \<Longrightarrow> rt_get_u8 R buf p slot d = the (u8_in d (f slot))"
    "u32_in e (f slot) \<noteq> None \<Longrightarrow> rt_get_u32 R buf p slot e = the (u32_in e (f slot))"
    "u64_in g (f slot) \<noteq> None \<Longrightarrow> rt_get_u64 R buf p slot g = the (u64_in g (f slot))"
    "bool_in b (f slot) \<noteq> None \<Longrightarrow> rt_get_bool R buf p slot b = the (bool_in b (f slot))"
    "string_in S (f slot) \<noteq> None \<Longrightarrow> rt_get_string R buf p slot = the (string_in S (f slot))"
    "bytes_in S (f slot) \<noteq> None \<Longrightarrow> rt_get_bytes R buf p slot = the (bytes_in S (f slot))"
    "tables_in loc S (f slot) \<noteq> None \<Longrightarrow> rt_get_tables R buf p slot = the (tables_in loc S (f slot))"
    "table_in loc S (f slot) \<noteq> None \<Longrightarrow> rt_get_table R buf p slot = the (table_in loc S (f slot))"
  using assms by (auto simp: table_reads_def)

named_theorems limits \<open>introduction rules for verifications that run into limits only\<close>

lemma limits_then [limits]: "only_limits limit m \<Longrightarrow> only_limits limit n \<Longrightarrow> only_limits limit (thenE m n)"
  unfolding only_limits_def thenE_def bindE_err_iff by blast

lemma limits_table [limits]:
  "table_verifies R limit buf loc S p f \<Longrightarrow> only_limits limit (k p) \<Longrightarrow>
    only_limits limit (bindE (rt_visit_table R buf p) k)"
proof -
  assume t: "table_verifies R limit buf loc S p f" and k: "only_limits limit (k p)"
  have visit: "case rt_visit_table R buf p v of (Inr t, _) \<Rightarrow> t = p | (Inl e, _) \<Rightarrow> limit e" for v
    using t by (simp add: table_verifies_def)
  show ?thesis unfolding only_limits_def bindE_err_iff
  proof (intro allI impI, elim disjE exE conjE)
    fix v e v' assume "rt_visit_table R buf p v = (Inl e, v')"
    then show "limit e" using visit[of v] by simp
  next
    fix v e v' t u assume "rt_visit_table R buf p v = (Inr t, u)" and k': "k t u = (Inl e, v')"
    then have "t = p" using visit[of v] by simp
    with k k' show "limit e" unfolding only_limits_def by blast
  qed
qed

lemma limits_field [limits]:
  "table_verifies R limit buf loc S p f \<Longrightarrow> field_fits limit loc S ft (f slot) \<Longrightarrow>
    (req \<longrightarrow> f slot \<noteq> None) \<Longrightarrow> only_limits limit (rt_visit_field R buf p ft name slot req)"
  by (simp add: table_verifies_def)

lemma limits_finish [limits]:
  "table_verifies R limit buf loc S p f \<Longrightarrow> only_limits limit (rt_finish_visit R p)"
  by (simp add: table_verifies_def)

lemma fills_slots:
  assumes "builds_faithfully R V"
  shows "fills V (rt_push_slot R slot v d) (put_scalar slot v d)"
    "fills V (for_some m (rt_push_offset R slot)) (put_offset slot m)"
  by (rule faithful_parts[OF assms], rule fills_for_some) (simp add: faithful_parts[OF assms])

lemmas building = packs_string packs_optional_string packs_bytes packs_tables packs_optional_tables
  packs_table packs_bind fills_slots writes_then writes_finish

lemma encodes_table:
  assumes "S r = Some (Obj_Table f)"
    and "\<And>buf loc. \<lbrakk>represents R limit S buf loc; table_reads R buf loc S (loc r) f\<rbrakk> \<Longrightarrow> unpack buf (loc r) = Inr x"
    and "\<And>buf loc. \<lbrakk>represents R limit S buf loc; table_verifies R limit buf loc S (loc r) f\<rbrakk>
      \<Longrightarrow> only_limits limit (verify buf (loc r))"
  shows "encodes R limit unpack verify x S r"
  using assms by (auto simp: encodes_def represents_def)

end
