(* ===== verification/Wire_Records.thy ===== *)
theory Wire_Records
  imports Flat_Runtime
begin

text \<open>
  The tables of \<open>protocol/ipc_generated.rs\<close> that messages carry in vectors: for each of them the numbers
  of its slots, the functions of its builder, \<open>create\<close>, its accessors, \<open>unpack\<close>, \<open>run_verifier\<close> and \<open>pack\<close>,
  in the order of the source.  The facts are the two halves of the contract of a table: what \<open>pack\<close> writes
  is unpacked to the same value and passes the verifier (\<open>_packs\<close>), and what passed the verifier is
  unpacked without a panic (\<open>_total\<close>).
\<close>

section \<open>Tables\<close>

definition VT_CAPABILITY_NAME :: nat where [generated]: "VT_CAPABILITY_NAME = 4"
definition VT_CAPABILITY_STATE :: nat where [generated]: "VT_CAPABILITY_STATE = 6"
definition VT_CAPABILITY_REASON :: nat where [generated]: "VT_CAPABILITY_REASON = 8"

definition capability_add_name :: "('s, 'v) fb_runtime \<Rightarrow> nat \<Rightarrow> ('s, panic, unit) eff" where [generated]:
  "capability_add_name R = rt_push_offset R VT_CAPABILITY_NAME"

definition capability_add_state :: "('s, 'v) fb_runtime \<Rightarrow> 8 word
    \<Rightarrow> ('s, panic, unit) eff" where [generated]:
  "capability_add_state R state = rt_push_slot R VT_CAPABILITY_STATE (S8 state) (S8 0)"

definition capability_add_reason :: "('s, 'v) fb_runtime \<Rightarrow> nat
    \<Rightarrow> ('s, panic, unit) eff" where [generated]:
  "capability_add_reason R = rt_push_offset R VT_CAPABILITY_REASON"

definition capability_finish :: "('s, 'v) fb_runtime \<Rightarrow> nat \<Rightarrow> ('s, panic, nat) eff" where [generated]:
  "capability_finish R = finish_table R [(VT_CAPABILITY_NAME, ''name'')]"

definition capability_create :: "('s, 'v) fb_runtime \<Rightarrow> nat option \<Rightarrow> 8 word \<Rightarrow> nat option
    \<Rightarrow> ('s, panic, nat) eff" where [generated]:
  "capability_create R name state reason =
    bindE (rt_start_table R) (\<lambda>builder.
    thenE (for_some reason (capability_add_reason R)) (
    thenE (for_some name (capability_add_name R)) (
    thenE (capability_add_state R state) (
    capability_finish R builder))))"

definition capability_get_name :: "('s, 'v) fb_runtime \<Rightarrow> string \<Rightarrow> nat
    \<Rightarrow> panic + string" where [generated]:
  "capability_get_name R buf t = ok_or (rt_get_string R buf t VT_CAPABILITY_NAME) Unwrap_None"

definition capability_get_state :: "('s, 'v) fb_runtime \<Rightarrow> string \<Rightarrow> nat
    \<Rightarrow> panic + 8 word" where [generated]:
  "capability_get_state R buf t = ok_or (rt_get_u8 R buf t VT_CAPABILITY_STATE (Some 0)) Unwrap_None"

definition capability_get_reason :: "('s, 'v) fb_runtime \<Rightarrow> string \<Rightarrow> nat
    \<Rightarrow> string option" where [generated]:
  "capability_get_reason R buf t = rt_get_string R buf t VT_CAPABILITY_REASON"

definition capability_unpack :: "('s, 'v) fb_runtime \<Rightarrow> string \<Rightarrow> nat \<Rightarrow> panic + capability_t" where
  "capability_unpack R buf t =
    bindR (capability_get_name R buf t) (\<lambda>name.
    bindR (capability_get_state R buf t) (\<lambda>state.
    Inr (CapabilityT name state (capability_get_reason R buf t))))"

definition capability_verify :: "('s, 'v) fb_runtime \<Rightarrow> string \<Rightarrow> nat \<Rightarrow> ('v, string, unit) eff" where
  "capability_verify R buf p =
    bindE (rt_visit_table R buf p) (\<lambda>t.
    thenE (rt_visit_field R buf t Text_Field ''name'' VT_CAPABILITY_NAME True) (
    thenE (rt_visit_field R buf t U8 ''state'' VT_CAPABILITY_STATE False) (
    thenE (rt_visit_field R buf t Text_Field ''reason'' VT_CAPABILITY_REASON False) (
    rt_finish_visit R t))))"

fun capability_pack :: "('s, 'v) fb_runtime \<Rightarrow> capability_t \<Rightarrow> ('s, panic, nat) eff" where
  "capability_pack R (CapabilityT name state reason) =
    bindE (rt_create_string R name) (\<lambda>name_at.
    bindE (map_someE (rt_create_string R) reason) (\<lambda>reason_at.
    capability_create R (Some name_at) state reason_at))"

definition VT_IP_ADDRESS_ADDRESS :: nat where [generated]: "VT_IP_ADDRESS_ADDRESS = 4"
definition VT_IP_ADDRESS_PREFIX_LENGTH :: nat where [generated]: "VT_IP_ADDRESS_PREFIX_LENGTH = 6"

definition ip_address_add_address :: "('s, 'v) fb_runtime \<Rightarrow> nat
    \<Rightarrow> ('s, panic, unit) eff" where [generated]:
  "ip_address_add_address R = rt_push_offset R VT_IP_ADDRESS_ADDRESS"

definition ip_address_add_prefix_length :: "('s, 'v) fb_runtime \<Rightarrow> 8 word
    \<Rightarrow> ('s, panic, unit) eff" where [generated]:
  "ip_address_add_prefix_length R prefix_length = rt_push_slot R VT_IP_ADDRESS_PREFIX_LENGTH (S8
      prefix_length) (S8 0)"

definition ip_address_finish :: "('s, 'v) fb_runtime \<Rightarrow> nat \<Rightarrow> ('s, panic, nat) eff" where [generated]:
  "ip_address_finish R = finish_table R [(VT_IP_ADDRESS_ADDRESS, ''address'')]"

definition ip_address_create :: "('s, 'v) fb_runtime \<Rightarrow> nat option \<Rightarrow> 8 word
    \<Rightarrow> ('s, panic, nat) eff" where [generated]:
  "ip_address_create R address prefix_length =
    bindE (rt_start_table R) (\<lambda>builder.
    thenE (for_some address (ip_address_add_address R)) (
    thenE (ip_address_add_prefix_length R prefix_length) (
    ip_address_finish R builder)))"

definition ip_address_get_address :: "('s, 'v) fb_runtime \<Rightarrow> string \<Rightarrow> nat
    \<Rightarrow> panic + string" where [generated]:
  "ip_address_get_address R buf t = ok_or (rt_get_string R buf t VT_IP_ADDRESS_ADDRESS) Unwrap_None"

definition ip_address_get_prefix_length :: "('s, 'v) fb_runtime \<Rightarrow> string \<Rightarrow> nat
    \<Rightarrow> panic + 8 word" where [generated]:
  "ip_address_get_prefix_length R buf t = ok_or (rt_get_u8 R buf t VT_IP_ADDRESS_PREFIX_LENGTH (Some 0))
      Unwrap_None"

definition ip_address_unpack :: "('s, 'v) fb_runtime \<Rightarrow> string \<Rightarrow> nat \<Rightarrow> panic + ip_address_t" where
  "ip_address_unpack R buf t =
    bindR (ip_address_get_address R buf t) (\<lambda>address.
    bindR (ip_address_get_prefix_length R buf t) (\<lambda>prefix_length.
    Inr (IpAddressT address prefix_length)))"

definition ip_address_verify :: "('s, 'v) fb_runtime \<Rightarrow> string \<Rightarrow> nat \<Rightarrow> ('v, string, unit) eff" where
  "ip_address_verify R buf p =
    bindE (rt_visit_table R buf p) (\<lambda>t.
    thenE (rt_visit_field R buf t Text_Field ''address'' VT_IP_ADDRESS_ADDRESS True) (
    thenE (rt_visit_field R buf t U8 ''prefix_length'' VT_IP_ADDRESS_PREFIX_LENGTH False) (
    rt_finish_visit R t)))"

fun ip_address_pack :: "('s, 'v) fb_runtime \<Rightarrow> ip_address_t \<Rightarrow> ('s, panic, nat) eff" where
  "ip_address_pack R (IpAddressT address prefix_length) =
    bindE (rt_create_string R address) (\<lambda>address_at.
    ip_address_create R (Some address_at) prefix_length)"

definition VT_ADAPTER_IF_INDEX :: nat where [generated]: "VT_ADAPTER_IF_INDEX = 4"
definition VT_ADAPTER_NAME :: nat where [generated]: "VT_ADAPTER_NAME = 6"
definition VT_ADAPTER_DESCRIPTION :: nat where [generated]: "VT_ADAPTER_DESCRIPTION = 8"
definition VT_ADAPTER_GUID :: nat where [generated]: "VT_ADAPTER_GUID = 10"
definition VT_ADAPTER_MAC_ADDRESS :: nat where [generated]: "VT_ADAPTER_MAC_ADDRESS = 12"
definition VT_ADAPTER_STATUS :: nat where [generated]: "VT_ADAPTER_STATUS = 14"
definition VT_ADAPTER_HARDWARE :: nat where [generated]: "VT_ADAPTER_HARDWARE = 16"
definition VT_ADAPTER_IPV4 :: nat where [generated]: "VT_ADAPTER_IPV4 = 18"
definition VT_ADAPTER_IPV6 :: nat where [generated]: "VT_ADAPTER_IPV6 = 20"

definition adapter_add_if_index :: "('s, 'v) fb_runtime \<Rightarrow> 32 word
    \<Rightarrow> ('s, panic, unit) eff" where [generated]:
  "adapter_add_if_index R if_index = rt_push_slot R VT_ADAPTER_IF_INDEX (S32 if_index) (S32 0)"

definition adapter_add_name :: "('s, 'v) fb_runtime \<Rightarrow> nat \<Rightarrow> ('s, panic, unit) eff" where [generated]:
  "adapter_add_name R = rt_push_offset R VT_ADAPTER_NAME"

definition adapter_add_description :: "('s, 'v) fb_runtime \<Rightarrow> nat
    \<Rightarrow> ('s, panic, unit) eff" where [generated]:
  "adapter_add_description R = rt_push_offset R VT_ADAPTER_DESCRIPTION"

definition adapter_add_guid :: "('s, 'v) fb_runtime \<Rightarrow> nat \<Rightarrow> ('s, panic, unit) eff" where [generated]:
  "adapter_add_guid R = rt_push_offset R VT_ADAPTER_GUID"

definition adapter_add_mac_address :: "('s, 'v) fb_runtime \<Rightarrow> nat
    \<Rightarrow> ('s, panic, unit) eff" where [generated]:
  "adapter_add_mac_address R = rt_push_offset R VT_ADAPTER_MAC_ADDRESS"

definition adapter_add_status :: "('s, 'v) fb_runtime \<Rightarrow> nat \<Rightarrow> ('s, panic, unit) eff" where [generated]:
  "adapter_add_status R = rt_push_offset R VT_ADAPTER_STATUS"

definition adapter_add_hardware :: "('s, 'v) fb_runtime \<Rightarrow> bool
    \<Rightarrow> ('s, panic, unit) eff" where [generated]:
  "adapter_add_hardware R hardware = rt_push_slot R VT_ADAPTER_HARDWARE (SBool hardware) (SBool False)"

definition adapter_add_ipv4 :: "('s, 'v) fb_runtime \<Rightarrow> nat \<Rightarrow> ('s, panic, unit) eff" where [generated]:
  "adapter_add_ipv4 R = rt_push_offset R VT_ADAPTER_IPV4"

definition adapter_add_ipv6 :: "('s, 'v) fb_runtime \<Rightarrow> nat \<Rightarrow> ('s, panic, unit) eff" where [generated]:
  "adapter_add_ipv6 R = rt_push_offset R VT_ADAPTER_IPV6"

definition adapter_finish :: "('s, 'v) fb_runtime \<Rightarrow> nat \<Rightarrow> ('s, panic, nat) eff" where [generated]:
  "adapter_finish R = finish_table R [(VT_ADAPTER_NAME, ''name'')]"

definition adapter_create :: "('s, 'v) fb_runtime \<Rightarrow> 32 word \<Rightarrow> nat option \<Rightarrow> nat option \<Rightarrow> nat option
    \<Rightarrow> nat option \<Rightarrow> nat option \<Rightarrow> bool \<Rightarrow> nat option \<Rightarrow> nat option
    \<Rightarrow> ('s, panic, nat) eff" where [generated]:
  "adapter_create R if_index name description guid mac_address status hardware ipv4 ipv6 =
    bindE (rt_start_table R) (\<lambda>builder.
    thenE (for_some ipv6 (adapter_add_ipv6 R)) (
    thenE (for_some ipv4 (adapter_add_ipv4 R)) (
    thenE (for_some status (adapter_add_status R)) (
    thenE (for_some mac_address (adapter_add_mac_address R)) (
    thenE (for_some guid (adapter_add_guid R)) (
    thenE (for_some description (adapter_add_description R)) (
    thenE (for_some name (adapter_add_name R)) (
    thenE (adapter_add_if_index R if_index) (
    thenE (adapter_add_hardware R hardware) (
    adapter_finish R builder))))))))))"

definition adapter_get_if_index :: "('s, 'v) fb_runtime \<Rightarrow> string \<Rightarrow> nat
    \<Rightarrow> panic + 32 word" where [generated]:
  "adapter_get_if_index R buf t = ok_or (rt_get_u32 R buf t VT_ADAPTER_IF_INDEX (Some 0)) Unwrap_None"

definition adapter_get_name :: "('s, 'v) fb_runtime \<Rightarrow> string \<Rightarrow> nat \<Rightarrow> panic + string" where [generated]:
  "adapter_get_name R buf t = ok_or (rt_get_string R buf t VT_ADAPTER_NAME) Unwrap_None"

definition adapter_get_description :: "('s, 'v) fb_runtime \<Rightarrow> string \<Rightarrow> nat
    \<Rightarrow> string option" where [generated]:
  "adapter_get_description R buf t = rt_get_string R buf t VT_ADAPTER_DESCRIPTION"

definition adapter_get_guid :: "('s, 'v) fb_runtime \<Rightarrow> string \<Rightarrow> nat \<Rightarrow> string option" where [generated]:
  "adapter_get_guid R buf t = rt_get_string R buf t VT_ADAPTER_GUID"

definition adapter_get_mac_address :: "('s, 'v) fb_runtime \<Rightarrow> string \<Rightarrow> nat
    \<Rightarrow> string option" where [generated]:
  "adapter_get_mac_address R buf t = rt_get_string R buf t VT_ADAPTER_MAC_ADDRESS"

definition adapter_get_status :: "('s, 'v) fb_runtime \<Rightarrow> string \<Rightarrow> nat \<Rightarrow> string option" where [generated]:
  "adapter_get_status R buf t = rt_get_string R buf t VT_ADAPTER_STATUS"

definition adapter_get_hardware :: "('s, 'v) fb_runtime \<Rightarrow> string \<Rightarrow> nat
    \<Rightarrow> panic + bool" where [generated]:
  "adapter_get_hardware R buf t = ok_or (rt_get_bool R buf t VT_ADAPTER_HARDWARE (Some False))
      Unwrap_None"

definition adapter_get_ipv4 :: "('s, 'v) fb_runtime \<Rightarrow> string \<Rightarrow> nat \<Rightarrow> nat list option" where [generated]:
  "adapter_get_ipv4 R buf t = rt_get_tables R buf t VT_ADAPTER_IPV4"

definition adapter_get_ipv6 :: "('s, 'v) fb_runtime \<Rightarrow> string \<Rightarrow> nat \<Rightarrow> nat list option" where [generated]:
  "adapter_get_ipv6 R buf t = rt_get_tables R buf t VT_ADAPTER_IPV6"

definition adapter_unpack :: "('s, 'v) fb_runtime \<Rightarrow> string \<Rightarrow> nat \<Rightarrow> panic + adapter_t" where
  "adapter_unpack R buf t =
    bindR (adapter_get_if_index R buf t) (\<lambda>if_index.
    bindR (adapter_get_name R buf t) (\<lambda>name.
    bindR (adapter_get_hardware R buf t) (\<lambda>hardware.
    bindR (optional_tables (ip_address_unpack R buf) (adapter_get_ipv4 R buf t)) (\<lambda>ipv4.
    bindR (optional_tables (ip_address_unpack R buf) (adapter_get_ipv6 R buf t)) (\<lambda>ipv6.
    Inr (AdapterT if_index name (adapter_get_description R buf t) (adapter_get_guid R buf t)
        (adapter_get_mac_address R buf t) (adapter_get_status R buf t) hardware ipv4 ipv6))))))"

definition adapter_verify :: "('s, 'v) fb_runtime \<Rightarrow> string \<Rightarrow> nat \<Rightarrow> ('v, string, unit) eff" where
  "adapter_verify R buf p =
    bindE (rt_visit_table R buf p) (\<lambda>t.
    thenE (rt_visit_field R buf t U32 ''if_index'' VT_ADAPTER_IF_INDEX False) (
    thenE (rt_visit_field R buf t Text_Field ''name'' VT_ADAPTER_NAME True) (
    thenE (rt_visit_field R buf t Text_Field ''description'' VT_ADAPTER_DESCRIPTION False) (
    thenE (rt_visit_field R buf t Text_Field ''guid'' VT_ADAPTER_GUID False) (
    thenE (rt_visit_field R buf t Text_Field ''mac_address'' VT_ADAPTER_MAC_ADDRESS False) (
    thenE (rt_visit_field R buf t Text_Field ''status'' VT_ADAPTER_STATUS False) (
    thenE (rt_visit_field R buf t Boolean ''hardware'' VT_ADAPTER_HARDWARE False) (
    thenE (rt_visit_field R buf t (Tables (ip_address_verify R buf)) ''ipv4'' VT_ADAPTER_IPV4 False) (
    thenE (rt_visit_field R buf t (Tables (ip_address_verify R buf)) ''ipv6'' VT_ADAPTER_IPV6 False) (
    rt_finish_visit R t))))))))))"

fun adapter_pack :: "('s, 'v) fb_runtime \<Rightarrow> adapter_t \<Rightarrow> ('s, panic, nat) eff" where
  "adapter_pack R (AdapterT if_index name description guid mac_address status hardware ipv4 ipv6) =
    bindE (rt_create_string R name) (\<lambda>name_at.
    bindE (map_someE (rt_create_string R) description) (\<lambda>description_at.
    bindE (map_someE (rt_create_string R) guid) (\<lambda>guid_at.
    bindE (map_someE (rt_create_string R) mac_address) (\<lambda>mac_address_at.
    bindE (map_someE (rt_create_string R) status) (\<lambda>status_at.
    bindE (map_someE (create_tables R (ip_address_pack R)) ipv4) (\<lambda>ipv4_at.
    bindE (map_someE (create_tables R (ip_address_pack R)) ipv6) (\<lambda>ipv6_at.
    adapter_create R if_index (Some name_at) description_at guid_at mac_address_at status_at hardware
        ipv4_at ipv6_at)))))))"

definition VT_VALIDATION_ISSUE_PATH :: nat where [generated]: "VT_VALIDATION_ISSUE_PATH = 4"
definition VT_VALIDATION_ISSUE_MESSAGE :: nat where [generated]: "VT_VALIDATION_ISSUE_MESSAGE = 6"

definition validation_issue_add_path :: "('s, 'v) fb_runtime \<Rightarrow> nat
    \<Rightarrow> ('s, panic, unit) eff" where [generated]:
  "validation_issue_add_path R = rt_push_offset R VT_VALIDATION_ISSUE_PATH"

definition validation_issue_add_message :: "('s, 'v) fb_runtime \<Rightarrow> nat
    \<Rightarrow> ('s, panic, unit) eff" where [generated]:
  "validation_issue_add_message R = rt_push_offset R VT_VALIDATION_ISSUE_MESSAGE"

definition validation_issue_finish :: "('s, 'v) fb_runtime \<Rightarrow> nat
    \<Rightarrow> ('s, panic, nat) eff" where [generated]:
  "validation_issue_finish R = finish_table R [(VT_VALIDATION_ISSUE_MESSAGE, ''message'')]"

definition validation_issue_create :: "('s, 'v) fb_runtime \<Rightarrow> nat option \<Rightarrow> nat option
    \<Rightarrow> ('s, panic, nat) eff" where [generated]:
  "validation_issue_create R path message =
    bindE (rt_start_table R) (\<lambda>builder.
    thenE (for_some message (validation_issue_add_message R)) (
    thenE (for_some path (validation_issue_add_path R)) (
    validation_issue_finish R builder)))"

definition validation_issue_get_path :: "('s, 'v) fb_runtime \<Rightarrow> string \<Rightarrow> nat
    \<Rightarrow> string option" where [generated]:
  "validation_issue_get_path R buf t = rt_get_string R buf t VT_VALIDATION_ISSUE_PATH"

definition validation_issue_get_message :: "('s, 'v) fb_runtime \<Rightarrow> string \<Rightarrow> nat
    \<Rightarrow> panic + string" where [generated]:
  "validation_issue_get_message R buf t = ok_or (rt_get_string R buf t VT_VALIDATION_ISSUE_MESSAGE)
      Unwrap_None"

definition validation_issue_unpack :: "('s, 'v) fb_runtime \<Rightarrow> string \<Rightarrow> nat
    \<Rightarrow> panic + validation_issue_t" where
  "validation_issue_unpack R buf t =
    bindR (validation_issue_get_message R buf t) (\<lambda>message.
    Inr (ValidationIssueT (validation_issue_get_path R buf t) message))"

definition validation_issue_verify :: "('s, 'v) fb_runtime \<Rightarrow> string \<Rightarrow> nat
    \<Rightarrow> ('v, string, unit) eff" where
  "validation_issue_verify R buf p =
    bindE (rt_visit_table R buf p) (\<lambda>t.
    thenE (rt_visit_field R buf t Text_Field ''path'' VT_VALIDATION_ISSUE_PATH False) (
    thenE (rt_visit_field R buf t Text_Field ''message'' VT_VALIDATION_ISSUE_MESSAGE True) (
    rt_finish_visit R t)))"

fun validation_issue_pack :: "('s, 'v) fb_runtime \<Rightarrow> validation_issue_t \<Rightarrow> ('s, panic, nat) eff" where
  "validation_issue_pack R (ValidationIssueT path message) =
    bindE (map_someE (rt_create_string R) path) (\<lambda>path_at.
    bindE (rt_create_string R message) (\<lambda>message_at.
    validation_issue_create R path_at (Some message_at)))"

definition VT_OPERATION_ID :: nat where [generated]: "VT_OPERATION_ID = 4"
definition VT_OPERATION_CAPABILITY :: nat where [generated]: "VT_OPERATION_CAPABILITY = 6"
definition VT_OPERATION_SUMMARY :: nat where [generated]: "VT_OPERATION_SUMMARY = 8"
definition VT_OPERATION_RISK :: nat where [generated]: "VT_OPERATION_RISK = 10"
definition VT_OPERATION_TARGET :: nat where [generated]: "VT_OPERATION_TARGET = 12"

definition operation_add_id :: "('s, 'v) fb_runtime \<Rightarrow> nat \<Rightarrow> ('s, panic, unit) eff" where [generated]:
  "operation_add_id R = rt_push_offset R VT_OPERATION_ID"

definition operation_add_capability :: "('s, 'v) fb_runtime \<Rightarrow> nat
    \<Rightarrow> ('s, panic, unit) eff" where [generated]:
  "operation_add_capability R = rt_push_offset R VT_OPERATION_CAPABILITY"

definition operation_add_summary :: "('s, 'v) fb_runtime \<Rightarrow> nat
    \<Rightarrow> ('s, panic, unit) eff" where [generated]:
  "operation_add_summary R = rt_push_offset R VT_OPERATION_SUMMARY"

definition operation_add_risk :: "('s, 'v) fb_runtime \<Rightarrow> 8 word
    \<Rightarrow> ('s, panic, unit) eff" where [generated]:
  "operation_add_risk R risk = rt_push_slot R VT_OPERATION_RISK (S8 risk) (S8 0)"

definition operation_add_target :: "('s, 'v) fb_runtime \<Rightarrow> nat
    \<Rightarrow> ('s, panic, unit) eff" where [generated]:
  "operation_add_target R = rt_push_offset R VT_OPERATION_TARGET"

definition operation_finish :: "('s, 'v) fb_runtime \<Rightarrow> nat \<Rightarrow> ('s, panic, nat) eff" where [generated]:
  "operation_finish R = finish_table R [(VT_OPERATION_ID, ''id''), (VT_OPERATION_CAPABILITY,
      ''capability''), (VT_OPERATION_SUMMARY, ''summary'')]"

definition operation_create :: "('s, 'v) fb_runtime \<Rightarrow> nat option \<Rightarrow> nat option \<Rightarrow> nat option \<Rightarrow> 8 word
    \<Rightarrow> nat option
    \<Rightarrow> ('s, panic, nat) eff" where [generated]:
  "operation_create R id' capability summary risk target =
    bindE (rt_start_table R) (\<lambda>builder.
    thenE (for_some target (operation_add_target R)) (
    thenE (for_some summary (operation_add_summary R)) (
    thenE (for_some capability (operation_add_capability R)) (
    thenE (for_some id' (operation_add_id R)) (
    thenE (operation_add_risk R risk) (
    operation_finish R builder))))))"

definition operation_get_id :: "('s, 'v) fb_runtime \<Rightarrow> string \<Rightarrow> nat \<Rightarrow> panic + string" where [generated]:
  "operation_get_id R buf t = ok_or (rt_get_string R buf t VT_OPERATION_ID) Unwrap_None"

definition operation_get_capability :: "('s, 'v) fb_runtime \<Rightarrow> string \<Rightarrow> nat
    \<Rightarrow> panic + string" where [generated]:
  "operation_get_capability R buf t = ok_or (rt_get_string R buf t VT_OPERATION_CAPABILITY) Unwrap_None"

definition operation_get_summary :: "('s, 'v) fb_runtime \<Rightarrow> string \<Rightarrow> nat
    \<Rightarrow> panic + string" where [generated]:
  "operation_get_summary R buf t = ok_or (rt_get_string R buf t VT_OPERATION_SUMMARY) Unwrap_None"

definition operation_get_risk :: "('s, 'v) fb_runtime \<Rightarrow> string \<Rightarrow> nat
    \<Rightarrow> panic + 8 word" where [generated]:
  "operation_get_risk R buf t = ok_or (rt_get_u8 R buf t VT_OPERATION_RISK (Some 0)) Unwrap_None"

definition operation_get_target :: "('s, 'v) fb_runtime \<Rightarrow> string \<Rightarrow> nat
    \<Rightarrow> string option" where [generated]:
  "operation_get_target R buf t = rt_get_string R buf t VT_OPERATION_TARGET"

definition operation_unpack :: "('s, 'v) fb_runtime \<Rightarrow> string \<Rightarrow> nat \<Rightarrow> panic + operation_t" where
  "operation_unpack R buf t =
    bindR (operation_get_id R buf t) (\<lambda>id'.
    bindR (operation_get_capability R buf t) (\<lambda>capability.
    bindR (operation_get_summary R buf t) (\<lambda>summary.
    bindR (operation_get_risk R buf t) (\<lambda>risk.
    Inr (OperationT id' capability summary risk (operation_get_target R buf t))))))"

definition operation_verify :: "('s, 'v) fb_runtime \<Rightarrow> string \<Rightarrow> nat \<Rightarrow> ('v, string, unit) eff" where
  "operation_verify R buf p =
    bindE (rt_visit_table R buf p) (\<lambda>t.
    thenE (rt_visit_field R buf t Text_Field ''id'' VT_OPERATION_ID True) (
    thenE (rt_visit_field R buf t Text_Field ''capability'' VT_OPERATION_CAPABILITY True) (
    thenE (rt_visit_field R buf t Text_Field ''summary'' VT_OPERATION_SUMMARY True) (
    thenE (rt_visit_field R buf t U8 ''risk'' VT_OPERATION_RISK False) (
    thenE (rt_visit_field R buf t Text_Field ''target'' VT_OPERATION_TARGET False) (
    rt_finish_visit R t))))))"

fun operation_pack :: "('s, 'v) fb_runtime \<Rightarrow> operation_t \<Rightarrow> ('s, panic, nat) eff" where
  "operation_pack R (OperationT id' capability summary risk target) =
    bindE (rt_create_string R id') (\<lambda>id_at.
    bindE (rt_create_string R capability) (\<lambda>capability_at.
    bindE (rt_create_string R summary) (\<lambda>summary_at.
    bindE (map_someE (rt_create_string R) target) (\<lambda>target_at.
    operation_create R (Some id_at) (Some capability_at) (Some summary_at) risk target_at))))"

definition VT_JOB_SUMMARY_JOB_ID :: nat where [generated]: "VT_JOB_SUMMARY_JOB_ID = 4"
definition VT_JOB_SUMMARY_STATE :: nat where [generated]: "VT_JOB_SUMMARY_STATE = 6"
definition VT_JOB_SUMMARY_MESSAGE :: nat where [generated]: "VT_JOB_SUMMARY_MESSAGE = 8"
definition VT_JOB_SUMMARY_CREATED_AT_UNIX_MS :: nat where [generated]:
    "VT_JOB_SUMMARY_CREATED_AT_UNIX_MS = 10"
definition VT_JOB_SUMMARY_UPDATED_AT_UNIX_MS :: nat where [generated]:
    "VT_JOB_SUMMARY_UPDATED_AT_UNIX_MS = 12"

definition job_summary_add_job_id :: "('s, 'v) fb_runtime \<Rightarrow> nat
    \<Rightarrow> ('s, panic, unit) eff" where [generated]:
  "job_summary_add_job_id R = rt_push_offset R VT_JOB_SUMMARY_JOB_ID"

definition job_summary_add_state :: "('s, 'v) fb_runtime \<Rightarrow> 8 word
    \<Rightarrow> ('s, panic, unit) eff" where [generated]:
  "job_summary_add_state R state = rt_push_slot R VT_JOB_SUMMARY_STATE (S8 state) (S8 0)"

definition job_summary_add_message :: "('s, 'v) fb_runtime \<Rightarrow> nat
    \<Rightarrow> ('s, panic, unit) eff" where [generated]:
  "job_summary_add_message R = rt_push_offset R VT_JOB_SUMMARY_MESSAGE"

definition job_summary_add_created_at_unix_ms :: "('s, 'v) fb_runtime \<Rightarrow> 64 word
    \<Rightarrow> ('s, panic, unit) eff" where [generated]:
  "job_summary_add_created_at_unix_ms R created_at_unix_ms = rt_push_slot R
      VT_JOB_SUMMARY_CREATED_AT_UNIX_MS (S64 created_at_unix_ms) (S64 0)"

definition job_summary_add_updated_at_unix_ms :: "('s, 'v) fb_runtime \<Rightarrow> 64 word
    \<Rightarrow> ('s, panic, unit) eff" where [generated]:
  "job_summary_add_updated_at_unix_ms R updated_at_unix_ms = rt_push_slot R
      VT_JOB_SUMMARY_UPDATED_AT_UNIX_MS (S64 updated_at_unix_ms) (S64 0)"

definition job_summary_finish :: "('s, 'v) fb_runtime \<Rightarrow> nat \<Rightarrow> ('s, panic, nat) eff" where [generated]:
  "job_summary_finish R = finish_table R [(VT_JOB_SUMMARY_JOB_ID, ''job_id'')]"

definition job_summary_create :: "('s, 'v) fb_runtime \<Rightarrow> nat option \<Rightarrow> 8 word \<Rightarrow> nat option \<Rightarrow> 64 word
    \<Rightarrow> 64 word
    \<Rightarrow> ('s, panic, nat) eff" where [generated]:
  "job_summary_create R job_id state message created_at_unix_ms updated_at_unix_ms =
    bindE (rt_start_table R) (\<lambda>builder.
    thenE (job_summary_add_updated_at_unix_ms R updated_at_unix_ms) (
    thenE (job_summary_add_created_at_unix_ms R created_at_unix_ms) (
    thenE (for_some message (job_summary_add_message R)) (
    thenE (for_some job_id (job_summary_add_job_id R)) (
    thenE (job_summary_add_state R state) (
    job_summary_finish R builder))))))"

definition job_summary_get_job_id :: "('s, 'v) fb_runtime \<Rightarrow> string \<Rightarrow> nat
    \<Rightarrow> panic + string" where [generated]:
  "job_summary_get_job_id R buf t = ok_or (rt_get_string R buf t VT_JOB_SUMMARY_JOB_ID) Unwrap_None"

definition job_summary_get_state :: "('s, 'v) fb_runtime \<Rightarrow> string \<Rightarrow> nat
    \<Rightarrow> panic + 8 word" where [generated]:
  "job_summary_get_state R buf t = ok_or (rt_get_u8 R buf t VT_JOB_SUMMARY_STATE (Some 0)) Unwrap_None"

definition job_summary_get_message :: "('s, 'v) fb_runtime \<Rightarrow> string \<Rightarrow> nat
    \<Rightarrow> string option" where [generated]:
  "job_summary_get_message R buf t = rt_get_string R buf t VT_JOB_SUMMARY_MESSAGE"

definition job_summary_get_created_at_unix_ms :: "('s, 'v) fb_runtime \<Rightarrow> string \<Rightarrow> nat
    \<Rightarrow> panic + 64 word" where [generated]:
  "job_summary_get_created_at_unix_ms R buf t = ok_or (rt_get_u64 R buf t
      VT_JOB_SUMMARY_CREATED_AT_UNIX_MS (Some 0)) Unwrap_None"

definition job_summary_get_updated_at_unix_ms :: "('s, 'v) fb_runtime \<Rightarrow> string \<Rightarrow> nat
    \<Rightarrow> panic + 64 word" where [generated]:
  "job_summary_get_updated_at_unix_ms R buf t = ok_or (rt_get_u64 R buf t
      VT_JOB_SUMMARY_UPDATED_AT_UNIX_MS (Some 0)) Unwrap_None"

definition job_summary_unpack :: "('s, 'v) fb_runtime \<Rightarrow> string \<Rightarrow> nat \<Rightarrow> panic + job_summary_t" where
  "job_summary_unpack R buf t =
    bindR (job_summary_get_job_id R buf t) (\<lambda>job_id.
    bindR (job_summary_get_state R buf t) (\<lambda>state.
    bindR (job_summary_get_created_at_unix_ms R buf t) (\<lambda>created_at_unix_ms.
    bindR (job_summary_get_updated_at_unix_ms R buf t) (\<lambda>updated_at_unix_ms.
    Inr (JobSummaryT job_id state (job_summary_get_message R buf t) created_at_unix_ms
        updated_at_unix_ms)))))"

definition job_summary_verify :: "('s, 'v) fb_runtime \<Rightarrow> string \<Rightarrow> nat \<Rightarrow> ('v, string, unit) eff" where
  "job_summary_verify R buf p =
    bindE (rt_visit_table R buf p) (\<lambda>t.
    thenE (rt_visit_field R buf t Text_Field ''job_id'' VT_JOB_SUMMARY_JOB_ID True) (
    thenE (rt_visit_field R buf t U8 ''state'' VT_JOB_SUMMARY_STATE False) (
    thenE (rt_visit_field R buf t Text_Field ''message'' VT_JOB_SUMMARY_MESSAGE False) (
    thenE (rt_visit_field R buf t U64 ''created_at_unix_ms'' VT_JOB_SUMMARY_CREATED_AT_UNIX_MS False) (
    thenE (rt_visit_field R buf t U64 ''updated_at_unix_ms'' VT_JOB_SUMMARY_UPDATED_AT_UNIX_MS False) (
    rt_finish_visit R t))))))"

fun job_summary_pack :: "('s, 'v) fb_runtime \<Rightarrow> job_summary_t \<Rightarrow> ('s, panic, nat) eff" where
  "job_summary_pack R (JobSummaryT job_id state message created_at_unix_ms updated_at_unix_ms) =
    bindE (rt_create_string R job_id) (\<lambda>job_id_at.
    bindE (map_someE (rt_create_string R) message) (\<lambda>message_at.
    job_summary_create R (Some job_id_at) state message_at created_at_unix_ms updated_at_unix_ms))"

definition VT_WIFI_INTERFACE_STATUS_IF_INDEX :: nat where [generated]:
    "VT_WIFI_INTERFACE_STATUS_IF_INDEX = 4"
definition VT_WIFI_INTERFACE_STATUS_NAME :: nat where [generated]: "VT_WIFI_INTERFACE_STATUS_NAME = 6"
definition VT_WIFI_INTERFACE_STATUS_GUID :: nat where [generated]: "VT_WIFI_INTERFACE_STATUS_GUID = 8"
definition VT_WIFI_INTERFACE_STATUS_STATE :: nat where [generated]: "VT_WIFI_INTERFACE_STATUS_STATE =
    10"
definition VT_WIFI_INTERFACE_STATUS_PROFILE_NAME :: nat where [generated]:
    "VT_WIFI_INTERFACE_STATUS_PROFILE_NAME = 12"
definition VT_WIFI_INTERFACE_STATUS_SSID :: nat where [generated]: "VT_WIFI_INTERFACE_STATUS_SSID = 14"
definition VT_WIFI_INTERFACE_STATUS_SSID_HEX :: nat where [generated]:
    "VT_WIFI_INTERFACE_STATUS_SSID_HEX = 16"
definition VT_WIFI_INTERFACE_STATUS_HAS_SIGNAL_QUALITY :: nat where [generated]:
    "VT_WIFI_INTERFACE_STATUS_HAS_SIGNAL_QUALITY = 18"
definition VT_WIFI_INTERFACE_STATUS_SIGNAL_QUALITY :: nat where [generated]:
    "VT_WIFI_INTERFACE_STATUS_SIGNAL_QUALITY = 20"
definition VT_WIFI_INTERFACE_STATUS_HAS_SECURITY_ENABLED :: nat where [generated]:
    "VT_WIFI_INTERFACE_STATUS_HAS_SECURITY_ENABLED = 22"
definition VT_WIFI_INTERFACE_STATUS_SECURITY_ENABLED :: nat where [generated]:
    "VT_WIFI_INTERFACE_STATUS_SECURITY_ENABLED = 24"
definition VT_WIFI_INTERFACE_STATUS_AUTHENTICATION :: nat where [generated]:
    "VT_WIFI_INTERFACE_STATUS_AUTHENTICATION = 26"
definition VT_WIFI_INTERFACE_STATUS_CIPHER :: nat where [generated]: "VT_WIFI_INTERFACE_STATUS_CIPHER =
    28"
definition VT_WIFI_INTERFACE_STATUS_HAS_RX_RATE_KBPS :: nat where [generated]:
    "VT_WIFI_INTERFACE_STATUS_HAS_RX_RATE_KBPS = 30"
definition VT_WIFI_INTERFACE_STATUS_RX_RATE_KBPS :: nat where [generated]:
    "VT_WIFI_INTERFACE_STATUS_RX_RATE_KBPS = 32"
definition VT_WIFI_INTERFACE_STATUS_HAS_TX_RATE_KBPS :: nat where [generated]:
    "VT_WIFI_INTERFACE_STATUS_HAS_TX_RATE_KBPS = 34"
definition VT_WIFI_INTERFACE_STATUS_TX_RATE_KBPS :: nat where [generated]:
    "VT_WIFI_INTERFACE_STATUS_TX_RATE_KBPS = 36"

definition wifi_interface_status_add_if_index :: "('s, 'v) fb_runtime \<Rightarrow> 32 word
    \<Rightarrow> ('s, panic, unit) eff" where [generated]:
  "wifi_interface_status_add_if_index R if_index = rt_push_slot R VT_WIFI_INTERFACE_STATUS_IF_INDEX (S32
      if_index) (S32 0)"

definition wifi_interface_status_add_name :: "('s, 'v) fb_runtime \<Rightarrow> nat
    \<Rightarrow> ('s, panic, unit) eff" where [generated]:
  "wifi_interface_status_add_name R = rt_push_offset R VT_WIFI_INTERFACE_STATUS_NAME"

definition wifi_interface_status_add_guid :: "('s, 'v) fb_runtime \<Rightarrow> nat
    \<Rightarrow> ('s, panic, unit) eff" where [generated]:
  "wifi_interface_status_add_guid R = rt_push_offset R VT_WIFI_INTERFACE_STATUS_GUID"

definition wifi_interface_status_add_state :: "('s, 'v) fb_runtime \<Rightarrow> nat
    \<Rightarrow> ('s, panic, unit) eff" where [generated]:
  "wifi_interface_status_add_state R = rt_push_offset R VT_WIFI_INTERFACE_STATUS_STATE"

definition wifi_interface_status_add_profile_name :: "('s, 'v) fb_runtime \<Rightarrow> nat
    \<Rightarrow> ('s, panic, unit) eff" where [generated]:
  "wifi_interface_status_add_profile_name R = rt_push_offset R VT_WIFI_INTERFACE_STATUS_PROFILE_NAME"

definition wifi_interface_status_add_ssid :: "('s, 'v) fb_runtime \<Rightarrow> nat
    \<Rightarrow> ('s, panic, unit) eff" where [generated]:
  "wifi_interface_status_add_ssid R = rt_push_offset R VT_WIFI_INTERFACE_STATUS_SSID"

definition wifi_interface_status_add_ssid_hex :: "('s, 'v) fb_runtime \<Rightarrow> nat
    \<Rightarrow> ('s, panic, unit) eff" where [generated]:
  "wifi_interface_status_add_ssid_hex R = rt_push_offset R VT_WIFI_INTERFACE_STATUS_SSID_HEX"

definition wifi_interface_status_add_has_signal_quality :: "('s, 'v) fb_runtime \<Rightarrow> bool
    \<Rightarrow> ('s, panic, unit) eff" where [generated]:
  "wifi_interface_status_add_has_signal_quality R has_signal_quality = rt_push_slot R
      VT_WIFI_INTERFACE_STATUS_HAS_SIGNAL_QUALITY (SBool has_signal_quality) (SBool False)"

definition wifi_interface_status_add_signal_quality :: "('s, 'v) fb_runtime \<Rightarrow> 8 word
    \<Rightarrow> ('s, panic, unit) eff" where [generated]:
  "wifi_interface_status_add_signal_quality R signal_quality = rt_push_slot R
      VT_WIFI_INTERFACE_STATUS_SIGNAL_QUALITY (S8 signal_quality) (S8 0)"

definition wifi_interface_status_add_has_security_enabled :: "('s, 'v) fb_runtime \<Rightarrow> bool
    \<Rightarrow> ('s, panic, unit) eff" where [generated]:
  "wifi_interface_status_add_has_security_enabled R has_security_enabled = rt_push_slot R
      VT_WIFI_INTERFACE_STATUS_HAS_SECURITY_ENABLED (SBool has_security_enabled) (SBool False)"

definition wifi_interface_status_add_security_enabled :: "('s, 'v) fb_runtime \<Rightarrow> bool
    \<Rightarrow> ('s, panic, unit) eff" where [generated]:
  "wifi_interface_status_add_security_enabled R security_enabled = rt_push_slot R
      VT_WIFI_INTERFACE_STATUS_SECURITY_ENABLED (SBool security_enabled) (SBool False)"

definition wifi_interface_status_add_authentication :: "('s, 'v) fb_runtime \<Rightarrow> nat
    \<Rightarrow> ('s, panic, unit) eff" where [generated]:
  "wifi_interface_status_add_authentication R = rt_push_offset R
      VT_WIFI_INTERFACE_STATUS_AUTHENTICATION"

definition wifi_interface_status_add_cipher :: "('s, 'v) fb_runtime \<Rightarrow> nat
    \<Rightarrow> ('s, panic, unit) eff" where [generated]:
  "wifi_interface_status_add_cipher R = rt_push_offset R VT_WIFI_INTERFACE_STATUS_CIPHER"

definition wifi_interface_status_add_has_rx_rate_kbps :: "('s, 'v) fb_runtime \<Rightarrow> bool
    \<Rightarrow> ('s, panic, unit) eff" where [generated]:
  "wifi_interface_status_add_has_rx_rate_kbps R has_rx_rate_kbps = rt_push_slot R
      VT_WIFI_INTERFACE_STATUS_HAS_RX_RATE_KBPS (SBool has_rx_rate_kbps) (SBool False)"

definition wifi_interface_status_add_rx_rate_kbps :: "('s, 'v) fb_runtime \<Rightarrow> 32 word
    \<Rightarrow> ('s, panic, unit) eff" where [generated]:
  "wifi_interface_status_add_rx_rate_kbps R rx_rate_kbps = rt_push_slot R
      VT_WIFI_INTERFACE_STATUS_RX_RATE_KBPS (S32 rx_rate_kbps) (S32 0)"

definition wifi_interface_status_add_has_tx_rate_kbps :: "('s, 'v) fb_runtime \<Rightarrow> bool
    \<Rightarrow> ('s, panic, unit) eff" where [generated]:
  "wifi_interface_status_add_has_tx_rate_kbps R has_tx_rate_kbps = rt_push_slot R
      VT_WIFI_INTERFACE_STATUS_HAS_TX_RATE_KBPS (SBool has_tx_rate_kbps) (SBool False)"

definition wifi_interface_status_add_tx_rate_kbps :: "('s, 'v) fb_runtime \<Rightarrow> 32 word
    \<Rightarrow> ('s, panic, unit) eff" where [generated]:
  "wifi_interface_status_add_tx_rate_kbps R tx_rate_kbps = rt_push_slot R
      VT_WIFI_INTERFACE_STATUS_TX_RATE_KBPS (S32 tx_rate_kbps) (S32 0)"

definition wifi_interface_status_finish :: "('s, 'v) fb_runtime \<Rightarrow> nat
    \<Rightarrow> ('s, panic, nat) eff" where [generated]:
  "wifi_interface_status_finish R = finish_table R [(VT_WIFI_INTERFACE_STATUS_NAME, ''name''),
      (VT_WIFI_INTERFACE_STATUS_STATE, ''state'')]"

definition wifi_interface_status_create :: "('s, 'v) fb_runtime \<Rightarrow> 32 word \<Rightarrow> nat option \<Rightarrow> nat option
    \<Rightarrow> nat option \<Rightarrow> nat option \<Rightarrow> nat option \<Rightarrow> nat option \<Rightarrow> bool \<Rightarrow> 8 word \<Rightarrow> bool \<Rightarrow> bool \<Rightarrow> nat option
    \<Rightarrow> nat option \<Rightarrow> bool \<Rightarrow> 32 word \<Rightarrow> bool \<Rightarrow> 32 word
    \<Rightarrow> ('s, panic, nat) eff" where [generated]:
  "wifi_interface_status_create R if_index name guid state profile_name ssid ssid_hex has_signal_quality
      signal_quality has_security_enabled security_enabled authentication cipher has_rx_rate_kbps
      rx_rate_kbps has_tx_rate_kbps tx_rate_kbps =
    bindE (rt_start_table R) (\<lambda>builder.
    thenE (wifi_interface_status_add_tx_rate_kbps R tx_rate_kbps) (
    thenE (wifi_interface_status_add_rx_rate_kbps R rx_rate_kbps) (
    thenE (for_some cipher (wifi_interface_status_add_cipher R)) (
    thenE (for_some authentication (wifi_interface_status_add_authentication R)) (
    thenE (for_some ssid_hex (wifi_interface_status_add_ssid_hex R)) (
    thenE (for_some ssid (wifi_interface_status_add_ssid R)) (
    thenE (for_some profile_name (wifi_interface_status_add_profile_name R)) (
    thenE (for_some state (wifi_interface_status_add_state R)) (
    thenE (for_some guid (wifi_interface_status_add_guid R)) (
    thenE (for_some name (wifi_interface_status_add_name R)) (
    thenE (wifi_interface_status_add_if_index R if_index) (
    thenE (wifi_interface_status_add_has_tx_rate_kbps R has_tx_rate_kbps) (
    thenE (wifi_interface_status_add_has_rx_rate_kbps R has_rx_rate_kbps) (
    thenE (wifi_interface_status_add_security_enabled R security_enabled) (
    thenE (wifi_interface_status_add_has_security_enabled R has_security_enabled) (
    thenE (wifi_interface_status_add_signal_quality R signal_quality) (
    thenE (wifi_interface_status_add_has_signal_quality R has_signal_quality) (
    wifi_interface_status_finish R builder))))))))))))))))))"

definition wifi_interface_status_get_if_index :: "('s, 'v) fb_runtime \<Rightarrow> string \<Rightarrow> nat
    \<Rightarrow> panic + 32 word" where [generated]:
  "wifi_interface_status_get_if_index R buf t = ok_or (rt_get_u32 R buf t
      VT_WIFI_INTERFACE_STATUS_IF_INDEX (Some 0)) Unwrap_None"

definition wifi_interface_status_get_name :: "('s, 'v) fb_runtime \<Rightarrow> string \<Rightarrow> nat
    \<Rightarrow> panic + string" where [generated]:
  "wifi_interface_status_get_name R buf t = ok_or (rt_get_string R buf t VT_WIFI_INTERFACE_STATUS_NAME)
      Unwrap_None"

definition wifi_interface_status_get_guid :: "('s, 'v) fb_runtime \<Rightarrow> string \<Rightarrow> nat
    \<Rightarrow> string option" where [generated]:
  "wifi_interface_status_get_guid R buf t = rt_get_string R buf t VT_WIFI_INTERFACE_STATUS_GUID"

definition wifi_interface_status_get_state :: "('s, 'v) fb_runtime \<Rightarrow> string \<Rightarrow> nat
    \<Rightarrow> panic + string" where [generated]:
  "wifi_interface_status_get_state R buf t = ok_or (rt_get_string R buf t
      VT_WIFI_INTERFACE_STATUS_STATE) Unwrap_None"

definition wifi_interface_status_get_profile_name :: "('s, 'v) fb_runtime \<Rightarrow> string \<Rightarrow> nat
    \<Rightarrow> string option" where [generated]:
  "wifi_interface_status_get_profile_name R buf t = rt_get_string R buf t
      VT_WIFI_INTERFACE_STATUS_PROFILE_NAME"

definition wifi_interface_status_get_ssid :: "('s, 'v) fb_runtime \<Rightarrow> string \<Rightarrow> nat
    \<Rightarrow> string option" where [generated]:
  "wifi_interface_status_get_ssid R buf t = rt_get_string R buf t VT_WIFI_INTERFACE_STATUS_SSID"

definition wifi_interface_status_get_ssid_hex :: "('s, 'v) fb_runtime \<Rightarrow> string \<Rightarrow> nat
    \<Rightarrow> string option" where [generated]:
  "wifi_interface_status_get_ssid_hex R buf t = rt_get_string R buf t VT_WIFI_INTERFACE_STATUS_SSID_HEX"

definition wifi_interface_status_get_has_signal_quality :: "('s, 'v) fb_runtime \<Rightarrow> string \<Rightarrow> nat
    \<Rightarrow> panic + bool" where [generated]:
  "wifi_interface_status_get_has_signal_quality R buf t = ok_or (rt_get_bool R buf t
      VT_WIFI_INTERFACE_STATUS_HAS_SIGNAL_QUALITY (Some False)) Unwrap_None"

definition wifi_interface_status_get_signal_quality :: "('s, 'v) fb_runtime \<Rightarrow> string \<Rightarrow> nat
    \<Rightarrow> panic + 8 word" where [generated]:
  "wifi_interface_status_get_signal_quality R buf t = ok_or (rt_get_u8 R buf t
      VT_WIFI_INTERFACE_STATUS_SIGNAL_QUALITY (Some 0)) Unwrap_None"

definition wifi_interface_status_get_has_security_enabled :: "('s, 'v) fb_runtime \<Rightarrow> string \<Rightarrow> nat
    \<Rightarrow> panic + bool" where [generated]:
  "wifi_interface_status_get_has_security_enabled R buf t = ok_or (rt_get_bool R buf t
      VT_WIFI_INTERFACE_STATUS_HAS_SECURITY_ENABLED (Some False)) Unwrap_None"

definition wifi_interface_status_get_security_enabled :: "('s, 'v) fb_runtime \<Rightarrow> string \<Rightarrow> nat
    \<Rightarrow> panic + bool" where [generated]:
  "wifi_interface_status_get_security_enabled R buf t = ok_or (rt_get_bool R buf t
      VT_WIFI_INTERFACE_STATUS_SECURITY_ENABLED (Some False)) Unwrap_None"

definition wifi_interface_status_get_authentication :: "('s, 'v) fb_runtime \<Rightarrow> string \<Rightarrow> nat
    \<Rightarrow> string option" where [generated]:
  "wifi_interface_status_get_authentication R buf t = rt_get_string R buf t
      VT_WIFI_INTERFACE_STATUS_AUTHENTICATION"

definition wifi_interface_status_get_cipher :: "('s, 'v) fb_runtime \<Rightarrow> string \<Rightarrow> nat
    \<Rightarrow> string option" where [generated]:
  "wifi_interface_status_get_cipher R buf t = rt_get_string R buf t VT_WIFI_INTERFACE_STATUS_CIPHER"

definition wifi_interface_status_get_has_rx_rate_kbps :: "('s, 'v) fb_runtime \<Rightarrow> string \<Rightarrow> nat
    \<Rightarrow> panic + bool" where [generated]:
  "wifi_interface_status_get_has_rx_rate_kbps R buf t = ok_or (rt_get_bool R buf t
      VT_WIFI_INTERFACE_STATUS_HAS_RX_RATE_KBPS (Some False)) Unwrap_None"

definition wifi_interface_status_get_rx_rate_kbps :: "('s, 'v) fb_runtime \<Rightarrow> string \<Rightarrow> nat
    \<Rightarrow> panic + 32 word" where [generated]:
  "wifi_interface_status_get_rx_rate_kbps R buf t = ok_or (rt_get_u32 R buf t
      VT_WIFI_INTERFACE_STATUS_RX_RATE_KBPS (Some 0)) Unwrap_None"

definition wifi_interface_status_get_has_tx_rate_kbps :: "('s, 'v) fb_runtime \<Rightarrow> string \<Rightarrow> nat
    \<Rightarrow> panic + bool" where [generated]:
  "wifi_interface_status_get_has_tx_rate_kbps R buf t = ok_or (rt_get_bool R buf t
      VT_WIFI_INTERFACE_STATUS_HAS_TX_RATE_KBPS (Some False)) Unwrap_None"

definition wifi_interface_status_get_tx_rate_kbps :: "('s, 'v) fb_runtime \<Rightarrow> string \<Rightarrow> nat
    \<Rightarrow> panic + 32 word" where [generated]:
  "wifi_interface_status_get_tx_rate_kbps R buf t = ok_or (rt_get_u32 R buf t
      VT_WIFI_INTERFACE_STATUS_TX_RATE_KBPS (Some 0)) Unwrap_None"

definition wifi_interface_status_unpack :: "('s, 'v) fb_runtime \<Rightarrow> string \<Rightarrow> nat
    \<Rightarrow> panic + wifi_interface_status_t" where
  "wifi_interface_status_unpack R buf t =
    bindR (wifi_interface_status_get_if_index R buf t) (\<lambda>if_index.
    bindR (wifi_interface_status_get_name R buf t) (\<lambda>name.
    bindR (wifi_interface_status_get_state R buf t) (\<lambda>state.
    bindR (wifi_interface_status_get_has_signal_quality R buf t) (\<lambda>has_signal_quality.
    bindR (wifi_interface_status_get_signal_quality R buf t) (\<lambda>signal_quality.
    bindR (wifi_interface_status_get_has_security_enabled R buf t) (\<lambda>has_security_enabled.
    bindR (wifi_interface_status_get_security_enabled R buf t) (\<lambda>security_enabled.
    bindR (wifi_interface_status_get_has_rx_rate_kbps R buf t) (\<lambda>has_rx_rate_kbps.
    bindR (wifi_interface_status_get_rx_rate_kbps R buf t) (\<lambda>rx_rate_kbps.
    bindR (wifi_interface_status_get_has_tx_rate_kbps R buf t) (\<lambda>has_tx_rate_kbps.
    bindR (wifi_interface_status_get_tx_rate_kbps R buf t) (\<lambda>tx_rate_kbps.
    Inr (WifiInterfaceStatusT if_index name (wifi_interface_status_get_guid R buf t) state
        (wifi_interface_status_get_profile_name R buf t) (wifi_interface_status_get_ssid R buf t)
        (wifi_interface_status_get_ssid_hex R buf t) has_signal_quality signal_quality
        has_security_enabled security_enabled (wifi_interface_status_get_authentication R buf t)
        (wifi_interface_status_get_cipher R buf t) has_rx_rate_kbps rx_rate_kbps has_tx_rate_kbps
        tx_rate_kbps))))))))))))"

definition wifi_interface_status_verify :: "('s, 'v) fb_runtime \<Rightarrow> string \<Rightarrow> nat
    \<Rightarrow> ('v, string, unit) eff" where
  "wifi_interface_status_verify R buf p =
    bindE (rt_visit_table R buf p) (\<lambda>t.
    thenE (rt_visit_field R buf t U32 ''if_index'' VT_WIFI_INTERFACE_STATUS_IF_INDEX False) (
    thenE (rt_visit_field R buf t Text_Field ''name'' VT_WIFI_INTERFACE_STATUS_NAME True) (
    thenE (rt_visit_field R buf t Text_Field ''guid'' VT_WIFI_INTERFACE_STATUS_GUID False) (
    thenE (rt_visit_field R buf t Text_Field ''state'' VT_WIFI_INTERFACE_STATUS_STATE True) (
    thenE (rt_visit_field R buf t Text_Field ''profile_name'' VT_WIFI_INTERFACE_STATUS_PROFILE_NAME
        False) (
    thenE (rt_visit_field R buf t Text_Field ''ssid'' VT_WIFI_INTERFACE_STATUS_SSID False) (
    thenE (rt_visit_field R buf t Text_Field ''ssid_hex'' VT_WIFI_INTERFACE_STATUS_SSID_HEX False) (
    thenE (rt_visit_field R buf t Boolean ''has_signal_quality''
        VT_WIFI_INTERFACE_STATUS_HAS_SIGNAL_QUALITY False) (
    thenE (rt_visit_field R buf t U8 ''signal_quality'' VT_WIFI_INTERFACE_STATUS_SIGNAL_QUALITY False) (
    thenE (rt_visit_field R buf t Boolean ''has_security_enabled''
        VT_WIFI_INTERFACE_STATUS_HAS_SECURITY_ENABLED False) (
    thenE (rt_visit_field R buf t Boolean ''security_enabled'' VT_WIFI_INTERFACE_STATUS_SECURITY_ENABLED
        False) (
    thenE (rt_visit_field R buf t Text_Field ''authentication'' VT_WIFI_INTERFACE_STATUS_AUTHENTICATION
        False) (
    thenE (rt_visit_field R buf t Text_Field ''cipher'' VT_WIFI_INTERFACE_STATUS_CIPHER False) (
    thenE (rt_visit_field R buf t Boolean ''has_rx_rate_kbps'' VT_WIFI_INTERFACE_STATUS_HAS_RX_RATE_KBPS
        False) (
    thenE (rt_visit_field R buf t U32 ''rx_rate_kbps'' VT_WIFI_INTERFACE_STATUS_RX_RATE_KBPS False) (
    thenE (rt_visit_field R buf t Boolean ''has_tx_rate_kbps'' VT_WIFI_INTERFACE_STATUS_HAS_TX_RATE_KBPS
        False) (
    thenE (rt_visit_field R buf t U32 ''tx_rate_kbps'' VT_WIFI_INTERFACE_STATUS_TX_RATE_KBPS False) (
    rt_finish_visit R t))))))))))))))))))"

fun wifi_interface_status_pack :: "('s, 'v) fb_runtime \<Rightarrow> wifi_interface_status_t
    \<Rightarrow> ('s, panic, nat) eff" where
  "wifi_interface_status_pack R (WifiInterfaceStatusT if_index name guid state profile_name ssid
      ssid_hex has_signal_quality signal_quality has_security_enabled security_enabled authentication
      cipher has_rx_rate_kbps rx_rate_kbps has_tx_rate_kbps tx_rate_kbps) =
    bindE (rt_create_string R name) (\<lambda>name_at.
    bindE (map_someE (rt_create_string R) guid) (\<lambda>guid_at.
    bindE (rt_create_string R state) (\<lambda>state_at.
    bindE (map_someE (rt_create_string R) profile_name) (\<lambda>profile_name_at.
    bindE (map_someE (rt_create_string R) ssid) (\<lambda>ssid_at.
    bindE (map_someE (rt_create_string R) ssid_hex) (\<lambda>ssid_hex_at.
    bindE (map_someE (rt_create_string R) authentication) (\<lambda>authentication_at.
    bindE (map_someE (rt_create_string R) cipher) (\<lambda>cipher_at.
    wifi_interface_status_create R if_index (Some name_at) guid_at (Some state_at) profile_name_at
        ssid_at ssid_hex_at has_signal_quality signal_quality has_security_enabled security_enabled
        authentication_at cipher_at has_rx_rate_kbps rx_rate_kbps has_tx_rate_kbps tx_rate_kbps))))))))"

definition VT_WIFI_NETWORK_INTERFACE_IF_INDEX :: nat where [generated]:
    "VT_WIFI_NETWORK_INTERFACE_IF_INDEX = 4"
definition VT_WIFI_NETWORK_INTERFACE_NAME :: nat where [generated]: "VT_WIFI_NETWORK_INTERFACE_NAME = 6"
definition VT_WIFI_NETWORK_SSID :: nat where [generated]: "VT_WIFI_NETWORK_SSID = 8"
definition VT_WIFI_NETWORK_SSID_HEX :: nat where [generated]: "VT_WIFI_NETWORK_SSID_HEX = 10"
definition VT_WIFI_NETWORK_PROFILE_NAME :: nat where [generated]: "VT_WIFI_NETWORK_PROFILE_NAME = 12"
definition VT_WIFI_NETWORK_SIGNAL_QUALITY :: nat where [generated]: "VT_WIFI_NETWORK_SIGNAL_QUALITY =
    14"
definition VT_WIFI_NETWORK_SECURITY_ENABLED :: nat where [generated]: "VT_WIFI_NETWORK_SECURITY_ENABLED
    = 16"
definition VT_WIFI_NETWORK_AUTHENTICATION :: nat where [generated]: "VT_WIFI_NETWORK_AUTHENTICATION =
    18"
definition VT_WIFI_NETWORK_CIPHER :: nat where [generated]: "VT_WIFI_NETWORK_CIPHER = 20"
definition VT_WIFI_NETWORK_CONNECTABLE :: nat where [generated]: "VT_WIFI_NETWORK_CONNECTABLE = 22"
definition VT_WIFI_NETWORK_HAS_NOT_CONNECTABLE_REASON :: nat where [generated]:
    "VT_WIFI_NETWORK_HAS_NOT_CONNECTABLE_REASON = 24"
definition VT_WIFI_NETWORK_NOT_CONNECTABLE_REASON :: nat where [generated]:
    "VT_WIFI_NETWORK_NOT_CONNECTABLE_REASON = 26"
definition VT_WIFI_NETWORK_CONNECTED :: nat where [generated]: "VT_WIFI_NETWORK_CONNECTED = 28"
definition VT_WIFI_NETWORK_BSS_COUNT :: nat where [generated]: "VT_WIFI_NETWORK_BSS_COUNT = 30"

definition wifi_network_add_interface_if_index :: "('s, 'v) fb_runtime \<Rightarrow> 32 word
    \<Rightarrow> ('s, panic, unit) eff" where [generated]:
  "wifi_network_add_interface_if_index R interface_if_index = rt_push_slot R
      VT_WIFI_NETWORK_INTERFACE_IF_INDEX (S32 interface_if_index) (S32 0)"

definition wifi_network_add_interface_name :: "('s, 'v) fb_runtime \<Rightarrow> nat
    \<Rightarrow> ('s, panic, unit) eff" where [generated]:
  "wifi_network_add_interface_name R = rt_push_offset R VT_WIFI_NETWORK_INTERFACE_NAME"

definition wifi_network_add_ssid :: "('s, 'v) fb_runtime \<Rightarrow> nat
    \<Rightarrow> ('s, panic, unit) eff" where [generated]:
  "wifi_network_add_ssid R = rt_push_offset R VT_WIFI_NETWORK_SSID"

definition wifi_network_add_ssid_hex :: "('s, 'v) fb_runtime \<Rightarrow> nat
    \<Rightarrow> ('s, panic, unit) eff" where [generated]:
  "wifi_network_add_ssid_hex R = rt_push_offset R VT_WIFI_NETWORK_SSID_HEX"

definition wifi_network_add_profile_name :: "('s, 'v) fb_runtime \<Rightarrow> nat
    \<Rightarrow> ('s, panic, unit) eff" where [generated]:
  "wifi_network_add_profile_name R = rt_push_offset R VT_WIFI_NETWORK_PROFILE_NAME"

definition wifi_network_add_signal_quality :: "('s, 'v) fb_runtime \<Rightarrow> 8 word
    \<Rightarrow> ('s, panic, unit) eff" where [generated]:
  "wifi_network_add_signal_quality R signal_quality = rt_push_slot R VT_WIFI_NETWORK_SIGNAL_QUALITY (S8
      signal_quality) (S8 0)"

definition wifi_network_add_security_enabled :: "('s, 'v) fb_runtime \<Rightarrow> bool
    \<Rightarrow> ('s, panic, unit) eff" where [generated]:
  "wifi_network_add_security_enabled R security_enabled = rt_push_slot R
      VT_WIFI_NETWORK_SECURITY_ENABLED (SBool security_enabled) (SBool False)"

definition wifi_network_add_authentication :: "('s, 'v) fb_runtime \<Rightarrow> nat
    \<Rightarrow> ('s, panic, unit) eff" where [generated]:
  "wifi_network_add_authentication R = rt_push_offset R VT_WIFI_NETWORK_AUTHENTICATION"

definition wifi_network_add_cipher :: "('s, 'v) fb_runtime \<Rightarrow> nat
    \<Rightarrow> ('s, panic, unit) eff" where [generated]:
  "wifi_network_add_cipher R = rt_push_offset R VT_WIFI_NETWORK_CIPHER"

definition wifi_network_add_connectable :: "('s, 'v) fb_runtime \<Rightarrow> bool
    \<Rightarrow> ('s, panic, unit) eff" where [generated]:
  "wifi_network_add_connectable R connectable = rt_push_slot R VT_WIFI_NETWORK_CONNECTABLE (SBool
      connectable) (SBool False)"

definition wifi_network_add_has_not_connectable_reason :: "('s, 'v) fb_runtime \<Rightarrow> bool
    \<Rightarrow> ('s, panic, unit) eff" where [generated]:
  "wifi_network_add_has_not_connectable_reason R has_not_connectable_reason = rt_push_slot R
      VT_WIFI_NETWORK_HAS_NOT_CONNECTABLE_REASON (SBool has_not_connectable_reason) (SBool False)"

definition wifi_network_add_not_connectable_reason :: "('s, 'v) fb_runtime \<Rightarrow> 32 word
    \<Rightarrow> ('s, panic, unit) eff" where [generated]:
  "wifi_network_add_not_connectable_reason R not_connectable_reason = rt_push_slot R
      VT_WIFI_NETWORK_NOT_CONNECTABLE_REASON (S32 not_connectable_reason) (S32 0)"

definition wifi_network_add_connected :: "('s, 'v) fb_runtime \<Rightarrow> bool
    \<Rightarrow> ('s, panic, unit) eff" where [generated]:
  "wifi_network_add_connected R connected = rt_push_slot R VT_WIFI_NETWORK_CONNECTED (SBool connected)
      (SBool False)"

definition wifi_network_add_bss_count :: "('s, 'v) fb_runtime \<Rightarrow> 32 word
    \<Rightarrow> ('s, panic, unit) eff" where [generated]:
  "wifi_network_add_bss_count R bss_count = rt_push_slot R VT_WIFI_NETWORK_BSS_COUNT (S32 bss_count)
      (S32 0)"

definition wifi_network_finish :: "('s, 'v) fb_runtime \<Rightarrow> nat \<Rightarrow> ('s, panic, nat) eff" where [generated]:
  "wifi_network_finish R = finish_table R [(VT_WIFI_NETWORK_INTERFACE_NAME, ''interface_name''),
      (VT_WIFI_NETWORK_SSID, ''ssid''), (VT_WIFI_NETWORK_SSID_HEX, ''ssid_hex''),
      (VT_WIFI_NETWORK_AUTHENTICATION, ''authentication''), (VT_WIFI_NETWORK_CIPHER, ''cipher'')]"

definition wifi_network_create :: "('s, 'v) fb_runtime \<Rightarrow> 32 word \<Rightarrow> nat option \<Rightarrow> nat option \<Rightarrow> nat option
    \<Rightarrow> nat option \<Rightarrow> 8 word \<Rightarrow> bool \<Rightarrow> nat option \<Rightarrow> nat option \<Rightarrow> bool \<Rightarrow> bool \<Rightarrow> 32 word \<Rightarrow> bool \<Rightarrow> 32 word
    \<Rightarrow> ('s, panic, nat) eff" where [generated]:
  "wifi_network_create R interface_if_index interface_name ssid ssid_hex profile_name signal_quality
      security_enabled authentication cipher connectable has_not_connectable_reason
      not_connectable_reason connected bss_count =
    bindE (rt_start_table R) (\<lambda>builder.
    thenE (wifi_network_add_bss_count R bss_count) (
    thenE (wifi_network_add_not_connectable_reason R not_connectable_reason) (
    thenE (for_some cipher (wifi_network_add_cipher R)) (
    thenE (for_some authentication (wifi_network_add_authentication R)) (
    thenE (for_some profile_name (wifi_network_add_profile_name R)) (
    thenE (for_some ssid_hex (wifi_network_add_ssid_hex R)) (
    thenE (for_some ssid (wifi_network_add_ssid R)) (
    thenE (for_some interface_name (wifi_network_add_interface_name R)) (
    thenE (wifi_network_add_interface_if_index R interface_if_index) (
    thenE (wifi_network_add_connected R connected) (
    thenE (wifi_network_add_has_not_connectable_reason R has_not_connectable_reason) (
    thenE (wifi_network_add_connectable R connectable) (
    thenE (wifi_network_add_security_enabled R security_enabled) (
    thenE (wifi_network_add_signal_quality R signal_quality) (
    wifi_network_finish R builder)))))))))))))))"

definition wifi_network_get_interface_if_index :: "('s, 'v) fb_runtime \<Rightarrow> string \<Rightarrow> nat
    \<Rightarrow> panic + 32 word" where [generated]:
  "wifi_network_get_interface_if_index R buf t = ok_or (rt_get_u32 R buf t
      VT_WIFI_NETWORK_INTERFACE_IF_INDEX (Some 0)) Unwrap_None"

definition wifi_network_get_interface_name :: "('s, 'v) fb_runtime \<Rightarrow> string \<Rightarrow> nat
    \<Rightarrow> panic + string" where [generated]:
  "wifi_network_get_interface_name R buf t = ok_or (rt_get_string R buf t
      VT_WIFI_NETWORK_INTERFACE_NAME) Unwrap_None"

definition wifi_network_get_ssid :: "('s, 'v) fb_runtime \<Rightarrow> string \<Rightarrow> nat
    \<Rightarrow> panic + string" where [generated]:
  "wifi_network_get_ssid R buf t = ok_or (rt_get_string R buf t VT_WIFI_NETWORK_SSID) Unwrap_None"

definition wifi_network_get_ssid_hex :: "('s, 'v) fb_runtime \<Rightarrow> string \<Rightarrow> nat
    \<Rightarrow> panic + string" where [generated]:
  "wifi_network_get_ssid_hex R buf t = ok_or (rt_get_string R buf t VT_WIFI_NETWORK_SSID_HEX)
      Unwrap_None"

definition wifi_network_get_profile_name :: "('s, 'v) fb_runtime \<Rightarrow> string \<Rightarrow> nat
    \<Rightarrow> string option" where [generated]:
  "wifi_network_get_profile_name R buf t = rt_get_string R buf t VT_WIFI_NETWORK_PROFILE_NAME"

definition wifi_network_get_signal_quality :: "('s, 'v) fb_runtime \<Rightarrow> string \<Rightarrow> nat
    \<Rightarrow> panic + 8 word" where [generated]:
  "wifi_network_get_signal_quality R buf t = ok_or (rt_get_u8 R buf t VT_WIFI_NETWORK_SIGNAL_QUALITY
      (Some 0)) Unwrap_None"

definition wifi_network_get_security_enabled :: "('s, 'v) fb_runtime \<Rightarrow> string \<Rightarrow> nat
    \<Rightarrow> panic + bool" where [generated]:
  "wifi_network_get_security_enabled R buf t = ok_or (rt_get_bool R buf t
      VT_WIFI_NETWORK_SECURITY_ENABLED (Some False)) Unwrap_None"

definition wifi_network_get_authentication :: "('s, 'v) fb_runtime \<Rightarrow> string \<Rightarrow> nat
    \<Rightarrow> panic + string" where [generated]:
  "wifi_network_get_authentication R buf t = ok_or (rt_get_string R buf t
      VT_WIFI_NETWORK_AUTHENTICATION) Unwrap_None"

definition wifi_network_get_cipher :: "('s, 'v) fb_runtime \<Rightarrow> string \<Rightarrow> nat
    \<Rightarrow> panic + string" where [generated]:
  "wifi_network_get_cipher R buf t = ok_or (rt_get_string R buf t VT_WIFI_NETWORK_CIPHER) Unwrap_None"

definition wifi_network_get_connectable :: "('s, 'v) fb_runtime \<Rightarrow> string \<Rightarrow> nat
    \<Rightarrow> panic + bool" where [generated]:
  "wifi_network_get_connectable R buf t = ok_or (rt_get_bool R buf t VT_WIFI_NETWORK_CONNECTABLE (Some
      False)) Unwrap_None"

definition wifi_network_get_has_not_connectable_reason :: "('s, 'v) fb_runtime \<Rightarrow> string \<Rightarrow> nat
    \<Rightarrow> panic + bool" where [generated]:
  "wifi_network_get_has_not_connectable_reason R buf t = ok_or (rt_get_bool R buf t
      VT_WIFI_NETWORK_HAS_NOT_CONNECTABLE_REASON (Some False)) Unwrap_None"

definition wifi_network_get_not_connectable_reason :: "('s, 'v) fb_runtime \<Rightarrow> string \<Rightarrow> nat
    \<Rightarrow> panic + 32 word" where [generated]:
  "wifi_network_get_not_connectable_reason R buf t = ok_or (rt_get_u32 R buf t
      VT_WIFI_NETWORK_NOT_CONNECTABLE_REASON (Some 0)) Unwrap_None"

definition wifi_network_get_connected :: "('s, 'v) fb_runtime \<Rightarrow> string \<Rightarrow> nat
    \<Rightarrow> panic + bool" where [generated]:
  "wifi_network_get_connected R buf t = ok_or (rt_get_bool R buf t VT_WIFI_NETWORK_CONNECTED (Some
      False)) Unwrap_None"

definition wifi_network_get_bss_count :: "('s, 'v) fb_runtime \<Rightarrow> string \<Rightarrow> nat
    \<Rightarrow> panic + 32 word" where [generated]:
  "wifi_network_get_bss_count R buf t = ok_or (rt_get_u32 R buf t VT_WIFI_NETWORK_BSS_COUNT (Some 0))
      Unwrap_None"

definition wifi_network_unpack :: "('s, 'v) fb_runtime \<Rightarrow> string \<Rightarrow> nat \<Rightarrow> panic + wifi_network_t" where
  "wifi_network_unpack R buf t =
    bindR (wifi_network_get_interface_if_index R buf t) (\<lambda>interface_if_index.
    bindR (wifi_network_get_interface_name R buf t) (\<lambda>interface_name.
    bindR (wifi_network_get_ssid R buf t) (\<lambda>ssid.
    bindR (wifi_network_get_ssid_hex R buf t) (\<lambda>ssid_hex.
    bindR (wifi_network_get_signal_quality R buf t) (\<lambda>signal_quality.
    bindR (wifi_network_get_security_enabled R buf t) (\<lambda>security_enabled.
    bindR (wifi_network_get_authentication R buf t) (\<lambda>authentication.
    bindR (wifi_network_get_cipher R buf t) (\<lambda>cipher.
    bindR (wifi_network_get_connectable R buf t) (\<lambda>connectable.
    bindR (wifi_network_get_has_not_connectable_reason R buf t) (\<lambda>has_not_connectable_reason.
    bindR (wifi_network_get_not_connectable_reason R buf t) (\<lambda>not_connectable_reason.
    bindR (wifi_network_get_connected R buf t) (\<lambda>connected.
    bindR (wifi_network_get_bss_count R buf t) (\<lambda>bss_count.
    Inr (WifiNetworkT interface_if_index interface_name ssid ssid_hex (wifi_network_get_profile_name R
        buf t) signal_quality security_enabled authentication cipher connectable
        has_not_connectable_reason not_connectable_reason connected bss_count))))))))))))))"

definition wifi_network_verify :: "('s, 'v) fb_runtime \<Rightarrow> string \<Rightarrow> nat \<Rightarrow> ('v, string, unit) eff" where
  "wifi_network_verify R buf p =
    bindE (rt_visit_table R buf p) (\<lambda>t.
    thenE (rt_visit_field R buf t U32 ''interface_if_index'' VT_WIFI_NETWORK_INTERFACE_IF_INDEX False) (
    thenE (rt_visit_field R buf t Text_Field ''interface_name'' VT_WIFI_NETWORK_INTERFACE_NAME True) (
    thenE (rt_visit_field R buf t Text_Field ''ssid'' VT_WIFI_NETWORK_SSID True) (
    thenE (rt_visit_field R buf t Text_Field ''ssid_hex'' VT_WIFI_NETWORK_SSID_HEX True) (
    thenE (rt_visit_field R buf t Text_Field ''profile_name'' VT_WIFI_NETWORK_PROFILE_NAME False) (
    thenE (rt_visit_field R buf t U8 ''signal_quality'' VT_WIFI_NETWORK_SIGNAL_QUALITY False) (
    thenE (rt_visit_field R buf t Boolean ''security_enabled'' VT_WIFI_NETWORK_SECURITY_ENABLED False) (
    thenE (rt_visit_field R buf t Text_Field ''authentication'' VT_WIFI_NETWORK_AUTHENTICATION True) (
    thenE (rt_visit_field R buf t Text_Field ''cipher'' VT_WIFI_NETWORK_CIPHER True) (
    thenE (rt_visit_field R buf t Boolean ''connectable'' VT_WIFI_NETWORK_CONNECTABLE False) (
    thenE (rt_visit_field R buf t Boolean ''has_not_connectable_reason''
        VT_WIFI_NETWORK_HAS_NOT_CONNECTABLE_REASON False) (
    thenE (rt_visit_field R buf t U32 ''not_connectable_reason'' VT_WIFI_NETWORK_NOT_CONNECTABLE_REASON
        False) (
    thenE (rt_visit_field R buf t Boolean ''connected'' VT_WIFI_NETWORK_CONNECTED False) (
    thenE (rt_visit_field R buf t U32 ''bss_count'' VT_WIFI_NETWORK_BSS_COUNT False) (
    rt_finish_visit R t)))))))))))))))"

fun wifi_network_pack :: "('s, 'v) fb_runtime \<Rightarrow> wifi_network_t \<Rightarrow> ('s, panic, nat) eff" where
  "wifi_network_pack R (WifiNetworkT interface_if_index interface_name ssid ssid_hex profile_name
      signal_quality security_enabled authentication cipher connectable has_not_connectable_reason
      not_connectable_reason connected bss_count) =
    bindE (rt_create_string R interface_name) (\<lambda>interface_name_at.
    bindE (rt_create_string R ssid) (\<lambda>ssid_at.
    bindE (rt_create_string R ssid_hex) (\<lambda>ssid_hex_at.
    bindE (map_someE (rt_create_string R) profile_name) (\<lambda>profile_name_at.
    bindE (rt_create_string R authentication) (\<lambda>authentication_at.
    bindE (rt_create_string R cipher) (\<lambda>cipher_at.
    wifi_network_create R interface_if_index (Some interface_name_at) (Some ssid_at) (Some ssid_hex_at)
        profile_name_at signal_quality security_enabled (Some authentication_at) (Some cipher_at)
        connectable has_not_connectable_reason not_connectable_reason connected bss_count))))))"


section \<open>Contracts\<close>

lemma capability_packs:
  assumes B: "builds_faithfully R V"
  shows "packs V (capability_pack R x) (encodes R (vw_limit V) (capability_unpack R) (capability_verify
      R) x)"
  by (cases x, hypsubst, unfold capability_pack.simps generated, (rule building B)+, simp, intro impI,
      erule encodes_table)
    (auto simp: capability_unpack_def generated reads_slot dest!: encodesD,
     simp add: capability_verify_def generated, intro limits, (assumption | simp split: option.splits)+)

lemma capability_total:
  assumes C: "checks_soundly R" and v: "verified (capability_verify R buf p)"
  shows "\<exists>x. capability_unpack R buf p = Inr x"
  using verified_table[OF C v[unfolded capability_verify_def]]
  by (auto simp: capability_unpack_def generated get_default[OF C]
      dest!: verified_then  verified_required[OF C])

lemma ip_address_packs:
  assumes B: "builds_faithfully R V"
  shows "packs V (ip_address_pack R x) (encodes R (vw_limit V) (ip_address_unpack R) (ip_address_verify
      R) x)"
  by (cases x, hypsubst, unfold ip_address_pack.simps generated, (rule building B)+, simp, intro impI,
      erule encodes_table)
    (auto simp: ip_address_unpack_def generated reads_slot dest!: encodesD,
     simp add: ip_address_verify_def generated, intro limits, (assumption | simp split: option.splits)+)

lemma ip_address_total:
  assumes C: "checks_soundly R" and v: "verified (ip_address_verify R buf p)"
  shows "\<exists>x. ip_address_unpack R buf p = Inr x"
  using verified_table[OF C v[unfolded ip_address_verify_def]]
  by (auto simp: ip_address_unpack_def generated get_default[OF C]
      dest!: verified_then  verified_required[OF C])

lemma adapter_packs:
  assumes B: "builds_faithfully R V"
  shows "packs V (adapter_pack R x) (encodes R (vw_limit V) (adapter_unpack R) (adapter_verify R) x)"
  by (cases x, hypsubst, unfold adapter_pack.simps generated, (rule building B ip_address_packs)+, simp,
      intro impI, erule encodes_table)
    (auto simp: adapter_unpack_def generated reads_slot dest!: encodesD,
     simp add: adapter_verify_def generated, intro limits, (assumption | simp split: option.splits)+)

lemma adapter_total:
  assumes C: "checks_soundly R" and v: "verified (adapter_verify R buf p)"
  shows "\<exists>x. adapter_unpack R buf p = Inr x"
  using verified_table[OF C v[unfolded adapter_verify_def]]
  by (auto simp: adapter_unpack_def generated get_default[OF C]
      dest!: verified_then verified_tables[OF C _ ip_address_total[OF C]] verified_required[OF C])

lemma validation_issue_packs:
  assumes B: "builds_faithfully R V"
  shows "packs V (validation_issue_pack R x) (encodes R (vw_limit V) (validation_issue_unpack R)
      (validation_issue_verify R) x)"
  by (cases x, hypsubst, unfold validation_issue_pack.simps generated, (rule building B)+, simp, intro
      impI, erule encodes_table)
    (auto simp: validation_issue_unpack_def generated reads_slot dest!: encodesD,
     simp add: validation_issue_verify_def generated, intro limits, (assumption | simp split:
         option.splits)+)

lemma validation_issue_total:
  assumes C: "checks_soundly R" and v: "verified (validation_issue_verify R buf p)"
  shows "\<exists>x. validation_issue_unpack R buf p = Inr x"
  using verified_table[OF C v[unfolded validation_issue_verify_def]]
  by (auto simp: validation_issue_unpack_def generated get_default[OF C]
      dest!: verified_then  verified_required[OF C])

lemma operation_packs:
  assumes B: "builds_faithfully R V"
  shows "packs V (operation_pack R x) (encodes R (vw_limit V) (operation_unpack R) (operation_verify R)
      x)"
  by (cases x, hypsubst, unfold operation_pack.simps generated, (rule building B)+, simp, intro impI,
      erule encodes_table)
    (auto simp: operation_unpack_def generated reads_slot dest!: encodesD,
     simp add: operation_verify_def generated, intro limits, (assumption | simp split: option.splits)+)

lemma operation_total:
  assumes C: "checks_soundly R" and v: "verified (operation_verify R buf p)"
  shows "\<exists>x. operation_unpack R buf p = Inr x"
  using verified_table[OF C v[unfolded operation_verify_def]]
  by (auto simp: operation_unpack_def generated get_default[OF C]
      dest!: verified_then  verified_required[OF C])

lemma job_summary_packs:
  assumes B: "builds_faithfully R V"
  shows "packs V (job_summary_pack R x) (encodes R (vw_limit V) (job_summary_unpack R)
      (job_summary_verify R) x)"
  by (cases x, hypsubst, unfold job_summary_pack.simps generated, (rule building B)+, simp, intro impI,
      erule encodes_table)
    (auto simp: job_summary_unpack_def generated reads_slot dest!: encodesD,
     simp add: job_summary_verify_def generated, intro limits, (assumption | simp split:
         option.splits)+)

lemma job_summary_total:
  assumes C: "checks_soundly R" and v: "verified (job_summary_verify R buf p)"
  shows "\<exists>x. job_summary_unpack R buf p = Inr x"
  using verified_table[OF C v[unfolded job_summary_verify_def]]
  by (auto simp: job_summary_unpack_def generated get_default[OF C]
      dest!: verified_then  verified_required[OF C])

lemma wifi_interface_status_packs:
  assumes B: "builds_faithfully R V"
  shows "packs V (wifi_interface_status_pack R x) (encodes R (vw_limit V) (wifi_interface_status_unpack
      R) (wifi_interface_status_verify R) x)"
  by (cases x, hypsubst, unfold wifi_interface_status_pack.simps generated, (rule building B)+, simp,
      intro impI, erule encodes_table)
    (auto simp: wifi_interface_status_unpack_def generated reads_slot dest!: encodesD,
     simp add: wifi_interface_status_verify_def generated, intro limits, (assumption | simp split:
         option.splits)+)

lemma wifi_interface_status_total:
  assumes C: "checks_soundly R" and v: "verified (wifi_interface_status_verify R buf p)"
  shows "\<exists>x. wifi_interface_status_unpack R buf p = Inr x"
  using verified_table[OF C v[unfolded wifi_interface_status_verify_def]]
  by (auto simp: wifi_interface_status_unpack_def generated get_default[OF C]
      dest!: verified_then  verified_required[OF C])

lemma wifi_network_packs:
  assumes B: "builds_faithfully R V"
  shows "packs V (wifi_network_pack R x) (encodes R (vw_limit V) (wifi_network_unpack R)
      (wifi_network_verify R) x)"
  by (cases x, hypsubst, unfold wifi_network_pack.simps generated, (rule building B)+, simp, intro impI,
      erule encodes_table)
    (auto simp: wifi_network_unpack_def generated reads_slot dest!: encodesD,
     simp add: wifi_network_verify_def generated, intro limits, (assumption | simp split:
         option.splits)+)

lemma wifi_network_total:
  assumes C: "checks_soundly R" and v: "verified (wifi_network_verify R buf p)"
  shows "\<exists>x. wifi_network_unpack R buf p = Inr x"
  using verified_table[OF C v[unfolded wifi_network_verify_def]]
  by (auto simp: wifi_network_unpack_def generated get_default[OF C]
      dest!: verified_then  verified_required[OF C])

lemmas record_packs = capability_packs ip_address_packs adapter_packs validation_issue_packs
    operation_packs job_summary_packs wifi_interface_status_packs wifi_network_packs

end
