(* ===== verification/Wire_Messages.thy ===== *)
theory Wire_Messages
  imports Wire_Records
begin

text \<open>
  The tables of \<open>protocol/ipc_generated.rs\<close> that are the payload of an envelope, with the same functions
  and the same contract as those of \<open>Wire_Records\<close>; a message unpacks to its constructor of \<open>payload_t\<close>.
\<close>

section \<open>Requests\<close>

definition ping_request_finish :: "('s, 'v) fb_runtime \<Rightarrow> nat \<Rightarrow> ('s, panic, nat) eff" where [generated]:
  "ping_request_finish R = finish_table R []"

definition ping_request_create :: "('s, 'v) fb_runtime
    \<Rightarrow> ('s, panic, nat) eff" where [generated]:
  "ping_request_create R =
    bindE (rt_start_table R) (\<lambda>builder.
    ping_request_finish R builder)"

definition ping_request_unpack :: "('s, 'v) fb_runtime \<Rightarrow> string \<Rightarrow> nat
    \<Rightarrow> panic + payload_t" where [message_defs]:
  "ping_request_unpack R buf t =
    Inr PingRequest"

definition ping_request_verify :: "('s, 'v) fb_runtime \<Rightarrow> string \<Rightarrow> nat
    \<Rightarrow> ('v, string, unit) eff" where [message_defs]:
  "ping_request_verify R buf p =
    bindE (rt_visit_table R buf p) (\<lambda>t.
    rt_finish_visit R t)"

definition ping_request_pack :: "('s, 'v) fb_runtime
    \<Rightarrow> ('s, panic, nat) eff" where [message_defs]:
  "ping_request_pack R =
    ping_request_create R"

definition capabilities_request_finish :: "('s, 'v) fb_runtime \<Rightarrow> nat
    \<Rightarrow> ('s, panic, nat) eff" where [generated]:
  "capabilities_request_finish R = finish_table R []"

definition capabilities_request_create :: "('s, 'v) fb_runtime
    \<Rightarrow> ('s, panic, nat) eff" where [generated]:
  "capabilities_request_create R =
    bindE (rt_start_table R) (\<lambda>builder.
    capabilities_request_finish R builder)"

definition capabilities_request_unpack :: "('s, 'v) fb_runtime \<Rightarrow> string \<Rightarrow> nat
    \<Rightarrow> panic + payload_t" where [message_defs]:
  "capabilities_request_unpack R buf t =
    Inr CapabilitiesRequest"

definition capabilities_request_verify :: "('s, 'v) fb_runtime \<Rightarrow> string \<Rightarrow> nat
    \<Rightarrow> ('v, string, unit) eff" where [message_defs]:
  "capabilities_request_verify R buf p =
    bindE (rt_visit_table R buf p) (\<lambda>t.
    rt_finish_visit R t)"

definition capabilities_request_pack :: "('s, 'v) fb_runtime
    \<Rightarrow> ('s, panic, nat) eff" where [message_defs]:
  "capabilities_request_pack R =
    capabilities_request_create R"

definition list_adapters_request_finish :: "('s, 'v) fb_runtime \<Rightarrow> nat
    \<Rightarrow> ('s, panic, nat) eff" where [generated]:
  "list_adapters_request_finish R = finish_table R []"

definition list_adapters_request_create :: "('s, 'v) fb_runtime
    \<Rightarrow> ('s, panic, nat) eff" where [generated]:
  "list_adapters_request_create R =
    bindE (rt_start_table R) (\<lambda>builder.
    list_adapters_request_finish R builder)"

definition list_adapters_request_unpack :: "('s, 'v) fb_runtime \<Rightarrow> string \<Rightarrow> nat
    \<Rightarrow> panic + payload_t" where [message_defs]:
  "list_adapters_request_unpack R buf t =
    Inr ListAdaptersRequest"

definition list_adapters_request_verify :: "('s, 'v) fb_runtime \<Rightarrow> string \<Rightarrow> nat
    \<Rightarrow> ('v, string, unit) eff" where [message_defs]:
  "list_adapters_request_verify R buf p =
    bindE (rt_visit_table R buf p) (\<lambda>t.
    rt_finish_visit R t)"

definition list_adapters_request_pack :: "('s, 'v) fb_runtime
    \<Rightarrow> ('s, panic, nat) eff" where [message_defs]:
  "list_adapters_request_pack R =
    list_adapters_request_create R"

definition VT_CONFIG_REQUEST_ACTION :: nat where [generated]: "VT_CONFIG_REQUEST_ACTION = 4"
definition VT_CONFIG_REQUEST_FORMAT :: nat where [generated]: "VT_CONFIG_REQUEST_FORMAT = 6"
definition VT_CONFIG_REQUEST_DOCUMENT :: nat where [generated]: "VT_CONFIG_REQUEST_DOCUMENT = 8"
definition VT_CONFIG_REQUEST_DRY_RUN :: nat where [generated]: "VT_CONFIG_REQUEST_DRY_RUN = 10"

definition config_request_add_action :: "('s, 'v) fb_runtime \<Rightarrow> 8 word
    \<Rightarrow> ('s, panic, unit) eff" where [generated]:
  "config_request_add_action R action = rt_push_slot R VT_CONFIG_REQUEST_ACTION (S8 action) (S8 0)"

definition config_request_add_format :: "('s, 'v) fb_runtime \<Rightarrow> 8 word
    \<Rightarrow> ('s, panic, unit) eff" where [generated]:
  "config_request_add_format R format = rt_push_slot R VT_CONFIG_REQUEST_FORMAT (S8 format) (S8 0)"

definition config_request_add_document :: "('s, 'v) fb_runtime \<Rightarrow> nat
    \<Rightarrow> ('s, panic, unit) eff" where [generated]:
  "config_request_add_document R = rt_push_offset R VT_CONFIG_REQUEST_DOCUMENT"

definition config_request_add_dry_run :: "('s, 'v) fb_runtime \<Rightarrow> bool
    \<Rightarrow> ('s, panic, unit) eff" where [generated]:
  "config_request_add_dry_run R dry_run = rt_push_slot R VT_CONFIG_REQUEST_DRY_RUN (SBool dry_run)
      (SBool True)"

definition config_request_finish :: "('s, 'v) fb_runtime \<Rightarrow> nat
    \<Rightarrow> ('s, panic, nat) eff" where [generated]:
  "config_request_finish R = finish_table R [(VT_CONFIG_REQUEST_DOCUMENT, ''document'')]"

definition config_request_create :: "('s, 'v) fb_runtime \<Rightarrow> 8 word \<Rightarrow> 8 word \<Rightarrow> nat option \<Rightarrow> bool
    \<Rightarrow> ('s, panic, nat) eff" where [generated]:
  "config_request_create R action format document dry_run =
    bindE (rt_start_table R) (\<lambda>builder.
    thenE (for_some document (config_request_add_document R)) (
    thenE (config_request_add_dry_run R dry_run) (
    thenE (config_request_add_format R format) (
    thenE (config_request_add_action R action) (
    config_request_finish R builder)))))"

definition config_request_get_action :: "('s, 'v) fb_runtime \<Rightarrow> string \<Rightarrow> nat
    \<Rightarrow> panic + 8 word" where [generated]:
  "config_request_get_action R buf t = ok_or (rt_get_u8 R buf t VT_CONFIG_REQUEST_ACTION (Some 0))
      Unwrap_None"

definition config_request_get_format :: "('s, 'v) fb_runtime \<Rightarrow> string \<Rightarrow> nat
    \<Rightarrow> panic + 8 word" where [generated]:
  "config_request_get_format R buf t = ok_or (rt_get_u8 R buf t VT_CONFIG_REQUEST_FORMAT (Some 0))
      Unwrap_None"

definition config_request_get_document :: "('s, 'v) fb_runtime \<Rightarrow> string \<Rightarrow> nat
    \<Rightarrow> panic + string" where [generated]:
  "config_request_get_document R buf t = ok_or (rt_get_bytes R buf t VT_CONFIG_REQUEST_DOCUMENT)
      Unwrap_None"

definition config_request_get_dry_run :: "('s, 'v) fb_runtime \<Rightarrow> string \<Rightarrow> nat
    \<Rightarrow> panic + bool" where [generated]:
  "config_request_get_dry_run R buf t = ok_or (rt_get_bool R buf t VT_CONFIG_REQUEST_DRY_RUN (Some
      True)) Unwrap_None"

definition config_request_unpack :: "('s, 'v) fb_runtime \<Rightarrow> string \<Rightarrow> nat
    \<Rightarrow> panic + payload_t" where [message_defs]:
  "config_request_unpack R buf t =
    bindR (config_request_get_action R buf t) (\<lambda>action.
    bindR (config_request_get_format R buf t) (\<lambda>format.
    bindR (config_request_get_document R buf t) (\<lambda>document.
    bindR (config_request_get_dry_run R buf t) (\<lambda>dry_run.
    Inr (ConfigRequest action format document dry_run)))))"

definition config_request_verify :: "('s, 'v) fb_runtime \<Rightarrow> string \<Rightarrow> nat
    \<Rightarrow> ('v, string, unit) eff" where [message_defs]:
  "config_request_verify R buf p =
    bindE (rt_visit_table R buf p) (\<lambda>t.
    thenE (rt_visit_field R buf t U8 ''action'' VT_CONFIG_REQUEST_ACTION False) (
    thenE (rt_visit_field R buf t U8 ''format'' VT_CONFIG_REQUEST_FORMAT False) (
    thenE (rt_visit_field R buf t Bytes_Field ''document'' VT_CONFIG_REQUEST_DOCUMENT True) (
    thenE (rt_visit_field R buf t Boolean ''dry_run'' VT_CONFIG_REQUEST_DRY_RUN False) (
    rt_finish_visit R t)))))"

definition config_request_pack :: "('s, 'v) fb_runtime \<Rightarrow> 8 word \<Rightarrow> 8 word \<Rightarrow> string \<Rightarrow> bool
    \<Rightarrow> ('s, panic, nat) eff" where [message_defs]:
  "config_request_pack R action format document dry_run =
    bindE (rt_create_bytes R document) (\<lambda>document_at.
    config_request_create R action format (Some document_at) dry_run)"

definition VT_JOB_STATUS_REQUEST_JOB_ID :: nat where [generated]: "VT_JOB_STATUS_REQUEST_JOB_ID = 4"

definition job_status_request_add_job_id :: "('s, 'v) fb_runtime \<Rightarrow> nat
    \<Rightarrow> ('s, panic, unit) eff" where [generated]:
  "job_status_request_add_job_id R = rt_push_offset R VT_JOB_STATUS_REQUEST_JOB_ID"

definition job_status_request_finish :: "('s, 'v) fb_runtime \<Rightarrow> nat
    \<Rightarrow> ('s, panic, nat) eff" where [generated]:
  "job_status_request_finish R = finish_table R [(VT_JOB_STATUS_REQUEST_JOB_ID, ''job_id'')]"

definition job_status_request_create :: "('s, 'v) fb_runtime \<Rightarrow> nat option
    \<Rightarrow> ('s, panic, nat) eff" where [generated]:
  "job_status_request_create R job_id =
    bindE (rt_start_table R) (\<lambda>builder.
    thenE (for_some job_id (job_status_request_add_job_id R)) (
    job_status_request_finish R builder))"

definition job_status_request_get_job_id :: "('s, 'v) fb_runtime \<Rightarrow> string \<Rightarrow> nat
    \<Rightarrow> panic + string" where [generated]:
  "job_status_request_get_job_id R buf t = ok_or (rt_get_string R buf t VT_JOB_STATUS_REQUEST_JOB_ID)
      Unwrap_None"

definition job_status_request_unpack :: "('s, 'v) fb_runtime \<Rightarrow> string \<Rightarrow> nat
    \<Rightarrow> panic + payload_t" where [message_defs]:
  "job_status_request_unpack R buf t =
    bindR (job_status_request_get_job_id R buf t) (\<lambda>job_id.
    Inr (JobStatusRequest job_id))"

definition job_status_request_verify :: "('s, 'v) fb_runtime \<Rightarrow> string \<Rightarrow> nat
    \<Rightarrow> ('v, string, unit) eff" where [message_defs]:
  "job_status_request_verify R buf p =
    bindE (rt_visit_table R buf p) (\<lambda>t.
    thenE (rt_visit_field R buf t Text_Field ''job_id'' VT_JOB_STATUS_REQUEST_JOB_ID True) (
    rt_finish_visit R t))"

definition job_status_request_pack :: "('s, 'v) fb_runtime \<Rightarrow> string
    \<Rightarrow> ('s, panic, nat) eff" where [message_defs]:
  "job_status_request_pack R job_id =
    bindE (rt_create_string R job_id) (\<lambda>job_id_at.
    job_status_request_create R (Some job_id_at))"

definition daemon_status_request_finish :: "('s, 'v) fb_runtime \<Rightarrow> nat
    \<Rightarrow> ('s, panic, nat) eff" where [generated]:
  "daemon_status_request_finish R = finish_table R []"

definition daemon_status_request_create :: "('s, 'v) fb_runtime
    \<Rightarrow> ('s, panic, nat) eff" where [generated]:
  "daemon_status_request_create R =
    bindE (rt_start_table R) (\<lambda>builder.
    daemon_status_request_finish R builder)"

definition daemon_status_request_unpack :: "('s, 'v) fb_runtime \<Rightarrow> string \<Rightarrow> nat
    \<Rightarrow> panic + payload_t" where [message_defs]:
  "daemon_status_request_unpack R buf t =
    Inr DaemonStatusRequest"

definition daemon_status_request_verify :: "('s, 'v) fb_runtime \<Rightarrow> string \<Rightarrow> nat
    \<Rightarrow> ('v, string, unit) eff" where [message_defs]:
  "daemon_status_request_verify R buf p =
    bindE (rt_visit_table R buf p) (\<lambda>t.
    rt_finish_visit R t)"

definition daemon_status_request_pack :: "('s, 'v) fb_runtime
    \<Rightarrow> ('s, panic, nat) eff" where [message_defs]:
  "daemon_status_request_pack R =
    daemon_status_request_create R"

definition VT_LIST_JOBS_REQUEST_HAS_STATE :: nat where [generated]: "VT_LIST_JOBS_REQUEST_HAS_STATE = 4"
definition VT_LIST_JOBS_REQUEST_STATE :: nat where [generated]: "VT_LIST_JOBS_REQUEST_STATE = 6"
definition VT_LIST_JOBS_REQUEST_LIMIT :: nat where [generated]: "VT_LIST_JOBS_REQUEST_LIMIT = 8"

definition list_jobs_request_add_has_state :: "('s, 'v) fb_runtime \<Rightarrow> bool
    \<Rightarrow> ('s, panic, unit) eff" where [generated]:
  "list_jobs_request_add_has_state R has_state = rt_push_slot R VT_LIST_JOBS_REQUEST_HAS_STATE (SBool
      has_state) (SBool False)"

definition list_jobs_request_add_state :: "('s, 'v) fb_runtime \<Rightarrow> 8 word
    \<Rightarrow> ('s, panic, unit) eff" where [generated]:
  "list_jobs_request_add_state R state = rt_push_slot R VT_LIST_JOBS_REQUEST_STATE (S8 state) (S8 0)"

definition list_jobs_request_add_limit :: "('s, 'v) fb_runtime \<Rightarrow> 32 word
    \<Rightarrow> ('s, panic, unit) eff" where [generated]:
  "list_jobs_request_add_limit R limit = rt_push_slot R VT_LIST_JOBS_REQUEST_LIMIT (S32 limit) (S32
      100)"

definition list_jobs_request_finish :: "('s, 'v) fb_runtime \<Rightarrow> nat
    \<Rightarrow> ('s, panic, nat) eff" where [generated]:
  "list_jobs_request_finish R = finish_table R []"

definition list_jobs_request_create :: "('s, 'v) fb_runtime \<Rightarrow> bool \<Rightarrow> 8 word \<Rightarrow> 32 word
    \<Rightarrow> ('s, panic, nat) eff" where [generated]:
  "list_jobs_request_create R has_state state limit =
    bindE (rt_start_table R) (\<lambda>builder.
    thenE (list_jobs_request_add_limit R limit) (
    thenE (list_jobs_request_add_state R state) (
    thenE (list_jobs_request_add_has_state R has_state) (
    list_jobs_request_finish R builder))))"

definition list_jobs_request_get_has_state :: "('s, 'v) fb_runtime \<Rightarrow> string \<Rightarrow> nat
    \<Rightarrow> panic + bool" where [generated]:
  "list_jobs_request_get_has_state R buf t = ok_or (rt_get_bool R buf t VT_LIST_JOBS_REQUEST_HAS_STATE
      (Some False)) Unwrap_None"

definition list_jobs_request_get_state :: "('s, 'v) fb_runtime \<Rightarrow> string \<Rightarrow> nat
    \<Rightarrow> panic + 8 word" where [generated]:
  "list_jobs_request_get_state R buf t = ok_or (rt_get_u8 R buf t VT_LIST_JOBS_REQUEST_STATE (Some 0))
      Unwrap_None"

definition list_jobs_request_get_limit :: "('s, 'v) fb_runtime \<Rightarrow> string \<Rightarrow> nat
    \<Rightarrow> panic + 32 word" where [generated]:
  "list_jobs_request_get_limit R buf t = ok_or (rt_get_u32 R buf t VT_LIST_JOBS_REQUEST_LIMIT (Some
      100)) Unwrap_None"

definition list_jobs_request_unpack :: "('s, 'v) fb_runtime \<Rightarrow> string \<Rightarrow> nat
    \<Rightarrow> panic + payload_t" where [message_defs]:
  "list_jobs_request_unpack R buf t =
    bindR (list_jobs_request_get_has_state R buf t) (\<lambda>has_state.
    bindR (list_jobs_request_get_state R buf t) (\<lambda>state.
    bindR (list_jobs_request_get_limit R buf t) (\<lambda>limit.
    Inr (ListJobsRequest has_state state limit))))"

definition list_jobs_request_verify :: "('s, 'v) fb_runtime \<Rightarrow> string \<Rightarrow> nat
    \<Rightarrow> ('v, string, unit) eff" where [message_defs]:
  "list_jobs_request_verify R buf p =
    bindE (rt_visit_table R buf p) (\<lambda>t.
    thenE (rt_visit_field R buf t Boolean ''has_state'' VT_LIST_JOBS_REQUEST_HAS_STATE False) (
    thenE (rt_visit_field R buf t U8 ''state'' VT_LIST_JOBS_REQUEST_STATE False) (
    thenE (rt_visit_field R buf t U32 ''limit'' VT_LIST_JOBS_REQUEST_LIMIT False) (
    rt_finish_visit R t))))"

definition list_jobs_request_pack :: "('s, 'v) fb_runtime \<Rightarrow> bool \<Rightarrow> 8 word \<Rightarrow> 32 word
    \<Rightarrow> ('s, panic, nat) eff" where [message_defs]:
  "list_jobs_request_pack R has_state state limit =
    list_jobs_request_create R has_state state limit"

definition network_status_request_finish :: "('s, 'v) fb_runtime \<Rightarrow> nat
    \<Rightarrow> ('s, panic, nat) eff" where [generated]:
  "network_status_request_finish R = finish_table R []"

definition network_status_request_create :: "('s, 'v) fb_runtime
    \<Rightarrow> ('s, panic, nat) eff" where [generated]:
  "network_status_request_create R =
    bindE (rt_start_table R) (\<lambda>builder.
    network_status_request_finish R builder)"

definition network_status_request_unpack :: "('s, 'v) fb_runtime \<Rightarrow> string \<Rightarrow> nat
    \<Rightarrow> panic + payload_t" where [message_defs]:
  "network_status_request_unpack R buf t =
    Inr NetworkStatusRequest"

definition network_status_request_verify :: "('s, 'v) fb_runtime \<Rightarrow> string \<Rightarrow> nat
    \<Rightarrow> ('v, string, unit) eff" where [message_defs]:
  "network_status_request_verify R buf p =
    bindE (rt_visit_table R buf p) (\<lambda>t.
    rt_finish_visit R t)"

definition network_status_request_pack :: "('s, 'v) fb_runtime
    \<Rightarrow> ('s, panic, nat) eff" where [message_defs]:
  "network_status_request_pack R =
    network_status_request_create R"

definition VT_WIFI_STATUS_REQUEST_HAS_IF_INDEX :: nat where [generated]:
    "VT_WIFI_STATUS_REQUEST_HAS_IF_INDEX = 4"
definition VT_WIFI_STATUS_REQUEST_IF_INDEX :: nat where [generated]: "VT_WIFI_STATUS_REQUEST_IF_INDEX =
    6"

definition wifi_status_request_add_has_if_index :: "('s, 'v) fb_runtime \<Rightarrow> bool
    \<Rightarrow> ('s, panic, unit) eff" where [generated]:
  "wifi_status_request_add_has_if_index R has_if_index = rt_push_slot R
      VT_WIFI_STATUS_REQUEST_HAS_IF_INDEX (SBool has_if_index) (SBool False)"

definition wifi_status_request_add_if_index :: "('s, 'v) fb_runtime \<Rightarrow> 32 word
    \<Rightarrow> ('s, panic, unit) eff" where [generated]:
  "wifi_status_request_add_if_index R if_index = rt_push_slot R VT_WIFI_STATUS_REQUEST_IF_INDEX (S32
      if_index) (S32 0)"

definition wifi_status_request_finish :: "('s, 'v) fb_runtime \<Rightarrow> nat
    \<Rightarrow> ('s, panic, nat) eff" where [generated]:
  "wifi_status_request_finish R = finish_table R []"

definition wifi_status_request_create :: "('s, 'v) fb_runtime \<Rightarrow> bool \<Rightarrow> 32 word
    \<Rightarrow> ('s, panic, nat) eff" where [generated]:
  "wifi_status_request_create R has_if_index if_index =
    bindE (rt_start_table R) (\<lambda>builder.
    thenE (wifi_status_request_add_if_index R if_index) (
    thenE (wifi_status_request_add_has_if_index R has_if_index) (
    wifi_status_request_finish R builder)))"

definition wifi_status_request_get_has_if_index :: "('s, 'v) fb_runtime \<Rightarrow> string \<Rightarrow> nat
    \<Rightarrow> panic + bool" where [generated]:
  "wifi_status_request_get_has_if_index R buf t = ok_or (rt_get_bool R buf t
      VT_WIFI_STATUS_REQUEST_HAS_IF_INDEX (Some False)) Unwrap_None"

definition wifi_status_request_get_if_index :: "('s, 'v) fb_runtime \<Rightarrow> string \<Rightarrow> nat
    \<Rightarrow> panic + 32 word" where [generated]:
  "wifi_status_request_get_if_index R buf t = ok_or (rt_get_u32 R buf t VT_WIFI_STATUS_REQUEST_IF_INDEX
      (Some 0)) Unwrap_None"

definition wifi_status_request_unpack :: "('s, 'v) fb_runtime \<Rightarrow> string \<Rightarrow> nat
    \<Rightarrow> panic + payload_t" where [message_defs]:
  "wifi_status_request_unpack R buf t =
    bindR (wifi_status_request_get_has_if_index R buf t) (\<lambda>has_if_index.
    bindR (wifi_status_request_get_if_index R buf t) (\<lambda>if_index.
    Inr (WifiStatusRequest has_if_index if_index)))"

definition wifi_status_request_verify :: "('s, 'v) fb_runtime \<Rightarrow> string \<Rightarrow> nat
    \<Rightarrow> ('v, string, unit) eff" where [message_defs]:
  "wifi_status_request_verify R buf p =
    bindE (rt_visit_table R buf p) (\<lambda>t.
    thenE (rt_visit_field R buf t Boolean ''has_if_index'' VT_WIFI_STATUS_REQUEST_HAS_IF_INDEX False) (
    thenE (rt_visit_field R buf t U32 ''if_index'' VT_WIFI_STATUS_REQUEST_IF_INDEX False) (
    rt_finish_visit R t)))"

definition wifi_status_request_pack :: "('s, 'v) fb_runtime \<Rightarrow> bool \<Rightarrow> 32 word
    \<Rightarrow> ('s, panic, nat) eff" where [message_defs]:
  "wifi_status_request_pack R has_if_index if_index =
    wifi_status_request_create R has_if_index if_index"

definition VT_WIFI_SCAN_REQUEST_HAS_IF_INDEX :: nat where [generated]:
    "VT_WIFI_SCAN_REQUEST_HAS_IF_INDEX = 4"
definition VT_WIFI_SCAN_REQUEST_IF_INDEX :: nat where [generated]: "VT_WIFI_SCAN_REQUEST_IF_INDEX = 6"
definition VT_WIFI_SCAN_REQUEST_REFRESH :: nat where [generated]: "VT_WIFI_SCAN_REQUEST_REFRESH = 8"
definition VT_WIFI_SCAN_REQUEST_TIMEOUT_MS :: nat where [generated]: "VT_WIFI_SCAN_REQUEST_TIMEOUT_MS =
    10"

definition wifi_scan_request_add_has_if_index :: "('s, 'v) fb_runtime \<Rightarrow> bool
    \<Rightarrow> ('s, panic, unit) eff" where [generated]:
  "wifi_scan_request_add_has_if_index R has_if_index = rt_push_slot R VT_WIFI_SCAN_REQUEST_HAS_IF_INDEX
      (SBool has_if_index) (SBool False)"

definition wifi_scan_request_add_if_index :: "('s, 'v) fb_runtime \<Rightarrow> 32 word
    \<Rightarrow> ('s, panic, unit) eff" where [generated]:
  "wifi_scan_request_add_if_index R if_index = rt_push_slot R VT_WIFI_SCAN_REQUEST_IF_INDEX (S32
      if_index) (S32 0)"

definition wifi_scan_request_add_refresh :: "('s, 'v) fb_runtime \<Rightarrow> bool
    \<Rightarrow> ('s, panic, unit) eff" where [generated]:
  "wifi_scan_request_add_refresh R refresh = rt_push_slot R VT_WIFI_SCAN_REQUEST_REFRESH (SBool refresh)
      (SBool True)"

definition wifi_scan_request_add_timeout_ms :: "('s, 'v) fb_runtime \<Rightarrow> 32 word
    \<Rightarrow> ('s, panic, unit) eff" where [generated]:
  "wifi_scan_request_add_timeout_ms R timeout_ms = rt_push_slot R VT_WIFI_SCAN_REQUEST_TIMEOUT_MS (S32
      timeout_ms) (S32 4000)"

definition wifi_scan_request_finish :: "('s, 'v) fb_runtime \<Rightarrow> nat
    \<Rightarrow> ('s, panic, nat) eff" where [generated]:
  "wifi_scan_request_finish R = finish_table R []"

definition wifi_scan_request_create :: "('s, 'v) fb_runtime \<Rightarrow> bool \<Rightarrow> 32 word \<Rightarrow> bool \<Rightarrow> 32 word
    \<Rightarrow> ('s, panic, nat) eff" where [generated]:
  "wifi_scan_request_create R has_if_index if_index refresh timeout_ms =
    bindE (rt_start_table R) (\<lambda>builder.
    thenE (wifi_scan_request_add_timeout_ms R timeout_ms) (
    thenE (wifi_scan_request_add_if_index R if_index) (
    thenE (wifi_scan_request_add_refresh R refresh) (
    thenE (wifi_scan_request_add_has_if_index R has_if_index) (
    wifi_scan_request_finish R builder)))))"

definition wifi_scan_request_get_has_if_index :: "('s, 'v) fb_runtime \<Rightarrow> string \<Rightarrow> nat
    \<Rightarrow> panic + bool" where [generated]:
  "wifi_scan_request_get_has_if_index R buf t = ok_or (rt_get_bool R buf t
      VT_WIFI_SCAN_REQUEST_HAS_IF_INDEX (Some False)) Unwrap_None"

definition wifi_scan_request_get_if_index :: "('s, 'v) fb_runtime \<Rightarrow> string \<Rightarrow> nat
    \<Rightarrow> panic + 32 word" where [generated]:
  "wifi_scan_request_get_if_index R buf t = ok_or (rt_get_u32 R buf t VT_WIFI_SCAN_REQUEST_IF_INDEX
      (Some 0)) Unwrap_None"

definition wifi_scan_request_get_refresh :: "('s, 'v) fb_runtime \<Rightarrow> string \<Rightarrow> nat
    \<Rightarrow> panic + bool" where [generated]:
  "wifi_scan_request_get_refresh R buf t = ok_or (rt_get_bool R buf t VT_WIFI_SCAN_REQUEST_REFRESH (Some
      True)) Unwrap_None"

definition wifi_scan_request_get_timeout_ms :: "('s, 'v) fb_runtime \<Rightarrow> string \<Rightarrow> nat
    \<Rightarrow> panic + 32 word" where [generated]:
  "wifi_scan_request_get_timeout_ms R buf t = ok_or (rt_get_u32 R buf t VT_WIFI_SCAN_REQUEST_TIMEOUT_MS
      (Some 4000)) Unwrap_None"

definition wifi_scan_request_unpack :: "('s, 'v) fb_runtime \<Rightarrow> string \<Rightarrow> nat
    \<Rightarrow> panic + payload_t" where [message_defs]:
  "wifi_scan_request_unpack R buf t =
    bindR (wifi_scan_request_get_has_if_index R buf t) (\<lambda>has_if_index.
    bindR (wifi_scan_request_get_if_index R buf t) (\<lambda>if_index.
    bindR (wifi_scan_request_get_refresh R buf t) (\<lambda>refresh.
    bindR (wifi_scan_request_get_timeout_ms R buf t) (\<lambda>timeout_ms.
    Inr (WifiScanRequest has_if_index if_index refresh timeout_ms)))))"

definition wifi_scan_request_verify :: "('s, 'v) fb_runtime \<Rightarrow> string \<Rightarrow> nat
    \<Rightarrow> ('v, string, unit) eff" where [message_defs]:
  "wifi_scan_request_verify R buf p =
    bindE (rt_visit_table R buf p) (\<lambda>t.
    thenE (rt_visit_field R buf t Boolean ''has_if_index'' VT_WIFI_SCAN_REQUEST_HAS_IF_INDEX False) (
    thenE (rt_visit_field R buf t U32 ''if_index'' VT_WIFI_SCAN_REQUEST_IF_INDEX False) (
    thenE (rt_visit_field R buf t Boolean ''refresh'' VT_WIFI_SCAN_REQUEST_REFRESH False) (
    thenE (rt_visit_field R buf t U32 ''timeout_ms'' VT_WIFI_SCAN_REQUEST_TIMEOUT_MS False) (
    rt_finish_visit R t)))))"

definition wifi_scan_request_pack :: "('s, 'v) fb_runtime \<Rightarrow> bool \<Rightarrow> 32 word \<Rightarrow> bool \<Rightarrow> 32 word
    \<Rightarrow> ('s, panic, nat) eff" where [message_defs]:
  "wifi_scan_request_pack R has_if_index if_index refresh timeout_ms =
    wifi_scan_request_create R has_if_index if_index refresh timeout_ms"

definition shutdown_request_finish :: "('s, 'v) fb_runtime \<Rightarrow> nat
    \<Rightarrow> ('s, panic, nat) eff" where [generated]:
  "shutdown_request_finish R = finish_table R []"

definition shutdown_request_create :: "('s, 'v) fb_runtime
    \<Rightarrow> ('s, panic, nat) eff" where [generated]:
  "shutdown_request_create R =
    bindE (rt_start_table R) (\<lambda>builder.
    shutdown_request_finish R builder)"

definition shutdown_request_unpack :: "('s, 'v) fb_runtime \<Rightarrow> string \<Rightarrow> nat
    \<Rightarrow> panic + payload_t" where [message_defs]:
  "shutdown_request_unpack R buf t =
    Inr ShutdownRequest"

definition shutdown_request_verify :: "('s, 'v) fb_runtime \<Rightarrow> string \<Rightarrow> nat
    \<Rightarrow> ('v, string, unit) eff" where [message_defs]:
  "shutdown_request_verify R buf p =
    bindE (rt_visit_table R buf p) (\<lambda>t.
    rt_finish_visit R t)"

definition shutdown_request_pack :: "('s, 'v) fb_runtime
    \<Rightarrow> ('s, panic, nat) eff" where [message_defs]:
  "shutdown_request_pack R =
    shutdown_request_create R"


section \<open>Responses\<close>

definition VT_PING_RESPONSE_DAEMON_VERSION :: nat where [generated]: "VT_PING_RESPONSE_DAEMON_VERSION =
    4"
definition VT_PING_RESPONSE_PROTOCOL_VERSION :: nat where [generated]:
    "VT_PING_RESPONSE_PROTOCOL_VERSION = 6"

definition ping_response_add_daemon_version :: "('s, 'v) fb_runtime \<Rightarrow> nat
    \<Rightarrow> ('s, panic, unit) eff" where [generated]:
  "ping_response_add_daemon_version R = rt_push_offset R VT_PING_RESPONSE_DAEMON_VERSION"

definition ping_response_add_protocol_version :: "('s, 'v) fb_runtime \<Rightarrow> 32 word
    \<Rightarrow> ('s, panic, unit) eff" where [generated]:
  "ping_response_add_protocol_version R protocol_version = rt_push_slot R
      VT_PING_RESPONSE_PROTOCOL_VERSION (S32 protocol_version) (S32 0)"

definition ping_response_finish :: "('s, 'v) fb_runtime \<Rightarrow> nat \<Rightarrow> ('s, panic, nat) eff" where [generated]:
  "ping_response_finish R = finish_table R [(VT_PING_RESPONSE_DAEMON_VERSION, ''daemon_version'')]"

definition ping_response_create :: "('s, 'v) fb_runtime \<Rightarrow> nat option \<Rightarrow> 32 word
    \<Rightarrow> ('s, panic, nat) eff" where [generated]:
  "ping_response_create R daemon_version protocol_version =
    bindE (rt_start_table R) (\<lambda>builder.
    thenE (ping_response_add_protocol_version R protocol_version) (
    thenE (for_some daemon_version (ping_response_add_daemon_version R)) (
    ping_response_finish R builder)))"

definition ping_response_get_daemon_version :: "('s, 'v) fb_runtime \<Rightarrow> string \<Rightarrow> nat
    \<Rightarrow> panic + string" where [generated]:
  "ping_response_get_daemon_version R buf t = ok_or (rt_get_string R buf t
      VT_PING_RESPONSE_DAEMON_VERSION) Unwrap_None"

definition ping_response_get_protocol_version :: "('s, 'v) fb_runtime \<Rightarrow> string \<Rightarrow> nat
    \<Rightarrow> panic + 32 word" where [generated]:
  "ping_response_get_protocol_version R buf t = ok_or (rt_get_u32 R buf t
      VT_PING_RESPONSE_PROTOCOL_VERSION (Some 0)) Unwrap_None"

definition ping_response_unpack :: "('s, 'v) fb_runtime \<Rightarrow> string \<Rightarrow> nat
    \<Rightarrow> panic + payload_t" where [message_defs]:
  "ping_response_unpack R buf t =
    bindR (ping_response_get_daemon_version R buf t) (\<lambda>daemon_version.
    bindR (ping_response_get_protocol_version R buf t) (\<lambda>protocol_version.
    Inr (PingResponse daemon_version protocol_version)))"

definition ping_response_verify :: "('s, 'v) fb_runtime \<Rightarrow> string \<Rightarrow> nat
    \<Rightarrow> ('v, string, unit) eff" where [message_defs]:
  "ping_response_verify R buf p =
    bindE (rt_visit_table R buf p) (\<lambda>t.
    thenE (rt_visit_field R buf t Text_Field ''daemon_version'' VT_PING_RESPONSE_DAEMON_VERSION True) (
    thenE (rt_visit_field R buf t U32 ''protocol_version'' VT_PING_RESPONSE_PROTOCOL_VERSION False) (
    rt_finish_visit R t)))"

definition ping_response_pack :: "('s, 'v) fb_runtime \<Rightarrow> string \<Rightarrow> 32 word
    \<Rightarrow> ('s, panic, nat) eff" where [message_defs]:
  "ping_response_pack R daemon_version protocol_version =
    bindE (rt_create_string R daemon_version) (\<lambda>daemon_version_at.
    ping_response_create R (Some daemon_version_at) protocol_version)"

definition VT_CAPABILITIES_RESPONSE_CAPABILITIES :: nat where [generated]:
    "VT_CAPABILITIES_RESPONSE_CAPABILITIES = 4"

definition capabilities_response_add_capabilities :: "('s, 'v) fb_runtime \<Rightarrow> nat
    \<Rightarrow> ('s, panic, unit) eff" where [generated]:
  "capabilities_response_add_capabilities R = rt_push_offset R VT_CAPABILITIES_RESPONSE_CAPABILITIES"

definition capabilities_response_finish :: "('s, 'v) fb_runtime \<Rightarrow> nat
    \<Rightarrow> ('s, panic, nat) eff" where [generated]:
  "capabilities_response_finish R = finish_table R [(VT_CAPABILITIES_RESPONSE_CAPABILITIES,
      ''capabilities'')]"

definition capabilities_response_create :: "('s, 'v) fb_runtime \<Rightarrow> nat option
    \<Rightarrow> ('s, panic, nat) eff" where [generated]:
  "capabilities_response_create R capabilities =
    bindE (rt_start_table R) (\<lambda>builder.
    thenE (for_some capabilities (capabilities_response_add_capabilities R)) (
    capabilities_response_finish R builder))"

definition capabilities_response_get_capabilities :: "('s, 'v) fb_runtime \<Rightarrow> string \<Rightarrow> nat
    \<Rightarrow> panic + nat list" where [generated]:
  "capabilities_response_get_capabilities R buf t = ok_or (rt_get_tables R buf t
      VT_CAPABILITIES_RESPONSE_CAPABILITIES) Unwrap_None"

definition capabilities_response_unpack :: "('s, 'v) fb_runtime \<Rightarrow> string \<Rightarrow> nat
    \<Rightarrow> panic + payload_t" where [message_defs]:
  "capabilities_response_unpack R buf t =
    bindR (capabilities_response_get_capabilities R buf t) (\<lambda>ps.
    bindR (traverseR (capability_unpack R buf) ps) (\<lambda>capabilities.
    Inr (CapabilitiesResponse capabilities)))"

definition capabilities_response_verify :: "('s, 'v) fb_runtime \<Rightarrow> string \<Rightarrow> nat
    \<Rightarrow> ('v, string, unit) eff" where [message_defs]:
  "capabilities_response_verify R buf p =
    bindE (rt_visit_table R buf p) (\<lambda>t.
    thenE (rt_visit_field R buf t (Tables (capability_verify R buf)) ''capabilities''
        VT_CAPABILITIES_RESPONSE_CAPABILITIES True) (
    rt_finish_visit R t))"

definition capabilities_response_pack :: "('s, 'v) fb_runtime \<Rightarrow> capability_t list
    \<Rightarrow> ('s, panic, nat) eff" where [message_defs]:
  "capabilities_response_pack R capabilities =
    bindE (create_tables R (capability_pack R) capabilities) (\<lambda>capabilities_at.
    capabilities_response_create R (Some capabilities_at))"

definition VT_LIST_ADAPTERS_RESPONSE_ADAPTERS :: nat where [generated]:
    "VT_LIST_ADAPTERS_RESPONSE_ADAPTERS = 4"

definition list_adapters_response_add_adapters :: "('s, 'v) fb_runtime \<Rightarrow> nat
    \<Rightarrow> ('s, panic, unit) eff" where [generated]:
  "list_adapters_response_add_adapters R = rt_push_offset R VT_LIST_ADAPTERS_RESPONSE_ADAPTERS"

definition list_adapters_response_finish :: "('s, 'v) fb_runtime \<Rightarrow> nat
    \<Rightarrow> ('s, panic, nat) eff" where [generated]:
  "list_adapters_response_finish R = finish_table R [(VT_LIST_ADAPTERS_RESPONSE_ADAPTERS,
      ''adapters'')]"

definition list_adapters_response_create :: "('s, 'v) fb_runtime \<Rightarrow> nat option
    \<Rightarrow> ('s, panic, nat) eff" where [generated]:
  "list_adapters_response_create R adapters' =
    bindE (rt_start_table R) (\<lambda>builder.
    thenE (for_some adapters' (list_adapters_response_add_adapters R)) (
    list_adapters_response_finish R builder))"

definition list_adapters_response_get_adapters :: "('s, 'v) fb_runtime \<Rightarrow> string \<Rightarrow> nat
    \<Rightarrow> panic + nat list" where [generated]:
  "list_adapters_response_get_adapters R buf t = ok_or (rt_get_tables R buf t
      VT_LIST_ADAPTERS_RESPONSE_ADAPTERS) Unwrap_None"

definition list_adapters_response_unpack :: "('s, 'v) fb_runtime \<Rightarrow> string \<Rightarrow> nat
    \<Rightarrow> panic + payload_t" where [message_defs]:
  "list_adapters_response_unpack R buf t =
    bindR (list_adapters_response_get_adapters R buf t) (\<lambda>ps.
    bindR (traverseR (adapter_unpack R buf) ps) (\<lambda>adapters'.
    Inr (ListAdaptersResponse adapters')))"

definition list_adapters_response_verify :: "('s, 'v) fb_runtime \<Rightarrow> string \<Rightarrow> nat
    \<Rightarrow> ('v, string, unit) eff" where [message_defs]:
  "list_adapters_response_verify R buf p =
    bindE (rt_visit_table R buf p) (\<lambda>t.
    thenE (rt_visit_field R buf t (Tables (adapter_verify R buf)) ''adapters''
        VT_LIST_ADAPTERS_RESPONSE_ADAPTERS True) (
    rt_finish_visit R t))"

definition list_adapters_response_pack :: "('s, 'v) fb_runtime \<Rightarrow> adapter_t list
    \<Rightarrow> ('s, panic, nat) eff" where [message_defs]:
  "list_adapters_response_pack R adapters' =
    bindE (create_tables R (adapter_pack R) adapters') (\<lambda>adapters_at.
    list_adapters_response_create R (Some adapters_at))"

definition VT_VALIDATE_CONFIG_RESPONSE_VALID :: nat where [generated]:
    "VT_VALIDATE_CONFIG_RESPONSE_VALID = 4"
definition VT_VALIDATE_CONFIG_RESPONSE_ISSUES :: nat where [generated]:
    "VT_VALIDATE_CONFIG_RESPONSE_ISSUES = 6"

definition validate_config_response_add_valid :: "('s, 'v) fb_runtime \<Rightarrow> bool
    \<Rightarrow> ('s, panic, unit) eff" where [generated]:
  "validate_config_response_add_valid R valid = rt_push_slot R VT_VALIDATE_CONFIG_RESPONSE_VALID (SBool
      valid) (SBool False)"

definition validate_config_response_add_issues :: "('s, 'v) fb_runtime \<Rightarrow> nat
    \<Rightarrow> ('s, panic, unit) eff" where [generated]:
  "validate_config_response_add_issues R = rt_push_offset R VT_VALIDATE_CONFIG_RESPONSE_ISSUES"

definition validate_config_response_finish :: "('s, 'v) fb_runtime \<Rightarrow> nat
    \<Rightarrow> ('s, panic, nat) eff" where [generated]:
  "validate_config_response_finish R = finish_table R [(VT_VALIDATE_CONFIG_RESPONSE_ISSUES,
      ''issues'')]"

definition validate_config_response_create :: "('s, 'v) fb_runtime \<Rightarrow> bool \<Rightarrow> nat option
    \<Rightarrow> ('s, panic, nat) eff" where [generated]:
  "validate_config_response_create R valid issues =
    bindE (rt_start_table R) (\<lambda>builder.
    thenE (for_some issues (validate_config_response_add_issues R)) (
    thenE (validate_config_response_add_valid R valid) (
    validate_config_response_finish R builder)))"

definition validate_config_response_get_valid :: "('s, 'v) fb_runtime \<Rightarrow> string \<Rightarrow> nat
    \<Rightarrow> panic + bool" where [generated]:
  "validate_config_response_get_valid R buf t = ok_or (rt_get_bool R buf t
      VT_VALIDATE_CONFIG_RESPONSE_VALID (Some False)) Unwrap_None"

definition validate_config_response_get_issues :: "('s, 'v) fb_runtime \<Rightarrow> string \<Rightarrow> nat
    \<Rightarrow> panic + nat list" where [generated]:
  "validate_config_response_get_issues R buf t = ok_or (rt_get_tables R buf t
      VT_VALIDATE_CONFIG_RESPONSE_ISSUES) Unwrap_None"

definition validate_config_response_unpack :: "('s, 'v) fb_runtime \<Rightarrow> string \<Rightarrow> nat
    \<Rightarrow> panic + payload_t" where [message_defs]:
  "validate_config_response_unpack R buf t =
    bindR (validate_config_response_get_valid R buf t) (\<lambda>valid.
    bindR (validate_config_response_get_issues R buf t) (\<lambda>ps.
    bindR (traverseR (validation_issue_unpack R buf) ps) (\<lambda>issues.
    Inr (ValidateConfigResponse valid issues))))"

definition validate_config_response_verify :: "('s, 'v) fb_runtime \<Rightarrow> string \<Rightarrow> nat
    \<Rightarrow> ('v, string, unit) eff" where [message_defs]:
  "validate_config_response_verify R buf p =
    bindE (rt_visit_table R buf p) (\<lambda>t.
    thenE (rt_visit_field R buf t Boolean ''valid'' VT_VALIDATE_CONFIG_RESPONSE_VALID False) (
    thenE (rt_visit_field R buf t (Tables (validation_issue_verify R buf)) ''issues''
        VT_VALIDATE_CONFIG_RESPONSE_ISSUES True) (
    rt_finish_visit R t)))"

definition validate_config_response_pack :: "('s, 'v) fb_runtime \<Rightarrow> bool \<Rightarrow> validation_issue_t list
    \<Rightarrow> ('s, panic, nat) eff" where [message_defs]:
  "validate_config_response_pack R valid issues =
    bindE (create_tables R (validation_issue_pack R) issues) (\<lambda>issues_at.
    validate_config_response_create R valid (Some issues_at))"

definition VT_PLAN_CONFIG_RESPONSE_OPERATIONS :: nat where [generated]:
    "VT_PLAN_CONFIG_RESPONSE_OPERATIONS = 4"

definition plan_config_response_add_operations :: "('s, 'v) fb_runtime \<Rightarrow> nat
    \<Rightarrow> ('s, panic, unit) eff" where [generated]:
  "plan_config_response_add_operations R = rt_push_offset R VT_PLAN_CONFIG_RESPONSE_OPERATIONS"

definition plan_config_response_finish :: "('s, 'v) fb_runtime \<Rightarrow> nat
    \<Rightarrow> ('s, panic, nat) eff" where [generated]:
  "plan_config_response_finish R = finish_table R [(VT_PLAN_CONFIG_RESPONSE_OPERATIONS,
      ''operations'')]"

definition plan_config_response_create :: "('s, 'v) fb_runtime \<Rightarrow> nat option
    \<Rightarrow> ('s, panic, nat) eff" where [generated]:
  "plan_config_response_create R operations =
    bindE (rt_start_table R) (\<lambda>builder.
    thenE (for_some operations (plan_config_response_add_operations R)) (
    plan_config_response_finish R builder))"

definition plan_config_response_get_operations :: "('s, 'v) fb_runtime \<Rightarrow> string \<Rightarrow> nat
    \<Rightarrow> panic + nat list" where [generated]:
  "plan_config_response_get_operations R buf t = ok_or (rt_get_tables R buf t
      VT_PLAN_CONFIG_RESPONSE_OPERATIONS) Unwrap_None"

definition plan_config_response_unpack :: "('s, 'v) fb_runtime \<Rightarrow> string \<Rightarrow> nat
    \<Rightarrow> panic + payload_t" where [message_defs]:
  "plan_config_response_unpack R buf t =
    bindR (plan_config_response_get_operations R buf t) (\<lambda>ps.
    bindR (traverseR (operation_unpack R buf) ps) (\<lambda>operations.
    Inr (PlanConfigResponse operations)))"

definition plan_config_response_verify :: "('s, 'v) fb_runtime \<Rightarrow> string \<Rightarrow> nat
    \<Rightarrow> ('v, string, unit) eff" where [message_defs]:
  "plan_config_response_verify R buf p =
    bindE (rt_visit_table R buf p) (\<lambda>t.
    thenE (rt_visit_field R buf t (Tables (operation_verify R buf)) ''operations''
        VT_PLAN_CONFIG_RESPONSE_OPERATIONS True) (
    rt_finish_visit R t))"

definition plan_config_response_pack :: "('s, 'v) fb_runtime \<Rightarrow> operation_t list
    \<Rightarrow> ('s, panic, nat) eff" where [message_defs]:
  "plan_config_response_pack R operations =
    bindE (create_tables R (operation_pack R) operations) (\<lambda>operations_at.
    plan_config_response_create R (Some operations_at))"

definition VT_APPLY_CONFIG_RESPONSE_JOB_ID :: nat where [generated]: "VT_APPLY_CONFIG_RESPONSE_JOB_ID =
    4"
definition VT_APPLY_CONFIG_RESPONSE_STATE :: nat where [generated]: "VT_APPLY_CONFIG_RESPONSE_STATE = 6"
definition VT_APPLY_CONFIG_RESPONSE_OPERATIONS :: nat where [generated]:
    "VT_APPLY_CONFIG_RESPONSE_OPERATIONS = 8"

definition apply_config_response_add_job_id :: "('s, 'v) fb_runtime \<Rightarrow> nat
    \<Rightarrow> ('s, panic, unit) eff" where [generated]:
  "apply_config_response_add_job_id R = rt_push_offset R VT_APPLY_CONFIG_RESPONSE_JOB_ID"

definition apply_config_response_add_state :: "('s, 'v) fb_runtime \<Rightarrow> 8 word
    \<Rightarrow> ('s, panic, unit) eff" where [generated]:
  "apply_config_response_add_state R state = rt_push_slot R VT_APPLY_CONFIG_RESPONSE_STATE (S8 state)
      (S8 0)"

definition apply_config_response_add_operations :: "('s, 'v) fb_runtime \<Rightarrow> nat
    \<Rightarrow> ('s, panic, unit) eff" where [generated]:
  "apply_config_response_add_operations R = rt_push_offset R VT_APPLY_CONFIG_RESPONSE_OPERATIONS"

definition apply_config_response_finish :: "('s, 'v) fb_runtime \<Rightarrow> nat
    \<Rightarrow> ('s, panic, nat) eff" where [generated]:
  "apply_config_response_finish R = finish_table R [(VT_APPLY_CONFIG_RESPONSE_JOB_ID, ''job_id''),
      (VT_APPLY_CONFIG_RESPONSE_OPERATIONS, ''operations'')]"

definition apply_config_response_create :: "('s, 'v) fb_runtime \<Rightarrow> nat option \<Rightarrow> 8 word \<Rightarrow> nat option
    \<Rightarrow> ('s, panic, nat) eff" where [generated]:
  "apply_config_response_create R job_id state operations =
    bindE (rt_start_table R) (\<lambda>builder.
    thenE (for_some operations (apply_config_response_add_operations R)) (
    thenE (for_some job_id (apply_config_response_add_job_id R)) (
    thenE (apply_config_response_add_state R state) (
    apply_config_response_finish R builder))))"

definition apply_config_response_get_job_id :: "('s, 'v) fb_runtime \<Rightarrow> string \<Rightarrow> nat
    \<Rightarrow> panic + string" where [generated]:
  "apply_config_response_get_job_id R buf t = ok_or (rt_get_string R buf t
      VT_APPLY_CONFIG_RESPONSE_JOB_ID) Unwrap_None"

definition apply_config_response_get_state :: "('s, 'v) fb_runtime \<Rightarrow> string \<Rightarrow> nat
    \<Rightarrow> panic + 8 word" where [generated]:
  "apply_config_response_get_state R buf t = ok_or (rt_get_u8 R buf t VT_APPLY_CONFIG_RESPONSE_STATE
      (Some 0)) Unwrap_None"

definition apply_config_response_get_operations :: "('s, 'v) fb_runtime \<Rightarrow> string \<Rightarrow> nat
    \<Rightarrow> panic + nat list" where [generated]:
  "apply_config_response_get_operations R buf t = ok_or (rt_get_tables R buf t
      VT_APPLY_CONFIG_RESPONSE_OPERATIONS) Unwrap_None"

definition apply_config_response_unpack :: "('s, 'v) fb_runtime \<Rightarrow> string \<Rightarrow> nat
    \<Rightarrow> panic + payload_t" where [message_defs]:
  "apply_config_response_unpack R buf t =
    bindR (apply_config_response_get_job_id R buf t) (\<lambda>job_id.
    bindR (apply_config_response_get_state R buf t) (\<lambda>state.
    bindR (apply_config_response_get_operations R buf t) (\<lambda>ps.
    bindR (traverseR (operation_unpack R buf) ps) (\<lambda>operations.
    Inr (ApplyConfigResponse job_id state operations)))))"

definition apply_config_response_verify :: "('s, 'v) fb_runtime \<Rightarrow> string \<Rightarrow> nat
    \<Rightarrow> ('v, string, unit) eff" where [message_defs]:
  "apply_config_response_verify R buf p =
    bindE (rt_visit_table R buf p) (\<lambda>t.
    thenE (rt_visit_field R buf t Text_Field ''job_id'' VT_APPLY_CONFIG_RESPONSE_JOB_ID True) (
    thenE (rt_visit_field R buf t U8 ''state'' VT_APPLY_CONFIG_RESPONSE_STATE False) (
    thenE (rt_visit_field R buf t (Tables (operation_verify R buf)) ''operations''
        VT_APPLY_CONFIG_RESPONSE_OPERATIONS True) (
    rt_finish_visit R t))))"

definition apply_config_response_pack :: "('s, 'v) fb_runtime \<Rightarrow> string \<Rightarrow> 8 word \<Rightarrow> operation_t list
    \<Rightarrow> ('s, panic, nat) eff" where [message_defs]:
  "apply_config_response_pack R job_id state operations =
    bindE (rt_create_string R job_id) (\<lambda>job_id_at.
    bindE (create_tables R (operation_pack R) operations) (\<lambda>operations_at.
    apply_config_response_create R (Some job_id_at) state (Some operations_at)))"

definition VT_JOB_STATUS_RESPONSE_JOB_ID :: nat where [generated]: "VT_JOB_STATUS_RESPONSE_JOB_ID = 4"
definition VT_JOB_STATUS_RESPONSE_STATE :: nat where [generated]: "VT_JOB_STATUS_RESPONSE_STATE = 6"
definition VT_JOB_STATUS_RESPONSE_MESSAGE :: nat where [generated]: "VT_JOB_STATUS_RESPONSE_MESSAGE = 8"

definition job_status_response_add_job_id :: "('s, 'v) fb_runtime \<Rightarrow> nat
    \<Rightarrow> ('s, panic, unit) eff" where [generated]:
  "job_status_response_add_job_id R = rt_push_offset R VT_JOB_STATUS_RESPONSE_JOB_ID"

definition job_status_response_add_state :: "('s, 'v) fb_runtime \<Rightarrow> 8 word
    \<Rightarrow> ('s, panic, unit) eff" where [generated]:
  "job_status_response_add_state R state = rt_push_slot R VT_JOB_STATUS_RESPONSE_STATE (S8 state) (S8
      0)"

definition job_status_response_add_message :: "('s, 'v) fb_runtime \<Rightarrow> nat
    \<Rightarrow> ('s, panic, unit) eff" where [generated]:
  "job_status_response_add_message R = rt_push_offset R VT_JOB_STATUS_RESPONSE_MESSAGE"

definition job_status_response_finish :: "('s, 'v) fb_runtime \<Rightarrow> nat
    \<Rightarrow> ('s, panic, nat) eff" where [generated]:
  "job_status_response_finish R = finish_table R [(VT_JOB_STATUS_RESPONSE_JOB_ID, ''job_id'')]"

definition job_status_response_create :: "('s, 'v) fb_runtime \<Rightarrow> nat option \<Rightarrow> 8 word \<Rightarrow> nat option
    \<Rightarrow> ('s, panic, nat) eff" where [generated]:
  "job_status_response_create R job_id state message =
    bindE (rt_start_table R) (\<lambda>builder.
    thenE (for_some message (job_status_response_add_message R)) (
    thenE (for_some job_id (job_status_response_add_job_id R)) (
    thenE (job_status_response_add_state R state) (
    job_status_response_finish R builder))))"

definition job_status_response_get_job_id :: "('s, 'v) fb_runtime \<Rightarrow> string \<Rightarrow> nat
    \<Rightarrow> panic + string" where [generated]:
  "job_status_response_get_job_id R buf t = ok_or (rt_get_string R buf t VT_JOB_STATUS_RESPONSE_JOB_ID)
      Unwrap_None"

definition job_status_response_get_state :: "('s, 'v) fb_runtime \<Rightarrow> string \<Rightarrow> nat
    \<Rightarrow> panic + 8 word" where [generated]:
  "job_status_response_get_state R buf t = ok_or (rt_get_u8 R buf t VT_JOB_STATUS_RESPONSE_STATE (Some
      0)) Unwrap_None"

definition job_status_response_get_message :: "('s, 'v) fb_runtime \<Rightarrow> string \<Rightarrow> nat
    \<Rightarrow> string option" where [generated]:
  "job_status_response_get_message R buf t = rt_get_string R buf t VT_JOB_STATUS_RESPONSE_MESSAGE"

definition job_status_response_unpack :: "('s, 'v) fb_runtime \<Rightarrow> string \<Rightarrow> nat
    \<Rightarrow> panic + payload_t" where [message_defs]:
  "job_status_response_unpack R buf t =
    bindR (job_status_response_get_job_id R buf t) (\<lambda>job_id.
    bindR (job_status_response_get_state R buf t) (\<lambda>state.
    Inr (JobStatusResponse job_id state (job_status_response_get_message R buf t))))"

definition job_status_response_verify :: "('s, 'v) fb_runtime \<Rightarrow> string \<Rightarrow> nat
    \<Rightarrow> ('v, string, unit) eff" where [message_defs]:
  "job_status_response_verify R buf p =
    bindE (rt_visit_table R buf p) (\<lambda>t.
    thenE (rt_visit_field R buf t Text_Field ''job_id'' VT_JOB_STATUS_RESPONSE_JOB_ID True) (
    thenE (rt_visit_field R buf t U8 ''state'' VT_JOB_STATUS_RESPONSE_STATE False) (
    thenE (rt_visit_field R buf t Text_Field ''message'' VT_JOB_STATUS_RESPONSE_MESSAGE False) (
    rt_finish_visit R t))))"

definition job_status_response_pack :: "('s, 'v) fb_runtime \<Rightarrow> string \<Rightarrow> 8 word \<Rightarrow> string option
    \<Rightarrow> ('s, panic, nat) eff" where [message_defs]:
  "job_status_response_pack R job_id state message =
    bindE (rt_create_string R job_id) (\<lambda>job_id_at.
    bindE (map_someE (rt_create_string R) message) (\<lambda>message_at.
    job_status_response_create R (Some job_id_at) state message_at))"

definition VT_DAEMON_STATUS_RESPONSE_DAEMON_VERSION :: nat where [generated]:
    "VT_DAEMON_STATUS_RESPONSE_DAEMON_VERSION = 4"
definition VT_DAEMON_STATUS_RESPONSE_PROTOCOL_VERSION :: nat where [generated]:
    "VT_DAEMON_STATUS_RESPONSE_PROTOCOL_VERSION = 6"
definition VT_DAEMON_STATUS_RESPONSE_STARTED_AT_UNIX_MS :: nat where [generated]:
    "VT_DAEMON_STATUS_RESPONSE_STARTED_AT_UNIX_MS = 8"
definition VT_DAEMON_STATUS_RESPONSE_UPTIME_MS :: nat where [generated]:
    "VT_DAEMON_STATUS_RESPONSE_UPTIME_MS = 10"
definition VT_DAEMON_STATUS_RESPONSE_TOTAL_JOBS :: nat where [generated]:
    "VT_DAEMON_STATUS_RESPONSE_TOTAL_JOBS = 12"
definition VT_DAEMON_STATUS_RESPONSE_QUEUED_JOBS :: nat where [generated]:
    "VT_DAEMON_STATUS_RESPONSE_QUEUED_JOBS = 14"
definition VT_DAEMON_STATUS_RESPONSE_RUNNING_JOBS :: nat where [generated]:
    "VT_DAEMON_STATUS_RESPONSE_RUNNING_JOBS = 16"
definition VT_DAEMON_STATUS_RESPONSE_SUCCEEDED_JOBS :: nat where [generated]:
    "VT_DAEMON_STATUS_RESPONSE_SUCCEEDED_JOBS = 18"
definition VT_DAEMON_STATUS_RESPONSE_FAILED_JOBS :: nat where [generated]:
    "VT_DAEMON_STATUS_RESPONSE_FAILED_JOBS = 20"
definition VT_DAEMON_STATUS_RESPONSE_ROLLED_BACK_JOBS :: nat where [generated]:
    "VT_DAEMON_STATUS_RESPONSE_ROLLED_BACK_JOBS = 22"

definition daemon_status_response_add_daemon_version :: "('s, 'v) fb_runtime \<Rightarrow> nat
    \<Rightarrow> ('s, panic, unit) eff" where [generated]:
  "daemon_status_response_add_daemon_version R = rt_push_offset R
      VT_DAEMON_STATUS_RESPONSE_DAEMON_VERSION"

definition daemon_status_response_add_protocol_version :: "('s, 'v) fb_runtime \<Rightarrow> 32 word
    \<Rightarrow> ('s, panic, unit) eff" where [generated]:
  "daemon_status_response_add_protocol_version R protocol_version = rt_push_slot R
      VT_DAEMON_STATUS_RESPONSE_PROTOCOL_VERSION (S32 protocol_version) (S32 0)"

definition daemon_status_response_add_started_at_unix_ms :: "('s, 'v) fb_runtime \<Rightarrow> 64 word
    \<Rightarrow> ('s, panic, unit) eff" where [generated]:
  "daemon_status_response_add_started_at_unix_ms R started_at_unix_ms = rt_push_slot R
      VT_DAEMON_STATUS_RESPONSE_STARTED_AT_UNIX_MS (S64 started_at_unix_ms) (S64 0)"

definition daemon_status_response_add_uptime_ms :: "('s, 'v) fb_runtime \<Rightarrow> 64 word
    \<Rightarrow> ('s, panic, unit) eff" where [generated]:
  "daemon_status_response_add_uptime_ms R uptime_ms = rt_push_slot R VT_DAEMON_STATUS_RESPONSE_UPTIME_MS
      (S64 uptime_ms) (S64 0)"

definition daemon_status_response_add_total_jobs :: "('s, 'v) fb_runtime \<Rightarrow> 32 word
    \<Rightarrow> ('s, panic, unit) eff" where [generated]:
  "daemon_status_response_add_total_jobs R total_jobs = rt_push_slot R
      VT_DAEMON_STATUS_RESPONSE_TOTAL_JOBS (S32 total_jobs) (S32 0)"

definition daemon_status_response_add_queued_jobs :: "('s, 'v) fb_runtime \<Rightarrow> 32 word
    \<Rightarrow> ('s, panic, unit) eff" where [generated]:
  "daemon_status_response_add_queued_jobs R queued_jobs = rt_push_slot R
      VT_DAEMON_STATUS_RESPONSE_QUEUED_JOBS (S32 queued_jobs) (S32 0)"

definition daemon_status_response_add_running_jobs :: "('s, 'v) fb_runtime \<Rightarrow> 32 word
    \<Rightarrow> ('s, panic, unit) eff" where [generated]:
  "daemon_status_response_add_running_jobs R running_jobs = rt_push_slot R
      VT_DAEMON_STATUS_RESPONSE_RUNNING_JOBS (S32 running_jobs) (S32 0)"

definition daemon_status_response_add_succeeded_jobs :: "('s, 'v) fb_runtime \<Rightarrow> 32 word
    \<Rightarrow> ('s, panic, unit) eff" where [generated]:
  "daemon_status_response_add_succeeded_jobs R succeeded_jobs = rt_push_slot R
      VT_DAEMON_STATUS_RESPONSE_SUCCEEDED_JOBS (S32 succeeded_jobs) (S32 0)"

definition daemon_status_response_add_failed_jobs :: "('s, 'v) fb_runtime \<Rightarrow> 32 word
    \<Rightarrow> ('s, panic, unit) eff" where [generated]:
  "daemon_status_response_add_failed_jobs R failed_jobs = rt_push_slot R
      VT_DAEMON_STATUS_RESPONSE_FAILED_JOBS (S32 failed_jobs) (S32 0)"

definition daemon_status_response_add_rolled_back_jobs :: "('s, 'v) fb_runtime \<Rightarrow> 32 word
    \<Rightarrow> ('s, panic, unit) eff" where [generated]:
  "daemon_status_response_add_rolled_back_jobs R rolled_back_jobs = rt_push_slot R
      VT_DAEMON_STATUS_RESPONSE_ROLLED_BACK_JOBS (S32 rolled_back_jobs) (S32 0)"

definition daemon_status_response_finish :: "('s, 'v) fb_runtime \<Rightarrow> nat
    \<Rightarrow> ('s, panic, nat) eff" where [generated]:
  "daemon_status_response_finish R = finish_table R [(VT_DAEMON_STATUS_RESPONSE_DAEMON_VERSION,
      ''daemon_version'')]"

definition daemon_status_response_create :: "('s, 'v) fb_runtime \<Rightarrow> nat option \<Rightarrow> 32 word \<Rightarrow> 64 word
    \<Rightarrow> 64 word \<Rightarrow> 32 word \<Rightarrow> 32 word \<Rightarrow> 32 word \<Rightarrow> 32 word \<Rightarrow> 32 word \<Rightarrow> 32 word
    \<Rightarrow> ('s, panic, nat) eff" where [generated]:
  "daemon_status_response_create R daemon_version protocol_version started_at_unix_ms uptime_ms
      total_jobs queued_jobs running_jobs succeeded_jobs failed_jobs rolled_back_jobs =
    bindE (rt_start_table R) (\<lambda>builder.
    thenE (daemon_status_response_add_uptime_ms R uptime_ms) (
    thenE (daemon_status_response_add_started_at_unix_ms R started_at_unix_ms) (
    thenE (daemon_status_response_add_rolled_back_jobs R rolled_back_jobs) (
    thenE (daemon_status_response_add_failed_jobs R failed_jobs) (
    thenE (daemon_status_response_add_succeeded_jobs R succeeded_jobs) (
    thenE (daemon_status_response_add_running_jobs R running_jobs) (
    thenE (daemon_status_response_add_queued_jobs R queued_jobs) (
    thenE (daemon_status_response_add_total_jobs R total_jobs) (
    thenE (daemon_status_response_add_protocol_version R protocol_version) (
    thenE (for_some daemon_version (daemon_status_response_add_daemon_version R)) (
    daemon_status_response_finish R builder)))))))))))"

definition daemon_status_response_get_daemon_version :: "('s, 'v) fb_runtime \<Rightarrow> string \<Rightarrow> nat
    \<Rightarrow> panic + string" where [generated]:
  "daemon_status_response_get_daemon_version R buf t = ok_or (rt_get_string R buf t
      VT_DAEMON_STATUS_RESPONSE_DAEMON_VERSION) Unwrap_None"

definition daemon_status_response_get_protocol_version :: "('s, 'v) fb_runtime \<Rightarrow> string \<Rightarrow> nat
    \<Rightarrow> panic + 32 word" where [generated]:
  "daemon_status_response_get_protocol_version R buf t = ok_or (rt_get_u32 R buf t
      VT_DAEMON_STATUS_RESPONSE_PROTOCOL_VERSION (Some 0)) Unwrap_None"

definition daemon_status_response_get_started_at_unix_ms :: "('s, 'v) fb_runtime \<Rightarrow> string \<Rightarrow> nat
    \<Rightarrow> panic + 64 word" where [generated]:
  "daemon_status_response_get_started_at_unix_ms R buf t = ok_or (rt_get_u64 R buf t
      VT_DAEMON_STATUS_RESPONSE_STARTED_AT_UNIX_MS (Some 0)) Unwrap_None"

definition daemon_status_response_get_uptime_ms :: "('s, 'v) fb_runtime \<Rightarrow> string \<Rightarrow> nat
    \<Rightarrow> panic + 64 word" where [generated]:
  "daemon_status_response_get_uptime_ms R buf t = ok_or (rt_get_u64 R buf t
      VT_DAEMON_STATUS_RESPONSE_UPTIME_MS (Some 0)) Unwrap_None"

definition daemon_status_response_get_total_jobs :: "('s, 'v) fb_runtime \<Rightarrow> string \<Rightarrow> nat
    \<Rightarrow> panic + 32 word" where [generated]:
  "daemon_status_response_get_total_jobs R buf t = ok_or (rt_get_u32 R buf t
      VT_DAEMON_STATUS_RESPONSE_TOTAL_JOBS (Some 0)) Unwrap_None"

definition daemon_status_response_get_queued_jobs :: "('s, 'v) fb_runtime \<Rightarrow> string \<Rightarrow> nat
    \<Rightarrow> panic + 32 word" where [generated]:
  "daemon_status_response_get_queued_jobs R buf t = ok_or (rt_get_u32 R buf t
      VT_DAEMON_STATUS_RESPONSE_QUEUED_JOBS (Some 0)) Unwrap_None"

definition daemon_status_response_get_running_jobs :: "('s, 'v) fb_runtime \<Rightarrow> string \<Rightarrow> nat
    \<Rightarrow> panic + 32 word" where [generated]:
  "daemon_status_response_get_running_jobs R buf t = ok_or (rt_get_u32 R buf t
      VT_DAEMON_STATUS_RESPONSE_RUNNING_JOBS (Some 0)) Unwrap_None"

definition daemon_status_response_get_succeeded_jobs :: "('s, 'v) fb_runtime \<Rightarrow> string \<Rightarrow> nat
    \<Rightarrow> panic + 32 word" where [generated]:
  "daemon_status_response_get_succeeded_jobs R buf t = ok_or (rt_get_u32 R buf t
      VT_DAEMON_STATUS_RESPONSE_SUCCEEDED_JOBS (Some 0)) Unwrap_None"

definition daemon_status_response_get_failed_jobs :: "('s, 'v) fb_runtime \<Rightarrow> string \<Rightarrow> nat
    \<Rightarrow> panic + 32 word" where [generated]:
  "daemon_status_response_get_failed_jobs R buf t = ok_or (rt_get_u32 R buf t
      VT_DAEMON_STATUS_RESPONSE_FAILED_JOBS (Some 0)) Unwrap_None"

definition daemon_status_response_get_rolled_back_jobs :: "('s, 'v) fb_runtime \<Rightarrow> string \<Rightarrow> nat
    \<Rightarrow> panic + 32 word" where [generated]:
  "daemon_status_response_get_rolled_back_jobs R buf t = ok_or (rt_get_u32 R buf t
      VT_DAEMON_STATUS_RESPONSE_ROLLED_BACK_JOBS (Some 0)) Unwrap_None"

definition daemon_status_response_unpack :: "('s, 'v) fb_runtime \<Rightarrow> string \<Rightarrow> nat
    \<Rightarrow> panic + payload_t" where [message_defs]:
  "daemon_status_response_unpack R buf t =
    bindR (daemon_status_response_get_daemon_version R buf t) (\<lambda>daemon_version.
    bindR (daemon_status_response_get_protocol_version R buf t) (\<lambda>protocol_version.
    bindR (daemon_status_response_get_started_at_unix_ms R buf t) (\<lambda>started_at_unix_ms.
    bindR (daemon_status_response_get_uptime_ms R buf t) (\<lambda>uptime_ms.
    bindR (daemon_status_response_get_total_jobs R buf t) (\<lambda>total_jobs.
    bindR (daemon_status_response_get_queued_jobs R buf t) (\<lambda>queued_jobs.
    bindR (daemon_status_response_get_running_jobs R buf t) (\<lambda>running_jobs.
    bindR (daemon_status_response_get_succeeded_jobs R buf t) (\<lambda>succeeded_jobs.
    bindR (daemon_status_response_get_failed_jobs R buf t) (\<lambda>failed_jobs.
    bindR (daemon_status_response_get_rolled_back_jobs R buf t) (\<lambda>rolled_back_jobs.
    Inr (DaemonStatusResponse daemon_version protocol_version started_at_unix_ms uptime_ms total_jobs
        queued_jobs running_jobs succeeded_jobs failed_jobs rolled_back_jobs)))))))))))"

definition daemon_status_response_verify :: "('s, 'v) fb_runtime \<Rightarrow> string \<Rightarrow> nat
    \<Rightarrow> ('v, string, unit) eff" where [message_defs]:
  "daemon_status_response_verify R buf p =
    bindE (rt_visit_table R buf p) (\<lambda>t.
    thenE (rt_visit_field R buf t Text_Field ''daemon_version'' VT_DAEMON_STATUS_RESPONSE_DAEMON_VERSION
        True) (
    thenE (rt_visit_field R buf t U32 ''protocol_version'' VT_DAEMON_STATUS_RESPONSE_PROTOCOL_VERSION
        False) (
    thenE (rt_visit_field R buf t U64 ''started_at_unix_ms''
        VT_DAEMON_STATUS_RESPONSE_STARTED_AT_UNIX_MS False) (
    thenE (rt_visit_field R buf t U64 ''uptime_ms'' VT_DAEMON_STATUS_RESPONSE_UPTIME_MS False) (
    thenE (rt_visit_field R buf t U32 ''total_jobs'' VT_DAEMON_STATUS_RESPONSE_TOTAL_JOBS False) (
    thenE (rt_visit_field R buf t U32 ''queued_jobs'' VT_DAEMON_STATUS_RESPONSE_QUEUED_JOBS False) (
    thenE (rt_visit_field R buf t U32 ''running_jobs'' VT_DAEMON_STATUS_RESPONSE_RUNNING_JOBS False) (
    thenE (rt_visit_field R buf t U32 ''succeeded_jobs'' VT_DAEMON_STATUS_RESPONSE_SUCCEEDED_JOBS False)
        (
    thenE (rt_visit_field R buf t U32 ''failed_jobs'' VT_DAEMON_STATUS_RESPONSE_FAILED_JOBS False) (
    thenE (rt_visit_field R buf t U32 ''rolled_back_jobs'' VT_DAEMON_STATUS_RESPONSE_ROLLED_BACK_JOBS
        False) (
    rt_finish_visit R t)))))))))))"

definition daemon_status_response_pack :: "('s, 'v) fb_runtime \<Rightarrow> string \<Rightarrow> 32 word \<Rightarrow> 64 word \<Rightarrow> 64 word
    \<Rightarrow> 32 word \<Rightarrow> 32 word \<Rightarrow> 32 word \<Rightarrow> 32 word \<Rightarrow> 32 word \<Rightarrow> 32 word
    \<Rightarrow> ('s, panic, nat) eff" where [message_defs]:
  "daemon_status_response_pack R daemon_version protocol_version started_at_unix_ms uptime_ms total_jobs
      queued_jobs running_jobs succeeded_jobs failed_jobs rolled_back_jobs =
    bindE (rt_create_string R daemon_version) (\<lambda>daemon_version_at.
    daemon_status_response_create R (Some daemon_version_at) protocol_version started_at_unix_ms
        uptime_ms total_jobs queued_jobs running_jobs succeeded_jobs failed_jobs rolled_back_jobs)"

definition VT_LIST_JOBS_RESPONSE_JOBS :: nat where [generated]: "VT_LIST_JOBS_RESPONSE_JOBS = 4"
definition VT_LIST_JOBS_RESPONSE_TOTAL :: nat where [generated]: "VT_LIST_JOBS_RESPONSE_TOTAL = 6"

definition list_jobs_response_add_jobs :: "('s, 'v) fb_runtime \<Rightarrow> nat
    \<Rightarrow> ('s, panic, unit) eff" where [generated]:
  "list_jobs_response_add_jobs R = rt_push_offset R VT_LIST_JOBS_RESPONSE_JOBS"

definition list_jobs_response_add_total :: "('s, 'v) fb_runtime \<Rightarrow> 32 word
    \<Rightarrow> ('s, panic, unit) eff" where [generated]:
  "list_jobs_response_add_total R total' = rt_push_slot R VT_LIST_JOBS_RESPONSE_TOTAL (S32 total') (S32
      0)"

definition list_jobs_response_finish :: "('s, 'v) fb_runtime \<Rightarrow> nat
    \<Rightarrow> ('s, panic, nat) eff" where [generated]:
  "list_jobs_response_finish R = finish_table R [(VT_LIST_JOBS_RESPONSE_JOBS, ''jobs'')]"

definition list_jobs_response_create :: "('s, 'v) fb_runtime \<Rightarrow> nat option \<Rightarrow> 32 word
    \<Rightarrow> ('s, panic, nat) eff" where [generated]:
  "list_jobs_response_create R jobs total' =
    bindE (rt_start_table R) (\<lambda>builder.
    thenE (list_jobs_response_add_total R total') (
    thenE (for_some jobs (list_jobs_response_add_jobs R)) (
    list_jobs_response_finish R builder)))"

definition list_jobs_response_get_jobs :: "('s, 'v) fb_runtime \<Rightarrow> string \<Rightarrow> nat
    \<Rightarrow> panic + nat list" where [generated]:
  "list_jobs_response_get_jobs R buf t = ok_or (rt_get_tables R buf t VT_LIST_JOBS_RESPONSE_JOBS)
      Unwrap_None"

definition list_jobs_response_get_total :: "('s, 'v) fb_runtime \<Rightarrow> string \<Rightarrow> nat
    \<Rightarrow> panic + 32 word" where [generated]:
  "list_jobs_response_get_total R buf t = ok_or (rt_get_u32 R buf t VT_LIST_JOBS_RESPONSE_TOTAL (Some
      0)) Unwrap_None"

definition list_jobs_response_unpack :: "('s, 'v) fb_runtime \<Rightarrow> string \<Rightarrow> nat
    \<Rightarrow> panic + payload_t" where [message_defs]:
  "list_jobs_response_unpack R buf t =
    bindR (list_jobs_response_get_jobs R buf t) (\<lambda>ps.
    bindR (traverseR (job_summary_unpack R buf) ps) (\<lambda>jobs.
    bindR (list_jobs_response_get_total R buf t) (\<lambda>total'.
    Inr (ListJobsResponse jobs total'))))"

definition list_jobs_response_verify :: "('s, 'v) fb_runtime \<Rightarrow> string \<Rightarrow> nat
    \<Rightarrow> ('v, string, unit) eff" where [message_defs]:
  "list_jobs_response_verify R buf p =
    bindE (rt_visit_table R buf p) (\<lambda>t.
    thenE (rt_visit_field R buf t (Tables (job_summary_verify R buf)) ''jobs''
        VT_LIST_JOBS_RESPONSE_JOBS True) (
    thenE (rt_visit_field R buf t U32 ''total'' VT_LIST_JOBS_RESPONSE_TOTAL False) (
    rt_finish_visit R t)))"

definition list_jobs_response_pack :: "('s, 'v) fb_runtime \<Rightarrow> job_summary_t list \<Rightarrow> 32 word
    \<Rightarrow> ('s, panic, nat) eff" where [message_defs]:
  "list_jobs_response_pack R jobs total' =
    bindE (create_tables R (job_summary_pack R) jobs) (\<lambda>jobs_at.
    list_jobs_response_create R (Some jobs_at) total')"

definition VT_NETWORK_STATUS_RESPONSE_CAPTURED_AT_UNIX_MS :: nat where [generated]:
    "VT_NETWORK_STATUS_RESPONSE_CAPTURED_AT_UNIX_MS = 4"
definition VT_NETWORK_STATUS_RESPONSE_ADAPTERS :: nat where [generated]:
    "VT_NETWORK_STATUS_RESPONSE_ADAPTERS = 6"
definition VT_NETWORK_STATUS_RESPONSE_WIFI_INTERFACES :: nat where [generated]:
    "VT_NETWORK_STATUS_RESPONSE_WIFI_INTERFACES = 8"
definition VT_NETWORK_STATUS_RESPONSE_WIFI_ERROR :: nat where [generated]:
    "VT_NETWORK_STATUS_RESPONSE_WIFI_ERROR = 10"

definition network_status_response_add_captured_at_unix_ms :: "('s, 'v) fb_runtime \<Rightarrow> 64 word
    \<Rightarrow> ('s, panic, unit) eff" where [generated]:
  "network_status_response_add_captured_at_unix_ms R captured_at_unix_ms = rt_push_slot R
      VT_NETWORK_STATUS_RESPONSE_CAPTURED_AT_UNIX_MS (S64 captured_at_unix_ms) (S64 0)"

definition network_status_response_add_adapters :: "('s, 'v) fb_runtime \<Rightarrow> nat
    \<Rightarrow> ('s, panic, unit) eff" where [generated]:
  "network_status_response_add_adapters R = rt_push_offset R VT_NETWORK_STATUS_RESPONSE_ADAPTERS"

definition network_status_response_add_wifi_interfaces :: "('s, 'v) fb_runtime \<Rightarrow> nat
    \<Rightarrow> ('s, panic, unit) eff" where [generated]:
  "network_status_response_add_wifi_interfaces R = rt_push_offset R
      VT_NETWORK_STATUS_RESPONSE_WIFI_INTERFACES"

definition network_status_response_add_wifi_error :: "('s, 'v) fb_runtime \<Rightarrow> nat
    \<Rightarrow> ('s, panic, unit) eff" where [generated]:
  "network_status_response_add_wifi_error R = rt_push_offset R VT_NETWORK_STATUS_RESPONSE_WIFI_ERROR"

definition network_status_response_finish :: "('s, 'v) fb_runtime \<Rightarrow> nat
    \<Rightarrow> ('s, panic, nat) eff" where [generated]:
  "network_status_response_finish R = finish_table R [(VT_NETWORK_STATUS_RESPONSE_ADAPTERS,
      ''adapters''), (VT_NETWORK_STATUS_RESPONSE_WIFI_INTERFACES, ''wifi_interfaces'')]"

definition network_status_response_create :: "('s, 'v) fb_runtime \<Rightarrow> 64 word \<Rightarrow> nat option \<Rightarrow> nat option
    \<Rightarrow> nat option
    \<Rightarrow> ('s, panic, nat) eff" where [generated]:
  "network_status_response_create R captured_at_unix_ms adapters' wifi_interfaces wifi_error =
    bindE (rt_start_table R) (\<lambda>builder.
    thenE (network_status_response_add_captured_at_unix_ms R captured_at_unix_ms) (
    thenE (for_some wifi_error (network_status_response_add_wifi_error R)) (
    thenE (for_some wifi_interfaces (network_status_response_add_wifi_interfaces R)) (
    thenE (for_some adapters' (network_status_response_add_adapters R)) (
    network_status_response_finish R builder)))))"

definition network_status_response_get_captured_at_unix_ms :: "('s, 'v) fb_runtime \<Rightarrow> string \<Rightarrow> nat
    \<Rightarrow> panic + 64 word" where [generated]:
  "network_status_response_get_captured_at_unix_ms R buf t = ok_or (rt_get_u64 R buf t
      VT_NETWORK_STATUS_RESPONSE_CAPTURED_AT_UNIX_MS (Some 0)) Unwrap_None"

definition network_status_response_get_adapters :: "('s, 'v) fb_runtime \<Rightarrow> string \<Rightarrow> nat
    \<Rightarrow> panic + nat list" where [generated]:
  "network_status_response_get_adapters R buf t = ok_or (rt_get_tables R buf t
      VT_NETWORK_STATUS_RESPONSE_ADAPTERS) Unwrap_None"

definition network_status_response_get_wifi_interfaces :: "('s, 'v) fb_runtime \<Rightarrow> string \<Rightarrow> nat
    \<Rightarrow> panic + nat list" where [generated]:
  "network_status_response_get_wifi_interfaces R buf t = ok_or (rt_get_tables R buf t
      VT_NETWORK_STATUS_RESPONSE_WIFI_INTERFACES) Unwrap_None"

definition network_status_response_get_wifi_error :: "('s, 'v) fb_runtime \<Rightarrow> string \<Rightarrow> nat
    \<Rightarrow> string option" where [generated]:
  "network_status_response_get_wifi_error R buf t = rt_get_string R buf t
      VT_NETWORK_STATUS_RESPONSE_WIFI_ERROR"

definition network_status_response_unpack :: "('s, 'v) fb_runtime \<Rightarrow> string \<Rightarrow> nat
    \<Rightarrow> panic + payload_t" where [message_defs]:
  "network_status_response_unpack R buf t =
    bindR (network_status_response_get_captured_at_unix_ms R buf t) (\<lambda>captured_at_unix_ms.
    bindR (network_status_response_get_adapters R buf t) (\<lambda>ps.
    bindR (traverseR (adapter_unpack R buf) ps) (\<lambda>adapters'.
    bindR (network_status_response_get_wifi_interfaces R buf t) (\<lambda>ps.
    bindR (traverseR (wifi_interface_status_unpack R buf) ps) (\<lambda>wifi_interfaces.
    Inr (NetworkStatusResponse captured_at_unix_ms adapters' wifi_interfaces
        (network_status_response_get_wifi_error R buf t)))))))"

definition network_status_response_verify :: "('s, 'v) fb_runtime \<Rightarrow> string \<Rightarrow> nat
    \<Rightarrow> ('v, string, unit) eff" where [message_defs]:
  "network_status_response_verify R buf p =
    bindE (rt_visit_table R buf p) (\<lambda>t.
    thenE (rt_visit_field R buf t U64 ''captured_at_unix_ms''
        VT_NETWORK_STATUS_RESPONSE_CAPTURED_AT_UNIX_MS False) (
    thenE (rt_visit_field R buf t (Tables (adapter_verify R buf)) ''adapters''
        VT_NETWORK_STATUS_RESPONSE_ADAPTERS True) (
    thenE (rt_visit_field R buf t (Tables (wifi_interface_status_verify R buf)) ''wifi_interfaces''
        VT_NETWORK_STATUS_RESPONSE_WIFI_INTERFACES True) (
    thenE (rt_visit_field R buf t Text_Field ''wifi_error'' VT_NETWORK_STATUS_RESPONSE_WIFI_ERROR False)
        (
    rt_finish_visit R t)))))"

definition network_status_response_pack :: "('s, 'v) fb_runtime \<Rightarrow> 64 word \<Rightarrow> adapter_t list
    \<Rightarrow> wifi_interface_status_t list \<Rightarrow> string option
    \<Rightarrow> ('s, panic, nat) eff" where [message_defs]:
  "network_status_response_pack R captured_at_unix_ms adapters' wifi_interfaces wifi_error =
    bindE (create_tables R (adapter_pack R) adapters') (\<lambda>adapters_at.
    bindE (create_tables R (wifi_interface_status_pack R) wifi_interfaces) (\<lambda>wifi_interfaces_at.
    bindE (map_someE (rt_create_string R) wifi_error) (\<lambda>wifi_error_at.
    network_status_response_create R captured_at_unix_ms (Some adapters_at) (Some wifi_interfaces_at)
        wifi_error_at)))"

definition VT_WIFI_STATUS_RESPONSE_INTERFACES :: nat where [generated]:
    "VT_WIFI_STATUS_RESPONSE_INTERFACES = 4"

definition wifi_status_response_add_interfaces :: "('s, 'v) fb_runtime \<Rightarrow> nat
    \<Rightarrow> ('s, panic, unit) eff" where [generated]:
  "wifi_status_response_add_interfaces R = rt_push_offset R VT_WIFI_STATUS_RESPONSE_INTERFACES"

definition wifi_status_response_finish :: "('s, 'v) fb_runtime \<Rightarrow> nat
    \<Rightarrow> ('s, panic, nat) eff" where [generated]:
  "wifi_status_response_finish R = finish_table R [(VT_WIFI_STATUS_RESPONSE_INTERFACES,
      ''interfaces'')]"

definition wifi_status_response_create :: "('s, 'v) fb_runtime \<Rightarrow> nat option
    \<Rightarrow> ('s, panic, nat) eff" where [generated]:
  "wifi_status_response_create R interfaces =
    bindE (rt_start_table R) (\<lambda>builder.
    thenE (for_some interfaces (wifi_status_response_add_interfaces R)) (
    wifi_status_response_finish R builder))"

definition wifi_status_response_get_interfaces :: "('s, 'v) fb_runtime \<Rightarrow> string \<Rightarrow> nat
    \<Rightarrow> panic + nat list" where [generated]:
  "wifi_status_response_get_interfaces R buf t = ok_or (rt_get_tables R buf t
      VT_WIFI_STATUS_RESPONSE_INTERFACES) Unwrap_None"

definition wifi_status_response_unpack :: "('s, 'v) fb_runtime \<Rightarrow> string \<Rightarrow> nat
    \<Rightarrow> panic + payload_t" where [message_defs]:
  "wifi_status_response_unpack R buf t =
    bindR (wifi_status_response_get_interfaces R buf t) (\<lambda>ps.
    bindR (traverseR (wifi_interface_status_unpack R buf) ps) (\<lambda>interfaces.
    Inr (WifiStatusResponse interfaces)))"

definition wifi_status_response_verify :: "('s, 'v) fb_runtime \<Rightarrow> string \<Rightarrow> nat
    \<Rightarrow> ('v, string, unit) eff" where [message_defs]:
  "wifi_status_response_verify R buf p =
    bindE (rt_visit_table R buf p) (\<lambda>t.
    thenE (rt_visit_field R buf t (Tables (wifi_interface_status_verify R buf)) ''interfaces''
        VT_WIFI_STATUS_RESPONSE_INTERFACES True) (
    rt_finish_visit R t))"

definition wifi_status_response_pack :: "('s, 'v) fb_runtime \<Rightarrow> wifi_interface_status_t list
    \<Rightarrow> ('s, panic, nat) eff" where [message_defs]:
  "wifi_status_response_pack R interfaces =
    bindE (create_tables R (wifi_interface_status_pack R) interfaces) (\<lambda>interfaces_at.
    wifi_status_response_create R (Some interfaces_at))"

definition VT_WIFI_SCAN_RESPONSE_REFRESHED :: nat where [generated]: "VT_WIFI_SCAN_RESPONSE_REFRESHED =
    4"
definition VT_WIFI_SCAN_RESPONSE_NETWORKS :: nat where [generated]: "VT_WIFI_SCAN_RESPONSE_NETWORKS = 6"

definition wifi_scan_response_add_refreshed :: "('s, 'v) fb_runtime \<Rightarrow> bool
    \<Rightarrow> ('s, panic, unit) eff" where [generated]:
  "wifi_scan_response_add_refreshed R refreshed = rt_push_slot R VT_WIFI_SCAN_RESPONSE_REFRESHED (SBool
      refreshed) (SBool False)"

definition wifi_scan_response_add_networks :: "('s, 'v) fb_runtime \<Rightarrow> nat
    \<Rightarrow> ('s, panic, unit) eff" where [generated]:
  "wifi_scan_response_add_networks R = rt_push_offset R VT_WIFI_SCAN_RESPONSE_NETWORKS"

definition wifi_scan_response_finish :: "('s, 'v) fb_runtime \<Rightarrow> nat
    \<Rightarrow> ('s, panic, nat) eff" where [generated]:
  "wifi_scan_response_finish R = finish_table R [(VT_WIFI_SCAN_RESPONSE_NETWORKS, ''networks'')]"

definition wifi_scan_response_create :: "('s, 'v) fb_runtime \<Rightarrow> bool \<Rightarrow> nat option
    \<Rightarrow> ('s, panic, nat) eff" where [generated]:
  "wifi_scan_response_create R refreshed networks =
    bindE (rt_start_table R) (\<lambda>builder.
    thenE (for_some networks (wifi_scan_response_add_networks R)) (
    thenE (wifi_scan_response_add_refreshed R refreshed) (
    wifi_scan_response_finish R builder)))"

definition wifi_scan_response_get_refreshed :: "('s, 'v) fb_runtime \<Rightarrow> string \<Rightarrow> nat
    \<Rightarrow> panic + bool" where [generated]:
  "wifi_scan_response_get_refreshed R buf t = ok_or (rt_get_bool R buf t VT_WIFI_SCAN_RESPONSE_REFRESHED
      (Some False)) Unwrap_None"

definition wifi_scan_response_get_networks :: "('s, 'v) fb_runtime \<Rightarrow> string \<Rightarrow> nat
    \<Rightarrow> panic + nat list" where [generated]:
  "wifi_scan_response_get_networks R buf t = ok_or (rt_get_tables R buf t
      VT_WIFI_SCAN_RESPONSE_NETWORKS) Unwrap_None"

definition wifi_scan_response_unpack :: "('s, 'v) fb_runtime \<Rightarrow> string \<Rightarrow> nat
    \<Rightarrow> panic + payload_t" where [message_defs]:
  "wifi_scan_response_unpack R buf t =
    bindR (wifi_scan_response_get_refreshed R buf t) (\<lambda>refreshed.
    bindR (wifi_scan_response_get_networks R buf t) (\<lambda>ps.
    bindR (traverseR (wifi_network_unpack R buf) ps) (\<lambda>networks.
    Inr (WifiScanResponse refreshed networks))))"

definition wifi_scan_response_verify :: "('s, 'v) fb_runtime \<Rightarrow> string \<Rightarrow> nat
    \<Rightarrow> ('v, string, unit) eff" where [message_defs]:
  "wifi_scan_response_verify R buf p =
    bindE (rt_visit_table R buf p) (\<lambda>t.
    thenE (rt_visit_field R buf t Boolean ''refreshed'' VT_WIFI_SCAN_RESPONSE_REFRESHED False) (
    thenE (rt_visit_field R buf t (Tables (wifi_network_verify R buf)) ''networks''
        VT_WIFI_SCAN_RESPONSE_NETWORKS True) (
    rt_finish_visit R t)))"

definition wifi_scan_response_pack :: "('s, 'v) fb_runtime \<Rightarrow> bool \<Rightarrow> wifi_network_t list
    \<Rightarrow> ('s, panic, nat) eff" where [message_defs]:
  "wifi_scan_response_pack R refreshed networks =
    bindE (create_tables R (wifi_network_pack R) networks) (\<lambda>networks_at.
    wifi_scan_response_create R refreshed (Some networks_at))"

definition shutdown_response_finish :: "('s, 'v) fb_runtime \<Rightarrow> nat
    \<Rightarrow> ('s, panic, nat) eff" where [generated]:
  "shutdown_response_finish R = finish_table R []"

definition shutdown_response_create :: "('s, 'v) fb_runtime
    \<Rightarrow> ('s, panic, nat) eff" where [generated]:
  "shutdown_response_create R =
    bindE (rt_start_table R) (\<lambda>builder.
    shutdown_response_finish R builder)"

definition shutdown_response_unpack :: "('s, 'v) fb_runtime \<Rightarrow> string \<Rightarrow> nat
    \<Rightarrow> panic + payload_t" where [message_defs]:
  "shutdown_response_unpack R buf t =
    Inr ShutdownResponse"

definition shutdown_response_verify :: "('s, 'v) fb_runtime \<Rightarrow> string \<Rightarrow> nat
    \<Rightarrow> ('v, string, unit) eff" where [message_defs]:
  "shutdown_response_verify R buf p =
    bindE (rt_visit_table R buf p) (\<lambda>t.
    rt_finish_visit R t)"

definition shutdown_response_pack :: "('s, 'v) fb_runtime
    \<Rightarrow> ('s, panic, nat) eff" where [message_defs]:
  "shutdown_response_pack R =
    shutdown_response_create R"

definition VT_ERROR_RESPONSE_CODE :: nat where [generated]: "VT_ERROR_RESPONSE_CODE = 4"
definition VT_ERROR_RESPONSE_MESSAGE :: nat where [generated]: "VT_ERROR_RESPONSE_MESSAGE = 6"

definition error_response_add_code :: "('s, 'v) fb_runtime \<Rightarrow> 8 word
    \<Rightarrow> ('s, panic, unit) eff" where [generated]:
  "error_response_add_code R code = rt_push_slot R VT_ERROR_RESPONSE_CODE (S8 code) (S8 0)"

definition error_response_add_message :: "('s, 'v) fb_runtime \<Rightarrow> nat
    \<Rightarrow> ('s, panic, unit) eff" where [generated]:
  "error_response_add_message R = rt_push_offset R VT_ERROR_RESPONSE_MESSAGE"

definition error_response_finish :: "('s, 'v) fb_runtime \<Rightarrow> nat
    \<Rightarrow> ('s, panic, nat) eff" where [generated]:
  "error_response_finish R = finish_table R [(VT_ERROR_RESPONSE_MESSAGE, ''message'')]"

definition error_response_create :: "('s, 'v) fb_runtime \<Rightarrow> 8 word \<Rightarrow> nat option
    \<Rightarrow> ('s, panic, nat) eff" where [generated]:
  "error_response_create R code message =
    bindE (rt_start_table R) (\<lambda>builder.
    thenE (for_some message (error_response_add_message R)) (
    thenE (error_response_add_code R code) (
    error_response_finish R builder)))"

definition error_response_get_code :: "('s, 'v) fb_runtime \<Rightarrow> string \<Rightarrow> nat
    \<Rightarrow> panic + 8 word" where [generated]:
  "error_response_get_code R buf t = ok_or (rt_get_u8 R buf t VT_ERROR_RESPONSE_CODE (Some 0))
      Unwrap_None"

definition error_response_get_message :: "('s, 'v) fb_runtime \<Rightarrow> string \<Rightarrow> nat
    \<Rightarrow> panic + string" where [generated]:
  "error_response_get_message R buf t = ok_or (rt_get_string R buf t VT_ERROR_RESPONSE_MESSAGE)
      Unwrap_None"

definition error_response_unpack :: "('s, 'v) fb_runtime \<Rightarrow> string \<Rightarrow> nat
    \<Rightarrow> panic + payload_t" where [message_defs]:
  "error_response_unpack R buf t =
    bindR (error_response_get_code R buf t) (\<lambda>code.
    bindR (error_response_get_message R buf t) (\<lambda>message.
    Inr (ErrorResponse code message)))"

definition error_response_verify :: "('s, 'v) fb_runtime \<Rightarrow> string \<Rightarrow> nat
    \<Rightarrow> ('v, string, unit) eff" where [message_defs]:
  "error_response_verify R buf p =
    bindE (rt_visit_table R buf p) (\<lambda>t.
    thenE (rt_visit_field R buf t U8 ''code'' VT_ERROR_RESPONSE_CODE False) (
    thenE (rt_visit_field R buf t Text_Field ''message'' VT_ERROR_RESPONSE_MESSAGE True) (
    rt_finish_visit R t)))"

definition error_response_pack :: "('s, 'v) fb_runtime \<Rightarrow> 8 word \<Rightarrow> string
    \<Rightarrow> ('s, panic, nat) eff" where [message_defs]:
  "error_response_pack R code message =
    bindE (rt_create_string R message) (\<lambda>message_at.
    error_response_create R code (Some message_at))"


section \<open>Contracts\<close>

lemma requests_pack:
  assumes B: "builds_faithfully R V"
  shows "packs V (ping_request_pack R)
      (encodes R (vw_limit V) (ping_request_unpack R) (ping_request_verify R) (PingRequest))"
    "packs V (capabilities_request_pack R)
      (encodes R (vw_limit V) (capabilities_request_unpack R) (capabilities_request_verify R)
          (CapabilitiesRequest))"
    "packs V (list_adapters_request_pack R)
      (encodes R (vw_limit V) (list_adapters_request_unpack R) (list_adapters_request_verify R)
          (ListAdaptersRequest))"
    "packs V (config_request_pack R a9 b9 c9 d9)
      (encodes R (vw_limit V) (config_request_unpack R) (config_request_verify R) (ConfigRequest a9 b9
          c9 d9))"
    "packs V (job_status_request_pack R a15)
      (encodes R (vw_limit V) (job_status_request_unpack R) (job_status_request_verify R)
          (JobStatusRequest a15))"
    "packs V (daemon_status_request_pack R)
      (encodes R (vw_limit V) (daemon_status_request_unpack R) (daemon_status_request_verify R)
          (DaemonStatusRequest))"
    "packs V (list_jobs_request_pack R a19 b19 c19)
      (encodes R (vw_limit V) (list_jobs_request_unpack R) (list_jobs_request_verify R) (ListJobsRequest
          a19 b19 c19))"
    "packs V (network_status_request_pack R)
      (encodes R (vw_limit V) (network_status_request_unpack R) (network_status_request_verify R)
          (NetworkStatusRequest))"
    "packs V (wifi_status_request_pack R a23 b23)
      (encodes R (vw_limit V) (wifi_status_request_unpack R) (wifi_status_request_verify R)
          (WifiStatusRequest a23 b23))"
    "packs V (wifi_scan_request_pack R a24 b24 c24 d24)
      (encodes R (vw_limit V) (wifi_scan_request_unpack R) (wifi_scan_request_verify R) (WifiScanRequest
          a24 b24 c24 d24))"
    "packs V (shutdown_request_pack R)
      (encodes R (vw_limit V) (shutdown_request_unpack R) (shutdown_request_verify R)
          (ShutdownRequest))"
  by (simp_all only: message_defs generated)
    (((rule building B record_packs)+, (simp)[1], (intro impI)?, erule encodes_table,
      (auto simp: message_defs generated reads_slot dest!: encodesD)[1],
      (auto dest!: encodesD simp: message_defs generated)[1], (intro limits)[1],
      (assumption | (simp split: option.splits)[1])+)+)

lemma responses_pack:
  assumes B: "builds_faithfully R V"
  shows "packs V (ping_response_pack R a1 b1)
      (encodes R (vw_limit V) (ping_response_unpack R) (ping_response_verify R) (PingResponse a1 b1))"
    "packs V (capabilities_response_pack R a4)
      (encodes R (vw_limit V) (capabilities_response_unpack R) (capabilities_response_verify R)
          (CapabilitiesResponse a4))"
    "packs V (list_adapters_response_pack R a8)
      (encodes R (vw_limit V) (list_adapters_response_unpack R) (list_adapters_response_verify R)
          (ListAdaptersResponse a8))"
    "packs V (validate_config_response_pack R a11 b11)
      (encodes R (vw_limit V) (validate_config_response_unpack R) (validate_config_response_verify R)
          (ValidateConfigResponse a11 b11))"
    "packs V (plan_config_response_pack R a13)
      (encodes R (vw_limit V) (plan_config_response_unpack R) (plan_config_response_verify R)
          (PlanConfigResponse a13))"
    "packs V (apply_config_response_pack R a14 b14 c14)
      (encodes R (vw_limit V) (apply_config_response_unpack R) (apply_config_response_verify R)
          (ApplyConfigResponse a14 b14 c14))"
    "packs V (job_status_response_pack R a16 b16 c16)
      (encodes R (vw_limit V) (job_status_response_unpack R) (job_status_response_verify R)
          (JobStatusResponse a16 b16 c16))"
    "packs V (daemon_status_response_pack R a18 b18 c18 d18 e18 f18 g18 h18 i18 j18)
      (encodes R (vw_limit V) (daemon_status_response_unpack R) (daemon_status_response_verify R)
          (DaemonStatusResponse a18 b18 c18 d18 e18 f18 g18 h18 i18 j18))"
    "packs V (list_jobs_response_pack R a21 b21)
      (encodes R (vw_limit V) (list_jobs_response_unpack R) (list_jobs_response_verify R)
          (ListJobsResponse a21 b21))"
    "packs V (network_status_response_pack R a27 b27 c27 d27)
      (encodes R (vw_limit V) (network_status_response_unpack R) (network_status_response_verify R)
          (NetworkStatusResponse a27 b27 c27 d27))"
    "packs V (wifi_status_response_pack R a28)
      (encodes R (vw_limit V) (wifi_status_response_unpack R) (wifi_status_response_verify R)
          (WifiStatusResponse a28))"
    "packs V (wifi_scan_response_pack R a29 b29)
      (encodes R (vw_limit V) (wifi_scan_response_unpack R) (wifi_scan_response_verify R)
          (WifiScanResponse a29 b29))"
    "packs V (shutdown_response_pack R)
      (encodes R (vw_limit V) (shutdown_response_unpack R) (shutdown_response_verify R)
          (ShutdownResponse))"
    "packs V (error_response_pack R a32 b32)
      (encodes R (vw_limit V) (error_response_unpack R) (error_response_verify R) (ErrorResponse a32
          b32))"
  by (simp_all only: message_defs generated)
    (((rule building B record_packs)+, (simp)[1], (intro impI)?, erule encodes_table,
      (auto simp: message_defs generated reads_slot dest!: encodesD)[1],
      (auto dest!: encodesD simp: message_defs generated)[1], (intro limits)[1],
      (assumption | (simp split: option.splits)[1])+)+)

lemma requests_total:
  assumes C: "checks_soundly R"
  shows "verified (ping_request_verify R buf p) \<Longrightarrow> \<exists>x. ping_request_unpack R buf p = Inr x"
    "verified (capabilities_request_verify R buf p) \<Longrightarrow> \<exists>x. capabilities_request_unpack R buf p = Inr x"
    "verified (list_adapters_request_verify R buf p) \<Longrightarrow> \<exists>x. list_adapters_request_unpack R buf p = Inr x"
    "verified (config_request_verify R buf p) \<Longrightarrow> \<exists>x. config_request_unpack R buf p = Inr x"
    "verified (job_status_request_verify R buf p) \<Longrightarrow> \<exists>x. job_status_request_unpack R buf p = Inr x"
    "verified (daemon_status_request_verify R buf p) \<Longrightarrow> \<exists>x. daemon_status_request_unpack R buf p = Inr x"
    "verified (list_jobs_request_verify R buf p) \<Longrightarrow> \<exists>x. list_jobs_request_unpack R buf p = Inr x"
    "verified (network_status_request_verify R buf p) \<Longrightarrow> \<exists>x. network_status_request_unpack R buf p = Inr
        x"
    "verified (wifi_status_request_verify R buf p) \<Longrightarrow> \<exists>x. wifi_status_request_unpack R buf p = Inr x"
    "verified (wifi_scan_request_verify R buf p) \<Longrightarrow> \<exists>x. wifi_scan_request_unpack R buf p = Inr x"
    "verified (shutdown_request_verify R buf p) \<Longrightarrow> \<exists>x. shutdown_request_unpack R buf p = Inr x"
  by (auto simp: message_defs generated get_default[OF C]
      dest!: verified_table[OF C] verified_then verified_required[OF C])

lemma responses_total:
  assumes C: "checks_soundly R"
  shows "verified (ping_response_verify R buf p) \<Longrightarrow> \<exists>x. ping_response_unpack R buf p = Inr x"
    "verified (capabilities_response_verify R buf p) \<Longrightarrow> \<exists>x. capabilities_response_unpack R buf p = Inr x"
    "verified (list_adapters_response_verify R buf p) \<Longrightarrow> \<exists>x. list_adapters_response_unpack R buf p = Inr
        x"
    "verified (validate_config_response_verify R buf p) \<Longrightarrow> \<exists>x. validate_config_response_unpack R buf p =
        Inr x"
    "verified (plan_config_response_verify R buf p) \<Longrightarrow> \<exists>x. plan_config_response_unpack R buf p = Inr x"
    "verified (apply_config_response_verify R buf p) \<Longrightarrow> \<exists>x. apply_config_response_unpack R buf p = Inr x"
    "verified (job_status_response_verify R buf p) \<Longrightarrow> \<exists>x. job_status_response_unpack R buf p = Inr x"
    "verified (daemon_status_response_verify R buf p) \<Longrightarrow> \<exists>x. daemon_status_response_unpack R buf p = Inr
        x"
    "verified (list_jobs_response_verify R buf p) \<Longrightarrow> \<exists>x. list_jobs_response_unpack R buf p = Inr x"
    "verified (network_status_response_verify R buf p) \<Longrightarrow> \<exists>x. network_status_response_unpack R buf p =
        Inr x"
    "verified (wifi_status_response_verify R buf p) \<Longrightarrow> \<exists>x. wifi_status_response_unpack R buf p = Inr x"
    "verified (wifi_scan_response_verify R buf p) \<Longrightarrow> \<exists>x. wifi_scan_response_unpack R buf p = Inr x"
    "verified (shutdown_response_verify R buf p) \<Longrightarrow> \<exists>x. shutdown_response_unpack R buf p = Inr x"
    "verified (error_response_verify R buf p) \<Longrightarrow> \<exists>x. error_response_unpack R buf p = Inr x"
  by (auto simp: message_defs generated get_default[OF C]
      dest!: verified_table[OF C] verified_then verified_required[OF C]
        verified_tables[OF C, where check = "capability_verify R buf", OF _ capability_total[OF C]]
        verified_tables[OF C, where check = "adapter_verify R buf", OF _ adapter_total[OF C]]
        verified_tables[OF C, where check = "validation_issue_verify R buf", OF _
            validation_issue_total[OF C]]
        verified_tables[OF C, where check = "operation_verify R buf", OF _ operation_total[OF C]]
        verified_tables[OF C, where check = "job_summary_verify R buf", OF _ job_summary_total[OF C]]
        verified_tables[OF C, where check = "wifi_interface_status_verify R buf", OF _
            wifi_interface_status_total[OF C]]
        verified_tables[OF C, where check = "wifi_network_verify R buf", OF _ wifi_network_total[OF C]])

end
