(* ===== verification/Wire_Envelope.thy ===== *)
theory Wire_Envelope
  imports Wire_Messages
begin

text \<open>
  The union \<open>Payload\<close> and the root table \<open>Envelope\<close> of \<open>protocol/ipc_generated.rs\<close>, with the functions that
  finish and open a buffer, and their contract: an envelope that was packed is unpacked to itself, and no
  buffer that passes verification makes \<open>unpack\<close> panic.
\<close>

named_theorems payload_tags \<open>the discriminants of the union\<close>
named_theorems payload_accessors \<open>the accessors \<open>payload_as_*\<close>\<close>

section \<open>The union of payloads\<close>

definition PAYLOAD_NONE :: "8 word" where [payload_tags]: "PAYLOAD_NONE = 0"
definition PAYLOAD_PING_REQUEST :: "8 word" where [payload_tags]: "PAYLOAD_PING_REQUEST = 1"
definition PAYLOAD_PING_RESPONSE :: "8 word" where [payload_tags]: "PAYLOAD_PING_RESPONSE = 2"
definition PAYLOAD_CAPABILITIES_REQUEST :: "8 word" where [payload_tags]: "PAYLOAD_CAPABILITIES_REQUEST
    = 3"
definition PAYLOAD_CAPABILITIES_RESPONSE :: "8 word" where [payload_tags]:
    "PAYLOAD_CAPABILITIES_RESPONSE = 4"
definition PAYLOAD_LIST_ADAPTERS_REQUEST :: "8 word" where [payload_tags]:
    "PAYLOAD_LIST_ADAPTERS_REQUEST = 5"
definition PAYLOAD_LIST_ADAPTERS_RESPONSE :: "8 word" where [payload_tags]:
    "PAYLOAD_LIST_ADAPTERS_RESPONSE = 6"
definition PAYLOAD_CONFIG_REQUEST :: "8 word" where [payload_tags]: "PAYLOAD_CONFIG_REQUEST = 7"
definition PAYLOAD_VALIDATE_CONFIG_RESPONSE :: "8 word" where [payload_tags]:
    "PAYLOAD_VALIDATE_CONFIG_RESPONSE = 8"
definition PAYLOAD_PLAN_CONFIG_RESPONSE :: "8 word" where [payload_tags]: "PAYLOAD_PLAN_CONFIG_RESPONSE
    = 9"
definition PAYLOAD_APPLY_CONFIG_RESPONSE :: "8 word" where [payload_tags]:
    "PAYLOAD_APPLY_CONFIG_RESPONSE = 10"
definition PAYLOAD_JOB_STATUS_REQUEST :: "8 word" where [payload_tags]: "PAYLOAD_JOB_STATUS_REQUEST =
    11"
definition PAYLOAD_JOB_STATUS_RESPONSE :: "8 word" where [payload_tags]: "PAYLOAD_JOB_STATUS_RESPONSE =
    12"
definition PAYLOAD_ERROR_RESPONSE :: "8 word" where [payload_tags]: "PAYLOAD_ERROR_RESPONSE = 13"
definition PAYLOAD_DAEMON_STATUS_REQUEST :: "8 word" where [payload_tags]:
    "PAYLOAD_DAEMON_STATUS_REQUEST = 14"
definition PAYLOAD_DAEMON_STATUS_RESPONSE :: "8 word" where [payload_tags]:
    "PAYLOAD_DAEMON_STATUS_RESPONSE = 15"
definition PAYLOAD_LIST_JOBS_REQUEST :: "8 word" where [payload_tags]: "PAYLOAD_LIST_JOBS_REQUEST = 16"
definition PAYLOAD_LIST_JOBS_RESPONSE :: "8 word" where [payload_tags]: "PAYLOAD_LIST_JOBS_RESPONSE =
    17"
definition PAYLOAD_NETWORK_STATUS_REQUEST :: "8 word" where [payload_tags]:
    "PAYLOAD_NETWORK_STATUS_REQUEST = 18"
definition PAYLOAD_NETWORK_STATUS_RESPONSE :: "8 word" where [payload_tags]:
    "PAYLOAD_NETWORK_STATUS_RESPONSE = 19"
definition PAYLOAD_WIFI_STATUS_REQUEST :: "8 word" where [payload_tags]: "PAYLOAD_WIFI_STATUS_REQUEST =
    20"
definition PAYLOAD_WIFI_STATUS_RESPONSE :: "8 word" where [payload_tags]: "PAYLOAD_WIFI_STATUS_RESPONSE
    = 21"
definition PAYLOAD_WIFI_SCAN_REQUEST :: "8 word" where [payload_tags]: "PAYLOAD_WIFI_SCAN_REQUEST = 22"
definition PAYLOAD_WIFI_SCAN_RESPONSE :: "8 word" where [payload_tags]: "PAYLOAD_WIFI_SCAN_RESPONSE =
    23"
definition PAYLOAD_SHUTDOWN_REQUEST :: "8 word" where [payload_tags]: "PAYLOAD_SHUTDOWN_REQUEST = 24"
definition PAYLOAD_SHUTDOWN_RESPONSE :: "8 word" where [payload_tags]: "PAYLOAD_SHUTDOWN_RESPONSE = 25"

fun payload_type :: "payload_t \<Rightarrow> 8 word" where
  "payload_type PayloadNone = PAYLOAD_NONE"
| "payload_type PingRequest = PAYLOAD_PING_REQUEST"
| "payload_type (PingResponse a b) = PAYLOAD_PING_RESPONSE"
| "payload_type CapabilitiesRequest = PAYLOAD_CAPABILITIES_REQUEST"
| "payload_type (CapabilitiesResponse a) = PAYLOAD_CAPABILITIES_RESPONSE"
| "payload_type ListAdaptersRequest = PAYLOAD_LIST_ADAPTERS_REQUEST"
| "payload_type (ListAdaptersResponse a) = PAYLOAD_LIST_ADAPTERS_RESPONSE"
| "payload_type (ConfigRequest a b c d) = PAYLOAD_CONFIG_REQUEST"
| "payload_type (ValidateConfigResponse a b) = PAYLOAD_VALIDATE_CONFIG_RESPONSE"
| "payload_type (PlanConfigResponse a) = PAYLOAD_PLAN_CONFIG_RESPONSE"
| "payload_type (ApplyConfigResponse a b c) = PAYLOAD_APPLY_CONFIG_RESPONSE"
| "payload_type (JobStatusRequest a) = PAYLOAD_JOB_STATUS_REQUEST"
| "payload_type (JobStatusResponse a b c) = PAYLOAD_JOB_STATUS_RESPONSE"
| "payload_type (ErrorResponse a b) = PAYLOAD_ERROR_RESPONSE"
| "payload_type DaemonStatusRequest = PAYLOAD_DAEMON_STATUS_REQUEST"
| "payload_type (DaemonStatusResponse a b c d e f g h i j) = PAYLOAD_DAEMON_STATUS_RESPONSE"
| "payload_type (ListJobsRequest a b c) = PAYLOAD_LIST_JOBS_REQUEST"
| "payload_type (ListJobsResponse a b) = PAYLOAD_LIST_JOBS_RESPONSE"
| "payload_type NetworkStatusRequest = PAYLOAD_NETWORK_STATUS_REQUEST"
| "payload_type (NetworkStatusResponse a b c d) = PAYLOAD_NETWORK_STATUS_RESPONSE"
| "payload_type (WifiStatusRequest a b) = PAYLOAD_WIFI_STATUS_REQUEST"
| "payload_type (WifiStatusResponse a) = PAYLOAD_WIFI_STATUS_RESPONSE"
| "payload_type (WifiScanRequest a b c d) = PAYLOAD_WIFI_SCAN_REQUEST"
| "payload_type (WifiScanResponse a b) = PAYLOAD_WIFI_SCAN_RESPONSE"
| "payload_type ShutdownRequest = PAYLOAD_SHUTDOWN_REQUEST"
| "payload_type ShutdownResponse = PAYLOAD_SHUTDOWN_RESPONSE"

fun payload_pack :: "('s, 'v) fb_runtime \<Rightarrow> payload_t \<Rightarrow> ('s, panic, nat option) eff" where
  "payload_pack R PayloadNone = returnE None"
| "payload_pack R PingRequest = bindE (ping_request_pack R) (\<lambda>v. returnE (Some v))"
| "payload_pack R (PingResponse a b) = bindE (ping_response_pack R a b) (\<lambda>v. returnE (Some v))"
| "payload_pack R CapabilitiesRequest = bindE (capabilities_request_pack R) (\<lambda>v. returnE (Some v))"
| "payload_pack R (CapabilitiesResponse a) = bindE (capabilities_response_pack R a) (\<lambda>v. returnE (Some
    v))"
| "payload_pack R ListAdaptersRequest = bindE (list_adapters_request_pack R) (\<lambda>v. returnE (Some v))"
| "payload_pack R (ListAdaptersResponse a) = bindE (list_adapters_response_pack R a) (\<lambda>v. returnE (Some
    v))"
| "payload_pack R (ConfigRequest a b c d) = bindE (config_request_pack R a b c d) (\<lambda>v. returnE (Some
    v))"
| "payload_pack R (ValidateConfigResponse a b) = bindE (validate_config_response_pack R a b) (\<lambda>v.
    returnE (Some v))"
| "payload_pack R (PlanConfigResponse a) = bindE (plan_config_response_pack R a) (\<lambda>v. returnE (Some v))"
| "payload_pack R (ApplyConfigResponse a b c) = bindE (apply_config_response_pack R a b c) (\<lambda>v. returnE
    (Some v))"
| "payload_pack R (JobStatusRequest a) = bindE (job_status_request_pack R a) (\<lambda>v. returnE (Some v))"
| "payload_pack R (JobStatusResponse a b c) = bindE (job_status_response_pack R a b c) (\<lambda>v. returnE
    (Some v))"
| "payload_pack R (ErrorResponse a b) = bindE (error_response_pack R a b) (\<lambda>v. returnE (Some v))"
| "payload_pack R DaemonStatusRequest = bindE (daemon_status_request_pack R) (\<lambda>v. returnE (Some v))"
| "payload_pack R (DaemonStatusResponse a b c d e f g h i j) = bindE (daemon_status_response_pack R a b
    c d e f g h i j) (\<lambda>v. returnE (Some v))"
| "payload_pack R (ListJobsRequest a b c) = bindE (list_jobs_request_pack R a b c) (\<lambda>v. returnE (Some
    v))"
| "payload_pack R (ListJobsResponse a b) = bindE (list_jobs_response_pack R a b) (\<lambda>v. returnE (Some v))"
| "payload_pack R NetworkStatusRequest = bindE (network_status_request_pack R) (\<lambda>v. returnE (Some v))"
| "payload_pack R (NetworkStatusResponse a b c d) = bindE (network_status_response_pack R a b c d) (\<lambda>v.
    returnE (Some v))"
| "payload_pack R (WifiStatusRequest a b) = bindE (wifi_status_request_pack R a b) (\<lambda>v. returnE (Some
    v))"
| "payload_pack R (WifiStatusResponse a) = bindE (wifi_status_response_pack R a) (\<lambda>v. returnE (Some v))"
| "payload_pack R (WifiScanRequest a b c d) = bindE (wifi_scan_request_pack R a b c d) (\<lambda>v. returnE
    (Some v))"
| "payload_pack R (WifiScanResponse a b) = bindE (wifi_scan_response_pack R a b) (\<lambda>v. returnE (Some v))"
| "payload_pack R ShutdownRequest = bindE (shutdown_request_pack R) (\<lambda>v. returnE (Some v))"
| "payload_pack R ShutdownResponse = bindE (shutdown_response_pack R) (\<lambda>v. returnE (Some v))"


section \<open>The envelope\<close>

definition VT_ENVELOPE_PROTOCOL_VERSION :: nat where [generated]: "VT_ENVELOPE_PROTOCOL_VERSION = 4"
definition VT_ENVELOPE_REQUEST_ID :: nat where [generated]: "VT_ENVELOPE_REQUEST_ID = 6"
definition VT_ENVELOPE_PAYLOAD_TYPE :: nat where [generated]: "VT_ENVELOPE_PAYLOAD_TYPE = 8"
definition VT_ENVELOPE_PAYLOAD :: nat where [generated]: "VT_ENVELOPE_PAYLOAD = 10"

definition envelope_add_protocol_version :: "('s, 'v) fb_runtime \<Rightarrow> 32 word
    \<Rightarrow> ('s, panic, unit) eff" where [generated]:
  "envelope_add_protocol_version R x = rt_push_slot R VT_ENVELOPE_PROTOCOL_VERSION (S32 x) (S32 1)"

definition envelope_add_request_id :: "('s, 'v) fb_runtime \<Rightarrow> 64 word \<Rightarrow> ('s, panic, unit) eff" where [generated]:
  "envelope_add_request_id R x = rt_push_slot R VT_ENVELOPE_REQUEST_ID (S64 x) (S64 0)"

definition envelope_add_payload_type :: "('s, 'v) fb_runtime \<Rightarrow> 8 word
    \<Rightarrow> ('s, panic, unit) eff" where [generated]:
  "envelope_add_payload_type R x = rt_push_slot R VT_ENVELOPE_PAYLOAD_TYPE (S8 x) (S8 PAYLOAD_NONE)"

definition envelope_add_payload :: "('s, 'v) fb_runtime \<Rightarrow> nat \<Rightarrow> ('s, panic, unit) eff" where [generated]:
  "envelope_add_payload R = rt_push_offset R VT_ENVELOPE_PAYLOAD"

definition envelope_finish :: "('s, 'v) fb_runtime \<Rightarrow> nat \<Rightarrow> ('s, panic, nat) eff" where [generated]:
  "envelope_finish R = finish_table R []"

definition envelope_create :: "('s, 'v) fb_runtime \<Rightarrow> 32 word \<Rightarrow> 64 word \<Rightarrow> 8 word \<Rightarrow> nat option
    \<Rightarrow> ('s, panic, nat) eff" where [generated]:
  "envelope_create R protocol_version request_id tag payload =
    bindE (rt_start_table R) (\<lambda>builder.
    thenE (envelope_add_request_id R request_id) (
    thenE (for_some payload (envelope_add_payload R)) (
    thenE (envelope_add_protocol_version R protocol_version) (
    thenE (envelope_add_payload_type R tag) (
    envelope_finish R builder)))))"

definition envelope_get_protocol_version :: "('s, 'v) fb_runtime \<Rightarrow> string \<Rightarrow> nat
    \<Rightarrow> panic + 32 word" where [generated]:
  "envelope_get_protocol_version R buf t = ok_or (rt_get_u32 R buf t VT_ENVELOPE_PROTOCOL_VERSION (Some 1))
      Unwrap_None"

definition envelope_get_request_id :: "('s, 'v) fb_runtime \<Rightarrow> string \<Rightarrow> nat \<Rightarrow> panic + 64 word" where [generated]:
  "envelope_get_request_id R buf t = ok_or (rt_get_u64 R buf t VT_ENVELOPE_REQUEST_ID (Some 0)) Unwrap_None"

definition envelope_get_payload_type :: "('s, 'v) fb_runtime \<Rightarrow> string \<Rightarrow> nat \<Rightarrow> panic + 8 word" where [generated]:
  "envelope_get_payload_type R buf t = ok_or (rt_get_u8 R buf t VT_ENVELOPE_PAYLOAD_TYPE (Some PAYLOAD_NONE))
      Unwrap_None"

definition envelope_get_payload :: "('s, 'v) fb_runtime \<Rightarrow> string \<Rightarrow> nat \<Rightarrow> nat option" where [generated]:
  "envelope_get_payload R buf t = rt_get_table R buf t VT_ENVELOPE_PAYLOAD"

definition payload_as_ping_request :: "('s, 'v) fb_runtime \<Rightarrow> string \<Rightarrow> nat
    \<Rightarrow> panic + nat option" where [payload_accessors]:
  "payload_as_ping_request R buf t = bindR (envelope_get_payload_type R buf t) (\<lambda>tag.
    Inr (if tag = PAYLOAD_PING_REQUEST then envelope_get_payload R buf t else None))"

definition payload_as_ping_response :: "('s, 'v) fb_runtime \<Rightarrow> string \<Rightarrow> nat
    \<Rightarrow> panic + nat option" where [payload_accessors]:
  "payload_as_ping_response R buf t = bindR (envelope_get_payload_type R buf t) (\<lambda>tag.
    Inr (if tag = PAYLOAD_PING_RESPONSE then envelope_get_payload R buf t else None))"

definition payload_as_capabilities_request :: "('s, 'v) fb_runtime \<Rightarrow> string \<Rightarrow> nat
    \<Rightarrow> panic + nat option" where [payload_accessors]:
  "payload_as_capabilities_request R buf t = bindR (envelope_get_payload_type R buf t) (\<lambda>tag.
    Inr (if tag = PAYLOAD_CAPABILITIES_REQUEST then envelope_get_payload R buf t else None))"

definition payload_as_capabilities_response :: "('s, 'v) fb_runtime \<Rightarrow> string \<Rightarrow> nat
    \<Rightarrow> panic + nat option" where [payload_accessors]:
  "payload_as_capabilities_response R buf t = bindR (envelope_get_payload_type R buf t) (\<lambda>tag.
    Inr (if tag = PAYLOAD_CAPABILITIES_RESPONSE then envelope_get_payload R buf t else None))"

definition payload_as_list_adapters_request :: "('s, 'v) fb_runtime \<Rightarrow> string \<Rightarrow> nat
    \<Rightarrow> panic + nat option" where [payload_accessors]:
  "payload_as_list_adapters_request R buf t = bindR (envelope_get_payload_type R buf t) (\<lambda>tag.
    Inr (if tag = PAYLOAD_LIST_ADAPTERS_REQUEST then envelope_get_payload R buf t else None))"

definition payload_as_list_adapters_response :: "('s, 'v) fb_runtime \<Rightarrow> string \<Rightarrow> nat
    \<Rightarrow> panic + nat option" where [payload_accessors]:
  "payload_as_list_adapters_response R buf t = bindR (envelope_get_payload_type R buf t) (\<lambda>tag.
    Inr (if tag = PAYLOAD_LIST_ADAPTERS_RESPONSE then envelope_get_payload R buf t else None))"

definition payload_as_config_request :: "('s, 'v) fb_runtime \<Rightarrow> string \<Rightarrow> nat
    \<Rightarrow> panic + nat option" where [payload_accessors]:
  "payload_as_config_request R buf t = bindR (envelope_get_payload_type R buf t) (\<lambda>tag.
    Inr (if tag = PAYLOAD_CONFIG_REQUEST then envelope_get_payload R buf t else None))"

definition payload_as_validate_config_response :: "('s, 'v) fb_runtime \<Rightarrow> string \<Rightarrow> nat
    \<Rightarrow> panic + nat option" where [payload_accessors]:
  "payload_as_validate_config_response R buf t = bindR (envelope_get_payload_type R buf t) (\<lambda>tag.
    Inr (if tag = PAYLOAD_VALIDATE_CONFIG_RESPONSE then envelope_get_payload R buf t else None))"

definition payload_as_plan_config_response :: "('s, 'v) fb_runtime \<Rightarrow> string \<Rightarrow> nat
    \<Rightarrow> panic + nat option" where [payload_accessors]:
  "payload_as_plan_config_response R buf t = bindR (envelope_get_payload_type R buf t) (\<lambda>tag.
    Inr (if tag = PAYLOAD_PLAN_CONFIG_RESPONSE then envelope_get_payload R buf t else None))"

definition payload_as_apply_config_response :: "('s, 'v) fb_runtime \<Rightarrow> string \<Rightarrow> nat
    \<Rightarrow> panic + nat option" where [payload_accessors]:
  "payload_as_apply_config_response R buf t = bindR (envelope_get_payload_type R buf t) (\<lambda>tag.
    Inr (if tag = PAYLOAD_APPLY_CONFIG_RESPONSE then envelope_get_payload R buf t else None))"

definition payload_as_job_status_request :: "('s, 'v) fb_runtime \<Rightarrow> string \<Rightarrow> nat
    \<Rightarrow> panic + nat option" where [payload_accessors]:
  "payload_as_job_status_request R buf t = bindR (envelope_get_payload_type R buf t) (\<lambda>tag.
    Inr (if tag = PAYLOAD_JOB_STATUS_REQUEST then envelope_get_payload R buf t else None))"

definition payload_as_job_status_response :: "('s, 'v) fb_runtime \<Rightarrow> string \<Rightarrow> nat
    \<Rightarrow> panic + nat option" where [payload_accessors]:
  "payload_as_job_status_response R buf t = bindR (envelope_get_payload_type R buf t) (\<lambda>tag.
    Inr (if tag = PAYLOAD_JOB_STATUS_RESPONSE then envelope_get_payload R buf t else None))"

definition payload_as_error_response :: "('s, 'v) fb_runtime \<Rightarrow> string \<Rightarrow> nat
    \<Rightarrow> panic + nat option" where [payload_accessors]:
  "payload_as_error_response R buf t = bindR (envelope_get_payload_type R buf t) (\<lambda>tag.
    Inr (if tag = PAYLOAD_ERROR_RESPONSE then envelope_get_payload R buf t else None))"

definition payload_as_daemon_status_request :: "('s, 'v) fb_runtime \<Rightarrow> string \<Rightarrow> nat
    \<Rightarrow> panic + nat option" where [payload_accessors]:
  "payload_as_daemon_status_request R buf t = bindR (envelope_get_payload_type R buf t) (\<lambda>tag.
    Inr (if tag = PAYLOAD_DAEMON_STATUS_REQUEST then envelope_get_payload R buf t else None))"

definition payload_as_daemon_status_response :: "('s, 'v) fb_runtime \<Rightarrow> string \<Rightarrow> nat
    \<Rightarrow> panic + nat option" where [payload_accessors]:
  "payload_as_daemon_status_response R buf t = bindR (envelope_get_payload_type R buf t) (\<lambda>tag.
    Inr (if tag = PAYLOAD_DAEMON_STATUS_RESPONSE then envelope_get_payload R buf t else None))"

definition payload_as_list_jobs_request :: "('s, 'v) fb_runtime \<Rightarrow> string \<Rightarrow> nat
    \<Rightarrow> panic + nat option" where [payload_accessors]:
  "payload_as_list_jobs_request R buf t = bindR (envelope_get_payload_type R buf t) (\<lambda>tag.
    Inr (if tag = PAYLOAD_LIST_JOBS_REQUEST then envelope_get_payload R buf t else None))"

definition payload_as_list_jobs_response :: "('s, 'v) fb_runtime \<Rightarrow> string \<Rightarrow> nat
    \<Rightarrow> panic + nat option" where [payload_accessors]:
  "payload_as_list_jobs_response R buf t = bindR (envelope_get_payload_type R buf t) (\<lambda>tag.
    Inr (if tag = PAYLOAD_LIST_JOBS_RESPONSE then envelope_get_payload R buf t else None))"

definition payload_as_network_status_request :: "('s, 'v) fb_runtime \<Rightarrow> string \<Rightarrow> nat
    \<Rightarrow> panic + nat option" where [payload_accessors]:
  "payload_as_network_status_request R buf t = bindR (envelope_get_payload_type R buf t) (\<lambda>tag.
    Inr (if tag = PAYLOAD_NETWORK_STATUS_REQUEST then envelope_get_payload R buf t else None))"

definition payload_as_network_status_response :: "('s, 'v) fb_runtime \<Rightarrow> string \<Rightarrow> nat
    \<Rightarrow> panic + nat option" where [payload_accessors]:
  "payload_as_network_status_response R buf t = bindR (envelope_get_payload_type R buf t) (\<lambda>tag.
    Inr (if tag = PAYLOAD_NETWORK_STATUS_RESPONSE then envelope_get_payload R buf t else None))"

definition payload_as_wifi_status_request :: "('s, 'v) fb_runtime \<Rightarrow> string \<Rightarrow> nat
    \<Rightarrow> panic + nat option" where [payload_accessors]:
  "payload_as_wifi_status_request R buf t = bindR (envelope_get_payload_type R buf t) (\<lambda>tag.
    Inr (if tag = PAYLOAD_WIFI_STATUS_REQUEST then envelope_get_payload R buf t else None))"

definition payload_as_wifi_status_response :: "('s, 'v) fb_runtime \<Rightarrow> string \<Rightarrow> nat
    \<Rightarrow> panic + nat option" where [payload_accessors]:
  "payload_as_wifi_status_response R buf t = bindR (envelope_get_payload_type R buf t) (\<lambda>tag.
    Inr (if tag = PAYLOAD_WIFI_STATUS_RESPONSE then envelope_get_payload R buf t else None))"

definition payload_as_wifi_scan_request :: "('s, 'v) fb_runtime \<Rightarrow> string \<Rightarrow> nat
    \<Rightarrow> panic + nat option" where [payload_accessors]:
  "payload_as_wifi_scan_request R buf t = bindR (envelope_get_payload_type R buf t) (\<lambda>tag.
    Inr (if tag = PAYLOAD_WIFI_SCAN_REQUEST then envelope_get_payload R buf t else None))"

definition payload_as_wifi_scan_response :: "('s, 'v) fb_runtime \<Rightarrow> string \<Rightarrow> nat
    \<Rightarrow> panic + nat option" where [payload_accessors]:
  "payload_as_wifi_scan_response R buf t = bindR (envelope_get_payload_type R buf t) (\<lambda>tag.
    Inr (if tag = PAYLOAD_WIFI_SCAN_RESPONSE then envelope_get_payload R buf t else None))"

definition payload_as_shutdown_request :: "('s, 'v) fb_runtime \<Rightarrow> string \<Rightarrow> nat
    \<Rightarrow> panic + nat option" where [payload_accessors]:
  "payload_as_shutdown_request R buf t = bindR (envelope_get_payload_type R buf t) (\<lambda>tag.
    Inr (if tag = PAYLOAD_SHUTDOWN_REQUEST then envelope_get_payload R buf t else None))"

definition payload_as_shutdown_response :: "('s, 'v) fb_runtime \<Rightarrow> string \<Rightarrow> nat
    \<Rightarrow> panic + nat option" where [payload_accessors]:
  "payload_as_shutdown_response R buf t = bindR (envelope_get_payload_type R buf t) (\<lambda>tag.
    Inr (if tag = PAYLOAD_SHUTDOWN_RESPONSE then envelope_get_payload R buf t else None))"

text \<open>The \<open>match\<close> of \<open>unpack\<close> on the type of the payload.\<close>

definition payload_unpack :: "('s, 'v) fb_runtime \<Rightarrow> string \<Rightarrow> nat \<Rightarrow> 8 word \<Rightarrow> panic + payload_t" where
  "payload_unpack R buf t tag =
    (if tag = PAYLOAD_NONE then Inr PayloadNone
     else if tag = PAYLOAD_PING_REQUEST then bindR (payload_as_ping_request R buf t) (\<lambda>m.
       bindR (ok_or m (Expect_Failed ''Invalid union table, expected `Payload::PingRequest`.''))
           (ping_request_unpack R buf))
     else if tag = PAYLOAD_PING_RESPONSE then bindR (payload_as_ping_response R buf t) (\<lambda>m.
       bindR (ok_or m (Expect_Failed ''Invalid union table, expected `Payload::PingResponse`.''))
           (ping_response_unpack R buf))
     else if tag = PAYLOAD_CAPABILITIES_REQUEST then bindR (payload_as_capabilities_request R buf t) (\<lambda>m.
       bindR (ok_or m (Expect_Failed ''Invalid union table, expected `Payload::CapabilitiesRequest`.''))
           (capabilities_request_unpack R buf))
     else if tag = PAYLOAD_CAPABILITIES_RESPONSE then bindR (payload_as_capabilities_response R buf t) (\<lambda>m.
       bindR (ok_or m (Expect_Failed ''Invalid union table, expected `Payload::CapabilitiesResponse`.''))
           (capabilities_response_unpack R buf))
     else if tag = PAYLOAD_LIST_ADAPTERS_REQUEST then bindR (payload_as_list_adapters_request R buf t) (\<lambda>m.
       bindR (ok_or m (Expect_Failed ''Invalid union table, expected `Payload::ListAdaptersRequest`.''))
           (list_adapters_request_unpack R buf))
     else if tag = PAYLOAD_LIST_ADAPTERS_RESPONSE then bindR (payload_as_list_adapters_response R buf t) (\<lambda>m.
       bindR (ok_or m (Expect_Failed ''Invalid union table, expected `Payload::ListAdaptersResponse`.''))
           (list_adapters_response_unpack R buf))
     else if tag = PAYLOAD_CONFIG_REQUEST then bindR (payload_as_config_request R buf t) (\<lambda>m.
       bindR (ok_or m (Expect_Failed ''Invalid union table, expected `Payload::ConfigRequest`.''))
           (config_request_unpack R buf))
     else if tag = PAYLOAD_VALIDATE_CONFIG_RESPONSE then bindR (payload_as_validate_config_response R buf t)
         (\<lambda>m.
       bindR (ok_or m (Expect_Failed ''Invalid union table, expected `Payload::ValidateConfigResponse`.''))
           (validate_config_response_unpack R buf))
     else if tag = PAYLOAD_PLAN_CONFIG_RESPONSE then bindR (payload_as_plan_config_response R buf t) (\<lambda>m.
       bindR (ok_or m (Expect_Failed ''Invalid union table, expected `Payload::PlanConfigResponse`.''))
           (plan_config_response_unpack R buf))
     else if tag = PAYLOAD_APPLY_CONFIG_RESPONSE then bindR (payload_as_apply_config_response R buf t) (\<lambda>m.
       bindR (ok_or m (Expect_Failed ''Invalid union table, expected `Payload::ApplyConfigResponse`.''))
           (apply_config_response_unpack R buf))
     else if tag = PAYLOAD_JOB_STATUS_REQUEST then bindR (payload_as_job_status_request R buf t) (\<lambda>m.
       bindR (ok_or m (Expect_Failed ''Invalid union table, expected `Payload::JobStatusRequest`.''))
           (job_status_request_unpack R buf))
     else if tag = PAYLOAD_JOB_STATUS_RESPONSE then bindR (payload_as_job_status_response R buf t) (\<lambda>m.
       bindR (ok_or m (Expect_Failed ''Invalid union table, expected `Payload::JobStatusResponse`.''))
           (job_status_response_unpack R buf))
     else if tag = PAYLOAD_ERROR_RESPONSE then bindR (payload_as_error_response R buf t) (\<lambda>m.
       bindR (ok_or m (Expect_Failed ''Invalid union table, expected `Payload::ErrorResponse`.''))
           (error_response_unpack R buf))
     else if tag = PAYLOAD_DAEMON_STATUS_REQUEST then bindR (payload_as_daemon_status_request R buf t) (\<lambda>m.
       bindR (ok_or m (Expect_Failed ''Invalid union table, expected `Payload::DaemonStatusRequest`.''))
           (daemon_status_request_unpack R buf))
     else if tag = PAYLOAD_DAEMON_STATUS_RESPONSE then bindR (payload_as_daemon_status_response R buf t) (\<lambda>m.
       bindR (ok_or m (Expect_Failed ''Invalid union table, expected `Payload::DaemonStatusResponse`.''))
           (daemon_status_response_unpack R buf))
     else if tag = PAYLOAD_LIST_JOBS_REQUEST then bindR (payload_as_list_jobs_request R buf t) (\<lambda>m.
       bindR (ok_or m (Expect_Failed ''Invalid union table, expected `Payload::ListJobsRequest`.''))
           (list_jobs_request_unpack R buf))
     else if tag = PAYLOAD_LIST_JOBS_RESPONSE then bindR (payload_as_list_jobs_response R buf t) (\<lambda>m.
       bindR (ok_or m (Expect_Failed ''Invalid union table, expected `Payload::ListJobsResponse`.''))
           (list_jobs_response_unpack R buf))
     else if tag = PAYLOAD_NETWORK_STATUS_REQUEST then bindR (payload_as_network_status_request R buf t) (\<lambda>m.
       bindR (ok_or m (Expect_Failed ''Invalid union table, expected `Payload::NetworkStatusRequest`.''))
           (network_status_request_unpack R buf))
     else if tag = PAYLOAD_NETWORK_STATUS_RESPONSE then bindR (payload_as_network_status_response R buf t) (\<lambda>m.
       bindR (ok_or m (Expect_Failed ''Invalid union table, expected `Payload::NetworkStatusResponse`.''))
           (network_status_response_unpack R buf))
     else if tag = PAYLOAD_WIFI_STATUS_REQUEST then bindR (payload_as_wifi_status_request R buf t) (\<lambda>m.
       bindR (ok_or m (Expect_Failed ''Invalid union table, expected `Payload::WifiStatusRequest`.''))
           (wifi_status_request_unpack R buf))
     else if tag = PAYLOAD_WIFI_STATUS_RESPONSE then bindR (payload_as_wifi_status_response R buf t) (\<lambda>m.
       bindR (ok_or m (Expect_Failed ''Invalid union table, expected `Payload::WifiStatusResponse`.''))
           (wifi_status_response_unpack R buf))
     else if tag = PAYLOAD_WIFI_SCAN_REQUEST then bindR (payload_as_wifi_scan_request R buf t) (\<lambda>m.
       bindR (ok_or m (Expect_Failed ''Invalid union table, expected `Payload::WifiScanRequest`.''))
           (wifi_scan_request_unpack R buf))
     else if tag = PAYLOAD_WIFI_SCAN_RESPONSE then bindR (payload_as_wifi_scan_response R buf t) (\<lambda>m.
       bindR (ok_or m (Expect_Failed ''Invalid union table, expected `Payload::WifiScanResponse`.''))
           (wifi_scan_response_unpack R buf))
     else if tag = PAYLOAD_SHUTDOWN_REQUEST then bindR (payload_as_shutdown_request R buf t) (\<lambda>m.
       bindR (ok_or m (Expect_Failed ''Invalid union table, expected `Payload::ShutdownRequest`.''))
           (shutdown_request_unpack R buf))
     else if tag = PAYLOAD_SHUTDOWN_RESPONSE then bindR (payload_as_shutdown_response R buf t) (\<lambda>m.
       bindR (ok_or m (Expect_Failed ''Invalid union table, expected `Payload::ShutdownResponse`.''))
           (shutdown_response_unpack R buf))
     else Inr PayloadNone)"

definition envelope_unpack :: "('s, 'v) fb_runtime \<Rightarrow> string \<Rightarrow> nat \<Rightarrow> panic + envelope_t" where
  "envelope_unpack R buf t =
    bindR (envelope_get_protocol_version R buf t) (\<lambda>protocol_version.
    bindR (envelope_get_request_id R buf t) (\<lambda>request_id.
    bindR (envelope_get_payload_type R buf t) (\<lambda>tag.
    bindR (payload_unpack R buf t tag) (\<lambda>payload.
    Inr \<lparr>env_protocol_version = protocol_version, env_request_id = request_id, env_payload = payload\<rparr>))))"

text \<open>The closure that \<open>run_verifier\<close> passes to \<open>visit_union\<close>.\<close>

definition payload_verify :: "('s, 'v) fb_runtime \<Rightarrow> string \<Rightarrow> 8 word \<Rightarrow> nat \<Rightarrow> ('v, string, unit) eff" where
  "payload_verify R buf key pos =
    (if key = PAYLOAD_PING_REQUEST then rt_union_variant R buf (ping_request_verify R buf)
        ''Payload::PingRequest'' pos
     else if key = PAYLOAD_PING_RESPONSE then rt_union_variant R buf (ping_response_verify R buf)
         ''Payload::PingResponse'' pos
     else if key = PAYLOAD_CAPABILITIES_REQUEST then rt_union_variant R buf (capabilities_request_verify R buf)
         ''Payload::CapabilitiesRequest'' pos
     else if key = PAYLOAD_CAPABILITIES_RESPONSE then rt_union_variant R buf (capabilities_response_verify R
         buf) ''Payload::CapabilitiesResponse'' pos
     else if key = PAYLOAD_LIST_ADAPTERS_REQUEST then rt_union_variant R buf (list_adapters_request_verify R
         buf) ''Payload::ListAdaptersRequest'' pos
     else if key = PAYLOAD_LIST_ADAPTERS_RESPONSE then rt_union_variant R buf (list_adapters_response_verify R
         buf) ''Payload::ListAdaptersResponse'' pos
     else if key = PAYLOAD_CONFIG_REQUEST then rt_union_variant R buf (config_request_verify R buf)
         ''Payload::ConfigRequest'' pos
     else if key = PAYLOAD_VALIDATE_CONFIG_RESPONSE then rt_union_variant R buf (validate_config_response_verify
         R buf) ''Payload::ValidateConfigResponse'' pos
     else if key = PAYLOAD_PLAN_CONFIG_RESPONSE then rt_union_variant R buf (plan_config_response_verify R buf)
         ''Payload::PlanConfigResponse'' pos
     else if key = PAYLOAD_APPLY_CONFIG_RESPONSE then rt_union_variant R buf (apply_config_response_verify R
         buf) ''Payload::ApplyConfigResponse'' pos
     else if key = PAYLOAD_JOB_STATUS_REQUEST then rt_union_variant R buf (job_status_request_verify R buf)
         ''Payload::JobStatusRequest'' pos
     else if key = PAYLOAD_JOB_STATUS_RESPONSE then rt_union_variant R buf (job_status_response_verify R buf)
         ''Payload::JobStatusResponse'' pos
     else if key = PAYLOAD_ERROR_RESPONSE then rt_union_variant R buf (error_response_verify R buf)
         ''Payload::ErrorResponse'' pos
     else if key = PAYLOAD_DAEMON_STATUS_REQUEST then rt_union_variant R buf (daemon_status_request_verify R
         buf) ''Payload::DaemonStatusRequest'' pos
     else if key = PAYLOAD_DAEMON_STATUS_RESPONSE then rt_union_variant R buf (daemon_status_response_verify R
         buf) ''Payload::DaemonStatusResponse'' pos
     else if key = PAYLOAD_LIST_JOBS_REQUEST then rt_union_variant R buf (list_jobs_request_verify R buf)
         ''Payload::ListJobsRequest'' pos
     else if key = PAYLOAD_LIST_JOBS_RESPONSE then rt_union_variant R buf (list_jobs_response_verify R buf)
         ''Payload::ListJobsResponse'' pos
     else if key = PAYLOAD_NETWORK_STATUS_REQUEST then rt_union_variant R buf (network_status_request_verify R
         buf) ''Payload::NetworkStatusRequest'' pos
     else if key = PAYLOAD_NETWORK_STATUS_RESPONSE then rt_union_variant R buf (network_status_response_verify R
         buf) ''Payload::NetworkStatusResponse'' pos
     else if key = PAYLOAD_WIFI_STATUS_REQUEST then rt_union_variant R buf (wifi_status_request_verify R buf)
         ''Payload::WifiStatusRequest'' pos
     else if key = PAYLOAD_WIFI_STATUS_RESPONSE then rt_union_variant R buf (wifi_status_response_verify R buf)
         ''Payload::WifiStatusResponse'' pos
     else if key = PAYLOAD_WIFI_SCAN_REQUEST then rt_union_variant R buf (wifi_scan_request_verify R buf)
         ''Payload::WifiScanRequest'' pos
     else if key = PAYLOAD_WIFI_SCAN_RESPONSE then rt_union_variant R buf (wifi_scan_response_verify R buf)
         ''Payload::WifiScanResponse'' pos
     else if key = PAYLOAD_SHUTDOWN_REQUEST then rt_union_variant R buf (shutdown_request_verify R buf)
         ''Payload::ShutdownRequest'' pos
     else if key = PAYLOAD_SHUTDOWN_RESPONSE then rt_union_variant R buf (shutdown_response_verify R buf)
         ''Payload::ShutdownResponse'' pos
     else returnE ())"

definition envelope_verify :: "('s, 'v) fb_runtime \<Rightarrow> string \<Rightarrow> nat \<Rightarrow> ('v, string, unit) eff" where
  "envelope_verify R buf p =
    bindE (rt_visit_table R buf p) (\<lambda>t.
    thenE (rt_visit_field R buf t U32 ''protocol_version'' VT_ENVELOPE_PROTOCOL_VERSION False) (
    thenE (rt_visit_field R buf t U64 ''request_id'' VT_ENVELOPE_REQUEST_ID False) (
    thenE (rt_visit_union R buf t ''payload_type'' VT_ENVELOPE_PAYLOAD_TYPE ''payload'' VT_ENVELOPE_PAYLOAD
        False
      (payload_verify R buf)) (
    rt_finish_visit R t))))"

definition envelope_pack :: "('s, 'v) fb_runtime \<Rightarrow> envelope_t \<Rightarrow> ('s, panic, nat) eff" where
  "envelope_pack R e =
    bindE (payload_pack R (env_payload e)) (\<lambda>payload.
    envelope_create R (env_protocol_version e) (env_request_id e) (payload_type (env_payload e)) payload)"

definition ENVELOPE_IDENTIFIER :: string where
  "ENVELOPE_IDENTIFIER = ''PNET''"

definition size_prefixed_root_as_envelope :: "('s, 'v) fb_runtime \<Rightarrow> string \<Rightarrow> string + nat" where
  "size_prefixed_root_as_envelope R buf = rt_size_prefixed_root R (envelope_verify R buf) buf"

definition finish_size_prefixed_envelope_buffer :: "('s, 'v) fb_runtime \<Rightarrow> nat \<Rightarrow> ('s, panic, unit) eff" where
  "finish_size_prefixed_envelope_buffer R root = rt_finish_size_prefixed R root ENVELOPE_IDENTIFIER"

section \<open>Contracts\<close>

text \<open>A payload written at \<open>m\<close>, seen from the envelope that refers to it.\<close>

definition payload_at :: "('s, 'v) fb_runtime \<Rightarrow> (string \<Rightarrow> bool) \<Rightarrow> payload_t \<Rightarrow> fb_store \<Rightarrow> nat option \<Rightarrow> bool" where
  "payload_at R limit x S m \<longleftrightarrow>
    (x = PayloadNone \<and> m = None)
    \<or> (payload_type x \<noteq> PAYLOAD_NONE \<and> (\<exists>r f. m = Some r \<and> S r = Some (Obj_Table f) \<and> (\<forall>buf loc. represents R limit S buf loc \<longrightarrow>
        (\<forall>t. envelope_get_payload_type R buf t = Inr (payload_type x) \<longrightarrow>
             envelope_get_payload R buf t = Some (loc r) \<longrightarrow>
             payload_unpack R buf t (payload_type x) = Inr x)
      \<and> (\<forall>pos. (\<forall>variant name. only_limits limit (variant (loc r)) \<longrightarrow>
                  only_limits limit (rt_union_variant R buf variant name pos))
            \<longrightarrow> only_limits limit (payload_verify R buf (payload_type x) pos)))))"

lemma encodes_payload:
  assumes "encodes R limit unpack verify x S r"
    and "\<And>buf t p. envelope_get_payload_type R buf t = Inr (payload_type x) \<Longrightarrow>
      envelope_get_payload R buf t = Some p \<Longrightarrow> payload_unpack R buf t (payload_type x) = unpack buf p"
    and "\<And>buf pos. \<exists>name. payload_verify R buf (payload_type x) pos = rt_union_variant R buf (verify buf) name pos"
    and "payload_type x \<noteq> PAYLOAD_NONE"
  shows "payload_at R limit x S (Some r)"
proof -
  have "payload_unpack R buf t (payload_type x) = Inr x"
    if "represents R limit S buf loc" "envelope_get_payload_type R buf t = Inr (payload_type x)"
      "envelope_get_payload R buf t = Some (loc r)" for buf loc t
    using that assms(1) assms(2)[OF that(2,3)] by (simp add: encodes_def)
  moreover have "only_limits limit (payload_verify R buf (payload_type x) pos)"
    if "represents R limit S buf loc"
      "\<forall>variant name. only_limits limit (variant (loc r)) \<longrightarrow>
        only_limits limit (rt_union_variant R buf variant name pos)" for buf loc pos
    using that assms(1) assms(3)[of buf pos] by (auto simp: encodes_def)
  ultimately show ?thesis using assms(1,4) unfolding payload_at_def encodes_def by blast
qed

lemma payload_packs:
  assumes B: "builds_faithfully R V"
  shows "packs V (payload_pack R x) (payload_at R (vw_limit V) x)"
proof -
  note tables = requests_pack[OF B] responses_pack[OF B]
    and defs = payload_unpack_def payload_verify_def payload_tags payload_accessors generated
  have none: "packs V (payload_pack R PayloadNone) (payload_at R (vw_limit V) PayloadNone)"
    by (auto simp: payload_at_def intro: packs_return)
  show ?thesis
    by (cases x; hypsubst; (rule none | unfold payload_pack.simps))
      (rule packs_bind, rule tables, rule packs_return, intro impI,
        erule encodes_payload, simp add: defs, simp add: defs, rule exI, rule refl, simp add: defs)+
qed

lemma limits_union:
  "table_verifies R limit buf loc S p f \<Longrightarrow> union_fits R limit buf loc S check (f key) (f slot) \<Longrightarrow>
    only_limits limit (rt_visit_union R buf p kname key name slot False check)"
  by (simp add: table_verifies_def)

lemma envelope_packs:
  assumes B: "builds_faithfully R V"
  shows "packs V (envelope_pack R e) (encodes R (vw_limit V) (envelope_unpack R) (envelope_verify R) e)"
proof -
  have unpacks: "envelope_unpack R buf (loc r) = Inr e"
    if rep: "represents R (vw_limit V) S buf loc" and at: "payload_at R (vw_limit V) (env_payload e) S m"
      and t: "table_reads R buf loc S (loc r) f"
      and f: "f 4 = held (S32 (env_protocol_version e)) (S32 1) None" "f 6 = held (S64 (env_request_id e)) (S64 0) None"
        "f 8 = held (S8 (payload_type (env_payload e))) (S8 0) None" "f 10 = map_option Offset m"
    for S buf loc r m f
  proof -
    have tag: "envelope_get_payload_type R buf (loc r) = Inr (payload_type (env_payload e))"
      using t f by (simp add: generated payload_tags reads_slot)
    have "payload_unpack R buf (loc r) (payload_type (env_payload e)) = Inr (env_payload e)"
    proof (cases m)
      case None
      then show ?thesis using at by (simp add: payload_at_def payload_unpack_def)
    next
      case (Some q)
      then obtain g where "S q = Some (Obj_Table g)" using at by (auto simp: payload_at_def)
      then have "envelope_get_payload R buf (loc r) = Some (loc q)"
        using t f Some by (simp add: generated reads_slot)
      then show ?thesis using at rep tag Some unfolding payload_at_def by blast
    qed
    then show ?thesis
      using t f tag by (simp add: envelope_unpack_def generated payload_tags reads_slot)
  qed
  have verifies: "only_limits (vw_limit V) (envelope_verify R buf (loc r))"
    if rep: "represents R (vw_limit V) S buf loc" and at: "payload_at R (vw_limit V) (env_payload e) S m"
      and t: "table_verifies R (vw_limit V) buf loc S (loc r) f"
      and f: "f 4 = held (S32 (env_protocol_version e)) (S32 1) None" "f 6 = held (S64 (env_request_id e)) (S64 0) None"
        "f 8 = held (S8 (payload_type (env_payload e))) (S8 0) None" "f 10 = map_option Offset m"
    for S buf loc r m f
  proof -
    have "union_fits R (vw_limit V) buf loc S (payload_verify R buf) (f 8) (f 10)"
      using at rep f by (auto simp: payload_at_def union_fits_def payload_tags held_def)
    then show ?thesis
      using t f unfolding envelope_verify_def generated
      by (intro limits limits_union, (assumption | simp)+)
  qed
  show ?thesis
    unfolding envelope_pack_def generated payload_tags
    by (rule packs_bind, rule payload_packs[OF B], (rule building B)+, simp, intro impI, erule encodes_table)
      (rule unpacks verifies, assumption, assumption, assumption, simp, simp, simp, simp)+
qed

lemma payload_total:
  assumes C: "checks_soundly R"
    and u: "union_checked R buf t VT_ENVELOPE_PAYLOAD_TYPE VT_ENVELOPE_PAYLOAD False (payload_verify R buf)"
  shows "\<exists>x. payload_unpack R buf t (unwrap_or (rt_get_u8 R buf t VT_ENVELOPE_PAYLOAD_TYPE None) PAYLOAD_NONE) = Inr x"
  using u unfolding union_checked_def
proof (elim disjE exE conjE)
  assume "rt_get_u8 R buf t VT_ENVELOPE_PAYLOAD_TYPE None = None"
  then show ?thesis by (simp add: payload_unpack_def unwrap_or_def)
next
  fix tag p pos
  assume at: "rt_get_u8 R buf t VT_ENVELOPE_PAYLOAD_TYPE None = Some tag" "rt_get_table R buf t VT_ENVELOPE_PAYLOAD = Some p"
    and v: "verified (payload_verify R buf tag pos)"
    and lead: "\<forall>variant name. verified (rt_union_variant R buf variant name pos) \<longrightarrow> verified (variant p)"
  have leads: "\<And>variant name. verified (rt_union_variant R buf variant name pos) \<Longrightarrow> verified (variant p)"
    using lead by blast
  have tag: "envelope_get_payload_type R buf t = Inr tag" "envelope_get_payload R buf t = Some p"
    using at get_default[OF C] by (simp_all add: generated unwrap_or_def)
  show ?thesis
    using v tag at(1)
    by (auto simp: payload_unpack_def payload_verify_def payload_tags payload_accessors unwrap_or_def
        split: if_splits
        dest!: leads requests_total[OF C] responses_total[OF C])
qed

end
