(* ===== verification/Wire_Facts.thy ===== *)
theory Wire_Facts
  imports Wire_Envelope
begin

text \<open>
  The generated code as the protocol uses it: \<open>encode_envelope\<close> of \<open>protocol/mod.rs\<close> over the builder,
  \<open>generated\<close> as an instance of the \<open>flatbuffers\<close> of theory \<open>Protocol\<close>, and the theorems: a frame that passes
  verification is unpacked without a panic, an envelope survives packing and unpacking, and so the
  protocol's messages decode.
\<close>

section \<open>Encoding and decoding\<close>

definition packed_envelope :: "('s, 'v) fb_runtime \<Rightarrow> envelope_t \<Rightarrow> panic + string" where
  "packed_envelope R e =
    (case bindE (envelope_pack R e) (finish_size_prefixed_envelope_buffer R) (rt_new R) of
       (Inr _, builder) \<Rightarrow> Inr (rt_finished_data R builder)
     | (Inl panic, _) \<Rightarrow> Inl panic)"

definition unpacked_envelope :: "('s, 'v) fb_runtime \<Rightarrow> string \<Rightarrow> string + panic + envelope_t" where
  "unpacked_envelope R frame = mapR (envelope_unpack R frame) (size_prefixed_root_as_envelope R frame)"

text \<open>The record that theory \<open>Protocol\<close> is stated over.  It has no panics: an encoder that panics never
  returns a frame, and \<open>verified_frame_unpacks\<close> shows that the decoder does not.\<close>

definition generated :: "('s, 'v) fb_runtime \<Rightarrow> flatbuffers" where
  "generated R = \<lparr>
     fb_pack = \<lambda>e. (case packed_envelope R e of Inr frame \<Rightarrow> frame | Inl _ \<Rightarrow> []),
     fb_has_identifier = \<lambda>frame. rt_has_identifier R frame ''PNET'' True,
     fb_unpack = \<lambda>frame. bindR (unpacked_envelope R frame) (map_errR (\<lambda>_. ''panic''))\<rparr>"

section \<open>Facts\<close>

lemma envelope_total:
  assumes C: "checks_soundly R" and v: "verified (envelope_verify R buf p)"
  shows "\<exists>e. envelope_unpack R buf p = Inr e"
proof -
  have "verified (rt_visit_union R buf p ''payload_type'' VT_ENVELOPE_PAYLOAD_TYPE ''payload'' VT_ENVELOPE_PAYLOAD
      False (payload_verify R buf))"
    using verified_table[OF C v[unfolded envelope_verify_def]] by (auto dest!: verified_then)
  from payload_total[OF C verified_union[OF C this]] show ?thesis
    by (auto simp: envelope_unpack_def envelope_get_protocol_version_def envelope_get_request_id_def
        envelope_get_payload_type_def get_default[OF C])
qed

lemma packed_outcome:
  assumes B: "builds_faithfully R V"
  shows "case packed_envelope R e of
      Inr frame \<Rightarrow> (\<exists>body. frame = to_le_bytes 4 (length body) @ body \<and> body \<noteq> [])
        \<and> rt_has_identifier R frame ''PNET'' True
        \<and> (case unpacked_envelope R frame of Inr r \<Rightarrow> r = Inr e | Inl err \<Rightarrow> vw_limit V err)
    | Inl panic \<Rightarrow> \<exists>m. panic = Builder_Panic m"
proof -
  let ?Q = "\<lambda>_ s'. (\<exists>body. rt_finished_data R s' = to_le_bytes 4 (length body) @ body \<and> body \<noteq> [])
      \<and> rt_has_identifier R (rt_finished_data R s') ''PNET'' True
      \<and> (case unpacked_envelope R (rt_finished_data R s') of Inr r \<Rightarrow> r = Inr e | Inl err \<Rightarrow> vw_limit V err)"
  have new: "vw_pending V (rt_new R) = None" using B by (simp add: builds_faithfully_def)
  have packed: "outcome (\<lambda>r s. vw_pending V s = None \<and> vw_store V (rt_new R) \<subseteq>\<^sub>m vw_store V s
      \<and> (\<forall>S. vw_store V s \<subseteq>\<^sub>m S \<longrightarrow> encodes R (vw_limit V) (envelope_unpack R) (envelope_verify R) e S r))
      (envelope_pack R e (rt_new R))"
    using envelope_packs[OF B] new by (simp add: packs_def)
  have "outcome ?Q (finish_size_prefixed_envelope_buffer R r s)"
    if s: "vw_pending V s = None" "encodes R (vw_limit V) (envelope_unpack R) (envelope_verify R) e (vw_store V s) r"
    for r s
  proof -
    from s(2) obtain f where f: "vw_store V s r = Some (Obj_Table f)" by (auto simp: encodes_def)
    have "outcome (\<lambda>_ s'.
        (\<exists>body. rt_finished_data R s' = to_le_bytes 4 (length body) @ body \<and> body \<noteq> [])
      \<and> rt_has_identifier R (rt_finished_data R s') ''PNET'' True
      \<and> (\<exists>loc. represents R (vw_limit V) (vw_store V s) (rt_finished_data R s') loc
          \<and> (\<forall>check. only_limits (vw_limit V) (check (loc r)) \<longrightarrow>
              (case rt_size_prefixed_root R check (rt_finished_data R s') of
                 Inr p \<Rightarrow> p = loc r | Inl e \<Rightarrow> vw_limit V e))))
      (finish_size_prefixed_envelope_buffer R r s)"
      using B s(1) f by (simp add: builds_faithfully_def finish_size_prefixed_envelope_buffer_def ENVELOPE_IDENTIFIER_def)
    then show ?thesis
    proof (rule outcome_mono)
      fix u s'
      let ?buf = "rt_finished_data R s'"
      assume ready: "(\<exists>body. ?buf = to_le_bytes 4 (length body) @ body \<and> body \<noteq> [])
        \<and> rt_has_identifier R ?buf ''PNET'' True
        \<and> (\<exists>loc. represents R (vw_limit V) (vw_store V s) ?buf loc
            \<and> (\<forall>check. only_limits (vw_limit V) (check (loc r)) \<longrightarrow>
                (case rt_size_prefixed_root R check ?buf of Inr p \<Rightarrow> p = loc r | Inl e \<Rightarrow> vw_limit V e)))"
      then obtain loc where "represents R (vw_limit V) (vw_store V s) ?buf loc"
        and root: "only_limits (vw_limit V) (envelope_verify R ?buf (loc r)) \<Longrightarrow>
          case size_prefixed_root_as_envelope R ?buf of Inr p \<Rightarrow> p = loc r | Inl e \<Rightarrow> vw_limit V e"
        unfolding size_prefixed_root_as_envelope_def by blast
      with s(2) have "envelope_unpack R ?buf (loc r) = Inr e"
        "case size_prefixed_root_as_envelope R ?buf of Inr p \<Rightarrow> p = loc r | Inl e \<Rightarrow> vw_limit V e"
        by (auto simp: encodes_def)
      then have "case unpacked_envelope R ?buf of Inr r \<Rightarrow> r = Inr e | Inl err \<Rightarrow> vw_limit V err"
        by (auto simp: unpacked_envelope_def split: sum.splits)
      with ready show "?Q u s'" by blast
    qed
  qed
  with packed have "outcome ?Q (bindE (envelope_pack R e) (finish_size_prefixed_envelope_buffer R) (rt_new R))"
    by (elim outcome_bind) simp
  then show ?thesis
    by (auto simp: packed_envelope_def outcome_def split: prod.splits sum.splits)
qed

lemma generated_packs:
  assumes B: "builds_faithfully R V" and frame: "packed_envelope R e = Inr frame"
    and size: "length frame \<le> MAX_FRAME_SIZE + 4"
  shows "packs_faithfully (generated R) e
    \<or> (\<exists>err. vw_limit V err \<and> fb_unpack (generated R) frame = Inl err \<and> well_framed frame
        \<and> fb_has_identifier (generated R) frame)"
proof -
  have shape: "\<exists>body. frame = to_le_bytes 4 (length body) @ body \<and> body \<noteq> []" "rt_has_identifier R frame ''PNET'' True"
    "case unpacked_envelope R frame of Inr r \<Rightarrow> r = Inr e | Inl err \<Rightarrow> vw_limit V err"
    using packed_outcome[OF B, of e] frame by auto
  then obtain body where body: "frame = to_le_bytes 4 (length body) @ body" "body \<noteq> []" "length body \<le> MAX_FRAME_SIZE"
    using size by auto
  have "from_le_bytes (to_le_bytes 4 (length body)) = length body"
    using body(3) by (intro from_to_le_bytes) (simp add: MAX_FRAME_SIZE_def)
  then have "well_framed frame"
    using body unfolding well_framed_def by (intro exI[of _ "to_le_bytes 4 (length body)"] exI[of _ body]) simp
  then show ?thesis
    using body shape(2,3) frame by (auto simp: packs_faithfully_def generated_def split: sum.splits)
qed

lemma generated_encode:
  "packed_envelope R \<lparr>env_protocol_version = PROTOCOL_VERSION, env_request_id = i, env_payload = p\<rparr> = Inr frame \<Longrightarrow>
    encode_envelope (generated R) i p = frame"
  by (simp add: encode_envelope_def generated_def)

lemma decode_limited:
  "well_framed frame \<Longrightarrow> fb_has_identifier FB frame \<Longrightarrow> fb_unpack FB frame = Inl err \<Longrightarrow>
    decode_envelope FB frame = Inl (Protocol err)"
  using validate_frame_length_ok[of frame "()"] by (simp add: decode_envelope_def)

lemma generated_request:
  assumes "builds_faithfully R V" and frame: "packed_envelope R \<lparr>env_protocol_version = PROTOCOL_VERSION, env_request_id = i,
      env_payload = request_to_payload rq\<rparr> = Inr frame"
    and "length frame \<le> MAX_FRAME_SIZE + 4"
  shows "decode_request (generated R) frame = Inr \<lparr>fr_request_id = i, fr_payload = rq\<rparr>
    \<or> (\<exists>err. vw_limit V err \<and> decode_request (generated R) frame = Inl (Protocol err))"
  using generated_packs[OF assms] decode_encoded_request[of "generated R" i rq]
  by (auto simp: encode_request_def generated_encode[OF frame] decode_request_def decode_limited)

lemma generated_response:
  assumes "builds_faithfully R V" and frame: "packed_envelope R \<lparr>env_protocol_version = PROTOCOL_VERSION, env_request_id = i,
      env_payload = response_to_payload rs\<rparr> = Inr frame"
    and "length frame \<le> MAX_FRAME_SIZE + 4"
  shows "decode_response (generated R) frame = Inr \<lparr>fr_request_id = i, fr_payload = rs\<rparr>
    \<or> (\<exists>err. vw_limit V err \<and> decode_response (generated R) frame = Inl (Protocol err))"
  using generated_packs[OF assms] decode_encoded_response[of "generated R" i rs]
  by (auto simp: encode_response_def generated_encode[OF frame] decode_response_def decode_limited)

section \<open>Properties\<close>

text \<open>C7: whatever bytes a peer sends, a frame that passes the generated verification is unpacked without a
  panic: every required field is there, every element of a vector and the table of the union were
  checked by the verifier of their own type.  The FlatBuffers verifier is trusted for what it documents
  of one field.\<close>

theorem verified_frame_unpacks:
  assumes "checks_soundly R" and "unpacked_envelope R frame = Inr r"
  shows "\<exists>e. r = Inr e"
  using assms envelope_total[OF assms(1) verified_root[OF assms(1), where check = "envelope_verify R frame"]]
  by (auto simp: unpacked_envelope_def size_prefixed_root_as_envelope_def ok_simps)

text \<open>C8: an envelope with any of the messages, its lists and optional fields survives the generated code:
  the finished buffer carries the size prefix and the file identifier, passes the generated
  verification up to the limits of the verifier, and unpacks to the same envelope, although fields with
  their default value are not written.  Packing panics only where the builder itself does.\<close>

theorem packed_envelope_roundtrip:
  assumes "builds_faithfully R V"
  shows "case packed_envelope R e of
      Inr frame \<Rightarrow> (\<exists>body. frame = to_le_bytes 4 (length body) @ body \<and> body \<noteq> [])
        \<and> rt_has_identifier R frame ENVELOPE_IDENTIFIER True
        \<and> (case unpacked_envelope R frame of Inr r \<Rightarrow> r = Inr e | Inl err \<Rightarrow> vw_limit V err)
    | Inl panic \<Rightarrow> \<exists>m. panic = Builder_Panic m"
  unfolding ENVELOPE_IDENTIFIER_def by (rule packed_outcome[OF assms])

text \<open>C25: the protocol over the generated code: a request or response that fits a frame is what
  \<open>encode_request\<close> or \<open>encode_response\<close> sends, and the receiver decodes the same message under the same
  correlation identifier, unless the verifier refuses the buffer for its limits.\<close>

theorem generated_messages_decode:
  assumes "builds_faithfully R V" and "length frame \<le> MAX_FRAME_SIZE + 4"
  shows "(packed_envelope R \<lparr>env_protocol_version = PROTOCOL_VERSION, env_request_id = i,
        env_payload = request_to_payload rq\<rparr> = Inr frame \<longrightarrow>
      encode_request (generated R) i rq = frame
      \<and> (decode_request (generated R) frame = Inr \<lparr>fr_request_id = i, fr_payload = rq\<rparr>
        \<or> (\<exists>err. vw_limit V err \<and> decode_request (generated R) frame = Inl (Protocol err))))
    \<and> (packed_envelope R \<lparr>env_protocol_version = PROTOCOL_VERSION, env_request_id = i,
        env_payload = response_to_payload rs\<rparr> = Inr frame \<longrightarrow>
      encode_response (generated R) i rs = frame
      \<and> (decode_response (generated R) frame = Inr \<lparr>fr_request_id = i, fr_payload = rs\<rparr>
        \<or> (\<exists>err. vw_limit V err \<and> decode_response (generated R) frame = Inl (Protocol err))))"
  using generated_request[OF assms(1) _ assms(2)] generated_response[OF assms(1) _ assms(2)]
  by (simp add: encode_request_def encode_response_def generated_encode)

end
