(* ===== verification/Known_Buffer.thy ===== *)
theory Known_Buffer
  imports Wire_Facts
begin

text \<open>
  A runtime that the laws of \<open>Flat_Runtime\<close> hold of, so that the theorems about the generated code can be
  applied to a concrete envelope.
\<close>

section \<open>A runtime\<close>

text \<open>A builder that numbers its objects, and a reader that knows the contents of one buffer: the store \<open>S\<close>
  with the root \<open>root\<close>, at the locations that are the offsets.  It finishes no other buffer.\<close>

record toy_builder =
  toy_objects :: fb_store
  toy_next :: nat
  toy_open :: "(nat \<times> (nat \<Rightarrow> fb_value option)) option"

definition toy_view :: "toy_builder fb_view" where
  "toy_view = \<lparr>vw_store = toy_objects, vw_pending = toy_open, vw_limit = (\<lambda>_. False)\<rparr>"

definition toy_allocate :: "fb_object \<Rightarrow> (toy_builder, panic, nat) eff" where
  "toy_allocate obj = (\<lambda>s. if toy_objects s (toy_next s) = None
     then (Inr (toy_next s), s\<lparr>toy_objects := (toy_objects s)(toy_next s \<mapsto> obj), toy_next := toy_next s + 1\<rparr>)
     else (Inl (Builder_Panic ''full''), s))"

definition toy_fill :: "((nat \<Rightarrow> fb_value option) \<Rightarrow> nat \<Rightarrow> fb_value option) \<Rightarrow> (toy_builder, panic, unit) eff" where
  "toy_fill g = (\<lambda>s. case toy_open s of
     Some (h, f) \<Rightarrow> (Inr (), s\<lparr>toy_open := Some (h, g f)\<rparr>)
   | None \<Rightarrow> (Inl (Builder_Panic ''no table''), s))"

definition toy_slot :: "fb_store \<Rightarrow> nat \<Rightarrow> nat \<Rightarrow> fb_value option" where
  "toy_slot S t slot = (case S t of Some (Obj_Table f) \<Rightarrow> f slot | _ \<Rightarrow> None)"

definition toy_need :: "bool \<Rightarrow> (unit, string, unit) eff" where
  "toy_need b = (if b then returnE () else failE ''missing field'')"

definition toy_visit :: "fb_store \<Rightarrow> nat \<Rightarrow> unit field_type \<Rightarrow> nat \<Rightarrow> bool \<Rightarrow> (unit, string, unit) eff" where
  "toy_visit S t ft slot req = (let x = toy_slot S t slot in
     case ft of
       Text_Field \<Rightarrow> toy_need (req \<longrightarrow> unwrap_or (string_in S x) None \<noteq> None)
     | Bytes_Field \<Rightarrow> toy_need (req \<longrightarrow> unwrap_or (bytes_in S x) None \<noteq> None)
     | Tables check \<Rightarrow>
         (case unwrap_or (tables_in id S x) None of
            None \<Rightarrow> toy_need (\<not> req) | Some ps \<Rightarrow> forE check ps)
     | _ \<Rightarrow> returnE ())"

definition toy_union :: "fb_store \<Rightarrow> nat \<Rightarrow> nat \<Rightarrow> nat \<Rightarrow> bool
    \<Rightarrow> (8 word \<Rightarrow> nat \<Rightarrow> (unit, string, unit) eff) \<Rightarrow> (unit, string, unit) eff" where
  "toy_union S t key slot req check =
    (case (unwrap_or (u8_in None (toy_slot S t key)) None, unwrap_or (table_in id S (toy_slot S t slot)) None) of
       (None, None) \<Rightarrow> toy_need (\<not> req)
     | (Some tag, Some p) \<Rightarrow> check tag p
     | _ \<Rightarrow> failE ''inconsistent union'')"

definition known_buffer :: "fb_store \<Rightarrow> nat \<Rightarrow> (toy_builder, unit) fb_runtime" where
  "known_buffer S root = \<lparr>
     rt_new = \<lparr>toy_objects = Map.empty, toy_next = 0, toy_open = None\<rparr>,
     rt_create_string = (\<lambda>x. if utf8_ok x then toy_allocate (Obj_String x) else failE (Builder_Panic ''text'')),
     rt_create_bytes = (\<lambda>x. toy_allocate (Obj_Bytes x)),
     rt_create_vector = (\<lambda>rs. toy_allocate (Obj_Vector rs)),
     rt_start_table = (\<lambda>s. (Inr (toy_next s), s\<lparr>toy_open := Some (toy_next s, Map.empty)\<rparr>)),
     rt_push_slot = (\<lambda>slot v d. toy_fill (put_scalar slot v d)),
     rt_push_offset = (\<lambda>slot r. toy_fill (put_offset slot (Some r))),
     rt_end_table = (\<lambda>h s. case toy_open s of
         Some (h', f) \<Rightarrow> toy_allocate (Obj_Table f) (s\<lparr>toy_open := None\<rparr>)
       | None \<Rightarrow> (Inl (Builder_Panic ''no table''), s)),
     rt_required = (\<lambda>r slot name s.
         (if toy_slot (toy_objects s) r slot = None then Inl (Required_Missing name) else Inr (), s)),
     rt_finish_size_prefixed = (\<lambda>r ident s.
         (if toy_objects s = S \<and> r = root \<and> ident = ''PNET'' then Inr () else Inl (Builder_Panic ''unknown''), s)),
     rt_finished_data = (\<lambda>s. to_le_bytes 4 5 @ ''PNET1''),
     rt_get_u8 = (\<lambda>buf t slot d. unwrap_or (u8_in d (toy_slot S t slot)) d),
     rt_get_u32 = (\<lambda>buf t slot d. unwrap_or (u32_in d (toy_slot S t slot)) d),
     rt_get_u64 = (\<lambda>buf t slot d. unwrap_or (u64_in d (toy_slot S t slot)) d),
     rt_get_bool = (\<lambda>buf t slot d. unwrap_or (bool_in d (toy_slot S t slot)) d),
     rt_get_string = (\<lambda>buf t slot. unwrap_or (string_in S (toy_slot S t slot)) None),
     rt_get_bytes = (\<lambda>buf t slot. unwrap_or (bytes_in S (toy_slot S t slot)) None),
     rt_get_tables = (\<lambda>buf t slot. unwrap_or (tables_in id S (toy_slot S t slot)) None),
     rt_get_table = (\<lambda>buf t slot. unwrap_or (table_in id S (toy_slot S t slot)) None),
     rt_visit_table = (\<lambda>buf p. returnE p),
     rt_visit_field = (\<lambda>buf t ft name slot req. toy_visit S t ft slot req),
     rt_visit_union = (\<lambda>buf t kname key name slot req check. toy_union S t key slot req check),
     rt_union_variant = (\<lambda>buf check name pos. check pos),
     rt_finish_visit = (\<lambda>t. returnE ()),
     rt_size_prefixed_root = (\<lambda>check buf. mapR (\<lambda>_. root) (fst (check root ()))),
     rt_has_identifier = (\<lambda>buf ident b. take 4 (drop 4 buf) = ident)\<rparr>"

section \<open>It checks soundly\<close>

lemma verified_need: "verified (toy_need b) \<longleftrightarrow> b"
  by (auto simp: verified_def toy_need_def returnE_def failE_def)

lemma verified_for: "verified (forE f xs) \<Longrightarrow> \<forall>x\<in>set xs. verified (f x)"
  by (induction xs) (auto dest!: verified_then)

lemma toy_defaults:
  "unwrap_or (u8_in (Some d) x) (Some d) = Some (unwrap_or (unwrap_or (u8_in None x) None) d)
    \<and> unwrap_or (u32_in (Some e) x) (Some e) = Some (unwrap_or (unwrap_or (u32_in None x) None) e)
    \<and> unwrap_or (u64_in (Some g) x) (Some g) = Some (unwrap_or (unwrap_or (u64_in None x) None) g)
    \<and> unwrap_or (bool_in (Some b) x) (Some b) = Some (unwrap_or (unwrap_or (bool_in None x) None) b)"
proof (cases x)
  case (Some y)
  then show ?thesis
  proof (cases y)
    case (Scalar v)
    then show ?thesis using Some by (cases v) (simp_all add: unwrap_or_def)
  qed (simp add: unwrap_or_def)
qed (simp add: unwrap_or_def)

lemma toy_visit_sound:
  "verified (toy_visit S t ft slot req) \<Longrightarrow> field_checked (known_buffer S root) buf t ft slot req"
  by (cases ft) (auto simp: toy_visit_def known_buffer_def verified_need Let_def dest!: verified_for split: option.splits)

lemma toy_union_sound:
  "verified (toy_union S t key slot req check) \<Longrightarrow> union_checked (known_buffer S root) buf t key slot req check"
  by (auto simp: toy_union_def union_checked_def known_buffer_def verified_need split: option.splits)
    (auto simp: verified_def failE_def)

lemma known_buffer_checks: "checks_soundly (known_buffer S root)"
proof -
  have "verified (check p)" if "mapR (\<lambda>_. root) (fst (check root ())) = Inr p" for check :: "nat \<Rightarrow> (unit, string, unit) eff" and p
    using that by (cases "check root ()"; cases "fst (check root ())") (auto simp: verified_def)
  then show ?thesis
    unfolding checks_soundly_def
    using toy_visit_sound[of S _ _ _ _ root] toy_union_sound[of S _ _ _ _ _ root]
    by (intro conjI) (simp_all add: known_buffer_def returnE_def toy_defaults[THEN conjunct1]
      toy_defaults[THEN conjunct2, THEN conjunct1] toy_defaults[THEN conjunct2, THEN conjunct2, THEN conjunct1]
      toy_defaults[THEN conjunct2, THEN conjunct2, THEN conjunct2])
qed

section \<open>It builds faithfully\<close>

lemma toy_allocates: "allocates toy_view (toy_allocate obj) obj"
  by (auto simp: allocates_def outcome_def toy_allocate_def toy_view_def)

lemma toy_fills: "fills toy_view (toy_fill g) g"
  by (auto simp: fills_def outcome_def toy_fill_def toy_view_def)

lemma never_fails: "only_limits (\<lambda>_. False) m \<longleftrightarrow> (\<forall>v. \<exists>a v'. m v = (Inr a, v'))"
  unfolding only_limits_def by (metis obj_sumE old.prod.exhaust sum.distinct(1) prod.inject)

lemma need_fails: "only_limits (\<lambda>_. False) (toy_need b) \<longleftrightarrow> b"
  by (simp add: never_fails toy_need_def returnE_def failE_def)

lemma return_limits: "only_limits limit (returnE a)"
  by (simp add: only_limits_def returnE_def)

lemma for_never_fails:
  "\<forall>x\<in>set xs. only_limits limit (f x) \<Longrightarrow> only_limits limit (forE f xs)"
proof (induction xs)
  case Nil
  then show ?case by (simp add: only_limits_def returnE_def)
next
  case (Cons x xs)
  then show ?case by (auto intro: limits_then)
qed

lemma known_reads:
  "S r = Some (Obj_Table f) \<Longrightarrow> table_reads (known_buffer S root) buf id S (id r) f"
  by (auto simp: table_reads_def known_buffer_def toy_slot_def unwrap_or_def)

lemma known_field:
  assumes "S r = Some (Obj_Table f)" "field_fits (\<lambda>_. False) id S ft (f slot)" "req \<longrightarrow> f slot \<noteq> None"
  shows "only_limits (\<lambda>_. False) (toy_visit S r ft slot req)"
proof (cases "f slot")
  case None
  then show ?thesis using assms
    by (cases ft) (auto simp: toy_visit_def toy_slot_def need_fails return_limits unwrap_or_def)
next
  case (Some x)
  then show ?thesis using assms
    by (cases ft; cases x)
      (auto simp: toy_visit_def toy_slot_def need_fails return_limits unwrap_or_def
        string_in.simps(2) bytes_in.simps(2) tables_in.simps(2)
        split: option.splits fb_object.splits if_splits intro: for_never_fails)
qed

lemma known_union:
  assumes "S r = Some (Obj_Table f)"
    and "union_fits (known_buffer S root) (\<lambda>_. False) buf id S check (f key) (f slot)"
  shows "only_limits (\<lambda>_. False) (toy_union S r key slot False check)"
  using assms
  by (auto simp: union_fits_def toy_union_def toy_slot_def unwrap_or_def need_fails known_buffer_def)

lemma known_represents: "represents (known_buffer S root) (\<lambda>_. False) S buf id"
  unfolding represents_def
proof (intro allI impI conjI)
  fix r f assume r: "S r = Some (Obj_Table f)"
  show "table_reads (known_buffer S root) buf id S (id r) f" using r by (rule known_reads)
  have "rt_visit_field (known_buffer S root) = (\<lambda>buf t ft name slot req. toy_visit S t ft slot req)"
    "rt_visit_union (known_buffer S root) = (\<lambda>buf t kname key name slot req check. toy_union S t key slot req check)"
    "rt_visit_table (known_buffer S root) = (\<lambda>buf p. returnE p)" "rt_finish_visit (known_buffer S root) = (\<lambda>t. returnE ())"
    by (simp_all add: known_buffer_def)
  then show "table_verifies (known_buffer S root) (\<lambda>_. False) buf id S (id r) f"
    using known_field[where S = S and r = r and f = f, OF r] known_union[where S = S and r = r and f = f and root = root and buf = buf, OF r]
    by (simp add: table_verifies_def returnE_def only_limits_def)
qed

lemma known_finish:
  "rt_finished_data (known_buffer S root) s = to_le_bytes 4 5 @ ''PNET1''"
  "rt_has_identifier (known_buffer S root) buf ident b \<longleftrightarrow> take 4 (drop 4 buf) = ident"
  "rt_size_prefixed_root (known_buffer S root) check buf = mapR (\<lambda>_. root) (fst (check root ()))"
  "rt_finish_size_prefixed (known_buffer S root) r ident s =
    (if toy_objects s = S \<and> r = root \<and> ident = ''PNET'' then Inr () else Inl (Builder_Panic ''unknown''), s)"
  by (simp_all add: known_buffer_def)

lemma known_root:
  assumes "only_limits (\<lambda>_. False) (check root)"
  shows "case rt_size_prefixed_root (known_buffer S root) check buf of Inr p \<Rightarrow> p = root | Inl e \<Rightarrow> False"
proof -
  obtain a v where "check root () = (Inr a, v)" using assms never_fails by metis
  then show ?thesis by (simp add: known_finish)
qed

definition toy_frame :: string where
  "toy_frame = to_le_bytes 4 5 @ ''PNET1''"

lemma toy_frame_shape: "\<exists>body. toy_frame = to_le_bytes 4 (length body) @ body \<and> body \<noteq> []"
proof (intro exI conjI)
  have "length ''PNET1'' = 5" by simp
  then show "toy_frame = to_le_bytes 4 (length ''PNET1'') @ ''PNET1''" by (simp only: toy_frame_def)
qed simp

lemma toy_frame_identifier: "take 4 (drop 4 toy_frame) = ''PNET''"
  unfolding toy_frame_def by (simp del: to_le_bytes.simps)

lemma known_finishes:
  "outcome (\<lambda>_ s'.
      (\<exists>body. rt_finished_data (known_buffer S root) s' = to_le_bytes 4 (length body) @ body \<and> body \<noteq> [])
    \<and> rt_has_identifier (known_buffer S root) (rt_finished_data (known_buffer S root) s') ident True
    \<and> (\<exists>loc. represents (known_buffer S root) (\<lambda>_. False) (toy_objects s) (rt_finished_data (known_buffer S root) s') loc
        \<and> (\<forall>check. only_limits (\<lambda>_. False) (check (loc r)) \<longrightarrow>
            (case rt_size_prefixed_root (known_buffer S root) check (rt_finished_data (known_buffer S root) s') of
               Inr p \<Rightarrow> p = loc r | Inl e \<Rightarrow> False))))
    (rt_finish_size_prefixed (known_buffer S root) r ident s)" (is "outcome ?Q _")
proof (cases "toy_objects s = S \<and> r = root \<and> ident = ''PNET''")
  case True
  then have s: "toy_objects s = S" "r = root" "ident = ''PNET''" by blast+
  have data: "rt_finished_data (known_buffer S root) s = toy_frame" by (simp add: known_finish(1) toy_frame_def)
  have "\<exists>loc. represents (known_buffer S root) (\<lambda>_. False) S toy_frame loc
      \<and> (\<forall>check. only_limits (\<lambda>_. False) (check (loc root)) \<longrightarrow>
          (case rt_size_prefixed_root (known_buffer S root) check toy_frame of
             Inr p \<Rightarrow> p = loc root | Inl e \<Rightarrow> False))"
    unfolding id_apply by (intro exI[of _ id] conjI known_represents allI impI) (simp only: id_apply, rule known_root)
  moreover have "rt_has_identifier (known_buffer S root) toy_frame ident True"
    unfolding known_finish(2) s(3) by (rule toy_frame_identifier)
  ultimately have "?Q () s" unfolding s(1,2) data using toy_frame_shape by blast
  moreover have "rt_finish_size_prefixed (known_buffer S root) r ident s = (Inr (), s)"
    unfolding known_finish(4) s by (simp only: simp_thms if_True)
  ultimately show ?thesis unfolding outcome_def by (simp only: prod.case sum.case)
next
  case False
  then show ?thesis unfolding known_finish(4) outcome_def by (simp only: if_False prod.case sum.case) blast
qed

lemma known_builds:
  "rt_create_string (known_buffer S root) x = (if utf8_ok x then toy_allocate (Obj_String x) else failE (Builder_Panic ''text''))"
  "rt_create_bytes (known_buffer S root) x = toy_allocate (Obj_Bytes x)"
  "rt_create_vector (known_buffer S root) rs = toy_allocate (Obj_Vector rs)"
  "rt_push_slot (known_buffer S root) slot v d = toy_fill (put_scalar slot v d)"
  "rt_push_offset (known_buffer S root) slot r = toy_fill (put_offset slot (Some r))"
  "rt_start_table (known_buffer S root) s = (Inr (toy_next s), s\<lparr>toy_open := Some (toy_next s, Map.empty)\<rparr>)"
  "rt_new (known_buffer S root) = \<lparr>toy_objects = Map.empty, toy_next = 0, toy_open = None\<rparr>"
  "rt_required (known_buffer S root) r slot name s =
     (if toy_slot (toy_objects s) r slot = None then Inl (Required_Missing name) else Inr (), s)"
  "rt_end_table (known_buffer S root) h s = (case toy_open s of
       Some (h', f) \<Rightarrow> toy_allocate (Obj_Table f) (s\<lparr>toy_open := None\<rparr>)
     | None \<Rightarrow> (Inl (Builder_Panic ''no table''), s))"
  by (simp_all add: known_buffer_def)

lemma known_buffer_builds: "builds_faithfully (known_buffer S root) toy_view"
proof -
  have limit: "vw_limit toy_view = (\<lambda>_. False)" "vw_store toy_view = toy_objects" "vw_pending toy_view = toy_open"
    by (simp_all add: toy_view_def)
  have strings: "allocates toy_view (rt_create_string (known_buffer S root) x) (Obj_String x)"
    "rt_create_string (known_buffer S root) x s = (Inr r, s') \<Longrightarrow> utf8_ok x" for x s r s'
    using toy_allocates[of "Obj_String x"]
    by (auto simp: known_builds failE_def allocates_def outcome_def split: if_splits)
  have closes: "outcome (\<lambda>r s'. toy_open s' = None \<and> toy_objects s r = None
      \<and> toy_objects s' = (toy_objects s)(r \<mapsto> Obj_Table f)) (rt_end_table (known_buffer S root) h s)"
    if "toy_open s = Some (h, f)" for s h f
    using that by (simp add: known_builds toy_allocate_def outcome_def)
  show ?thesis
    unfolding builds_faithfully_def limit
  proof (intro conjI allI impI)
    show "rt_create_string (known_buffer S root) x s = (Inr r, s') \<Longrightarrow> utf8_ok x" for x s r s' by (rule strings(2))
  qed (use strings(1) closes known_finishes toy_allocates toy_fills in
      \<open>simp_all add: known_builds(2-8) toy_slot_def outcome_def[of _ "(_, _)"] limit\<close>)
qed

section \<open>Running it\<close>

lemma toy_bind: "bindE m k s = (case m s of (Inr a, s') \<Rightarrow> k a s' | (Inl e, s') \<Rightarrow> (Inl e, s'))"
  by (simp add: bindE_def)

lemma toy_then: "thenE m n s = (case m s of (Inr a, s') \<Rightarrow> n s' | (Inl e, s') \<Rightarrow> (Inl e, s'))"
  by (simp add: thenE_def bindE_def)

lemma toy_return: "returnE b s = (Inr b, s)"
  by (simp add: returnE_def)

lemma toy_steps:
  "toy_open s = Some (h, f) \<Longrightarrow> toy_fill g s = (Inr (), s\<lparr>toy_open := Some (h, g f)\<rparr>)"
  "toy_objects s (toy_next s) = None \<Longrightarrow>
    toy_allocate obj s = (Inr (toy_next s), s\<lparr>toy_objects := (toy_objects s)(toy_next s \<mapsto> obj), toy_next := toy_next s + 1\<rparr>)"
  "toy_open s = Some (h, f) \<Longrightarrow>
    rt_end_table (known_buffer S root) h' s = toy_allocate (Obj_Table f) (s\<lparr>toy_open := None\<rparr>)"
  "toy_slot (toy_objects s) r slot \<noteq> None \<Longrightarrow> rt_required (known_buffer S root) r slot name s = (Inr (), s)"
  "toy_objects s = S \<Longrightarrow> r = root \<Longrightarrow> rt_finish_size_prefixed (known_buffer S root) r ''PNET'' s = (Inr (), s)"
  by (simp_all add: toy_fill_def toy_allocate_def known_builds known_finish)

lemmas toy_runs = toy_bind toy_then toy_return toy_steps

lemma toy_slots:
  "S t = Some (Obj_Table f) \<Longrightarrow> toy_slot S t slot = f slot"
  "put_scalar slot v d f slot' = (if slot' = slot then held v d (f slot') else f slot')"
  "put_offset slot m f slot' = (if slot' = slot then held_offset m (f slot') else f slot')"
  by (simp_all add: toy_slot_def put_scalar_def put_offset_def)

section \<open>An envelope in the known buffer\<close>

text \<open>The daemon's answer to a document with one issue, and what packing it writes: the string of the
  message, the table of the issue, the vector, the table of the response and the envelope.\<close>

definition refusal :: response where
  "refusal = RsValidation False [\<lparr>vi_path = None, vi_message = ''bad''\<rparr>]"

definition refusal_envelope :: envelope_t where
  "refusal_envelope = \<lparr>env_protocol_version = PROTOCOL_VERSION, env_request_id = 7,
     env_payload = response_to_payload refusal\<rparr>"

definition refusal_store :: fb_store where
  "refusal_store = [0 \<mapsto> Obj_String ''bad'',
     1 \<mapsto> Obj_Table (put_offset 6 (Some 0) Map.empty),
     2 \<mapsto> Obj_Vector [1],
     3 \<mapsto> Obj_Table (put_scalar 4 (SBool False) (SBool False) (put_offset 6 (Some 2) Map.empty)),
     4 \<mapsto> Obj_Table (put_scalar 8 (S8 8) (S8 0) (put_scalar 4 (S32 1) (S32 1)
       (put_offset 10 (Some 3) (put_scalar 6 (S64 7) (S64 0) Map.empty))))]"

definition refusal_buffer :: "(toy_builder, unit) fb_runtime" where
  "refusal_buffer = known_buffer refusal_store 4"

lemma refusal_text: "utf8_ok ''bad''"
  by (rule utf8_ok_ascii) (simp add: byte_def)

lemma refusal_pack:
  "envelope_pack (known_buffer S root) refusal_envelope (rt_new (known_buffer S root)) =
    (Inr 4, \<lparr>toy_objects = refusal_store, toy_next = 5, toy_open = None\<rparr>)"
  by (simp add: refusal_envelope_def refusal_def refusal_store_def message_defs generated envelope_pack_def
      payload_tags issue_to_wire_def create_tables_def finish_table_def toy_runs toy_slots known_builds(1-7)
      held_offset_def PROTOCOL_VERSION_def map_someE_def for_some_def refusal_text eval_nat_numeral)

lemma refusal_packed: "packed_envelope refusal_buffer refusal_envelope = Inr toy_frame"
  by (simp add: packed_envelope_def refusal_buffer_def toy_bind refusal_pack toy_steps(5)
      finish_size_prefixed_envelope_buffer_def ENVELOPE_IDENTIFIER_def known_finish(1) toy_frame_def)

lemma refusal_unpacked: "unpacked_envelope refusal_buffer toy_frame = Inr (Inr refusal_envelope)"
  using packed_outcome[OF known_buffer_builds, of refusal_store 4 refusal_envelope] refusal_packed
  by (simp add: refusal_buffer_def toy_view_def split: sum.splits)

section \<open>The properties at this envelope\<close>

theorem verified_frame_unpacks_witness:
  "\<exists>e. unpacked_envelope refusal_buffer toy_frame = Inr (Inr e)"
proof -
  have "\<exists>e. (Inr refusal_envelope :: panic + envelope_t) = Inr e"
    by (rule verified_frame_unpacks[OF known_buffer_checks[of refusal_store 4]])
      (rule refusal_unpacked[unfolded refusal_buffer_def])
  then show ?thesis using refusal_unpacked by blast
qed

theorem packed_envelope_roundtrip_witness:
  "packed_envelope refusal_buffer refusal_envelope = Inr toy_frame
    \<and> unpacked_envelope refusal_buffer toy_frame = Inr (Inr refusal_envelope)"
  using packed_envelope_roundtrip[OF known_buffer_builds[of refusal_store 4], of refusal_envelope] refusal_packed
  by (simp add: refusal_buffer_def toy_view_def split: sum.splits)

theorem generated_messages_decode_witness:
  "decode_response (generated refusal_buffer) (encode_response (generated refusal_buffer) 7 refusal)
    = Inr \<lparr>fr_request_id = 7, fr_payload = refusal\<rparr>"
proof -
  have "length toy_frame \<le> MAX_FRAME_SIZE + 4" by (simp add: toy_frame_def MAX_FRAME_SIZE_def)
  from generated_messages_decode[OF known_buffer_builds this, of refusal_store 4 7 RqPing refusal] refusal_packed
  show ?thesis
    by (simp add: refusal_buffer_def refusal_envelope_def toy_view_def)
qed

end
